(* ===== verification/Prelude.thy ===== *)
theory Prelude
  imports Main "HOL-Library.AList" "HOL-Library.Word" "HOL-Library.Char_ord"
    "HOL-Library.List_Lexorder" "HOL-Library.Product_Lexorder" "HOL-Library.Option_ord"
begin

text \<open>
  Shared vocabulary of the development.

  \<^item> Fallible, stateful Rust code \<open>async fn f(&self, ..) -> Result<T, RuntimeError>\<close> is a
    function \<open>'s \<Rightarrow> ('e + 't) \<times> 's\<close>: the state is returned on the error path too, because an
    early return with \<open>?\<close> keeps every effect that happened before it.
  \<^item> \<open>HashMap<K, V>\<close> is an association list whose list order stands for the map's unspecified
    iteration order; its interface is the locale \<open>hash_map\<close>.
  \<^item> A SQL table with an \<open>INSERT .. ON CONFLICT(key) DO UPDATE\<close> statement is a list of rows in
    rowid order; its interface is the locale \<open>upsert_table\<close>.
  \<^item> A component's contract "every operation keeps the invariant" is \<open>preserves\<close>.
\<close>

named_theorems monad_simps "evaluation of the state and error monad"
named_theorems preserves_intros "introduction rules for preserved invariants"

section \<open>State passing with errors\<close>

type_synonym ('s, 'e, 'a) rt = "'s \<Rightarrow> ('e + 'a) \<times> 's"

definition ok :: "'a \<Rightarrow> ('s, 'e, 'a) rt" where
  "ok x s = (Inr x, s)"

definition err :: "'e \<Rightarrow> ('s, 'e, 'a) rt" where
  "err e s = (Inl e, s)"

definition bindE :: "('s, 'e, 'a) rt \<Rightarrow> ('a \<Rightarrow> ('s, 'e, 'b) rt) \<Rightarrow> ('s, 'e, 'b) rt" where
  "bindE m f s = (case m s of (Inl e, s') \<Rightarrow> (Inl e, s') | (Inr x, s') \<Rightarrow> f x s')"

text \<open>\<open>let result = op().await;\<close>: the result is a value, errors do not return early.\<close>

definition attempt :: "('s, 'e, 'a) rt \<Rightarrow> ('s, 'f, 'e + 'a) rt" where
  "attempt m s = (case m s of (r, s') \<Rightarrow> (Inr r, s'))"

text \<open>\<open>let _ = op().await;\<close>: the result is dropped.\<close>

definition ignore :: "('s, 'e, 'a) rt \<Rightarrow> ('s, 'f, unit) rt" where
  "ignore m s = (Inr (), snd (m s))"

definition gets :: "('s \<Rightarrow> 'a) \<Rightarrow> ('s, 'e, 'a) rt" where
  "gets f s = (Inr (f s), s)"

definition modify :: "('s \<Rightarrow> 's) \<Rightarrow> ('s, 'e, unit) rt" where
  "modify f s = (Inr (), f s)"

text \<open>A pure \<open>Result\<close> used with \<open>?\<close>, and \<open>Option::ok_or_else(..)?\<close>.\<close>

definition lift_result :: "'e + 'a \<Rightarrow> ('s, 'e, 'a) rt" where
  "lift_result r s = (r, s)"

definition ok_or_else :: "'a option \<Rightarrow> 'e \<Rightarrow> ('s, 'e, 'a) rt" where
  "ok_or_else o' e s = (case o' of None \<Rightarrow> (Inl e, s) | Some x \<Rightarrow> (Inr x, s))"

text \<open>A \<open>for\<close> loop whose body may return early with \<open>?\<close>.\<close>

fun for_each :: "'a list \<Rightarrow> ('a \<Rightarrow> ('s, 'e, unit) rt) \<Rightarrow> ('s, 'e, unit) rt" where
  "for_each [] f = ok ()"
| "for_each (x # xs) f = bindE (f x) (\<lambda>_. for_each xs f)"

text \<open>The same with local mutable variables carried from one iteration to the next.\<close>

fun for_fold :: "'a list \<Rightarrow> 'b \<Rightarrow> ('a \<Rightarrow> 'b \<Rightarrow> ('s, 'e, 'b) rt) \<Rightarrow> ('s, 'e, 'b) rt" where
  "for_fold [] b f = ok b"
| "for_fold (x # xs) b f = bindE (f x b) (\<lambda>b'. for_fold xs b' f)"

lemma bindE_ok [monad_simps]: "bindE (ok x) f = f x"
  by (rule ext) (simp add: bindE_def ok_def)

lemma bindE_err [monad_simps]: "bindE (err e) f = err e"
  by (rule ext) (simp add: bindE_def err_def)

lemma bindE_gets [monad_simps]: "bindE (gets g) f s = f (g s) s"
  by (simp add: bindE_def gets_def)

lemma bindE_modify [monad_simps]: "bindE (modify g) f s = f () (g s)"
  by (simp add: bindE_def modify_def)

lemma bindE_ignore [monad_simps]: "bindE (ignore m) f s = f () (snd (m s))"
  by (simp add: bindE_def ignore_def)

lemma bindE_attempt [monad_simps]: "bindE (attempt m) f s = f (fst (m s)) (snd (m s))"
  by (simp add: bindE_def attempt_def split: prod.splits)

lemma bindE_lift [monad_simps]:
  "bindE (lift_result r) f s = (case r of Inl e \<Rightarrow> (Inl e, s) | Inr x \<Rightarrow> f x s)"
  by (simp add: bindE_def lift_result_def split: sum.splits)

lemma bindE_ok_or_else [monad_simps]:
  "bindE (ok_or_else r e) f s = (case r of None \<Rightarrow> (Inl e, s) | Some x \<Rightarrow> f x s)"
  by (simp add: bindE_def ok_or_else_def split: option.splits)

lemma bindE_assoc [monad_simps]: "bindE (bindE m f) g = bindE m (\<lambda>x. bindE (f x) g)"
  by (rule ext) (simp add: bindE_def split: prod.splits sum.splits)

lemma bindE_cases:
  "bindE m f s = (case m s of (Inl e, s') \<Rightarrow> (Inl e, s') | (Inr x, s') \<Rightarrow> f x s')"
  by (simp add: bindE_def)

lemmas run_simps = ok_def err_def gets_def modify_def lift_result_def ok_or_else_def

lemma bindE_Inr: "m s = (Inr x, s') \<Longrightarrow> bindE m f s = f x s'"
  by (simp add: bindE_def)

lemma bindE_Inl: "m s = (Inl e, s') \<Longrightarrow> bindE m f s = (Inl e, s')"
  by (simp add: bindE_def)

lemma bindE_eq_Inr:
  "bindE m f s = (Inr y, s'') \<longleftrightarrow> (\<exists>x s'. m s = (Inr x, s') \<and> f x s' = (Inr y, s''))"
  by (auto simp: bindE_def split: prod.splits sum.splits)

lemma bindE_eq_Inl:
  "bindE m f s = (Inl e, s'') \<longleftrightarrow>
     m s = (Inl e, s'') \<or> (\<exists>x s'. m s = (Inr x, s') \<and> f x s' = (Inl e, s''))"
  by (auto simp: bindE_def split: prod.splits sum.splits)

text \<open>
  Total correctness of a loop: if every iteration returns and re-establishes an invariant indexed
  by the part already done, the loop returns with the invariant for the whole list.
\<close>

lemma for_fold_total:
  assumes init: "P [] b s"
    and step: "\<And>pre x post b s. xs = pre @ x # post \<Longrightarrow> P pre b s \<Longrightarrow>
      \<exists>b' s'. f x b s = (Inr b', s') \<and> P (pre @ [x]) b' s'"
  shows "\<exists>b' s'. for_fold xs b f s = (Inr b', s') \<and> P xs b' s'"
proof -
  have "\<exists>b' s'. for_fold ys b0 f s0 = (Inr b', s') \<and> P (pre @ ys) b' s'"
    if "P pre b0 s0" "xs = pre @ ys" for pre ys b0 s0
    using that
  proof (induction ys arbitrary: pre b0 s0)
    case Nil
    then show ?case by (simp add: ok_def)
  next
    case (Cons y ys)
    obtain b1 s1 where one: "f y b0 s0 = (Inr b1, s1)" and inv: "P (pre @ [y]) b1 s1"
      using step Cons.prems by blast
    then show ?case using Cons.IH [OF inv] Cons.prems(2) by (simp add: bindE_Inr)
  qed
  then show ?thesis using init by (metis append_Nil)
qed

section \<open>Preserved invariants\<close>

text \<open>
  \<open>preserves I m\<close>: from every state that satisfies \<open>I\<close>, the operation ends in a state that
  satisfies \<open>I\<close>, on success and on every error path. \<open>ensures\<close> adds what a success returns.
\<close>

definition preserves :: "('s \<Rightarrow> bool) \<Rightarrow> ('s, 'e, 'a) rt \<Rightarrow> bool" where
  "preserves I m \<longleftrightarrow> (\<forall>s. I s \<longrightarrow> I (snd (m s)))"

definition ensures ::
  "('s \<Rightarrow> bool) \<Rightarrow> ('s, 'e, 'a) rt \<Rightarrow> ('a \<Rightarrow> 's \<Rightarrow> bool) \<Rightarrow> ('s \<Rightarrow> bool) \<Rightarrow> bool" where
  "ensures P m Q E \<longleftrightarrow>
     (\<forall>s. P s \<longrightarrow> (case m s of (Inr x, s') \<Rightarrow> Q x s' | (Inl _, s') \<Rightarrow> E s'))"

lemma preserves_iff_ensures: "preserves I m \<longleftrightarrow> ensures I m (\<lambda>_. I) I"
proof -
  have "I (snd (m s)) \<longleftrightarrow> (case m s of (Inr x, s') \<Rightarrow> I s' | (Inl _, s') \<Rightarrow> I s')" for s
    by (simp split: prod.splits sum.splits)
  then show ?thesis by (simp add: preserves_def ensures_def)
qed

lemma preservesD: "preserves I m \<Longrightarrow> I s \<Longrightarrow> m s = (r, s') \<Longrightarrow> I s'"
  by (metis preserves_def snd_conv)

lemma keepsD: "(\<And>v. preserves (\<lambda>s. f s = v) m) \<Longrightarrow> f (snd (m s)) = f s"
  by (simp add: preserves_def)

lemma preservesI: "(\<And>s. I s \<Longrightarrow> I (snd (m s))) \<Longrightarrow> preserves I m"
  by (simp add: preserves_def)

lemma ensures_bindE:
  assumes "ensures P m Q E" and "\<And>x. ensures (Q x) (f x) R E"
  shows "ensures P (bindE m f) R E"
  using assms by (fastforce simp: ensures_def bindE_def split: prod.splits sum.splits)

lemma ensures_gets: "(\<And>s. P s \<Longrightarrow> Q (f s) s) \<Longrightarrow> ensures P (gets f) Q E"
  by (simp add: ensures_def gets_def)

lemma preserves_ok [preserves_intros]: "preserves I (ok x)"
  by (simp add: preserves_def ok_def)

lemma preserves_err [preserves_intros]: "preserves I (err e)"
  by (simp add: preserves_def err_def)

lemma preserves_gets [preserves_intros]: "preserves I (gets f)"
  by (simp add: preserves_def gets_def)

lemma preserves_lift [preserves_intros]: "preserves I (lift_result r)"
  by (simp add: preserves_def lift_result_def)

lemma preserves_ok_or_else [preserves_intros]: "preserves I (ok_or_else r e)"
  by (simp add: preserves_def ok_or_else_def split: option.splits)

lemma preserves_bindE [preserves_intros]:
  assumes "preserves I m" and "\<And>x. preserves I (f x)"
  shows "preserves I (bindE m f)"
  using assms by (fastforce simp: preserves_def bindE_def split: prod.splits sum.splits)

lemma preserves_ignore [preserves_intros]: "preserves I m \<Longrightarrow> preserves I (ignore m)"
  by (simp add: preserves_def ignore_def)

lemma preserves_attempt [preserves_intros]: "preserves I m \<Longrightarrow> preserves I (attempt m)"
  by (auto simp: preserves_def attempt_def split: prod.splits)

lemma preserves_modify: "(\<And>s. I s \<Longrightarrow> I (f s)) \<Longrightarrow> preserves I (modify f)"
  by (simp add: preserves_def modify_def)

lemma preserves_if [preserves_intros]:
  "(b \<Longrightarrow> preserves I m) \<Longrightarrow> (\<not> b \<Longrightarrow> preserves I n) \<Longrightarrow> preserves I (if b then m else n)"
  by simp

lemma preserves_case_option [preserves_intros]:
  "(x = None \<Longrightarrow> preserves I m) \<Longrightarrow> (\<And>y. x = Some y \<Longrightarrow> preserves I (f y)) \<Longrightarrow>
   preserves I (case x of None \<Rightarrow> m | Some y \<Rightarrow> f y)"
  by (cases x) auto

lemma preserves_case_sum [preserves_intros]:
  "(\<And>y. x = Inl y \<Longrightarrow> preserves I (f y)) \<Longrightarrow> (\<And>y. x = Inr y \<Longrightarrow> preserves I (g y)) \<Longrightarrow>
   preserves I (case x of Inl y \<Rightarrow> f y | Inr y \<Rightarrow> g y)"
  by (cases x) auto

lemma preserves_let [preserves_intros]: "(\<And>x. x = e \<Longrightarrow> preserves I (f x)) \<Longrightarrow> preserves I (let x = e in f x)"
  by simp

lemma preserves_for_each [preserves_intros]:
  "(\<And>x. preserves I (f x)) \<Longrightarrow> preserves I (for_each xs f)"
  by (induction xs) (auto intro: preserves_intros)

lemma preserves_for_fold [preserves_intros]:
  "(\<And>x b. preserves I (f x b)) \<Longrightarrow> preserves I (for_fold xs b f)"
  by (induction xs arbitrary: b) (auto intro: preserves_intros)

lemma preserves_conj:
  "preserves I m \<Longrightarrow> preserves J m \<Longrightarrow> preserves (\<lambda>s. I s \<and> J s) m"
  by (simp add: preserves_def)

section \<open>Lists\<close>

lemma find_append: "find P (xs @ ys) = (case find P xs of None \<Rightarrow> find P ys | Some x \<Rightarrow> Some x)"
  by (induction xs) auto

lemma find_key_None: "find (\<lambda>x. f x = k) xs = None \<longleftrightarrow> k \<notin> f ` set xs"
  by (induction xs) auto

lemma find_key_Some:
  "distinct (map f xs) \<Longrightarrow> find (\<lambda>x. f x = k) xs = Some r \<longleftrightarrow> r \<in> set xs \<and> f r = k"
  by (induction xs) auto

lemma filter_key_le_one:
  assumes "distinct (map f xs)"
  shows "length (filter (\<lambda>x. f x = k) xs) \<le> 1"
proof -
  let ?hits = "filter (\<lambda>x. f x = k) xs"
  have "distinct (map f ?hits)" using assms by (simp add: distinct_map inj_on_def)
  moreover have "map f ?hits = replicate (length ?hits) k" by (intro replicate_eqI) auto
  ultimately have "distinct (replicate (length ?hits) k)" by simp
  then have "card {k} = length ?hits \<or> ?hits = []"
    using distinct_card by (cases "?hits = []") (fastforce simp: set_replicate)+
  then show ?thesis by auto
qed

section \<open>Hash maps\<close>

text \<open>
  The interface of \<open>std::collections::HashMap\<close> the runtime uses: lookups see exactly the last
  insert or removal of the key.
\<close>

locale hash_map =
  fixes hm_get :: "'m \<Rightarrow> 'k \<Rightarrow> 'v option"
    and hm_insert :: "'k \<Rightarrow> 'v \<Rightarrow> 'm \<Rightarrow> 'm"
    and hm_remove :: "'k \<Rightarrow> 'm \<Rightarrow> 'm"
    and hm_empty :: 'm
  assumes get_empty: "hm_get hm_empty k = None"
    and get_insert: "hm_get (hm_insert k v m) k' = (if k' = k then Some v else hm_get m k')"
    and get_remove: "hm_get (hm_remove k m) k' = (if k' = k then None else hm_get m k')"
begin

lemma get_insert_same: "hm_get (hm_insert k v m) k = Some v"
  by (simp add: get_insert)

lemma insert_overwrites: "hm_get (hm_insert k v (hm_insert k w m)) = hm_get (hm_insert k v m)"
  by (rule ext) (simp add: get_insert)

lemma get_collect:
  "hm_get (fold (\<lambda>x. hm_insert (key x) x) xs m) k =
     (case filter (\<lambda>x. key x = k) (rev xs) of [] \<Rightarrow> hm_get m k | x # _ \<Rightarrow> Some x)"
proof (induction xs arbitrary: m)
  case Nil
  then show ?case by simp
next
  case (Cons x xs)
  then show ?case by (cases "filter (\<lambda>x. key x = k) (rev xs)") (auto simp: get_insert)
qed

lemma get_collect_distinct:
  assumes "distinct (map key xs)"
  shows "hm_get (fold (\<lambda>x. hm_insert (key x) x) xs hm_empty) k = Some v \<longleftrightarrow>
         v \<in> set xs \<and> key v = k"
proof -
  let ?hits = "filter (\<lambda>x. key x = k) (rev xs)"
  have one: "length ?hits \<le> 1"
    using filter_key_le_one [of key xs k] assms by (simp add: rev_filter [symmetric])
  have mem: "v \<in> set ?hits \<longleftrightarrow> v \<in> set xs \<and> key v = k" by auto
  show ?thesis
    using one mem by (cases ?hits) (auto simp: get_collect get_empty)
qed

end

type_synonym ('k, 'v) hmap = "('k \<times> 'v) list"

definition hget :: "('k, 'v) hmap \<Rightarrow> 'k \<Rightarrow> 'v option" where
  "hget m k = map_of m k"

definition hinsert :: "'k \<Rightarrow> 'v \<Rightarrow> ('k, 'v) hmap \<Rightarrow> ('k, 'v) hmap" where
  "hinsert k v m = AList.update k v m"

definition hremove :: "'k \<Rightarrow> ('k, 'v) hmap \<Rightarrow> ('k, 'v) hmap" where
  "hremove k m = AList.delete k m"

definition hcontains :: "('k, 'v) hmap \<Rightarrow> 'k \<Rightarrow> bool" where
  "hcontains m k \<longleftrightarrow> hget m k \<noteq> None"

definition hkeys :: "('k, 'v) hmap \<Rightarrow> 'k list" where
  "hkeys m = map fst m"

definition hvalues :: "('k, 'v) hmap \<Rightarrow> 'v list" where
  "hvalues m = map snd m"

text \<open>\<open>map.entry(k).or_default()\<close> followed by an in-place change of the entry.\<close>

definition hentry :: "'v \<Rightarrow> 'k \<Rightarrow> ('v \<Rightarrow> 'v) \<Rightarrow> ('k, 'v) hmap \<Rightarrow> ('k, 'v) hmap" where
  "hentry d k f m = hinsert k (f (case hget m k of None \<Rightarrow> d | Some v \<Rightarrow> v)) m"

text \<open>\<open>iter.map(|x| (key(x), x)).collect::<HashMap<_, _>>()\<close>\<close>

definition hcollect :: "('v \<Rightarrow> 'k) \<Rightarrow> 'v list \<Rightarrow> ('k, 'v) hmap" where
  "hcollect key xs = fold (\<lambda>x. hinsert (key x) x) xs []"

interpretation hm: hash_map hget hinsert hremove "[]"
  by unfold_locales
     (auto simp: hget_def hinsert_def hremove_def update_conv delete_conv')

lemma hget_Nil [simp]: "hget [] k = None"
  by (rule hm.get_empty)

lemma hget_hinsert [simp]: "hget (hinsert k v m) k' = (if k' = k then Some v else hget m k')"
  by (rule hm.get_insert)

lemma hget_hremove [simp]: "hget (hremove k m) k' = (if k' = k then None else hget m k')"
  by (rule hm.get_remove)

lemma hget_hentry [simp]:
  "hget (hentry d k f m) k' =
     (if k' = k then Some (f (case hget m k of None \<Rightarrow> d | Some v \<Rightarrow> v)) else hget m k')"
  by (simp add: hentry_def)

lemma hget_hcollect:
  "distinct (map key xs) \<Longrightarrow> hget (hcollect key xs) k = Some v \<longleftrightarrow> v \<in> set xs \<and> key v = k"
  unfolding hcollect_def by (rule hm.get_collect_distinct)

lemma hkeys_set: "set (hkeys m) = {k. hget m k \<noteq> None}"
  by (auto simp: hkeys_def hget_def map_of_eq_None_iff)

lemma hkeys_hget: "k \<in> set (hkeys m) \<longleftrightarrow> (\<exists>v. hget m k = Some v)"
  by (simp add: hkeys_set)

text \<open>A map has one entry per key.\<close>

definition hm_wf :: "('k, 'v) hmap \<Rightarrow> bool" where
  "hm_wf m \<longleftrightarrow> distinct (map fst m)"

lemma hm_wf_hinsert [simp]: "hm_wf m \<Longrightarrow> hm_wf (hinsert k v m)"
  by (simp add: hm_wf_def hinsert_def distinct_update)

lemma hm_wf_hremove [simp]: "hm_wf m \<Longrightarrow> hm_wf (hremove k m)"
  by (simp add: hm_wf_def hremove_def distinct_delete)

lemma hm_wf_Nil [simp]: "hm_wf []"
  by (simp add: hm_wf_def)

lemma hvalues_hget: "hm_wf m \<Longrightarrow> v \<in> set (hvalues m) \<longleftrightarrow> (\<exists>k. hget m k = Some v)"
  by (auto simp: hm_wf_def hvalues_def hget_def) force

end
