(* ===== verification/Text.thy ===== *)
theory Text
  imports Prelude
begin

text \<open>
  The parts of \<open>std::str\<close> and \<open>std::fmt\<close> the runtime relies on. A Rust \<open>String\<close> is the list
  of its UTF-8 bytes, so comparison is bytewise, as \<open>Ord for str\<close> and SQLite's \<open>BINARY\<close>
  collation are. The lemmas are the facts identifiers and normalised tokens need: trimming and
  lower-casing are idempotent, decimal numbers round-trip, and the counter is recoverable from an
  identifier that ends in it.
\<close>

section \<open>Trimming and ASCII case\<close>

text \<open>The UTF-8 encodings of the code points with the Unicode property \<open>White_Space\<close>.\<close>

definition ws_encodings :: "string list" where
  "ws_encodings =
     [[CHR 0x09], [CHR 0x0A], [CHR 0x0B], [CHR 0x0C], [CHR 0x0D], [CHR 0x20],
      [CHR 0xC2, CHR 0x85], [CHR 0xC2, CHR 0xA0], [CHR 0xE1, CHR 0x9A, CHR 0x80],
      [CHR 0xE2, CHR 0x80, CHR 0x80], [CHR 0xE2, CHR 0x80, CHR 0x81],
      [CHR 0xE2, CHR 0x80, CHR 0x82], [CHR 0xE2, CHR 0x80, CHR 0x83],
      [CHR 0xE2, CHR 0x80, CHR 0x84], [CHR 0xE2, CHR 0x80, CHR 0x85],
      [CHR 0xE2, CHR 0x80, CHR 0x86], [CHR 0xE2, CHR 0x80, CHR 0x87],
      [CHR 0xE2, CHR 0x80, CHR 0x88], [CHR 0xE2, CHR 0x80, CHR 0x89],
      [CHR 0xE2, CHR 0x80, CHR 0x8A], [CHR 0xE2, CHR 0x80, CHR 0xA8],
      [CHR 0xE2, CHR 0x80, CHR 0xA9], [CHR 0xE2, CHR 0x80, CHR 0xAF],
      [CHR 0xE2, CHR 0x81, CHR 0x9F], [CHR 0xE3, CHR 0x80, CHR 0x80]]"

fun starts_with :: "string \<Rightarrow> string \<Rightarrow> bool" where
  "starts_with s [] = True"
| "starts_with [] (p # ps) = False"
| "starts_with (c # cs) (p # ps) = (c = p \<and> starts_with cs ps)"

text \<open>Strip one of the given encodings from the front, as often as one is there.\<close>

function strip_front :: "string list \<Rightarrow> string \<Rightarrow> string" where
  "strip_front ws s =
     (case find (\<lambda>w. w \<noteq> [] \<and> starts_with s w) ws of
        None \<Rightarrow> s
      | Some w \<Rightarrow> strip_front ws (drop (length w) s))"
  by pat_completeness auto

lemma starts_with_iff: "starts_with s p \<longleftrightarrow> (\<exists>t. s = p @ t)"
  by (induction s p rule: starts_with.induct) auto

termination strip_front
  by (relation "measure (\<lambda>(ws, s). length s)")
     (auto simp: starts_with_iff find_Some_iff)

declare strip_front.simps [simp del]

definition trim_start :: "string \<Rightarrow> string" where
  "trim_start s = strip_front ws_encodings s"

definition trim_end :: "string \<Rightarrow> string" where
  "trim_end s = rev (strip_front (map rev ws_encodings) (rev s))"

definition trim :: "string \<Rightarrow> string" where
  "trim s = trim_end (trim_start s)"

definition ascii_lower :: "char \<Rightarrow> char" where
  "ascii_lower c =
     (case map_of (zip ''ABCDEFGHIJKLMNOPQRSTUVWXYZ'' ''abcdefghijklmnopqrstuvwxyz'') c of
        None \<Rightarrow> c
      | Some d \<Rightarrow> d)"

definition to_ascii_lowercase :: "string \<Rightarrow> string" where
  "to_ascii_lowercase s = map ascii_lower s"

section \<open>Decimal numbers\<close>

definition digit_char :: "nat \<Rightarrow> char" where
  "digit_char d = ''0123456789'' ! d"

fun dec_of_nat :: "nat \<Rightarrow> string" where
  "dec_of_nat n = (if n < 10 then [digit_char n] else dec_of_nat (n div 10) @ [digit_char (n mod 10)])"

declare dec_of_nat.simps [simp del]

definition dec_of_int :: "int \<Rightarrow> string" where
  "dec_of_int i = (if i < 0 then ''-'' @ dec_of_nat (nat (- i)) else dec_of_nat (nat i))"

text \<open>\<open>str::parse::<u64>\<close>: an optional plus sign, at least one digit, no overflow.\<close>

fun parse_digits :: "nat \<Rightarrow> string \<Rightarrow> nat option" where
  "parse_digits acc [] = Some acc"
| "parse_digits acc (c # cs) =
     (let n = of_char c :: nat; a = acc * 10 + (n - 48)
      in if 48 \<le> n \<and> n \<le> 57 \<and> a < 2 ^ 64 then parse_digits a cs else None)"

definition parse_u64 :: "string \<Rightarrow> nat option" where
  "parse_u64 s =
     (case s of
        [] \<Rightarrow> None
      | c # cs \<Rightarrow> if c = CHR ''+'' then (if cs = [] then None else parse_digits 0 cs)
                 else parse_digits 0 s)"

text \<open>\<open>value.rsplit(c).next()\<close>: the part after the last occurrence of the separator.\<close>

definition last_segment :: "char \<Rightarrow> string \<Rightarrow> string" where
  "last_segment c s = rev (takeWhile (\<lambda>x. x \<noteq> c) (rev s))"

text \<open>\<open>lines.join(sep)\<close>\<close>

fun join :: "string \<Rightarrow> string list \<Rightarrow> string" where
  "join sep [] = []"
| "join sep [x] = x"
| "join sep (x # xs) = x @ sep @ join sep xs"

section \<open>Facts\<close>

lemma strip_front_stop:
  "find (\<lambda>w. w \<noteq> [] \<and> starts_with (strip_front ws s) w) ws = None"
proof (induction ws s rule: strip_front.induct)
  case (1 ws s)
  then show ?case
    by (cases "find (\<lambda>w. w \<noteq> [] \<and> starts_with s w) ws")
       (simp_all add: strip_front.simps [of ws s])
qed

lemma strip_front_id:
  "find (\<lambda>w. w \<noteq> [] \<and> starts_with s w) ws = None \<Longrightarrow> strip_front ws s = s"
  by (simp add: strip_front.simps [of ws s])

lemma strip_front_suffix: "\<exists>p. s = p @ strip_front ws s"
proof (induction ws s rule: strip_front.induct)
  case (1 ws s)
  show ?case
  proof (cases "find (\<lambda>w. w \<noteq> [] \<and> starts_with s w) ws")
    case None
    then show ?thesis by (simp add: strip_front_id)
  next
    case (Some w)
    then obtain p where "drop (length w) s = p @ strip_front ws (drop (length w) s)"
      using 1 by blast
    then have "s = (take (length w) s @ p) @ strip_front ws (drop (length w) s)"
      by (metis append_assoc append_take_drop_id)
    moreover have "strip_front ws s = strip_front ws (drop (length w) s)"
      by (simp add: strip_front.simps [of ws s] Some)
    ultimately show ?thesis by metis
  qed
qed

lemma find_prefix_None:
  "find (\<lambda>w. w \<noteq> [] \<and> starts_with (s @ t) w) ws = None \<Longrightarrow>
   find (\<lambda>w. w \<noteq> [] \<and> starts_with s w) ws = None"
  by (fastforce simp: find_None_iff starts_with_iff)

lemma trim_idem [simp]: "trim (trim s) = trim s"
proof -
  let ?u = "trim_start s"
  obtain p where "rev ?u = p @ strip_front (map rev ws_encodings) (rev ?u)"
    using strip_front_suffix by blast
  then have split: "?u = trim s @ rev p"
    unfolding trim_def trim_end_def by (metis rev_append rev_rev_ident)
  have "trim_start (trim s) = trim s"
    unfolding trim_start_def
    by (rule strip_front_id, rule find_prefix_None [where t = "rev p"])
       (use split strip_front_stop in \<open>metis trim_start_def\<close>)
  moreover have "trim_end (trim s) = trim s"
    unfolding trim_def trim_end_def by (simp add: strip_front_id strip_front_stop)
  ultimately show ?thesis by (simp add: trim_def)
qed

lemma ascii_lower_idem [simp]: "ascii_lower (ascii_lower c) = ascii_lower c"
  by (simp add: ascii_lower_def split: option.splits if_splits)

lemma to_ascii_lowercase_idem [simp]:
  "to_ascii_lowercase (to_ascii_lowercase s) = to_ascii_lowercase s"
  by (simp add: to_ascii_lowercase_def)

lemma of_char_digit_char: "d < 10 \<Longrightarrow> (of_char (digit_char d) :: nat) = 48 + d"
proof -
  assume "d < 10"
  then have "d \<in> {0, 1, 2, 3, 4, 5, 6, 7, 8, 9}" by auto
  then show ?thesis by (auto simp: digit_char_def)
qed

lemma dec_of_nat_digits: "\<forall>c \<in> set (dec_of_nat n). 48 \<le> (of_char c :: nat) \<and> (of_char c :: nat) \<le> 57"
proof (induction n rule: dec_of_nat.induct)
  case (1 n)
  show ?case
  proof (cases "n < 10")
    case True
    then show ?thesis by (subst dec_of_nat.simps) (simp add: of_char_digit_char)
  next
    case False
    then have "48 + n mod 10 \<le> 57" by presburger
    then show ?thesis using 1 False
      by (subst dec_of_nat.simps) (auto simp: of_char_digit_char)
  qed
qed

lemma dec_of_nat_nonempty [simp]: "dec_of_nat n \<noteq> []"
  by (subst dec_of_nat.simps) simp

lemma parse_digits_append:
  "parse_digits acc (xs @ ys) =
     (case parse_digits acc xs of None \<Rightarrow> None | Some a \<Rightarrow> parse_digits a ys)"
  by (induction xs arbitrary: acc) (auto simp: Let_def)

lemma parse_digits_dec: "n < 2 ^ 64 \<Longrightarrow> parse_digits 0 (dec_of_nat n) = Some n"
proof (induction n rule: dec_of_nat.induct)
  case (1 n)
  show ?case
  proof (cases "n < 10")
    case True
    then show ?thesis by (subst dec_of_nat.simps) (simp add: of_char_digit_char)
  next
    case False
    then have "n div 10 < 2 ^ 64" using 1 by linarith
    then show ?thesis using 1 False
      by (subst dec_of_nat.simps) (simp add: parse_digits_append Let_def of_char_digit_char)
  qed
qed

lemma parse_u64_dec: "n < 2 ^ 64 \<Longrightarrow> parse_u64 (dec_of_nat n) = Some n"
proof -
  assume n: "n < 2 ^ 64"
  have "CHR ''+'' \<notin> set (dec_of_nat n)"
    using dec_of_nat_digits [of n] by auto
  then show ?thesis
    using n parse_digits_dec [OF n] by (auto simp: parse_u64_def split: list.split)
qed

fun dec_value :: "string \<Rightarrow> nat" where
  "dec_value [] = 0"
| "dec_value (c # cs) = (of_char c - 48) * 10 ^ length cs + dec_value cs"

lemma dec_value_append: "dec_value (xs @ ys) = dec_value xs * 10 ^ length ys + dec_value ys"
  by (induction xs) (auto simp: algebra_simps power_add)

lemma dec_value_dec: "dec_value (dec_of_nat n) = n"
proof (induction n rule: dec_of_nat.induct)
  case (1 n)
  then show ?case by (subst dec_of_nat.simps) (auto simp: dec_value_append of_char_digit_char)
qed

lemma dec_of_nat_inject [simp]: "dec_of_nat m = dec_of_nat n \<longleftrightarrow> m = n"
  by (metis dec_value_dec)

lemma last_segment_append:
  "c \<notin> set t \<Longrightarrow> last_segment c (s @ c # t) = t"
  by (simp add: last_segment_def takeWhile_append)

lemma dec_no_sep [simp]: "CHR ''_'' \<notin> set (dec_of_nat n)"
  using dec_of_nat_digits [of n] by auto

text \<open>Kernel evaluation of the text functions on literals.\<close>

lemmas text_eval =
  trim_def trim_start_def trim_end_def strip_front.simps ws_encodings_def
  to_ascii_lowercase_def ascii_lower_def dec_of_nat.simps dec_of_int_def digit_char_def
  parse_u64_def last_segment_def

end
