(* ===== verification/Runtime_Types.thy ===== *)
theory Runtime_Types
  imports Text
begin

text \<open>
  The data of \<open>runtime-core\<close>: \<open>error.rs\<close>, \<open>state.rs\<close> and the value types of \<open>provider.rs\<close>.
  Every struct is a record with the source's fields (prefixed per struct, since record fields are
  global in HOL), every enum a datatype. \<open>i64\<close> values are integers; the only arithmetic on them
  (event sequence numbers) checks the width where it is done. \<open>serde_json::Value\<close> is \<open>json\<close>;
  the lemmas are the parse/print round trips of the enums.
\<close>

section \<open>JSON values\<close>

datatype json_number = NInt int | NFloat "64 word"

datatype json =
    JNull
  | JBool bool
  | JNumber json_number
  | JString string
  | JArray "json list"
  | JObject "(string \<times> json) list"

text \<open>\<open>serde_json::Map\<close> is a B-tree map: entries are kept in key order.\<close>

fun obj_insert :: "string \<Rightarrow> json \<Rightarrow> (string \<times> json) list \<Rightarrow> (string \<times> json) list" where
  "obj_insert k v [] = [(k, v)]"
| "obj_insert k v ((k', v') # kvs) =
     (if k = k' then (k, v) # kvs
      else if k < k' then (k, v) # (k', v') # kvs
      else (k', v') # obj_insert k v kvs)"

definition obj_remove :: "string \<Rightarrow> (string \<times> json) list \<Rightarrow> (string \<times> json) list" where
  "obj_remove k kvs = filter (\<lambda>kv. fst kv \<noteq> k) kvs"

definition obj_get :: "(string \<times> json) list \<Rightarrow> string \<Rightarrow> json option" where
  "obj_get kvs k = map_of kvs k"

definition jobject :: "(string \<times> json) list \<Rightarrow> json" where
  "jobject kvs = JObject (fold (\<lambda>(k, v). obj_insert k v) kvs [])"

definition jget :: "json \<Rightarrow> string \<Rightarrow> json option" where
  "jget v k = (case v of JObject kvs \<Rightarrow> obj_get kvs k | _ \<Rightarrow> None)"

definition as_str :: "json \<Rightarrow> string option" where
  "as_str v = (case v of JString s \<Rightarrow> Some s | _ \<Rightarrow> None)"

definition as_array :: "json \<Rightarrow> json list option" where
  "as_array v = (case v of JArray xs \<Rightarrow> Some xs | _ \<Rightarrow> None)"

definition is_object :: "json \<Rightarrow> bool" where
  "is_object v = (case v of JObject _ \<Rightarrow> True | _ \<Rightarrow> False)"

definition jint :: "int \<Rightarrow> json" where
  "jint i = JNumber (NInt i)"

definition jopt :: "('a \<Rightarrow> json) \<Rightarrow> 'a option \<Rightarrow> json" where
  "jopt f x = (case x of None \<Rightarrow> JNull | Some y \<Rightarrow> f y)"

lemma obj_get_insert [simp]: "obj_get (obj_insert k v kvs) k' = (if k' = k then Some v else obj_get kvs k')"
  by (induction kvs rule: obj_insert.induct [where ?a0.0 = k and ?a1.0 = v]) (auto simp: obj_get_def)

lemma obj_get_remove [simp]: "obj_get (obj_remove k kvs) k' = (if k' = k then None else obj_get kvs k')"
  by (induction kvs) (auto simp: obj_get_def obj_remove_def)

section \<open>Errors (error.rs)\<close>

datatype runtime_error =
    Configuration string
  | ProviderAlreadyRegistered string
  | ProviderNotRegistered string
  | NotFound string
  | InvalidState string
  | ProtocolViolation string
  | Unsupported string
  | Bootstrap string
  | Io string

fun error_to_string :: "runtime_error \<Rightarrow> string" where
  "error_to_string (Configuration m) = ''configuration error: '' @ m"
| "error_to_string (ProviderAlreadyRegistered m) = ''provider '' @ [CHR 0x27] @ m @ [CHR 0x27] @ '' is already registered''"
| "error_to_string (ProviderNotRegistered m) = ''provider '' @ [CHR 0x27] @ m @ [CHR 0x27] @ '' is not registered''"
| "error_to_string (NotFound m) = ''resource not found: '' @ m"
| "error_to_string (InvalidState m) = ''invalid state: '' @ m"
| "error_to_string (ProtocolViolation m) = ''protocol violation: '' @ m"
| "error_to_string (Unsupported m) = ''unsupported: '' @ m"
| "error_to_string (Bootstrap m) = ''bootstrap error: '' @ m"
| "error_to_string (Io m) = ''io error: '' @ m"

section \<open>Records of the runtime state (state.rs)\<close>

datatype event_scope = ScopeSession | ScopeTeam | ScopeProcess | ScopeWorktree | ScopeSystem

fun scope_as_str :: "event_scope \<Rightarrow> string" where
  "scope_as_str ScopeSession = ''session''"
| "scope_as_str ScopeTeam = ''team''"
| "scope_as_str ScopeProcess = ''process''"
| "scope_as_str ScopeWorktree = ''worktree''"
| "scope_as_str ScopeSystem = ''system''"

definition scope_from_str :: "string \<Rightarrow> event_scope option" where
  "scope_from_str value =
     (let v = to_ascii_lowercase (trim value) in
      if v = ''session'' then Some ScopeSession
      else if v = ''team'' then Some ScopeTeam
      else if v = ''process'' then Some ScopeProcess
      else if v = ''worktree'' then Some ScopeWorktree
      else if v = ''system'' then Some ScopeSystem
      else None)"

datatype criticality = Critical | Droppable

fun criticality_as_i64 :: "criticality \<Rightarrow> int" where
  "criticality_as_i64 Critical = 1"
| "criticality_as_i64 Droppable = 0"

definition criticality_from_i64 :: "int \<Rightarrow> criticality option" where
  "criticality_from_i64 v = (if v = 1 then Some Critical else if v = 0 then Some Droppable else None)"

record session_record =
  sess_id :: string
  sess_provider :: string
  sess_status :: string
  sess_cwd :: "string option"
  sess_model :: "string option"
  sess_permission_mode :: "string option"
  sess_system_prompt :: "string option"
  sess_metadata :: json
  sess_provider_session_ref :: "string option"
  sess_canonical_ref :: "string option"
  sess_active_turn_id :: "string option"
  sess_worktree_id :: "string option"
  sess_created_at :: int
  sess_updated_at :: int
  sess_closed_at :: "int option"
  sess_failure_code :: "string option"
  sess_failure_message :: "string option"

record turn_record =
  turn_id :: string
  turn_session_id :: string
  turn_provider_ref :: "string option"
  turn_status :: string
  turn_input :: json
  turn_source :: "string option"
  turn_started_at :: "int option"
  turn_completed_at :: "int option"
  turn_usage :: "json option"
  turn_error :: "json option"

record approval_record =
  appr_id :: string
  appr_session_id :: string
  appr_turn_id :: string
  appr_tool_call_id :: "string option"
  appr_provider_ref :: "string option"
  appr_status :: string
  appr_request :: json
  appr_response :: "json option"
  appr_created_at :: int
  appr_resolved_at :: "int option"

record team_record =
  team_id :: string
  team_name :: string
  team_lead :: string
  team_created_by :: string
  team_created_at :: int
  team_updated_at :: int
  team_deleted_at :: "int option"

record team_member_record =
  mem_team_id :: string
  mem_agent_id :: string
  mem_title :: "string option"
  mem_joined_at :: int
  mem_added_by :: string
  mem_creator_agent_id :: "string option"
  mem_subscription :: string
  mem_worktree_id :: "string option"

record team_message_record =
  msg_id :: string
  msg_team_id :: string
  msg_scope :: string
  msg_sender :: string
  msg_recipients :: json
  msg_input :: json
  msg_image_paths :: json
  msg_priority :: string
  msg_policy :: string
  msg_correlation_id :: "string option"
  msg_reply_to :: "string option"
  msg_idempotency_key :: "string option"
  msg_created_at :: int

record team_delivery_record =
  dlv_id :: string
  dlv_message_id :: string
  dlv_team_id :: string
  dlv_recipient :: string
  dlv_provider :: string
  dlv_status :: string
  dlv_effective_policy :: "string option"
  dlv_injection_strategy :: "string option"
  dlv_injected_turn_id :: "string option"
  dlv_error_code :: "string option"
  dlv_error_message :: "string option"
  dlv_created_at :: int
  dlv_updated_at :: int

record worktree_record =
  wt_id :: string
  wt_repo_root :: string
  wt_root :: string
  wt_cwd :: string
  wt_branch_name :: string
  wt_name :: string
  wt_unified_path :: string
  wt_deletion_policy :: string
  wt_created_by_session :: "string option"
  wt_created_by_operation :: "string option"
  wt_created_at :: int
  wt_updated_at :: int

record worktree_claim_record =
  claim_worktree_id :: string
  claim_session_id :: string
  claim_role :: string
  claim_created_at :: int
  claim_released_at :: "int option"

record process_record =
  proc_id :: string
  proc_session_id :: "string option"
  proc_tool_call_id :: "string option"
  proc_pid :: "int option"
  proc_command :: json
  proc_cwd :: "string option"
  proc_status :: string
  proc_exit_code :: "int option"
  proc_signal :: "int option"
  proc_stdout_path :: "string option"
  proc_stderr_path :: "string option"
  proc_started_at :: int
  proc_ended_at :: "int option"
  proc_timeout_ms :: "int option"

record credential_record =
  cred_id :: string
  cred_provider :: string
  cred_profile :: string
  cred_kind :: string
  cred_secret :: string
  cred_metadata :: json
  cred_created_at :: int
  cred_updated_at :: int

record journal_record =
  jr_operation_id :: string
  jr_team_id :: string
  jr_kind :: string
  jr_stage :: string
  jr_payload :: json
  jr_created_at :: int
  jr_updated_at :: int

record diagnostic_record =
  diag_id :: int
  diag_operation_id :: "string option"
  diag_team_id :: "string option"
  diag_code :: string
  diag_message :: string
  diag_payload :: json
  diag_created_at :: int

record event_record =
  ev_row_id :: int
  ev_event_id :: string
  ev_scope :: event_scope
  ev_scope_id :: string
  ev_session_id :: "string option"
  ev_team_id :: "string option"
  ev_turn_id :: "string option"
  ev_seq :: int
  ev_kind :: string
  ev_criticality :: criticality
  ev_payload :: json
  ev_provider :: "string option"
  ev_provider_seq :: "int option"
  ev_created_at :: int

record new_event =
  ne_event_id :: string
  ne_scope :: event_scope
  ne_scope_id :: string
  ne_session_id :: "string option"
  ne_team_id :: "string option"
  ne_turn_id :: "string option"
  ne_kind :: string
  ne_criticality :: criticality
  ne_payload :: json
  ne_provider :: "string option"
  ne_provider_seq :: "int option"
  ne_created_at :: int

record hydrated_state =
  hyd_sessions :: "session_record list"
  hyd_turns :: "turn_record list"
  hyd_approvals :: "approval_record list"
  hyd_teams :: "team_record list"
  hyd_members :: "team_member_record list"
  hyd_messages :: "team_message_record list"
  hyd_deliveries :: "team_delivery_record list"
  hyd_worktrees :: "worktree_record list"
  hyd_claims :: "worktree_claim_record list"
  hyd_journal :: "journal_record list"
  hyd_diagnostics :: "diagnostic_record list"
  hyd_processes :: "process_record list"
  hyd_credentials :: "credential_record list"

section \<open>Provider value types (provider.rs)\<close>

datatype provider_kind = Codex | Claude | Acp

fun kind_as_str :: "provider_kind \<Rightarrow> string" where
  "kind_as_str Codex = ''codex''"
| "kind_as_str Claude = ''claude''"
| "kind_as_str Acp = ''acp''"

definition kind_from_str :: "string \<Rightarrow> provider_kind option" where
  "kind_from_str value =
     (let v = to_ascii_lowercase (trim value) in
      if v = ''codex'' then Some Codex
      else if v = ''claude'' then Some Claude
      else if v = ''acp'' then Some Acp
      else None)"

record provider_metadata =
  pm_kind :: provider_kind
  pm_display_name :: string
  pm_enabled :: bool

record provider_model =
  mdl_id :: string
  mdl_display_name :: string
  mdl_reasoning_levels :: "string list"

record provider_auth_status =
  auth_authenticated :: bool
  auth_mode :: "string option"
  auth_detail :: "string option"

record create_session_request =
  csr_session_id :: string
  csr_model :: "string option"
  csr_cwd :: "string option"
  csr_permission_mode :: "string option"
  csr_metadata :: "json option"

record resume_session_request =
  rsr_session_id :: string
  rsr_provider_session_ref :: string
  rsr_canonical_ref :: "string option"
  rsr_cwd :: "string option"
  rsr_metadata :: "json option"

record send_turn_request =
  str_session_id :: string
  str_turn_id :: string
  str_input :: "json list"
  str_expected_turn_id :: "string option"
  str_permission_mode :: "string option"
  str_approval_id :: "string option"

record interrupt_turn_request =
  itr_session_id :: string
  itr_turn_id :: string

record approval_response_request =
  arr_session_id :: string
  arr_turn_id :: string
  arr_approval_id :: string
  arr_decision :: string
  arr_payload :: "json option"

record wait_turn_request =
  wtr_session_id :: string
  wtr_turn_id :: string
  wtr_timeout_ms :: "nat option"

record close_session_request =
  clr_session_id :: string
  clr_reason :: "string option"

record provider_session =
  psn_session_id :: string
  psn_provider_session_ref :: string
  psn_canonical_ref :: "string option"

record turn_ack =
  ack_session_id :: string
  ack_turn_id :: string

datatype turn_result_status = InProgress | Completed | Interrupted | Failed

fun result_status_as_str :: "turn_result_status \<Rightarrow> string" where
  "result_status_as_str InProgress = ''in_progress''"
| "result_status_as_str Completed = ''completed''"
| "result_status_as_str Interrupted = ''interrupted''"
| "result_status_as_str Failed = ''failed''"

record turn_result =
  res_session_id :: string
  res_turn_id :: string
  res_status :: turn_result_status
  res_usage :: "json option"
  res_error :: "json option"

datatype approval_decision = Accept | Decline

fun decision_as_str :: "approval_decision \<Rightarrow> string" where
  "decision_as_str Accept = ''accept''"
| "decision_as_str Decline = ''decline''"

definition decision_parse :: "string \<Rightarrow> runtime_error + approval_decision" where
  "decision_parse value =
     (let v = to_ascii_lowercase (trim value) in
      if v \<in> {''accept'', ''accepted''} then Inr Accept
      else if v \<in> {''decline'', ''declined'', ''reject'', ''rejected''} then Inr Decline
      else Inl (InvalidState (''invalid approval decision '' @ [CHR 0x27] @ value @ [CHR 0x27]
                 @ ''; expected accept or decline'')))"

section \<open>Round trips of the enums\<close>

lemma scope_roundtrip: "scope_from_str (scope_as_str sc) = Some sc"
  by (cases sc) (simp_all add: scope_from_str_def text_eval)

lemma criticality_roundtrip: "criticality_from_i64 (criticality_as_i64 c) = Some c"
  by (cases c) (simp_all add: criticality_from_i64_def)

lemma kind_roundtrip: "kind_from_str (kind_as_str k) = Some k"
  by (cases k) (simp_all add: kind_from_str_def text_eval)

lemma kind_as_str_inject [simp]: "kind_as_str k = kind_as_str k' \<longleftrightarrow> k = k'"
  by (metis kind_roundtrip option.inject)

lemma scope_as_str_inject [simp]: "scope_as_str k = scope_as_str k' \<longleftrightarrow> k = k'"
  by (metis scope_roundtrip option.inject)

lemma decision_roundtrip: "decision_parse (decision_as_str d) = Inr d"
  by (cases d) (simp_all add: decision_parse_def text_eval)

end
