(* ===== verification/Sqlite_Store.thy ===== *)
theory Sqlite_Store
  imports Runtime_Types
begin

text \<open>
  The SQLite repository of \<open>runtime-store-sqlite\<close> (\<open>schema.rs\<close>, \<open>db.rs\<close>, \<open>repository.rs\<close>,
  \<open>repository_upserts.rs\<close>, \<open>repository_hydration.rs\<close>): the database is one list of rows per
  table, in rowid order, and every method is a function on it with the SQL statement's effect.
  Constraints of the schema are checked where the statement can violate them (foreign keys,
  \<open>AUTOINCREMENT\<close> and sequence exhaustion); a violated constraint is the error the method returns
  and leaves the database as it was, as the rolled-back statement does. JSON columns hold the
  value itself: \<open>serde_json\<close> reads back what it wrote. Event rows keep the text and integer
  encodings of scope and criticality, because reading a row decodes them.

  The lemmas: one interface (\<open>upsert_table\<close>) for every \<open>ON CONFLICT .. DO UPDATE\<close> statement,
  interpreted for each table; the event log's sequence numbers are gapless per scope and replay
  with a cursor pages through it; logical keys stay unique; foreign keys stay valid.
\<close>

section \<open>Upsert on a table\<close>

text \<open>
  \<open>INSERT .. ON CONFLICT(key) DO UPDATE SET ..\<close>: \<open>merge old new\<close> is the updated row. The row keeps
  its rowid, hence its place.
\<close>

definition tbl_upsert :: "('r \<Rightarrow> 'k) \<Rightarrow> ('r \<Rightarrow> 'r \<Rightarrow> 'r) \<Rightarrow> 'r \<Rightarrow> 'r list \<Rightarrow> 'r list" where
  "tbl_upsert key merge r t =
     (if key r \<in> key ` set t
      then map (\<lambda>x. if key x = key r then merge x r else x) t
      else t @ [r])"

definition tbl_find :: "('r \<Rightarrow> 'k) \<Rightarrow> 'k \<Rightarrow> 'r list \<Rightarrow> 'r option" where
  "tbl_find key k t = find (\<lambda>r. key r = k) t"

locale upsert_table =
  fixes key :: "'r \<Rightarrow> 'k" and merge :: "'r \<Rightarrow> 'r \<Rightarrow> 'r"
  assumes key_merge: "key old = key new \<Longrightarrow> key (merge old new) = key new"
begin

lemma map_key_upsert:
  "map key (tbl_upsert key merge r t) =
     (if key r \<in> set (map key t) then map key t else map key t @ [key r])"
  by (auto simp: tbl_upsert_def key_merge image_iff)

lemma distinct_upsert: "distinct (map key t) \<Longrightarrow> distinct (map key (tbl_upsert key merge r t))"
  by (simp add: map_key_upsert)

lemma keys_upsert: "key ` set (tbl_upsert key merge r t) = insert (key r) (key ` set t)"
proof -
  have "set (map key (tbl_upsert key merge r t)) = insert (key r) (set (map key t))"
    by (auto simp: map_key_upsert)
  then show ?thesis by simp
qed

lemma find_upsert:
  "tbl_find key k (tbl_upsert key merge r t) =
     (if k = key r
      then Some (case tbl_find key k t of None \<Rightarrow> r | Some old \<Rightarrow> merge old r)
      else tbl_find key k t)"
proof -
  have upd: "find (\<lambda>x. key x = k) (map (\<lambda>x. if key x = key r then merge x r else x) t) =
      (if k = key r then map_option (\<lambda>x. merge x r) (find (\<lambda>x. key x = k) t)
       else find (\<lambda>x. key x = k) t)"
    by (induction t) (auto simp: key_merge)
  show ?thesis
  proof (cases "key r \<in> key ` set t")
    case True
    then have "k = key r \<Longrightarrow> \<exists>old. find (\<lambda>x. key x = k) t = Some old"
      using find_key_None [of key k t] by auto
    with True show ?thesis
      by (auto simp: tbl_find_def tbl_upsert_def upd)
  next
    case False
    then have "find (\<lambda>x. key x = key r) t = None" by (simp add: find_key_None)
    with False show ?thesis
      by (auto simp: tbl_find_def tbl_upsert_def find_append split: option.splits)
  qed
qed

lemma set_upsert: "set (tbl_upsert key merge r t) \<subseteq> set t \<union> {r} \<union> {merge old r | old. old \<in> set t \<and> key old = key r}"
  by (auto simp: tbl_upsert_def split: if_splits)

lemma find_iff_mem:
  "distinct (map key t) \<Longrightarrow> tbl_find key k t = Some r \<longleftrightarrow> r \<in> set t \<and> key r = k"
  by (simp add: tbl_find_def find_key_Some)

end

text \<open>
  Three tables carry a second, logical key with a unique index. The repository looks the logical
  key up first and updates the row that has it, keeping that row's id; only without such a row
  does it insert or update by id.
\<close>

definition tbl_by_logical_key :: "('r \<Rightarrow> 'l option) \<Rightarrow> 'r \<Rightarrow> 'r list \<Rightarrow> 'r option" where
  "tbl_by_logical_key lkey r t =
     (if lkey r = None then None else find (\<lambda>m. lkey m = lkey r) t)"

definition tbl_logical_upsert ::
  "('r \<Rightarrow> 'k) \<Rightarrow> ('k \<Rightarrow> 'r \<Rightarrow> 'r) \<Rightarrow> ('r \<Rightarrow> 'l option) \<Rightarrow> 'r \<Rightarrow> 'r list \<Rightarrow> 'r list" where
  "tbl_logical_upsert key with_key lkey r t =
     (case tbl_by_logical_key lkey r t of
        Some e \<Rightarrow> map (\<lambda>m. if key m = key e then with_key (key e) r else m) t
      | None \<Rightarrow> tbl_upsert key (\<lambda>old new. new) r t)"

definition logical_unique :: "('r \<Rightarrow> 'l option) \<Rightarrow> 'r list \<Rightarrow> bool" where
  "logical_unique lkey t \<longleftrightarrow> distinct (filter (\<lambda>l. l \<noteq> None) (map lkey t))"

locale logical_table =
  fixes key :: "'r \<Rightarrow> 'k" and with_key :: "'k \<Rightarrow> 'r \<Rightarrow> 'r" and lkey :: "'r \<Rightarrow> 'l option"
  assumes key_with_key: "key (with_key k r) = k"
    and lkey_with_key: "lkey (with_key k r) = lkey r"
begin

lemma by_logical_key_Some:
  "tbl_by_logical_key lkey r t = Some e \<Longrightarrow> e \<in> set t \<and> lkey e = lkey r \<and> lkey r \<noteq> None"
  by (auto simp: tbl_by_logical_key_def find_Some_iff split: if_splits)

lemma distinct_logical_upsert:
  "distinct (map key t) \<Longrightarrow> distinct (map key (tbl_logical_upsert key with_key lkey r t))"
proof (cases "tbl_by_logical_key lkey r t")
  case None
  assume "distinct (map key t)"
  with None show ?thesis
    by (auto simp: tbl_logical_upsert_def tbl_upsert_def o_def if_distrib image_iff cong: map_cong)
next
  case (Some e)
  assume "distinct (map key t)"
  moreover have "map key (tbl_logical_upsert key with_key lkey r t) = map key t"
    using Some by (simp add: tbl_logical_upsert_def key_with_key)
  ultimately show ?thesis by simp
qed

lemma logical_unique_replace:
  assumes "distinct (map key t)" and "logical_unique lkey t"
    and "lkey r = None \<or> lkey r \<notin> lkey ` set t"
  shows "logical_unique lkey (map (\<lambda>x. if key x = key r then r else x) t)"
  using assms
proof (induction t)
  case Nil
  then show ?case by (simp add: logical_unique_def)
next
  case (Cons x t)
  have rest: "key x \<notin> key ` set t" using Cons.prems(1) by simp
  have same: "map (\<lambda>x. if key x = key r then r else x) t = t" if "key x = key r"
    using rest that by (intro map_idI) (metis image_eqI)
  show ?case
  proof (cases "key x = key r")
    case True
    then have eq: "map (\<lambda>x. if key x = key r then r else x) (x # t) = r # t"
      by (simp add: same)
    show ?thesis
      unfolding eq using Cons.prems by (auto simp: logical_unique_def split: if_splits)
  next
    case False
    let ?t = "map (\<lambda>x. if key x = key r then r else x) t"
    have "logical_unique lkey ?t"
      using Cons by (auto simp: logical_unique_def split: if_splits)
    moreover have "lkey x = None \<or> lkey x \<notin> lkey ` set ?t"
      using Cons.prems by (auto simp: logical_unique_def split: if_splits)
    ultimately show ?thesis using False by (auto simp: logical_unique_def simp del: map_map)
  qed
qed

lemma logical_unique_upsert:
  assumes d: "distinct (map key t)" and u: "logical_unique lkey t"
  shows "logical_unique lkey (tbl_logical_upsert key with_key lkey r t)"
proof (cases "tbl_by_logical_key lkey r t")
  case None
  then have new: "lkey r = None \<or> lkey r \<notin> lkey ` set t"
    by (simp add: tbl_by_logical_key_def find_key_None split: if_splits)
  show ?thesis
    using None new u logical_unique_replace [OF d u new]
    by (auto simp: tbl_logical_upsert_def tbl_upsert_def logical_unique_def)
next
  case (Some e)
  have e: "e \<in> set t" "lkey e = lkey r" using by_logical_key_Some [OF Some] by auto
  have "m \<in> set t \<Longrightarrow> key m = key e \<Longrightarrow> lkey r = lkey m" for m
    using d e by (metis distinct_map inj_onD)
  then have "map lkey (tbl_logical_upsert key with_key lkey r t) = map lkey t"
    using Some e by (auto simp: tbl_logical_upsert_def lkey_with_key)
  then show ?thesis using u by (simp only: logical_unique_def)
qed

lemma keys_logical_upsert:
  "key ` set t \<subseteq> key ` set (tbl_logical_upsert key with_key lkey r t)"
proof (cases "tbl_by_logical_key lkey r t")
  case None
  have "map key (map (\<lambda>x. if key x = key r then r else x) t) = map key t" by simp
  then have "key ` set (map (\<lambda>x. if key x = key r then r else x) t) = key ` set t"
    by (metis list.set_map)
  with None show ?thesis by (auto simp: tbl_logical_upsert_def tbl_upsert_def)
next
  case (Some e)
  then have "map key (tbl_logical_upsert key with_key lkey r t) = map key t"
    by (simp add: tbl_logical_upsert_def key_with_key)
  then show ?thesis by (metis list.set_map subset_refl)
qed

lemma set_logical_upsert:
  "set (tbl_logical_upsert key with_key lkey r t) \<subseteq> set t \<union> {r} \<union> {with_key k r | k. True}"
  by (auto simp: tbl_logical_upsert_def tbl_upsert_def split: option.splits if_splits)

end

section \<open>Schema (schema.rs)\<close>

text \<open>A row of \<open>runtime_events\<close>, with the columns as they are stored.\<close>

record event_row =
  er_id :: int
  er_event_id :: string
  er_scope :: string
  er_scope_id :: string
  er_session_id :: "string option"
  er_team_id :: "string option"
  er_turn_id :: "string option"
  er_seq :: int
  er_kind :: string
  er_critical :: int
  er_payload :: json
  er_provider :: "string option"
  er_provider_seq :: "int option"
  er_created_at :: int

record database =
  db_sessions :: "session_record list"
  db_turns :: "turn_record list"
  db_approvals :: "approval_record list"
  db_events :: "event_row list"
  db_teams :: "team_record list"
  db_members :: "team_member_record list"
  db_messages :: "team_message_record list"
  db_deliveries :: "team_delivery_record list"
  db_worktrees :: "worktree_record list"
  db_claims :: "worktree_claim_record list"
  db_processes :: "process_record list"
  db_credentials :: "credential_record list"
  db_journal :: "journal_record list"
  db_diagnostics :: "diagnostic_record list"
  db_event_rowid :: int
  db_diag_rowid :: int

text \<open>A database right after \<open>initialize_schema\<close> created its tables.\<close>

definition empty_db :: database where
  "empty_db =
     \<lparr>db_sessions = [], db_turns = [], db_approvals = [], db_events = [], db_teams = [],
      db_members = [], db_messages = [], db_deliveries = [], db_worktrees = [], db_claims = [],
      db_processes = [], db_credentials = [], db_journal = [], db_diagnostics = [],
      db_event_rowid = 0, db_diag_rowid = 0\<rparr>"

definition i64_max :: int where
  "i64_max = 9223372036854775807"

definition db_error :: "string \<Rightarrow> string \<Rightarrow> runtime_error" where
  "db_error ctxt error = Bootstrap (ctxt @ '': '' @ error)"

abbreviation fk_failed :: string where
  "fk_failed \<equiv> ''FOREIGN KEY constraint failed''"

abbreviation session_exists :: "database \<Rightarrow> string \<Rightarrow> bool" where
  "session_exists db i \<equiv> i \<in> sess_id ` set (db_sessions db)"

abbreviation turn_exists :: "database \<Rightarrow> string \<Rightarrow> bool" where
  "turn_exists db i \<equiv> i \<in> turn_id ` set (db_turns db)"

abbreviation team_exists :: "database \<Rightarrow> string \<Rightarrow> bool" where
  "team_exists db i \<equiv> i \<in> team_id ` set (db_teams db)"

abbreviation message_exists :: "database \<Rightarrow> string \<Rightarrow> bool" where
  "message_exists db i \<equiv> i \<in> msg_id ` set (db_messages db)"

abbreviation worktree_exists :: "database \<Rightarrow> string \<Rightarrow> bool" where
  "worktree_exists db i \<equiv> i \<in> wt_id ` set (db_worktrees db)"

section \<open>Upserts (repository_upserts.rs)\<close>

text \<open>\<open>created_at\<close> is not among the columns the conflict clause updates.\<close>

definition merge_session :: "session_record \<Rightarrow> session_record \<Rightarrow> session_record" where
  "merge_session old new = new\<lparr>sess_created_at := sess_created_at old\<rparr>"

definition db_upsert_session :: "session_record \<Rightarrow> database \<Rightarrow> runtime_error + database" where
  "db_upsert_session r db = Inr (db\<lparr>db_sessions := tbl_upsert sess_id merge_session r (db_sessions db)\<rparr>)"

definition replace_row :: "'r \<Rightarrow> 'r \<Rightarrow> 'r" where
  "replace_row old new = new"

definition db_upsert_turn :: "turn_record \<Rightarrow> database \<Rightarrow> runtime_error + database" where
  "db_upsert_turn r db =
     (if session_exists db (turn_session_id r)
      then Inr (db\<lparr>db_turns := tbl_upsert turn_id replace_row r (db_turns db)\<rparr>)
      else Inl (db_error ''failed upserting turn'' fk_failed))"

definition merge_approval :: "approval_record \<Rightarrow> approval_record \<Rightarrow> approval_record" where
  "merge_approval old new = new\<lparr>appr_created_at := appr_created_at old\<rparr>"

definition db_upsert_approval :: "approval_record \<Rightarrow> database \<Rightarrow> runtime_error + database" where
  "db_upsert_approval r db =
     (if session_exists db (appr_session_id r) \<and> turn_exists db (appr_turn_id r)
      then Inr (db\<lparr>db_approvals := tbl_upsert appr_id merge_approval r (db_approvals db)\<rparr>)
      else Inl (db_error ''failed upserting approval'' fk_failed))"

definition merge_team :: "team_record \<Rightarrow> team_record \<Rightarrow> team_record" where
  "merge_team old new = new\<lparr>team_created_at := team_created_at old\<rparr>"

definition db_upsert_team :: "team_record \<Rightarrow> database \<Rightarrow> runtime_error + database" where
  "db_upsert_team r db = Inr (db\<lparr>db_teams := tbl_upsert team_id merge_team r (db_teams db)\<rparr>)"

definition member_key :: "team_member_record \<Rightarrow> string \<times> string" where
  "member_key m = (mem_team_id m, mem_agent_id m)"

definition db_upsert_team_member :: "team_member_record \<Rightarrow> database \<Rightarrow> runtime_error + database" where
  "db_upsert_team_member r db =
     (if team_exists db (mem_team_id r) \<and> session_exists db (mem_agent_id r)
      then Inr (db\<lparr>db_members := tbl_upsert member_key replace_row r (db_members db)\<rparr>)
      else Inl (db_error ''failed upserting team member'' fk_failed))"

definition db_delete_team_member :: "string \<Rightarrow> string \<Rightarrow> database \<Rightarrow> runtime_error + database" where
  "db_delete_team_member t a db =
     Inr (db\<lparr>db_members := filter (\<lambda>m. member_key m \<noteq> (t, a)) (db_members db)\<rparr>)"

definition message_logical_key :: "team_message_record \<Rightarrow> (string \<times> string \<times> string \<times> string) option" where
  "message_logical_key m =
     map_option (\<lambda>k. (msg_team_id m, msg_sender m, msg_scope m, k)) (msg_idempotency_key m)"

text \<open>
  A message with an idempotency key replaces the row that already has the logical key (keeping
  that row's id); otherwise it is upserted by id.
\<close>

definition db_upsert_team_message :: "team_message_record \<Rightarrow> database \<Rightarrow> runtime_error + database" where
  "db_upsert_team_message r db =
     (if team_exists db (msg_team_id r)
      then Inr (db\<lparr>db_messages :=
             tbl_logical_upsert msg_id (\<lambda>i m. m\<lparr>msg_id := i\<rparr>) message_logical_key r (db_messages db)\<rparr>)
      else Inl (db_error
             (if tbl_by_logical_key message_logical_key r (db_messages db) \<noteq> None
              then ''failed updating team message by idempotency key''
              else ''failed upserting team message'') fk_failed))"

definition db_upsert_team_delivery :: "team_delivery_record \<Rightarrow> database \<Rightarrow> runtime_error + database" where
  "db_upsert_team_delivery r db =
     (if message_exists db (dlv_message_id r) \<and> team_exists db (dlv_team_id r)
      then Inr (db\<lparr>db_deliveries := tbl_upsert dlv_id replace_row r (db_deliveries db)\<rparr>)
      else Inl (db_error ''failed upserting team delivery'' fk_failed))"

definition worktree_identity :: "worktree_record \<Rightarrow> (string \<times> string \<times> string) option" where
  "worktree_identity w = Some (wt_repo_root w, wt_cwd w, wt_branch_name w)"

definition db_upsert_managed_worktree :: "worktree_record \<Rightarrow> database \<Rightarrow> runtime_error + database" where
  "db_upsert_managed_worktree r db =
     Inr (db\<lparr>db_worktrees :=
       tbl_logical_upsert wt_id (\<lambda>i w. w\<lparr>wt_id := i\<rparr>) worktree_identity r (db_worktrees db)\<rparr>)"

definition claim_key :: "worktree_claim_record \<Rightarrow> string \<times> string" where
  "claim_key c = (claim_worktree_id c, claim_session_id c)"

definition db_upsert_managed_worktree_claim ::
  "worktree_claim_record \<Rightarrow> database \<Rightarrow> runtime_error + database" where
  "db_upsert_managed_worktree_claim r db =
     (if worktree_exists db (claim_worktree_id r) \<and> session_exists db (claim_session_id r)
      then Inr (db\<lparr>db_claims := tbl_upsert claim_key replace_row r (db_claims db)\<rparr>)
      else Inl (db_error ''failed upserting managed worktree claim'' fk_failed))"

definition db_upsert_process :: "process_record \<Rightarrow> database \<Rightarrow> runtime_error + database" where
  "db_upsert_process r db = Inr (db\<lparr>db_processes := tbl_upsert proc_id replace_row r (db_processes db)\<rparr>)"

definition db_upsert_journal :: "journal_record \<Rightarrow> database \<Rightarrow> runtime_error + database" where
  "db_upsert_journal r db =
     Inr (db\<lparr>db_journal := tbl_upsert jr_operation_id replace_row r (db_journal db)\<rparr>)"

definition db_append_diagnostic ::
  "string option \<Rightarrow> string option \<Rightarrow> string \<Rightarrow> string \<Rightarrow> json \<Rightarrow> int \<Rightarrow> database \<Rightarrow>
   runtime_error + (diagnostic_record \<times> database)" where
  "db_append_diagnostic op team code message payload now db =
     (if db_diag_rowid db \<ge> i64_max
      then Inl (db_error ''failed inserting team operation diagnostic row'' ''database or disk is full'')
      else let row = \<lparr>diag_id = db_diag_rowid db + 1, diag_operation_id = op, diag_team_id = team,
                      diag_code = trim code, diag_message = trim message, diag_payload = payload,
                      diag_created_at = now\<rparr>
           in Inr (row, db\<lparr>db_diagnostics := db_diagnostics db @ [row],
                           db_diag_rowid := db_diag_rowid db + 1\<rparr>))"

definition db_list_journal :: "string option \<Rightarrow> database \<Rightarrow> journal_record list" where
  "db_list_journal team db =
     sort_key (\<lambda>j. (jr_updated_at j, jr_operation_id j))
       (case team of None \<Rightarrow> db_journal db
        | Some t \<Rightarrow> filter (\<lambda>j. jr_team_id j = t) (db_journal db))"

definition db_list_diagnostics :: "string option \<Rightarrow> string option \<Rightarrow> database \<Rightarrow> diagnostic_record list" where
  "db_list_diagnostics team op db =
     sort_key diag_id
       (filter (\<lambda>d. (team \<noteq> None \<longrightarrow> diag_team_id d = team) \<and> (op \<noteq> None \<longrightarrow> diag_operation_id d = op))
         (db_diagnostics db))"

definition credential_logical_key :: "credential_record \<Rightarrow> (string \<times> string \<times> string) option" where
  "credential_logical_key c = Some (cred_provider c, cred_profile c, cred_kind c)"

definition db_upsert_credential :: "credential_record \<Rightarrow> database \<Rightarrow> runtime_error + database" where
  "db_upsert_credential r db =
     Inr (db\<lparr>db_credentials :=
       tbl_logical_upsert cred_id (\<lambda>i c. c\<lparr>cred_id := i\<rparr>) credential_logical_key r (db_credentials db)\<rparr>)"

section \<open>The event log (repository.rs, db.rs)\<close>

definition runtime_event_from_row :: "event_row \<Rightarrow> runtime_error + event_record" where
  "runtime_event_from_row r =
     (case scope_from_str (er_scope r) of
        None \<Rightarrow> Inl (Bootstrap (''invalid runtime event scope '' @ er_scope r))
      | Some sc \<Rightarrow>
          case criticality_from_i64 (er_critical r) of
            None \<Rightarrow> Inl (Bootstrap (''invalid runtime event criticality value '' @ dec_of_int (er_critical r)))
          | Some c \<Rightarrow>
              Inr \<lparr>ev_row_id = er_id r, ev_event_id = er_event_id r, ev_scope = sc,
                   ev_scope_id = er_scope_id r, ev_session_id = er_session_id r,
                   ev_team_id = er_team_id r, ev_turn_id = er_turn_id r, ev_seq = er_seq r,
                   ev_kind = er_kind r, ev_criticality = c, ev_payload = er_payload r,
                   ev_provider = er_provider r, ev_provider_seq = er_provider_seq r,
                   ev_created_at = er_created_at r\<rparr>)"

text \<open>\<open>collect_rows\<close>: all rows decoded, or the first error.\<close>

fun collect_rows :: "event_row list \<Rightarrow> runtime_error + event_record list" where
  "collect_rows [] = Inr []"
| "collect_rows (r # rs) =
     (case runtime_event_from_row r of
        Inl e \<Rightarrow> Inl e
      | Inr x \<Rightarrow> (case collect_rows rs of Inl e \<Rightarrow> Inl e | Inr xs \<Rightarrow> Inr (x # xs)))"

definition fetch_runtime_event :: "string \<Rightarrow> database \<Rightarrow> runtime_error + event_record option" where
  "fetch_runtime_event i db =
     (case find (\<lambda>r. er_event_id r = i) (db_events db) of
        None \<Rightarrow> Inr None
      | Some r \<Rightarrow> (case runtime_event_from_row r of Inl e \<Rightarrow> Inl e | Inr x \<Rightarrow> Inr (Some x)))"

definition scope_rows :: "event_scope \<Rightarrow> string \<Rightarrow> database \<Rightarrow> event_row list" where
  "scope_rows sc i db = filter (\<lambda>r. er_scope r = scope_as_str sc \<and> er_scope_id r = i) (db_events db)"

text \<open>\<open>SELECT COALESCE(MAX(seq), 0) + 1 .. WHERE scope = ? AND scope_id = ?\<close>\<close>

definition next_seq :: "event_scope \<Rightarrow> string \<Rightarrow> database \<Rightarrow> int" where
  "next_seq sc i db =
     (let seqs = map er_seq (scope_rows sc i db) in (if seqs = [] then 0 else Max (set seqs)) + 1)"

definition new_event_row :: "new_event \<Rightarrow> int \<Rightarrow> int \<Rightarrow> event_row" where
  "new_event_row e rowid seq =
     \<lparr>er_id = rowid, er_event_id = ne_event_id e, er_scope = scope_as_str (ne_scope e),
      er_scope_id = ne_scope_id e, er_session_id = ne_session_id e, er_team_id = ne_team_id e,
      er_turn_id = ne_turn_id e, er_seq = seq, er_kind = ne_kind e,
      er_critical = criticality_as_i64 (ne_criticality e), er_payload = ne_payload e,
      er_provider = ne_provider e, er_provider_seq = ne_provider_seq e,
      er_created_at = ne_created_at e\<rparr>"

definition db_append_runtime_event ::
  "new_event \<Rightarrow> database \<Rightarrow> runtime_error + (event_record \<times> database)" where
  "db_append_runtime_event e db =
     (case fetch_runtime_event (ne_event_id e) db of
        Inl er \<Rightarrow> Inl er
      | Inr (Some existing) \<Rightarrow> Inr (existing, db)
      | Inr None \<Rightarrow>
          let seq = next_seq (ne_scope e) (ne_scope_id e) db in
          if seq > i64_max then Inl (db_error ''failed computing next event sequence'' ''Invalid column type Real'')
          else if db_event_rowid db \<ge> i64_max
          then Inl (db_error ''failed inserting runtime event'' ''database or disk is full'')
          else
            let db' = db\<lparr>db_events := db_events db @ [new_event_row e (db_event_rowid db + 1) seq],
                         db_event_rowid := db_event_rowid db + 1\<rparr>
            in (case fetch_runtime_event (ne_event_id e) db' of
                  Inl er \<Rightarrow> Inl er
                | Inr None \<Rightarrow> Inl (Bootstrap ''inserted event missing after insert'')
                | Inr (Some inserted) \<Rightarrow> Inr (inserted, db')))"

definition db_list_runtime_events ::
  "(event_scope \<times> string) option \<Rightarrow> int option \<Rightarrow> nat \<Rightarrow> database \<Rightarrow>
   runtime_error + event_record list" where
  "db_list_runtime_events scope after limit db =
     (if int limit > i64_max then Inl (Bootstrap ''runtime event query limit overflow'')
      else case (scope, after) of
        (Some (sc, i), Some a) \<Rightarrow>
          collect_rows (take limit (sort_key er_seq (filter (\<lambda>r. er_seq r > a) (scope_rows sc i db))))
      | (Some (sc, i), None) \<Rightarrow>
          collect_rows (take limit (sort_key er_seq (scope_rows sc i db)))
      | (None, Some a) \<Rightarrow>
          collect_rows (take limit (sort_key er_id (filter (\<lambda>r. er_id r > a) (db_events db))))
      | (None, None) \<Rightarrow>
          collect_rows (take limit (sort_key er_id (db_events db))))"

section \<open>Hydration (repository_hydration.rs)\<close>

text \<open>
  One query per table, in the order of its \<open>ORDER BY\<close>. Turns come in rowid order.
\<close>

definition select_sessions :: "database \<Rightarrow> session_record list" where
  "select_sessions db = sort_key (\<lambda>s. (sess_created_at s, sess_id s)) (db_sessions db)"

definition select_turns :: "database \<Rightarrow> turn_record list" where
  "select_turns db = db_turns db"

definition select_approvals :: "database \<Rightarrow> approval_record list" where
  "select_approvals db = sort_key (\<lambda>a. (appr_created_at a, appr_id a)) (db_approvals db)"

definition select_teams :: "database \<Rightarrow> team_record list" where
  "select_teams db = sort_key (\<lambda>t. (team_created_at t, team_id t)) (db_teams db)"

definition select_members :: "database \<Rightarrow> team_member_record list" where
  "select_members db = sort_key (\<lambda>m. (mem_joined_at m, mem_team_id m, mem_agent_id m)) (db_members db)"

definition select_messages :: "database \<Rightarrow> team_message_record list" where
  "select_messages db = sort_key (\<lambda>m. (msg_created_at m, msg_id m)) (db_messages db)"

definition select_deliveries :: "database \<Rightarrow> team_delivery_record list" where
  "select_deliveries db = sort_key (\<lambda>d. (dlv_created_at d, dlv_id d)) (db_deliveries db)"

definition select_worktrees :: "database \<Rightarrow> worktree_record list" where
  "select_worktrees db = sort_key (\<lambda>w. (wt_created_at w, wt_id w)) (db_worktrees db)"

definition select_claims :: "database \<Rightarrow> worktree_claim_record list" where
  "select_claims db = sort_key (\<lambda>c. (claim_created_at c, claim_worktree_id c, claim_session_id c)) (db_claims db)"

definition select_journal :: "database \<Rightarrow> journal_record list" where
  "select_journal db = sort_key (\<lambda>j. (jr_updated_at j, jr_operation_id j)) (db_journal db)"

definition select_diagnostics :: "database \<Rightarrow> diagnostic_record list" where
  "select_diagnostics db = sort_key diag_id (db_diagnostics db)"

definition select_processes :: "database \<Rightarrow> process_record list" where
  "select_processes db = sort_key (\<lambda>p. (proc_started_at p, proc_id p)) (db_processes db)"

definition select_credentials :: "database \<Rightarrow> credential_record list" where
  "select_credentials db = sort_key (\<lambda>c. (cred_created_at c, cred_id c)) (db_credentials db)"

lemmas hydration_queries =
  select_sessions_def select_turns_def select_approvals_def select_teams_def select_members_def
  select_messages_def select_deliveries_def select_worktrees_def select_claims_def select_journal_def
  select_diagnostics_def select_processes_def select_credentials_def

definition hydrate_runtime_state :: "database \<Rightarrow> hydrated_state" where
  "hydrate_runtime_state db =
     \<lparr>hyd_sessions = select_sessions db,
      hyd_turns = select_turns db,
      hyd_approvals = select_approvals db,
      hyd_teams = select_teams db,
      hyd_members = select_members db,
      hyd_messages = select_messages db,
      hyd_deliveries = select_deliveries db,
      hyd_worktrees = select_worktrees db,
      hyd_claims = select_claims db,
      hyd_journal = select_journal db,
      hyd_diagnostics = select_diagnostics db,
      hyd_processes = select_processes db,
      hyd_credentials = select_credentials db\<rparr>"

section \<open>The tables as upsert tables\<close>

interpretation sessions_tbl: upsert_table sess_id merge_session
  by unfold_locales (simp add: merge_session_def)

interpretation turns_tbl: upsert_table turn_id replace_row
  by unfold_locales (simp add: replace_row_def)

interpretation approvals_tbl: upsert_table appr_id merge_approval
  by unfold_locales (simp add: merge_approval_def)

interpretation teams_tbl: upsert_table team_id merge_team
  by unfold_locales (simp add: merge_team_def)

interpretation members_tbl: upsert_table member_key replace_row
  by unfold_locales (simp add: replace_row_def)

interpretation messages_tbl: upsert_table msg_id replace_row
  by unfold_locales (simp add: replace_row_def)

interpretation deliveries_tbl: upsert_table dlv_id replace_row
  by unfold_locales (simp add: replace_row_def)

interpretation worktrees_tbl: upsert_table wt_id replace_row
  by unfold_locales (simp add: replace_row_def)

interpretation claims_tbl: upsert_table claim_key replace_row
  by unfold_locales (simp add: replace_row_def)

interpretation processes_tbl: upsert_table proc_id replace_row
  by unfold_locales (simp add: replace_row_def)

interpretation credentials_tbl: upsert_table cred_id replace_row
  by unfold_locales (simp add: replace_row_def)

interpretation messages_lk: logical_table msg_id "\<lambda>i m. m\<lparr>msg_id := i\<rparr>" message_logical_key
  by unfold_locales (simp_all add: message_logical_key_def)

interpretation worktrees_lk: logical_table wt_id "\<lambda>i w. w\<lparr>wt_id := i\<rparr>" worktree_identity
  by unfold_locales (simp_all add: worktree_identity_def)

interpretation credentials_lk: logical_table cred_id "\<lambda>i c. c\<lparr>cred_id := i\<rparr>" credential_logical_key
  by unfold_locales (simp_all add: credential_logical_key_def)

interpretation journal_tbl: upsert_table jr_operation_id replace_row
  by unfold_locales (simp add: replace_row_def)

section \<open>The event log is gapless per scope\<close>

text \<open>
  Well-formed log: event ids are unique, rows decode, row ids are positive, increasing and below
  the counter, and the sequence numbers of every scope are 1, 2, 3, .. in row order.
\<close>

definition seqs_from_one :: "event_row list \<Rightarrow> bool" where
  "seqs_from_one rs \<longleftrightarrow> map er_seq rs = map int [1..<Suc (length rs)]"

definition row_decodes :: "event_row \<Rightarrow> bool" where
  "row_decodes r \<longleftrightarrow> (\<exists>sc c. er_scope r = scope_as_str sc \<and> er_critical r = criticality_as_i64 c)"

definition events_ok :: "database \<Rightarrow> bool" where
  "events_ok db \<longleftrightarrow>
     distinct (map er_event_id (db_events db)) \<and>
     (\<forall>r \<in> set (db_events db). row_decodes r) \<and>
     sorted_wrt (<) (map er_id (db_events db)) \<and>
     (\<forall>r \<in> set (db_events db). er_id r \<le> db_event_rowid db) \<and>
     (\<forall>sc i. seqs_from_one (scope_rows sc i db))"

definition decode :: "event_row \<Rightarrow> event_record" where
  "decode r =
     \<lparr>ev_row_id = er_id r, ev_event_id = er_event_id r, ev_scope = the (scope_from_str (er_scope r)),
      ev_scope_id = er_scope_id r, ev_session_id = er_session_id r,
      ev_team_id = er_team_id r, ev_turn_id = er_turn_id r, ev_seq = er_seq r,
      ev_kind = er_kind r, ev_criticality = the (criticality_from_i64 (er_critical r)),
      ev_payload = er_payload r, ev_provider = er_provider r,
      ev_provider_seq = er_provider_seq r, ev_created_at = er_created_at r\<rparr>"

lemma decode_simps:
  "ev_event_id (decode r) = er_event_id r" "ev_scope (decode r) = the (scope_from_str (er_scope r))"
  "ev_scope_id (decode r) = er_scope_id r" "ev_seq (decode r) = er_seq r"
  "ev_kind (decode r) = er_kind r" "ev_payload (decode r) = er_payload r"
  by (simp_all add: decode_def)

lemma from_row_decodes: "row_decodes r \<Longrightarrow> runtime_event_from_row r = Inr (decode r)"
  by (auto simp: row_decodes_def runtime_event_from_row_def decode_def scope_roundtrip
      criticality_roundtrip)

lemma collect_rows_decodes:
  "(\<forall>r \<in> set rs. row_decodes r) \<Longrightarrow> collect_rows rs = Inr (map decode rs)"
  by (induction rs) (simp_all add: from_row_decodes)

lemma new_row_decodes [simp]: "row_decodes (new_event_row e n q)"
  by (auto simp: row_decodes_def new_event_row_def)

lemma next_seq_ok:
  assumes "seqs_from_one (scope_rows sc i db)"
  shows "next_seq sc i db = int (length (scope_rows sc i db)) + 1"
proof -
  let ?n = "length (scope_rows sc i db)"
  have eq: "map er_seq (scope_rows sc i db) = map int [1..<Suc ?n]"
    using assms by (simp add: seqs_from_one_def)
  have "?n > 0 \<Longrightarrow> Max (int ` {1..<Suc ?n}) = int ?n"
    by (rule Max_eqI) (auto intro!: imageI simp: Suc_le_eq)
  then show ?thesis
    by (cases "?n = 0") (simp_all add: next_seq_def Let_def eq del: upt_Suc)
qed

lemma fetch_none_iff:
  "(\<forall>r \<in> set (db_events db). row_decodes r) \<Longrightarrow>
   fetch_runtime_event i db = Inr None \<longleftrightarrow> i \<notin> er_event_id ` set (db_events db)"
  by (auto simp: fetch_runtime_event_def from_row_decodes find_None_iff find_Some_iff
      split: option.splits sum.splits)

text \<open>What an append does to a well-formed log, in one equation.\<close>

lemma append_fresh:
  assumes ok: "events_ok db" and fresh: "ne_event_id e \<notin> er_event_id ` set (db_events db)"
    and room: "int (length (scope_rows (ne_scope e) (ne_scope_id e) db)) < i64_max"
      "db_event_rowid db < i64_max"
  shows "db_append_runtime_event e db =
     (let row = new_event_row e (db_event_rowid db + 1)
                  (int (length (scope_rows (ne_scope e) (ne_scope_id e) db)) + 1)
      in Inr (decode row, db\<lparr>db_events := db_events db @ [row], db_event_rowid := db_event_rowid db + 1\<rparr>))"
proof -
  let ?row = "new_event_row e (db_event_rowid db + 1)
                (int (length (scope_rows (ne_scope e) (ne_scope_id e) db)) + 1)"
  have dec: "\<forall>r \<in> set (db_events db). row_decodes r"
    and seqs: "seqs_from_one (scope_rows (ne_scope e) (ne_scope_id e) db)"
    using ok by (simp_all add: events_ok_def)
  have none: "fetch_runtime_event (ne_event_id e) db = Inr None"
    using fetch_none_iff [OF dec] fresh by blast
  have "find (\<lambda>r. er_event_id r = ne_event_id e) (db_events db) = None"
    using fresh by (simp add: find_key_None)
  then have "find (\<lambda>r. er_event_id r = ne_event_id e) (db_events db @ [?row]) = Some ?row"
    by (simp add: find_append) (simp add: new_event_row_def)
  then have got: "fetch_runtime_event (ne_event_id e)
      (db\<lparr>db_events := db_events db @ [?row], db_event_rowid := db_event_rowid db + 1\<rparr>)
      = Inr (Some (decode ?row))"
    by (simp add: fetch_runtime_event_def from_row_decodes)
  show ?thesis
    using room none got by (simp add: db_append_runtime_event_def next_seq_ok [OF seqs] Let_def)
qed

lemma append_existing:
  assumes ok: "events_ok db" and mem: "r \<in> set (db_events db)" and id: "er_event_id r = ne_event_id e"
  shows "db_append_runtime_event e db = Inr (decode r, db)"
proof -
  have dec: "\<forall>r \<in> set (db_events db). row_decodes r" and d: "distinct (map er_event_id (db_events db))"
    using ok by (simp_all add: events_ok_def)
  have "find (\<lambda>x. er_event_id x = ne_event_id e) (db_events db) = Some r"
    using d mem id by (simp add: find_key_Some)
  then have "fetch_runtime_event (ne_event_id e) db = Inr (Some (decode r))"
    using dec mem by (simp add: fetch_runtime_event_def from_row_decodes)
  then show ?thesis by (simp add: db_append_runtime_event_def)
qed

lemma scope_rows_snoc:
  "scope_rows sc i (db\<lparr>db_events := db_events db @ [r], db_event_rowid := n\<rparr>) =
     scope_rows sc i db @ (if er_scope r = scope_as_str sc \<and> er_scope_id r = i then [r] else [])"
  by (simp add: scope_rows_def)

lemma seqs_from_one_snoc:
  "seqs_from_one rs \<Longrightarrow> er_seq r = int (length rs) + 1 \<Longrightarrow> seqs_from_one (rs @ [r])"
  by (simp add: seqs_from_one_def)

lemma events_ok_snoc:
  assumes ok: "events_ok db" and fresh: "er_event_id r \<notin> er_event_id ` set (db_events db)"
    and row: "r = new_event_row e (db_event_rowid db + 1)
                 (int (length (scope_rows (ne_scope e) (ne_scope_id e) db)) + 1)"
  shows "events_ok (db\<lparr>db_events := db_events db @ [r], db_event_rowid := db_event_rowid db + 1\<rparr>)"
proof -
  have parts: "er_id r = db_event_rowid db + 1" "er_scope r = scope_as_str (ne_scope e)"
    "er_scope_id r = ne_scope_id e"
    "er_seq r = int (length (scope_rows (ne_scope e) (ne_scope_id e) db)) + 1" "row_decodes r"
    by (simp_all add: row) (simp_all add: new_event_row_def)
  have "seqs_from_one (scope_rows sc i (db\<lparr>db_events := db_events db @ [r],
      db_event_rowid := db_event_rowid db + 1\<rparr>))" for sc i
    using ok parts by (auto simp: scope_rows_snoc events_ok_def intro: seqs_from_one_snoc)
  then show ?thesis
    using ok fresh parts
    by (auto simp: events_ok_def sorted_wrt_append less_le_trans)
qed

lemma append_event_cases:
  assumes ok: "events_ok db" and app: "db_append_runtime_event e db = Inr (x, db')"
  shows "(db' = db \<and> (\<exists>r \<in> set (db_events db). x = decode r \<and> er_event_id r = ne_event_id e)) \<or>
         (\<exists>r. r = new_event_row e (db_event_rowid db + 1)
                 (int (length (scope_rows (ne_scope e) (ne_scope_id e) db)) + 1) \<and>
            x = decode r \<and> ne_event_id e \<notin> er_event_id ` set (db_events db) \<and>
            db' = db\<lparr>db_events := db_events db @ [r], db_event_rowid := db_event_rowid db + 1\<rparr>)"
proof (cases "ne_event_id e \<in> er_event_id ` set (db_events db)")
  case True
  then obtain r where "r \<in> set (db_events db)" "er_event_id r = ne_event_id e" by auto
  then show ?thesis using app append_existing [OF ok] by auto
next
  case False
  have dec: "\<forall>r \<in> set (db_events db). row_decodes r"
    and seqs: "seqs_from_one (scope_rows (ne_scope e) (ne_scope_id e) db)"
    using ok by (simp_all add: events_ok_def)
  have "fetch_runtime_event (ne_event_id e) db = Inr None"
    using fetch_none_iff [OF dec] False by blast
  then have room: "int (length (scope_rows (ne_scope e) (ne_scope_id e) db)) < i64_max"
      "db_event_rowid db < i64_max"
    using app by (auto simp: db_append_runtime_event_def next_seq_ok [OF seqs] Let_def split: if_splits)
  show ?thesis
    using app False append_fresh [OF ok False room] by (auto simp: Let_def)
qed

lemma append_event_ok:
  assumes "events_ok db" and "db_append_runtime_event e db = Inr (x, db')"
  shows "events_ok db'"
  using append_event_cases [OF assms] assms(1)
  by (auto intro!: events_ok_snoc) (simp add: new_event_row_def image_iff)

lemma append_event_extends:
  assumes "events_ok db" and "db_append_runtime_event e db = Inr (x, db')"
  shows "\<exists>rs. db_events db' = db_events db @ rs"
  using append_event_cases [OF assms] by auto

lemma seqs_from_one_nth: "seqs_from_one rs \<Longrightarrow> k < length rs \<Longrightarrow> er_seq (rs ! k) = int k + 1"
proof -
  assume "seqs_from_one rs" and k: "k < length rs"
  then have "map er_seq rs ! k = map int [1..<Suc (length rs)] ! k"
    by (simp add: seqs_from_one_def)
  with k show ?thesis by (simp del: upt_Suc add: nth_upt)
qed

lemma seqs_from_one_sorted: "seqs_from_one rs \<Longrightarrow> sorted (map er_seq rs)"
  by (simp add: seqs_from_one_def sorted_iff_nth_mono del: upt_Suc)

lemma seqs_from_one_after:
  assumes "seqs_from_one rs"
  shows "filter (\<lambda>r. er_seq r > int k) rs = drop k rs"
proof -
  have idx: "er_seq (rs ! j) = int j + 1" if "j < length rs" for j
    using seqs_from_one_nth [OF assms that] .
  have "filter (\<lambda>r. er_seq r > int k) (take k rs) = []"
    using idx by (auto simp: filter_empty_conv in_set_conv_nth)
  moreover have "filter (\<lambda>r. er_seq r > int k) (drop k rs) = drop k rs"
    using idx by (auto simp: filter_id_conv in_set_conv_nth)
  ultimately show ?thesis
    by (metis append_Nil append_take_drop_id filter_append)
qed

lemma replay_after:
  assumes ok: "events_ok db" and lim: "int limit \<le> i64_max"
  shows "db_list_runtime_events (Some (sc, i)) (Some (int k)) limit db =
           Inr (map decode (take limit (drop k (scope_rows sc i db))))"
proof -
  let ?rs = "scope_rows sc i db"
  have seqs: "seqs_from_one ?rs" and dec: "\<forall>r \<in> set ?rs. row_decodes r"
    using ok by (auto simp: events_ok_def scope_rows_def)
  have "sorted (map er_seq (drop k ?rs))"
    using seqs_from_one_sorted [OF seqs] by (metis drop_map sorted_wrt_drop)
  then have "sort_key er_seq (filter (\<lambda>r. er_seq r > int k) ?rs) = drop k ?rs"
    by (simp add: seqs_from_one_after [OF seqs] sort_key_id_if_sorted)
  moreover have "\<forall>r \<in> set (take limit (drop k ?rs)). row_decodes r"
    using dec by (meson in_set_dropD in_set_takeD)
  ultimately show ?thesis
    using lim by (simp add: db_list_runtime_events_def collect_rows_decodes)
qed

section \<open>Integrity of the database\<close>

text \<open>Primary keys and logical keys are unique.\<close>

definition primary_keys_ok :: "database \<Rightarrow> bool" where
  "primary_keys_ok db \<longleftrightarrow>
     distinct (map sess_id (db_sessions db)) \<and> distinct (map turn_id (db_turns db)) \<and>
     distinct (map appr_id (db_approvals db)) \<and> distinct (map team_id (db_teams db)) \<and>
     distinct (map member_key (db_members db)) \<and> distinct (map msg_id (db_messages db)) \<and>
     distinct (map dlv_id (db_deliveries db)) \<and> distinct (map wt_id (db_worktrees db)) \<and>
     distinct (map claim_key (db_claims db)) \<and> distinct (map proc_id (db_processes db)) \<and>
     distinct (map cred_id (db_credentials db)) \<and> distinct (map jr_operation_id (db_journal db))"

definition logical_keys_ok :: "database \<Rightarrow> bool" where
  "logical_keys_ok db \<longleftrightarrow>
     logical_unique message_logical_key (db_messages db) \<and>
     logical_unique worktree_identity (db_worktrees db) \<and>
     logical_unique credential_logical_key (db_credentials db)"

text \<open>Every \<open>REFERENCES\<close> clause of the schema holds.\<close>

definition foreign_keys_ok :: "database \<Rightarrow> bool" where
  "foreign_keys_ok db \<longleftrightarrow>
     (\<forall>t \<in> set (db_turns db). session_exists db (turn_session_id t)) \<and>
     (\<forall>a \<in> set (db_approvals db). session_exists db (appr_session_id a) \<and> turn_exists db (appr_turn_id a)) \<and>
     (\<forall>m \<in> set (db_members db). team_exists db (mem_team_id m) \<and> session_exists db (mem_agent_id m)) \<and>
     (\<forall>m \<in> set (db_messages db). team_exists db (msg_team_id m)) \<and>
     (\<forall>d \<in> set (db_deliveries db). message_exists db (dlv_message_id d) \<and> team_exists db (dlv_team_id d)) \<and>
     (\<forall>c \<in> set (db_claims db). worktree_exists db (claim_worktree_id c) \<and> session_exists db (claim_session_id c))"

definition db_ok :: "database \<Rightarrow> bool" where
  "db_ok db \<longleftrightarrow> primary_keys_ok db \<and> logical_keys_ok db \<and> foreign_keys_ok db \<and> events_ok db"

text \<open>The writes of the \<open>RuntimeStore\<close> trait.\<close>

datatype store_write =
    WSession session_record
  | WTurn turn_record
  | WApproval approval_record
  | WTeam team_record
  | WMember team_member_record
  | WDeleteMember string string
  | WMessage team_message_record
  | WDelivery team_delivery_record
  | WWorktree worktree_record
  | WClaim worktree_claim_record
  | WProcess process_record
  | WJournal journal_record
  | WCredential credential_record

fun apply_write :: "store_write \<Rightarrow> database \<Rightarrow> runtime_error + database" where
  "apply_write (WSession r) db = db_upsert_session r db"
| "apply_write (WTurn r) db = db_upsert_turn r db"
| "apply_write (WApproval r) db = db_upsert_approval r db"
| "apply_write (WTeam r) db = db_upsert_team r db"
| "apply_write (WMember r) db = db_upsert_team_member r db"
| "apply_write (WDeleteMember t a) db = db_delete_team_member t a db"
| "apply_write (WMessage r) db = db_upsert_team_message r db"
| "apply_write (WDelivery r) db = db_upsert_team_delivery r db"
| "apply_write (WWorktree r) db = db_upsert_managed_worktree r db"
| "apply_write (WClaim r) db = db_upsert_managed_worktree_claim r db"
| "apply_write (WProcess r) db = db_upsert_process r db"
| "apply_write (WJournal r) db = db_upsert_journal r db"
| "apply_write (WCredential r) db = db_upsert_credential r db"

lemmas write_defs =
  db_upsert_session_def db_upsert_turn_def db_upsert_approval_def db_upsert_team_def
  db_upsert_team_member_def db_delete_team_member_def db_upsert_team_message_def
  db_upsert_team_delivery_def db_upsert_managed_worktree_def
  db_upsert_managed_worktree_claim_def db_upsert_process_def db_upsert_journal_def
  db_upsert_credential_def

lemmas distinct_writes =
  sessions_tbl.distinct_upsert turns_tbl.distinct_upsert approvals_tbl.distinct_upsert
  teams_tbl.distinct_upsert members_tbl.distinct_upsert deliveries_tbl.distinct_upsert
  claims_tbl.distinct_upsert processes_tbl.distinct_upsert journal_tbl.distinct_upsert
  messages_lk.distinct_logical_upsert worktrees_lk.distinct_logical_upsert
  credentials_lk.distinct_logical_upsert

lemma write_primary_keys:
  assumes "primary_keys_ok db" and "apply_write w db = Inr db'"
  shows "primary_keys_ok db'"
  using assms
  by (cases w)
     (auto simp: write_defs primary_keys_ok_def distinct_writes distinct_map_filter split: if_splits)

lemma write_logical_keys:
  assumes "primary_keys_ok db" and "logical_keys_ok db" and "apply_write w db = Inr db'"
  shows "logical_keys_ok db'"
  using assms
  by (cases w)
     (auto simp: write_defs primary_keys_ok_def logical_keys_ok_def
       messages_lk.logical_unique_upsert worktrees_lk.logical_unique_upsert
       credentials_lk.logical_unique_upsert split: if_splits)

lemmas keys_writes =
  sessions_tbl.keys_upsert turns_tbl.keys_upsert teams_tbl.keys_upsert

lemmas mem_writes =
  subsetD [OF turns_tbl.set_upsert] subsetD [OF approvals_tbl.set_upsert]
  subsetD [OF members_tbl.set_upsert] subsetD [OF deliveries_tbl.set_upsert]
  subsetD [OF claims_tbl.set_upsert] subsetD [OF messages_lk.set_logical_upsert]

lemma replace_row_simp [simp]: "replace_row old new = new"
  by (simp add: replace_row_def)

lemma merge_approval_simps [simp]:
  "appr_session_id (merge_approval old new) = appr_session_id new"
  "appr_turn_id (merge_approval old new) = appr_turn_id new"
  by (simp_all add: merge_approval_def)

lemma write_foreign_keys:
  assumes "foreign_keys_ok db" and "apply_write w db = Inr db'"
  shows "foreign_keys_ok db'"
proof (cases w)
  case (WMessage r)
  have "\<forall>d \<in> set (db_deliveries db). dlv_message_id d \<in> msg_id `
      set (tbl_logical_upsert msg_id (\<lambda>i m. m\<lparr>msg_id := i\<rparr>) message_logical_key r (db_messages db))"
    using assms(1) subsetD [OF messages_lk.keys_logical_upsert [of "db_messages db" r]]
    by (auto simp: foreign_keys_ok_def)
  with WMessage assms show ?thesis
    by (auto simp: write_defs foreign_keys_ok_def dest!: mem_writes split: if_splits)
next
  case (WWorktree r)
  have "\<forall>c \<in> set (db_claims db). claim_worktree_id c \<in> wt_id `
      set (tbl_logical_upsert wt_id (\<lambda>i w. w\<lparr>wt_id := i\<rparr>) worktree_identity r (db_worktrees db))"
    using assms(1) subsetD [OF worktrees_lk.keys_logical_upsert [of "db_worktrees db" r]]
    by (auto simp: foreign_keys_ok_def)
  with WWorktree assms show ?thesis
    by (auto simp: write_defs foreign_keys_ok_def)
qed (use assms in \<open>auto simp: write_defs foreign_keys_ok_def keys_writes dest!: mem_writes split: if_splits\<close>)

lemma write_events:
  assumes "apply_write w db = Inr db'"
  shows "db_events db' = db_events db \<and> db_event_rowid db' = db_event_rowid db"
  using assms by (cases w) (auto simp: write_defs split: if_splits)

lemma events_ok_cong:
  "db_events db' = db_events db \<Longrightarrow> db_event_rowid db' = db_event_rowid db \<Longrightarrow>
   events_ok db' = events_ok db"
  by (simp add: events_ok_def scope_rows_def)

lemma db_ok_append_event:
  assumes "db_ok db" and "db_append_runtime_event e db = Inr (x, db')"
  shows "db_ok db'"
proof -
  have ev: "events_ok db" using assms(1) by (simp add: db_ok_def)
  then have "events_ok db'" using assms(2) by (rule append_event_ok)
  moreover have "db' = db \<or> (\<exists>rs n. db' = db\<lparr>db_events := rs, db_event_rowid := n\<rparr>)"
    using append_event_cases [OF ev assms(2)] by auto
  ultimately show ?thesis
    using assms(1)
    by (auto simp: db_ok_def primary_keys_ok_def logical_keys_ok_def foreign_keys_ok_def)
qed

lemma empty_db_ok: "db_ok empty_db"
  by (simp add: db_ok_def primary_keys_ok_def logical_keys_ok_def foreign_keys_ok_def events_ok_def
      empty_db_def logical_unique_def seqs_from_one_def scope_rows_def)

lemma db_ok_write:
  assumes "db_ok db" and "apply_write w db = Inr db'"
  shows "db_ok db'"
  using assms write_events [OF assms(2)]
  by (auto simp: db_ok_def write_primary_keys write_logical_keys write_foreign_keys
      events_ok_cong [of db' db])

section \<open>Properties\<close>

text \<open>C9: Integrity of the durable state. Every write of the store interface that succeeds keeps
  the database well formed: primary keys and logical keys (idempotency keys of messages, identities
  of worktrees, logical keys of credentials) stay unique, every reference of the schema still has
  its target, and the event log is untouched.\<close>

theorem store_write_keeps_integrity:
  assumes "db_ok db" and "apply_write w db = Inr db'"
  shows "db_ok db' \<and> db_events db' = db_events db"
  using db_ok_write [OF assms] write_events [OF assms(2)] by simp

definition sample_session :: session_record where
  "sample_session =
     \<lparr>sess_id = ''s1'', sess_provider = ''codex'', sess_status = ''ready'', sess_cwd = None,
      sess_model = None, sess_permission_mode = None, sess_system_prompt = None,
      sess_metadata = JObject [], sess_provider_session_ref = Some ''ref'', sess_canonical_ref = None,
      sess_active_turn_id = None, sess_worktree_id = None, sess_created_at = 1000,
      sess_updated_at = 1000, sess_closed_at = None, sess_failure_code = None,
      sess_failure_message = None\<rparr>"

theorem store_write_keeps_integrity_witness:
  "db_ok (empty_db\<lparr>db_sessions := [sample_session]\<rparr>)"
proof -
  have "apply_write (WSession sample_session) empty_db = Inr (empty_db\<lparr>db_sessions := [sample_session]\<rparr>)"
    by (simp add: db_upsert_session_def tbl_upsert_def empty_db_def)
  then show ?thesis using store_write_keeps_integrity [OF empty_db_ok] by blast
qed

text \<open>C10: The event log is gapless per scope. Appending an event either finds the event id already
  recorded and returns that record with the database unchanged, or appends exactly one row at the
  end whose sequence number is one more than the number of events its scope had; in both cases the
  log stays well formed (in every scope the sequence numbers are 1, 2, 3, .. in row order).\<close>

theorem append_event_gapless:
  assumes "events_ok db" and "db_append_runtime_event e db = Inr (x, db')"
  shows "events_ok db' \<and>
    (if ne_event_id e \<in> er_event_id ` set (db_events db)
     then db' = db \<and> x \<in> decode ` set (db_events db) \<and> ev_event_id x = ne_event_id e
     else \<exists>r. db_events db' = db_events db @ [r] \<and> x = decode r \<and>
            ev_event_id x = ne_event_id e \<and> ev_kind x = ne_kind e \<and> ev_payload x = ne_payload e \<and>
            ev_scope x = ne_scope e \<and> ev_scope_id x = ne_scope_id e \<and>
            ev_seq x = int (length (scope_rows (ne_scope e) (ne_scope_id e) db)) + 1)"
proof -
  have ok': "events_ok db'" using assms by (rule append_event_ok)
  show ?thesis
  proof (cases "ne_event_id e \<in> er_event_id ` set (db_events db)")
    case True
    then show ?thesis using ok' append_event_cases [OF assms] by (auto simp: decode_simps)
  next
    case False
    then have "r \<in> set (db_events db) \<Longrightarrow> er_event_id r \<noteq> ne_event_id e" for r by (metis imageI)
    then show ?thesis
      using ok' False append_event_cases [OF assms]
      by (auto simp: decode_simps new_event_row_def scope_roundtrip)
  qed
qed

definition sample_event :: new_event where
  "sample_event =
     \<lparr>ne_event_id = ''evt_1'', ne_scope = ScopeSession, ne_scope_id = ''s'', ne_session_id = Some ''s'',
      ne_team_id = None, ne_turn_id = None, ne_kind = ''session.created'', ne_criticality = Critical,
      ne_payload = JObject [], ne_provider = None, ne_provider_seq = None, ne_created_at = 1000\<rparr>"

lemma sample_append:
  "db_append_runtime_event sample_event empty_db =
     Inr (decode (new_event_row sample_event 1 1),
          empty_db\<lparr>db_events := [new_event_row sample_event 1 1], db_event_rowid := 1\<rparr>)"
proof -
  have "events_ok empty_db" using empty_db_ok by (simp add: db_ok_def)
  from append_fresh [OF this, of sample_event] show ?thesis
    by (simp add: Let_def empty_db_def scope_rows_def i64_max_def)
qed

theorem append_event_gapless_witness:
  "events_ok (empty_db\<lparr>db_events := [new_event_row sample_event 1 1], db_event_rowid := 1\<rparr>)"
  using append_event_gapless [OF _ sample_append] empty_db_ok by (simp add: db_ok_def)

text \<open>Reconnecting clients lose nothing. On a well-formed log, replaying a scope after cursor
  \<open>k\<close> returns exactly the events \<open>k+1\<close>, \<open>k+2\<close>, .. in order, at most \<open>limit\<close> of them, each carrying
  its position as sequence number; so a client that keeps asking from the last sequence number it
  saw reads every event of the scope exactly once.\<close>

lemma replay_is_gapless:
  assumes "events_ok db" and "int limit \<le> i64_max"
  shows "\<exists>page. db_list_runtime_events (Some (sc, i)) (Some (int k)) limit db = Inr page \<and>
    page = map decode (take limit (drop k (scope_rows sc i db))) \<and>
    map ev_seq page = map (\<lambda>j. int (k + j) + 1) [0..<min limit (length (scope_rows sc i db) - k)] \<and>
    page @ map decode (drop (k + limit) (scope_rows sc i db)) = map decode (drop k (scope_rows sc i db))"
proof -
  let ?rs = "scope_rows sc i db"
  have seqs: "seqs_from_one ?rs" using assms(1) by (simp add: events_ok_def)
  have "map ev_seq (map decode (take limit (drop k ?rs))) =
      map (\<lambda>j. int (k + j) + 1) [0..<min limit (length ?rs - k)]"
    by (rule nth_equalityI) (auto simp: decode_def seqs_from_one_nth [OF seqs])
  moreover have "take limit (drop k ?rs) @ drop (k + limit) ?rs = drop k ?rs"
    by (metis add.commute append_take_drop_id drop_drop)
  ultimately show ?thesis
    using replay_after [OF assms] by (metis map_append)
qed

lemma replay_is_gapless_witness:
  "\<exists>page. db_list_runtime_events (Some (ScopeSession, ''s'')) (Some (int 0)) 10
     (empty_db\<lparr>db_events := [new_event_row sample_event 1 1], db_event_rowid := 1\<rparr>) = Inr page \<and>
     length page = 1"
proof -
  let ?db = "empty_db\<lparr>db_events := [new_event_row sample_event 1 1], db_event_rowid := 1\<rparr>"
  have "events_ok ?db"
    using append_event_ok [OF _ sample_append] empty_db_ok by (simp add: db_ok_def)
  from replay_is_gapless [OF this, of 10 ScopeSession "''s''" 0] show ?thesis
    by (auto simp: i64_max_def scope_rows_def new_event_row_def sample_event_def)
qed

end
