(* ===== verification/Session_Manager.thy ===== *)
theory Session_Manager
  imports Sqlite_Store
begin

text \<open>
  \<open>RuntimeSessionManager\<close> of \<open>runtime-core/src/runtime\<close> (\<open>mod.rs\<close>, \<open>events.rs\<close>, \<open>helpers.rs\<close>,
  \<open>sessions.rs\<close>) with the provider trait (\<open>provider.rs\<close>) and registry (\<open>provider_registry.rs\<close>).

  The environment of every handler is explicit. The store is the database of \<open>Sqlite_Store\<close>; its
  \<open>n\<close>-th call fails with an I/O error exactly when \<open>env_faults n\<close> says so, and then changes
  nothing. \<open>now_ms\<close> reads the next value of an arbitrary clock. A provider is a record of
  functions on a provider state of arbitrary type: \<open>Arc<dyn RuntimeProvider>\<close> can be any adapter.
  \<open>tokio::spawn\<close> of a turn waiter puts the waiter into \<open>mg_tasks\<close>; the broadcast channel is the
  list of the events sent. A handler is one function from the state before to its result and the
  state after, in the order of the source's effects.
\<close>

section \<open>Environment: clock and store\<close>

record runtime_env =
  env_db :: database
  env_faults :: "nat \<Rightarrow> string option"
  env_store_ops :: nat
  env_clock :: "nat \<Rightarrow> int"
  env_clock_reads :: nat

definition now_ms :: "('z runtime_env_scheme, 'e, int) rt" where
  "now_ms s = (Inr (env_clock s (env_clock_reads s)), s\<lparr>env_clock_reads := Suc (env_clock_reads s)\<rparr>)"

definition store_call ::
  "(database \<Rightarrow> runtime_error + ('a \<times> database)) \<Rightarrow> ('z runtime_env_scheme, runtime_error, 'a) rt" where
  "store_call f s =
     (let s' = s\<lparr>env_store_ops := Suc (env_store_ops s)\<rparr> in
      case env_faults s (env_store_ops s) of
        Some msg \<Rightarrow> (Inl (Bootstrap msg), s')
      | None \<Rightarrow> (case f (env_db s) of
                   Inl e \<Rightarrow> (Inl e, s')
                 | Inr (x, db') \<Rightarrow> (Inr x, s'\<lparr>env_db := db'\<rparr>)))"

definition store_write :: "store_write \<Rightarrow> ('z runtime_env_scheme, runtime_error, unit) rt" where
  "store_write w =
     store_call (\<lambda>db. case apply_write w db of Inl e \<Rightarrow> Inl e | Inr db' \<Rightarrow> Inr ((), db'))"

section \<open>Providers (provider.rs, provider_registry.rs)\<close>

record 'p provider =
  pv_kind :: provider_kind
  pv_metadata :: provider_metadata
  pv_healthcheck :: "('p, runtime_error, unit) rt"
  pv_list_models :: "('p, runtime_error, provider_model list) rt"
  pv_auth_status :: "('p, runtime_error, provider_auth_status) rt"
  pv_auth_set_api_key :: "string \<Rightarrow> ('p, runtime_error, provider_auth_status) rt"
  pv_auth_import_json :: "json \<Rightarrow> ('p, runtime_error, provider_auth_status) rt"
  pv_auth_import_json_text :: "string \<Rightarrow> ('p, runtime_error, provider_auth_status) rt"
  pv_auth_logout :: "('p, runtime_error, provider_auth_status) rt"
  pv_create_session :: "create_session_request \<Rightarrow> ('p, runtime_error, provider_session) rt"
  pv_resume_session :: "resume_session_request \<Rightarrow> ('p, runtime_error, provider_session) rt"
  pv_send_turn :: "send_turn_request \<Rightarrow> ('p, runtime_error, turn_ack) rt"
  pv_interrupt_turn :: "interrupt_turn_request \<Rightarrow> ('p, runtime_error, unit) rt"
  pv_respond_approval :: "approval_response_request \<Rightarrow> ('p, runtime_error, unit) rt"
  pv_wait_for_turn :: "wait_turn_request \<Rightarrow> ('p, runtime_error, turn_result) rt"
  pv_close_session :: "close_session_request \<Rightarrow> ('p, runtime_error, unit) rt"

text \<open>The trait's default methods; only kind, metadata and healthcheck have none.\<close>

definition default_provider ::
  "provider_kind \<Rightarrow> provider_metadata \<Rightarrow> ('p, runtime_error, unit) rt \<Rightarrow> 'p provider" where
  "default_provider kind metadata healthcheck =
     \<lparr>pv_kind = kind, pv_metadata = metadata, pv_healthcheck = healthcheck,
      pv_list_models = ok [],
      pv_auth_status = err (Unsupported ''provider auth status is not supported''),
      pv_auth_set_api_key = (\<lambda>_. err (Unsupported ''provider auth api_key is not supported'')),
      pv_auth_import_json = (\<lambda>_. err (Unsupported ''provider auth import_json is not supported'')),
      pv_auth_import_json_text = (\<lambda>_. err (Unsupported ''provider auth import_json_text is not supported'')),
      pv_auth_logout = err (Unsupported ''provider auth logout is not supported''),
      pv_create_session = (\<lambda>_. err (Unsupported ''provider create_session is not supported'')),
      pv_resume_session = (\<lambda>_. err (Unsupported ''provider resume_session is not supported'')),
      pv_send_turn = (\<lambda>_. err (Unsupported ''provider send_turn is not supported'')),
      pv_interrupt_turn = (\<lambda>_. err (Unsupported ''provider interrupt_turn is not supported'')),
      pv_respond_approval = (\<lambda>_. err (Unsupported ''provider respond_approval is not supported'')),
      pv_wait_for_turn = (\<lambda>_. err (Unsupported ''provider wait_for_turn is not supported'')),
      pv_close_session = (\<lambda>_. err (Unsupported ''provider close_session is not supported''))\<rparr>"

type_synonym 'p registry = "(provider_kind, 'p provider) hmap"

definition registry_register :: "'p provider \<Rightarrow> 'p registry \<Rightarrow> runtime_error + 'p registry" where
  "registry_register p reg =
     (if hcontains reg (pv_kind p)
      then Inl (ProviderAlreadyRegistered (kind_as_str (pv_kind p)))
      else Inr (hinsert (pv_kind p) p reg))"

definition registry_metadata :: "'p registry \<Rightarrow> provider_metadata list" where
  "registry_metadata reg = sort_key pm_display_name (map pv_metadata (hvalues reg))"

section \<open>Session manager state (mod.rs)\<close>

record 'p manager = runtime_env +
  mg_providers :: "'p registry"
  mg_provider_state :: 'p
  mg_sessions :: "(string, session_record) hmap"
  mg_turns :: "(string, turn_record) hmap"
  mg_approvals :: "(string, approval_record) hmap"
  mg_next_id :: "64 word"
  mg_event_tx :: "event_record list"
  mg_tasks :: "(provider_kind \<times> string \<times> string) list"

record create_session_input =
  csi_provider :: provider_kind
  csi_model :: "string option"
  csi_cwd :: "string option"
  csi_permission_mode :: "string option"
  csi_metadata :: "json option"

record send_turn_input =
  sti_input :: "json list"
  sti_expected_turn_id :: "string option"
  sti_permission_mode :: "string option"

record resume_session_input =
  rsi_provider_session_ref :: "string option"
  rsi_canonical_ref :: "string option"

record approval_response_input =
  ari_decision :: string
  ari_payload :: "json option"

record send_turn_accepted =
  sta_session_id :: string
  sta_turn_id :: string
  sta_status :: string

text \<open>
  \<open>RuntimeSessionManager::new\<close>: what the manager holds after a start on an existing database.
\<close>

definition manager_new ::
  "database \<Rightarrow> (nat \<Rightarrow> string option) \<Rightarrow> (nat \<Rightarrow> int) \<Rightarrow> 'p registry \<Rightarrow> 'p \<Rightarrow> runtime_error + 'p manager" where
  "manager_new db faults clock providers pstate =
     (case faults 0 of
        Some msg \<Rightarrow> Inl (Bootstrap msg)
      | None \<Rightarrow>
          let hydrated = hydrate_runtime_state db in
          Inr \<lparr>env_db = db, env_faults = faults, env_store_ops = 1, env_clock = clock, env_clock_reads = 0,
               mg_providers = providers, mg_provider_state = pstate,
               mg_sessions = hcollect sess_id (hyd_sessions hydrated),
               mg_turns = hcollect turn_id (hyd_turns hydrated),
               mg_approvals = hcollect appr_id (hyd_approvals hydrated),
               mg_next_id = 1, mg_event_tx = [], mg_tasks = []\<rparr>)"

definition allocate_id :: "string \<Rightarrow> string \<Rightarrow> (('p, 'z) manager_scheme, 'e, string) rt" where
  "allocate_id prefix suffix =
     bindE (gets mg_next_id) (\<lambda>sq.
     bindE (modify (\<lambda>s. s\<lparr>mg_next_id := sq + 1\<rparr>)) (\<lambda>_.
     bindE now_ms (\<lambda>now.
     ok (prefix @ ''_'' @ suffix @ ''_'' @ dec_of_int now @ ''_'' @ dec_of_nat (unat sq)))))"

definition provider_call :: "('p, runtime_error, 'a) rt \<Rightarrow> (('p, 'z) manager_scheme, runtime_error, 'a) rt" where
  "provider_call f s =
     (case f (mg_provider_state s) of (r, p') \<Rightarrow> (r, s\<lparr>mg_provider_state := p'\<rparr>))"

definition require_provider :: "provider_kind \<Rightarrow> (('p, 'z) manager_scheme, runtime_error, 'p provider) rt" where
  "require_provider kind =
     bindE (gets mg_providers) (\<lambda>reg.
     ok_or_else (hget reg kind) (ProviderNotRegistered (kind_as_str kind)))"

definition require_kind :: "session_record \<Rightarrow> ('s, runtime_error, provider_kind) rt" where
  "require_kind session =
     ok_or_else (kind_from_str (sess_provider session))
       (ProtocolViolation (''unknown provider '' @ sess_provider session))"

definition put_session :: "string \<Rightarrow> session_record \<Rightarrow> (('p, 'z) manager_scheme, 'e, unit) rt" where
  "put_session i r = modify (\<lambda>s. s\<lparr>mg_sessions := hinsert i r (mg_sessions s)\<rparr>)"

definition put_turn :: "string \<Rightarrow> turn_record \<Rightarrow> (('p, 'z) manager_scheme, 'e, unit) rt" where
  "put_turn i r = modify (\<lambda>s. s\<lparr>mg_turns := hinsert i r (mg_turns s)\<rparr>)"

definition put_approval :: "string \<Rightarrow> approval_record \<Rightarrow> (('p, 'z) manager_scheme, 'e, unit) rt" where
  "put_approval i r = modify (\<lambda>s. s\<lparr>mg_approvals := hinsert i r (mg_approvals s)\<rparr>)"

section \<open>Events (events.rs)\<close>

definition append_event ::
  "event_scope \<Rightarrow> string \<Rightarrow> string option \<Rightarrow> string option \<Rightarrow> string \<Rightarrow> criticality \<Rightarrow> json \<Rightarrow>
   (('p, 'z) manager_scheme, runtime_error, event_record) rt" where
  "append_event scope scope_id session turn kind crit payload =
     bindE (allocate_id ''evt'' (scope_as_str scope)) (\<lambda>event_id.
     bindE now_ms (\<lambda>now.
     bindE (store_call (db_append_runtime_event
       \<lparr>ne_event_id = event_id, ne_scope = scope, ne_scope_id = scope_id, ne_session_id = session,
        ne_team_id = None, ne_turn_id = turn, ne_kind = kind, ne_criticality = crit,
        ne_payload = payload, ne_provider = None, ne_provider_seq = None, ne_created_at = now\<rparr>)) (\<lambda>record.
     bindE (modify (\<lambda>s. s\<lparr>mg_event_tx := mg_event_tx s @ [record]\<rparr>)) (\<lambda>_.
     ok record))))"

abbreviation session_event ::
  "string \<Rightarrow> string option \<Rightarrow> string \<Rightarrow> json \<Rightarrow> (('p, 'z) manager_scheme, runtime_error, event_record) rt" where
  "session_event sid turn kind payload \<equiv>
     append_event ScopeSession sid (Some sid) turn kind Critical payload"

section \<open>Pure helpers (helpers.rs)\<close>

definition is_terminal_turn_status :: "string \<Rightarrow> bool" where
  "is_terminal_turn_status status \<longleftrightarrow> status \<in> {''completed'', ''interrupted'', ''failed''}"

definition non_empty_trimmed :: "string option \<Rightarrow> string option" where
  "non_empty_trimmed v =
     (case v of None \<Rightarrow> None | Some raw \<Rightarrow> (let t = trim raw in if t = [] then None else Some t))"

fun turn_text_lines :: "json list \<Rightarrow> string list" where
  "turn_text_lines [] = []"
| "turn_text_lines (item # items) =
     (case non_empty_trimmed (Option.bind (jget item ''text'') as_str) of
        Some text \<Rightarrow> text # turn_text_lines items
      | None \<Rightarrow>
          (case non_empty_trimmed (as_str item) of
             Some raw \<Rightarrow> raw # turn_text_lines items
           | None \<Rightarrow> turn_text_lines items))"

definition extract_turn_user_text :: "json list option \<Rightarrow> string option" where
  "extract_turn_user_text input =
     (case input of
        None \<Rightarrow> None
      | Some items \<Rightarrow>
          (let lines = turn_text_lines items
           in if lines = [] then None else Some (join [CHR 0x0A, CHR 0x0A] lines)))"

definition or_else :: "'a option \<Rightarrow> 'a option \<Rightarrow> 'a option" where
  "or_else a b = (case a of None \<Rightarrow> b | Some x \<Rightarrow> Some x)"

definition extract_assistant_text :: "json \<Rightarrow> string option" where
  "extract_assistant_text usage =
     non_empty_trimmed
       (Option.bind
         (or_else (jget usage ''last_message'')
           (or_else (jget usage ''lastMessage'')
             (or_else (jget usage ''assistant_text'') (jget usage ''assistantText''))))
         as_str)"

definition transcript_row :: "string \<Rightarrow> string \<Rightarrow> json" where
  "transcript_row role txt = jobject [(''role'', JString role), (''text'', JString txt)]"

text \<open>Keep the 80 newest rows of the transcript: \<open>rows.drain(0..rows.len() - 80)\<close>.\<close>

definition trim_rows :: "json list \<Rightarrow> json list" where
  "trim_rows rows = (if length rows > 80 then drop (length rows - 80) rows else rows)"

definition append_session_transcript :: "json \<Rightarrow> string \<Rightarrow> string \<Rightarrow> json" where
  "append_session_transcript metadata role txt =
     (let obj0 = (case metadata of JObject kvs \<Rightarrow> kvs | _ \<Rightarrow> []);
          obj1 = (if obj_get obj0 ''session_transcript'' = None
                  then (case obj_get obj0 ''codex_transcript'' of
                          None \<Rightarrow> obj0
                        | Some existing \<Rightarrow> obj_insert ''session_transcript'' existing (obj_remove ''codex_transcript'' obj0))
                  else obj0);
          rows = (case obj_get obj1 ''session_transcript'' of Some (JArray rows) \<Rightarrow> rows | _ \<Rightarrow> [])
      in JObject (obj_insert ''session_transcript''
           (JArray (trim_rows (rows @ [transcript_row role txt]))) obj1))"

section \<open>Sessions (sessions.rs)\<close>

definition list_sessions :: "('p, 'z) manager_scheme \<Rightarrow> session_record list" where
  "list_sessions s = sort_key (\<lambda>r. - sess_updated_at r) (hvalues (mg_sessions s))"

definition get_session :: "string \<Rightarrow> (('p, 'z) manager_scheme, runtime_error, session_record) rt" where
  "get_session sid =
     bindE (gets mg_sessions) (\<lambda>sessions.
     ok_or_else (hget sessions sid) (NotFound (''session '' @ sid)))"

definition list_session_turns :: "string \<Rightarrow> (('p, 'z) manager_scheme, runtime_error, turn_record list) rt" where
  "list_session_turns sid =
     bindE (get_session sid) (\<lambda>_.
     bindE (gets mg_turns) (\<lambda>turns.
     ok (sort_key (\<lambda>t. (turn_started_at t, turn_completed_at t, turn_id t))
          (filter (\<lambda>t. turn_session_id t = sid) (hvalues turns)))))"

definition set_session_worktree_id ::
  "string \<Rightarrow> string option \<Rightarrow> (('p, 'z) manager_scheme, runtime_error, session_record) rt" where
  "set_session_worktree_id sid wt =
     bindE (get_session sid) (\<lambda>session.
     bindE now_ms (\<lambda>now.
     let updated = session\<lparr>sess_worktree_id := wt, sess_updated_at := now\<rparr> in
     bindE (put_session sid updated) (\<lambda>_.
     bindE (store_write (WSession updated)) (\<lambda>_.
     ok updated))))"

definition provider_auth_status :: "provider_kind \<Rightarrow> (('p, 'z) manager_scheme, runtime_error, provider_auth_status) rt" where
  "provider_auth_status kind = bindE (require_provider kind) (\<lambda>p. provider_call (pv_auth_status p))"

definition provider_auth_set_api_key ::
  "provider_kind \<Rightarrow> string \<Rightarrow> (('p, 'z) manager_scheme, runtime_error, provider_auth_status) rt" where
  "provider_auth_set_api_key kind key =
     bindE (require_provider kind) (\<lambda>p. provider_call (pv_auth_set_api_key p key))"

definition provider_auth_import_json ::
  "provider_kind \<Rightarrow> json \<Rightarrow> (('p, 'z) manager_scheme, runtime_error, provider_auth_status) rt" where
  "provider_auth_import_json kind j =
     bindE (require_provider kind) (\<lambda>p. provider_call (pv_auth_import_json p j))"

definition provider_auth_import_json_text ::
  "provider_kind \<Rightarrow> string \<Rightarrow> (('p, 'z) manager_scheme, runtime_error, provider_auth_status) rt" where
  "provider_auth_import_json_text kind txt =
     bindE (require_provider kind) (\<lambda>p. provider_call (pv_auth_import_json_text p txt))"

definition provider_auth_logout :: "provider_kind \<Rightarrow> (('p, 'z) manager_scheme, runtime_error, provider_auth_status) rt" where
  "provider_auth_logout kind = bindE (require_provider kind) (\<lambda>p. provider_call (pv_auth_logout p))"

definition new_session_record ::
  "create_session_input \<Rightarrow> string \<Rightarrow> provider_session \<Rightarrow> int \<Rightarrow> session_record" where
  "new_session_record input sid created now =
     \<lparr>sess_id = sid, sess_provider = kind_as_str (csi_provider input), sess_status = ''ready'',
      sess_cwd = csi_cwd input, sess_model = csi_model input,
      sess_permission_mode = csi_permission_mode input, sess_system_prompt = None,
      sess_metadata = (case csi_metadata input of None \<Rightarrow> JObject [] | Some m \<Rightarrow> m),
      sess_provider_session_ref = Some (psn_provider_session_ref created),
      sess_canonical_ref = psn_canonical_ref created, sess_active_turn_id = None,
      sess_worktree_id = None, sess_created_at = now, sess_updated_at = now, sess_closed_at = None,
      sess_failure_code = None, sess_failure_message = None\<rparr>"

definition create_session ::
  "create_session_input \<Rightarrow> (('p, 'z) manager_scheme, runtime_error, session_record) rt" where
  "create_session input =
     bindE (require_provider (csi_provider input)) (\<lambda>p.
     bindE now_ms (\<lambda>now.
     bindE (allocate_id ''sess'' (kind_as_str (csi_provider input))) (\<lambda>sid.
     bindE (provider_call (pv_create_session p
       \<lparr>csr_session_id = sid, csr_model = csi_model input, csr_cwd = csi_cwd input,
        csr_permission_mode = csi_permission_mode input, csr_metadata = csi_metadata input\<rparr>)) (\<lambda>created.
     if psn_session_id created \<noteq> sid
     then err (ProtocolViolation (''provider returned mismatched runtime session id (expected='' @ sid
                 @ '', actual='' @ psn_session_id created @ '')''))
     else
     let record = new_session_record input sid created now in
     bindE (store_write (WSession record)) (\<lambda>_.
     bindE (put_session sid record) (\<lambda>_.
     bindE (session_event sid None ''session.created''
              (jobject [(''provider'', JString (sess_provider record))])) (\<lambda>_.
     ok record)))))))"

definition finalize_session_close ::
  "string \<Rightarrow> string \<Rightarrow> (('p, 'z) manager_scheme, runtime_error, session_record) rt" where
  "finalize_session_close sid reason =
     bindE (get_session sid) (\<lambda>session.
     bindE now_ms (\<lambda>closed.
     bindE now_ms (\<lambda>now.
     let updated = session\<lparr>sess_status := ''closed'', sess_closed_at := Some closed,
                           sess_updated_at := now, sess_active_turn_id := None\<rparr> in
     bindE (store_write (WSession updated)) (\<lambda>_.
     bindE (put_session sid updated) (\<lambda>_.
     bindE (session_event sid None ''session.closed'' (jobject [(''reason'', JString reason)])) (\<lambda>_.
     ok updated))))))"

definition close_session ::
  "string \<Rightarrow> string option \<Rightarrow> (('p, 'z) manager_scheme, runtime_error, session_record) rt" where
  "close_session sid reason =
     bindE (get_session sid) (\<lambda>session.
     bindE (require_kind session) (\<lambda>kind.
     bindE (require_provider kind) (\<lambda>p.
     bindE (provider_call (pv_close_session p \<lparr>clr_session_id = sid, clr_reason = reason\<rparr>)) (\<lambda>_.
     finalize_session_close sid (case reason of None \<Rightarrow> ''closed_by_request'' | Some r \<Rightarrow> r)))))"

definition force_close_session ::
  "string \<Rightarrow> string option \<Rightarrow> (('p, 'z) manager_scheme, runtime_error, session_record) rt" where
  "force_close_session sid reason =
     finalize_session_close sid (case reason of None \<Rightarrow> ''closed_by_runtime_rollback'' | Some r \<Rightarrow> r)"

definition resume_session ::
  "string \<Rightarrow> resume_session_input \<Rightarrow> (('p, 'z) manager_scheme, runtime_error, session_record) rt" where
  "resume_session sid input =
     bindE (get_session sid) (\<lambda>session.
     bindE (require_kind session) (\<lambda>kind.
     bindE (require_provider kind) (\<lambda>p.
     bindE (ok_or_else (or_else (rsi_provider_session_ref input) (sess_provider_session_ref session))
              (InvalidState (''session '' @ sid @ '' has no provider_session_ref to resume''))) (\<lambda>pref.
     let cref = or_else (rsi_canonical_ref input) (sess_canonical_ref session) in
     bindE (provider_call (pv_resume_session p
       \<lparr>rsr_session_id = sid, rsr_provider_session_ref = pref, rsr_canonical_ref = cref,
        rsr_cwd = sess_cwd session, rsr_metadata = Some (sess_metadata session)\<rparr>)) (\<lambda>resumed.
     if psn_session_id resumed \<noteq> sid
     then err (ProtocolViolation (''provider resume returned mismatched session id (expected='' @ sid
                 @ '', actual='' @ psn_session_id resumed @ '')''))
     else
     bindE now_ms (\<lambda>now.
     let updated = session\<lparr>sess_provider_session_ref := Some (psn_provider_session_ref resumed),
                           sess_canonical_ref := psn_canonical_ref resumed,
                           sess_status := (if sess_status session \<noteq> ''closed'' then ''ready'' else sess_status session),
                           sess_updated_at := now\<rparr> in
     bindE (store_write (WSession updated)) (\<lambda>_.
     bindE (put_session sid updated) (\<lambda>_.
     bindE (session_event sid None ''session.resumed'' (jobject [])) (\<lambda>_.
     ok updated)))))))))"

end
