(* ===== verification/Turns.thy ===== *)
theory Turns
  imports Session_Manager
begin

text \<open>
  Turns and approvals of the session manager (\<open>runtime-core/src/runtime/turns.rs\<close>): sending a
  turn with the resume fallback, interrupting it, answering an approval, and applying the
  provider's terminal result when the spawned waiter finishes. \<open>send_turn\<close> is written in the three
  phases the source has: admission (checks and ids), dispatch to the provider, and recording either
  the accepted or the failed turn.
\<close>

section \<open>Sending a turn\<close>

definition dispatch_send_turn_with_resume_fallback ::
  "provider_kind \<Rightarrow> send_turn_request \<Rightarrow> string option \<Rightarrow> string option \<Rightarrow> string option \<Rightarrow> json \<Rightarrow>
   (('p, 'z) manager_scheme, runtime_error, turn_ack) rt" where
  "dispatch_send_turn_with_resume_fallback kind request cwd pref cref metadata =
     bindE (require_provider kind) (\<lambda>p.
     bindE (attempt (provider_call (pv_send_turn p request))) (\<lambda>first.
     case first of
       Inr ack \<Rightarrow> ok ack
     | Inl (NotFound _) \<Rightarrow>
         bindE (ok_or_else pref (NotFound (''provider session '' @ str_session_id request
                  @ '' was not found and cannot be resumed''))) (\<lambda>pref'.
         bindE (provider_call (pv_resume_session p
           \<lparr>rsr_session_id = str_session_id request, rsr_provider_session_ref = pref',
            rsr_canonical_ref = cref, rsr_cwd = cwd, rsr_metadata = Some metadata\<rparr>)) (\<lambda>_.
         provider_call (pv_send_turn p request)))
     | Inl e \<Rightarrow> err e))"

record turn_admission =
  adm_session :: session_record
  adm_kind :: provider_kind
  adm_turn_id :: string
  adm_now :: int
  adm_permission_mode :: "string option"
  adm_requires_approval :: bool
  adm_approval_id :: "string option"

definition send_turn_admit ::
  "string \<Rightarrow> send_turn_input \<Rightarrow> (('p, 'z) manager_scheme, runtime_error, turn_admission) rt" where
  "send_turn_admit sid input =
     bindE (get_session sid) (\<lambda>session.
     if sess_status session = ''closed'' \<or> sess_status session = ''failed''
     then err (InvalidState (''session '' @ sid @ '' is not writable in status '' @ sess_status session))
     else if sess_active_turn_id session \<noteq> None
     then err (InvalidState (''session '' @ sid @ '' already has an active turn''))
     else
     bindE (require_kind session) (\<lambda>kind.
     bindE (allocate_id ''turn'' (kind_as_str kind)) (\<lambda>tid.
     bindE now_ms (\<lambda>now.
     let mode = or_else (sti_permission_mode input) (sess_permission_mode session);
         needs = (mode = Some ''require_approval'') in
     bindE (if needs then bindE (allocate_id ''apr'' (kind_as_str kind)) (\<lambda>a. ok (Some a)) else ok None) (\<lambda>aid.
     ok \<lparr>adm_session = session, adm_kind = kind, adm_turn_id = tid, adm_now = now,
         adm_permission_mode = mode, adm_requires_approval = needs, adm_approval_id = aid\<rparr>)))))"

definition new_turn_record ::
  "string \<Rightarrow> string \<Rightarrow> string \<Rightarrow> json list \<Rightarrow> int \<Rightarrow> int option \<Rightarrow> json option \<Rightarrow> turn_record" where
  "new_turn_record tid sid status input started completed error =
     \<lparr>turn_id = tid, turn_session_id = sid, turn_provider_ref = None, turn_status = status,
      turn_input = JArray input, turn_source = Some ''user'', turn_started_at = Some started,
      turn_completed_at = completed, turn_usage = None, turn_error = error\<rparr>"

definition error_json :: "runtime_error \<Rightarrow> json" where
  "error_json e = jobject [(''message'', JString (error_to_string e))]"

text \<open>The provider refused the turn: persist a failed turn, keep the session writable.\<close>

definition send_turn_failed ::
  "string \<Rightarrow> send_turn_input \<Rightarrow> turn_admission \<Rightarrow> runtime_error \<Rightarrow> (('p, 'z) manager_scheme, runtime_error, 'b) rt" where
  "send_turn_failed sid input adm error =
     (let session = adm_session adm; tid = adm_turn_id adm in
     bindE now_ms (\<lambda>completed.
     bindE now_ms (\<lambda>now.
     let turn = new_turn_record tid sid ''failed'' (sti_input input) (adm_now adm) (Some completed) (Some (error_json error));
         failed = session\<lparr>sess_active_turn_id := None,
                          sess_status := (if sess_status session \<noteq> ''closed'' \<and> sess_status session \<noteq> ''failed''
                                          then ''ready'' else sess_status session),
                          sess_updated_at := now\<rparr> in
     bindE (store_write (WTurn turn)) (\<lambda>_.
     bindE (store_write (WSession failed)) (\<lambda>_.
     bindE (put_turn tid turn) (\<lambda>_.
     bindE (put_session sid failed) (\<lambda>_.
     bindE (session_event sid (Some tid) ''turn.failed''
              (jobject [(''error'', JString (error_to_string error))])) (\<lambda>_.
     err error))))))))"

definition new_approval_record :: "string \<Rightarrow> string \<Rightarrow> string \<Rightarrow> int \<Rightarrow> approval_record" where
  "new_approval_record aid sid tid now =
     \<lparr>appr_id = aid, appr_session_id = sid, appr_turn_id = tid, appr_tool_call_id = None,
      appr_provider_ref = Some aid, appr_status = ''pending'',
      appr_request = jobject [(''reason'', JString ''manual approval required before provider execution'')],
      appr_response = None, appr_created_at = now, appr_resolved_at = None\<rparr>"

definition spawn_wait_for_turn :: "provider_kind \<Rightarrow> string \<Rightarrow> string \<Rightarrow> (('p, 'z) manager_scheme, 'e, unit) rt" where
  "spawn_wait_for_turn kind sid tid = modify (\<lambda>s. s\<lparr>mg_tasks := mg_tasks s @ [(kind, sid, tid)]\<rparr>)"

definition send_turn_accept ::
  "string \<Rightarrow> send_turn_input \<Rightarrow> turn_admission \<Rightarrow> (('p, 'z) manager_scheme, runtime_error, send_turn_accepted) rt" where
  "send_turn_accept sid input adm =
     (let tid = adm_turn_id adm; needs = adm_requires_approval adm; now = adm_now adm;
          turn = new_turn_record tid sid (if needs then ''waiting_for_approval'' else ''in_progress'')
                   (sti_input input) now None None;
          updated = (adm_session adm)\<lparr>
            sess_status := (if needs then ''waiting_for_approval'' else ''turn_running''),
            sess_active_turn_id := Some tid, sess_updated_at := now\<rparr> in
     bindE (store_write (WTurn turn)) (\<lambda>_.
     bindE (store_write (WSession updated)) (\<lambda>_.
     bindE (put_turn tid turn) (\<lambda>_.
     bindE (put_session sid updated) (\<lambda>_.
     bindE
       (case (needs, adm_approval_id adm) of
          (True, Some aid) \<Rightarrow>
            let approval = new_approval_record aid sid tid now in
            bindE (store_write (WApproval approval)) (\<lambda>_.
            bindE (put_approval aid approval) (\<lambda>_.
            bindE (session_event sid (Some tid) ''approval.requested''
                     (jobject [(''approval_id'', JString aid)])) (\<lambda>_. ok ())))
        | _ \<Rightarrow>
            bindE (session_event sid (Some tid) ''turn.started'' (jobject [])) (\<lambda>_.
            spawn_wait_for_turn (adm_kind adm) sid tid)) (\<lambda>_.
     ok \<lparr>sta_session_id = sid, sta_turn_id = tid,
         sta_status = (if needs then ''waiting_for_approval'' else ''in_progress'')\<rparr>))))))"

definition send_turn ::
  "string \<Rightarrow> send_turn_input \<Rightarrow> (('p, 'z) manager_scheme, runtime_error, send_turn_accepted) rt" where
  "send_turn sid input =
     bindE (send_turn_admit sid input) (\<lambda>adm.
     let session = adm_session adm; tid = adm_turn_id adm in
     bindE (attempt (dispatch_send_turn_with_resume_fallback (adm_kind adm)
       \<lparr>str_session_id = sid, str_turn_id = tid, str_input = sti_input input,
        str_expected_turn_id = sti_expected_turn_id input,
        str_permission_mode = adm_permission_mode adm, str_approval_id = adm_approval_id adm\<rparr>
       (sess_cwd session) (sess_provider_session_ref session) (sess_canonical_ref session)
       (sess_metadata session))) (\<lambda>result.
     case result of
       Inr ack \<Rightarrow>
         if ack_session_id ack \<noteq> sid \<or> ack_turn_id ack \<noteq> tid
         then err (ProtocolViolation (''provider send_turn acknowledgement mismatch (expected_session='' @ sid
                     @ '', expected_turn='' @ tid @ '', actual_session='' @ ack_session_id ack
                     @ '', actual_turn='' @ ack_turn_id ack @ '')''))
         else send_turn_accept sid input adm
     | Inl e \<Rightarrow> send_turn_failed sid input adm e))"

section \<open>Interrupting a turn\<close>

definition interrupt_turn :: "string \<Rightarrow> string \<Rightarrow> (('p, 'z) manager_scheme, runtime_error, unit) rt" where
  "interrupt_turn sid tid =
     bindE (get_session sid) (\<lambda>session.
     if sess_active_turn_id session \<noteq> Some tid
     then err (InvalidState (''turn '' @ tid @ '' is not active for session '' @ sid))
     else
     bindE (require_kind session) (\<lambda>kind.
     bindE (require_provider kind) (\<lambda>p.
     bindE (provider_call (pv_interrupt_turn p \<lparr>itr_session_id = sid, itr_turn_id = tid\<rparr>)) (\<lambda>_.
     bindE (session_event sid (Some tid) ''turn.interrupt_requested'' (jobject [])) (\<lambda>_.
     ok ())))))"

section \<open>Answering an approval\<close>

definition approval_accepted ::
  "provider_kind \<Rightarrow> string \<Rightarrow> string \<Rightarrow> (('p, 'z) manager_scheme, runtime_error, unit) rt" where
  "approval_accepted kind sid tid =
     bindE (gets (\<lambda>s. hget (mg_turns s) tid)) (\<lambda>found_turn.
     bindE (case found_turn of
              None \<Rightarrow> ok ()
            | Some turn \<Rightarrow>
                let turn' = turn\<lparr>turn_status := ''in_progress'', turn_error := None\<rparr> in
                bindE (put_turn tid turn') (\<lambda>_. store_write (WTurn turn'))) (\<lambda>_.
     bindE (gets (\<lambda>s. hget (mg_sessions s) sid)) (\<lambda>found_session.
     bindE (case found_session of
              None \<Rightarrow> ok ()
            | Some session \<Rightarrow>
                bindE now_ms (\<lambda>now.
                let session' = session\<lparr>sess_status := ''turn_running'', sess_updated_at := now\<rparr> in
                bindE (put_session sid session') (\<lambda>_. store_write (WSession session')))) (\<lambda>_.
     bindE (session_event sid (Some tid) ''turn.started''
              (jobject [(''source'', JString ''approval.accepted'')])) (\<lambda>_.
     spawn_wait_for_turn kind sid tid)))))"

definition approval_declined ::
  "string \<Rightarrow> string \<Rightarrow> (('p, 'z) manager_scheme, runtime_error, unit) rt" where
  "approval_declined sid tid =
     bindE (gets (\<lambda>s. hget (mg_turns s) tid)) (\<lambda>found_turn.
     bindE (case found_turn of
              None \<Rightarrow> ok ()
            | Some turn \<Rightarrow>
                bindE now_ms (\<lambda>completed.
                let turn' = turn\<lparr>turn_status := ''interrupted'', turn_completed_at := Some completed,
                                 turn_error := Some (jobject [(''message'', JString ''approval declined'')])\<rparr> in
                bindE (put_turn tid turn') (\<lambda>_. store_write (WTurn turn')))) (\<lambda>_.
     bindE (gets (\<lambda>s. hget (mg_sessions s) sid)) (\<lambda>found_session.
     bindE (case found_session of
              None \<Rightarrow> ok ()
            | Some session \<Rightarrow>
                bindE now_ms (\<lambda>now.
                let session' = session\<lparr>
                      sess_active_turn_id := (if sess_active_turn_id session = Some tid then None
                                              else sess_active_turn_id session),
                      sess_status := (if sess_status session \<noteq> ''closed'' \<and> sess_status session \<noteq> ''failed''
                                      then ''ready'' else sess_status session),
                      sess_updated_at := now\<rparr> in
                bindE (put_session sid session') (\<lambda>_. store_write (WSession session')))) (\<lambda>_.
     bindE (session_event sid (Some tid) ''turn.interrupted''
              (jobject [(''source'', JString ''approval.declined'')])) (\<lambda>_. ok ())))))"

definition respond_approval ::
  "string \<Rightarrow> string \<Rightarrow> approval_response_input \<Rightarrow> (('p, 'z) manager_scheme, runtime_error, approval_record) rt" where
  "respond_approval sid aid input =
     bindE (get_session sid) (\<lambda>session.
     bindE (require_kind session) (\<lambda>kind.
     bindE (require_provider kind) (\<lambda>p.
     bindE (gets mg_approvals) (\<lambda>approvals.
     bindE (ok_or_else (hget approvals aid) (NotFound (''approval '' @ aid))) (\<lambda>existing.
     if appr_session_id existing \<noteq> sid
     then err (ProtocolViolation (''approval '' @ aid @ '' does not belong to session '' @ sid))
     else if appr_status existing \<noteq> ''pending''
     then err (InvalidState (''approval '' @ aid @ '' is not pending''))
     else
     bindE (lift_result (decision_parse (ari_decision input))) (\<lambda>decision.
     bindE (provider_call (pv_respond_approval p
       \<lparr>arr_session_id = sid, arr_turn_id = appr_turn_id existing, arr_approval_id = aid,
        arr_decision = decision_as_str decision, arr_payload = ari_payload input\<rparr>)) (\<lambda>_.
     bindE now_ms (\<lambda>now.
     let resolved = existing\<lparr>appr_status := decision_as_str decision, appr_response := ari_payload input,
                             appr_resolved_at := Some now\<rparr>;
         tid = appr_turn_id resolved in
     bindE (store_write (WApproval resolved)) (\<lambda>_.
     bindE (put_approval aid resolved) (\<lambda>_.
     bindE (session_event sid (Some tid) ''approval.resolved'' (jobject [(''approval_id'', JString aid)])) (\<lambda>_.
     bindE (case decision of Accept \<Rightarrow> approval_accepted kind sid tid
                           | Decline \<Rightarrow> approval_declined sid tid) (\<lambda>_.
     ok resolved))))))))))))"

definition replay_session_events ::
  "string \<Rightarrow> int option \<Rightarrow> nat \<Rightarrow> (('p, 'z) manager_scheme, runtime_error, event_record list) rt" where
  "replay_session_events sid after limit =
     store_call (\<lambda>db. case db_list_runtime_events (Some (ScopeSession, sid)) after (max limit 1) db of
                        Inl e \<Rightarrow> Inl e | Inr evs \<Rightarrow> Inr (evs, db))"

section \<open>Terminal results\<close>

definition transcript_update :: "json \<Rightarrow> json \<Rightarrow> json option \<Rightarrow> json" where
  "transcript_update metadata input usage =
     (let user = extract_turn_user_text (as_array input);
          assistant = Option.bind usage extract_assistant_text;
          m1 = (case user of None \<Rightarrow> metadata | Some t \<Rightarrow> append_session_transcript metadata ''user'' t)
      in (case assistant of None \<Rightarrow> m1 | Some t \<Rightarrow> append_session_transcript m1 ''assistant'' t))"

fun terminal_event_kind :: "turn_result_status \<Rightarrow> string" where
  "terminal_event_kind Completed = ''turn.completed''"
| "terminal_event_kind Interrupted = ''turn.interrupted''"
| "terminal_event_kind Failed = ''turn.failed''"
| "terminal_event_kind InProgress = ''turn.in_progress''"

definition terminal_conflict_message :: "string \<Rightarrow> string \<Rightarrow> string \<Rightarrow> string" where
  "terminal_conflict_message tid stored incoming =
     ''conflicting terminal state for turn '' @ tid @ '' (stored='' @ stored @ '', incoming='' @ incoming @ '')''"

definition finished_session :: "session_record \<Rightarrow> turn_record \<Rightarrow> turn_result \<Rightarrow> int \<Rightarrow> session_record" where
  "finished_session session turn result now =
     session\<lparr>
       sess_active_turn_id := (if sess_active_turn_id session = Some (res_turn_id result) then None
                               else sess_active_turn_id session),
       sess_status := (if sess_status session \<noteq> ''closed'' \<and> sess_status session \<noteq> ''failed''
                       then ''ready'' else sess_status session),
       sess_metadata := (if res_status result = Completed \<or> res_status result = Interrupted
                         then transcript_update (sess_metadata session) (turn_input turn) (res_usage result)
                         else sess_metadata session),
       sess_updated_at := now\<rparr>"

text \<open>A second, different terminal status: the stored one stands and the session fails.\<close>

definition terminal_conflict :: "turn_record \<Rightarrow> turn_result \<Rightarrow> (('p, 'z) manager_scheme, runtime_error, unit) rt" where
  "terminal_conflict turn result =
     (let owner = turn_session_id turn;
          conflict = terminal_conflict_message (res_turn_id result) (turn_status turn)
                       (result_status_as_str (res_status result)) in
     bindE (gets (\<lambda>s. hget (mg_sessions s) owner)) (\<lambda>found.
     bindE (case found of
              None \<Rightarrow> ok ()
            | Some session \<Rightarrow>
                bindE now_ms (\<lambda>now.
                let session' = session\<lparr>sess_status := ''failed'', sess_failure_code := Some ''terminal_conflict'',
                                       sess_failure_message := Some conflict, sess_updated_at := now\<rparr> in
                bindE (put_session owner session') (\<lambda>_. store_write (WSession session')))) (\<lambda>_.
     err (ProtocolViolation conflict))))"

text \<open>The first terminal status: the turn is finished and its session freed.\<close>

definition finish_turn :: "turn_record \<Rightarrow> turn_result \<Rightarrow> (('p, 'z) manager_scheme, runtime_error, unit) rt" where
  "finish_turn turn result =
     (let tid = res_turn_id result; sid = res_session_id result;
          incoming = result_status_as_str (res_status result) in
     bindE now_ms (\<lambda>completed.
     let turn' = turn\<lparr>turn_status := incoming, turn_completed_at := Some completed,
                      turn_usage := res_usage result, turn_error := res_error result\<rparr> in
     bindE (put_turn tid turn') (\<lambda>_.
     bindE (store_write (WTurn turn')) (\<lambda>_.
     bindE (get_session sid) (\<lambda>session.
     bindE now_ms (\<lambda>now.
     let session' = finished_session session turn' result now in
     bindE (put_session sid session') (\<lambda>_.
     bindE (store_write (WSession session')) (\<lambda>_.
     bindE (session_event sid (Some tid) (terminal_event_kind (res_status result))
              (jobject [(''status'', JString incoming),
                        (''usage'', jopt id (res_usage result)),
                        (''error'', jopt id (res_error result)),
                        (''assistant_text'', jopt JString (Option.bind (res_usage result) extract_assistant_text))])) (\<lambda>_.
     ok ())))))))))"

definition apply_terminal_result :: "turn_result \<Rightarrow> (('p, 'z) manager_scheme, runtime_error, unit) rt" where
  "apply_terminal_result result =
     (let tid = res_turn_id result in
     bindE (gets mg_turns) (\<lambda>turns.
     bindE (ok_or_else (hget turns tid) (NotFound (''turn '' @ tid))) (\<lambda>turn.
     if turn_session_id turn \<noteq> res_session_id result
     then err (ProtocolViolation (''provider turn ownership mismatch for turn '' @ tid))
     else if is_terminal_turn_status (turn_status turn)
     then if turn_status turn = result_status_as_str (res_status result) then ok ()
          else terminal_conflict turn result
     else finish_turn turn result)))"

lemmas terminal_defs = apply_terminal_result_def terminal_conflict_def finish_turn_def

definition fail_live_turn :: "string \<Rightarrow> runtime_error \<Rightarrow> (('p, 'z) manager_scheme, runtime_error, unit) rt" where
  "fail_live_turn tid error =
     bindE (gets (\<lambda>s. hget (mg_turns s) tid)) (\<lambda>found.
     case found of
       None \<Rightarrow> ok ()
     | Some turn \<Rightarrow>
         if is_terminal_turn_status (turn_status turn) then ok ()
         else
         bindE now_ms (\<lambda>completed.
         let turn' = turn\<lparr>turn_status := ''failed'', turn_completed_at := Some completed,
                          turn_error := Some (error_json error)\<rparr> in
         bindE (put_turn tid turn') (\<lambda>_. store_write (WTurn turn'))))"

definition fail_waiting_session ::
  "string \<Rightarrow> string \<Rightarrow> runtime_error \<Rightarrow> (('p, 'z) manager_scheme, runtime_error, unit) rt" where
  "fail_waiting_session sid tid error =
     bindE (gets (\<lambda>s. hget (mg_sessions s) sid)) (\<lambda>found.
     case found of
       None \<Rightarrow> ok ()
     | Some session \<Rightarrow>
         bindE now_ms (\<lambda>now.
         let session' = session\<lparr>
               sess_active_turn_id := (if sess_active_turn_id session = Some tid then None
                                       else sess_active_turn_id session),
               sess_status := ''failed'', sess_failure_code := Some ''provider_wait_failure'',
               sess_failure_message := Some (error_to_string error), sess_updated_at := now\<rparr> in
         bindE (put_session sid session') (\<lambda>_. store_write (WSession session'))))"

definition apply_terminal_failure ::
  "string \<Rightarrow> string \<Rightarrow> runtime_error \<Rightarrow> (('p, 'z) manager_scheme, runtime_error, unit) rt" where
  "apply_terminal_failure sid tid error =
     bindE (fail_live_turn tid error) (\<lambda>_.
     bindE (fail_waiting_session sid tid error) (\<lambda>_.
     bindE (session_event sid (Some tid) ''provider.error''
              (jobject [(''error'', JString (error_to_string error))])) (\<lambda>_. ok ())))"

lemmas failure_defs = apply_terminal_failure_def fail_live_turn_def fail_waiting_session_def

text \<open>The body of the spawned waiter, run when the provider's \<open>wait_for_turn\<close> returns.\<close>

definition run_wait_task :: "provider_kind \<Rightarrow> string \<Rightarrow> string \<Rightarrow> (('p, 'z) manager_scheme, runtime_error, unit) rt" where
  "run_wait_task kind sid tid =
     bindE (gets (\<lambda>s. hget (mg_providers s) kind)) (\<lambda>found.
     case found of
       None \<Rightarrow> ok ()
     | Some p \<Rightarrow>
         bindE (attempt (provider_call (pv_wait_for_turn p
           \<lparr>wtr_session_id = sid, wtr_turn_id = tid, wtr_timeout_ms = None\<rparr>))) (\<lambda>result.
         case result of
           Inr turn_result \<Rightarrow> ignore (apply_terminal_result turn_result)
         | Inl e \<Rightarrow> ignore (apply_terminal_failure sid tid e)))"

text \<open>The runtime picks the \<open>n\<close>-th outstanding waiter.\<close>

definition wait_step :: "nat \<Rightarrow> (('p, 'z) manager_scheme, runtime_error, unit) rt" where
  "wait_step n =
     bindE (gets mg_tasks) (\<lambda>tasks.
     if n < length tasks
     then bindE (modify (\<lambda>s. s\<lparr>mg_tasks := take n tasks @ drop (Suc n) tasks\<rparr>)) (\<lambda>_.
          case tasks ! n of (kind, sid, tid) \<Rightarrow> run_wait_task kind sid tid)
     else ok ())"

end
