(* ===== verification/Durability.thy ===== *)
theory Durability
  imports Turns
begin

text \<open>
  Memory and disk agree. The session manager keeps sessions, turns and approvals in hash maps and
  writes every change through to the store. \<open>mirrored\<close> says that the tables hold exactly what the
  maps hold; \<open>durable\<close> adds the integrity of the database. Every handler keeps it while the store
  answers (\<open>no_faults\<close>), so a restart on the same database rebuilds the same maps.
\<close>

section \<open>The invariant\<close>

definition no_faults :: "'z runtime_env_scheme \<Rightarrow> bool" where
  "no_faults s \<longleftrightarrow> env_faults s = (\<lambda>_. None)"

definition mirrored :: "('p, 'z) manager_scheme \<Rightarrow> bool" where
  "mirrored s \<longleftrightarrow>
     (\<forall>k. tbl_find sess_id k (db_sessions (env_db s)) = hget (mg_sessions s) k) \<and>
     (\<forall>k. tbl_find turn_id k (db_turns (env_db s)) = hget (mg_turns s) k) \<and>
     (\<forall>k. tbl_find appr_id k (db_approvals (env_db s)) = hget (mg_approvals s) k)"

definition durable :: "('p, 'z) manager_scheme \<Rightarrow> bool" where
  "durable s \<longleftrightarrow> mirrored s \<and> db_ok (env_db s) \<and> no_faults s"

section \<open>Running the primitive operations\<close>

lemma bindE_now [monad_simps]:
  "bindE now_ms f s = f (env_clock s (env_clock_reads s)) (s\<lparr>env_clock_reads := Suc (env_clock_reads s)\<rparr>)"
  by (simp add: bindE_def now_ms_def)

lemma bindE_get_session [monad_simps]:
  "bindE (get_session sid) f s =
     (case hget (mg_sessions s) sid of None \<Rightarrow> (Inl (NotFound (''session '' @ sid)), s) | Some r \<Rightarrow> f r s)"
  by (simp add: get_session_def monad_simps split: option.splits)

lemma bindE_require_provider [monad_simps]:
  "bindE (require_provider kind) f s =
     (case hget (mg_providers s) kind of
        None \<Rightarrow> (Inl (ProviderNotRegistered (kind_as_str kind)), s) | Some p \<Rightarrow> f p s)"
  by (simp add: require_provider_def monad_simps split: option.splits)

lemma bindE_require_kind [monad_simps]:
  "bindE (require_kind r) f s =
     (case kind_from_str (sess_provider r) of
        None \<Rightarrow> (Inl (ProtocolViolation (''unknown provider '' @ sess_provider r)), s) | Some k \<Rightarrow> f k s)"
  by (simp add: require_kind_def monad_simps split: option.splits)

lemma bindE_provider_call [monad_simps]:
  "bindE (provider_call g) f s =
     (case g (mg_provider_state s) of
        (Inl e, p') \<Rightarrow> (Inl e, s\<lparr>mg_provider_state := p'\<rparr>)
      | (Inr x, p') \<Rightarrow> f x (s\<lparr>mg_provider_state := p'\<rparr>))"
  by (simp add: bindE_def provider_call_def split: prod.splits sum.splits)

lemma bindE_attempt_call:
  "bindE (attempt (provider_call g)) f s =
     (case g (mg_provider_state s) of (r, p') \<Rightarrow> f r (s\<lparr>mg_provider_state := p'\<rparr>))"
  by (simp add: bindE_attempt provider_call_def split: prod.splits)

lemma bindE_allocate_id [monad_simps]:
  "bindE (allocate_id p q) f s =
     f (p @ ''_'' @ q @ ''_'' @ dec_of_int (env_clock s (env_clock_reads s)) @ ''_'' @ dec_of_nat (unat (mg_next_id s)))
       (s\<lparr>mg_next_id := mg_next_id s + 1, env_clock_reads := Suc (env_clock_reads s)\<rparr>)"
  by (simp add: allocate_id_def monad_simps)

lemma bindE_put_session:
  "bindE (put_session i r) f s = f () (s\<lparr>mg_sessions := hinsert i r (mg_sessions s)\<rparr>)"
  by (simp add: put_session_def monad_simps)

lemma bindE_put_turn:
  "bindE (put_turn i r) f s = f () (s\<lparr>mg_turns := hinsert i r (mg_turns s)\<rparr>)"
  by (simp add: put_turn_def monad_simps)

lemma bindE_put_approval:
  "bindE (put_approval i r) f s = f () (s\<lparr>mg_approvals := hinsert i r (mg_approvals s)\<rparr>)"
  by (simp add: put_approval_def monad_simps)

lemma bindE_spawn [monad_simps]:
  "bindE (spawn_wait_for_turn k i t) f s = f () (s\<lparr>mg_tasks := mg_tasks s @ [(k, i, t)]\<rparr>)"
  by (simp add: spawn_wait_for_turn_def monad_simps)

lemma spawn_run: "spawn_wait_for_turn k i t s = (Inr (), s\<lparr>mg_tasks := mg_tasks s @ [(k, i, t)]\<rparr>)"
  by (simp add: spawn_wait_for_turn_def modify_def)

lemma store_write_run:
  "no_faults s \<Longrightarrow> store_write w s =
     (case apply_write w (env_db s) of
        Inl e \<Rightarrow> (Inl e, s\<lparr>env_store_ops := Suc (env_store_ops s)\<rparr>)
      | Inr db' \<Rightarrow> (Inr (), s\<lparr>env_store_ops := Suc (env_store_ops s), env_db := db'\<rparr>))"
  by (simp add: store_write_def store_call_def no_faults_def Let_def split: sum.splits)

lemma bindE_store_write:
  "no_faults s \<Longrightarrow> bindE (store_write w) f s =
     (case apply_write w (env_db s) of
        Inl e \<Rightarrow> (Inl e, s\<lparr>env_store_ops := Suc (env_store_ops s)\<rparr>)
      | Inr db' \<Rightarrow> f () (s\<lparr>env_store_ops := Suc (env_store_ops s), env_db := db'\<rparr>))"
  by (simp add: bindE_def store_write_run split: sum.splits)

lemma bindE_store_call:
  "bindE (store_call g) f s =
     (let s' = s\<lparr>env_store_ops := Suc (env_store_ops s)\<rparr> in
      case env_faults s (env_store_ops s) of
        Some msg \<Rightarrow> (Inl (Bootstrap msg), s')
      | None \<Rightarrow> (case g (env_db s) of
                   Inl e \<Rightarrow> (Inl e, s')
                 | Inr (x, db') \<Rightarrow> f x (s'\<lparr>env_db := db'\<rparr>)))"
  by (simp add: bindE_def store_call_def Let_def split: option.splits sum.splits prod.splits)

lemma snd_bindE_ok: "snd (bindE m (\<lambda>_. ok x) s) = snd (m s)"
  by (simp add: bindE_def ok_def split: prod.splits sum.splits)

lemma snd_bindE_err: "snd (bindE m (\<lambda>_. err x) s) = snd (m s)"
  by (simp add: bindE_def err_def split: prod.splits sum.splits)

lemma no_faults_upd [simp]:
  "no_faults (s\<lparr>env_db := d\<rparr>) = no_faults s" "no_faults (s\<lparr>env_store_ops := n\<rparr>) = no_faults s"
  "no_faults (s\<lparr>env_clock_reads := n\<rparr>) = no_faults s"
  by (simp_all add: no_faults_def)

lemma no_faults_mg_upd [simp]:
  fixes s :: "('p, 'z) manager_scheme"
  shows "no_faults (s\<lparr>mg_sessions := a\<rparr>) = no_faults s" "no_faults (s\<lparr>mg_turns := b\<rparr>) = no_faults s"
    "no_faults (s\<lparr>mg_approvals := c\<rparr>) = no_faults s" "no_faults (s\<lparr>mg_next_id := i\<rparr>) = no_faults s"
    "no_faults (s\<lparr>mg_provider_state := p\<rparr>) = no_faults s" "no_faults (s\<lparr>mg_tasks := t\<rparr>) = no_faults s"
    "no_faults (s\<lparr>mg_event_tx := e\<rparr>) = no_faults s"
  by (simp_all add: no_faults_def)

lemmas put_simps = bindE_put_session bindE_put_turn bindE_put_approval
lemmas snd_binds = snd_bindE_ok snd_bindE_err

section \<open>Effect of one write-through\<close>

lemma mirrored_exists:
  "mirrored s \<Longrightarrow> hget (mg_sessions s) k = Some r \<Longrightarrow> session_exists (env_db s) k"
  "mirrored s \<Longrightarrow> hget (mg_turns s) k = Some t \<Longrightarrow> turn_exists (env_db s) k"
  unfolding mirrored_def tbl_find_def
  by (metis find_key_None option.distinct(1))+

lemma mirrored_keyed:
  "mirrored s \<Longrightarrow> hget (mg_sessions s) k = Some r \<Longrightarrow> sess_id r = k"
  "mirrored s \<Longrightarrow> hget (mg_turns s) k = Some t \<Longrightarrow> turn_id t = k"
  "mirrored s \<Longrightarrow> hget (mg_approvals s) k = Some a \<Longrightarrow> appr_id a = k"
  unfolding mirrored_def tbl_find_def by (metis (mono_tags, lifting) find_Some_iff)+

lemma merge_session_id: "sess_created_at r = sess_created_at old \<Longrightarrow> merge_session old r = r"
  by (simp add: merge_session_def)

lemma merge_approval_id: "appr_created_at r = appr_created_at old \<Longrightarrow> merge_approval old r = r"
  by (simp add: merge_approval_def)

text \<open>The three kinds of write, with what they need to find.\<close>

definition session_write_ok :: "('p, 'z) manager_scheme \<Rightarrow> session_record \<Rightarrow> bool" where
  "session_write_ok s r \<longleftrightarrow>
     (\<forall>old. hget (mg_sessions s) (sess_id r) = Some old \<longrightarrow> sess_created_at old = sess_created_at r)"

definition approval_write_ok :: "('p, 'z) manager_scheme \<Rightarrow> approval_record \<Rightarrow> bool" where
  "approval_write_ok s r \<longleftrightarrow>
     (\<forall>old. hget (mg_approvals s) (appr_id r) = Some old \<longrightarrow> appr_created_at old = appr_created_at r)"

lemma session_table_after:
  assumes "mirrored s" and "session_write_ok s r"
  shows "tbl_find sess_id k (tbl_upsert sess_id merge_session r (db_sessions (env_db s))) =
           hget (hinsert (sess_id r) r (mg_sessions s)) k"
  using assms
  by (auto simp: sessions_tbl.find_upsert mirrored_def session_write_ok_def merge_session_id
      split: option.splits)

lemma turn_table_after:
  assumes "mirrored s"
  shows "tbl_find turn_id k (tbl_upsert turn_id replace_row r (db_turns (env_db s))) =
           hget (hinsert (turn_id r) r (mg_turns s)) k"
  using assms by (auto simp: turns_tbl.find_upsert mirrored_def split: option.splits)

lemma approval_table_after:
  assumes "mirrored s" and "approval_write_ok s r"
  shows "tbl_find appr_id k (tbl_upsert appr_id merge_approval r (db_approvals (env_db s))) =
           hget (hinsert (appr_id r) r (mg_approvals s)) k"
  using assms
  by (auto simp: approvals_tbl.find_upsert mirrored_def approval_write_ok_def merge_approval_id
      split: option.splits)

text \<open>
  \<open>saved s s'\<close> relates the state before and after a group of writes: same environment, database
  and maps changed together.
\<close>

definition same_core :: "('p, 'z) manager_scheme \<Rightarrow> ('p, 'z) manager_scheme \<Rightarrow> bool" where
  "same_core s s' \<longleftrightarrow>
     env_db s' = env_db s \<and> env_faults s' = env_faults s \<and> mg_sessions s' = mg_sessions s \<and>
     mg_turns s' = mg_turns s \<and> mg_approvals s' = mg_approvals s"

lemma durable_same_core: "same_core s s' \<Longrightarrow> durable s' = durable s"
  by (simp add: same_core_def durable_def mirrored_def no_faults_def)

lemma durable_save_session:
  assumes "durable s" and "session_write_ok s r"
    and "env_db s' = (env_db s)\<lparr>db_sessions := tbl_upsert sess_id merge_session r (db_sessions (env_db s))\<rparr>"
    and "mg_sessions s' = hinsert (sess_id r) r (mg_sessions s)"
    and "mg_turns s' = mg_turns s" and "mg_approvals s' = mg_approvals s" and "env_faults s' = env_faults s"
  shows "durable s'"
proof -
  have "apply_write (WSession r) (env_db s) = Inr (env_db s')"
    by (simp add: db_upsert_session_def assms(3))
  then have "db_ok (env_db s')" using assms(1) db_ok_write unfolding durable_def by blast
  moreover have "mirrored s'"
    using assms session_table_after [of s r]
    by (simp add: durable_def mirrored_def)
  ultimately show ?thesis using assms(1,7) by (simp add: durable_def no_faults_def)
qed

lemma durable_save_turn:
  assumes "durable s" and "session_exists (env_db s) (turn_session_id r)"
    and "env_db s' = (env_db s)\<lparr>db_turns := tbl_upsert turn_id replace_row r (db_turns (env_db s))\<rparr>"
    and "mg_turns s' = hinsert (turn_id r) r (mg_turns s)"
    and "mg_sessions s' = mg_sessions s" and "mg_approvals s' = mg_approvals s" and "env_faults s' = env_faults s"
  shows "durable s'"
proof -
  have "apply_write (WTurn r) (env_db s) = Inr (env_db s')"
    using assms(2) by (simp add: db_upsert_turn_def assms(3))
  then have "db_ok (env_db s')" using assms(1) db_ok_write unfolding durable_def by blast
  moreover have "mirrored s'"
    using assms turn_table_after [of s] by (simp add: durable_def mirrored_def)
  ultimately show ?thesis using assms(1,7) by (simp add: durable_def no_faults_def)
qed

lemma durable_save_approval:
  assumes "durable s" and "approval_write_ok s r"
    and "session_exists (env_db s) (appr_session_id r)" and "turn_exists (env_db s) (appr_turn_id r)"
    and "env_db s' = (env_db s)\<lparr>db_approvals := tbl_upsert appr_id merge_approval r (db_approvals (env_db s))\<rparr>"
    and "mg_approvals s' = hinsert (appr_id r) r (mg_approvals s)"
    and "mg_sessions s' = mg_sessions s" and "mg_turns s' = mg_turns s" and "env_faults s' = env_faults s"
  shows "durable s'"
proof -
  have "apply_write (WApproval r) (env_db s) = Inr (env_db s')"
    using assms(3,4) by (simp add: db_upsert_approval_def assms(5))
  then have "db_ok (env_db s')" using assms(1) db_ok_write unfolding durable_def by blast
  moreover have "mirrored s'"
    using assms approval_table_after [of s] by (simp add: durable_def mirrored_def)
  ultimately show ?thesis using assms(1,9) by (simp add: durable_def no_faults_def)
qed

section \<open>Events\<close>

lemma append_event_run:
  "append_event sc i ses t kind crit payload s = (r, s') \<Longrightarrow>
     env_faults s' = env_faults s \<and> mg_sessions s' = mg_sessions s \<and> mg_turns s' = mg_turns s \<and>
     mg_approvals s' = mg_approvals s \<and> mg_tasks s' = mg_tasks s \<and> mg_providers s' = mg_providers s \<and>
     mg_provider_state s' = mg_provider_state s \<and> env_clock s' = env_clock s \<and>
     (env_db s' = env_db s \<or> (\<exists>e x. db_append_runtime_event e (env_db s) = Inr (x, env_db s')))"
  by (auto simp: append_event_def monad_simps bindE_store_call ok_def Let_def
      split: option.splits sum.splits prod.splits)

lemma append_event_tables:
  assumes "events_ok db" and "db_append_runtime_event e db = Inr (x, db')"
  shows "\<exists>rs n. db' = db\<lparr>db_events := rs, db_event_rowid := n\<rparr>"
proof -
  have "db = db\<lparr>db_events := db_events db, db_event_rowid := db_event_rowid db\<rparr>" by simp
  then show ?thesis using append_event_cases [OF assms] by blast
qed

lemma durable_append_event:
  assumes "durable s"
  shows "durable (snd (append_event sc i ses t kind crit payload s))"
proof -
  obtain r s' where run: "append_event sc i ses t kind crit payload s = (r, s')" by fastforce
  note eff = append_event_run [OF run]
  show ?thesis
  proof (cases "env_db s' = env_db s")
    case True
    with eff have "same_core s s'" by (simp add: same_core_def)
    then show ?thesis using assms run durable_same_core [of s s'] by simp
  next
    case False
    with eff obtain e x where app: "db_append_runtime_event e (env_db s) = Inr (x, env_db s')" by blast
    have db: "db_ok (env_db s)" using assms by (simp add: durable_def)
    then have "db_ok (env_db s')" using app by (rule db_ok_append_event)
    moreover obtain rs n where "env_db s' = (env_db s)\<lparr>db_events := rs, db_event_rowid := n\<rparr>"
      using append_event_tables [OF _ app] db by (auto simp: db_ok_def)
    ultimately show ?thesis
      using assms eff run by (simp add: durable_def mirrored_def no_faults_def)
  qed
qed

section \<open>Write-through groups\<close>

text \<open>
  The handlers save a record in one of two orders: store first and then the map, or the map first
  and then the store. Both end in the state \<open>saved_session\<close>, \<open>saved_turn\<close> or \<open>saved_approval\<close>.
\<close>

definition saved_session :: "session_record \<Rightarrow> ('p, 'z) manager_scheme \<Rightarrow> ('p, 'z) manager_scheme" where
  "saved_session r s =
     s\<lparr>env_store_ops := Suc (env_store_ops s),
       env_db := (env_db s)\<lparr>db_sessions := tbl_upsert sess_id merge_session r (db_sessions (env_db s))\<rparr>,
       mg_sessions := hinsert (sess_id r) r (mg_sessions s)\<rparr>"

definition saved_turn :: "turn_record \<Rightarrow> ('p, 'z) manager_scheme \<Rightarrow> ('p, 'z) manager_scheme" where
  "saved_turn r s =
     s\<lparr>env_store_ops := Suc (env_store_ops s),
       env_db := (env_db s)\<lparr>db_turns := tbl_upsert turn_id replace_row r (db_turns (env_db s))\<rparr>,
       mg_turns := hinsert (turn_id r) r (mg_turns s)\<rparr>"

definition saved_approval :: "approval_record \<Rightarrow> ('p, 'z) manager_scheme \<Rightarrow> ('p, 'z) manager_scheme" where
  "saved_approval r s =
     s\<lparr>env_store_ops := Suc (env_store_ops s),
       env_db := (env_db s)\<lparr>db_approvals := tbl_upsert appr_id merge_approval r (db_approvals (env_db s))\<rparr>,
       mg_approvals := hinsert (appr_id r) r (mg_approvals s)\<rparr>"

lemma saved_maps [simp]:
  "mg_sessions (saved_session r s) = hinsert (sess_id r) r (mg_sessions s)"
  "mg_turns (saved_session r s) = mg_turns s"
  "mg_approvals (saved_session r s) = mg_approvals s"
  "mg_sessions (saved_turn t s) = mg_sessions s"
  "mg_turns (saved_turn t s) = hinsert (turn_id t) t (mg_turns s)"
  "mg_approvals (saved_turn t s) = mg_approvals s"
  "mg_sessions (saved_approval a s) = mg_sessions s"
  "mg_turns (saved_approval a s) = mg_turns s"
  "mg_approvals (saved_approval a s) = hinsert (appr_id a) a (mg_approvals s)"
  by (simp_all add: saved_session_def saved_turn_def saved_approval_def)

lemma saved_env [simp]:
  "no_faults (saved_session r s) = no_faults s" "no_faults (saved_turn t s) = no_faults s"
  "no_faults (saved_approval a s) = no_faults s"
  "mg_tasks (saved_session r s) = mg_tasks s" "mg_tasks (saved_turn t s) = mg_tasks s"
  "mg_tasks (saved_approval a s) = mg_tasks s"
  "mg_next_id (saved_session r s) = mg_next_id s" "mg_next_id (saved_turn t s) = mg_next_id s"
  "mg_next_id (saved_approval a s) = mg_next_id s"
  "env_clock (saved_session r s) = env_clock s" "env_clock (saved_turn t s) = env_clock s"
  "env_clock (saved_approval a s) = env_clock s"
  "env_clock_reads (saved_session r s) = env_clock_reads s" "env_clock_reads (saved_turn t s) = env_clock_reads s"
  "env_clock_reads (saved_approval a s) = env_clock_reads s"
  "mg_event_tx (saved_session r s) = mg_event_tx s" "mg_event_tx (saved_turn t s) = mg_event_tx s"
  "mg_event_tx (saved_approval a s) = mg_event_tx s"
  "mg_providers (saved_session r s) = mg_providers s" "mg_providers (saved_turn t s) = mg_providers s"
  "mg_providers (saved_approval a s) = mg_providers s"
  "mg_provider_state (saved_session r s) = mg_provider_state s"
  "mg_provider_state (saved_turn t s) = mg_provider_state s"
  "mg_provider_state (saved_approval a s) = mg_provider_state s"
  "db_events (env_db (saved_session r s)) = db_events (env_db s)"
  "db_events (env_db (saved_turn t s)) = db_events (env_db s)"
  "db_events (env_db (saved_approval a s)) = db_events (env_db s)"
  by (simp_all add: saved_session_def saved_turn_def saved_approval_def)

lemma saved_exists [simp]:
  "session_exists (env_db (saved_session r s)) k \<longleftrightarrow> k = sess_id r \<or> session_exists (env_db s) k"
  "turn_exists (env_db (saved_session r s)) k \<longleftrightarrow> turn_exists (env_db s) k"
  "session_exists (env_db (saved_turn t s)) k \<longleftrightarrow> session_exists (env_db s) k"
  "turn_exists (env_db (saved_turn t s)) k \<longleftrightarrow> k = turn_id t \<or> turn_exists (env_db s) k"
  by (simp_all add: saved_session_def saved_turn_def sessions_tbl.keys_upsert turns_tbl.keys_upsert)

lemma durable_saved_session: "durable s \<Longrightarrow> session_write_ok s r \<Longrightarrow> durable (saved_session r s)"
  by (rule durable_save_session [of s r]) (simp_all add: saved_session_def)

lemma durable_saved_turn:
  "durable s \<Longrightarrow> session_exists (env_db s) (turn_session_id t) \<Longrightarrow> durable (saved_turn t s)"
  by (rule durable_save_turn [of s t]) (simp_all add: saved_turn_def)

lemma durable_saved_approval:
  "durable s \<Longrightarrow> approval_write_ok s a \<Longrightarrow> session_exists (env_db s) (appr_session_id a) \<Longrightarrow>
   turn_exists (env_db s) (appr_turn_id a) \<Longrightarrow> durable (saved_approval a s)"
  by (rule durable_save_approval [of s a]) (simp_all add: saved_approval_def)

lemma durable_upd [simp]:
  fixes s :: "('p, 'z) manager_scheme"
  shows "durable (s\<lparr>env_clock_reads := n\<rparr>) = durable s" "durable (s\<lparr>env_store_ops := n\<rparr>) = durable s"
    "durable (s\<lparr>mg_next_id := i\<rparr>) = durable s" "durable (s\<lparr>mg_provider_state := p\<rparr>) = durable s"
    "durable (s\<lparr>mg_tasks := t\<rparr>) = durable s" "durable (s\<lparr>mg_event_tx := e\<rparr>) = durable s"
  by (auto intro!: durable_same_core simp: same_core_def)

lemma durable_no_faults [simp]: "durable s \<Longrightarrow> no_faults s"
  by (simp add: durable_def)

lemma durable_exists:
  "durable s \<Longrightarrow> hget (mg_sessions s) k = Some r \<Longrightarrow> session_exists (env_db s) k"
  "durable s \<Longrightarrow> hget (mg_turns s) k = Some t \<Longrightarrow> turn_exists (env_db s) k"
  using mirrored_exists unfolding durable_def by blast+

lemma durable_keyed:
  "durable s \<Longrightarrow> hget (mg_sessions s) k = Some r \<Longrightarrow> sess_id r = k"
  "durable s \<Longrightarrow> hget (mg_turns s) k = Some t \<Longrightarrow> turn_id t = k"
  "durable s \<Longrightarrow> hget (mg_approvals s) k = Some a \<Longrightarrow> appr_id a = k"
  using mirrored_keyed unfolding durable_def by blast+

text \<open>Foreign keys: what a turn or an approval in memory refers to is stored.\<close>

lemma durable_foreign:
  assumes "durable s"
  shows "hget (mg_turns s) k = Some t \<Longrightarrow> session_exists (env_db s) (turn_session_id t)"
    and "hget (mg_approvals s) k = Some a \<Longrightarrow>
           session_exists (env_db s) (appr_session_id a) \<and> turn_exists (env_db s) (appr_turn_id a)"
proof -
  have fk: "foreign_keys_ok (env_db s)" and mir: "mirrored s"
    using assms by (simp_all add: durable_def db_ok_def)
  { assume "hget (mg_turns s) k = Some t"
    then have "t \<in> set (db_turns (env_db s))"
      using mir unfolding mirrored_def tbl_find_def by (metis find_Some_iff nth_mem)
    then show "session_exists (env_db s) (turn_session_id t)"
      using fk by (auto simp: foreign_keys_ok_def) }
  { assume "hget (mg_approvals s) k = Some a"
    then have "a \<in> set (db_approvals (env_db s))"
      using mir unfolding mirrored_def tbl_find_def by (metis find_Some_iff nth_mem)
    then show "session_exists (env_db s) (appr_session_id a) \<and> turn_exists (env_db s) (appr_turn_id a)"
      using fk by (auto simp: foreign_keys_ok_def) }
qed

section \<open>Symbolic execution of the groups\<close>

lemma bindE_case_option [monad_simps]:
  "bindE (case x of None \<Rightarrow> m | Some y \<Rightarrow> g y) f s =
     (case x of None \<Rightarrow> bindE m f s | Some y \<Rightarrow> bindE (g y) f s)"
  by (cases x) auto

lemma bindE_if [monad_simps]: "bindE (if b then m else n) f s = (if b then bindE m f s else bindE n f s)"
  by simp

lemma run_store_session:
  "no_faults s \<Longrightarrow> sess_id r = i \<Longrightarrow>
     bindE (store_write (WSession r)) (\<lambda>_. bindE (put_session i r) f) s = f () (saved_session r s)"
  by (simp add: bindE_store_write db_upsert_session_def monad_simps put_simps saved_session_def)

lemma upd_commute:
  fixes s :: "('p, 'z) manager_scheme"
  shows "s\<lparr>mg_sessions := a, env_store_ops := n\<rparr> = s\<lparr>env_store_ops := n, mg_sessions := a\<rparr>"
    and "s\<lparr>mg_turns := b, env_store_ops := n\<rparr> = s\<lparr>env_store_ops := n, mg_turns := b\<rparr>"
    and "s\<lparr>mg_sessions := a, env_db := d\<rparr> = s\<lparr>env_db := d, mg_sessions := a\<rparr>"
    and "s\<lparr>mg_turns := b, env_db := d\<rparr> = s\<lparr>env_db := d, mg_turns := b\<rparr>"
  by (rule manager.equality; simp)+

lemma run_put_session:
  "no_faults s \<Longrightarrow> sess_id r = i \<Longrightarrow>
     bindE (put_session i r) (\<lambda>_. bindE (store_write (WSession r)) f) s = f () (saved_session r s)"
  "no_faults s \<Longrightarrow> sess_id r = i \<Longrightarrow>
     bindE (put_session i r) (\<lambda>_. store_write (WSession r)) s = (Inr (), saved_session r s)"
  by (simp_all add: bindE_store_write store_write_run db_upsert_session_def monad_simps put_simps saved_session_def upd_commute)

lemma run_put_turn:
  "no_faults s \<Longrightarrow> turn_id t = i \<Longrightarrow> session_exists (env_db s) (turn_session_id t) \<Longrightarrow>
     bindE (put_turn i t) (\<lambda>_. bindE (store_write (WTurn t)) f) s = f () (saved_turn t s)"
  "no_faults s \<Longrightarrow> turn_id t = i \<Longrightarrow> session_exists (env_db s) (turn_session_id t) \<Longrightarrow>
     bindE (put_turn i t) (\<lambda>_. store_write (WTurn t)) s = (Inr (), saved_turn t s)"
  by (simp_all add: bindE_store_write store_write_run db_upsert_turn_def monad_simps put_simps saved_turn_def upd_commute)

lemma run_store_turn:
  "no_faults s \<Longrightarrow> turn_id t = i \<Longrightarrow> session_exists (env_db s) (turn_session_id t) \<Longrightarrow>
     bindE (store_write (WTurn t)) (\<lambda>_. bindE (put_turn i t) f) s = f () (saved_turn t s)"
  by (simp add: bindE_store_write db_upsert_turn_def monad_simps put_simps saved_turn_def)

lemma run_store_turn_session:
  "no_faults s \<Longrightarrow> turn_id t = i \<Longrightarrow> sess_id r = j \<Longrightarrow> session_exists (env_db s) (turn_session_id t) \<Longrightarrow>
     bindE (store_write (WTurn t)) (\<lambda>_. bindE (store_write (WSession r)) (\<lambda>_.
     bindE (put_turn i t) (\<lambda>_. bindE (put_session j r) f))) s = f () (saved_session r (saved_turn t s))"
  by (simp add: bindE_store_write db_upsert_turn_def db_upsert_session_def monad_simps put_simps
      saved_session_def saved_turn_def upd_commute)

lemma run_store_approval:
  "no_faults s \<Longrightarrow> appr_id a = i \<Longrightarrow> session_exists (env_db s) (appr_session_id a) \<Longrightarrow>
   turn_exists (env_db s) (appr_turn_id a) \<Longrightarrow>
     bindE (store_write (WApproval a)) (\<lambda>_. bindE (put_approval i a) f) s = f () (saved_approval a s)"
  by (simp add: bindE_store_write db_upsert_approval_def monad_simps put_simps saved_approval_def)

lemmas run_groups =
  run_store_session run_put_session run_put_turn run_store_turn run_store_turn_session run_store_approval

lemma durable_bind_event:
  assumes "durable s" and "\<And>x s'. durable s' \<Longrightarrow> durable (snd (f x s'))"
  shows "durable (snd (bindE (append_event sc i ses t kind crit payload) f s))"
  using assms durable_append_event [OF assms(1), of sc i ses t kind crit payload]
  by (auto simp: bindE_def split: prod.splits sum.splits)

end
