(* ===== verification/Manager_Safety.thy ===== *)
theory Manager_Safety
  imports Durability
begin

text \<open>
  Every handler of the session manager keeps memory and disk in agreement.
\<close>

section \<open>Handlers keep the store and the maps in agreement\<close>

lemma session_update_ok:
  "hget (mg_sessions s) (sess_id r) = Some old \<Longrightarrow> sess_created_at r = sess_created_at old \<Longrightarrow>
   session_write_ok s r"
  by (simp add: session_write_ok_def)

lemma session_write_ok_upd [simp]:
  fixes s :: "('p, 'z) manager_scheme"
  shows "session_write_ok (s\<lparr>env_clock_reads := n\<rparr>) r = session_write_ok s r"
    "session_write_ok (s\<lparr>mg_provider_state := p\<rparr>) r = session_write_ok s r"
    "session_write_ok (s\<lparr>mg_next_id := i\<rparr>) r = session_write_ok s r"
    "session_write_ok (saved_turn t s) r = session_write_ok s r"
  by (simp_all add: session_write_ok_def)

lemma durable_finalize:
  assumes "durable s"
  shows "durable (snd (finalize_session_close sid reason s))"
proof (cases "hget (mg_sessions s) sid")
  case None
  then show ?thesis using assms by (simp add: finalize_session_close_def monad_simps)
next
  case (Some session)
  have "sess_id session = sid" using assms Some durable_keyed by blast
  then show ?thesis
    using assms Some
    by (auto simp: finalize_session_close_def monad_simps Let_def run_groups ok_def
        intro!: durable_bind_event durable_saved_session session_update_ok)
qed

lemma durable_close:
  assumes "durable s"
  shows "durable (snd (close_session sid reason s))"
  using assms
  by (auto simp: close_session_def monad_simps intro!: durable_finalize split: option.splits prod.splits sum.splits)

lemma durable_set_worktree:
  assumes "durable s"
  shows "durable (snd (set_session_worktree_id sid wt s))"
proof (cases "hget (mg_sessions s) sid")
  case None
  then show ?thesis using assms by (simp add: set_session_worktree_id_def monad_simps)
next
  case (Some session)
  have "sess_id session = sid" using assms Some durable_keyed by blast
  then show ?thesis
    using assms Some
    by (auto simp: set_session_worktree_id_def monad_simps Let_def run_groups ok_def
        intro!: durable_saved_session session_update_ok)
qed

lemma durable_resume:
  assumes "durable s"
  shows "durable (snd (resume_session sid input s))"
proof (cases "hget (mg_sessions s) sid")
  case None
  then show ?thesis using assms by (simp add: resume_session_def monad_simps)
next
  case (Some session)
  have "sess_id session = sid" using assms Some durable_keyed by blast
  then show ?thesis
    using assms Some
    by (auto simp: resume_session_def monad_simps Let_def run_groups ok_def err_def
        intro!: durable_bind_event durable_saved_session session_update_ok
        split: option.splits prod.splits sum.splits)
qed

text \<open>
  Ids are \<open>prefix_suffix_millis_counter\<close>. A handler that creates records relies on the ids it is
  about to take being unused: at most two counter values and three clock reads ahead.
\<close>

definition id_text :: "string \<Rightarrow> string \<Rightarrow> int \<Rightarrow> 64 word \<Rightarrow> string" where
  "id_text p q now n = p @ ''_'' @ q @ ''_'' @ dec_of_int now @ ''_'' @ dec_of_nat (unat n)"

definition next_ids_unused :: "('p, 'z) manager_scheme \<Rightarrow> bool" where
  "next_ids_unused s \<longleftrightarrow>
     (\<forall>p q i j. i < 2 \<and> j < 3 \<longrightarrow>
       (let k = id_text p q (env_clock s (env_clock_reads s + j)) (mg_next_id s + of_nat i) in
        hget (mg_sessions s) k = None \<and> hget (mg_turns s) k = None \<and> hget (mg_approvals s) k = None))"

lemma next_ids_unused_at:
  assumes "next_ids_unused s" and "j < 3"
  shows "hget (mg_sessions s) (id_text p q (env_clock s (env_clock_reads s + j)) (mg_next_id s)) = None"
    and "hget (mg_turns s) (id_text p q (env_clock s (env_clock_reads s + j)) (mg_next_id s)) = None"
    and "hget (mg_approvals s) (id_text p q (env_clock s (env_clock_reads s + j)) (mg_next_id s + 1)) = None"
  using assms(1)[unfolded next_ids_unused_def, rule_format, of 0 j p q]
    assms(1)[unfolded next_ids_unused_def, rule_format, of 1 j p q] assms(2)
  by (simp_all add: Let_def)

lemma durable_create:
  assumes "durable s" and "next_ids_unused s"
  shows "durable (snd (create_session input s))"
proof -
  have fresh: "hget (mg_sessions s) (id_text ''sess'' (kind_as_str (csi_provider input))
      (env_clock s (Suc (env_clock_reads s))) (mg_next_id s)) = None"
    using next_ids_unused_at(1)[OF assms(2), of 1] by simp
  show ?thesis
    using assms(1) fresh
    by (auto simp: create_session_def monad_simps Let_def run_groups ok_def err_def new_session_record_def
        session_write_ok_def id_text_def
        intro!: durable_bind_event durable_saved_session
        split: option.splits prod.splits sum.splits)
qed

subsection \<open>Sending a turn\<close>

text \<open>The dispatch only talks to the provider.\<close>

lemma provider_call_frame: "\<exists>p. snd (provider_call g s) = s\<lparr>mg_provider_state := p\<rparr>"
  by (auto simp: provider_call_def split: prod.splits)

lemma frame_refl: "\<exists>p. s = s\<lparr>mg_provider_state := p\<rparr>"
  by (rule exI [of _ "mg_provider_state s"]) simp

lemma dispatch_frame:
  fixes s :: "('p, 'z) manager_scheme"
  shows "\<exists>p. snd (dispatch_send_turn_with_resume_fallback kind req cwd pref cref md s) = s\<lparr>mg_provider_state := p\<rparr>"
proof -
  define I where "I = (\<lambda>s'. \<exists>p. s' = s\<lparr>mg_provider_state := p\<rparr>)"
  have call: "preserves I (provider_call g)" for g :: "('p, runtime_error, 'a) rt"
    using provider_call_frame [of g]
    by (fastforce simp: I_def preserves_def provider_call_def split: prod.splits)
  have "preserves I (dispatch_send_turn_with_resume_fallback kind req cwd pref cref md)"
    unfolding dispatch_send_turn_with_resume_fallback_def require_provider_def
    by (auto intro!: preserves_intros call split: runtime_error.splits sum.splits)
  moreover have "I s" unfolding I_def by (rule frame_refl)
  ultimately show ?thesis by (simp add: preserves_def I_def)
qed

lemma admit_Inr:
  assumes "send_turn_admit sid input s = (Inr adm, s')"
  shows "hget (mg_sessions s) sid = Some (adm_session adm)"
    and "sess_active_turn_id (adm_session adm) = None"
    and "sess_status (adm_session adm) \<noteq> ''closed''" and "sess_status (adm_session adm) \<noteq> ''failed''"
    and "kind_from_str (sess_provider (adm_session adm)) = Some (adm_kind adm)"
    and "adm_turn_id adm = id_text ''turn'' (kind_as_str (adm_kind adm)) (env_clock s (env_clock_reads s)) (mg_next_id s)"
    and "adm_requires_approval adm \<longleftrightarrow>
           or_else (sti_permission_mode input) (sess_permission_mode (adm_session adm)) = Some ''require_approval''"
    and "adm_approval_id adm = (if adm_requires_approval adm then
           Some (id_text ''apr'' (kind_as_str (adm_kind adm)) (env_clock s (env_clock_reads s + 2)) (mg_next_id s + 1))
           else None)"
    and "\<exists>i n. s' = s\<lparr>mg_next_id := i, env_clock_reads := n\<rparr>"
  using assms
  by (auto simp: send_turn_admit_def monad_simps err_def ok_def Let_def id_text_def
      split: option.splits if_splits)

lemma admit_frame: "\<exists>i n. snd (send_turn_admit sid input s) = s\<lparr>mg_next_id := i, env_clock_reads := n\<rparr>"
proof -
  have same: "\<exists>i n. s = s\<lparr>mg_next_id := i, env_clock_reads := n\<rparr>"
    by (rule exI [of _ "mg_next_id s"], rule exI [of _ "env_clock_reads s"]) simp
  show ?thesis
    using same
    by (auto simp: send_turn_admit_def monad_simps err_def ok_def Let_def split: option.splits)
qed

lemma durable_send_turn_failed:
  assumes "durable s" and "hget (mg_sessions s) sid = Some (adm_session adm)"
  shows "durable (snd (send_turn_failed sid input adm e s))"
proof -
  have "sess_id (adm_session adm) = sid" using assms durable_keyed by blast
  then show ?thesis
    using assms durable_exists(1) [OF assms]
    by (auto simp: send_turn_failed_def monad_simps Let_def run_groups err_def new_turn_record_def
        intro!: durable_bind_event durable_saved_session durable_saved_turn session_update_ok)
qed

lemma durable_send_turn_accept:
  assumes "durable s" and "hget (mg_sessions s) sid = Some (adm_session adm)"
    and "\<And>aid. adm_approval_id adm = Some aid \<Longrightarrow> hget (mg_approvals s) aid = None"
  shows "durable (snd (send_turn_accept sid input adm s))"
proof -
  have "sess_id (adm_session adm) = sid" using assms durable_keyed by blast
  then show ?thesis
    using assms durable_exists(1) [OF assms(1,2)]
    by (auto simp: send_turn_accept_def monad_simps Let_def run_groups ok_def new_turn_record_def
        new_approval_record_def approval_write_ok_def
        intro!: durable_bind_event durable_saved_session durable_saved_turn durable_saved_approval
          session_update_ok
        split: option.splits)
qed

text \<open>The three ways a \<open>send_turn\<close> goes, each with the state it starts from.\<close>

lemma send_turn_phases:
  obtains (rejected) e i n where "send_turn sid input s = (Inl e, s\<lparr>mg_next_id := i, env_clock_reads := n\<rparr>)"
  | (dispatched) adm s1 i n p s2 e where
      "send_turn_admit sid input s = (Inr adm, s1)"
      "s2 = s\<lparr>mg_next_id := i, env_clock_reads := n, mg_provider_state := p\<rparr>"
      "send_turn sid input s = (Inl e, s2) \<or> send_turn sid input s = send_turn_failed sid input adm e s2 \<or>
       send_turn sid input s = send_turn_accept sid input adm s2"
proof (cases "send_turn_admit sid input s")
  case (Pair r s1)
  obtain i n where s1: "s1 = s\<lparr>mg_next_id := i, env_clock_reads := n\<rparr>"
    using admit_frame [of sid input s] Pair by auto
  show thesis
  proof (cases r)
    case (Inl e)
    then have "send_turn sid input s = (Inl e, s\<lparr>mg_next_id := i, env_clock_reads := n\<rparr>)"
      using Pair s1 by (simp add: send_turn_def bindE_def)
    then show thesis by (rule that(1))
  next
    case (Inr adm)
    let ?disp = "dispatch_send_turn_with_resume_fallback (adm_kind adm)
       \<lparr>str_session_id = sid, str_turn_id = adm_turn_id adm, str_input = sti_input input,
        str_expected_turn_id = sti_expected_turn_id input,
        str_permission_mode = adm_permission_mode adm, str_approval_id = adm_approval_id adm\<rparr>
       (sess_cwd (adm_session adm)) (sess_provider_session_ref (adm_session adm))
       (sess_canonical_ref (adm_session adm)) (sess_metadata (adm_session adm)) s1"
    obtain p where "snd ?disp = s1\<lparr>mg_provider_state := p\<rparr>" by (rule exE [OF dispatch_frame])
    then have s2: "snd ?disp = s\<lparr>mg_next_id := i, env_clock_reads := n, mg_provider_state := p\<rparr>"
      using s1 by simp
    have "\<exists>e. send_turn sid input s = (Inl e, snd ?disp) \<or>
           send_turn sid input s = send_turn_failed sid input adm e (snd ?disp) \<or>
           send_turn sid input s = send_turn_accept sid input adm (snd ?disp)"
      using Pair Inr
      by (cases "fst ?disp")
        (auto simp: send_turn_def bindE_def [of "send_turn_admit sid input"] bindE_attempt Let_def err_def)
    then show thesis using that(2) Pair Inr s2 by metis
  qed
qed

lemma durable_send_turn:
  assumes "durable s" and "next_ids_unused s"
  shows "durable (snd (send_turn sid input s))"
proof (cases rule: send_turn_phases [of sid input s])
  case (rejected e i n)
  then show ?thesis using assms by simp
next
  case (dispatched adm s1 i n p s2 e)
  note adm = admit_Inr [OF dispatched(1)]
  have s2: "durable s2" "hget (mg_sessions s2) sid = Some (adm_session adm)"
    using assms adm(1) dispatched(2) by simp_all
  have "adm_approval_id adm = Some aid \<Longrightarrow> hget (mg_approvals s2) aid = None" for aid
    using adm(8) next_ids_unused_at(3)[OF assms(2), of 2] dispatched(2) by (auto split: if_splits)
  then show ?thesis
    using dispatched(3) s2 durable_send_turn_failed durable_send_turn_accept by (metis snd_conv)
qed

subsection \<open>Interrupts, approvals and terminal results\<close>

lemma durable_interrupt:
  assumes "durable s"
  shows "durable (snd (interrupt_turn sid tid s))"
  using assms
  by (auto simp: interrupt_turn_def monad_simps ok_def err_def intro!: durable_bind_event
      split: option.splits prod.splits sum.splits)

text \<open>A continuation that only builds the result does not touch the state.\<close>

lemma snd_bindE_pure: "snd (bindE m (\<lambda>_ s. (Inr x, s)) s) = snd (m s)"
  by (simp add: bindE_def split: prod.splits sum.splits)

lemmas durable_run =
  durable_bind_event durable_saved_turn durable_saved_session durable_saved_approval session_update_ok

lemma durable_approval_accepted:
  assumes "durable s"
  shows "durable (snd (approval_accepted kind sid tid s))"
  unfolding approval_accepted_def using assms
  by (auto simp: monad_simps Let_def ok_def durable_keyed run_groups durable_foreign
      spawn_wait_for_turn_def modify_def intro!: durable_run split: option.splits)

lemma durable_approval_declined:
  assumes "durable s"
  shows "durable (snd (approval_declined sid tid s))"
  unfolding approval_declined_def using assms
  by (auto simp: monad_simps Let_def ok_def durable_keyed run_groups durable_foreign
      intro!: durable_run split: option.splits)

lemma durable_respond_approval:
  assumes "durable s"
  shows "durable (snd (respond_approval sid aid input s))"
proof (cases "hget (mg_approvals s) aid")
  case None
  then show ?thesis
    using assms by (auto simp: respond_approval_def monad_simps split: option.splits)
next
  case (Some a)
  have "appr_id a = aid" "session_exists (env_db s) (appr_session_id a)" "turn_exists (env_db s) (appr_turn_id a)"
    using durable_keyed(3) durable_foreign(2) assms Some by blast+
  then show ?thesis
    using assms Some unfolding respond_approval_def
    by (auto simp: monad_simps Let_def ok_def err_def run_groups approval_write_ok_def snd_binds snd_bindE_pure
        intro!: durable_run durable_approval_accepted durable_approval_declined
        split: option.splits sum.splits prod.splits approval_decision.splits)
qed

lemma finished_session_frame [simp]:
  "sess_id (finished_session r t result now) = sess_id r"
  "sess_created_at (finished_session r t result now) = sess_created_at r"
  by (simp_all add: finished_session_def)

lemma durable_terminal_result:
  assumes "durable s"
  shows "durable (snd (apply_terminal_result result s))"
proof (cases "hget (mg_turns s) (res_turn_id result)")
  case None
  then show ?thesis using assms by (simp add: terminal_defs monad_simps Let_def)
next
  case (Some turn)
  have "session_exists (env_db s) (turn_session_id turn)" "turn_id turn = res_turn_id result"
    using durable_foreign(1) durable_keyed(2) assms Some by blast+
  then show ?thesis
    using assms Some unfolding terminal_defs
    by (auto simp: monad_simps Let_def ok_def err_def durable_keyed(1) run_groups session_write_ok_def
        intro!: durable_bind_event durable_saved_turn durable_saved_session split: option.splits)
qed

lemma durable_terminal_failure:
  assumes "durable s"
  shows "durable (snd (apply_terminal_failure sid tid e s))"
  unfolding failure_defs using assms
  by (auto simp: monad_simps Let_def ok_def durable_keyed run_groups durable_foreign
      intro!: durable_run split: option.splits)

lemma snd_ignore [simp]: "snd (ignore m s) = snd (m s)"
  by (simp add: ignore_def)

lemma durable_wait_task:
  assumes "durable s"
  shows "durable (snd (run_wait_task kind sid tid s))"
proof -
  have "durable (snd (provider_call g s))" for g :: "('a, runtime_error, turn_result) rt"
    using assms by (simp add: provider_call_def split: prod.splits)
  then show ?thesis
    using assms
    by (auto simp: run_wait_task_def monad_simps ok_def durable_terminal_result durable_terminal_failure
        split: option.splits sum.splits)
qed

lemma durable_wait_step:
  assumes "durable s"
  shows "durable (snd (wait_step n s))"
  using assms by (simp add: wait_step_def monad_simps ok_def durable_wait_task split: prod.splits)

end
