(* ===== verification/Turn_Links.thy ===== *)
theory Turn_Links
  imports Manager_Safety
begin

text \<open>
  The single-flight discipline of turns: a session's active turn is a live turn of that session,
  an approval and a spawned waiter point to a turn of their own session. Every handler keeps it,
  so a session is never blocked by a finished turn.
\<close>

section \<open>The invariant\<close>

definition turn_of :: "('p, 'z) manager_scheme \<Rightarrow> string \<Rightarrow> string \<Rightarrow> bool" where
  "turn_of s sid tid \<longleftrightarrow> (case hget (mg_turns s) tid of None \<Rightarrow> False | Some t \<Rightarrow> turn_session_id t = sid)"

definition live_turn :: "('p, 'z) manager_scheme \<Rightarrow> string \<Rightarrow> bool" where
  "live_turn s tid \<longleftrightarrow>
     (case hget (mg_turns s) tid of None \<Rightarrow> False | Some t \<Rightarrow> \<not> is_terminal_turn_status (turn_status t))"

text \<open>\<open>links_but T\<close> exempts the turns of \<open>T\<close>, which a handler is about to settle.\<close>

definition links_but :: "string set \<Rightarrow> ('p, 'z) manager_scheme \<Rightarrow> bool" where
  "links_but T s \<longleftrightarrow>
     (\<forall>sid r tid. hget (mg_sessions s) sid = Some r \<longrightarrow> sess_active_turn_id r = Some tid \<longrightarrow>
        turn_of s sid tid \<and> (tid \<notin> T \<longrightarrow> live_turn s tid)) \<and>
     (\<forall>aid a. hget (mg_approvals s) aid = Some a \<longrightarrow> turn_of s (appr_session_id a) (appr_turn_id a)) \<and>
     (\<forall>(k, sid, tid) \<in> set (mg_tasks s). turn_of s sid tid)"

abbreviation turn_links :: "('p, 'z) manager_scheme \<Rightarrow> bool" where
  "turn_links \<equiv> links_but {}"

lemma turn_of_cong: "mg_turns s' = mg_turns s \<Longrightarrow> turn_of s' = turn_of s"
  by (auto simp: turn_of_def fun_eq_iff)

lemma live_turn_cong: "mg_turns s' = mg_turns s \<Longrightarrow> live_turn s' = live_turn s"
  by (auto simp: live_turn_def fun_eq_iff)

lemma links_cong:
  "mg_turns s' = mg_turns s \<Longrightarrow> mg_sessions s' = mg_sessions s \<Longrightarrow> mg_approvals s' = mg_approvals s \<Longrightarrow>
   mg_tasks s' = mg_tasks s \<Longrightarrow> links_but T s' = links_but T s"
  by (simp add: links_but_def turn_of_cong [of s' s] live_turn_cong [of s' s])

lemma links_upd [simp]:
  fixes s :: "('p, 'z) manager_scheme"
  shows "links_but T (s\<lparr>env_clock_reads := n\<rparr>) = links_but T s" "links_but T (s\<lparr>env_store_ops := n\<rparr>) = links_but T s"
    "links_but T (s\<lparr>mg_next_id := i\<rparr>) = links_but T s" "links_but T (s\<lparr>mg_provider_state := p\<rparr>) = links_but T s"
    "links_but T (s\<lparr>mg_event_tx := e\<rparr>) = links_but T s"
  by (rule links_cong; simp)+

lemma links_append_event:
  assumes "links_but T s"
  shows "links_but T (snd (append_event sc i ses t kind crit payload s))"
proof (cases "append_event sc i ses t kind crit payload s")
  case (Pair r s')
  have "links_but T s' = links_but T s" using append_event_run [OF Pair] by (intro links_cong) simp_all
  then show ?thesis using assms Pair by simp
qed

lemma links_bind_event:
  assumes "links_but T s"
    and "\<And>x s'. append_event sc i ses t kind crit payload s = (Inr x, s') \<Longrightarrow> links_but T s' \<Longrightarrow> links_but T (snd (f x s'))"
  shows "links_but T (snd (bindE (append_event sc i ses t kind crit payload) f s))"
  using assms links_append_event [OF assms(1), of sc i ses t kind crit payload]
  by (auto simp: bindE_def split: prod.splits sum.splits)

lemma turn_of_saved [simp]:
  "turn_of (saved_session r s) = turn_of s" "turn_of (saved_approval a s) = turn_of s"
  "live_turn (saved_session r s) = live_turn s" "live_turn (saved_approval a s) = live_turn s"
  by (simp_all add: turn_of_def live_turn_def fun_eq_iff)

lemma turn_of_saved_turn [simp]:
  "turn_of (saved_turn t s) sid tid \<longleftrightarrow> (if tid = turn_id t then turn_session_id t = sid else turn_of s sid tid)"
  "live_turn (saved_turn t s) tid \<longleftrightarrow>
     (if tid = turn_id t then \<not> is_terminal_turn_status (turn_status t) else live_turn s tid)"
  by (simp_all add: turn_of_def live_turn_def)

lemma links_saved_session:
  assumes "links_but T s"
    and "\<And>tid. sess_active_turn_id r = Some tid \<Longrightarrow> turn_of s (sess_id r) tid \<and> (tid \<notin> T \<longrightarrow> live_turn s tid)"
  shows "links_but T (saved_session r s)"
  using assms by (auto simp: links_but_def)

lemma links_weaken: "turn_links s \<Longrightarrow> links_but T s"
  by (auto simp: links_but_def)

lemma turn_of_unique: "turn_of s a tid \<Longrightarrow> turn_of s b tid \<Longrightarrow> a = b"
  by (simp add: turn_of_def split: option.splits)

text \<open>Settling the exempt turn: its session no longer names it.\<close>

lemma links_settle:
  assumes "links_but {tid} s" and "turn_of s (sess_id r) tid"
    and "\<And>t. sess_active_turn_id r = Some t \<Longrightarrow> t \<noteq> tid \<and> turn_of s (sess_id r) t \<and> live_turn s t"
  shows "turn_links (saved_session r s)"
proof -
  have "live_turn s t" if "hget (mg_sessions s) sid = Some old" "sess_active_turn_id old = Some t" "sid \<noteq> sess_id r"
    for sid old t
  proof -
    have "turn_of s sid t" "t \<noteq> tid \<longrightarrow> live_turn s t" using assms(1) that unfolding links_but_def by blast+
    then show ?thesis using assms(2) that(3) turn_of_unique by blast
  qed
  then show ?thesis using assms unfolding links_but_def by auto
qed

lemma links_no_session:
  assumes "links_but {tid} s" and "turn_of s sid tid" and "hget (mg_sessions s) sid = None"
  shows "turn_links s"
  using assms unfolding links_but_def by (fastforce dest: turn_of_unique)

lemma links_saved_turn:
  assumes "turn_links s"
    and "\<And>old. hget (mg_turns s) (turn_id t) = Some old \<Longrightarrow> turn_session_id old = turn_session_id t"
  shows "links_but {turn_id t} (saved_turn t s)"
proof -
  have "turn_of s sid tid \<Longrightarrow> turn_of (saved_turn t s) sid tid" for sid tid
    using assms(2) by (auto simp: turn_of_def split: option.splits)
  then show ?thesis
    using assms(1) unfolding links_but_def by (auto simp del: turn_of_saved_turn(1))
qed

lemma links_saved_live_turn:
  assumes "turn_links s" and "\<not> is_terminal_turn_status (turn_status t)"
    and "\<And>old. hget (mg_turns s) (turn_id t) = Some old \<Longrightarrow> turn_session_id old = turn_session_id t"
  shows "turn_links (saved_turn t s)"
proof -
  have "links_but {turn_id t} (saved_turn t s)" using assms(1,3) by (rule links_saved_turn)
  moreover have "live_turn (saved_turn t s) (turn_id t)" using assms(2) by simp
  ultimately show ?thesis unfolding links_but_def by blast
qed

lemma links_saved_approval:
  "links_but T s \<Longrightarrow> turn_of s (appr_session_id a) (appr_turn_id a) \<Longrightarrow> links_but T (saved_approval a s)"
  by (auto simp: links_but_def)

lemma links_spawn:
  fixes s :: "('p, 'z) manager_scheme"
  shows "links_but T s \<Longrightarrow> turn_of s sid tid \<Longrightarrow> links_but T (s\<lparr>mg_tasks := mg_tasks s @ [(k, sid, tid)]\<rparr>)"
  by (auto simp: links_but_def turn_of_def live_turn_def)

lemma links_drop_task:
  fixes s :: "('p, 'z) manager_scheme"
  shows "links_but T s \<Longrightarrow> set ts \<subseteq> set (mg_tasks s) \<Longrightarrow> links_but T (s\<lparr>mg_tasks := ts\<rparr>)"
  by (auto simp: links_but_def turn_of_def live_turn_def)

lemma links_keep_active:
  fixes s :: "('p, 'z) manager_scheme"
  assumes "turn_links s" and "hget (mg_sessions s) (sess_id r) = Some old"
    and "sess_active_turn_id r = None \<or> sess_active_turn_id r = sess_active_turn_id old"
  shows "turn_links (saved_session r (s\<lparr>env_clock_reads := n\<rparr>))"
proof -
  have "turn_links (s\<lparr>env_clock_reads := n\<rparr>)" using assms(1) by simp
  moreover have "sess_active_turn_id r = Some tid \<Longrightarrow> turn_of s (sess_id r) tid \<and> live_turn s tid" for tid
    using assms unfolding links_but_def by auto
  ultimately show ?thesis
    by (intro links_saved_session) (auto simp: turn_of_def live_turn_def)
qed

section \<open>Every handler keeps the links\<close>

lemma links_active:
  "links_but T s \<Longrightarrow> hget (mg_sessions s) sid = Some r \<Longrightarrow> sess_active_turn_id r = Some tid \<Longrightarrow>
   turn_of s sid tid \<and> (tid \<notin> T \<longrightarrow> live_turn s tid)"
  by (auto simp: links_but_def)

lemma turn_of_upd [simp]:
  fixes s :: "('p, 'z) manager_scheme"
  shows "turn_of (s\<lparr>env_clock_reads := n\<rparr>) = turn_of s" "live_turn (s\<lparr>env_clock_reads := n\<rparr>) = live_turn s"
    "turn_of (s\<lparr>mg_provider_state := p\<rparr>) = turn_of s" "live_turn (s\<lparr>mg_provider_state := p\<rparr>) = live_turn s"
    "turn_of (s\<lparr>mg_next_id := i\<rparr>) = turn_of s" "live_turn (s\<lparr>mg_next_id := i\<rparr>) = live_turn s"
  by (simp_all add: turn_of_def live_turn_def fun_eq_iff)

lemma links_set_worktree:
  assumes "durable s" and "turn_links s"
  shows "turn_links (snd (set_session_worktree_id sid wt s))"
proof (cases "hget (mg_sessions s) sid")
  case None
  then show ?thesis using assms by (simp add: set_session_worktree_id_def monad_simps)
next
  case (Some session)
  have "sess_id session = sid" using assms(1) Some durable_keyed by blast
  then show ?thesis
    using assms Some
    by (auto simp: set_session_worktree_id_def monad_simps Let_def run_groups ok_def
        intro!: links_saved_session dest: links_active)
qed

lemma links_create:
  assumes "durable s" and "turn_links s"
  shows "turn_links (snd (create_session input s))"
  using assms
  by (auto simp: create_session_def monad_simps Let_def run_groups ok_def err_def new_session_record_def
      intro!: links_bind_event links_saved_session
      split: option.splits prod.splits sum.splits)

lemma links_finalize:
  assumes "durable s" and "turn_links s"
  shows "turn_links (snd (finalize_session_close sid reason s))"
proof (cases "hget (mg_sessions s) sid")
  case None
  then show ?thesis using assms by (simp add: finalize_session_close_def monad_simps)
next
  case (Some session)
  have "sess_id session = sid" using assms(1) Some durable_keyed by blast
  then show ?thesis
    using assms Some
    by (auto simp: finalize_session_close_def monad_simps Let_def run_groups ok_def
        intro!: links_bind_event links_saved_session)
qed

lemma links_close:
  assumes "durable s" and "turn_links s"
  shows "turn_links (snd (close_session sid reason s))"
  using assms
  by (auto simp: close_session_def monad_simps intro!: links_finalize split: option.splits prod.splits sum.splits)

lemma links_resume:
  assumes "durable s" and "turn_links s"
  shows "turn_links (snd (resume_session sid input s))"
proof (cases "hget (mg_sessions s) sid")
  case None
  then show ?thesis using assms by (simp add: resume_session_def monad_simps)
next
  case (Some session)
  have "sess_id session = sid" using assms(1) Some durable_keyed by blast
  then show ?thesis
    using assms Some
    by (auto simp: resume_session_def monad_simps Let_def run_groups ok_def err_def
        intro!: links_bind_event links_saved_session dest: links_active
        split: option.splits prod.splits sum.splits)
qed

lemma event_turn_of: "append_event sc i ses t kind crit payload s = (r, s') \<Longrightarrow> turn_of s' = turn_of s"
  by (rule turn_of_cong) (simp add: append_event_run)

lemma links_send_turn_failed:
  assumes "durable s" and "turn_links s" and "hget (mg_sessions s) sid = Some (adm_session adm)"
    and "hget (mg_turns s) (adm_turn_id adm) = None"
  shows "turn_links (snd (send_turn_failed sid input adm e s))"
proof -
  have "sess_id (adm_session adm) = sid" using assms durable_keyed by blast
  then show ?thesis
    using assms durable_exists(1) [OF assms(1,3)]
    by (auto simp: send_turn_failed_def monad_simps Let_def run_groups err_def new_turn_record_def
        intro!: links_bind_event links_settle [of "adm_turn_id adm"]
          links_saved_turn [where t = "\<lparr>turn_id = adm_turn_id adm, turn_session_id = _, turn_provider_ref = _,
            turn_status = _, turn_input = _, turn_source = _, turn_started_at = _, turn_completed_at = _,
            turn_usage = _, turn_error = _\<rparr>", simplified])
qed

lemma links_send_turn_accept:
  assumes "durable s" and "turn_links s" and "hget (mg_sessions s) sid = Some (adm_session adm)"
    and "hget (mg_turns s) (adm_turn_id adm) = None"
    and "\<And>aid. adm_approval_id adm = Some aid \<Longrightarrow> hget (mg_approvals s) aid = None"
  shows "turn_links (snd (send_turn_accept sid input adm s))"
proof -
  have "sess_id (adm_session adm) = sid" using assms durable_keyed by blast
  moreover have "\<not> is_terminal_turn_status ''waiting_for_approval''" "\<not> is_terminal_turn_status ''in_progress''"
    by (simp_all add: is_terminal_turn_status_def)
  ultimately show ?thesis
    using assms durable_exists(1) [OF assms(1,3)]
    by (auto simp: send_turn_accept_def monad_simps Let_def run_groups ok_def new_turn_record_def
        new_approval_record_def spawn_wait_for_turn_def modify_def event_turn_of
        intro!: links_bind_event links_saved_session links_saved_live_turn links_saved_approval links_spawn
        split: option.splits)
qed

lemma links_send_turn:
  assumes "durable s" and "turn_links s" and "next_ids_unused s"
  shows "turn_links (snd (send_turn sid input s))"
proof (cases rule: send_turn_phases [of sid input s])
  case (rejected e i n)
  then show ?thesis using assms by simp
next
  case (dispatched adm s1 i n p s2 e)
  note adm = admit_Inr [OF dispatched(1)]
  have s2: "durable s2" "turn_links s2" "hget (mg_sessions s2) sid = Some (adm_session adm)"
    "hget (mg_turns s2) (adm_turn_id adm) = None"
    using assms adm(1,6) dispatched(2) next_ids_unused_at(2)[OF assms(3), of 0] by simp_all
  have "adm_approval_id adm = Some aid \<Longrightarrow> hget (mg_approvals s2) aid = None" for aid
    using adm(8) next_ids_unused_at(3)[OF assms(3), of 2] dispatched(2) by (auto split: if_splits)
  then show ?thesis
    using dispatched(3) s2 links_send_turn_failed links_send_turn_accept by (metis snd_conv)
qed

lemma links_interrupt:
  assumes "turn_links s"
  shows "turn_links (snd (interrupt_turn sid tid s))"
  using assms
  by (auto simp: interrupt_turn_def monad_simps ok_def err_def intro!: links_bind_event
      split: option.splits prod.splits sum.splits)

lemma links_approval_accepted:
  assumes "durable s" and "turn_links s" and "turn_of s sid tid"
  shows "turn_links (snd (approval_accepted kind sid tid s))"
proof -
  obtain turn where turn: "hget (mg_turns s) tid = Some turn" "turn_session_id turn = sid"
    using assms(3) by (auto simp: turn_of_def split: option.splits)
  have "turn_id turn = tid" "session_exists (env_db s) (turn_session_id turn)"
    using turn durable_keyed(2) durable_foreign(1) assms(1) by blast+
  moreover have "\<not> is_terminal_turn_status ''in_progress''" by (simp add: is_terminal_turn_status_def)
  ultimately show ?thesis
    unfolding approval_accepted_def using assms turn
    by (auto simp: monad_simps Let_def ok_def durable_keyed(1) run_groups event_turn_of
        spawn_wait_for_turn_def modify_def
        intro!: links_bind_event links_saved_live_turn links_saved_session links_spawn
        dest: links_active split: option.splits)
qed

lemma durable_turn_session:
  assumes "durable s" and "hget (mg_turns s) tid = Some turn"
  obtains session where "hget (mg_sessions s) (turn_session_id turn) = Some session"
    and "sess_id session = turn_session_id turn" and "turn_id turn = tid"
    and "session_exists (env_db s) (turn_session_id turn)"
proof -
  have ex: "session_exists (env_db s) (turn_session_id turn)" using durable_foreign(1) assms by blast
  then have "tbl_find sess_id (turn_session_id turn) (db_sessions (env_db s)) \<noteq> None"
    by (simp add: tbl_find_def find_key_None)
  then obtain session where "hget (mg_sessions s) (turn_session_id turn) = Some session"
    using assms(1) by (auto simp: durable_def mirrored_def)
  then show thesis using that ex assms durable_keyed by blast
qed

lemma links_approval_declined:
  assumes "durable s" and "turn_links s" and "turn_of s sid tid"
  shows "turn_links (snd (approval_declined sid tid s))"
proof -
  obtain turn where turn: "hget (mg_turns s) tid = Some turn" "turn_session_id turn = sid"
    using assms(3) by (auto simp: turn_of_def split: option.splits)
  obtain session where ses: "hget (mg_sessions s) sid = Some session" "sess_id session = sid" "turn_id turn = tid"
    "session_exists (env_db s) sid"
    using durable_turn_session [OF assms(1) turn(1)] turn(2) by metis
  have "links_but {tid} (saved_turn t (s\<lparr>env_clock_reads := n\<rparr>))"
    if "turn_id t = tid" "turn_session_id t = sid" for t n
    using links_saved_turn [of "s\<lparr>env_clock_reads := n\<rparr>" t] assms(2) turn that by simp
  then show ?thesis
    unfolding approval_declined_def using assms(1,2) turn ses links_active [OF assms(2) ses(1)]
    by (auto simp: monad_simps Let_def run_groups snd_binds intro!: links_append_event links_settle [of tid])
qed

lemma links_respond_approval:
  assumes "durable s" and "turn_links s"
  shows "turn_links (snd (respond_approval sid aid input s))"
proof (cases "hget (mg_approvals s) aid")
  case None
  then show ?thesis
    using assms by (auto simp: respond_approval_def monad_simps split: option.splits)
next
  case (Some a)
  have a: "appr_id a = aid" "session_exists (env_db s) (appr_session_id a)" "turn_exists (env_db s) (appr_turn_id a)"
    "turn_of s (appr_session_id a) (appr_turn_id a)"
    using durable_keyed(3) durable_foreign(2) assms Some unfolding links_but_def by blast+
  have ev: "turn_links (snd (bindE (append_event sc i ses t kind crit payload) f s'))"
    if "durable s'" "turn_links s'" "\<And>x s''. durable s'' \<Longrightarrow> turn_links s'' \<Longrightarrow> turn_of s'' = turn_of s' \<Longrightarrow> turn_links (snd (f x s''))"
    for sc i ses t kind crit payload f and s' :: "('a, 'b) manager_scheme"
    using that durable_append_event [OF that(1), of sc i ses t kind crit payload]
    by (intro links_bind_event) (auto simp: event_turn_of)
  show ?thesis
    using assms Some a unfolding respond_approval_def
    by (auto simp: monad_simps Let_def ok_def err_def run_groups approval_write_ok_def snd_binds snd_bindE_pure
        intro!: ev durable_saved_approval links_saved_approval links_approval_accepted links_approval_declined
        split: option.splits sum.splits prod.splits approval_decision.splits)
qed

lemma links_terminal_result:
  assumes "durable s" and "turn_links s"
  shows "turn_links (snd (apply_terminal_result result s))"
proof (cases "hget (mg_turns s) (res_turn_id result)")
  case None
  then show ?thesis using assms by (simp add: terminal_defs monad_simps Let_def)
next
  case (Some turn)
  obtain session where ses: "hget (mg_sessions s) (turn_session_id turn) = Some session"
    "sess_id session = turn_session_id turn" "turn_id turn = res_turn_id result"
    "session_exists (env_db s) (turn_session_id turn)"
    using durable_turn_session [OF assms(1) Some] by metis
  have "links_but {res_turn_id result} (saved_turn t (s\<lparr>env_clock_reads := n\<rparr>))"
    if "turn_id t = res_turn_id result" "turn_session_id t = turn_session_id turn" for t n
    using links_saved_turn [of "s\<lparr>env_clock_reads := n\<rparr>" t] assms(2) Some that by simp
  moreover have "sess_active_turn_id (finished_session session t result now) = Some tid \<longleftrightarrow>
      sess_active_turn_id session = Some tid \<and> tid \<noteq> res_turn_id result" for t now tid
    by (auto simp: finished_session_def)
  ultimately show ?thesis
    unfolding terminal_defs using assms Some ses links_active [OF assms(2) ses(1)]
    by (auto simp: monad_simps Let_def run_groups snd_binds ok_def err_def snd_bindE_pure
        links_keep_active [OF assms(2), where old = session]
        intro!: links_append_event links_settle [of "res_turn_id result"])
qed

lemma links_terminal_failure:
  assumes "durable s" and "turn_links s" and "turn_of s sid tid"
  shows "turn_links (snd (apply_terminal_failure sid tid e s))"
proof -
  obtain turn where turn: "hget (mg_turns s) tid = Some turn" "turn_session_id turn = sid"
    using assms(3) by (auto simp: turn_of_def split: option.splits)
  obtain session where ses: "hget (mg_sessions s) sid = Some session" "sess_id session = sid" "turn_id turn = tid"
    "session_exists (env_db s) sid"
    using durable_turn_session [OF assms(1) turn(1)] turn(2) by metis
  have "links_but {tid} (saved_turn t (s\<lparr>env_clock_reads := n\<rparr>))"
    if "turn_id t = tid" "turn_session_id t = sid" for t n
    using links_saved_turn [of "s\<lparr>env_clock_reads := n\<rparr>" t] assms(2) turn that by simp
  then show ?thesis
    unfolding failure_defs
    using assms turn ses links_active [OF assms(2) ses(1)] links_weaken [OF assms(2), of "{tid}"]
    by (auto simp: monad_simps Let_def run_groups snd_binds links_keep_active [OF assms(2), where old = session]
        intro!: links_append_event links_settle [of tid])
qed

lemma links_wait_step:
  assumes "durable s" and "turn_links s"
  shows "turn_links (snd (wait_step n s))"
proof (cases "n < length (mg_tasks s)")
  case False
  then show ?thesis using assms by (simp add: wait_step_def monad_simps ok_def)
next
  case True
  obtain kind sid tid where task: "mg_tasks s ! n = (kind, sid, tid)" by (metis prod_cases3)
  define s1 where "s1 = s\<lparr>mg_tasks := take n (mg_tasks s) @ drop (Suc n) (mg_tasks s)\<rparr>"
  have "(kind, sid, tid) \<in> set (mg_tasks s)" using True task nth_mem by metis
  then have own: "turn_of s sid tid" using assms(2) by (auto simp: links_but_def)
  have "set (take n (mg_tasks s) @ drop (Suc n) (mg_tasks s)) \<subseteq> set (mg_tasks s)"
    by (auto dest: in_set_takeD in_set_dropD)
  then have s1: "durable s1" "turn_links s1" "turn_of s1 sid tid"
    using assms own links_drop_task [OF assms(2)] by (auto simp: s1_def turn_of_def)
  have call: "durable (snd (provider_call g s1))" "turn_links (snd (provider_call g s1))"
    "turn_of (snd (provider_call g s1)) sid tid" for g :: "('a, runtime_error, turn_result) rt"
    using s1 by (simp_all add: provider_call_def split: prod.splits)
  have "turn_links (snd (run_wait_task kind sid tid s1))"
    using s1 call
    by (auto simp: run_wait_task_def monad_simps ok_def links_terminal_result links_terminal_failure
        split: option.splits sum.splits)
  then show ?thesis using True task by (simp add: wait_step_def monad_simps s1_def)
qed

end
