(* ===== verification/Recovery.thy ===== *)
theory Recovery
  imports Turn_Links
begin

text \<open>
  Startup recovery (\<open>runtime-core/src/runtime/recovery.rs\<close>). A crash can leave a session that names
  a missing, foreign or finished turn, a turn that waits for an approval nobody can give, and
  approvals of finished turns. \<open>recover_startup\<close> reconciles all of them against the snapshot of
  turns and approvals taken at its start, session by session, and spawns a waiter for every turn
  that is still running.
\<close>

section \<open>The recovery procedure\<close>

record provider_recovery_status =
  prs_provider :: string
  prs_healthy :: bool
  prs_detail :: "string option"

record recovery_summary =
  rs_started_at :: int
  rs_completed_at :: int
  rs_sessions_scanned :: nat
  rs_turns_scanned :: nat
  rs_approvals_scanned :: nat
  rs_sessions_reconciled :: nat
  rs_turns_reconciled :: nat
  rs_approvals_reconciled :: nat
  rs_resumed_sessions :: nat
  rs_resumed_waits :: nat
  rs_deferred_deliveries_retried :: nat
  rs_provider_status :: "provider_recovery_status list"
  rs_notes :: "string list"

definition default_summary :: recovery_summary where
  "default_summary =
     \<lparr>rs_started_at = 0, rs_completed_at = 0, rs_sessions_scanned = 0, rs_turns_scanned = 0,
      rs_approvals_scanned = 0, rs_sessions_reconciled = 0, rs_turns_reconciled = 0,
      rs_approvals_reconciled = 0, rs_resumed_sessions = 0, rs_resumed_waits = 0,
      rs_deferred_deliveries_retried = 0, rs_provider_status = [], rs_notes = []\<rparr>"

definition add_note :: "string \<Rightarrow> recovery_summary \<Rightarrow> recovery_summary" where
  "add_note n sm = sm\<lparr>rs_notes := rs_notes sm @ [n]\<rparr>"

definition provider_recovery ::
  "provider_metadata \<Rightarrow> recovery_summary \<Rightarrow> (('p, 'z) manager_scheme, runtime_error, recovery_summary) rt" where
  "provider_recovery md sm =
     bindE (gets (\<lambda>s. hget (mg_providers s) (pm_kind md))) (\<lambda>adapter.
     bindE
       (case adapter of
          Some p \<Rightarrow>
            bindE (attempt (provider_call (pv_healthcheck p))) (\<lambda>r.
            ok (case r of
                  Inr _ \<Rightarrow> \<lparr>prs_provider = kind_as_str (pm_kind md), prs_healthy = True, prs_detail = None\<rparr>
                | Inl e \<Rightarrow> \<lparr>prs_provider = kind_as_str (pm_kind md), prs_healthy = False,
                            prs_detail = Some (error_to_string e)\<rparr>))
        | None \<Rightarrow> ok \<lparr>prs_provider = kind_as_str (pm_kind md), prs_healthy = False,
                     prs_detail = Some ''provider not registered''\<rparr>) (\<lambda>status.
     ok (sm\<lparr>rs_provider_status := rs_provider_status sm @ [status]\<rparr>)))"

definition writable_status :: "string \<Rightarrow> bool" where
  "writable_status st \<longleftrightarrow> st \<noteq> ''closed'' \<and> st \<noteq> ''failed''"

definition fail_session :: "string \<Rightarrow> string \<Rightarrow> session_record \<Rightarrow> session_record" where
  "fail_session code msg r =
     r\<lparr>sess_status := ''failed'', sess_failure_code := Some code, sess_failure_message := Some msg,
       sess_active_turn_id := None\<rparr>"

text \<open>Reconnect a writable session to its provider; a refusal fails the session.\<close>

definition recover_provider_session ::
  "session_record \<Rightarrow> recovery_summary \<Rightarrow>
   (('p, 'z) manager_scheme, runtime_error, session_record \<times> bool \<times> recovery_summary) rt" where
  "recover_provider_session session sm =
     (if \<not> writable_status (sess_status session) then ok (session, False, sm)
      else case sess_provider_session_ref session of
        None \<Rightarrow> ok (fail_session ''startup_missing_provider_ref'' ''missing provider_session_ref'' session, True, sm)
      | Some pref \<Rightarrow>
          bindE (require_kind session) (\<lambda>kind.
          bindE (gets (\<lambda>s. hget (mg_providers s) kind)) (\<lambda>found.
          case found of
            None \<Rightarrow> ok (session, False, sm)
          | Some p \<Rightarrow>
              bindE (attempt (provider_call (pv_resume_session p
                \<lparr>rsr_session_id = sess_id session, rsr_provider_session_ref = pref,
                 rsr_canonical_ref = sess_canonical_ref session, rsr_cwd = sess_cwd session,
                 rsr_metadata = Some (sess_metadata session)\<rparr>))) (\<lambda>result.
              case result of
                Inr resumed \<Rightarrow>
                  ok (session\<lparr>sess_provider_session_ref := Some (psn_provider_session_ref resumed),
                              sess_canonical_ref := psn_canonical_ref resumed\<rparr>,
                      sess_provider_session_ref session \<noteq> Some (psn_provider_session_ref resumed) \<or>
                        sess_canonical_ref session \<noteq> psn_canonical_ref resumed,
                      sm\<lparr>rs_resumed_sessions := Suc (rs_resumed_sessions sm)\<rparr>)
              | Inl e \<Rightarrow>
                  ok (fail_session ''startup_provider_resume_failed'' (error_to_string e) session, True,
                      add_note (''session '' @ sess_id session @ '' marked failed: '' @ error_to_string e) sm)))))"

definition pending_approval_for_turn :: "(string, approval_record) hmap \<Rightarrow> string \<Rightarrow> string \<Rightarrow> bool" where
  "pending_approval_for_turn approvals sid tid \<longleftrightarrow>
     list_ex (\<lambda>a. appr_turn_id a = tid \<and> appr_session_id a = sid \<and> appr_status a = ''pending'') (hvalues approvals)"

definition ready_unless_closed :: "session_record \<Rightarrow> session_record" where
  "ready_unless_closed r =
     r\<lparr>sess_active_turn_id := None,
       sess_status := (if writable_status (sess_status r) then ''ready'' else sess_status r)\<rparr>"

text \<open>
  Reconcile the session's active turn with the snapshot. \<open>session\<close> is the record the loop started
  from, \<open>updated\<close> the record after the provider phase.
\<close>

definition recover_active_turn ::
  "(string, turn_record) hmap \<Rightarrow> (string, approval_record) hmap \<Rightarrow> session_record \<Rightarrow>
   session_record \<times> bool \<times> recovery_summary \<Rightarrow>
   (('p, 'z) manager_scheme, runtime_error, session_record \<times> bool \<times> recovery_summary) rt" where
  "recover_active_turn turns approvals session acc =
     (case acc of (updated, changed, sm) \<Rightarrow>
      case sess_active_turn_id updated of
        None \<Rightarrow>
          if sess_status updated = ''turn_running'' \<or> sess_status updated = ''waiting_for_approval''
          then ok (updated\<lparr>sess_status := ''ready''\<rparr>, True, sm)
          else ok (updated, changed, sm)
      | Some active \<Rightarrow>
          (case hget turns active of
             None \<Rightarrow>
               ok (ready_unless_closed updated, True,
                   add_note (''session '' @ sess_id session @ '' cleared stale active turn '' @ active) sm)
           | Some turn \<Rightarrow>
               if turn_session_id turn \<noteq> sess_id session
               then ok (fail_session ''startup_turn_ownership_mismatch''
                          (''turn '' @ turn_id turn @ '' belongs to '' @ turn_session_id turn) updated, True, sm)
               else if is_terminal_turn_status (turn_status turn)
               then ok (ready_unless_closed updated, True, sm)
               else if turn_status turn = ''waiting_for_approval''
               then
                 if pending_approval_for_turn approvals (sess_id session) (turn_id turn)
                 then ok (updated\<lparr>sess_status := ''waiting_for_approval''\<rparr>,
                          changed \<or> sess_status updated \<noteq> ''waiting_for_approval'', sm)
                 else
                   bindE now_ms (\<lambda>completed.
                   let repaired = turn\<lparr>turn_status := ''failed'', turn_completed_at := Some completed,
                         turn_error := Some (jobject [(''message'', JString ''startup recovery: missing pending approval'')])\<rparr> in
                   bindE (store_write (WTurn repaired)) (\<lambda>_.
                   bindE (put_turn (turn_id repaired) repaired) (\<lambda>_.
                   ok (ready_unless_closed updated, True, sm\<lparr>rs_turns_reconciled := Suc (rs_turns_reconciled sm)\<rparr>))))
               else
                 let updated' = (if writable_status (sess_status updated)
                                 then updated\<lparr>sess_status := ''turn_running''\<rparr> else updated) in
                 bindE (require_kind session) (\<lambda>kind.
                 bindE (spawn_wait_for_turn kind (sess_id session) (turn_id turn)) (\<lambda>_.
                 ok (updated', changed, sm\<lparr>rs_resumed_waits := Suc (rs_resumed_waits sm)\<rparr>)))))"

definition recover_session ::
  "(string, turn_record) hmap \<Rightarrow> (string, approval_record) hmap \<Rightarrow> string \<Rightarrow> recovery_summary \<Rightarrow>
   (('p, 'z) manager_scheme, runtime_error, recovery_summary) rt" where
  "recover_session turns approvals sid sm =
     bindE (gets (\<lambda>s. hget (mg_sessions s) sid)) (\<lambda>found.
     case found of
       None \<Rightarrow> ok sm
     | Some session \<Rightarrow>
         bindE (recover_provider_session session sm) (\<lambda>acc.
         bindE (recover_active_turn turns approvals session acc) (\<lambda>(updated, changed, sm').
         if changed
         then bindE now_ms (\<lambda>now.
              let updated' = updated\<lparr>sess_updated_at := now\<rparr> in
              bindE (store_write (WSession updated')) (\<lambda>_.
              bindE (put_session (sess_id updated') updated') (\<lambda>_.
              ok (sm'\<lparr>rs_sessions_reconciled := Suc (rs_sessions_reconciled sm')\<rparr>))))
         else ok sm')))"

text \<open>Decline a pending approval whose turn is gone or finished in the snapshot.\<close>

definition recover_approval ::
  "(string, turn_record) hmap \<Rightarrow> (string, approval_record) hmap \<Rightarrow> string \<Rightarrow> recovery_summary \<Rightarrow>
   (('p, 'z) manager_scheme, runtime_error, recovery_summary) rt" where
  "recover_approval turns approvals aid sm =
     (case hget approvals aid of
        None \<Rightarrow> ok sm
      | Some approval \<Rightarrow>
          if appr_status approval \<noteq> ''pending'' then ok sm
          else if (case hget turns (appr_turn_id approval) of
                     None \<Rightarrow> True | Some turn \<Rightarrow> is_terminal_turn_status (turn_status turn))
          then bindE now_ms (\<lambda>now.
               let resolved = approval\<lparr>appr_status := ''decline'', appr_resolved_at := Some now,
                     appr_response := Some (jobject [(''reason'', JString ''startup_recovery_orphaned_approval'')])\<rparr> in
               bindE (store_write (WApproval resolved)) (\<lambda>_.
               bindE (put_approval (appr_id resolved) resolved) (\<lambda>_.
               ok (sm\<lparr>rs_approvals_reconciled := Suc (rs_approvals_reconciled sm)\<rparr>))))
          else ok sm)"

definition recover_startup :: "(('p, 'z) manager_scheme, runtime_error, recovery_summary) rt" where
  "recover_startup =
     bindE now_ms (\<lambda>started.
     bindE (gets mg_turns) (\<lambda>turns.
     bindE (gets mg_approvals) (\<lambda>approvals.
     bindE (gets (\<lambda>s. hkeys (mg_sessions s))) (\<lambda>session_ids.
     let sm = default_summary\<lparr>rs_started_at := started, rs_turns_scanned := length turns,
                              rs_approvals_scanned := length approvals,
                              rs_sessions_scanned := length session_ids\<rparr> in
     bindE (gets (\<lambda>s. registry_metadata (mg_providers s))) (\<lambda>metadata.
     bindE (for_fold metadata sm provider_recovery) (\<lambda>sm1.
     bindE (for_fold session_ids sm1 (recover_session turns approvals)) (\<lambda>sm2.
     bindE (for_fold (hkeys approvals) sm2 (recover_approval turns approvals)) (\<lambda>sm3.
     bindE now_ms (\<lambda>completed.
     ok (sm3\<lparr>rs_completed_at := completed\<rparr>))))))))))"

definition provider_status_json :: "provider_recovery_status \<Rightarrow> json" where
  "provider_status_json st =
     jobject [(''provider'', JString (prs_provider st)), (''healthy'', JBool (prs_healthy st)),
              (''detail'', jopt JString (prs_detail st))]"

definition summary_json :: "recovery_summary \<Rightarrow> json" where
  "summary_json sm =
     jobject [(''started_at'', jint (rs_started_at sm)), (''completed_at'', jint (rs_completed_at sm)),
       (''sessions_scanned'', jint (int (rs_sessions_scanned sm))),
       (''turns_scanned'', jint (int (rs_turns_scanned sm))),
       (''approvals_scanned'', jint (int (rs_approvals_scanned sm))),
       (''sessions_reconciled'', jint (int (rs_sessions_reconciled sm))),
       (''turns_reconciled'', jint (int (rs_turns_reconciled sm))),
       (''approvals_reconciled'', jint (int (rs_approvals_reconciled sm))),
       (''resumed_sessions'', jint (int (rs_resumed_sessions sm))),
       (''resumed_waits'', jint (int (rs_resumed_waits sm))),
       (''deferred_deliveries_retried'', jint (int (rs_deferred_deliveries_retried sm))),
       (''provider_status'', JArray (map provider_status_json (rs_provider_status sm))),
       (''notes'', JArray (map JString (rs_notes sm)))]"

definition emit_startup_recovered_event ::
  "recovery_summary \<Rightarrow> (('p, 'z) manager_scheme, runtime_error, event_record) rt" where
  "emit_startup_recovered_event sm =
     append_event ScopeSystem ''startup_recovery'' None None ''runtime.startup_recovered'' Critical
       (jobject [(''summary'', summary_json sm)])"

section \<open>What recovery establishes\<close>

text \<open>
  \<open>awaited s sid tid\<close>: the turn is a live turn of the session, and something will finish it: a
  spawned waiter, or an approval that can still be answered.
\<close>

definition awaited :: "('p, 'z) manager_scheme \<Rightarrow> string \<Rightarrow> string \<Rightarrow> bool" where
  "awaited s sid tid \<longleftrightarrow>
     turn_of s sid tid \<and> live_turn s tid \<and>
     ((\<exists>k. (k, sid, tid) \<in> set (mg_tasks s)) \<or>
      (\<exists>aid a. hget (mg_approvals s) aid = Some a \<and> appr_turn_id a = tid \<and> appr_session_id a = sid \<and>
               appr_status a = ''pending''))"

definition settled :: "('p, 'z) manager_scheme \<Rightarrow> string \<Rightarrow> bool" where
  "settled s sid \<longleftrightarrow>
     (\<forall>r tid. hget (mg_sessions s) sid = Some r \<longrightarrow> sess_active_turn_id r = Some tid \<longrightarrow> awaited s sid tid)"

lemma pending_approval_hget:
  "hm_wf approvals \<Longrightarrow> pending_approval_for_turn approvals sid tid \<longleftrightarrow>
     (\<exists>aid a. hget approvals aid = Some a \<and> appr_turn_id a = tid \<and> appr_session_id a = sid \<and> appr_status a = ''pending'')"
  by (simp add: pending_approval_for_turn_def list_ex_iff Bex_def hvalues_hget) metis

lemma recover_provider_effect:
  assumes "recover_provider_session session sm s = (Inr (u, c, sm'), s')"
  shows "\<exists>p. s' = s\<lparr>mg_provider_state := p\<rparr>"
    and "sess_id u = sess_id session" and "sess_created_at u = sess_created_at session"
    and "sess_active_turn_id u = None \<or> sess_active_turn_id u = sess_active_turn_id session"
    and "\<not> c \<Longrightarrow> u = session"
proof -
  have "(\<exists>p. s' = s\<lparr>mg_provider_state := p\<rparr>) \<and> sess_id u = sess_id session \<and>
    sess_created_at u = sess_created_at session \<and>
    (sess_active_turn_id u = None \<or> sess_active_turn_id u = sess_active_turn_id session) \<and> (\<not> c \<longrightarrow> u = session)"
  proof (cases "writable_status (sess_status session) \<and> sess_provider_session_ref session \<noteq> None")
    case False
    then show ?thesis
      using assms frame_refl [of s] by (auto simp: recover_provider_session_def ok_def fail_session_def split: if_splits)
  next
    case True
    then obtain pref where pref: "sess_provider_session_ref session = Some pref" by blast
    then obtain kind where kind: "kind_from_str (sess_provider session) = Some kind"
      using assms True by (auto simp: recover_provider_session_def monad_simps split: option.splits)
    show ?thesis
    proof (cases "hget (mg_providers s) kind")
      case None
      then show ?thesis
        using assms True pref kind frame_refl [of s] by (simp add: recover_provider_session_def monad_simps ok_def)
    next
      case (Some p)
      then show ?thesis
        using assms True pref kind
        by (simp add: recover_provider_session_def monad_simps bindE_attempt_call ok_def fail_session_def
            del: bindE_attempt split: prod.splits sum.splits) auto
    qed
  qed
  then show "\<exists>p. s' = s\<lparr>mg_provider_state := p\<rparr>"
    and "sess_id u = sess_id session" and "sess_created_at u = sess_created_at session"
    and "sess_active_turn_id u = None \<or> sess_active_turn_id u = sess_active_turn_id session"
    and "\<not> c \<Longrightarrow> u = session"
    by simp_all
qed

text \<open>What the second phase does to the state.\<close>

definition reconciles ::
  "string \<Rightarrow> ('p, 'z) manager_scheme \<Rightarrow> ('p, 'z) manager_scheme \<Rightarrow> bool" where
  "reconciles sid s s' \<longleftrightarrow>
     durable s' \<and> mg_approvals s' = mg_approvals s \<and> set (mg_tasks s) \<subseteq> set (mg_tasks s') \<and>
     (\<forall>k. k \<noteq> sid \<longrightarrow> hget (mg_sessions s') k = hget (mg_sessions s) k) \<and>
     (\<forall>tid t. hget (mg_turns s) tid = Some t \<longrightarrow> turn_session_id t \<noteq> sid \<longrightarrow> hget (mg_turns s') tid = Some t) \<and>
     (\<forall>tid t. hget (mg_turns s) tid = Some t \<longrightarrow>
        hget (mg_turns s') tid = Some t \<or> \<not> pending_approval_for_turn (mg_approvals s) (turn_session_id t) tid) \<and>
     (\<forall>tid t. hget (mg_turns s') tid = Some t \<longrightarrow> \<not> is_terminal_turn_status (turn_status t) \<longrightarrow>
        hget (mg_turns s) tid = Some t)"

lemma reconcilesD:
  assumes "reconciles sid s s'"
  shows "durable s'" and "mg_approvals s' = mg_approvals s" and "set (mg_tasks s) \<subseteq> set (mg_tasks s')"
    and "k \<noteq> sid \<Longrightarrow> hget (mg_sessions s') k = hget (mg_sessions s) k"
    and "hget (mg_turns s) tid = Some t \<Longrightarrow> turn_session_id t \<noteq> sid \<Longrightarrow> hget (mg_turns s') tid = Some t"
    and "hget (mg_turns s) tid = Some t \<Longrightarrow>
      pending_approval_for_turn (mg_approvals s) (turn_session_id t) tid \<Longrightarrow> hget (mg_turns s') tid = Some t"
    and "hget (mg_turns s') tid = Some t \<Longrightarrow> \<not> is_terminal_turn_status (turn_status t) \<Longrightarrow>
      hget (mg_turns s) tid = Some t"
  using assms unfolding reconciles_def by blast+

lemma reconcilesI:
  assumes "durable s'" and "mg_approvals s' = mg_approvals s" and "set (mg_tasks s) \<subseteq> set (mg_tasks s')"
    and "\<And>k. k \<noteq> sid \<Longrightarrow> hget (mg_sessions s') k = hget (mg_sessions s) k"
    and "\<And>tid t. hget (mg_turns s) tid = Some t \<Longrightarrow> turn_session_id t \<noteq> sid \<Longrightarrow> hget (mg_turns s') tid = Some t"
    and "\<And>tid t. hget (mg_turns s) tid = Some t \<Longrightarrow>
      pending_approval_for_turn (mg_approvals s) (turn_session_id t) tid \<Longrightarrow> hget (mg_turns s') tid = Some t"
    and "\<And>tid t. hget (mg_turns s') tid = Some t \<Longrightarrow> \<not> is_terminal_turn_status (turn_status t) \<Longrightarrow>
      hget (mg_turns s) tid = Some t"
  shows "reconciles sid s s'"
  using assms unfolding reconciles_def by blast

lemma reconciles_trans:
  assumes "reconciles sid s s'" and "reconciles sid s' s''"
  shows "reconciles sid s s''"
proof (rule reconcilesI)
  show "set (mg_tasks s) \<subseteq> set (mg_tasks s'')"
    using reconcilesD(3)[OF assms(1)] reconcilesD(3)[OF assms(2)] by blast
  show "hget (mg_turns s'') tid = Some t"
    if "hget (mg_turns s) tid = Some t" "pending_approval_for_turn (mg_approvals s) (turn_session_id t) tid" for tid t
    using reconcilesD(6)[OF assms(1) that] reconcilesD(6)[OF assms(2)] reconcilesD(2)[OF assms(1)] that by simp
  show "durable s''" by (rule reconcilesD(1)[OF assms(2)])
  show "mg_approvals s'' = mg_approvals s" using reconcilesD(2)[OF assms(1)] reconcilesD(2)[OF assms(2)] by simp
  show "hget (mg_sessions s'') k = hget (mg_sessions s) k" if "k \<noteq> sid" for k
    using reconcilesD(4)[OF assms(1) that] reconcilesD(4)[OF assms(2) that] by simp
  show "hget (mg_turns s'') tid = Some t" if "hget (mg_turns s) tid = Some t" "turn_session_id t \<noteq> sid" for tid t
    using reconcilesD(5)[OF assms(2) reconcilesD(5)[OF assms(1) that] that(2)] .
  show "hget (mg_turns s) tid = Some t"
    if "hget (mg_turns s'') tid = Some t" "\<not> is_terminal_turn_status (turn_status t)" for tid t
    using reconcilesD(7)[OF assms(1) reconcilesD(7)[OF assms(2) that] that(2)] .
qed

lemma reconciles_same:
  "durable s' \<Longrightarrow> mg_approvals s' = mg_approvals s \<Longrightarrow> set (mg_tasks s) \<subseteq> set (mg_tasks s') \<Longrightarrow>
   (\<And>k. k \<noteq> sid \<Longrightarrow> hget (mg_sessions s') k = hget (mg_sessions s) k) \<Longrightarrow> mg_turns s' = mg_turns s \<Longrightarrow>
   reconciles sid s s'"
  by (simp add: reconciles_def)

lemma reconciles_repair:
  assumes "durable s" and "session_exists (env_db s) (turn_session_id t)" and "is_terminal_turn_status (turn_status t)"
    and "hget (mg_turns s) (turn_id t) = Some old" and "turn_session_id t = sid" and "turn_session_id old = sid"
    and "\<not> pending_approval_for_turn (mg_approvals s) sid (turn_id t)"
  shows "reconciles sid s (saved_turn t (s\<lparr>env_clock_reads := n\<rparr>))"
  using assms by (auto simp: reconciles_def durable_saved_turn split: if_splits)

lemma recover_active_effect:
  assumes run: "recover_active_turn turns approvals session (u, c, sm) s = (Inr (u', c', sm'), s')"
    and dur: "durable s" and wf: "hm_wf approvals" and appr: "mg_approvals s = approvals"
    and turns: "\<And>tid t. hget turns tid = Some t \<Longrightarrow> turn_id t = tid"
    and own: "\<And>tid t. hget turns tid = Some t \<Longrightarrow> turn_session_id t = sess_id session \<Longrightarrow> hget (mg_turns s) tid = Some t"
    and ids: "sess_id u = sess_id session" "sess_created_at u = sess_created_at session"
  shows "reconciles (sess_id session) s s' \<and> mg_sessions s' = mg_sessions s \<and>
    sess_id u' = sess_id session \<and> sess_created_at u' = sess_created_at session \<and>
    (\<forall>tid. sess_active_turn_id u' = Some tid \<longrightarrow> awaited s' (sess_id session) tid) \<and>
    (\<not> c' \<longrightarrow> \<not> c \<and> sess_active_turn_id u' = sess_active_turn_id u)"
proof (cases "sess_active_turn_id u")
  case None
  then show ?thesis
    using run dur ids by (auto simp: recover_active_turn_def ok_def split: if_splits intro!: reconciles_same)
next
  case (Some active)
  show ?thesis
  proof (cases "hget turns active")
    case None
    then show ?thesis
      using run dur ids Some
      by (auto simp: recover_active_turn_def ok_def ready_unless_closed_def intro!: reconciles_same)
  next
    case (Some turn)
    note act = \<open>sess_active_turn_id u = Some active\<close> Some turns [OF Some]
    show ?thesis
    proof (cases "turn_session_id turn = sess_id session \<and> \<not> is_terminal_turn_status (turn_status turn)")
      case False
      then show ?thesis
        using run dur ids act
        by (auto simp: recover_active_turn_def ok_def ready_unless_closed_def fail_session_def
            split: if_splits intro!: reconciles_same)
    next
      case True
      have live: "hget (mg_turns s) active = Some turn" using own Some True by blast
      have ex: "session_exists (env_db s) (sess_id session)"
        using durable_foreign(1)[OF dur live] True by simp
      consider (pending) "turn_status turn = ''waiting_for_approval''"
          "pending_approval_for_turn approvals (sess_id session) active"
        | (orphan) "turn_status turn = ''waiting_for_approval''"
          "\<not> pending_approval_for_turn approvals (sess_id session) active"
        | (running) "turn_status turn \<noteq> ''waiting_for_approval''" by blast
      then show ?thesis
      proof cases
        case pending
        then have "awaited s (sess_id session) active"
          using True live appr wf by (simp add: awaited_def turn_of_def live_turn_def pending_approval_hget)
        then show ?thesis
          using run dur ids act True pending
          by (auto simp: recover_active_turn_def ok_def intro!: reconciles_same)
      next
        case orphan
        moreover have "is_terminal_turn_status ''failed''" by (simp add: is_terminal_turn_status_def)
        ultimately show ?thesis
          using run dur ids act True live ex appr
          by (auto simp: recover_active_turn_def monad_simps ok_def Let_def run_groups ready_unless_closed_def
              intro!: reconciles_repair)
      next
        case running
        have "awaited (s\<lparr>mg_tasks := mg_tasks s @ [(k, sess_id session, active)]\<rparr>) (sess_id session) active" for k
          using True live by (auto simp: awaited_def turn_of_def live_turn_def)
        then show ?thesis
          using run dur ids act True running
          by (auto simp: recover_active_turn_def monad_simps ok_def Let_def
              split: option.splits if_splits intro!: reconciles_same)
      qed
    qed
  qed
qed

lemma awaited_after:
  assumes "awaited s k tid" and "reconciles sid s s'" and "k \<noteq> sid"
  shows "awaited s' k tid"
proof -
  obtain t where t: "hget (mg_turns s) tid = Some t" "turn_session_id t = k" "\<not> is_terminal_turn_status (turn_status t)"
    using assms(1) by (auto simp: awaited_def turn_of_def live_turn_def split: option.splits)
  have "hget (mg_turns s') tid = Some t" "mg_approvals s' = mg_approvals s" "set (mg_tasks s) \<subseteq> set (mg_tasks s')"
    using assms(2,3) t unfolding reconciles_def by blast+
  then show ?thesis using assms(1) t by (auto simp: awaited_def turn_of_def live_turn_def)
qed

lemma recover_session_effect:
  assumes run: "recover_session turns approvals sid sm s = (Inr sm', s')"
    and dur: "durable s" and wf: "hm_wf approvals" and appr: "mg_approvals s = approvals"
    and turns: "\<And>tid t. hget turns tid = Some t \<Longrightarrow> turn_id t = tid"
    and own: "\<And>tid t. hget turns tid = Some t \<Longrightarrow> turn_session_id t = sid \<Longrightarrow> hget (mg_turns s) tid = Some t"
  shows "reconciles sid s s' \<and> settled s' sid"
proof (cases "hget (mg_sessions s) sid")
  case None
  then show ?thesis
    using run dur by (simp add: recover_session_def monad_simps ok_def reconciles_same settled_def)
next
  case (Some session)
  have sid: "sess_id session = sid" using dur Some durable_keyed by blast
  obtain u c sm1 s1 where p1: "recover_provider_session session sm s = (Inr (u, c, sm1), s1)"
    using run Some by (auto simp: recover_session_def monad_simps bindE_eq_Inr)
  note e1 = recover_provider_effect [OF p1]
  obtain u' c' sm2 s2 where p2: "recover_active_turn turns approvals session (u, c, sm1) s1 = (Inr (u', c', sm2), s2)"
    using run Some p1 by (auto simp: recover_session_def monad_simps bindE_eq_Inr)
  have s1: "durable s1" "mg_approvals s1 = approvals" "mg_sessions s1 = mg_sessions s" "reconciles sid s s1"
    "\<And>tid t. hget turns tid = Some t \<Longrightarrow> turn_session_id t = sess_id session \<Longrightarrow> hget (mg_turns s1) tid = Some t"
    using e1(1) dur appr own sid by (auto intro!: reconciles_same)
  note e2 = recover_active_effect [OF p2 s1(1) wf s1(2) turns s1(5) e1(2,3), simplified sid]
  have r2: "reconciles sid s s2" using reconciles_trans s1(4) e2 by blast
  show ?thesis
  proof (cases c')
    case False
    then have "s' = s2" using run Some p1 p2 by (simp add: recover_session_def monad_simps bindE_Inr ok_def)
    moreover have "settled s2 sid"
      using False e2 e1(5) Some s1(3) by (auto simp: settled_def)
    ultimately show ?thesis using r2 by simp
  next
    case True
    define u2 where "u2 = u'\<lparr>sess_updated_at := env_clock s2 (env_clock_reads s2)\<rparr>"
    have d2: "durable s2" using r2 by (simp add: reconciles_def)
    have s': "s' = saved_session u2 (s2\<lparr>env_clock_reads := Suc (env_clock_reads s2)\<rparr>)"
      using run Some p1 p2 True d2
      by (simp add: recover_session_def monad_simps bindE_Inr [of "recover_provider_session session sm"]
          bindE_Inr [of "recover_active_turn turns approvals session (u, c, sm1)"] Let_def run_groups ok_def u2_def)
    have "session_write_ok s2 u2"
      using e2 e1(3) Some s1(3) sid by (simp add: session_write_ok_def u2_def)
    then have "durable s'" using d2 s' by (simp add: durable_saved_session)
    then have "reconciles sid s2 s'" using s' e2 by (auto simp: u2_def intro!: reconciles_same)
    moreover have "settled s' sid" using s' e2 by (auto simp: settled_def u2_def awaited_def)
    ultimately show ?thesis using r2 reconciles_trans by blast
  qed
qed

lemma recover_provider_returns:
  assumes "kind_from_str (sess_provider session) = Some kind"
  shows "\<exists>u c sm' s'. recover_provider_session session sm s = (Inr (u, c, sm'), s')"
proof (cases "sess_provider_session_ref session")
  case None
  then show ?thesis by (auto simp: recover_provider_session_def ok_def)
next
  case (Some pref)
  show ?thesis
  proof (cases "hget (mg_providers s) kind")
    case None
    then show ?thesis using Some assms by (auto simp: recover_provider_session_def monad_simps ok_def)
  next
    case (Some p)
    then show ?thesis
      using \<open>sess_provider_session_ref session = Some pref\<close> assms
      by (auto simp: recover_provider_session_def monad_simps bindE_attempt_call ok_def split: prod.splits sum.splits)
  qed
qed

lemma recover_active_returns:
  assumes "kind_from_str (sess_provider session) = Some kind" and "no_faults s"
    and "\<And>tid t. hget turns tid = Some t \<Longrightarrow> turn_session_id t = sess_id session \<Longrightarrow>
           session_exists (env_db s) (sess_id session)"
  shows "(\<exists>x. fst (recover_active_turn turns approvals session (u, c, sm) s) = Inr x) \<and>
         no_faults (snd (recover_active_turn turns approvals session (u, c, sm) s))"
  using assms
  by (auto simp: recover_active_turn_def monad_simps ok_def Let_def run_groups split: option.splits)

lemma recover_session_returns:
  assumes "durable s"
    and kinds: "\<And>r. hget (mg_sessions s) sid = Some r \<Longrightarrow> kind_from_str (sess_provider r) \<noteq> None"
    and turns: "\<And>tid t. hget turns tid = Some t \<Longrightarrow> turn_id t = tid"
    and own: "\<And>tid t. hget turns tid = Some t \<Longrightarrow> turn_session_id t = sid \<Longrightarrow> hget (mg_turns s) tid = Some t"
  shows "\<exists>sm' s'. recover_session turns approvals sid sm s = (Inr sm', s')"
proof (cases "hget (mg_sessions s) sid")
  case None
  then show ?thesis by (simp add: recover_session_def monad_simps ok_def)
next
  case (Some session)
  obtain kind where kind: "kind_from_str (sess_provider session) = Some kind" using kinds Some by blast
  have sid: "sess_id session = sid" using assms(1) Some durable_keyed by blast
  obtain u c sm1 s1 where p1: "recover_provider_session session sm s = (Inr (u, c, sm1), s1)"
    using recover_provider_returns [OF kind] by blast
  note e1 = recover_provider_effect [OF p1]
  have "session_exists (env_db s) sid" if "hget turns tid = Some t" "turn_session_id t = sid" for tid t
    using durable_foreign(1) [OF assms(1) own [OF that]] that(2) by simp
  then have s1: "durable s1"
    "\<And>tid t. hget turns tid = Some t \<Longrightarrow> turn_session_id t = sid \<Longrightarrow> session_exists (env_db s1) sid"
    using e1(1) assms(1) by auto
  obtain u' c' sm2 s2 where p2: "recover_active_turn turns approvals session (u, c, sm1) s1 = (Inr (u', c', sm2), s2)"
    and "no_faults s2"
    using recover_active_returns [OF kind, of s1 turns approvals u c sm1] s1 sid
    by (cases "recover_active_turn turns approvals session (u, c, sm1) s1") auto
  then show ?thesis
    using Some p1 p2
    by (simp add: recover_session_def monad_simps bindE_Inr [of "recover_provider_session session sm"]
          bindE_Inr [of "recover_active_turn turns approvals session (u, c, sm1)"] Let_def run_groups ok_def)
qed

subsection \<open>The loops\<close>

lemma provider_loop:
  "\<exists>sm' p. for_fold mds sm provider_recovery s = (Inr sm', s\<lparr>mg_provider_state := p\<rparr>)"
proof -
  have "\<exists>sm' s'. for_fold mds sm provider_recovery s = (Inr sm', s') \<and> (\<exists>p. s' = s\<lparr>mg_provider_state := p\<rparr>)"
  proof (rule for_fold_total [where P = "\<lambda>_ _ s'. \<exists>p. s' = s\<lparr>mg_provider_state := p\<rparr>"])
    show "\<exists>p. s = s\<lparr>mg_provider_state := p\<rparr>" by (rule frame_refl)
    fix pre md post sm1 s1
    assume "\<exists>p. s1 = s\<lparr>mg_provider_state := p\<rparr>"
    then show "\<exists>sm' s'. provider_recovery md sm1 s1 = (Inr sm', s') \<and> (\<exists>p. s' = s\<lparr>mg_provider_state := p\<rparr>)"
      by (cases "hget (mg_providers s1) (pm_kind md)")
        (auto simp: provider_recovery_def monad_simps provider_call_def ok_def split: prod.splits)
  qed
  then show ?thesis by blast
qed

text \<open>After the sessions \<open>done\<close>, relative to the state \<open>s0\<close> of the snapshot.\<close>

definition swept :: "('p, 'z) manager_scheme \<Rightarrow> string list \<Rightarrow> ('p, 'z) manager_scheme \<Rightarrow> bool" where
  "swept s0 done s \<longleftrightarrow>
     durable s \<and> mg_approvals s = mg_approvals s0 \<and> (\<forall>sid \<in> set done. settled s sid) \<and>
     (\<forall>k. k \<notin> set done \<longrightarrow> hget (mg_sessions s) k = hget (mg_sessions s0) k) \<and>
     (\<forall>tid t. hget (mg_turns s0) tid = Some t \<longrightarrow>
        turn_session_id t \<notin> set done \<or> pending_approval_for_turn (mg_approvals s0) (turn_session_id t) tid \<longrightarrow>
        hget (mg_turns s) tid = Some t) \<and>
     (\<forall>tid t. hget (mg_turns s) tid = Some t \<longrightarrow> \<not> is_terminal_turn_status (turn_status t) \<longrightarrow>
        hget (mg_turns s0) tid = Some t)"

lemma settled_after:
  assumes "settled s k" and "reconciles sid s s'" and "k \<noteq> sid"
  shows "settled s' k"
  using assms(1) awaited_after [OF _ assms(2,3)] reconcilesD(4)[OF assms(2,3)] by (auto simp: settled_def)

lemma sweptD:
  assumes "swept s0 done s"
  shows "durable s" and "mg_approvals s = mg_approvals s0" and "k \<in> set done \<Longrightarrow> settled s k"
    and "k \<notin> set done \<Longrightarrow> hget (mg_sessions s) k = hget (mg_sessions s0) k"
    and "hget (mg_turns s0) tid = Some t \<Longrightarrow>
        turn_session_id t \<notin> set done \<or> pending_approval_for_turn (mg_approvals s0) (turn_session_id t) tid \<Longrightarrow>
        hget (mg_turns s) tid = Some t"
    and "hget (mg_turns s) tid = Some t \<Longrightarrow> \<not> is_terminal_turn_status (turn_status t) \<Longrightarrow>
        hget (mg_turns s0) tid = Some t"
  using assms unfolding swept_def by blast+

lemma swept_step:
  assumes sw: "swept s0 pre s" and dist: "sid \<notin> set pre" and d0: "durable s0" and wf: "hm_wf (mg_approvals s0)"
    and kinds: "\<And>r. hget (mg_sessions s0) sid = Some r \<Longrightarrow> kind_from_str (sess_provider r) \<noteq> None"
  shows "\<exists>sm' s'. recover_session (mg_turns s0) (mg_approvals s0) sid sm s = (Inr sm', s') \<and> swept s0 (pre @ [sid]) s'"
proof -
  note dur = sweptD(1)[OF sw] and appr = sweptD(2)[OF sw] and same = sweptD(4)[OF sw dist]
  have keyed: "\<And>tid t. hget (mg_turns s0) tid = Some t \<Longrightarrow> turn_id t = tid" using d0 durable_keyed(2) by blast
  have own: "\<And>tid t. hget (mg_turns s0) tid = Some t \<Longrightarrow> turn_session_id t = sid \<Longrightarrow> hget (mg_turns s) tid = Some t"
    using sweptD(5)[OF sw] dist by blast
  obtain sm' s' where run: "recover_session (mg_turns s0) (mg_approvals s0) sid sm s = (Inr sm', s')"
    using recover_session_returns [where sid = sid and turns = "mg_turns s0" and approvals = "mg_approvals s0" and sm = sm,
        OF dur _ keyed own] kinds same by auto
  have rec: "reconciles sid s s'" and set': "settled s' sid"
    using recover_session_effect [OF run dur wf appr keyed own] by blast+
  have "settled s' k" if "k \<in> set (pre @ [sid])" for k
    using that sweptD(3)[OF sw] settled_after [OF _ rec] set' by (cases "k = sid") auto
  moreover have "hget (mg_turns s') tid = Some t"
    if "hget (mg_turns s0) tid = Some t"
      "turn_session_id t \<notin> set (pre @ [sid]) \<or> pending_approval_for_turn (mg_approvals s0) (turn_session_id t) tid"
    for tid t
  proof -
    have "hget (mg_turns s) tid = Some t" using sweptD(5)[OF sw that(1)] that(2) by auto
    then show ?thesis using that(2) reconcilesD(5,6)[OF rec] appr by auto
  qed
  moreover have "hget (mg_turns s0) tid = Some t"
    if "hget (mg_turns s') tid = Some t" "\<not> is_terminal_turn_status (turn_status t)" for tid t
    using sweptD(6)[OF sw reconcilesD(7)[OF rec that] that(2)] .
  moreover have "hget (mg_sessions s') k = hget (mg_sessions s0) k" if "k \<notin> set (pre @ [sid])" for k
    using sweptD(4)[OF sw, of k] reconcilesD(4)[OF rec, of k] that by simp
  moreover have "mg_approvals s' = mg_approvals s0" using reconcilesD(2)[OF rec] appr by simp
  ultimately have "swept s0 (pre @ [sid]) s'"
    using reconcilesD(1)[OF rec] unfolding swept_def by blast
  then show ?thesis using run by blast
qed

text \<open>The approvals loop, after the sessions: \<open>stale\<close> approvals are declined, no other changes.\<close>

definition stale :: "(string, turn_record) hmap \<Rightarrow> approval_record \<Rightarrow> bool" where
  "stale turns a \<longleftrightarrow>
     (case hget turns (appr_turn_id a) of None \<Rightarrow> True | Some t \<Rightarrow> is_terminal_turn_status (turn_status t))"

definition declined ::
  "(string, turn_record) hmap \<Rightarrow> ('p, 'z) manager_scheme \<Rightarrow> string list \<Rightarrow> ('p, 'z) manager_scheme \<Rightarrow> bool" where
  "declined turns s1 done s \<longleftrightarrow>
     durable s \<and> mg_sessions s = mg_sessions s1 \<and> mg_turns s = mg_turns s1 \<and> mg_tasks s = mg_tasks s1 \<and>
     (\<forall>aid. aid \<notin> set done \<longrightarrow> hget (mg_approvals s) aid = hget (mg_approvals s1) aid) \<and>
     (\<forall>aid a. hget (mg_approvals s1) aid = Some a \<longrightarrow> \<not> stale turns a \<longrightarrow> hget (mg_approvals s) aid = Some a) \<and>
     (\<forall>aid a. aid \<in> set done \<longrightarrow> hget (mg_approvals s) aid = Some a \<longrightarrow> appr_status a = ''pending'' \<longrightarrow>
        hget (mg_approvals s1) aid = Some a \<and> \<not> stale turns a)"

lemma declinedD:
  assumes "declined turns s1 done s"
  shows "durable s" and "mg_sessions s = mg_sessions s1" and "mg_turns s = mg_turns s1" and "mg_tasks s = mg_tasks s1"
    and "aid \<notin> set done \<Longrightarrow> hget (mg_approvals s) aid = hget (mg_approvals s1) aid"
    and "hget (mg_approvals s1) aid = Some a \<Longrightarrow> \<not> stale turns a \<Longrightarrow> hget (mg_approvals s) aid = Some a"
    and "aid \<in> set done \<Longrightarrow> hget (mg_approvals s) aid = Some a \<Longrightarrow> appr_status a = ''pending'' \<Longrightarrow>
      hget (mg_approvals s1) aid = Some a \<and> \<not> stale turns a"
  using assms unfolding declined_def by blast+

lemma declined_keep:
  assumes dec: "declined turns s1 pre s" and "aid \<notin> set pre"
    and "\<And>a. hget (mg_approvals s1) aid = Some a \<Longrightarrow> appr_status a = ''pending'' \<Longrightarrow> \<not> stale turns a"
  shows "declined turns s1 (pre @ [aid]) s"
proof -
  have "hget (mg_approvals s1) k = Some a \<and> \<not> stale turns a"
    if "k \<in> set (pre @ [aid])" "hget (mg_approvals s) k = Some a" "appr_status a = ''pending''" for k a
    using that declinedD(7)[OF dec] declinedD(5)[OF dec assms(2)] assms(3) by (cases "k = aid") auto
  moreover have "hget (mg_approvals s) k = hget (mg_approvals s1) k" if "k \<notin> set (pre @ [aid])" for k
    using declinedD(5)[OF dec] that by simp
  ultimately show ?thesis
    using declinedD(1-4,6)[OF dec] unfolding declined_def by blast
qed

lemma declined_save:
  fixes s :: "('p, 'z) manager_scheme"
  assumes dec: "declined turns s1 pre s" and "aid \<notin> set pre" and "hget (mg_approvals s1) aid = Some a"
    and "stale turns a" and "appr_id a' = aid" and "appr_status a' \<noteq> ''pending''"
    and s': "s' = saved_approval a' (s\<lparr>env_clock_reads := n\<rparr>)" and "durable s'"
  shows "declined turns s1 (pre @ [aid]) s'"
proof -
  have ap: "hget (mg_approvals s') k = (if k = aid then Some a' else hget (mg_approvals s) k)" for k
    using s' assms(5) by simp
  have "hget (mg_approvals s1) k = Some b \<and> \<not> stale turns b"
    if "k \<in> set (pre @ [aid])" "hget (mg_approvals s') k = Some b" "appr_status b = ''pending''" for k b
    using that declinedD(7)[OF dec] assms(6) ap by (cases "k = aid") auto
  moreover have "hget (mg_approvals s') k = hget (mg_approvals s1) k" if "k \<notin> set (pre @ [aid])" for k
    using declinedD(5)[OF dec] that ap by simp
  moreover have "hget (mg_approvals s') k = Some b"
    if "hget (mg_approvals s1) k = Some b" "\<not> stale turns b" for k b
    using declinedD(6)[OF dec that] that assms(3,4) ap by (cases "k = aid") auto
  moreover have "mg_sessions s' = mg_sessions s1" "mg_turns s' = mg_turns s1" "mg_tasks s' = mg_tasks s1"
    using declinedD(2-4)[OF dec] s' by simp_all
  ultimately show ?thesis using assms(8) unfolding declined_def by blast
qed

lemma declined_step:
  assumes dec: "declined turns s1 pre s" and new: "aid \<notin> set pre" and appr: "mg_approvals s1 = approvals"
  shows "\<exists>sm' s'. recover_approval turns approvals aid sm s = (Inr sm', s') \<and> declined turns s1 (pre @ [aid]) s'"
proof -
  have same: "hget (mg_approvals s) aid = hget approvals aid" using declinedD(5)[OF dec new] appr by simp
  have dur: "durable s" by (rule declinedD(1)[OF dec])
  consider (keep) "\<And>a. hget approvals aid = Some a \<Longrightarrow> appr_status a = ''pending'' \<Longrightarrow> \<not> stale turns a"
    | (save) a where "hget approvals aid = Some a" "appr_status a = ''pending''" "stale turns a" by blast
  then show ?thesis
  proof cases
    case keep
    then have "recover_approval turns approvals aid sm s = (Inr sm, s)"
      by (auto simp: recover_approval_def ok_def stale_def split: option.splits)
    then show ?thesis using declined_keep [OF dec new] keep appr by blast
  next
    case save
    define a' where "a' = a\<lparr>appr_status := ''decline'', appr_resolved_at := Some (env_clock s (env_clock_reads s)),
      appr_response := Some (jobject [(''reason'', JString ''startup_recovery_orphaned_approval'')])\<rparr>"
    define s' where "s' = saved_approval a' (s\<lparr>env_clock_reads := Suc (env_clock_reads s)\<rparr>)"
    have fk: "session_exists (env_db s) (appr_session_id a)" "turn_exists (env_db s) (appr_turn_id a)" "appr_id a = aid"
      using durable_foreign(2)[OF dur] durable_keyed(3)[OF dur] same save(1) by simp_all
    have "\<exists>sm'. recover_approval turns approvals aid sm s = (Inr sm', s')"
      using save fk dur
      by (auto simp: recover_approval_def ok_def stale_def monad_simps Let_def run_groups a'_def s'_def
          split: option.splits)
    moreover have "durable s'"
      using dur fk same save by (simp add: s'_def a'_def approval_write_ok_def durable_saved_approval)
    moreover have "appr_id a' = aid" "appr_status a' \<noteq> ''pending''" using fk by (simp_all add: a'_def)
    ultimately show ?thesis
      using declined_save [OF dec new _ save(3)] save(1) appr s'_def by blast
  qed
qed

subsection \<open>The whole recovery\<close>

lemma swept_init: "durable s \<Longrightarrow> swept s [] s"
  by (simp add: swept_def)

lemma sessions_loop:
  assumes "durable s0" and "hm_wf (mg_approvals s0)" and "distinct ids"
    and "\<And>sid r. hget (mg_sessions s0) sid = Some r \<Longrightarrow> kind_from_str (sess_provider r) \<noteq> None"
  shows "\<exists>sm' s'. for_fold ids sm (recover_session (mg_turns s0) (mg_approvals s0)) s0 = (Inr sm', s') \<and> swept s0 ids s'"
proof (rule for_fold_total [where P = "\<lambda>pre _ s. swept s0 pre s"])
  show "swept s0 [] s0" using assms(1) by (rule swept_init)
  fix pre sid post sm s
  assume "ids = pre @ sid # post" and "swept s0 pre s"
  then show "\<exists>sm' s'. recover_session (mg_turns s0) (mg_approvals s0) sid sm s = (Inr sm', s') \<and> swept s0 (pre @ [sid]) s'"
    using assms by (intro swept_step) auto
qed

lemma approvals_loop:
  assumes "durable s1" and "distinct ids" and "mg_approvals s1 = approvals"
  shows "\<exists>sm' s'. for_fold ids sm (recover_approval turns approvals) s1 = (Inr sm', s') \<and> declined turns s1 ids s'"
proof (rule for_fold_total [where P = "\<lambda>pre _ s. declined turns s1 pre s"])
  show "declined turns s1 [] s1" using assms(1) by (simp add: declined_def)
  fix pre aid post sm s
  assume "ids = pre @ aid # post" and "declined turns s1 pre s"
  then show "\<exists>sm' s'. recover_approval turns approvals aid sm s = (Inr sm', s') \<and> declined turns s1 (pre @ [aid]) s'"
    using assms by (intro declined_step) auto
qed

text \<open>Declining stale approvals takes no live turn its approval.\<close>

lemma settled_declined:
  assumes sw: "swept s0 ids s1" and dec: "declined (mg_turns s0) s1 aids s2" and "settled s1 sid"
  shows "settled s2 sid"
proof -
  have "awaited s2 sid tid" if aw: "awaited s1 sid tid" for tid
  proof -
    obtain t where t: "hget (mg_turns s1) tid = Some t" "\<not> is_terminal_turn_status (turn_status t)"
      using aw by (auto simp: awaited_def live_turn_def split: option.splits)
    then have "hget (mg_turns s0) tid = Some t" using sweptD(6)[OF sw] by blast
    then have "hget (mg_approvals s2) aid = Some a"
      if "hget (mg_approvals s1) aid = Some a" "appr_turn_id a = tid" for aid a
      using declinedD(6)[OF dec that(1)] that(2) t(2) by (simp add: stale_def)
    then show ?thesis
      using aw declinedD(4)[OF dec] turn_of_cong [OF declinedD(3)[OF dec]] live_turn_cong [OF declinedD(3)[OF dec]]
      unfolding awaited_def by metis
  qed
  then show ?thesis using assms(3) declinedD(2)[OF dec] by (auto simp: settled_def)
qed

lemma pending_live:
  assumes sw: "swept s0 ids s1" and dec: "declined (mg_turns s0) s1 aids s2" and "durable s0"
    and wf: "hm_wf (mg_approvals s0)" and all: "set aids = {k. hget (mg_approvals s0) k \<noteq> None}"
    and a: "hget (mg_approvals s2) aid = Some a" "appr_status a = ''pending''"
    and own: "turn_of s0 (appr_session_id a) (appr_turn_id a)"
  shows "live_turn s2 (appr_turn_id a)"
proof -
  have a0: "hget (mg_approvals s0) aid = Some a \<and> \<not> stale (mg_turns s0) a"
    using declinedD(5,7)[OF dec, of aid] a sweptD(2)[OF sw] all by (cases "aid \<in> set aids") auto
  obtain t where t: "hget (mg_turns s0) (appr_turn_id a) = Some t" "turn_session_id t = appr_session_id a"
    using own by (auto simp: turn_of_def split: option.splits)
  have "pending_approval_for_turn (mg_approvals s0) (turn_session_id t) (appr_turn_id a)"
    using a0 a(2) t(2) pending_approval_hget [OF wf] by metis
  then have "hget (mg_turns s1) (appr_turn_id a) = Some t" using sweptD(5)[OF sw t(1)] by blast
  then show ?thesis using a0 t declinedD(3)[OF dec] by (simp add: live_turn_def stale_def)
qed

text \<open>What a start on an intact database gives: the maps mirror the tables, no waiter runs.\<close>

lemma hcollect_wf: "hm_wf (hcollect key xs)"
proof -
  have "hm_wf m \<Longrightarrow> hm_wf (fold (\<lambda>x. hinsert (key x) x) xs m)" for m
    by (induction xs arbitrary: m) auto
  then show ?thesis by (simp add: hcollect_def)
qed

lemma find_hcollect:
  assumes "distinct (map key xs)" and "set ys = set xs" and "distinct (map key ys)"
  shows "tbl_find key k xs = hget (hcollect key ys) k"
proof -
  have "tbl_find key k xs = Some v \<longleftrightarrow> hget (hcollect key ys) k = Some v" for v
    using assms by (simp add: tbl_find_def find_key_Some hget_hcollect)
  then show ?thesis by (metis option.exhaust)
qed

lemma distinct_sort_key: "distinct (map key xs) \<Longrightarrow> distinct (map key (sort_key f xs))"
  by (metis distinct_map distinct_sort set_sort)

lemma manager_new_state:
  assumes "manager_new db (\<lambda>_. None) clock reg ps = Inr s" and "db_ok db"
  shows "durable s" and "hm_wf (mg_sessions s)" and "hm_wf (mg_turns s)" and "hm_wf (mg_approvals s)"
    and "mg_tasks s = []" and "env_db s = db"
proof -
  have keys: "distinct (map sess_id (db_sessions db))" "distinct (map turn_id (db_turns db))"
    "distinct (map appr_id (db_approvals db))"
    using assms(2) by (simp_all add: db_ok_def primary_keys_ok_def)
  have "mirrored s"
    using assms(1) keys(2)
      find_hcollect [OF keys(1) _ distinct_sort_key [OF keys(1)]] find_hcollect [OF keys(2) _ keys(2)]
      find_hcollect [OF keys(3) _ distinct_sort_key [OF keys(3)]]
    by (auto simp: manager_new_def Let_def hydrate_runtime_state_def hydration_queries mirrored_def)
  then show "durable s" using assms by (auto simp: durable_def no_faults_def manager_new_def Let_def)
  show "hm_wf (mg_sessions s)" "hm_wf (mg_turns s)" "hm_wf (mg_approvals s)" "mg_tasks s = []" "env_db s = db"
    using assms(1) by (auto simp: manager_new_def Let_def hcollect_wf)
qed

lemma hkeys_distinct: "hm_wf m \<Longrightarrow> distinct (hkeys m)"
  by (simp add: hm_wf_def hkeys_def)

lemma recover_startup_run:
  assumes d: "durable s" and wf: "hm_wf (mg_sessions s)" "hm_wf (mg_approvals s)"
    and kinds: "\<And>sid r. hget (mg_sessions s) sid = Some r \<Longrightarrow> kind_from_str (sess_provider r) \<noteq> None"
  obtains sm s0 s1 s2 where "recover_startup s = (Inr sm, s2\<lparr>env_clock_reads := Suc (env_clock_reads s2)\<rparr>)"
    and "swept s0 (hkeys (mg_sessions s)) s1" and "declined (mg_turns s) s1 (hkeys (mg_approvals s)) s2"
    and "durable s0" and "mg_turns s0 = mg_turns s" and "mg_approvals s0 = mg_approvals s" and "mg_sessions s0 = mg_sessions s"
proof -
  let ?s = "s\<lparr>env_clock_reads := Suc (env_clock_reads s)\<rparr>"
  define sm0 where "sm0 = default_summary\<lparr>rs_started_at := env_clock s (env_clock_reads s),
    rs_turns_scanned := length (mg_turns s), rs_approvals_scanned := length (mg_approvals s),
    rs_sessions_scanned := length (hkeys (mg_sessions s))\<rparr>"
  obtain sm1 p where l1: "for_fold (registry_metadata (mg_providers s)) sm0 provider_recovery ?s =
      (Inr sm1, ?s\<lparr>mg_provider_state := p\<rparr>)"
    using provider_loop [of "registry_metadata (mg_providers s)" sm0 ?s] by (elim exE)
  define s0 where "s0 = ?s\<lparr>mg_provider_state := p\<rparr>"
  have s0: "durable s0" "mg_turns s0 = mg_turns s" "mg_approvals s0 = mg_approvals s" "mg_sessions s0 = mg_sessions s"
    using d by (simp_all add: s0_def)
  obtain sm2 s1 where l2: "for_fold (hkeys (mg_sessions s)) sm1 (recover_session (mg_turns s) (mg_approvals s)) s0 = (Inr sm2, s1)"
    and sw: "swept s0 (hkeys (mg_sessions s)) s1"
    using sessions_loop [OF s0(1), of "hkeys (mg_sessions s)" sm1] s0 wf kinds hkeys_distinct [OF wf(1)] by auto
  obtain sm3 s2 where l3: "for_fold (hkeys (mg_approvals s)) sm2 (recover_approval (mg_turns s) (mg_approvals s)) s1 = (Inr sm3, s2)"
    and dec: "declined (mg_turns s) s1 (hkeys (mg_approvals s)) s2"
    using approvals_loop [OF sweptD(1)[OF sw], of "hkeys (mg_approvals s)" "mg_approvals s" sm2 "mg_turns s"]
      sweptD(2)[OF sw] s0 hkeys_distinct [OF wf(2)] by auto
  have "recover_startup s = (Inr (sm3\<lparr>rs_completed_at := env_clock s2 (env_clock_reads s2)\<rparr>),
      s2\<lparr>env_clock_reads := Suc (env_clock_reads s2)\<rparr>)"
    using l1 l2 l3
    by (simp add: recover_startup_def monad_simps Let_def sm0_def s0_def bindE_Inr ok_def)
  then show thesis using that sw dec s0 by blast
qed

section \<open>Properties\<close>

text \<open>C12: A restart rebuilds the manager from the database. On an intact database, \<open>manager_new\<close>
  gives maps that answer every lookup of a session, turn or approval exactly as the tables do, no
  waiter is running, and a manager whose maps mirrored its own database sees the same records after
  the restart.\<close>

theorem restart_rebuilds_state:
  fixes s :: "('p, 'z) manager_scheme" and s' :: "'q manager"
  assumes "durable s" and "manager_new (env_db s) (\<lambda>_. None) clock reg ps = Inr s'"
  shows "durable s' \<and> mg_tasks s' = [] \<and> hget (mg_sessions s') k = hget (mg_sessions s) k \<and>
    hget (mg_turns s') k = hget (mg_turns s) k \<and> hget (mg_approvals s') k = hget (mg_approvals s) k"
proof -
  have "db_ok (env_db s)" "mirrored s" using assms(1) by (simp_all add: durable_def)
  note new = manager_new_state [OF assms(2) this(1)]
  have "mirrored s'" using new(1) by (simp add: durable_def)
  then show ?thesis using new \<open>mirrored s\<close> unfolding mirrored_def by metis
qed

definition sample_manager :: "unit manager" where
  "sample_manager =
     \<lparr>env_db = empty_db\<lparr>db_sessions := [sample_session]\<rparr>, env_faults = (\<lambda>_. None), env_store_ops = 0,
      env_clock = (\<lambda>n. 2000 + int n), env_clock_reads = 0, mg_providers = [], mg_provider_state = (),
      mg_sessions = [(''s1'', sample_session)], mg_turns = [], mg_approvals = [],
      mg_next_id = 1, mg_event_tx = [], mg_tasks = []\<rparr>"

lemma sample_db_ok: "db_ok (empty_db\<lparr>db_sessions := [sample_session]\<rparr>)"
  using db_ok_write [OF empty_db_ok, of "WSession sample_session"]
  by (simp add: db_upsert_session_def tbl_upsert_def empty_db_def)

lemma sample_durable: "durable sample_manager"
proof -
  have "mirrored sample_manager"
    by (simp add: mirrored_def sample_manager_def tbl_find_def empty_db_def hget_def sample_session_def)
  then show ?thesis
    using sample_db_ok by (simp add: durable_def no_faults_def sample_manager_def)
qed

theorem restart_rebuilds_state_witness:
  "\<exists>s'. manager_new (env_db sample_manager) (\<lambda>_. None) (\<lambda>_. 5000) ([] :: unit registry) () = Inr s' \<and>
     hget (mg_sessions s') ''s1'' = Some sample_session"
proof -
  obtain s' where new: "manager_new (env_db sample_manager) (\<lambda>_. None) (\<lambda>_. 5000) ([] :: unit registry) () = Inr s'"
    by (simp add: manager_new_def Let_def)
  have "hget (mg_sessions s') ''s1'' = hget (mg_sessions sample_manager) ''s1''"
    using restart_rebuilds_state [OF sample_durable new] by blast
  then show ?thesis using new by (simp add: sample_manager_def hget_def)
qed


text \<open>The session of a crashed run: marked as running a turn that was never written.\<close>

definition crashed_db :: database where
  "crashed_db = empty_db\<lparr>db_sessions := [sample_session\<lparr>sess_status := ''turn_running'',
     sess_active_turn_id := Some ''turn_codex_1001_2''\<rparr>]\<rparr>"


end
