(* ===== verification/Manager_Properties.thy ===== *)
theory Manager_Properties
  imports Recovery
begin

text \<open>
  The session manager as a transition system, and the functional properties of its handlers: what
  a turn goes through from admission to its terminal result, on the success and the error paths.
\<close>

section \<open>The transition system\<close>

text \<open>
  One step is one handler call or one finished waiter, with any argument. Handlers that create
  records do so under ids not in use.
\<close>

inductive manager_step :: "('p, 'z) manager_scheme \<Rightarrow> ('p, 'z) manager_scheme \<Rightarrow> bool" where
  create: "next_ids_unused s \<Longrightarrow> manager_step s (snd (create_session input s))"
| close: "manager_step s (snd (close_session sid reason s))"
| force_close: "manager_step s (snd (force_close_session sid reason s))"
| resume: "manager_step s (snd (resume_session sid rinput s))"
| worktree: "manager_step s (snd (set_session_worktree_id sid wt s))"
| send: "next_ids_unused s \<Longrightarrow> manager_step s (snd (send_turn sid tinput s))"
| interrupt: "manager_step s (snd (interrupt_turn sid tid s))"
| respond: "manager_step s (snd (respond_approval sid aid ainput s))"
| waiter: "manager_step s (snd (wait_step n s))"

lemma step_keeps:
  assumes "manager_step s s'" and "durable s" and "turn_links s"
  shows "durable s' \<and> turn_links s'"
  using assms
proof cases
  case create
  then show ?thesis using assms durable_create links_create by blast
next
  case close
  then show ?thesis using assms durable_close links_close by blast
next
  case force_close
  then show ?thesis using assms durable_finalize links_finalize unfolding force_close_session_def by blast
next
  case resume
  then show ?thesis using assms durable_resume links_resume by blast
next
  case worktree
  then show ?thesis using assms durable_set_worktree links_set_worktree by blast
next
  case send
  then show ?thesis using assms durable_send_turn links_send_turn by blast
next
  case interrupt
  then show ?thesis using assms durable_interrupt links_interrupt by blast
next
  case respond
  then show ?thesis using assms durable_respond_approval links_respond_approval by blast
next
  case waiter
  then show ?thesis using assms durable_wait_step links_wait_step by blast
qed

lemma steps_keep:
  assumes "manager_step\<^sup>*\<^sup>* s s'" and "durable s" and "turn_links s"
  shows "durable s' \<and> turn_links s'"
  using assms by (induction rule: rtranclp_induct) (auto dest: step_keeps)

section \<open>Events succeed while the log has room\<close>

definition events_left :: "nat \<Rightarrow> ('p, 'z) manager_scheme \<Rightarrow> bool" where
  "events_left n s \<longleftrightarrow>
     db_event_rowid (env_db s) + int n \<le> i64_max \<and> int (length (db_events (env_db s))) + int n \<le> i64_max"

abbreviation log_room :: "('p, 'z) manager_scheme \<Rightarrow> bool" where
  "log_room \<equiv> events_left 1"

lemma events_left_upd [simp]:
  fixes s :: "('p, 'z) manager_scheme"
  shows "events_left k (s\<lparr>env_clock_reads := n\<rparr>) = events_left k s" "events_left k (s\<lparr>mg_next_id := i\<rparr>) = events_left k s"
    "events_left k (s\<lparr>mg_provider_state := p\<rparr>) = events_left k s" "events_left k (s\<lparr>mg_providers := q\<rparr>) = events_left k s"
    "events_left k (saved_session r s) = events_left k s" "events_left k (saved_turn t s) = events_left k s"
    "events_left k (saved_approval a s) = events_left k s"
  by (simp_all add: events_left_def saved_session_def saved_turn_def saved_approval_def)

lemma scope_rows_length: "length (scope_rows sc i db) \<le> length (db_events db)"
  unfolding scope_rows_def by simp

lemma append_event_returns:
  assumes "durable s" and "events_left (Suc n) s"
  shows "\<exists>x s'. append_event sc i ses t kind crit payload s = (Inr x, s') \<and> durable s' \<and> events_left n s'"
proof -
  have ok: "events_ok (env_db s)" using assms(1) by (simp add: durable_def db_ok_def)
  have room: "int (length (scope_rows sc i (env_db s))) < i64_max" "db_event_rowid (env_db s) < i64_max"
    using assms(2) scope_rows_length [of sc i "env_db s"] by (simp_all add: events_left_def)
  have app: "\<exists>x db'. db_append_runtime_event e (env_db s) = Inr (x, db') \<and>
      db_event_rowid db' \<le> db_event_rowid (env_db s) + 1 \<and> length (db_events db') \<le> Suc (length (db_events (env_db s)))"
    if "ne_scope e = sc" "ne_scope_id e = i" for e
  proof (cases "ne_event_id e \<in> er_event_id ` set (db_events (env_db s))")
    case True
    then show ?thesis using append_existing [OF ok] by force
  next
    case False
    then show ?thesis using append_fresh [OF ok] room that by (simp add: Let_def)
  qed
  let ?e = "\<lparr>ne_event_id = id_text ''evt'' (scope_as_str sc) (env_clock s (env_clock_reads s)) (mg_next_id s),
    ne_scope = sc, ne_scope_id = i, ne_session_id = ses, ne_team_id = None, ne_turn_id = t, ne_kind = kind,
    ne_criticality = crit, ne_payload = payload, ne_provider = None, ne_provider_seq = None,
    ne_created_at = env_clock s (Suc (env_clock_reads s))\<rparr>"
  obtain x db' where db': "db_append_runtime_event ?e (env_db s) = Inr (x, db')"
    "db_event_rowid db' \<le> db_event_rowid (env_db s) + 1" "length (db_events db') \<le> Suc (length (db_events (env_db s)))"
    using app [of ?e] by auto
  then obtain s' where run: "append_event sc i ses t kind crit payload s = (Inr x, s')" and "env_db s' = db'"
    using assms(1)
    by (simp add: append_event_def monad_simps bindE_store_call durable_def no_faults_def ok_def Let_def id_text_def)
  moreover have "durable s'" using durable_append_event [OF assms(1)] run by (metis snd_conv)
  ultimately show ?thesis using assms(2) db'(2,3) by (simp add: events_left_def)
qed

lemma append_event_once:
  assumes "durable s" and "log_room s"
  shows "\<exists>x s'. append_event sc i ses t kind crit payload s = (Inr x, s')"
  using append_event_returns [of s 0 sc i ses t kind crit payload] assms by auto

section \<open>Sending a turn, phase by phase\<close>

lemma admit_ok:
  assumes "hget (mg_sessions s) sid = Some r" and "sess_status r \<noteq> ''closed''" and "sess_status r \<noteq> ''failed''"
    and "sess_active_turn_id r = None" and "kind_from_str (sess_provider r) = Some kind"
  obtains adm s1 where "send_turn_admit sid input s = (Inr adm, s1)" and "adm_session adm = r" and "adm_kind adm = kind"
proof -
  have "\<exists>adm s1. send_turn_admit sid input s = (Inr adm, s1) \<and> adm_session adm = r \<and> adm_kind adm = kind"
    using assms by (simp add: send_turn_admit_def monad_simps ok_def Let_def)
  then show thesis using that by blast
qed

definition turn_request :: "string \<Rightarrow> send_turn_input \<Rightarrow> turn_admission \<Rightarrow> send_turn_request" where
  "turn_request sid input adm =
     \<lparr>str_session_id = sid, str_turn_id = adm_turn_id adm, str_input = sti_input input,
      str_expected_turn_id = sti_expected_turn_id input, str_permission_mode = adm_permission_mode adm,
      str_approval_id = adm_approval_id adm\<rparr>"

lemma send_turn_dispatched:
  assumes "send_turn_admit sid input s = (Inr adm, s1)"
    and "dispatch_send_turn_with_resume_fallback (adm_kind adm) (turn_request sid input adm)
           (sess_cwd (adm_session adm)) (sess_provider_session_ref (adm_session adm))
           (sess_canonical_ref (adm_session adm)) (sess_metadata (adm_session adm)) s1 = (r, s2)"
  shows "send_turn sid input s =
    (case r of
       Inl e \<Rightarrow> send_turn_failed sid input adm e s2
     | Inr ack \<Rightarrow> if ack_session_id ack = sid \<and> ack_turn_id ack = adm_turn_id adm
                  then send_turn_accept sid input adm s2
                  else (Inl (ProtocolViolation (''provider send_turn acknowledgement mismatch (expected_session='' @ sid
                     @ '', expected_turn='' @ adm_turn_id adm @ '', actual_session='' @ ack_session_id ack
                     @ '', actual_turn='' @ ack_turn_id ack @ '')'')), s2))"
  using assms
  by (auto simp: send_turn_def bindE_Inr [of "send_turn_admit sid input"] bindE_attempt Let_def err_def
      turn_request_def split: sum.splits)

lemma new_turn_simps [simp]:
  "turn_id (new_turn_record tid sid st input now c e) = tid"
  "turn_session_id (new_turn_record tid sid st input now c e) = sid"
  "turn_status (new_turn_record tid sid st input now c e) = st"
  "turn_error (new_turn_record tid sid st input now c e) = e"
  by (simp_all add: new_turn_record_def)

lemma new_approval_simps [simp]:
  "appr_id (new_approval_record aid sid tid now) = aid"
  "appr_session_id (new_approval_record aid sid tid now) = sid"
  "appr_turn_id (new_approval_record aid sid tid now) = tid"
  "appr_status (new_approval_record aid sid tid now) = ''pending''"
  by (simp_all add: new_approval_record_def)

definition accepted_session :: "string \<Rightarrow> turn_admission \<Rightarrow> session_record" where
  "accepted_session status adm =
     (adm_session adm)\<lparr>sess_status := status, sess_active_turn_id := Some (adm_turn_id adm),
                       sess_updated_at := adm_now adm\<rparr>"

lemma accept_prefix:
  assumes "durable s" and "hget (mg_sessions s) sid = Some (adm_session adm)" and "log_room s"
    and "s1 = saved_session (accepted_session status adm)
           (saved_turn (new_turn_record (adm_turn_id adm) sid st (sti_input input) (adm_now adm) None None) s)"
  shows "durable s1" and "log_room s1" and "session_exists (env_db s1) sid" and "turn_exists (env_db s1) (adm_turn_id adm)"
    and "bindE (store_write (WTurn (new_turn_record (adm_turn_id adm) sid st (sti_input input) (adm_now adm) None None))) (\<lambda>_.
      bindE (store_write (WSession (accepted_session status adm))) (\<lambda>_.
      bindE (put_turn (adm_turn_id adm) (new_turn_record (adm_turn_id adm) sid st (sti_input input) (adm_now adm) None None)) (\<lambda>_.
      bindE (put_session sid (accepted_session status adm)) f))) s = f () s1"
    and "mg_sessions s1 = hinsert sid (accepted_session status adm) (mg_sessions s)"
proof -
  have sid: "sess_id (adm_session adm) = sid" "session_exists (env_db s) sid"
    using assms(1,2) durable_keyed durable_exists by blast+
  have acc: "sess_id (accepted_session status adm) = sid"
    "sess_created_at (accepted_session status adm) = sess_created_at (adm_session adm)"
    using sid by (simp_all add: accepted_session_def)
  show "durable s1"
    using assms(1,2) sid acc unfolding assms(4)
    by (intro durable_saved_session durable_saved_turn session_update_ok [where old = "adm_session adm"]) simp_all
  show "log_room s1" using assms(3,4) by simp
  show "session_exists (env_db s1) sid" "turn_exists (env_db s1) (adm_turn_id adm)"
    using acc sid by (simp_all add: assms(4))
  show "mg_sessions s1 = hinsert sid (accepted_session status adm) (mg_sessions s)"
    using acc by (simp add: assms(4))
  show "bindE (store_write (WTurn (new_turn_record (adm_turn_id adm) sid st (sti_input input) (adm_now adm) None None))) (\<lambda>_.
      bindE (store_write (WSession (accepted_session status adm))) (\<lambda>_.
      bindE (put_turn (adm_turn_id adm) (new_turn_record (adm_turn_id adm) sid st (sti_input input) (adm_now adm) None None)) (\<lambda>_.
      bindE (put_session sid (accepted_session status adm)) f))) s = f () s1"
    using assms(1) sid acc by (simp add: run_store_turn_session assms(4))
qed

lemma accept_direct:
  assumes "durable s" and "hget (mg_sessions s) sid = Some (adm_session adm)" and "log_room s"
    and "\<not> adm_requires_approval adm" and "adm_approval_id adm = None"
  shows "\<exists>s'. send_turn_accept sid input adm s =
      (Inr \<lparr>sta_session_id = sid, sta_turn_id = adm_turn_id adm, sta_status = ''in_progress''\<rparr>, s') \<and>
    mg_sessions s' = hinsert sid (accepted_session ''turn_running'' adm) (mg_sessions s) \<and>
    mg_turns s' = hinsert (adm_turn_id adm) (new_turn_record (adm_turn_id adm) sid ''in_progress''
      (sti_input input) (adm_now adm) None None) (mg_turns s) \<and>
    mg_tasks s' = mg_tasks s @ [(adm_kind adm, sid, adm_turn_id adm)] \<and> mg_approvals s' = mg_approvals s"
proof -
  define s1 where "s1 = saved_session (accepted_session ''turn_running'' adm)
    (saved_turn (new_turn_record (adm_turn_id adm) sid ''in_progress'' (sti_input input) (adm_now adm) None None) s)"
  note pre = accept_prefix [OF assms(1-3) s1_def]
  obtain x s2 where ev: "session_event sid (Some (adm_turn_id adm)) ''turn.started'' (jobject []) s1 = (Inr x, s2)"
    using append_event_once [OF pre(1,2)] by blast
  have "send_turn_accept sid input adm s =
      (Inr \<lparr>sta_session_id = sid, sta_turn_id = adm_turn_id adm, sta_status = ''in_progress''\<rparr>,
       s2\<lparr>mg_tasks := mg_tasks s2 @ [(adm_kind adm, sid, adm_turn_id adm)]\<rparr>)"
    using assms(4,5) ev
    by (simp add: pre(5) send_turn_accept_def accepted_session_def [symmetric] Let_def monad_simps
        bindE_Inr [of "session_event sid (Some (adm_turn_id adm)) ''turn.started'' (jobject [])"] ok_def)
  then show ?thesis
    using append_event_run [OF ev] pre(6) by (simp add: s1_def)
qed

lemma accept_with_approval:
  assumes "durable s" and "hget (mg_sessions s) sid = Some (adm_session adm)" and "log_room s"
    and "adm_requires_approval adm" and "adm_approval_id adm = Some aid" and "hget (mg_approvals s) aid = None"
  shows "\<exists>s'. send_turn_accept sid input adm s =
      (Inr \<lparr>sta_session_id = sid, sta_turn_id = adm_turn_id adm, sta_status = ''waiting_for_approval''\<rparr>, s') \<and>
    mg_sessions s' = hinsert sid (accepted_session ''waiting_for_approval'' adm) (mg_sessions s) \<and>
    mg_turns s' = hinsert (adm_turn_id adm) (new_turn_record (adm_turn_id adm) sid ''waiting_for_approval''
      (sti_input input) (adm_now adm) None None) (mg_turns s) \<and>
    mg_tasks s' = mg_tasks s \<and>
    mg_approvals s' = hinsert aid (new_approval_record aid sid (adm_turn_id adm) (adm_now adm)) (mg_approvals s)"
proof -
  define s1 where "s1 = saved_session (accepted_session ''waiting_for_approval'' adm)
    (saved_turn (new_turn_record (adm_turn_id adm) sid ''waiting_for_approval'' (sti_input input) (adm_now adm) None None) s)"
  note pre = accept_prefix [OF assms(1-3) s1_def]
  let ?a = "new_approval_record aid sid (adm_turn_id adm) (adm_now adm)"
  have s2: "durable (saved_approval ?a s1)" "log_room (saved_approval ?a s1)"
    using pre assms(6)
    by (auto simp: approval_write_ok_def s1_def intro!: durable_saved_approval)
  obtain x s3 where ev: "session_event sid (Some (adm_turn_id adm)) ''approval.requested''
      (jobject [(''approval_id'', JString aid)]) (saved_approval ?a s1) = (Inr x, s3)"
    using append_event_once [OF s2] by blast
  have "send_turn_accept sid input adm s =
      (Inr \<lparr>sta_session_id = sid, sta_turn_id = adm_turn_id adm, sta_status = ''waiting_for_approval''\<rparr>, s3)"
    using assms(4,5) pre(1,3,4) ev
    by (simp add: pre(5) send_turn_accept_def accepted_session_def [symmetric] Let_def monad_simps run_store_approval
        bindE_Inr [of "session_event sid (Some (adm_turn_id adm)) ''approval.requested''
      (jobject [(''approval_id'', JString aid)])"] ok_def)
  then show ?thesis
    using append_event_run [OF ev] pre(6) by (simp add: s1_def)
qed

text \<open>An acknowledging provider: \<open>send_turn\<close> echoes the ids it was given.\<close>

definition acknowledges :: "'p provider \<Rightarrow> 'p \<Rightarrow> bool" where
  "acknowledges p st \<longleftrightarrow>
     (\<forall>req. fst (pv_send_turn p req st) = Inr \<lparr>ack_session_id = str_session_id req, ack_turn_id = str_turn_id req\<rparr>)"

lemma dispatch_ack:
  assumes "hget (mg_providers s) kind = Some p" and "acknowledges p (mg_provider_state s)"
  shows "\<exists>st. dispatch_send_turn_with_resume_fallback kind req cwd pref cref md s =
    (Inr \<lparr>ack_session_id = str_session_id req, ack_turn_id = str_turn_id req\<rparr>, s\<lparr>mg_provider_state := st\<rparr>)"
proof -
  obtain st where "pv_send_turn p req (mg_provider_state s) =
      (Inr \<lparr>ack_session_id = str_session_id req, ack_turn_id = str_turn_id req\<rparr>, st)"
    using assms(2) unfolding acknowledges_def by (metis prod.collapse)
  then show ?thesis
    using assms(1)
    by (auto simp: dispatch_send_turn_with_resume_fallback_def bindE_require_provider bindE_attempt_call ok_def)
qed

lemma dispatch_error:
  assumes "hget (mg_providers s) kind = Some p"
    and "fst (pv_send_turn p req (mg_provider_state s)) = Inl e" and "\<And>m. e \<noteq> NotFound m"
  shows "\<exists>st. dispatch_send_turn_with_resume_fallback kind req cwd pref cref md s = (Inl e, s\<lparr>mg_provider_state := st\<rparr>)"
proof -
  obtain st where "pv_send_turn p req (mg_provider_state s) = (Inl e, st)"
    using assms(2) by (metis prod.collapse)
  then show ?thesis
    using assms(1,3)
    by (cases e)
      (auto simp: dispatch_send_turn_with_resume_fallback_def bindE_require_provider bindE_attempt_call err_def)
qed

lemma failed_run:
  assumes "durable s" and "hget (mg_sessions s) sid = Some (adm_session adm)" and "log_room s"
  shows "\<exists>s'. send_turn_failed sid input adm e s = (Inl e, s') \<and>
    mg_sessions s' = hinsert sid ((adm_session adm)\<lparr>sess_active_turn_id := None,
      sess_status := (if sess_status (adm_session adm) \<noteq> ''closed'' \<and> sess_status (adm_session adm) \<noteq> ''failed''
                      then ''ready'' else sess_status (adm_session adm)),
      sess_updated_at := env_clock s (Suc (env_clock_reads s))\<rparr>) (mg_sessions s) \<and>
    mg_turns s' = hinsert (adm_turn_id adm) (new_turn_record (adm_turn_id adm) sid ''failed'' (sti_input input)
      (adm_now adm) (Some (env_clock s (env_clock_reads s))) (Some (error_json e))) (mg_turns s) \<and>
    mg_tasks s' = mg_tasks s \<and> mg_approvals s' = mg_approvals s"
proof -
  let ?c = "env_clock s (env_clock_reads s)" and ?n = "env_clock s (Suc (env_clock_reads s))"
  let ?s = "s\<lparr>env_clock_reads := Suc (Suc (env_clock_reads s))\<rparr>"
  let ?t = "new_turn_record (adm_turn_id adm) sid ''failed'' (sti_input input) (adm_now adm) (Some ?c) (Some (error_json e))"
  let ?r = "(adm_session adm)\<lparr>sess_active_turn_id := None,
      sess_status := (if sess_status (adm_session adm) \<noteq> ''closed'' \<and> sess_status (adm_session adm) \<noteq> ''failed''
                      then ''ready'' else sess_status (adm_session adm)), sess_updated_at := ?n\<rparr>"
  have sid: "sess_id (adm_session adm) = sid" "session_exists (env_db s) sid"
    using assms(1,2) durable_keyed durable_exists by blast+
  define s1 where "s1 = saved_session ?r (saved_turn ?t ?s)"
  have "durable s1" "log_room s1"
    using assms sid unfolding s1_def
    by (auto intro!: durable_saved_session durable_saved_turn session_update_ok [where old = "adm_session adm"])
  then obtain x s2 where ev: "session_event sid (Some (adm_turn_id adm)) ''turn.failed''
      (jobject [(''error'', JString (error_to_string e))]) s1 = (Inr x, s2)"
    using append_event_once by blast
  have run: "send_turn_failed sid input adm e s = (Inl e, s2)"
    using assms(1) sid ev
    by (simp add: send_turn_failed_def monad_simps Let_def run_store_turn_session s1_def err_def
        bindE_Inr [of "session_event sid (Some (adm_turn_id adm)) ''turn.failed''
      (jobject [(''error'', JString (error_to_string e))])"])
  have "mg_sessions s2 = mg_sessions s1" "mg_turns s2 = mg_turns s1" "mg_tasks s2 = mg_tasks s1"
    "mg_approvals s2 = mg_approvals s1" using append_event_run [OF ev] by blast+
  then show ?thesis
    using run sid(1) unfolding s1_def by (intro exI [of _ s2] conjI) simp_all
qed

text \<open>Up to the provider's answer: the admission and the state it is recorded from.\<close>

lemma send_turn_to_provider:
  fixes s :: "('p, 'z) manager_scheme"
  assumes "hget (mg_sessions s) sid = Some r" and "sess_status r \<noteq> ''closed''" and "sess_status r \<noteq> ''failed''"
    and "sess_active_turn_id r = None" and "kind_from_str (sess_provider r) = Some kind"
    and "hget (mg_providers s) kind = Some p" and "next_ids_unused s"
  obtains adm s1 s2 i n st where
    "send_turn_admit sid input s = (Inr adm, s1)" "adm_session adm = r" "adm_kind adm = kind"
    "s2 = s\<lparr>mg_next_id := i, env_clock_reads := n, mg_provider_state := st\<rparr>"
    "hget (mg_turns s) (adm_turn_id adm) = None"
    "acknowledges p (mg_provider_state s) \<Longrightarrow> send_turn sid input s = send_turn_accept sid input adm s2"
    "\<And>e. fst (pv_send_turn p (turn_request sid input adm) (mg_provider_state s)) = Inl e \<Longrightarrow> (\<And>m. e \<noteq> NotFound m) \<Longrightarrow>
       send_turn sid input s = send_turn_failed sid input adm e s2"
proof -
  obtain adm s1 where adm: "send_turn_admit sid input s = (Inr adm, s1)" "adm_session adm = r" "adm_kind adm = kind"
    using admit_ok [OF assms(1-5)] by blast
  note facts = admit_Inr [OF adm(1)]
  obtain i n where s1: "s1 = s\<lparr>mg_next_id := i, env_clock_reads := n\<rparr>" using facts(9) by blast
  let ?disp = "dispatch_send_turn_with_resume_fallback (adm_kind adm) (turn_request sid input adm)
           (sess_cwd (adm_session adm)) (sess_provider_session_ref (adm_session adm))
           (sess_canonical_ref (adm_session adm)) (sess_metadata (adm_session adm)) s1"
  obtain st where st: "snd ?disp = s1\<lparr>mg_provider_state := st\<rparr>" by (rule exE [OF dispatch_frame])
  have prov: "hget (mg_providers s1) (adm_kind adm) = Some p" "mg_provider_state s1 = mg_provider_state s"
    using assms(6) adm(3) s1 by simp_all
  have acc: "send_turn sid input s = send_turn_accept sid input adm (s1\<lparr>mg_provider_state := st\<rparr>)"
    if "acknowledges p (mg_provider_state s)"
  proof -
    have "fst ?disp = Inr \<lparr>ack_session_id = sid, ack_turn_id = adm_turn_id adm\<rparr>"
      using exE [OF dispatch_ack [OF prov(1)]] that prov(2) by (metis fst_conv turn_request_def send_turn_request.select_convs(1,2))
    then have "?disp = (Inr \<lparr>ack_session_id = sid, ack_turn_id = adm_turn_id adm\<rparr>, s1\<lparr>mg_provider_state := st\<rparr>)"
      using st by (metis prod.collapse)
    from send_turn_dispatched [OF adm(1) this] show ?thesis by simp
  qed
  have fail: "send_turn sid input s = send_turn_failed sid input adm e (s1\<lparr>mg_provider_state := st\<rparr>)"
    if "fst (pv_send_turn p (turn_request sid input adm) (mg_provider_state s)) = Inl e" "\<And>m. e \<noteq> NotFound m" for e
  proof -
    have "fst ?disp = Inl e" using dispatch_error [OF prov(1) _ that(2)] that(1) prov(2) by (metis fst_conv)
    then have "?disp = (Inl e, s1\<lparr>mg_provider_state := st\<rparr>)" using st by (metis prod.collapse)
    from send_turn_dispatched [OF adm(1) this] show ?thesis by simp
  qed
  show thesis
  proof (rule that [OF adm])
    show "s1\<lparr>mg_provider_state := st\<rparr> = s\<lparr>mg_next_id := i, env_clock_reads := n, mg_provider_state := st\<rparr>"
      using s1 by simp
    show "hget (mg_turns s) (adm_turn_id adm) = None"
      using facts(6) next_ids_unused_at(2)[OF assms(7), of 0] by simp
  qed (rule acc fail; assumption)+
qed

section \<open>Properties\<close>


lemma sample_links: "turn_links sample_manager"
  by (auto simp: links_but_def sample_manager_def hget_def sample_session_def split: if_splits)


lemma send_turn_refused:
  assumes "hget (mg_sessions s) sid = Some r"
    and "sess_status r = ''closed'' \<or> sess_status r = ''failed'' \<or> sess_active_turn_id r \<noteq> None"
  shows "\<exists>msg. send_turn sid input s = (Inl (InvalidState msg), s)"
  using assms by (auto simp: send_turn_def send_turn_admit_def monad_simps err_def)

text \<open>C6: One turn at a time. A turn sent to a closed or failed session, or to a session with an
  active turn, is refused with \<open>InvalidState\<close> before anything happens: the whole state, the
  provider's included, is unchanged.\<close>

theorem send_turn_single_flight:
  assumes "hget (mg_sessions s) sid = Some r"
    and "sess_status r = ''closed'' \<or> sess_status r = ''failed'' \<or> sess_active_turn_id r \<noteq> None"
  shows "\<exists>msg. send_turn sid input s = (Inl (InvalidState msg), s)"
  using assms by (rule send_turn_refused)

definition sample_input :: send_turn_input where
  "sample_input = \<lparr>sti_input = [JString ''hello''], sti_expected_turn_id = None, sti_permission_mode = None\<rparr>"

theorem send_turn_single_flight_witness:
  "\<exists>msg. send_turn ''s1'' sample_input
      (sample_manager\<lparr>mg_sessions := [(''s1'', sample_session\<lparr>sess_status := ''closed''\<rparr>)]\<rparr>) =
    (Inl (InvalidState msg), sample_manager\<lparr>mg_sessions := [(''s1'', sample_session\<lparr>sess_status := ''closed''\<rparr>)]\<rparr>)"
  by (rule send_turn_single_flight [where r = "sample_session\<lparr>sess_status := ''closed''\<rparr>"]) (simp_all add: hget_def)

text \<open>C7: An accepted turn is recorded before the caller hears of it. A turn sent to a writable idle
  session whose provider acknowledges is accepted; then, in memory and in the store, the session
  names the new turn as its active turn, the turn is recorded under a fresh id with the input that
  was sent, and exactly one thing is set up to finish it: a waiter when no approval is needed, a
  pending approval for this turn otherwise. No other session changes.\<close>

theorem send_turn_accepted_turn:
  assumes "durable s" and "next_ids_unused s" and "log_room s"
    and "hget (mg_sessions s) sid = Some r" and "sess_status r \<noteq> ''closed''" and "sess_status r \<noteq> ''failed''"
    and "sess_active_turn_id r = None" and "kind_from_str (sess_provider r) = Some kind"
    and "hget (mg_providers s) kind = Some p" and "acknowledges p (mg_provider_state s)"
  shows "\<exists>acc s' r' t. send_turn sid input s = (Inr acc, s') \<and> durable s' \<and> sta_session_id acc = sid \<and>
    hget (mg_turns s) (sta_turn_id acc) = None \<and>
    hget (mg_sessions s') sid = Some r' \<and> sess_active_turn_id r' = Some (sta_turn_id acc) \<and>
    hget (mg_turns s') (sta_turn_id acc) = Some t \<and> turn_session_id t = sid \<and> turn_status t = sta_status acc \<and>
    turn_input t = JArray (sti_input input) \<and>
    (\<forall>k. k \<noteq> sid \<longrightarrow> hget (mg_sessions s') k = hget (mg_sessions s) k) \<and>
    (if or_else (sti_permission_mode input) (sess_permission_mode r) = Some ''require_approval''
     then sta_status acc = ''waiting_for_approval'' \<and> sess_status r' = ''waiting_for_approval'' \<and> mg_tasks s' = mg_tasks s \<and>
       (\<exists>aid a. hget (mg_approvals s) aid = None \<and> hget (mg_approvals s') aid = Some a \<and> appr_session_id a = sid \<and>
          appr_turn_id a = sta_turn_id acc \<and> appr_status a = ''pending'')
     else sta_status acc = ''in_progress'' \<and> sess_status r' = ''turn_running'' \<and> mg_approvals s' = mg_approvals s \<and>
       mg_tasks s' = mg_tasks s @ [(kind, sid, sta_turn_id acc)])"
proof -
  obtain adm s1 s2 i n st where adm: "send_turn_admit sid input s = (Inr adm, s1)" "adm_session adm = r" "adm_kind adm = kind"
    and s2_def: "s2 = s\<lparr>mg_next_id := i, env_clock_reads := n, mg_provider_state := st\<rparr>"
    and fresh: "hget (mg_turns s) (adm_turn_id adm) = None"
    and run: "send_turn sid input s = send_turn_accept sid input adm s2"
    using send_turn_to_provider [OF assms(4-9,2)] assms(10) by metis
  note facts = admit_Inr [OF adm(1)]
  have s2: "durable s2" "hget (mg_sessions s2) sid = Some (adm_session adm)" "log_room s2"
    using assms(1,3,4) adm(2) by (simp_all add: s2_def)
  have dur: "durable (snd (send_turn sid input s))" using assms(1,2) by (rule durable_send_turn)
  show ?thesis
  proof (cases "adm_requires_approval adm")
    case False
    then obtain s' where s': "send_turn_accept sid input adm s2 =
          (Inr \<lparr>sta_session_id = sid, sta_turn_id = adm_turn_id adm, sta_status = ''in_progress''\<rparr>, s')"
      "mg_sessions s' = hinsert sid (accepted_session ''turn_running'' adm) (mg_sessions s)"
      "mg_turns s' = hinsert (adm_turn_id adm) (new_turn_record (adm_turn_id adm) sid ''in_progress''
         (sti_input input) (adm_now adm) None None) (mg_turns s)"
      "mg_tasks s' = mg_tasks s @ [(kind, sid, adm_turn_id adm)]" "mg_approvals s' = mg_approvals s"
      using accept_direct [OF s2, of input] facts(8) adm(3) by (auto simp: s2_def)
    then show ?thesis
      using run dur False facts(7) adm(2) fresh by (simp add: accepted_session_def new_turn_record_def)
  next
    case True
    then obtain aid where aid: "adm_approval_id adm = Some aid" "hget (mg_approvals s) aid = None"
      using facts(8) next_ids_unused_at(3)[OF assms(2), of 2] by auto
    then obtain s' where s': "send_turn_accept sid input adm s2 =
          (Inr \<lparr>sta_session_id = sid, sta_turn_id = adm_turn_id adm, sta_status = ''waiting_for_approval''\<rparr>, s')"
      "mg_sessions s' = hinsert sid (accepted_session ''waiting_for_approval'' adm) (mg_sessions s)"
      "mg_turns s' = hinsert (adm_turn_id adm) (new_turn_record (adm_turn_id adm) sid ''waiting_for_approval''
         (sti_input input) (adm_now adm) None None) (mg_turns s)"
      "mg_tasks s' = mg_tasks s"
      "mg_approvals s' = hinsert aid (new_approval_record aid sid (adm_turn_id adm) (adm_now adm)) (mg_approvals s)"
      using accept_with_approval [OF s2 True aid(1), of input] aid(2) by (auto simp: s2_def)
    have ap: "\<exists>aid a. hget (mg_approvals s) aid = None \<and> hget (mg_approvals s') aid = Some a \<and> appr_session_id a = sid \<and>
        appr_turn_id a = adm_turn_id adm \<and> appr_status a = ''pending''"
      using aid(2) s'(5) by (intro exI [of _ aid]) simp
    show ?thesis
      using run dur True facts(7) adm(2) fresh s'(1-4) ap by (simp add: accepted_session_def new_turn_record_def)
  qed
qed

text \<open>A registered provider that acknowledges every turn, and the sample manager with it.\<close>

definition sample_provider :: "unit provider" where
  "sample_provider =
     (default_provider Codex \<lparr>pm_kind = Codex, pm_display_name = ''Codex'', pm_enabled = True\<rparr> (ok ()))
       \<lparr>pv_send_turn := (\<lambda>req. ok \<lparr>ack_session_id = str_session_id req, ack_turn_id = str_turn_id req\<rparr>)\<rparr>"

definition busy_manager :: "unit manager" where
  "busy_manager = sample_manager\<lparr>mg_providers := [(Codex, sample_provider)]\<rparr>"

lemma busy_facts:
  "durable busy_manager" "next_ids_unused busy_manager" "log_room busy_manager"
  "hget (mg_sessions busy_manager) ''s1'' = Some sample_session"
  "hget (mg_providers busy_manager) Codex = Some sample_provider"
  "kind_from_str (sess_provider sample_session) = Some Codex"
  "acknowledges sample_provider (mg_provider_state busy_manager)"
proof -
  have "same_core sample_manager busy_manager" by (simp add: same_core_def busy_manager_def)
  then show "durable busy_manager" using sample_durable durable_same_core by blast
  have "id_text p q now n \<noteq> ''s1''" for p q now n
  proof
    assume "id_text p q now n = ''s1''"
    then have "CHR ''_'' \<in> set ''s1''" by (metis id_text_def in_set_conv_decomp append_Cons append_Nil append_assoc)
    then show False by simp
  qed
  then show "next_ids_unused busy_manager"
    by (auto simp: next_ids_unused_def busy_manager_def sample_manager_def hget_def Let_def)
  show "log_room busy_manager"
    by (simp add: events_left_def busy_manager_def sample_manager_def empty_db_def i64_max_def)
  show "hget (mg_sessions busy_manager) ''s1'' = Some sample_session"
    by (simp add: busy_manager_def sample_manager_def hget_def)
  show "hget (mg_providers busy_manager) Codex = Some sample_provider"
    by (simp add: busy_manager_def hget_def)
  show "kind_from_str (sess_provider sample_session) = Some Codex"
    by (simp add: sample_session_def kind_from_str_def text_eval)
  show "acknowledges sample_provider (mg_provider_state busy_manager)"
    by (simp add: acknowledges_def sample_provider_def ok_def)
qed

theorem send_turn_accepted_turn_witness:
  "\<exists>acc s'. send_turn ''s1'' sample_input busy_manager = (Inr acc, s') \<and> sta_status acc = ''in_progress'' \<and>
     mg_tasks s' = [(Codex, ''s1'', sta_turn_id acc)]"
  using send_turn_accepted_turn [OF busy_facts(1-4) _ _ _ busy_facts(6,5,7), of sample_input]
  by (auto simp: sample_session_def sample_input_def or_else_def busy_manager_def sample_manager_def)

text \<open>C38: A turn the provider refuses fails closed. When the provider answers \<open>send_turn\<close> with an
  error that a resume cannot help (anything but not-found), the caller gets that error, the turn is
  recorded as failed with the error text, and the session is left without an active turn, ready for
  the next one; no waiter and no approval is created.\<close>

theorem send_turn_fails_closed:
  assumes "durable s" and "next_ids_unused s" and "log_room s"
    and "hget (mg_sessions s) sid = Some r" and "sess_status r \<noteq> ''closed''" and "sess_status r \<noteq> ''failed''"
    and "sess_active_turn_id r = None" and "kind_from_str (sess_provider r) = Some kind"
    and "hget (mg_providers s) kind = Some p"
    and "\<And>req. fst (pv_send_turn p req (mg_provider_state s)) = Inl e" and "\<And>m. e \<noteq> NotFound m"
  shows "\<exists>s' r' tid t. send_turn sid input s = (Inl e, s') \<and> durable s' \<and>
    hget (mg_turns s) tid = None \<and> hget (mg_turns s') tid = Some t \<and> turn_session_id t = sid \<and>
    turn_status t = ''failed'' \<and> turn_error t = Some (error_json e) \<and>
    hget (mg_sessions s') sid = Some r' \<and> sess_active_turn_id r' = None \<and> sess_status r' = ''ready'' \<and>
    mg_tasks s' = mg_tasks s \<and> mg_approvals s' = mg_approvals s"
proof -
  obtain adm s1 s2 i n st where adm: "adm_session adm = r"
    and s2_def: "s2 = s\<lparr>mg_next_id := i, env_clock_reads := n, mg_provider_state := st\<rparr>"
    and fresh: "hget (mg_turns s) (adm_turn_id adm) = None"
    and run: "send_turn sid input s = send_turn_failed sid input adm e s2"
    using send_turn_to_provider [OF assms(4-9,2)] assms(10,11) by metis
  have s2: "durable s2" "hget (mg_sessions s2) sid = Some (adm_session adm)" "log_room s2"
    using assms(1,3,4) adm by (simp_all add: s2_def)
  have dur: "durable (snd (send_turn sid input s))" using assms(1,2) by (rule durable_send_turn)
  from failed_run [OF s2, of input e] obtain s' where s': "send_turn sid input s = (Inl e, s')"
    "mg_turns s' = hinsert (adm_turn_id adm) (new_turn_record (adm_turn_id adm) sid ''failed'' (sti_input input)
      (adm_now adm) (Some (env_clock s2 (env_clock_reads s2))) (Some (error_json e))) (mg_turns s2)"
    "mg_tasks s' = mg_tasks s2" "mg_approvals s' = mg_approvals s2"
    "mg_sessions s' = hinsert sid (r\<lparr>sess_active_turn_id := None, sess_status := ''ready'',
        sess_updated_at := env_clock s2 (Suc (env_clock_reads s2))\<rparr>) (mg_sessions s2)"
    using run adm assms(5,6) by auto
  let ?r = "r\<lparr>sess_active_turn_id := None, sess_status := ''ready'',
        sess_updated_at := env_clock s2 (Suc (env_clock_reads s2))\<rparr>"
  show ?thesis
    using s' dur fresh
    by (intro exI [of _ s'] exI [of _ ?r] exI [of _ "adm_turn_id adm"]) (auto simp: s2_def)
qed

definition refusing_manager :: "unit manager" where
  "refusing_manager = sample_manager\<lparr>mg_providers := [(Codex, sample_provider\<lparr>pv_send_turn := (\<lambda>_. err (Unsupported ''no''))\<rparr>)]\<rparr>"

theorem send_turn_fails_closed_witness:
  "\<exists>s' r'. send_turn ''s1'' sample_input refusing_manager = (Inl (Unsupported ''no''), s') \<and>
     hget (mg_sessions s') ''s1'' = Some r' \<and> sess_status r' = ''ready''"
proof -
  have "same_core busy_manager refusing_manager"
    by (simp add: same_core_def busy_manager_def refusing_manager_def)
  then have dur: "durable refusing_manager" using busy_facts(1) durable_same_core by blast
  have rest: "next_ids_unused refusing_manager" "log_room refusing_manager"
    "hget (mg_sessions refusing_manager) ''s1'' = Some sample_session"
    using busy_facts(2-4)
    by (simp_all add: next_ids_unused_def events_left_def busy_manager_def refusing_manager_def)
  have prov: "hget (mg_providers refusing_manager) Codex = Some (sample_provider\<lparr>pv_send_turn := (\<lambda>_. err (Unsupported ''no''))\<rparr>)"
    by (simp add: refusing_manager_def hget_def)
  show ?thesis
    using send_turn_fails_closed [OF dur rest _ _ _ busy_facts(6) prov, of "Unsupported ''no''" sample_input]
    by (auto simp: sample_session_def err_def)
qed

end
