(* ===== verification/Turn_Properties.thy ===== *)
theory Turn_Properties
  imports Manager_Properties
begin

text \<open>
  The end of a turn: terminal results are final and free the session, approvals are answered once,
  the transcript stays bounded, the resume fallback retries at most once, ids are not reused.
\<close>

section \<open>What an operation leaves alone\<close>

text \<open>\<open>mg_turns\<close> and \<open>mg_approvals\<close> change only through \<open>put_turn\<close> and \<open>put_approval\<close>, whatever the store does.\<close>

lemma keeps_store [preserves_intros]:
  fixes v :: "(string, turn_record) hmap" and w :: "(string, approval_record) hmap"
  shows "preserves (\<lambda>s. mg_turns s = v) (store_call g)" "preserves (\<lambda>s. mg_approvals s = w) (store_call g)"
    "preserves (\<lambda>s. mg_turns s = v) (store_write x)" "preserves (\<lambda>s. mg_approvals s = w) (store_write x)"
  unfolding store_write_def preserves_def store_call_def
  by (auto simp: Let_def split: option.splits sum.splits)

lemma keeps_basic [preserves_intros]:
  fixes v :: "(string, turn_record) hmap" and w :: "(string, approval_record) hmap"
  shows "preserves (\<lambda>s. mg_turns s = v) now_ms" "preserves (\<lambda>s. mg_approvals s = w) now_ms"
    "preserves (\<lambda>s. mg_turns s = v) (put_session i r)" "preserves (\<lambda>s. mg_approvals s = w) (put_session i r)"
    "preserves (\<lambda>s. mg_approvals s = w) (put_turn j t)"
    "preserves (\<lambda>s. mg_turns s = v) (spawn_wait_for_turn k i j)" "preserves (\<lambda>s. mg_approvals s = w) (spawn_wait_for_turn k i j)"
    "preserves (\<lambda>s. mg_turns s = v) (provider_call h)" "preserves (\<lambda>s. mg_approvals s = w) (provider_call h)"
    "preserves (\<lambda>s. mg_turns s = v) (get_session i)" "preserves (\<lambda>s. mg_approvals s = w) (get_session i)"
  by (auto simp: preserves_def now_ms_def put_session_def put_turn_def modify_def spawn_wait_for_turn_def
      provider_call_def get_session_def monad_simps ok_or_else_def bindE_gets split: prod.splits option.splits)

lemma keeps_event [preserves_intros]:
  fixes v :: "(string, turn_record) hmap" and w :: "(string, approval_record) hmap"
  shows "preserves (\<lambda>s. mg_turns s = v) (append_event sc i ses t kind crit payload)"
    "preserves (\<lambda>s. mg_approvals s = w) (append_event sc i ses t kind crit payload)"
  using append_event_run unfolding preserves_def by (metis prod.collapse)+

section \<open>Terminal results\<close>

lemma keeps_conflict:
  "preserves (\<lambda>s. mg_turns s = v) (terminal_conflict turn result)"
  unfolding terminal_conflict_def Let_def by (intro preserves_intros)

lemma turns_after_put:
  assumes "\<And>v. preserves (\<lambda>s. mg_turns s = v) (f ())"
  shows "mg_turns (snd (bindE (put_turn i t) f s)) = hinsert i t (mg_turns s)"
  using assms by (simp add: bindE_put_turn preserves_def)

lemma finish_turn_turns:
  "mg_turns (snd (finish_turn turn result s)) =
     hinsert (res_turn_id result) (turn\<lparr>turn_status := result_status_as_str (res_status result),
       turn_completed_at := Some (env_clock s (env_clock_reads s)), turn_usage := res_usage result,
       turn_error := res_error result\<rparr>) (mg_turns s)"
  unfolding finish_turn_def Let_def
  by (subst bindE_now, subst turns_after_put) (intro preserves_intros, simp)

lemma terminal_result_turns:
  assumes "hget (mg_turns s) tid = Some t" and "is_terminal_turn_status (turn_status t)"
  shows "hget (mg_turns (snd (apply_terminal_result result s))) tid = Some t"
proof (cases "hget (mg_turns s) (res_turn_id result)")
  case None
  then show ?thesis using assms by (simp add: apply_terminal_result_def monad_simps Let_def)
next
  case (Some turn)
  have "mg_turns (snd (terminal_conflict turn result s)) = mg_turns s"
    by (rule keepsD) (rule keeps_conflict)
  then show ?thesis
    using assms Some
    by (auto simp: apply_terminal_result_def monad_simps Let_def err_def ok_def finish_turn_turns)
qed

lemma fail_live_turn_turns:
  assumes "hget (mg_turns s) tid = Some t" and "is_terminal_turn_status (turn_status t)"
  shows "hget (mg_turns (snd (fail_live_turn tid' e s))) tid = Some t"
proof -
  have put: "mg_turns (snd (bindE (put_turn i t') (\<lambda>_. store_write w) s')) = hinsert i t' (mg_turns s')"
    for i t' w and s' :: "('a, 'b) manager_scheme" by (rule turns_after_put) (intro preserves_intros)
  show ?thesis
    using assms by (auto simp: fail_live_turn_def monad_simps ok_def put Let_def split: option.splits)
qed

lemma terminal_failure_turns:
  assumes "hget (mg_turns s) tid = Some t" and "is_terminal_turn_status (turn_status t)"
  shows "hget (mg_turns (snd (apply_terminal_failure sid tid' e s))) tid = Some t"
proof -
  define rest :: "unit \<Rightarrow> (('a, 'b) manager_scheme, runtime_error, unit) rt" where
    "rest = (\<lambda>_. bindE (fail_waiting_session sid tid' e) (\<lambda>_.
       bindE (session_event sid (Some tid') ''provider.error''
         (jobject [(''error'', JString (error_to_string e))])) (\<lambda>_. ok ())))"
  have same: "mg_turns (snd (rest u s')) = mg_turns s'" for u s'
    by (rule keepsD) (unfold rest_def fail_waiting_session_def, intro preserves_intros)
  have "mg_turns (snd (bindE m rest s)) = mg_turns (snd (m s))"
    for m :: "(('a, 'b) manager_scheme, runtime_error, unit) rt"
    using same by (simp add: bindE_def split: prod.splits sum.splits)
  then show ?thesis
    using fail_live_turn_turns [OF assms] by (simp add: apply_terminal_failure_def rest_def)
qed

lemma wait_step_turns:
  assumes "hget (mg_turns s) tid = Some t" and "is_terminal_turn_status (turn_status t)"
  shows "hget (mg_turns (snd (wait_step n s))) tid = Some t"
proof -
  have "hget (mg_turns (snd (run_wait_task kind sid tid' s'))) tid = Some t"
    if "hget (mg_turns s') tid = Some t" for kind sid tid' and s' :: "('a, 'b) manager_scheme"
  proof -
    have "mg_turns (snd (provider_call g s')) = mg_turns s'" for g :: "('a, runtime_error, turn_result) rt"
      by (simp add: provider_call_def split: prod.splits)
    then show ?thesis
      using that assms(2)
      by (simp add: run_wait_task_def monad_simps ok_def terminal_result_turns terminal_failure_turns
          split: option.splits sum.splits)
  qed
  then show ?thesis
    using assms(1) by (simp add: wait_step_def monad_simps ok_def split: prod.splits)
qed

lemma conflict_fails_session:
  assumes "durable s" and "hget (mg_turns s) (res_turn_id result) = Some t"
    and "turn_session_id t = res_session_id result" and "is_terminal_turn_status (turn_status t)"
    and "turn_status t \<noteq> result_status_as_str (res_status result)"
  shows "\<exists>msg s' r. apply_terminal_result result s = (Inl (ProtocolViolation msg), s') \<and>
    hget (mg_sessions s') (res_session_id result) = Some r \<and> sess_status r = ''failed'' \<and>
    sess_failure_code r = Some ''terminal_conflict''"
proof -
  obtain session where ses: "hget (mg_sessions s) (res_session_id result) = Some session"
    "sess_id session = res_session_id result"
    using durable_turn_session [OF assms(1,2)] assms(3) by metis
  show ?thesis
    using assms ses
    by (auto simp: apply_terminal_result_def terminal_conflict_def monad_simps Let_def run_groups err_def)
qed

section \<open>Properties\<close>

text \<open>C5: A finished turn stays finished. Once a turn is completed, interrupted or failed, no waiter
  that ends later changes its record, whatever the provider reports and whether or not the store
  answers; a repeated report of the same status changes nothing at all, and a contradicting report
  of its own session is rejected and marks the session failed with code \<open>terminal_conflict\<close>.\<close>

theorem terminal_status_is_final:
  assumes "hget (mg_turns s) tid = Some t" and "is_terminal_turn_status (turn_status t)"
  shows "hget (mg_turns (snd (wait_step n s))) tid = Some t \<and>
    (res_turn_id result = tid \<longrightarrow> res_session_id result = turn_session_id t \<longrightarrow>
      (if turn_status t = result_status_as_str (res_status result)
       then apply_terminal_result result s = (Inr (), s)
       else durable s \<longrightarrow> (\<exists>msg s' r. apply_terminal_result result s = (Inl (ProtocolViolation msg), s') \<and>
         hget (mg_sessions s') (turn_session_id t) = Some r \<and> sess_status r = ''failed'' \<and>
         sess_failure_code r = Some ''terminal_conflict'')))"
proof -
  have "apply_terminal_result result s = (Inr (), s)"
    if "res_turn_id result = tid" "res_session_id result = turn_session_id t"
      "turn_status t = result_status_as_str (res_status result)"
    using assms that by (simp add: apply_terminal_result_def monad_simps Let_def ok_def)
  then show ?thesis
    using wait_step_turns [OF assms] conflict_fails_session [of s result t] assms by auto
qed

definition done_turn :: turn_record where
  "done_turn = (new_turn_record ''t1'' ''s1'' ''completed'' [] 1000 (Some 1001) None)"

definition done_manager :: "unit manager" where
  "done_manager = sample_manager\<lparr>mg_turns := [(''t1'', done_turn)], mg_tasks := [(Codex, ''s1'', ''t1'')]\<rparr>"

theorem terminal_status_is_final_witness:
  "hget (mg_turns (snd (wait_step 0 done_manager))) ''t1'' = Some done_turn \<and>
   apply_terminal_result \<lparr>res_session_id = ''s1'', res_turn_id = ''t1'', res_status = Completed,
     res_usage = None, res_error = None\<rparr> done_manager = (Inr (), done_manager)"
proof -
  have "hget (mg_turns done_manager) ''t1'' = Some done_turn" "is_terminal_turn_status (turn_status done_turn)"
    by (simp_all add: done_manager_def done_turn_def hget_def is_terminal_turn_status_def)
  from terminal_status_is_final [OF this, of 0 "\<lparr>res_session_id = ''s1'', res_turn_id = ''t1'', res_status = Completed,
     res_usage = None, res_error = None\<rparr>"]
  show ?thesis by (simp add: done_turn_def)
qed

text \<open>C8: A terminal result frees its session. The first result for a live turn of a session is
  applied completely: the turn gets the reported status, usage and error, the session no longer
  names it as active, a writable session becomes ready again, and the transcript is extended
  exactly when the turn completed or was interrupted; memory and disk still agree.\<close>

theorem terminal_result_frees_session:
  assumes "durable s" and "log_room s" and "hget (mg_turns s) (res_turn_id result) = Some t"
    and "turn_session_id t = res_session_id result" and "\<not> is_terminal_turn_status (turn_status t)"
    and "hget (mg_sessions s) (res_session_id result) = Some r"
  shows "\<exists>s' r' t'. apply_terminal_result result s = (Inr (), s') \<and> durable s' \<and>
    hget (mg_turns s') (res_turn_id result) = Some t' \<and>
    turn_status t' = result_status_as_str (res_status result) \<and> turn_usage t' = res_usage result \<and>
    turn_error t' = res_error result \<and> turn_session_id t' = turn_session_id t \<and>
    hget (mg_sessions s') (res_session_id result) = Some r' \<and>
    sess_active_turn_id r' \<noteq> Some (res_turn_id result) \<and>
    sess_status r' = (if sess_status r = ''closed'' \<or> sess_status r = ''failed'' then sess_status r else ''ready'') \<and>
    sess_metadata r' = (if res_status result = Completed \<or> res_status result = Interrupted
      then transcript_update (sess_metadata r) (turn_input t) (res_usage result) else sess_metadata r)"
proof -
  have ids: "turn_id t = res_turn_id result" "sess_id r = res_session_id result"
    "session_exists (env_db s) (res_session_id result)"
    using durable_keyed durable_exists(1) assms(1,3,6) by blast+
  let ?t = "t\<lparr>turn_status := result_status_as_str (res_status result),
       turn_completed_at := Some (env_clock s (env_clock_reads s)), turn_usage := res_usage result,
       turn_error := res_error result\<rparr>"
  let ?r = "finished_session r ?t result (env_clock s (Suc (env_clock_reads s)))"
  define s1 where "s1 = saved_session ?r
    ((saved_turn ?t (s\<lparr>env_clock_reads := Suc (env_clock_reads s)\<rparr>))\<lparr>env_clock_reads := Suc (Suc (env_clock_reads s))\<rparr>)"
  have s1: "durable s1" "log_room s1"
    using assms ids unfolding s1_def
    by (auto intro!: durable_saved_session durable_saved_turn session_update_ok [where old = r])
  obtain x s2 where ev: "session_event (res_session_id result) (Some (res_turn_id result)) (terminal_event_kind (res_status result))
      (jobject [(''status'', JString (result_status_as_str (res_status result))),
        (''usage'', jopt id (res_usage result)), (''error'', jopt id (res_error result)),
        (''assistant_text'', jopt JString (Option.bind (res_usage result) extract_assistant_text))]) s1 = (Inr x, s2)"
    using append_event_once [OF s1] by blast
  have run: "apply_terminal_result result s = (Inr (), s2)"
    using assms ids ev
    by (simp add: apply_terminal_result_def finish_turn_def monad_simps Let_def run_groups s1_def ok_def
      bindE_Inr [of "session_event (res_session_id result) (Some (res_turn_id result)) (terminal_event_kind (res_status result))
      (jobject [(''status'', JString (result_status_as_str (res_status result))),
        (''usage'', jopt id (res_usage result)), (''error'', jopt id (res_error result)),
        (''assistant_text'', jopt JString (Option.bind (res_usage result) extract_assistant_text))])"])
  have maps: "mg_sessions s2 = mg_sessions s1" "mg_turns s2 = mg_turns s1" using append_event_run [OF ev] by blast+
  have "durable s2" using durable_append_event [OF s1(1)] ev by (metis snd_conv)
  then show ?thesis
    using run maps ids assms(4)
    by (intro exI [of _ s2] exI [of _ ?r] exI [of _ ?t]) (auto simp: s1_def finished_session_def)
qed

definition live_turn_record :: turn_record where
  "live_turn_record = new_turn_record ''t1'' ''s1'' ''in_progress'' [JString ''hi''] 1000 None None"

definition running_manager :: "unit manager" where
  "running_manager = saved_session (sample_session\<lparr>sess_status := ''turn_running'', sess_active_turn_id := Some ''t1''\<rparr>)
     (saved_turn live_turn_record sample_manager)"

lemma running_facts:
  "durable running_manager" "log_room running_manager"
  "hget (mg_turns running_manager) ''t1'' = Some live_turn_record"
  "hget (mg_sessions running_manager) ''s1'' =
     Some (sample_session\<lparr>sess_status := ''turn_running'', sess_active_turn_id := Some ''t1''\<rparr>)"
proof -
  have ses: "hget (mg_sessions sample_manager) ''s1'' = Some sample_session" "sess_id sample_session = ''s1''"
    by (simp_all add: sample_manager_def hget_def sample_session_def)
  have "session_exists (env_db sample_manager) ''s1''" using durable_exists(1)[OF sample_durable ses(1)] .
  then show "durable running_manager"
    using ses sample_durable unfolding running_manager_def
    by (intro durable_saved_session durable_saved_turn session_update_ok [where old = sample_session])
      (simp_all add: live_turn_record_def)
  show "log_room running_manager"
    by (simp add: running_manager_def) (simp add: events_left_def sample_manager_def empty_db_def i64_max_def)
  show "hget (mg_turns running_manager) ''t1'' = Some live_turn_record"
    by (simp add: running_manager_def live_turn_record_def)
  show "hget (mg_sessions running_manager) ''s1'' =
     Some (sample_session\<lparr>sess_status := ''turn_running'', sess_active_turn_id := Some ''t1''\<rparr>)"
    using ses by (simp add: running_manager_def)
qed

theorem terminal_result_frees_session_witness:
  "\<exists>s' r'. apply_terminal_result \<lparr>res_session_id = ''s1'', res_turn_id = ''t1'', res_status = Completed,
     res_usage = None, res_error = None\<rparr> running_manager = (Inr (), s') \<and>
     hget (mg_sessions s') ''s1'' = Some r' \<and> sess_status r' = ''ready'' \<and> sess_active_turn_id r' \<noteq> Some ''t1''"
  using terminal_result_frees_session [OF running_facts(1,2), of "\<lparr>res_session_id = ''s1'', res_turn_id = ''t1'',
      res_status = Completed, res_usage = None, res_error = None\<rparr>" live_turn_record
      "sample_session\<lparr>sess_status := ''turn_running'', sess_active_turn_id := Some ''t1''\<rparr>"] running_facts(3,4)
  by (auto simp: live_turn_record_def is_terminal_turn_status_def)

lemma resolve_keeps_approvals:
  fixes s1 :: "('p, 'z) manager_scheme"
  shows "mg_approvals (snd (bindE (session_event sid t k j) (\<lambda>_.
     bindE (case d of Accept \<Rightarrow> approval_accepted kind sid tid | Decline \<Rightarrow> approval_declined sid tid) (\<lambda>_. ok x)) s1)) =
    mg_approvals s1"
  unfolding approval_accepted_def approval_declined_def Let_def
  by (rule keepsD) (cases d; hypsubst; unfold approval_decision.case; intro preserves_intros)

lemma stored_approval_run:
  assumes "bindE (store_write w) (\<lambda>_. bindE (put_approval i a) (\<lambda>_. m)) s = (Inr x, s')"
  shows "\<exists>s1. m s1 = (Inr x, s') \<and> hget (mg_approvals s1) i = Some a"
proof -
  obtain u s0 where "bindE (put_approval i a) (\<lambda>_. m) s0 = (Inr x, s')"
    using assms by (auto simp: bindE_eq_Inr [of "store_write w"])
  then show ?thesis
    by (intro exI [of _ "s0\<lparr>mg_approvals := hinsert i a (mg_approvals s0)\<rparr>"]) (simp add: bindE_put_approval)
qed

lemma respond_approval_found:
  assumes "respond_approval sid aid input s = (Inr a, s')"
  obtains kind old d now where "hget (mg_approvals s) aid = Some old" "appr_session_id old = sid" "appr_status old = ''pending''"
    "decision_parse (ari_decision input) = Inr d"
    "a = old\<lparr>appr_status := decision_as_str d, appr_response := ari_payload input, appr_resolved_at := Some now\<rparr>"
    "hget (mg_approvals s') aid = Some a"
proof -
  obtain session kind p old d where found: "hget (mg_sessions s) sid = Some session"
    "kind_from_str (sess_provider session) = Some kind" "hget (mg_providers s) kind = Some p"
    "hget (mg_approvals s) aid = Some old" "appr_session_id old = sid" "appr_status old = ''pending''"
    "decision_parse (ari_decision input) = Inr d"
    using assms
    by (auto simp: respond_approval_def monad_simps err_def Let_def split: option.splits if_splits sum.splits)
  let ?a = "\<lambda>now. old\<lparr>appr_status := decision_as_str d, appr_response := ari_payload input, appr_resolved_at := Some now\<rparr>"
  let ?rest = "\<lambda>now. bindE (session_event sid (Some (appr_turn_id old)) ''approval.resolved''
        (jobject [(''approval_id'', JString aid)])) (\<lambda>_.
     bindE (case d of Accept \<Rightarrow> approval_accepted kind sid (appr_turn_id old)
                    | Decline \<Rightarrow> approval_declined sid (appr_turn_id old)) (\<lambda>_. ok (?a now)))"
  obtain st where prov: "pv_respond_approval p
       \<lparr>arr_session_id = sid, arr_turn_id = appr_turn_id old, arr_approval_id = aid,
        arr_decision = decision_as_str d, arr_payload = ari_payload input\<rparr> (mg_provider_state s) = (Inr (), st)"
    using assms found
    by (auto simp: respond_approval_def monad_simps Let_def split: prod.splits sum.splits)
  have eq: "bindE (store_write (WApproval (?a (env_clock s (env_clock_reads s))))) (\<lambda>_.
      bindE (put_approval aid (?a (env_clock s (env_clock_reads s)))) (\<lambda>_. ?rest (env_clock s (env_clock_reads s))))
      (s\<lparr>mg_provider_state := st, env_clock_reads := Suc (env_clock_reads s)\<rparr>) = (Inr a, s')"
    using assms found prov by (cases d) (simp_all add: respond_approval_def monad_simps Let_def)
  from stored_approval_run [OF eq] obtain s1 where run: "?rest (env_clock s (env_clock_reads s)) s1 = (Inr a, s')"
    and s1: "hget (mg_approvals s1) aid = Some (?a (env_clock s (env_clock_reads s)))"
    by (elim exE conjE)
  have a: "a = ?a (env_clock s (env_clock_reads s))" using run unfolding bindE_eq_Inr by (auto simp: ok_def)
  moreover have "mg_approvals s' = mg_approvals s1"
    using resolve_keeps_approvals run by (metis snd_conv)
  ultimately show thesis using that found s1 by simp
qed

lemma not_pending_rejected:
  assumes "hget (mg_approvals s) aid = Some a" and "appr_status a \<noteq> ''pending''"
  shows "\<exists>e. respond_approval sid aid input s = (Inl e, s)"
  using assms by (auto simp: respond_approval_def monad_simps err_def split: option.splits)

section \<open>The effect of an answer\<close>

lemma accepted_run:
  assumes "durable s" and "log_room s" and "hget (mg_turns s) tid = Some t" and "turn_session_id t = sid"
    and "hget (mg_sessions s) sid = Some r"
  shows "\<exists>s' now. approval_accepted kind sid tid s = (Inr (), s') \<and>
    mg_turns s' = hinsert tid (t\<lparr>turn_status := ''in_progress'', turn_error := None\<rparr>) (mg_turns s) \<and>
    mg_sessions s' = hinsert sid (r\<lparr>sess_status := ''turn_running'', sess_updated_at := now\<rparr>) (mg_sessions s) \<and>
    mg_tasks s' = mg_tasks s @ [(kind, sid, tid)]"
proof -
  have ids: "turn_id t = tid" "sess_id r = sid" "session_exists (env_db s) sid"
    using durable_keyed durable_exists(1) assms(1,3,5) by blast+
  let ?t = "t\<lparr>turn_status := ''in_progress'', turn_error := None\<rparr>"
  let ?r = "r\<lparr>sess_status := ''turn_running'', sess_updated_at := env_clock s (env_clock_reads s)\<rparr>"
  define s1 where "s1 = saved_session ?r ((saved_turn ?t s)\<lparr>env_clock_reads := Suc (env_clock_reads s)\<rparr>)"
  have s1: "durable s1" "log_room s1"
    using assms ids unfolding s1_def
    by (auto intro!: durable_saved_session durable_saved_turn session_update_ok [where old = r])
  obtain x s2 where ev: "session_event sid (Some tid) ''turn.started'' (jobject [(''source'', JString ''approval.accepted'')]) s1 =
      (Inr x, s2)" using append_event_once [OF s1] by blast
  have run: "approval_accepted kind sid tid s = (Inr (), s2\<lparr>mg_tasks := mg_tasks s2 @ [(kind, sid, tid)]\<rparr>)"
    using assms ids ev
    by (simp add: approval_accepted_def monad_simps Let_def run_groups s1_def spawn_run
      bindE_Inr [of "session_event sid (Some tid) ''turn.started'' (jobject [(''source'', JString ''approval.accepted'')])"])
  then show ?thesis
    using append_event_run [OF ev] ids by (auto simp: s1_def)
qed

lemma declined_run:
  assumes "durable s" and "log_room s" and "hget (mg_turns s) tid = Some t" and "turn_session_id t = sid"
    and "hget (mg_sessions s) sid = Some r"
  shows "\<exists>s' t' r'. approval_declined sid tid s = (Inr (), s') \<and>
    mg_turns s' = hinsert tid t' (mg_turns s) \<and> turn_status t' = ''interrupted'' \<and> turn_session_id t' = sid \<and>
    mg_sessions s' = hinsert sid r' (mg_sessions s) \<and> sess_active_turn_id r' \<noteq> Some tid \<and>
    sess_status r' = (if sess_status r = ''closed'' \<or> sess_status r = ''failed'' then sess_status r else ''ready'') \<and>
    mg_tasks s' = mg_tasks s"
proof -
  have ids: "turn_id t = tid" "sess_id r = sid" "session_exists (env_db s) sid"
    using durable_keyed durable_exists(1) assms(1,3,5) by blast+
  let ?t = "t\<lparr>turn_status := ''interrupted'', turn_completed_at := Some (env_clock s (env_clock_reads s)),
     turn_error := Some (jobject [(''message'', JString ''approval declined'')])\<rparr>"
  let ?r = "r\<lparr>sess_active_turn_id := (if sess_active_turn_id r = Some tid then None else sess_active_turn_id r),
     sess_status := (if sess_status r \<noteq> ''closed'' \<and> sess_status r \<noteq> ''failed'' then ''ready'' else sess_status r),
     sess_updated_at := env_clock s (Suc (env_clock_reads s))\<rparr>"
  define s1 where "s1 = saved_session ?r ((saved_turn ?t (s\<lparr>env_clock_reads := Suc (env_clock_reads s)\<rparr>))
     \<lparr>env_clock_reads := Suc (Suc (env_clock_reads s))\<rparr>)"
  have s1: "durable s1" "log_room s1"
    using assms ids unfolding s1_def
    by (auto intro!: durable_saved_session durable_saved_turn session_update_ok [where old = r])
  obtain x s2 where ev: "session_event sid (Some tid) ''turn.interrupted'' (jobject [(''source'', JString ''approval.declined'')]) s1 =
      (Inr x, s2)" using append_event_once [OF s1] by blast
  have run: "approval_declined sid tid s = (Inr (), s2)"
    using assms ids ev
    by (simp add: approval_declined_def monad_simps Let_def run_groups s1_def ok_def
      bindE_Inr [of "session_event sid (Some tid) ''turn.interrupted'' (jobject [(''source'', JString ''approval.declined'')])"])
  have maps: "mg_sessions s2 = mg_sessions s1" "mg_turns s2 = mg_turns s1" "mg_tasks s2 = mg_tasks s1"
    using append_event_run [OF ev] by blast+
  show ?thesis
    using run maps ids assms(4)
    by (intro exI [of _ s2] exI [of _ ?t] exI [of _ ?r]) (simp add: s1_def)
qed

text \<open>Up to the decision: the approval is resolved and stored.\<close>

lemma respond_approval_to_decision:
  assumes "durable s" and "events_left 2 s" and "hget (mg_sessions s) sid = Some r"
    and "kind_from_str (sess_provider r) = Some kind" and "hget (mg_providers s) kind = Some p"
    and "hget (mg_approvals s) aid = Some a" and "appr_session_id a = sid" and "appr_status a = ''pending''"
    and "decision_parse (ari_decision input) = Inr d"
    and "\<And>req. fst (pv_respond_approval p req (mg_provider_state s)) = Inr ()"
  shows "\<exists>s1 a'. durable s1 \<and> log_room s1 \<and> mg_sessions s1 = mg_sessions s \<and> mg_turns s1 = mg_turns s \<and>
    mg_tasks s1 = mg_tasks s \<and> mg_approvals s1 = hinsert aid a' (mg_approvals s) \<and> appr_status a' = decision_as_str d \<and>
    respond_approval sid aid input s =
      bindE (case d of Accept \<Rightarrow> approval_accepted kind sid (appr_turn_id a)
                     | Decline \<Rightarrow> approval_declined sid (appr_turn_id a)) (\<lambda>_. ok a') s1"
proof -
  have fk: "appr_id a = aid" "session_exists (env_db s) sid" "turn_exists (env_db s) (appr_turn_id a)"
    using durable_keyed(3) durable_foreign(2) assms(1,6,7) by blast+
  obtain st where prov: "pv_respond_approval p
       \<lparr>arr_session_id = sid, arr_turn_id = appr_turn_id a, arr_approval_id = aid,
        arr_decision = decision_as_str d, arr_payload = ari_payload input\<rparr> (mg_provider_state s) = (Inr (), st)"
    using assms(10) by (metis prod.collapse)
  let ?s = "s\<lparr>mg_provider_state := st, env_clock_reads := Suc (env_clock_reads s)\<rparr>"
  define a' where "a' = a\<lparr>appr_status := decision_as_str d, appr_response := ari_payload input,
    appr_resolved_at := Some (env_clock s (env_clock_reads s))\<rparr>"
  have s0: "durable (saved_approval a' ?s)" "events_left (Suc 1) (saved_approval a' ?s)"
    using assms fk
    by (auto simp: a'_def approval_write_ok_def numeral_2_eq_2 intro!: durable_saved_approval)
  let ?ev = "session_event sid (Some (appr_turn_id a)) ''approval.resolved'' (jobject [(''approval_id'', JString aid)])"
  obtain x s1 where ev: "?ev (saved_approval a' ?s) = (Inr x, s1)" and s1: "durable s1" "events_left 1 s1"
    using append_event_returns [OF s0] by blast
  have "respond_approval sid aid input s =
      bindE (case d of Accept \<Rightarrow> approval_accepted kind sid (appr_turn_id a)
                     | Decline \<Rightarrow> approval_declined sid (appr_turn_id a)) (\<lambda>_. ok a') s1"
    using assms fk prov ev
    by (cases d) (simp_all add: respond_approval_def monad_simps Let_def run_store_approval a'_def bindE_Inr [of ?ev])
  then show ?thesis
    using s1 append_event_run [OF ev] fk(1) by (intro exI [of _ s1] exI [of _ a']) (simp add: a'_def)
qed

lemma respond_approval_run:
  assumes "durable s" and "events_left 2 s" and "hget (mg_sessions s) sid = Some r"
    and "kind_from_str (sess_provider r) = Some kind" and "hget (mg_providers s) kind = Some p"
    and "hget (mg_approvals s) aid = Some a" and "appr_session_id a = sid" and "appr_status a = ''pending''"
    and "decision_parse (ari_decision input) = Inr d"
    and "\<And>req. fst (pv_respond_approval p req (mg_provider_state s)) = Inr ()"
    and "hget (mg_turns s) (appr_turn_id a) = Some t" and "turn_session_id t = sid"
  shows "\<exists>s' a' t' r'. respond_approval sid aid input s = (Inr a', s') \<and> appr_status a' = decision_as_str d \<and>
    hget (mg_turns s') (appr_turn_id a) = Some t' \<and> turn_session_id t' = sid \<and> hget (mg_sessions s') sid = Some r' \<and>
    (case d of
       Accept \<Rightarrow> turn_status t' = ''in_progress'' \<and> sess_status r' = ''turn_running'' \<and>
                 mg_tasks s' = mg_tasks s @ [(kind, sid, appr_turn_id a)]
     | Decline \<Rightarrow> turn_status t' = ''interrupted'' \<and> sess_active_turn_id r' \<noteq> Some (appr_turn_id a) \<and>
         sess_status r' = (if sess_status r = ''closed'' \<or> sess_status r = ''failed'' then sess_status r else ''ready'') \<and>
         mg_tasks s' = mg_tasks s)"
proof -
  obtain s1 a' where s1: "durable s1" "log_room s1" "mg_sessions s1 = mg_sessions s" "mg_turns s1 = mg_turns s"
    "mg_tasks s1 = mg_tasks s" "appr_status a' = decision_as_str d"
    and run: "respond_approval sid aid input s =
      bindE (case d of Accept \<Rightarrow> approval_accepted kind sid (appr_turn_id a)
                     | Decline \<Rightarrow> approval_declined sid (appr_turn_id a)) (\<lambda>_. ok a') s1"
    using respond_approval_to_decision [OF assms(1-10)] by blast
  have found: "hget (mg_turns s1) (appr_turn_id a) = Some t" "hget (mg_sessions s1) sid = Some r"
    using s1 assms(3,11) by simp_all
  show ?thesis
  proof (cases d)
    case Accept
    from accepted_run [OF s1(1,2) found(1) assms(12) found(2), of kind] show ?thesis
      using run s1 Accept assms(12) by (auto simp: bindE_def ok_def)
  next
    case Decline
    from declined_run [OF s1(1,2) found(1) assms(12) found(2)] show ?thesis
      using run s1 Decline by (auto simp: bindE_def ok_def)
  qed
qed

section \<open>Properties of approvals, transcripts and ids\<close>

text \<open>C37: An answered approval takes effect. When the provider takes the answer to a pending approval,
  the call succeeds: accepting puts the turn in progress with one new waiter for it and the session
  in \<open>turn_running\<close>; declining interrupts the turn, removes it as the session's active turn, makes
  a writable session ready again and starts no waiter.\<close>

theorem approval_decision_takes_effect:
  assumes "durable s" and "events_left 2 s" and "hget (mg_sessions s) sid = Some r"
    and "kind_from_str (sess_provider r) = Some kind" and "hget (mg_providers s) kind = Some p"
    and "hget (mg_approvals s) aid = Some a" and "appr_session_id a = sid" and "appr_status a = ''pending''"
    and "decision_parse (ari_decision input) = Inr d"
    and "\<And>req. fst (pv_respond_approval p req (mg_provider_state s)) = Inr ()"
    and "hget (mg_turns s) (appr_turn_id a) = Some t" and "turn_session_id t = sid"
  shows "\<exists>s' a' t' r'. respond_approval sid aid input s = (Inr a', s') \<and> appr_status a' = decision_as_str d \<and>
    hget (mg_turns s') (appr_turn_id a) = Some t' \<and> turn_session_id t' = sid \<and> hget (mg_sessions s') sid = Some r' \<and>
    (case d of
       Accept \<Rightarrow> turn_status t' = ''in_progress'' \<and> sess_status r' = ''turn_running'' \<and>
                 mg_tasks s' = mg_tasks s @ [(kind, sid, appr_turn_id a)]
     | Decline \<Rightarrow> turn_status t' = ''interrupted'' \<and> sess_active_turn_id r' \<noteq> Some (appr_turn_id a) \<and>
         sess_status r' = (if sess_status r = ''closed'' \<or> sess_status r = ''failed'' then sess_status r else ''ready'') \<and>
         mg_tasks s' = mg_tasks s)"
  using assms by (rule respond_approval_run)

definition asked_approval :: approval_record where
  "asked_approval = new_approval_record ''a1'' ''s1'' ''t1'' 1000"

text \<open>A manager whose running turn waits for the answer to \<open>a1\<close>; its provider takes answers.\<close>

definition asking_provider :: "unit provider" where
  "asking_provider = sample_provider\<lparr>pv_respond_approval := (\<lambda>_. ok ())\<rparr>"

definition asking_manager :: "unit manager" where
  "asking_manager = (saved_approval asked_approval running_manager)\<lparr>mg_providers := [(Codex, asking_provider)]\<rparr>"

definition decline_input :: approval_response_input where
  "decline_input = \<lparr>ari_decision = ''decline'', ari_payload = None\<rparr>"

lemma asking_facts:
  "durable asking_manager" "events_left 2 asking_manager"
  "hget (mg_sessions asking_manager) ''s1'' =
     Some (sample_session\<lparr>sess_status := ''turn_running'', sess_active_turn_id := Some ''t1''\<rparr>)"
  "kind_from_str (sess_provider (sample_session\<lparr>sess_status := ''turn_running'', sess_active_turn_id := Some ''t1''\<rparr>)) = Some Codex"
  "hget (mg_providers asking_manager) Codex = Some asking_provider"
  "hget (mg_approvals asking_manager) ''a1'' = Some asked_approval"
  "appr_session_id asked_approval = ''s1''" "appr_status asked_approval = ''pending''"
  "decision_parse (ari_decision decline_input) = Inr Decline"
  "\<And>req. fst (pv_respond_approval asking_provider req (mg_provider_state asking_manager)) = Inr ()"
  "hget (mg_turns asking_manager) (appr_turn_id asked_approval) = Some live_turn_record"
  "turn_session_id live_turn_record = ''s1''"
proof -
  have "approval_write_ok running_manager asked_approval"
    by (simp add: approval_write_ok_def running_manager_def sample_manager_def)
  then have "durable (saved_approval asked_approval running_manager)"
    using running_facts durable_exists [OF running_facts(1)]
    by (intro durable_saved_approval) (simp_all add: asked_approval_def)
  moreover have "same_core (saved_approval asked_approval running_manager) asking_manager"
    by (simp add: same_core_def asking_manager_def)
  ultimately show "durable asking_manager" using durable_same_core by blast
  show "events_left 2 asking_manager"
    by (simp add: asking_manager_def running_manager_def)
      (simp add: events_left_def sample_manager_def empty_db_def i64_max_def)
  show "hget (mg_sessions asking_manager) ''s1'' =
     Some (sample_session\<lparr>sess_status := ''turn_running'', sess_active_turn_id := Some ''t1''\<rparr>)"
    using running_facts(4) by (simp add: asking_manager_def)
  show "hget (mg_turns asking_manager) (appr_turn_id asked_approval) = Some live_turn_record"
    using running_facts(3) by (simp add: asking_manager_def asked_approval_def)
  show "hget (mg_approvals asking_manager) ''a1'' = Some asked_approval"
    by (simp add: asking_manager_def asked_approval_def)
  show "decision_parse (ari_decision decline_input) = Inr Decline"
    using decision_roundtrip [of Decline] by (simp add: decline_input_def)
qed (use busy_facts(6) in \<open>simp_all add: asking_manager_def asked_approval_def asking_provider_def live_turn_record_def
      hget_def ok_def\<close>)

theorem approval_decision_takes_effect_witness:
  "\<exists>s' a' t'. respond_approval ''s1'' ''a1'' decline_input asking_manager = (Inr a', s') \<and>
     appr_status a' = ''decline'' \<and> hget (mg_turns s') ''t1'' = Some t' \<and> turn_status t' = ''interrupted''"
  using approval_decision_takes_effect [OF asking_facts] by (auto simp: asked_approval_def)

text \<open>C36: An approval is answered exactly once. A successful answer found the approval pending and of
  that session, stores the decision the caller spelled, and from then on every further answer to
  this approval, by anyone and with any decision, is an error that changes nothing (no provider is
  called).\<close>

theorem approval_answered_once:
  fixes s :: "('p, 'z) manager_scheme"
  assumes "respond_approval sid aid input s = (Inr a, s')"
  shows "\<exists>old d. hget (mg_approvals s) aid = Some old \<and> appr_status old = ''pending'' \<and> appr_session_id old = sid \<and>
    decision_parse (ari_decision input) = Inr d \<and> appr_status a = decision_as_str d \<and> appr_turn_id a = appr_turn_id old \<and>
    hget (mg_approvals s') aid = Some a \<and>
    (\<forall>(s'' :: ('p, 'z) manager_scheme) sid' input'. hget (mg_approvals s'') aid = Some a \<longrightarrow>
       (\<exists>e. respond_approval sid' aid input' s'' = (Inl e, s'')))"
proof -
  obtain old d now where f: "hget (mg_approvals s) aid = Some old" "appr_session_id old = sid" "appr_status old = ''pending''"
    "decision_parse (ari_decision input) = Inr d"
    "a = old\<lparr>appr_status := decision_as_str d, appr_response := ari_payload input, appr_resolved_at := Some now\<rparr>"
    "hget (mg_approvals s') aid = Some a"
    using respond_approval_found [OF assms] by metis
  have a: "appr_status a \<noteq> ''pending''" "appr_status a = decision_as_str d" "appr_turn_id a = appr_turn_id old"
    using f(5) by (cases d; simp)+
  then show ?thesis
    using f(1-4,6) not_pending_rejected [OF _ a(1)] by (intro exI [of _ old] exI [of _ d] conjI allI impI)
qed

theorem approval_answered_once_witness:
  "\<exists>a s'. respond_approval ''s1'' ''a1'' decline_input asking_manager = (Inr a, s') \<and>
     (\<exists>e. respond_approval ''s1'' ''a1'' decline_input s' = (Inl e, s'))"
proof -
  obtain a s' where run: "respond_approval ''s1'' ''a1'' decline_input asking_manager = (Inr a, s')"
    using respond_approval_run [OF asking_facts] by blast
  from approval_answered_once [OF run] run show ?thesis by blast
qed

definition transcript_rows :: "json \<Rightarrow> json list" where
  "transcript_rows metadata =
     (case or_else (jget metadata ''session_transcript'') (jget metadata ''codex_transcript'') of
        Some (JArray rows) \<Rightarrow> rows | _ \<Rightarrow> [])"

text \<open>C40: The transcript is bounded and keeps the newest rows. Appending to a session's transcript
  keeps every other key of the metadata (the legacy \<open>codex_transcript\<close> key is moved, not lost),
  ends with the new row, and holds the last 80 rows of the old transcript with that row appended.\<close>

theorem transcript_keeps_newest:
  fixes metadata :: json and role line :: string
  defines "rows \<equiv> transcript_rows metadata" and "result \<equiv> append_session_transcript metadata role line"
  shows "transcript_rows result = drop (length rows + 1 - 80) (rows @ [transcript_row role line]) \<and>
    length (transcript_rows result) = min 80 (length rows + 1) \<and> last (transcript_rows result) = transcript_row role line \<and>
    (\<forall>k. k \<noteq> ''session_transcript'' \<longrightarrow> k \<noteq> ''codex_transcript'' \<longrightarrow> jget result k = jget metadata k)"
proof -
  define kvs where "kvs = (case metadata of JObject kvs \<Rightarrow> kvs | _ \<Rightarrow> [])"
  have meta: "jget metadata k = obj_get kvs k" for k
    by (cases metadata) (simp_all add: kvs_def jget_def obj_get_def)
  have rows: "transcript_rows result = trim_rows (rows @ [transcript_row role line])"
    unfolding rows_def result_def transcript_rows_def meta append_session_transcript_def Let_def kvs_def [symmetric]
    by (auto simp: jget_def or_else_def simp del: obj_insert.simps split: option.splits json.splits)
  have "jget result k = jget metadata k" if "k \<noteq> ''session_transcript''" "k \<noteq> ''codex_transcript''" for k
    unfolding result_def meta append_session_transcript_def Let_def kvs_def [symmetric] using that
    by (auto simp: jget_def simp del: obj_insert.simps split: option.splits)
  then show ?thesis unfolding rows by (auto simp: trim_rows_def)
qed

theorem transcript_keeps_newest_witness:
  "transcript_rows (append_session_transcript (JObject [(''codex_transcript'', JArray [JString ''old'']), (''x'', JNull)]) ''user'' ''hi'') =
     [JString ''old'', transcript_row ''user'' ''hi''] \<and>
   jget (append_session_transcript (JObject [(''codex_transcript'', JArray [JString ''old'']), (''x'', JNull)]) ''user'' ''hi'') ''x'' =
     Some JNull"
proof -
  let ?m = "JObject [(''codex_transcript'', JArray [JString ''old'']), (''x'', JNull)]"
  have "transcript_rows ?m = [JString ''old'']" "jget ?m ''x'' = Some JNull"
    by (simp_all add: transcript_rows_def or_else_def jget_def obj_get_def)
  then show ?thesis
    using transcript_keeps_newest [of ?m "''user''" "''hi''"] by simp
qed

text \<open>The resume fallback retries at most once. A turn goes to the provider; only when the provider
  does not know the session and the session has a provider reference is the session resumed, with
  the session's working directory and metadata, and the same request sent a second time, whose
  answer is final; every other error is returned as it came, and a missing reference is reported as
  not found.\<close>

lemma resume_fallback_behaviour:
  assumes "hget (mg_providers s) kind = Some p"
  shows "dispatch_send_turn_with_resume_fallback kind req cwd pref cref md s =
    (case pv_send_turn p req (mg_provider_state s) of
       (Inr ack, st) \<Rightarrow> (Inr ack, s\<lparr>mg_provider_state := st\<rparr>)
     | (Inl e, st) \<Rightarrow>
         (case (e, pref) of
            (NotFound _, None) \<Rightarrow>
              (Inl (NotFound (''provider session '' @ str_session_id req @ '' was not found and cannot be resumed'')),
               s\<lparr>mg_provider_state := st\<rparr>)
          | (NotFound _, Some ref) \<Rightarrow>
              (case pv_resume_session p \<lparr>rsr_session_id = str_session_id req, rsr_provider_session_ref = ref,
                      rsr_canonical_ref = cref, rsr_cwd = cwd, rsr_metadata = Some md\<rparr> st of
                 (Inl e', st') \<Rightarrow> (Inl e', s\<lparr>mg_provider_state := st'\<rparr>)
               | (Inr _, st') \<Rightarrow>
                   (case pv_send_turn p req st' of (r, st'') \<Rightarrow> (r, s\<lparr>mg_provider_state := st''\<rparr>)))
          | _ \<Rightarrow> (Inl e, s\<lparr>mg_provider_state := st\<rparr>)))"
  using assms
  by (auto simp: dispatch_send_turn_with_resume_fallback_def monad_simps bindE_attempt_call ok_def err_def
      provider_call_def split: prod.splits sum.splits runtime_error.splits option.splits)

lemma resume_fallback_behaviour_witness:
  "dispatch_send_turn_with_resume_fallback Codex \<lparr>str_session_id = ''s1'', str_turn_id = ''t1'', str_input = [],
     str_expected_turn_id = None, str_permission_mode = None, str_approval_id = None\<rparr> None None None JNull busy_manager =
   (Inr \<lparr>ack_session_id = ''s1'', ack_turn_id = ''t1''\<rparr>, busy_manager)"
  using resume_fallback_behaviour [OF busy_facts(5), of "\<lparr>str_session_id = ''s1'', str_turn_id = ''t1'', str_input = [],
     str_expected_turn_id = None, str_permission_mode = None, str_approval_id = None\<rparr>" None None None JNull]
  by (simp add: sample_provider_def ok_def)

lemma id_text_counter: "id_text p q now n = id_text p' q' now' n' \<Longrightarrow> n = n'"
proof -
  assume eq: "id_text p q now n = id_text p' q' now' n'"
  have seg: "last_segment (CHR ''_'') (id_text p q now n) = dec_of_nat (unat n)" for p q now n
    using last_segment_append [OF dec_no_sep, of "p @ ''_'' @ q @ ''_'' @ dec_of_int now" "unat n"]
    by (simp add: id_text_def)
  from eq have "dec_of_nat (unat n) = dec_of_nat (unat n')" using seg by metis
  then show "n = n'" by (simp add: word_unat_eq_iff)
qed

lemma allocate_id_run:
  "allocate_id p q s = (Inr (id_text p q (env_clock s (env_clock_reads s)) (mg_next_id s)),
     s\<lparr>mg_next_id := mg_next_id s + 1, env_clock_reads := Suc (env_clock_reads s)\<rparr>)"
  by (simp add: allocate_id_def monad_simps ok_def id_text_def)

text \<open>Ids are unique within 2^64 allocations. Whatever the prefixes, the scope and the clock
  say, two ids allocated by one manager at counter values less than 2^64 apart are different, and
  every allocation advances the counter by one (wrapping at 2^64).\<close>

lemma allocated_ids_distinct:
  assumes "mg_next_id s' = mg_next_id s + of_nat k" and "0 < k" and "k < 2 ^ 64"
  shows "fst (allocate_id p q s) \<noteq> (fst (allocate_id p' q' s') :: runtime_error + string) \<and>
    mg_next_id (snd (allocate_id p q s :: (runtime_error + string) \<times> _)) = mg_next_id s + 1"
proof -
  have "(of_nat k :: 64 word) \<noteq> 0" using assms(2,3) by (auto simp: word_of_nat_eq_0_iff dest: nat_dvd_not_less)
  then have "mg_next_id s \<noteq> mg_next_id s'" using assms(1) by simp
  then show ?thesis using id_text_counter by (auto simp: allocate_id_run)
qed

lemma allocated_ids_distinct_witness:
  "fst (allocate_id ''sess'' ''codex'' sample_manager) \<noteq>
     (fst (allocate_id ''turn'' ''codex'' (sample_manager\<lparr>mg_next_id := 2\<rparr>)) :: runtime_error + string)"
  using allocated_ids_distinct [of "sample_manager\<lparr>mg_next_id := 2\<rparr>" sample_manager 1 "''sess''" "''codex''" "''turn''" "''codex''"]
  by (simp add: sample_manager_def)

end
