(* ===== verification/Team_State.thy ===== *)
theory Team_State
  imports Turns
begin

text \<open>
  State and helpers of the team communication service (\<open>runtime-core/src/team_comms\<close>: \<open>state.rs\<close>,
  \<open>helpers.rs\<close>, \<open>mod.rs\<close>). The service holds the session manager and the store, so its state
  extends the manager's; \<open>comms_new\<close> is what \<open>RuntimeTeamCommsService::new\<close> hydrates.

  The per-recipient mutexes only order concurrent attempts; handlers here run one after the other,
  so they carry no state. The listener task spawned by \<open>new\<close> is the pair \<open>tc_listening\<close>,
  \<open>tc_events_seen\<close>: how far it has read the manager's broadcast channel, and whether its loop still
  runs. \<open>rand::random\<close> is the parameter \<open>nonce\<close>.
\<close>

section \<open>State (state.rs, mod.rs)\<close>

datatype delivery_trigger = TriggerQueue | TriggerRetry | TurnCompletedBoundary | StartupRecovery

fun trigger_debug :: "delivery_trigger \<Rightarrow> string" where
  "trigger_debug TriggerQueue = ''Queue''"
| "trigger_debug TriggerRetry = ''Retry''"
| "trigger_debug TurnCompletedBoundary = ''TurnCompletedBoundary''"
| "trigger_debug StartupRecovery = ''StartupRecovery''"

record 'p comms = "'p manager" +
  tc_enabled :: bool
  tc_max_pending :: nat
  tc_teams :: "(string, team_record) hmap"
  tc_members :: "(string, (string, team_member_record) hmap) hmap"
  tc_messages :: "(string, team_message_record) hmap"
  tc_deliveries :: "(string, team_delivery_record) hmap"
  tc_team_messages :: "(string, string list) hmap"
  tc_team_deliveries :: "(string, string list) hmap"
  tc_message_deliveries :: "(string, string list) hmap"
  tc_recipient_deliveries :: "(string, string list) hmap"
  tc_idempotency :: "(string, string) hmap"
  tc_next_team :: "64 word"
  tc_next_message :: "64 word"
  tc_next_delivery :: "64 word"
  tc_next_event :: "64 word"
  tc_nonce :: string
  tc_channel_capacity :: nat
  tc_events_seen :: nat
  tc_listening :: bool

section \<open>Helpers (helpers.rs)\<close>

definition ensure_member ::
  "(string, team_member_record) hmap option \<Rightarrow> string \<Rightarrow> string \<Rightarrow> runtime_error + unit" where
  "ensure_member members agent team =
     (if (case members of None \<Rightarrow> False | Some ms \<Rightarrow> hcontains ms agent) then Inr ()
      else Inl (InvalidState (''agent '' @ agent @ '' is not a member of team '' @ team)))"

definition remove_delivery_from_recipient_index ::
  "string \<Rightarrow> string \<Rightarrow> (string, string list) hmap \<Rightarrow> (string, string list) hmap" where
  "remove_delivery_from_recipient_index recipient did index =
     (case hget index recipient of
        None \<Rightarrow> index
      | Some ids \<Rightarrow>
          (let kept = filter (\<lambda>c. c \<noteq> did) ids
           in if kept = [] then hremove recipient index else hinsert recipient kept index))"

definition normalize_non_empty :: "string \<Rightarrow> string \<Rightarrow> runtime_error + string" where
  "normalize_non_empty value field =
     (let t = trim value in if t = [] then Inl (InvalidState (field @ '' cannot be empty'')) else Inr t)"

definition normalized_non_empty :: "string option \<Rightarrow> string option" where
  "normalized_non_empty v = non_empty_trimmed v"

definition normalize_non_empty_input :: "json \<Rightarrow> runtime_error + json" where
  "normalize_non_empty_input input =
     (case input of
        JArray items \<Rightarrow> if items = [] then Inl (InvalidState ''message input cannot be empty'') else Inr (JArray items)
      | _ \<Rightarrow> Inl (InvalidState ''message input must be an array''))"

definition normalize_scope :: "string \<Rightarrow> runtime_error + string" where
  "normalize_scope scope =
     (let v = to_ascii_lowercase (trim scope) in
      if v = ''direct'' then Inr ''direct''
      else if v = ''broadcast'' then Inr ''broadcast''
      else Inl (InvalidState (''unsupported message scope '' @ v)))"

definition normalize_priority :: "string \<Rightarrow> string" where
  "normalize_priority value = (let v = to_ascii_lowercase (trim value) in if v = [] then ''normal'' else v)"

definition delivery_policies :: "string list" where
  "delivery_policies =
     [''non_interrupting'', ''interrupt_after_tool_boundary'', ''immediate_interrupt'', ''start_new_turn_only'']"

definition normalize_policy :: "string \<Rightarrow> runtime_error + string" where
  "normalize_policy value =
     (let v = to_ascii_lowercase (trim value) in
      if v \<in> set delivery_policies then Inr v
      else Inl (InvalidState (''unsupported delivery policy '' @ value)))"

definition idempotency_index_key :: "string \<Rightarrow> string \<Rightarrow> string \<Rightarrow> string \<Rightarrow> string" where
  "idempotency_index_key team sender scope key = team @ ''|'' @ sender @ ''|'' @ scope @ ''|'' @ key"

definition parse_counter :: "string \<Rightarrow> nat option" where
  "parse_counter value = parse_u64 (last_segment (CHR ''_'') value)"

definition is_terminal_status :: "string \<Rightarrow> bool" where
  "is_terminal_status status \<longleftrightarrow> status \<in> {''injected'', ''failed'', ''cancelled''}"

definition is_valid_transition :: "string \<Rightarrow> string \<Rightarrow> bool" where
  "is_valid_transition current next \<longleftrightarrow>
     (current, next) \<in> {
       (''pending'', ''pending''), (''pending'', ''deferred''), (''pending'', ''injecting''), (''pending'', ''cancelled''),
       (''deferred'', ''pending''), (''deferred'', ''deferred''), (''deferred'', ''injecting''), (''deferred'', ''cancelled''),
       (''injecting'', ''injected''), (''injecting'', ''failed''), (''injecting'', ''deferred'')}"

definition image_rows :: "json \<Rightarrow> json list" where
  "image_rows paths =
     (case paths of
        JArray ps \<Rightarrow>
          List.map_filter (\<lambda>p. map_option (\<lambda>path. jobject [(''type'', JString ''image''), (''path'', JString path)])
            (non_empty_trimmed (as_str p))) ps
      | _ \<Rightarrow> [])"

definition build_injected_input :: "team_message_record \<Rightarrow> string \<Rightarrow> json list" where
  "build_injected_input message recipient =
     (let scope = (if msg_scope message = ''broadcast'' then ''broadcast'' else ''dm'');
          q = [CHR 0x22];
          prefix = ''<team_msg kind='' @ q @ scope @ q @ '' sender='' @ q @ msg_sender message @ q
                     @ '' team_id='' @ q @ msg_team_id message @ q @ ''>''
      in [jobject [(''type'', JString ''text''), (''text'', JString prefix)]]
         @ (case msg_input message of JArray items \<Rightarrow> items | _ \<Rightarrow> [])
         @ image_rows (msg_image_paths message)
         @ [jobject [(''type'', JString ''text''), (''text'', JString ''</team_msg>''), (''recipient'', JString recipient)]])"

section \<open>Serialized records\<close>

definition team_json :: "team_record \<Rightarrow> json" where
  "team_json t =
     jobject [(''id'', JString (team_id t)), (''name'', JString (team_name t)),
       (''lead_agent_id'', JString (team_lead t)), (''created_by'', JString (team_created_by t)),
       (''created_at'', jint (team_created_at t)), (''updated_at'', jint (team_updated_at t)),
       (''deleted_at'', jopt jint (team_deleted_at t))]"

definition member_json :: "team_member_record \<Rightarrow> json" where
  "member_json m =
     jobject [(''team_id'', JString (mem_team_id m)), (''agent_id'', JString (mem_agent_id m)),
       (''title'', jopt JString (mem_title m)), (''joined_at'', jint (mem_joined_at m)),
       (''added_by'', JString (mem_added_by m)), (''creator_agent_id'', jopt JString (mem_creator_agent_id m)),
       (''creator_compaction_subscription'', JString (mem_subscription m)),
       (''worktree_id'', jopt JString (mem_worktree_id m))]"

definition message_json :: "team_message_record \<Rightarrow> json" where
  "message_json m =
     jobject [(''id'', JString (msg_id m)), (''team_id'', JString (msg_team_id m)), (''scope'', JString (msg_scope m)),
       (''sender_agent_id'', JString (msg_sender m)), (''recipient_agent_ids'', msg_recipients m),
       (''input'', msg_input m), (''image_paths'', msg_image_paths m), (''priority'', JString (msg_priority m)),
       (''policy'', JString (msg_policy m)), (''correlation_id'', jopt JString (msg_correlation_id m)),
       (''reply_to_message_id'', jopt JString (msg_reply_to m)),
       (''idempotency_key'', jopt JString (msg_idempotency_key m)), (''created_at'', jint (msg_created_at m))]"

definition delivery_json :: "team_delivery_record \<Rightarrow> json" where
  "delivery_json d =
     jobject [(''id'', JString (dlv_id d)), (''message_id'', JString (dlv_message_id d)),
       (''team_id'', JString (dlv_team_id d)), (''recipient_agent_id'', JString (dlv_recipient d)),
       (''provider'', JString (dlv_provider d)), (''status'', JString (dlv_status d)),
       (''effective_policy'', jopt JString (dlv_effective_policy d)),
       (''injection_strategy'', jopt JString (dlv_injection_strategy d)),
       (''injected_turn_id'', jopt JString (dlv_injected_turn_id d)),
       (''last_error_code'', jopt JString (dlv_error_code d)),
       (''last_error_message'', jopt JString (dlv_error_message d)),
       (''created_at'', jint (dlv_created_at d)), (''updated_at'', jint (dlv_updated_at d))]"

section \<open>Service (mod.rs)\<close>

definition counter_of :: "string \<Rightarrow> nat" where
  "counter_of i = (case parse_counter i of None \<Rightarrow> 0 | Some n \<Rightarrow> n)"

text \<open>The four hydration loops of \<open>new\<close>; the first component carries the running maximum.\<close>

definition hydrate_team :: "team_record \<Rightarrow> nat \<times> ('p, 'z) comms_scheme \<Rightarrow> nat \<times> ('p, 'z) comms_scheme" where
  "hydrate_team t acc = (case acc of (mx, s) \<Rightarrow>
     if team_deleted_at t = None
     then (max mx (counter_of (team_id t)), s\<lparr>tc_teams := hinsert (team_id t) t (tc_teams s)\<rparr>)
     else (mx, s))"

definition hydrate_member :: "team_member_record \<Rightarrow> ('p, 'z) comms_scheme \<Rightarrow> ('p, 'z) comms_scheme" where
  "hydrate_member m s =
     (if hcontains (tc_teams s) (mem_team_id m)
      then s\<lparr>tc_members := hentry [] (mem_team_id m) (hinsert (mem_agent_id m) m) (tc_members s)\<rparr>
      else s)"

definition ids_of :: "(string, string list) hmap \<Rightarrow> string \<Rightarrow> string list" where
  "ids_of index k = (case hget index k of None \<Rightarrow> [] | Some ids \<Rightarrow> ids)"

definition push_id :: "string \<Rightarrow> string \<Rightarrow> (string, string list) hmap \<Rightarrow> (string, string list) hmap" where
  "push_id k i index = hentry [] k (\<lambda>ids. ids @ [i]) index"

definition hydrate_message ::
  "team_message_record \<Rightarrow> nat \<times> ('p, 'z) comms_scheme \<Rightarrow> nat \<times> ('p, 'z) comms_scheme" where
  "hydrate_message m acc = (case acc of (mx, s) \<Rightarrow>
     if \<not> hcontains (tc_teams s) (msg_team_id m) then (mx, s)
     else
       (max mx (counter_of (msg_id m)),
        s\<lparr>tc_idempotency :=
             (case normalized_non_empty (msg_idempotency_key m) of
                None \<Rightarrow> tc_idempotency s
              | Some k \<Rightarrow> hinsert (idempotency_index_key (msg_team_id m) (msg_sender m) (msg_scope m) k) (msg_id m) (tc_idempotency s)),
          tc_team_messages := push_id (msg_team_id m) (msg_id m) (tc_team_messages s),
          tc_messages := hinsert (msg_id m) m (tc_messages s)\<rparr>))"

definition index_delivery :: "team_delivery_record \<Rightarrow> ('p, 'z) comms_scheme \<Rightarrow> ('p, 'z) comms_scheme" where
  "index_delivery d s =
     s\<lparr>tc_team_deliveries := push_id (dlv_team_id d) (dlv_id d) (tc_team_deliveries s),
       tc_message_deliveries := push_id (dlv_message_id d) (dlv_id d) (tc_message_deliveries s),
       tc_recipient_deliveries := push_id (dlv_recipient d) (dlv_id d) (tc_recipient_deliveries s),
       tc_deliveries := hinsert (dlv_id d) d (tc_deliveries s)\<rparr>"

definition hydrate_delivery ::
  "team_delivery_record \<Rightarrow> nat \<times> ('p, 'z) comms_scheme \<Rightarrow> nat \<times> ('p, 'z) comms_scheme" where
  "hydrate_delivery d acc = (case acc of (mx, s) \<Rightarrow>
     if \<not> hcontains (tc_teams s) (dlv_team_id d) then (mx, s)
     else if \<not> hcontains (tc_messages s) (dlv_message_id d) then (mx, s)
     else (max mx (counter_of (dlv_id d)), index_delivery d s))"

text \<open>
  \<open>RuntimeTeamCommsService::new\<close> on a running manager. \<open>max_id + 1\<close> is the source's \<open>u64\<close>
  addition (it wraps in a release build).
\<close>

definition comms_empty :: "'p manager \<Rightarrow> bool \<Rightarrow> nat \<Rightarrow> string \<Rightarrow> nat \<Rightarrow> 'p comms" where
  "comms_empty s enabled max_pending nonce capacity =
     manager.extend s
       \<lparr>tc_enabled = enabled, tc_max_pending = max_pending, tc_teams = [], tc_members = [], tc_messages = [],
        tc_deliveries = [], tc_team_messages = [], tc_team_deliveries = [], tc_message_deliveries = [],
        tc_recipient_deliveries = [], tc_idempotency = [], tc_next_team = 1, tc_next_message = 1,
        tc_next_delivery = 1, tc_next_event = 1, tc_nonce = nonce, tc_channel_capacity = capacity,
        tc_events_seen = length (mg_event_tx s), tc_listening = True\<rparr>"

definition hydrate_comms :: "hydrated_state \<Rightarrow> 'p comms \<Rightarrow> 'p comms" where
  "hydrate_comms h s0 =
     (case fold hydrate_team (hyd_teams h) (0, s0) of (max_team, s1) \<Rightarrow>
      case fold hydrate_message (hyd_messages h) (0, fold hydrate_member (hyd_members h) s1) of (max_message, s2) \<Rightarrow>
      case fold hydrate_delivery (hyd_deliveries h) (0, s2) of (max_delivery, s3) \<Rightarrow>
        s3\<lparr>tc_next_team := of_nat max_team + 1, tc_next_message := of_nat max_message + 1,
           tc_next_delivery := of_nat max_delivery + 1\<rparr>)"

definition comms_new :: "'p manager \<Rightarrow> bool \<Rightarrow> nat \<Rightarrow> string \<Rightarrow> nat \<Rightarrow> runtime_error + 'p comms" where
  "comms_new s enabled max_pending nonce capacity =
     (case store_call (\<lambda>db. Inr (hydrate_runtime_state db, db)) s of
        (Inl e, _) \<Rightarrow> Inl e
      | (Inr h, s') \<Rightarrow> Inr (hydrate_comms h (comms_empty s' enabled max_pending nonce capacity)))"

definition ensure_enabled :: "(('p, 'z) comms_scheme, runtime_error, unit) rt" where
  "ensure_enabled =
     bindE (gets tc_enabled) (\<lambda>enabled.
     if enabled then ok () else err (Unsupported ''team comms service is disabled''))"

definition append_team_event ::
  "string \<Rightarrow> string \<Rightarrow> json \<Rightarrow> string option \<Rightarrow> (('p, 'z) comms_scheme, runtime_error, event_record) rt" where
  "append_team_event team kind payload session =
     bindE (gets (\<lambda>s. (tc_nonce s, tc_next_event s))) (\<lambda>(nonce, n).
     bindE (modify (\<lambda>s. s\<lparr>tc_next_event := n + 1\<rparr>)) (\<lambda>_.
     bindE now_ms (\<lambda>now.
     store_call (db_append_runtime_event
       \<lparr>ne_event_id = ''evt_team_'' @ team @ ''_'' @ nonce @ ''_'' @ dec_of_nat (unat n), ne_scope = ScopeTeam,
        ne_scope_id = team, ne_session_id = session, ne_team_id = Some team, ne_turn_id = None, ne_kind = kind,
        ne_criticality = Critical, ne_payload = payload, ne_provider = None, ne_provider_seq = None,
        ne_created_at = now\<rparr>))))"

text \<open>
  The allocation loops: take counter values until the id is free. With \<open>n\<close> ids in use, one of
  \<open>n + 1\<close> successive counter values is free, so that much fuel is always enough (\<open>free_id_found\<close>).
\<close>

fun next_free_id :: "nat \<Rightarrow> string \<Rightarrow> (string \<Rightarrow> bool) \<Rightarrow> 64 word \<Rightarrow> string \<times> 64 word" where
  "next_free_id 0 prefix used n = (prefix @ ''_'' @ dec_of_nat (unat n), n + 1)"
| "next_free_id (Suc fuel) prefix used n =
     (let i = prefix @ ''_'' @ dec_of_nat (unat n) in
      if \<not> used i then (i, n + 1) else next_free_id fuel prefix used (n + 1))"

definition allocate_team_id :: "(('p, 'z) comms_scheme, runtime_error, string) rt" where
  "allocate_team_id s =
     (case next_free_id (length (tc_teams s)) ''team'' (hcontains (tc_teams s)) (tc_next_team s) of
        (i, n) \<Rightarrow> (Inr i, s\<lparr>tc_next_team := n\<rparr>))"

definition allocate_message_id :: "(('p, 'z) comms_scheme, runtime_error, string) rt" where
  "allocate_message_id s =
     (case next_free_id (length (tc_messages s)) ''msg'' (hcontains (tc_messages s)) (tc_next_message s) of
        (i, n) \<Rightarrow> (Inr i, s\<lparr>tc_next_message := n\<rparr>))"

definition allocate_delivery_id :: "(('p, 'z) comms_scheme, runtime_error, string) rt" where
  "allocate_delivery_id s =
     (case next_free_id (length (tc_deliveries s)) ''dlv'' (hcontains (tc_deliveries s)) (tc_next_delivery s) of
        (i, n) \<Rightarrow> (Inr i, s\<lparr>tc_next_delivery := n\<rparr>))"

definition require_session_active :: "string \<Rightarrow> (('p, 'z) comms_scheme, runtime_error, session_record) rt" where
  "require_session_active sid =
     bindE (get_session sid) (\<lambda>session.
     if sess_status session = ''closed'' \<or> sess_status session = ''failed''
     then err (InvalidState (''session '' @ sid @ '' is not available in status '' @ sess_status session))
     else ok session)"

record team_view =
  twm_team :: team_record
  twm_members :: "team_member_record list"

definition team_with_members :: "string \<Rightarrow> (('p, 'z) comms_scheme, runtime_error, team_view) rt" where
  "team_with_members tid =
     bindE (gets (\<lambda>s. hget (tc_teams s) tid)) (\<lambda>found.
     bindE (ok_or_else found (NotFound (''team '' @ tid))) (\<lambda>team.
     bindE (gets (\<lambda>s. case hget (tc_members s) tid of None \<Rightarrow> [] | Some ms \<Rightarrow> hvalues ms)) (\<lambda>members.
     ok \<lparr>twm_team = team, twm_members = sort_key (\<lambda>m. (mem_joined_at m, mem_agent_id m)) members\<rparr>)))"

end
