(* ===== verification/Team_Delivery.thy ===== *)
theory Team_Delivery
  imports Team_State
begin

text \<open>
  Messages and their deliveries (\<open>runtime-core/src/team_comms\<close>: \<open>mod.rs\<close>, \<open>delivery.rs\<close>): creating a
  message with one delivery per recipient, injecting a delivery into the recipient's session as a
  turn, and resuming deferred deliveries when a turn ends or at startup.

  \<open>inject_delivery\<close> is written in the two phases between which the source releases the state lock
  and awaits the session manager: \<open>inject_check\<close> decides from the state, \<open>inject_commit\<close> carries a
  planned injection out.
\<close>

section \<open>Creating a message\<close>

record team_message_ack =
  tma_message :: team_message_record
  tma_deliveries :: "team_delivery_record list"
  tma_disposition :: string

record message_request =
  mr_team :: string
  mr_scope :: string
  mr_sender :: string
  mr_recipients :: "string list"
  mr_input :: json
  mr_image_paths :: "string list"
  mr_priority :: string
  mr_policy :: string
  mr_correlation_id :: "string option"
  mr_reply_to :: "string option"
  mr_idempotency_key :: "string option"

text \<open>One iteration over the recipients: normalize, skip duplicates, require a usable session.\<close>

definition resolve_recipient ::
  "string \<Rightarrow> (string \<times> string) list \<Rightarrow> (('p, 'z) comms_scheme, runtime_error, (string \<times> string) list) rt" where
  "resolve_recipient recipient acc =
     bindE (lift_result (normalize_non_empty recipient ''recipient_agent_id'')) (\<lambda>r.
     if r \<in> fst ` set acc then ok acc
     else bindE (require_session_active r) (\<lambda>session. ok (acc @ [(r, sess_provider session)])))"

definition new_delivery :: "team_message_record \<Rightarrow> string \<Rightarrow> string \<Rightarrow> string \<Rightarrow> int \<Rightarrow> team_delivery_record" where
  "new_delivery message did recipient provider now =
     \<lparr>dlv_id = did, dlv_message_id = msg_id message, dlv_team_id = msg_team_id message, dlv_recipient = recipient,
      dlv_provider = provider, dlv_status = ''pending'', dlv_effective_policy = Some (msg_policy message),
      dlv_injection_strategy = None, dlv_injected_turn_id = None, dlv_error_code = None,
      dlv_error_message = None, dlv_created_at = now, dlv_updated_at = now\<rparr>"

definition existing_ack :: "string \<Rightarrow> ('p, 'z) comms_scheme \<Rightarrow> team_message_ack option" where
  "existing_ack idx s =
     (case hget (tc_idempotency s) idx of
        None \<Rightarrow> None
      | Some mid \<Rightarrow>
          (case hget (tc_messages s) mid of
             None \<Rightarrow> None
           | Some message \<Rightarrow>
               Some \<lparr>tma_message = message,
                     tma_deliveries = List.map_filter (hget (tc_deliveries s))
                       (ids_of (tc_message_deliveries s) mid),
                     tma_disposition = ''existing''\<rparr>))"

definition allocate_delivery ::
  "team_message_record \<Rightarrow> int \<Rightarrow> string \<times> string \<Rightarrow> team_delivery_record list \<Rightarrow>
   (('p, 'z) comms_scheme, runtime_error, team_delivery_record list) rt" where
  "allocate_delivery message now rp acc =
     bindE allocate_delivery_id (\<lambda>did. ok (acc @ [new_delivery message did (fst rp) (snd rp) now]))"

definition record_message ::
  "team_message_record \<Rightarrow> string option \<Rightarrow> team_delivery_record list \<Rightarrow> ('p, 'z) comms_scheme \<Rightarrow> ('p, 'z) comms_scheme" where
  "record_message message idx deliveries s =
     fold index_delivery deliveries
       (s\<lparr>tc_messages := hinsert (msg_id message) message (tc_messages s),
          tc_team_messages := push_id (msg_team_id message) (msg_id message) (tc_team_messages s),
          tc_idempotency := (case idx of None \<Rightarrow> tc_idempotency s | Some k \<Rightarrow> hinsert k (msg_id message) (tc_idempotency s))\<rparr>)"

definition new_message ::
  "message_request \<Rightarrow> string \<Rightarrow> string \<Rightarrow> string \<Rightarrow> string \<Rightarrow> string \<Rightarrow> string \<Rightarrow> (string \<times> string) list \<Rightarrow>
   string option \<Rightarrow> int \<Rightarrow> team_message_record" where
  "new_message req mid team scope sender priority policy recipients key now =
     \<lparr>msg_id = mid, msg_team_id = team, msg_scope = scope, msg_sender = sender,
      msg_recipients = JArray (map (JString \<circ> fst) recipients), msg_input = mr_input req,
      msg_image_paths = JArray (map JString (mr_image_paths req)), msg_priority = priority,
      msg_policy = policy, msg_correlation_id = mr_correlation_id req, msg_reply_to = mr_reply_to req,
      msg_idempotency_key = key, msg_created_at = now\<rparr>"

text \<open>The block that holds the state lock: find the message of the idempotency key, or make one.\<close>

definition create_under_lock ::
  "message_request \<Rightarrow> string \<Rightarrow> string \<Rightarrow> string \<Rightarrow> string \<Rightarrow> (string \<times> string) list \<Rightarrow> string option \<Rightarrow>
   (('p, 'z) comms_scheme, runtime_error, team_message_ack) rt" where
  "create_under_lock req scope sender priority policy recipients key =
     bindE (gets (\<lambda>s. hget (tc_teams s) (mr_team req))) (\<lambda>found.
     bindE (ok_or_else found (NotFound (''team '' @ mr_team req))) (\<lambda>team.
     bindE (gets (\<lambda>s. hget (tc_members s) (mr_team req))) (\<lambda>members.
     bindE (lift_result (ensure_member members sender (mr_team req))) (\<lambda>_.
     bindE (for_each recipients (\<lambda>rp. lift_result (ensure_member members (fst rp) (mr_team req)))) (\<lambda>_.
     let idx = map_option (idempotency_index_key (mr_team req) sender scope) key in
     bindE (gets (\<lambda>s. Option.bind idx (\<lambda>k. existing_ack k s))) (\<lambda>existing.
     case existing of
       Some ack \<Rightarrow> ok ack
     | None \<Rightarrow>
         bindE now_ms (\<lambda>now.
         bindE allocate_message_id (\<lambda>mid.
         let message = new_message req mid (team_id team) scope sender priority policy recipients key now in
         bindE (for_fold recipients [] (allocate_delivery message now)) (\<lambda>deliveries.
         bindE (modify (record_message message idx deliveries)) (\<lambda>_.
         ok \<lparr>tma_message = message, tma_deliveries = deliveries, tma_disposition = ''created''\<rparr>))))))))))"

definition create_message_and_deliveries ::
  "message_request \<Rightarrow> (('p, 'z) comms_scheme, runtime_error, team_message_ack) rt" where
  "create_message_and_deliveries req =
     bindE (lift_result (normalize_scope (mr_scope req))) (\<lambda>scope.
     let priority = normalize_priority (mr_priority req) in
     bindE (lift_result (normalize_policy (mr_policy req))) (\<lambda>policy.
     bindE (lift_result (normalize_non_empty (mr_sender req) ''sender_agent_id'')) (\<lambda>sender.
     bindE (gets tc_max_pending) (\<lambda>limit.
     if length (mr_recipients req) > limit
     then err (InvalidState (''recipient count exceeds max_pending_deliveries ('' @ dec_of_nat limit @ '')''))
     else
     let key = normalized_non_empty (mr_idempotency_key req) in
     bindE (for_fold (mr_recipients req) [] resolve_recipient) (\<lambda>recipients.
     bindE (create_under_lock req scope sender priority policy recipients key) (\<lambda>ack.
     if tma_disposition ack \<noteq> ''created'' then ok ack
     else
     bindE (store_write (WMessage (tma_message ack))) (\<lambda>_.
     bindE (for_each (tma_deliveries ack) (\<lambda>d. store_write (WDelivery d))) (\<lambda>_.
     bindE (ignore (append_team_event (mr_team req) ''team_message.created''
       (jobject [(''message'', message_json (tma_message ack)),
                 (''deliveries'', JArray (map delivery_json (tma_deliveries ack)))]) (Some sender))) (\<lambda>_.
     bindE (for_each (tma_deliveries ack) (\<lambda>d. ignore (append_team_event (mr_team req) ''team_delivery.pending''
       (jobject [(''delivery'', delivery_json d)]) (Some (dlv_recipient d))))) (\<lambda>_.
     ok ack))))))))))"

section \<open>Moving a delivery (delivery.rs)\<close>

definition delivery_event_kind :: "string \<Rightarrow> string" where
  "delivery_event_kind status =
     (if status \<in> {''pending'', ''deferred'', ''injecting'', ''injected'', ''failed'', ''cancelled''}
      then ''team_delivery.'' @ status else ''team_delivery.updated'')"

definition message_terminal_state :: "string \<Rightarrow> ('p, 'z) comms_scheme \<Rightarrow> bool" where
  "message_terminal_state mid s =
     (case hget (tc_message_deliveries s) mid of
        None \<Rightarrow> True
      | Some ids \<Rightarrow>
          ids = [] \<or> list_all (\<lambda>did. case hget (tc_deliveries s) did of
                                      None \<Rightarrow> False | Some d \<Rightarrow> is_terminal_status (dlv_status d)) ids)"

definition moved_delivery ::
  "team_delivery_record \<Rightarrow> string \<Rightarrow> string option \<Rightarrow> string option \<Rightarrow> string option \<Rightarrow> int \<Rightarrow> team_delivery_record" where
  "moved_delivery d next strategy code msg now =
     d\<lparr>dlv_status := next, dlv_updated_at := now,
       dlv_injection_strategy := (case strategy of None \<Rightarrow> dlv_injection_strategy d | Some st \<Rightarrow> Some st),
       dlv_error_code := (if next = ''failed'' then code else None),
       dlv_error_message := (if next = ''failed'' then msg else None),
       dlv_injected_turn_id := (if next \<noteq> ''injected'' then None else dlv_injected_turn_id d)\<rparr>"

definition transition_delivery_status ::
  "team_delivery_record \<Rightarrow> string \<Rightarrow> string option \<Rightarrow> string option \<Rightarrow> string option \<Rightarrow> delivery_trigger \<Rightarrow>
   (('p, 'z) comms_scheme, runtime_error, team_delivery_record) rt" where
  "transition_delivery_status current next strategy code msg trigger =
     (if \<not> is_valid_transition (dlv_status current) next
      then if dlv_status current = next then ok current
           else err (InvalidState (''invalid delivery transition '' @ dlv_status current @ '' -> '' @ next))
      else
      bindE (gets (\<lambda>s. hget (tc_deliveries s) (dlv_id current))) (\<lambda>found.
      bindE (ok_or_else found (NotFound (''delivery '' @ dlv_id current))) (\<lambda>delivery.
      if dlv_status delivery \<noteq> dlv_status current then ok delivery
      else
      bindE now_ms (\<lambda>now.
      let updated = moved_delivery delivery next strategy code msg now in
      bindE (modify (\<lambda>s. s\<lparr>tc_deliveries := hinsert (dlv_id current) updated (tc_deliveries s)\<rparr>)) (\<lambda>_.
      bindE (store_write (WDelivery updated)) (\<lambda>_.
      bindE (ignore (append_team_event (dlv_team_id updated) (delivery_event_kind next)
        (jobject [(''delivery'', delivery_json updated),
                  (''trigger'', JString (to_ascii_lowercase (trigger_debug trigger)))]) (Some (dlv_recipient current)))) (\<lambda>_.
      bindE (gets (message_terminal_state (dlv_message_id current))) (\<lambda>complete.
      bindE (if complete
             then ignore (append_team_event (dlv_team_id current) ''team_message.completed''
               (jobject [(''message_id'', JString (dlv_message_id current)), (''team_id'', JString (dlv_team_id current))])
               (Some (dlv_recipient current)))
             else ok ()) (\<lambda>_.
      ok updated)))))))))"

definition transition_delivery_with_turn_id ::
  "string \<Rightarrow> string \<Rightarrow> (('p, 'z) comms_scheme, runtime_error, unit) rt" where
  "transition_delivery_with_turn_id did turn =
     bindE (gets (\<lambda>s. hget (tc_deliveries s) did)) (\<lambda>found.
     case found of
       None \<Rightarrow> ok ()
     | Some delivery \<Rightarrow>
         bindE now_ms (\<lambda>now.
         let updated = delivery\<lparr>dlv_injected_turn_id := Some turn, dlv_updated_at := now\<rparr> in
         bindE (modify (\<lambda>s. s\<lparr>tc_deliveries := hinsert did updated (tc_deliveries s)\<rparr>)) (\<lambda>_.
         bindE (store_write (WDelivery updated)) (\<lambda>_.
         ignore (append_team_event (dlv_team_id updated) ''team_delivery.injected''
           (jobject [(''delivery'', delivery_json updated)]) (Some (dlv_recipient updated)))))))"

text \<open>The first unfinished delivery queued for the recipient before this one.\<close>

fun queue_blocker :: "(string, team_delivery_record) hmap \<Rightarrow> string \<Rightarrow> string list \<Rightarrow> string option" where
  "queue_blocker deliveries did [] = None"
| "queue_blocker deliveries did (c # cs) =
     (if c = did then None
      else case hget deliveries c of
             None \<Rightarrow> queue_blocker deliveries did cs
           | Some cand \<Rightarrow> if \<not> is_terminal_status (dlv_status cand) then Some (dlv_id cand)
                          else queue_blocker deliveries did cs)"

definition find_recipient_queue_blocker :: "team_delivery_record \<Rightarrow> ('p, 'z) comms_scheme \<Rightarrow> string option" where
  "find_recipient_queue_blocker d s =
     queue_blocker (tc_deliveries s) (dlv_id d)
       (ids_of (tc_recipient_deliveries s) (dlv_recipient d))"

section \<open>Injecting a delivery\<close>

datatype inject_plan =
    PlanDone team_delivery_record
  | PlanInject team_delivery_record team_message_record session_record

definition interrupt_for ::
  "string \<Rightarrow> team_delivery_record \<Rightarrow> string \<Rightarrow> string \<Rightarrow> (('p, 'z) comms_scheme, runtime_error, unit) rt" where
  "interrupt_for what delivery sid tid =
     bindE (attempt (interrupt_turn sid tid)) (\<lambda>r.
     case r of
       Inr _ \<Rightarrow> ok ()
     | Inl e \<Rightarrow> err (InvalidState (what @ '' failed for delivery '' @ dlv_id delivery @ '': '' @ error_to_string e)))"

definition inject_check ::
  "string \<Rightarrow> delivery_trigger \<Rightarrow> (('p, 'z) comms_scheme, runtime_error, inject_plan) rt" where
  "inject_check did trigger =
     bindE (gets (\<lambda>s. hget (tc_deliveries s) did)) (\<lambda>found.
     bindE (ok_or_else found (NotFound (''delivery '' @ did))) (\<lambda>delivery.
     bindE (gets (\<lambda>s. hget (tc_messages s) (dlv_message_id delivery))) (\<lambda>found_message.
     bindE (ok_or_else found_message
       (InvalidState (''delivery '' @ dlv_id delivery @ '' references missing message '' @ dlv_message_id delivery))) (\<lambda>message.
     let defer = bindE (transition_delivery_status delivery ''deferred'' None None None trigger) (\<lambda>d. ok (PlanDone d));
         fail = (\<lambda>code msg. bindE (transition_delivery_status delivery ''failed'' None (Some code) (Some msg) trigger)
                              (\<lambda>d. ok (PlanDone d))) in
     if dlv_status delivery \<noteq> ''pending'' \<and> dlv_status delivery \<noteq> ''deferred'' then ok (PlanDone delivery)
     else
     bindE (gets (find_recipient_queue_blocker delivery)) (\<lambda>blocker.
     if blocker \<noteq> None
     then if dlv_status delivery = ''pending'' then defer else ok (PlanDone delivery)
     else
     bindE (lift_result (normalize_policy (case dlv_effective_policy delivery of None \<Rightarrow> msg_policy message | Some p \<Rightarrow> p))) (\<lambda>policy.
     bindE (attempt (get_session (dlv_recipient delivery))) (\<lambda>got.
     case got of
       Inl e \<Rightarrow> fail ''recipient_session_not_found'' (error_to_string e)
     | Inr session \<Rightarrow>
         if sess_status session = ''closed'' \<or> sess_status session = ''failed''
         then fail ''recipient_session_closed''
                (''recipient session '' @ sess_id session @ '' unavailable in status '' @ sess_status session)
         else
         (case sess_active_turn_id session of
            None \<Rightarrow> ok (PlanInject delivery message session)
          | Some tid \<Rightarrow>
              if policy = ''interrupt_after_tool_boundary''
              then if trigger \<noteq> TurnCompletedBoundary then defer
                   else bindE (interrupt_for ''interrupt_after_tool_boundary'' delivery (sess_id session) tid)
                          (\<lambda>_. ok (PlanInject delivery message session))
              else if policy = ''immediate_interrupt''
              then bindE (interrupt_for ''immediate_interrupt'' delivery (sess_id session) tid)
                     (\<lambda>_. ok (PlanInject delivery message session))
              else defer))))))))"

definition inject_commit ::
  "team_delivery_record \<Rightarrow> team_message_record \<Rightarrow> session_record \<Rightarrow> delivery_trigger \<Rightarrow>
   (('p, 'z) comms_scheme, runtime_error, team_delivery_record) rt" where
  "inject_commit delivery message session trigger =
     bindE (transition_delivery_status delivery ''injecting'' None None None trigger) (\<lambda>injecting.
     bindE (attempt (send_turn (sess_id session)
       \<lparr>sti_input = build_injected_input message (sess_id session), sti_expected_turn_id = None,
        sti_permission_mode = None\<rparr>)) (\<lambda>result.
     case result of
       Inr ack \<Rightarrow>
         bindE (transition_delivery_status injecting ''injected'' (Some ''runtime_send_turn'') None None trigger) (\<lambda>injected.
         bindE (ignore (transition_delivery_with_turn_id (dlv_id injected) (sta_turn_id ack))) (\<lambda>_.
         ok injected))
     | Inl e \<Rightarrow>
         (case e of
            InvalidState m \<Rightarrow>
              transition_delivery_status injecting ''deferred'' None (Some ''turn_ownership_rejected'')
                (Some (error_to_string e)) trigger
          | _ \<Rightarrow>
              transition_delivery_status injecting ''failed'' None (Some ''provider_rejected'')
                (Some (error_to_string e)) trigger)))"

definition inject_delivery ::
  "string \<Rightarrow> delivery_trigger \<Rightarrow> (('p, 'z) comms_scheme, runtime_error, team_delivery_record) rt" where
  "inject_delivery did trigger =
     bindE (inject_check did trigger) (\<lambda>plan.
     case plan of
       PlanDone d \<Rightarrow> ok d
     | PlanInject delivery message session \<Rightarrow> inject_commit delivery message session trigger)"

definition queue_and_attempt_delivery :: "team_message_ack \<Rightarrow> (('p, 'z) comms_scheme, runtime_error, unit) rt" where
  "queue_and_attempt_delivery ack =
     for_each (tma_deliveries ack) (\<lambda>d. ignore (inject_delivery (dlv_id d) TriggerQueue))"

definition deferred_for_recipient :: "string \<Rightarrow> ('p, 'z) comms_scheme \<Rightarrow> string list" where
  "deferred_for_recipient recipient s =
     map dlv_id (filter (\<lambda>d. dlv_status d = ''deferred'')
       (List.map_filter (hget (tc_deliveries s))
         (ids_of (tc_recipient_deliveries s) recipient)))"

definition resume_deferred_for_recipient ::
  "string \<Rightarrow> delivery_trigger \<Rightarrow> (('p, 'z) comms_scheme, runtime_error, unit) rt" where
  "resume_deferred_for_recipient recipient trigger =
     bindE (gets (deferred_for_recipient recipient)) (\<lambda>ids.
     for_each ids (\<lambda>did. ignore (inject_delivery did trigger)))"

definition recover_recipient ::
  "string \<Rightarrow> nat \<Rightarrow> (('p, 'z) comms_scheme, runtime_error, nat) rt" where
  "recover_recipient recipient retried =
     bindE (gets (\<lambda>s. hget (mg_sessions s) recipient)) (\<lambda>found.
     case found of
       None \<Rightarrow> ok retried
     | Some session \<Rightarrow>
         if sess_status session = ''closed'' \<or> sess_status session = ''failed'' \<or> sess_active_turn_id session \<noteq> None
         then ok retried
         else
         bindE (gets (\<lambda>s. filter (\<lambda>did. case hget (tc_deliveries s) did of
                                           None \<Rightarrow> False | Some d \<Rightarrow> dlv_status d = ''deferred'')
                            (ids_of (tc_recipient_deliveries s) recipient))) (\<lambda>ids.
         for_fold ids retried (\<lambda>did n.
           bindE (attempt (inject_delivery did StartupRecovery)) (\<lambda>r.
           ok (case r of Inr updated \<Rightarrow> if dlv_status updated \<noteq> ''deferred'' then Suc n else n | Inl _ \<Rightarrow> n)))))"

definition recover_startup_deferred_deliveries :: "(('p, 'z) comms_scheme, runtime_error, nat) rt" where
  "recover_startup_deferred_deliveries =
     bindE ensure_enabled (\<lambda>_.
     bindE (gets (\<lambda>s. hkeys (tc_recipient_deliveries s))) (\<lambda>recipients.
     for_fold recipients 0 recover_recipient))"

text \<open>
  One round of the spawned listener loop \<open>while let Ok(event) = receiver.recv().await\<close>: it reads the
  next broadcast event; a receiver more than a channel capacity behind gets \<open>Err(Lagged)\<close>, which
  ends the loop.
\<close>

definition listener_step :: "(('p, 'z) comms_scheme, runtime_error, unit) rt" where
  "listener_step =
     bindE (gets (\<lambda>s. (tc_listening s, tc_events_seen s, mg_event_tx s, tc_channel_capacity s))) (\<lambda>(listening, seen, sent, cap).
     if \<not> listening \<or> seen \<ge> length sent then ok ()
     else if length sent - seen > cap then modify (\<lambda>s. s\<lparr>tc_listening := False\<rparr>)
     else
     bindE (modify (\<lambda>s. s\<lparr>tc_events_seen := Suc seen\<rparr>)) (\<lambda>_.
     let event = sent ! seen in
     if ev_kind event \<notin> {''turn.completed'', ''turn.interrupted'', ''turn.failed''} then ok ()
     else case ev_session_id event of
            None \<Rightarrow> ok ()
          | Some sid \<Rightarrow> ignore (resume_deferred_for_recipient sid TurnCompletedBoundary)))"

end
