(* ===== verification/Team_Service.thy ===== *)
theory Team_Service
  imports Team_Delivery
begin

text \<open>
  The handlers of \<open>impl TeamCommsService for RuntimeTeamCommsService\<close>
  (\<open>runtime-core/src/team_comms/service_impl.rs\<close>), in the order of the source. Where a handler
  changes the state under its write lock and then stores the result, the locked block is a
  definition of its own.
\<close>

definition team_healthcheck :: "(('p, 'z) comms_scheme, runtime_error, unit) rt" where
  "team_healthcheck = ensure_enabled"

section \<open>Creating teams\<close>

record team_create_request =
  tcr_name :: string
  tcr_lead :: string
  tcr_members :: "string list"
  tcr_created_by :: "string option"

definition founding_member :: "string \<Rightarrow> string \<Rightarrow> string \<Rightarrow> int \<Rightarrow> team_member_record" where
  "founding_member team agent added_by now =
     \<lparr>mem_team_id = team, mem_agent_id = agent, mem_title = None, mem_joined_at = now,
      mem_added_by = added_by, mem_creator_agent_id = None, mem_subscription = ''auto'',
      mem_worktree_id = None\<rparr>"

definition founding_members ::
  "string \<Rightarrow> string \<Rightarrow> string list \<Rightarrow> string \<Rightarrow> int \<Rightarrow> (string, team_member_record) hmap" where
  "founding_members team lead others added_by now =
     fold (\<lambda>a ms. if a = lead then ms else hinsert a (founding_member team a added_by now) ms) others
       (hinsert lead (founding_member team lead added_by now) [])"

definition register_team ::
  "string \<Rightarrow> string \<Rightarrow> string list \<Rightarrow> string \<Rightarrow> int \<Rightarrow> (('p, 'z) comms_scheme, runtime_error, team_record) rt" where
  "register_team name lead others created_by now =
     bindE allocate_team_id (\<lambda>tid.
     let team = \<lparr>team_id = tid, team_name = name, team_lead = lead, team_created_by = created_by,
                 team_created_at = now, team_updated_at = now, team_deleted_at = None\<rparr> in
     bindE (modify (\<lambda>s. s\<lparr>tc_teams := hinsert tid team (tc_teams s),
       tc_members := hinsert tid (founding_members tid lead others created_by now) (tc_members s)\<rparr>)) (\<lambda>_.
     ok team))"

definition create_team :: "team_create_request \<Rightarrow> (('p, 'z) comms_scheme, runtime_error, team_view) rt" where
  "create_team req =
     bindE ensure_enabled (\<lambda>_.
     bindE (lift_result (normalize_non_empty (tcr_name req) ''name'')) (\<lambda>name.
     bindE (lift_result (normalize_non_empty (tcr_lead req) ''lead_agent_id'')) (\<lambda>lead.
     let created_by = (case tcr_created_by req of None \<Rightarrow> ''user'' | Some u \<Rightarrow> u) in
     bindE now_ms (\<lambda>now.
     bindE (require_session_active lead) (\<lambda>_.
     bindE (for_each (tcr_members req) (\<lambda>m. bindE (require_session_active m) (\<lambda>_. ok ()))) (\<lambda>_.
     bindE (register_team name lead (tcr_members req) created_by now) (\<lambda>team.
     bindE (store_write (WTeam team)) (\<lambda>_.
     bindE (gets (\<lambda>s. case hget (tc_members s) (team_id team) of None \<Rightarrow> [] | Some ms \<Rightarrow> hvalues ms)) (\<lambda>members.
     bindE (for_each members (\<lambda>m. store_write (WMember m))) (\<lambda>_.
     bindE (ignore (append_team_event (team_id team) ''team.created''
       (jobject [(''team'', team_json team), (''members'', JArray (map member_json members))])
       (Some (team_lead team)))) (\<lambda>_.
     team_with_members (team_id team))))))))))))"

definition list_team_step ::
  "string \<Rightarrow> team_view list \<Rightarrow> (('p, 'z) comms_scheme, runtime_error, team_view list) rt" where
  "list_team_step tid rows = bindE (team_with_members tid) (\<lambda>row. ok (rows @ [row]))"

definition list_teams :: "(('p, 'z) comms_scheme, runtime_error, team_view list) rt" where
  "list_teams =
     bindE ensure_enabled (\<lambda>_.
     bindE (gets (\<lambda>s. map team_id (sort_key (\<lambda>t. (team_created_at t, team_id t)) (hvalues (tc_teams s))))) (\<lambda>ids.
     for_fold ids [] list_team_step))"

definition get_team :: "string \<Rightarrow> (('p, 'z) comms_scheme, runtime_error, team_view) rt" where
  "get_team tid =
     bindE ensure_enabled (\<lambda>_.
     bindE (lift_result (normalize_non_empty tid ''team_id'')) (\<lambda>team.
     team_with_members team))"

section \<open>Membership\<close>

record team_join_request =
  tjr_team :: string
  tjr_agent :: string
  tjr_title :: "string option"
  tjr_added_by :: "string option"
  tjr_creator_agent_id :: "string option"
  tjr_subscription :: "string option"
  tjr_worktree_id :: "string option"

definition joined_member :: "team_join_request \<Rightarrow> string \<Rightarrow> string \<Rightarrow> string \<Rightarrow> int \<Rightarrow> team_member_record" where
  "joined_member req team agent lead now =
     \<lparr>mem_team_id = team, mem_agent_id = agent, mem_title = normalized_non_empty (tjr_title req),
      mem_joined_at = now, mem_added_by = (case tjr_added_by req of None \<Rightarrow> lead | Some a \<Rightarrow> a),
      mem_creator_agent_id = tjr_creator_agent_id req,
      mem_subscription = (case tjr_subscription req of None \<Rightarrow> ''auto'' | Some x \<Rightarrow> x),
      mem_worktree_id = tjr_worktree_id req\<rparr>"

text \<open>\<open>entry(team_id).or_default()\<close> leaves an entry behind even when the join is refused.\<close>

definition join_under_lock ::
  "team_join_request \<Rightarrow> string \<Rightarrow> string \<Rightarrow> int \<Rightarrow>
   (('p, 'z) comms_scheme, runtime_error, team_record \<times> team_member_record) rt" where
  "join_under_lock req team agent now =
     bindE (gets (\<lambda>s. hget (tc_teams s) team)) (\<lambda>found.
     bindE (ok_or_else found (NotFound (''team '' @ team))) (\<lambda>t.
     bindE (modify (\<lambda>s. s\<lparr>tc_members := hentry [] team (\<lambda>ms. ms) (tc_members s)\<rparr>)) (\<lambda>_.
     bindE (gets (\<lambda>s. case hget (tc_members s) team of None \<Rightarrow> [] | Some ms \<Rightarrow> ms)) (\<lambda>members.
     if hcontains members agent
     then err (InvalidState (''agent '' @ agent @ '' is already a member of team '' @ team))
     else
     let member = joined_member req team agent (team_lead t) now;
         t' = t\<lparr>team_updated_at := now\<rparr> in
     bindE (modify (\<lambda>s. s\<lparr>tc_members := hinsert team (hinsert agent member members) (tc_members s),
                          tc_teams := hinsert team t' (tc_teams s)\<rparr>)) (\<lambda>_.
     ok (t', member))))))"

definition join_team :: "team_join_request \<Rightarrow> (('p, 'z) comms_scheme, runtime_error, team_view) rt" where
  "join_team req =
     bindE ensure_enabled (\<lambda>_.
     bindE (lift_result (normalize_non_empty (tjr_team req) ''team_id'')) (\<lambda>team.
     bindE (lift_result (normalize_non_empty (tjr_agent req) ''agent_id'')) (\<lambda>agent.
     bindE (require_session_active agent) (\<lambda>_.
     bindE now_ms (\<lambda>now.
     bindE (join_under_lock req team agent now) (\<lambda>(t, member).
     bindE (store_write (WTeam t)) (\<lambda>_.
     bindE (store_write (WMember member)) (\<lambda>_.
     bindE (ignore (append_team_event team ''team.member_joined''
       (jobject [(''team'', team_json t), (''member'', member_json member)]) (Some agent))) (\<lambda>_.
     team_with_members team)))))))))"

text \<open>\<open>values().min_by(..)\<close> over \<open>(joined_at, agent_id)\<close>: the head of the sorted members.\<close>

definition next_lead :: "(string, team_member_record) hmap \<Rightarrow> string option" where
  "next_lead members =
     (case sort_key (\<lambda>m. (mem_joined_at m, mem_agent_id m)) (hvalues members) of
        [] \<Rightarrow> None
      | m # _ \<Rightarrow> Some (mem_agent_id m))"

definition remove_under_lock ::
  "string \<Rightarrow> string \<Rightarrow> (('p, 'z) comms_scheme, runtime_error, team_record) rt" where
  "remove_under_lock team agent =
     bindE (gets (\<lambda>s. hget (tc_teams s) team)) (\<lambda>found.
     bindE (ok_or_else found (NotFound (''team '' @ team))) (\<lambda>t.
     bindE (gets (\<lambda>s. hget (tc_members s) team)) (\<lambda>found_members.
     bindE (ok_or_else found_members (NotFound (''team '' @ team @ '' members''))) (\<lambda>members.
     if \<not> hcontains members agent then err (NotFound (''agent '' @ agent @ '' not in team '' @ team))
     else if length members \<le> 1
     then err (InvalidState (''cannot remove last member from team '' @ team @ ''; delete team instead''))
     else
     let rest = hremove agent members in
     bindE (modify (\<lambda>s. s\<lparr>tc_members := hinsert team rest (tc_members s)\<rparr>)) (\<lambda>_.
     bindE (if team_lead t = agent
            then ok_or_else (next_lead rest) (InvalidState (''team '' @ team @ '' lost lead during removal''))
            else ok (team_lead t)) (\<lambda>new_lead.
     bindE now_ms (\<lambda>now.
     let t' = t\<lparr>team_lead := new_lead, team_updated_at := now\<rparr> in
     bindE (modify (\<lambda>s. s\<lparr>tc_teams := hinsert team t' (tc_teams s)\<rparr>)) (\<lambda>_.
     ok t'))))))))"

definition remove_team_member ::
  "string \<Rightarrow> string \<Rightarrow> (('p, 'z) comms_scheme, runtime_error, team_view) rt" where
  "remove_team_member team_arg agent_arg =
     bindE ensure_enabled (\<lambda>_.
     bindE (lift_result (normalize_non_empty team_arg ''team_id'')) (\<lambda>team.
     bindE (lift_result (normalize_non_empty agent_arg ''agent_id'')) (\<lambda>agent.
     bindE (remove_under_lock team agent) (\<lambda>t.
     bindE (store_write (WTeam t)) (\<lambda>_.
     bindE (store_write (WDeleteMember team agent)) (\<lambda>_.
     bindE (ignore (append_team_event team ''team.member_left''
       (jobject [(''team'', team_json t), (''agent_id'', JString agent)]) (Some agent))) (\<lambda>_.
     team_with_members team)))))))"

definition lead_under_lock ::
  "string \<Rightarrow> string \<Rightarrow> (('p, 'z) comms_scheme, runtime_error, team_record option) rt" where
  "lead_under_lock team lead =
     bindE (gets (\<lambda>s. hget (tc_members s) team)) (\<lambda>members.
     bindE (lift_result (ensure_member members lead team)) (\<lambda>_.
     bindE (gets (\<lambda>s. hget (tc_teams s) team)) (\<lambda>found.
     bindE (ok_or_else found (NotFound (''team '' @ team))) (\<lambda>t.
     if team_lead t = lead then ok None
     else
     bindE now_ms (\<lambda>now.
     let t' = t\<lparr>team_lead := lead, team_updated_at := now\<rparr> in
     bindE (modify (\<lambda>s. s\<lparr>tc_teams := hinsert team t' (tc_teams s)\<rparr>)) (\<lambda>_.
     ok (Some t')))))))"

definition set_team_lead ::
  "string \<Rightarrow> string \<Rightarrow> (('p, 'z) comms_scheme, runtime_error, team_view) rt" where
  "set_team_lead team_arg lead_arg =
     bindE ensure_enabled (\<lambda>_.
     bindE (lift_result (normalize_non_empty team_arg ''team_id'')) (\<lambda>team.
     bindE (lift_result (normalize_non_empty lead_arg ''lead_agent_id'')) (\<lambda>lead.
     bindE (lead_under_lock team lead) (\<lambda>changed.
     case changed of
       None \<Rightarrow> team_with_members team
     | Some t \<Rightarrow>
         bindE (store_write (WTeam t)) (\<lambda>_.
         bindE (ignore (append_team_event team ''team.lead_changed''
           (jobject [(''team'', team_json t), (''lead_agent_id'', JString lead)]) (Some lead))) (\<lambda>_.
         team_with_members team))))))"

section \<open>Deleting a team\<close>

definition forget_message :: "string \<Rightarrow> ('p, 'z) comms_scheme \<Rightarrow> ('p, 'z) comms_scheme" where
  "forget_message mid s =
     (case hget (tc_messages s) mid of
        None \<Rightarrow> s
      | Some m \<Rightarrow>
          s\<lparr>tc_messages := hremove mid (tc_messages s),
            tc_idempotency :=
              (case normalized_non_empty (msg_idempotency_key m) of
                 None \<Rightarrow> tc_idempotency s
               | Some k \<Rightarrow>
                   hremove (idempotency_index_key (msg_team_id m) (msg_sender m) (msg_scope m) k) (tc_idempotency s))\<rparr>)"

text \<open>The loop over the removed ids, a \<open>HashSet\<close>: the list order stands for its iteration order.\<close>

definition forget_delivery ::
  "string \<Rightarrow> team_delivery_record list \<Rightarrow> (('p, 'z) comms_scheme, runtime_error, team_delivery_record list) rt" where
  "forget_delivery did cancelled =
     bindE (gets (\<lambda>s. hget (tc_deliveries s) did)) (\<lambda>found.
     case found of
       None \<Rightarrow> ok cancelled
     | Some d \<Rightarrow>
         bindE (modify (\<lambda>s. s\<lparr>tc_deliveries := hremove did (tc_deliveries s),
           tc_recipient_deliveries :=
             remove_delivery_from_recipient_index (dlv_recipient d) (dlv_id d) (tc_recipient_deliveries s)\<rparr>)) (\<lambda>_.
         if dlv_status d = ''pending'' \<or> dlv_status d = ''deferred''
         then bindE now_ms (\<lambda>now. ok (cancelled @ [d\<lparr>dlv_status := ''cancelled'', dlv_updated_at := now\<rparr>]))
         else ok cancelled))"

definition delete_under_lock ::
  "string \<Rightarrow> (('p, 'z) comms_scheme, runtime_error, team_record \<times> team_delivery_record list) rt" where
  "delete_under_lock team =
     bindE (gets (\<lambda>s. hget (tc_teams s) team)) (\<lambda>found.
     bindE (ok_or_else found (NotFound (''team '' @ team))) (\<lambda>t.
     bindE (gets (\<lambda>s. (ids_of (tc_team_messages s) team, ids_of (tc_team_deliveries s) team))) (\<lambda>(mids, team_dids).
     bindE (modify (\<lambda>s. fold forget_message mids
       (s\<lparr>tc_teams := hremove team (tc_teams s), tc_members := hremove team (tc_members s),
          tc_team_messages := hremove team (tc_team_messages s),
          tc_team_deliveries := hremove team (tc_team_deliveries s)\<rparr>))) (\<lambda>_.
     bindE (gets (\<lambda>s. remdups (team_dids @ concat (map (ids_of (tc_message_deliveries s)) mids)))) (\<lambda>dids.
     bindE (modify (\<lambda>s. s\<lparr>tc_message_deliveries := fold hremove mids (tc_message_deliveries s)\<rparr>)) (\<lambda>_.
     bindE (for_fold dids [] forget_delivery) (\<lambda>cancelled.
     bindE (modify (\<lambda>s. s\<lparr>tc_idempotency :=
       filter (\<lambda>kv. \<not> starts_with (fst kv) (team @ ''|'')) (tc_idempotency s)\<rparr>)) (\<lambda>_.
     bindE now_ms (\<lambda>deleted_at.
     bindE now_ms (\<lambda>updated_at.
     ok (t\<lparr>team_deleted_at := Some deleted_at, team_updated_at := updated_at\<rparr>, cancelled)))))))))))"

definition store_cancelled ::
  "string \<Rightarrow> team_delivery_record \<Rightarrow> (('p, 'z) comms_scheme, runtime_error, unit) rt" where
  "store_cancelled team d =
     bindE (store_write (WDelivery d)) (\<lambda>_.
     ignore (append_team_event team ''team_delivery.cancelled''
       (jobject [(''delivery'', delivery_json d)]) (Some (dlv_recipient d))))"

definition delete_team :: "string \<Rightarrow> (('p, 'z) comms_scheme, runtime_error, unit) rt" where
  "delete_team team_arg =
     bindE ensure_enabled (\<lambda>_.
     bindE (lift_result (normalize_non_empty team_arg ''team_id'')) (\<lambda>team.
     bindE (delete_under_lock team) (\<lambda>(deleted, cancelled).
     bindE (store_write (WTeam deleted)) (\<lambda>_.
     bindE (for_each cancelled (store_cancelled team)) (\<lambda>_.
     ignore (append_team_event team ''team.deleted'' (jobject [(''team'', team_json deleted)])
       (Some (team_created_by deleted))))))))"

section \<open>Interrupting a team\<close>

record interrupt_all_response =
  iar_team :: string
  iar_interrupted :: "string list"
  iar_skipped :: "string list"

definition interrupt_member ::
  "team_member_record \<Rightarrow> string list \<times> string list \<Rightarrow>
   (('p, 'z) comms_scheme, runtime_error, string list \<times> string list) rt" where
  "interrupt_member member acc = (case acc of (interrupted, skipped) \<Rightarrow>
     bindE (attempt (get_session (mem_agent_id member))) (\<lambda>got.
     case got of
       Inl _ \<Rightarrow> ok (interrupted, skipped @ [mem_agent_id member])
     | Inr session \<Rightarrow>
         (case sess_active_turn_id session of
            None \<Rightarrow> ok (interrupted, skipped @ [sess_id session])
          | Some tid \<Rightarrow>
              bindE (attempt (interrupt_turn (sess_id session) tid)) (\<lambda>r.
              ok (case r of
                    Inr _ \<Rightarrow> (interrupted @ [sess_id session], skipped)
                  | Inl _ \<Rightarrow> (interrupted, skipped @ [sess_id session]))))))"

definition interrupt_all_json :: "interrupt_all_response \<Rightarrow> json" where
  "interrupt_all_json r =
     jobject [(''team_id'', JString (iar_team r)),
       (''interrupted_session_ids'', JArray (map JString (iar_interrupted r))),
       (''skipped_session_ids'', JArray (map JString (iar_skipped r)))]"

definition interrupt_all_team_turns ::
  "string \<Rightarrow> (('p, 'z) comms_scheme, runtime_error, interrupt_all_response) rt" where
  "interrupt_all_team_turns team_arg =
     bindE ensure_enabled (\<lambda>_.
     bindE (lift_result (normalize_non_empty team_arg ''team_id'')) (\<lambda>team.
     bindE (team_with_members team) (\<lambda>twm.
     bindE (for_fold (twm_members twm) ([], []) interrupt_member) (\<lambda>(interrupted, skipped).
     let response = \<lparr>iar_team = team, iar_interrupted = interrupted, iar_skipped = skipped\<rparr> in
     bindE (ignore (append_team_event team ''team.interrupt_all''
       (jobject [(''result'', interrupt_all_json response)]) None)) (\<lambda>_.
     ok response)))))"

section \<open>Sending\<close>

record send_direct_request =
  sdr_team :: string
  sdr_sender :: string
  sdr_recipient :: string
  sdr_input :: json
  sdr_image_paths :: "string list"
  sdr_priority :: string
  sdr_policy :: string
  sdr_correlation_id :: "string option"
  sdr_reply_to :: "string option"
  sdr_idempotency_key :: "string option"

definition deliver_created :: "team_message_ack \<Rightarrow> (('p, 'z) comms_scheme, runtime_error, team_message_ack) rt" where
  "deliver_created ack =
     bindE (if tma_disposition ack = ''created'' then queue_and_attempt_delivery ack else ok ()) (\<lambda>_. ok ack)"

definition send_direct :: "send_direct_request \<Rightarrow> (('p, 'z) comms_scheme, runtime_error, team_message_ack) rt" where
  "send_direct req =
     bindE ensure_enabled (\<lambda>_.
     bindE (lift_result (normalize_non_empty (sdr_team req) ''team_id'')) (\<lambda>team.
     bindE (lift_result (normalize_non_empty (sdr_sender req) ''sender_agent_id'')) (\<lambda>sender.
     bindE (lift_result (normalize_non_empty (sdr_recipient req) ''recipient_agent_id'')) (\<lambda>recipient.
     bindE (lift_result (normalize_non_empty_input (sdr_input req))) (\<lambda>input.
     bindE (create_message_and_deliveries
       \<lparr>mr_team = team, mr_scope = ''direct'', mr_sender = sender, mr_recipients = [recipient], mr_input = input,
        mr_image_paths = sdr_image_paths req, mr_priority = sdr_priority req, mr_policy = sdr_policy req,
        mr_correlation_id = sdr_correlation_id req, mr_reply_to = sdr_reply_to req,
        mr_idempotency_key = sdr_idempotency_key req\<rparr>) deliver_created)))))"

record broadcast_request =
  bcr_team :: string
  bcr_sender :: string
  bcr_input :: json
  bcr_image_paths :: "string list"
  bcr_priority :: string
  bcr_policy :: string
  bcr_include_sender :: bool
  bcr_correlation_id :: "string option"
  bcr_idempotency_key :: "string option"

definition broadcast_recipients :: "(string, team_member_record) hmap \<Rightarrow> bool \<Rightarrow> string \<Rightarrow> string list" where
  "broadcast_recipients members include_sender sender =
     (let sorted_keys = sort (hkeys members)
      in if include_sender then sorted_keys else filter (\<lambda>m. m \<noteq> sender) sorted_keys)"

definition broadcast :: "broadcast_request \<Rightarrow> (('p, 'z) comms_scheme, runtime_error, team_message_ack) rt" where
  "broadcast req =
     bindE ensure_enabled (\<lambda>_.
     bindE (lift_result (normalize_non_empty (bcr_team req) ''team_id'')) (\<lambda>team.
     bindE (lift_result (normalize_non_empty (bcr_sender req) ''sender_agent_id'')) (\<lambda>sender.
     bindE (lift_result (normalize_non_empty_input (bcr_input req))) (\<lambda>input.
     bindE (gets (\<lambda>s. hget (tc_members s) team)) (\<lambda>found.
     bindE (ok_or_else found (NotFound (''team '' @ team))) (\<lambda>members.
     bindE (create_message_and_deliveries
       \<lparr>mr_team = team, mr_scope = ''broadcast'', mr_sender = sender,
        mr_recipients = broadcast_recipients members (bcr_include_sender req) sender, mr_input = input,
        mr_image_paths = bcr_image_paths req, mr_priority = bcr_priority req, mr_policy = bcr_policy req,
        mr_correlation_id = bcr_correlation_id req, mr_reply_to = None,
        mr_idempotency_key = bcr_idempotency_key req\<rparr>) deliver_created))))))"

section \<open>Reading messages and deliveries\<close>

record list_messages_response =
  lmr_messages :: "team_message_record list"
  lmr_next_cursor :: "string option"

fun position :: "'a \<Rightarrow> 'a list \<Rightarrow> nat option" where
  "position x [] = None"
| "position x (y # ys) = (if y = x then Some 0 else map_option Suc (position x ys))"

definition page_limit :: "nat option \<Rightarrow> nat" where
  "page_limit limit = min 500 (max 1 (case limit of None \<Rightarrow> 100 | Some n \<Rightarrow> n))"

definition page_start :: "string list \<Rightarrow> string option \<Rightarrow> string \<Rightarrow> runtime_error + nat" where
  "page_start ids cursor team =
     (case non_empty_trimmed cursor of
        None \<Rightarrow> Inr 0
      | Some c \<Rightarrow>
          (case position c ids of
             None \<Rightarrow> Inl (InvalidState (''cursor message '' @ c @ '' not found for team '' @ team))
           | Some i \<Rightarrow> Inr (i + 1)))"

definition message_page ::
  "(string, team_message_record) hmap \<Rightarrow> string list \<Rightarrow> nat \<Rightarrow> nat \<Rightarrow> list_messages_response" where
  "message_page messages ids start limit =
     (let page = List.map_filter (hget messages) (take limit (drop start ids));
          has_more = length ids - start > length page
      in \<lparr>lmr_messages = page,
          lmr_next_cursor = (if has_more \<and> page \<noteq> [] then Some (msg_id (last page)) else None)\<rparr>)"

definition list_messages ::
  "string \<Rightarrow> string option \<Rightarrow> nat option \<Rightarrow> (('p, 'z) comms_scheme, runtime_error, list_messages_response) rt" where
  "list_messages team_arg cursor limit =
     bindE ensure_enabled (\<lambda>_.
     bindE (lift_result (normalize_non_empty team_arg ''team_id'')) (\<lambda>team.
     bindE (gets (\<lambda>s. ids_of (tc_team_messages s) team)) (\<lambda>ids.
     bindE (lift_result (page_start ids cursor team)) (\<lambda>start.
     gets (\<lambda>s. message_page (tc_messages s) ids start (page_limit limit))))))"

definition get_deliveries ::
  "string \<Rightarrow> string option \<Rightarrow> string option \<Rightarrow> (('p, 'z) comms_scheme, runtime_error, team_delivery_record list) rt" where
  "get_deliveries team_arg message recipient =
     bindE ensure_enabled (\<lambda>_.
     bindE (lift_result (normalize_non_empty team_arg ''team_id'')) (\<lambda>team.
     let rows_of = (\<lambda>ids. gets (\<lambda>s.
           filter (\<lambda>d. case recipient of None \<Rightarrow> True | Some r \<Rightarrow> dlv_recipient d = r)
             (List.map_filter (hget (tc_deliveries s)) ids))) in
     case message of
       None \<Rightarrow> bindE (gets (\<lambda>s. ids_of (tc_team_deliveries s) team)) rows_of
     | Some mid \<Rightarrow>
         bindE (gets (\<lambda>s. hget (tc_messages s) mid)) (\<lambda>found.
         bindE (ok_or_else found (NotFound (''message '' @ mid))) (\<lambda>m.
         if msg_team_id m \<noteq> team then ok []
         else bindE (gets (\<lambda>s. ids_of (tc_message_deliveries s) mid)) rows_of))))"

section \<open>Retrying and cancelling\<close>

definition retry_under_lock ::
  "string \<Rightarrow> string \<Rightarrow> (('p, 'z) comms_scheme, runtime_error, team_delivery_record) rt" where
  "retry_under_lock team did =
     bindE (gets (\<lambda>s. hget (tc_deliveries s) did)) (\<lambda>found.
     bindE (ok_or_else found (NotFound (''delivery '' @ did))) (\<lambda>d.
     if dlv_team_id d \<noteq> team
     then err (InvalidState (''delivery '' @ did @ '' does not belong to team '' @ team))
     else if dlv_status d \<noteq> ''failed'' \<and> dlv_status d \<noteq> ''deferred''
     then err (InvalidState (''delivery '' @ did @ '' can only be retried from failed/deferred state''))
     else
     bindE now_ms (\<lambda>now.
     let d' = d\<lparr>dlv_status := ''pending'', dlv_injection_strategy := None, dlv_injected_turn_id := None,
                dlv_error_code := None, dlv_error_message := None, dlv_updated_at := now\<rparr> in
     bindE (modify (\<lambda>s. s\<lparr>tc_deliveries := hinsert did d' (tc_deliveries s)\<rparr>)) (\<lambda>_.
     ok d'))))"

definition retry_delivery ::
  "string \<Rightarrow> string \<Rightarrow> (('p, 'z) comms_scheme, runtime_error, team_delivery_record) rt" where
  "retry_delivery team_arg did_arg =
     bindE ensure_enabled (\<lambda>_.
     bindE (lift_result (normalize_non_empty team_arg ''team_id'')) (\<lambda>team.
     bindE (lift_result (normalize_non_empty did_arg ''delivery_id'')) (\<lambda>did.
     bindE (retry_under_lock team did) (\<lambda>updated.
     bindE (store_write (WDelivery updated)) (\<lambda>_.
     bindE (ignore (append_team_event team ''team_delivery.pending''
       (jobject [(''delivery'', delivery_json updated)]) (Some (dlv_recipient updated)))) (\<lambda>_.
     inject_delivery did TriggerRetry))))))"

fun uncancellable :: "(string, team_delivery_record) hmap \<Rightarrow> string list \<Rightarrow> team_delivery_record option" where
  "uncancellable deliveries [] = None"
| "uncancellable deliveries (i # ids) =
     (case hget deliveries i of
        None \<Rightarrow> uncancellable deliveries ids
      | Some d \<Rightarrow> if dlv_status d \<noteq> ''pending'' \<and> dlv_status d \<noteq> ''deferred'' then Some d
                  else uncancellable deliveries ids)"

definition cancel_step ::
  "string \<Rightarrow> team_delivery_record list \<Rightarrow> (('p, 'z) comms_scheme, runtime_error, team_delivery_record list) rt" where
  "cancel_step did updated =
     bindE (gets (\<lambda>s. hget (tc_deliveries s) did)) (\<lambda>found.
     case found of
       None \<Rightarrow> ok updated
     | Some d \<Rightarrow>
         bindE now_ms (\<lambda>now.
         let d' = d\<lparr>dlv_status := ''cancelled'', dlv_updated_at := now\<rparr> in
         bindE (modify (\<lambda>s. s\<lparr>tc_deliveries := hinsert did d' (tc_deliveries s)\<rparr>)) (\<lambda>_.
         ok (updated @ [d']))))"

definition cancel_under_lock ::
  "string \<Rightarrow> string \<Rightarrow> (('p, 'z) comms_scheme, runtime_error, team_delivery_record list) rt" where
  "cancel_under_lock team mid =
     bindE (gets (\<lambda>s. hget (tc_messages s) mid)) (\<lambda>found.
     bindE (ok_or_else found (NotFound (''message '' @ mid))) (\<lambda>m.
     if msg_team_id m \<noteq> team
     then err (InvalidState (''message '' @ mid @ '' does not belong to team '' @ team))
     else
     bindE (gets (\<lambda>s. ids_of (tc_message_deliveries s) mid)) (\<lambda>ids.
     bindE (gets (\<lambda>s. uncancellable (tc_deliveries s) ids)) (\<lambda>bad.
     case bad of
       Some d \<Rightarrow> err (InvalidState (''message '' @ mid @ '' cannot be cancelled because delivery '' @ dlv_id d
                                    @ '' is in '' @ dlv_status d))
     | None \<Rightarrow> for_fold ids [] cancel_step))))"

definition cancel_message ::
  "string \<Rightarrow> string \<Rightarrow> (('p, 'z) comms_scheme, runtime_error, team_delivery_record list) rt" where
  "cancel_message team_arg mid_arg =
     bindE ensure_enabled (\<lambda>_.
     bindE (lift_result (normalize_non_empty team_arg ''team_id'')) (\<lambda>team.
     bindE (lift_result (normalize_non_empty mid_arg ''message_id'')) (\<lambda>mid.
     bindE (cancel_under_lock team mid) (\<lambda>cancelled.
     bindE (for_each cancelled (store_cancelled team)) (\<lambda>_.
     bindE (ignore (append_team_event team ''team_message.completed''
       (jobject [(''message_id'', JString mid)]) None)) (\<lambda>_.
     ok cancelled))))))"

section \<open>Snapshot and replay\<close>

record view_snapshot =
  vs_team :: team_view
  vs_messages :: "team_message_record list"
  vs_deliveries :: "(string \<times> team_delivery_record list) list"
  vs_next_cursor :: "string option"
  vs_snapshot_at :: int

record view_snapshot_request =
  vsr_team :: string
  vsr_cursor :: "string option"
  vsr_limit :: "nat option"
  vsr_include_delivery_map :: "bool option"
  vsr_recipient_filter :: "string option"

text \<open>The \<open>BTreeMap\<close> of the response: an association list sorted by message id.\<close>

definition delivery_rows :: "string option \<Rightarrow> ('p, 'z) comms_scheme \<Rightarrow> string \<Rightarrow> team_delivery_record list" where
  "delivery_rows recipient s mid =
     filter (\<lambda>d. case recipient of None \<Rightarrow> True | Some r \<Rightarrow> dlv_recipient d = r)
       (List.map_filter (hget (tc_deliveries s)) (ids_of (tc_message_deliveries s) mid))"

definition delivery_map ::
  "string option \<Rightarrow> team_message_record list \<Rightarrow> ('p, 'z) comms_scheme \<Rightarrow> (string \<times> team_delivery_record list) list" where
  "delivery_map recipient messages s =
     map (\<lambda>mid. (mid, delivery_rows recipient s mid)) (sort (remdups (map msg_id messages)))"

definition get_view_snapshot ::
  "view_snapshot_request \<Rightarrow> (('p, 'z) comms_scheme, runtime_error, view_snapshot) rt" where
  "get_view_snapshot req =
     bindE ensure_enabled (\<lambda>_.
     bindE (team_with_members (vsr_team req)) (\<lambda>team.
     bindE (list_messages (vsr_team req) (vsr_cursor req) (vsr_limit req)) (\<lambda>page.
     bindE (gets (\<lambda>s. if vsr_include_delivery_map req \<noteq> Some False
                      then delivery_map (vsr_recipient_filter req) (lmr_messages page) s else [])) (\<lambda>deliveries.
     bindE now_ms (\<lambda>now.
     ok \<lparr>vs_team = team, vs_messages = lmr_messages page, vs_deliveries = deliveries,
         vs_next_cursor = lmr_next_cursor page, vs_snapshot_at = now\<rparr>)))))"

definition replay_team_events ::
  "string \<Rightarrow> int option \<Rightarrow> nat \<Rightarrow> (('p, 'z) comms_scheme, runtime_error, event_record list) rt" where
  "replay_team_events team after limit =
     store_call (\<lambda>db. case db_list_runtime_events (Some (ScopeTeam, team)) after (max limit 1) db of
                        Inl e \<Rightarrow> Inl e | Inr rows \<Rightarrow> Inr (rows, db))"

end
