(* ===== verification/Team_Frame.thy ===== *)
theory Team_Frame
  imports Team_Service Durability
begin

text \<open>
  What the team service's handlers leave alone. \<open>tview\<close> is the part of the state that
  \<open>TeamRuntimeState\<close> (\<open>state.rs\<close>) holds; store calls, clocks, events, id counters and everything the
  session manager does keep it. The second part shows that the id allocation loops of \<open>mod.rs\<close> end
  with an unused id within the fuel the model gives them.
\<close>

section \<open>The team state\<close>

definition tview where
  "tview s =
     (tc_teams s, tc_members s, tc_messages s, tc_deliveries s, tc_team_messages s, tc_team_deliveries s,
      tc_message_deliveries s, tc_recipient_deliveries s, tc_idempotency s, tc_enabled s, tc_max_pending s)"

lemma tviewD:
  assumes "tview s' = tview s"
  shows "tc_teams s' = tc_teams s" "tc_members s' = tc_members s" "tc_messages s' = tc_messages s"
    "tc_deliveries s' = tc_deliveries s" "tc_team_messages s' = tc_team_messages s"
    "tc_team_deliveries s' = tc_team_deliveries s" "tc_message_deliveries s' = tc_message_deliveries s"
    "tc_recipient_deliveries s' = tc_recipient_deliveries s" "tc_idempotency s' = tc_idempotency s"
    "tc_enabled s' = tc_enabled s" "tc_max_pending s' = tc_max_pending s"
  using assms by (simp_all add: tview_def)

abbreviation keeps_team :: "(('p, 'z) comms_scheme, 'e, 'a) rt \<Rightarrow> bool" where
  "keeps_team m \<equiv> (\<forall>v. preserves (\<lambda>s. tview s = v) m)"

lemma keeps_teamD: "keeps_team m \<Longrightarrow> tview (snd (m s)) = tview s"
  unfolding preserves_def by blast

lemma keeps_teamI: "(\<And>s. tview (snd (m s)) = tview s) \<Longrightarrow> keeps_team m"
  by (simp add: preserves_def)

text \<open>A predicate of the team state survives whatever keeps the team state.\<close>

lemma preserves_of_view:
  assumes "keeps_team m" and "\<And>s s'. tview s' = tview s \<Longrightarrow> I s' = I s"
  shows "preserves I m"
  using assms by (metis keeps_teamD preservesI)

lemma view_basic [preserves_intros]:
  "preserves (\<lambda>s. tview s = v) (store_call g)" "preserves (\<lambda>s. tview s = v) (store_write w)"
  "preserves (\<lambda>s. tview s = v) now_ms" "preserves (\<lambda>s. tview s = v) (put_session i r)"
  "preserves (\<lambda>s. tview s = v) (put_turn i t)" "preserves (\<lambda>s. tview s = v) (put_approval i a)"
  "preserves (\<lambda>s. tview s = v) (spawn_wait_for_turn k i j)" "preserves (\<lambda>s. tview s = v) (provider_call h)"
  by (auto simp: preserves_def store_call_def store_write_def now_ms_def put_session_def put_turn_def
      put_approval_def spawn_wait_for_turn_def modify_def provider_call_def tview_def Let_def
      split: prod.splits option.splits sum.splits)

lemma view_lookup [preserves_intros]:
  "preserves (\<lambda>s. tview s = v) (get_session sid)" "preserves (\<lambda>s. tview s = v) (require_provider k)"
  "preserves (\<lambda>s. tview s = v) (require_kind r)" "preserves (\<lambda>s. tview s = v) ensure_enabled"
  "preserves (\<lambda>s. tview s = v) (require_session_active sid)" "preserves (\<lambda>s. tview s = v) (team_with_members t)"
  unfolding get_session_def require_provider_def require_kind_def ensure_enabled_def
    require_session_active_def team_with_members_def
  by (intro preserves_intros)+

lemma view_counters [preserves_intros]:
  "preserves (\<lambda>s. tview s = v) (allocate_id p q)" "preserves (\<lambda>s. tview s = v) allocate_team_id"
  "preserves (\<lambda>s. tview s = v) allocate_message_id" "preserves (\<lambda>s. tview s = v) allocate_delivery_id"
  by (auto simp: preserves_def allocate_id_def monad_simps ok_def allocate_team_id_def allocate_message_id_def
      allocate_delivery_id_def tview_def split: prod.splits)

lemma view_event [preserves_intros]:
  "preserves (\<lambda>s. tview s = v) (append_event sc i ses t kind crit payload)"
  "preserves (\<lambda>s. tview s = v) (append_team_event team kind payload ses)"
  by (auto simp: preserves_def append_event_def append_team_event_def monad_simps bindE_store_call store_call_def
      ok_def tview_def Let_def split: prod.splits option.splits sum.splits)

lemma view_turns [preserves_intros]:
  "preserves (\<lambda>s. tview s = v) (dispatch_send_turn_with_resume_fallback kind req cwd pref cref md)"
  "preserves (\<lambda>s. tview s = v) (send_turn_admit sid input)"
  "preserves (\<lambda>s. tview s = v) (interrupt_turn sid tid)"
  unfolding dispatch_send_turn_with_resume_fallback_def send_turn_admit_def interrupt_turn_def Let_def
  by (auto intro!: preserves_intros split: runtime_error.splits sum.splits)

lemma view_send_turn [preserves_intros]:
  "preserves (\<lambda>s. tview s = v) (send_turn sid input)"
  unfolding send_turn_def send_turn_failed_def send_turn_accept_def Let_def
  by (auto intro!: preserves_intros split: runtime_error.splits sum.splits option.splits bool.splits)

section \<open>Id allocation\<close>

abbreviation counter_id :: "string \<Rightarrow> 64 word \<Rightarrow> string" where
  "counter_id prefix n \<equiv> prefix @ ''_'' @ dec_of_nat (unat n)"

lemma counter_id_inject: "counter_id p m = counter_id p n \<longleftrightarrow> m = n"
  by (simp add: unsigned_word_eqI [of m n] iffI)

text \<open>The loop stops at the first free counter value, or at the end of its fuel.\<close>

lemma next_free_id_shape:
  "\<exists>k \<le> fuel. next_free_id fuel p used n = (counter_id p (n + of_nat k), n + of_nat k + 1) \<and>
     (k < fuel \<longrightarrow> \<not> used (counter_id p (n + of_nat k))) \<and>
     (\<forall>j < k. used (counter_id p (n + of_nat j)))"
proof (induction fuel arbitrary: n)
  case 0
  then show ?case by simp
next
  case (Suc fuel)
  show ?case
  proof (cases "used (counter_id p n)")
    case False
    then show ?thesis by (intro exI [of _ 0]) simp
  next
    case True
    obtain k where k: "k \<le> fuel"
      "next_free_id fuel p used (n + 1) = (counter_id p (n + 1 + of_nat k), n + 1 + of_nat k + 1)"
      "k < fuel \<longrightarrow> \<not> used (counter_id p (n + 1 + of_nat k))"
      "\<forall>j < k. used (counter_id p (n + 1 + of_nat j))"
      using Suc.IH [of "n + 1"] by blast
    have "\<forall>j < Suc k. used (counter_id p (n + of_nat j))"
      using True k(4) by (auto simp: less_Suc_eq_0_disj add.assoc)
    then show ?thesis using True k by (intro exI [of _ "Suc k"]) (simp add: add.assoc)
  qed
qed

lemma of_nat_word_inj: "inj_on (\<lambda>j. (n :: 64 word) + of_nat j) {..<2 ^ 64}"
proof (rule inj_onI)
  fix i j assume "i \<in> {..<2 ^ 64}" "j \<in> {..<2 ^ 64}" "n + of_nat i = n + (of_nat j :: 64 word)"
  then have "unat (of_nat i :: 64 word) = unat (of_nat j :: 64 word)" by simp
  then show "i = j" using \<open>i \<in> _\<close> \<open>j \<in> _\<close> by (simp add: unat_of_nat take_bit_nat_eq_self)
qed

text \<open>With \<open>length m\<close> keys in use one of \<open>length m + 1\<close> successive ids is free.\<close>

lemma free_id_found:
  assumes "length m < 2 ^ 64"
  shows "\<exists>k \<le> length m. next_free_id (length m) p (hcontains m) n = (counter_id p (n + of_nat k), n + of_nat k + 1) \<and>
     \<not> hcontains m (counter_id p (n + of_nat k))"
proof -
  obtain k where k: "k \<le> length m"
    "next_free_id (length m) p (hcontains m) n = (counter_id p (n + of_nat k), n + of_nat k + 1)"
    "k < length m \<longrightarrow> \<not> hcontains m (counter_id p (n + of_nat k))"
    "\<forall>j < k. hcontains m (counter_id p (n + of_nat j))"
    using next_free_id_shape by metis
  have "\<not> hcontains m (counter_id p (n + of_nat k))"
  proof
    assume used: "hcontains m (counter_id p (n + of_nat k))"
    then have "k = length m" using k by linarith
    let ?f = "\<lambda>j. counter_id p (n + of_nat j :: 64 word)"
    have "\<forall>j \<in> {..length m}. ?f j \<in> set (hkeys m)"
      using used k(4) \<open>k = length m\<close> by (auto simp: hkeys_set hcontains_def nat_less_le)
    then have "?f ` {..length m} \<subseteq> set (hkeys m)" by blast
    moreover have "inj_on ?f {..length m}"
      using of_nat_word_inj [of n] assms unfolding inj_on_def counter_id_inject by force
    ultimately have "card {..length m} \<le> card (set (hkeys m))"
      by (metis card_image card_mono finite_set)
    also have "\<dots> \<le> length m" by (metis card_length hkeys_def length_map)
    finally show False by simp
  qed
  then show ?thesis using k by blast
qed

lemma allocate_delivery_run:
  assumes "length (tc_deliveries s) < 2 ^ 64"
  shows "\<exists>k \<le> length (tc_deliveries s).
    allocate_delivery_id s = (Inr (counter_id ''dlv'' (tc_next_delivery s + of_nat k)),
      s\<lparr>tc_next_delivery := tc_next_delivery s + of_nat k + 1\<rparr>) \<and>
    hget (tc_deliveries s) (counter_id ''dlv'' (tc_next_delivery s + of_nat k)) = None"
proof -
  obtain k where "k \<le> length (tc_deliveries s)"
    "next_free_id (length (tc_deliveries s)) ''dlv'' (hcontains (tc_deliveries s)) (tc_next_delivery s) =
       (counter_id ''dlv'' (tc_next_delivery s + of_nat k), tc_next_delivery s + of_nat k + 1)"
    "\<not> hcontains (tc_deliveries s) (counter_id ''dlv'' (tc_next_delivery s + of_nat k))"
    using free_id_found [OF assms] by blast
  then show ?thesis by (intro exI [of _ k]) (simp add: allocate_delivery_id_def hcontains_def)
qed

lemma allocate_message_run:
  assumes "length (tc_messages s) < 2 ^ 64"
  shows "\<exists>i n. allocate_message_id s = (Inr i, s\<lparr>tc_next_message := n\<rparr>) \<and> hget (tc_messages s) i = None"
  using free_id_found [OF assms, of "''msg''" "tc_next_message s"]
  by (auto simp: allocate_message_id_def hcontains_def)

lemma allocate_team_run:
  assumes "length (tc_teams s) < 2 ^ 64"
  shows "\<exists>i n. allocate_team_id s = (Inr i, s\<lparr>tc_next_team := n\<rparr>) \<and> hget (tc_teams s) i = None"
  using free_id_found [OF assms, of "''team''" "tc_next_team s"]
  by (auto simp: allocate_team_id_def hcontains_def)

end
