(* ===== verification/Team_Invariant.thy ===== *)
theory Team_Invariant
  imports Team_Frame
begin

text \<open>
  The invariant of the team service and the life cycle of a delivery. \<open>comms_ok\<close> relates the maps of
  \<open>TeamRuntimeState\<close> to each other: every team has its lead among its members, every message and
  delivery is filed under its own keys, and each of the four id indexes lists exactly the rows of
  its group. \<open>advances s0 s\<close> adds that every delivery known in \<open>s0\<close> is still there, on the same
  route, in a status its life cycle can reach.
\<close>

section \<open>Id indexes\<close>

text \<open>\<open>grouped ids rows key\<close>: under \<open>k\<close> the index lists every row of group \<open>k\<close> once and nothing else.\<close>

definition grouped :: "('k \<Rightarrow> 'i list) \<Rightarrow> ('i \<Rightarrow> 'r option) \<Rightarrow> ('r \<Rightarrow> 'k) \<Rightarrow> bool" where
  "grouped ids rows key \<longleftrightarrow>
     (\<forall>k. distinct (ids k) \<and> (\<forall>i. i \<in> set (ids k) \<longleftrightarrow> (\<exists>r. rows i = Some r \<and> key r = k)))"

lemma groupedD: "grouped ids rows key \<Longrightarrow> i \<in> set (ids k) \<longleftrightarrow> (\<exists>r. rows i = Some r \<and> key r = k)"
  by (simp add: grouped_def)

lemma grouped_distinct: "grouped ids rows key \<Longrightarrow> distinct (ids k)"
  by (simp add: grouped_def)

lemma grouped_update:
  "grouped ids rows key \<Longrightarrow> rows i = Some r \<Longrightarrow> key r' = key r \<Longrightarrow> grouped ids (rows(i \<mapsto> r')) key"
  by (auto simp: grouped_def)

locale id_index =
  fixes ids :: "'x \<Rightarrow> 'k \<Rightarrow> 'i list"
    and push :: "'k \<Rightarrow> 'i \<Rightarrow> 'x \<Rightarrow> 'x"
    and unlist :: "'k \<Rightarrow> 'i \<Rightarrow> 'x \<Rightarrow> 'x"
    and forget :: "'k \<Rightarrow> 'x \<Rightarrow> 'x"
  assumes ids_push: "ids (push k i x) k' = (if k' = k then ids x k @ [i] else ids x k')"
    and ids_unlist: "ids (unlist k i x) k' = (if k' = k then filter (\<lambda>c. c \<noteq> i) (ids x k) else ids x k')"
    and ids_forget: "ids (forget k x) k' = (if k' = k then [] else ids x k')"
begin

lemma grouped_push:
  "grouped (ids x) rows key \<Longrightarrow> rows i = None \<Longrightarrow> grouped (ids (push (key r) i x)) (rows(i \<mapsto> r)) key"
  by (auto simp: grouped_def ids_push)

lemma grouped_unlist:
  "grouped (ids x) rows key \<Longrightarrow> rows i = Some r \<Longrightarrow> grouped (ids (unlist (key r) i x)) (rows(i := None)) key"
  by (auto simp: grouped_def ids_unlist)

lemma grouped_forget:
  assumes "grouped (ids x) rows key"
    and "\<And>i. rows' i = (case rows i of None \<Rightarrow> None | Some r \<Rightarrow> if key r = k then None else Some r)"
  shows "grouped (ids (forget k x)) rows' key"
  using assms unfolding grouped_def by (auto simp: ids_forget split: option.splits if_splits)

lemma ids_forget_all: "ids (fold forget ks x) k = (if k \<in> set ks then [] else ids x k)"
  by (induction ks arbitrary: x) (auto simp: ids_forget)

end

interpretation idx: id_index ids_of push_id remove_delivery_from_recipient_index hremove
proof
  fix k i k' :: string and x
  show "ids_of (push_id k i x) k' = (if k' = k then ids_of x k @ [i] else ids_of x k')"
    by (simp add: ids_of_def push_id_def split: option.splits)
  show "ids_of (remove_delivery_from_recipient_index k i x) k' =
      (if k' = k then filter (\<lambda>c. c \<noteq> i) (ids_of x k) else ids_of x k')"
    by (simp add: ids_of_def remove_delivery_from_recipient_index_def Let_def split: option.splits)
  show "ids_of (hremove k x) k' = (if k' = k then [] else ids_of x k')"
    by (simp add: ids_of_def)
qed

lemma hget_hinsert_fun: "hget (hinsert k v m) = (hget m)(k \<mapsto> v)"
  by (rule ext) simp

lemma hget_hremove_fun: "hget (hremove k m) = (hget m)(k := None)"
  by (rule ext) simp

section \<open>The invariant\<close>

definition delivery_statuses :: "string set" where
  "delivery_statuses = {''pending'', ''deferred'', ''injecting'', ''injected'', ''failed'', ''cancelled''}"

definition rosters_ok :: "('p, 'z) comms_scheme \<Rightarrow> bool" where
  "rosters_ok s \<longleftrightarrow>
     (\<forall>k t. hget (tc_teams s) k = Some t \<longrightarrow> team_id t = k \<and> team_deleted_at t = None \<and>
        (\<exists>ms. hget (tc_members s) k = Some ms \<and> hcontains ms (team_lead t))) \<and>
     (\<forall>k ms. hget (tc_members s) k = Some ms \<longrightarrow> hcontains (tc_teams s) k \<and> hm_wf ms \<and>
        (\<forall>a m. hget ms a = Some m \<longrightarrow> mem_agent_id m = a \<and> mem_team_id m = k))"

definition messages_ok :: "('p, 'z) comms_scheme \<Rightarrow> bool" where
  "messages_ok s \<longleftrightarrow>
     (\<forall>i m. hget (tc_messages s) i = Some m \<longrightarrow> msg_id m = i \<and> hcontains (tc_teams s) (msg_team_id m))"

definition deliveries_ok :: "('p, 'z) comms_scheme \<Rightarrow> bool" where
  "deliveries_ok s \<longleftrightarrow>
     (\<forall>i d. hget (tc_deliveries s) i = Some d \<longrightarrow> dlv_id d = i \<and> dlv_status d \<in> delivery_statuses \<and>
        (\<exists>m. hget (tc_messages s) (dlv_message_id d) = Some m \<and> msg_team_id m = dlv_team_id d))"

definition indexes_ok :: "('p, 'z) comms_scheme \<Rightarrow> bool" where
  "indexes_ok s \<longleftrightarrow>
     grouped (ids_of (tc_team_messages s)) (hget (tc_messages s)) msg_team_id \<and>
     grouped (ids_of (tc_team_deliveries s)) (hget (tc_deliveries s)) dlv_team_id \<and>
     grouped (ids_of (tc_message_deliveries s)) (hget (tc_deliveries s)) dlv_message_id \<and>
     grouped (ids_of (tc_recipient_deliveries s)) (hget (tc_deliveries s)) dlv_recipient"

definition message_key :: "team_message_record \<Rightarrow> string option" where
  "message_key m = map_option (idempotency_index_key (msg_team_id m) (msg_sender m) (msg_scope m))
     (normalized_non_empty (msg_idempotency_key m))"

definition keys_ok :: "('p, 'z) comms_scheme \<Rightarrow> bool" where
  "keys_ok s \<longleftrightarrow>
     (\<forall>k i. hget (tc_idempotency s) k = Some i \<longrightarrow> (\<exists>m. hget (tc_messages s) i = Some m \<and> message_key m = Some k))"

definition comms_ok :: "('p, 'z) comms_scheme \<Rightarrow> bool" where
  "comms_ok s \<longleftrightarrow> rosters_ok s \<and> messages_ok s \<and> deliveries_ok s \<and> indexes_ok s \<and> keys_ok s"

lemmas comms_ok_defs = comms_ok_def rosters_ok_def messages_ok_def deliveries_ok_def indexes_ok_def keys_ok_def

lemma comms_ok_view: "tview s' = tview s \<Longrightarrow> comms_ok s' = comms_ok s"
  by (simp add: comms_ok_defs tviewD [of s' s])

lemma comms_okD:
  assumes "comms_ok s"
  shows "rosters_ok s" "messages_ok s" "deliveries_ok s" "indexes_ok s" "keys_ok s"
  using assms by (simp_all add: comms_ok_def)

lemma comms_ok_empty: "comms_ok (comms_empty m enabled limit nonce cap)"
  by (simp add: comms_ok_defs comms_empty_def manager.extend_def grouped_def ids_of_def)

section \<open>The life cycle of a delivery\<close>

definition delivery_edge :: "string \<Rightarrow> string \<Rightarrow> bool" where
  "delivery_edge a b \<longleftrightarrow> is_valid_transition a b \<or> (a = ''failed'' \<and> b = ''pending'')"

definition same_route :: "team_delivery_record \<Rightarrow> team_delivery_record \<Rightarrow> bool" where
  "same_route d d' \<longleftrightarrow>
     dlv_id d' = dlv_id d \<and> dlv_message_id d' = dlv_message_id d \<and> dlv_team_id d' = dlv_team_id d \<and>
     dlv_recipient d' = dlv_recipient d \<and> dlv_provider d' = dlv_provider d \<and>
     dlv_effective_policy d' = dlv_effective_policy d \<and> dlv_created_at d' = dlv_created_at d"

definition advanced :: "team_delivery_record \<Rightarrow> team_delivery_record \<Rightarrow> bool" where
  "advanced d d' \<longleftrightarrow> same_route d d' \<and> delivery_edge\<^sup>*\<^sup>* (dlv_status d) (dlv_status d')"

lemma advanced_refl [simp]: "advanced d d"
  by (simp add: advanced_def same_route_def)

lemma advanced_trans: "advanced a b \<Longrightarrow> advanced b c \<Longrightarrow> advanced a c"
  by (auto simp: advanced_def same_route_def)

lemma edge_status: "delivery_edge a b \<Longrightarrow> b \<in> delivery_statuses"
  by (auto simp: delivery_edge_def is_valid_transition_def delivery_statuses_def)

lemma edges_status: "delivery_edge\<^sup>*\<^sup>* a b \<Longrightarrow> a \<in> delivery_statuses \<Longrightarrow> b \<in> delivery_statuses"
  by (induction rule: rtranclp_induct) (auto dest: edge_status)

text \<open>\<open>injected\<close> and \<open>cancelled\<close> have no way out.\<close>

lemma edge_final: "delivery_edge a b \<Longrightarrow> a \<noteq> ''injected'' \<and> a \<noteq> ''cancelled''"
  by (auto simp: delivery_edge_def is_valid_transition_def)

lemma edges_final:
  "delivery_edge\<^sup>*\<^sup>* a b \<Longrightarrow> a = ''injected'' \<or> a = ''cancelled'' \<Longrightarrow> b = a"
  by (erule converse_rtranclpE) (auto dest: edge_final)

definition advances :: "('p, 'z) comms_scheme \<Rightarrow> ('p, 'z) comms_scheme \<Rightarrow> bool" where
  "advances s0 s \<longleftrightarrow>
     comms_ok s \<and> (\<forall>i d. hget (tc_deliveries s0) i = Some d \<longrightarrow>
       (\<exists>d'. hget (tc_deliveries s) i = Some d' \<and> advanced d d'))"

lemma advances_refl: "comms_ok s \<Longrightarrow> advances s s"
  by (simp add: advances_def)

lemma advances_ok: "advances s0 s \<Longrightarrow> comms_ok s"
  by (simp add: advances_def)

lemma advances_view: "tview s' = tview s \<Longrightarrow> advances s0 s' = advances s0 s"
  by (simp add: advances_def comms_ok_view [of s' s] tviewD [of s' s])

text \<open>Whatever keeps the team state lets deliveries stand.\<close>

lemma advances_silent: "keeps_team m \<Longrightarrow> preserves (advances s0) m"
  using preserves_of_view advances_view by blast

text \<open>Replacing one delivery by a later stage of itself.\<close>

lemma comms_ok_replace:
  assumes ok: "comms_ok s" and d: "hget (tc_deliveries s) i = Some d" and adv: "advanced d d'"
  shows "comms_ok (s\<lparr>tc_deliveries := hinsert i d' (tc_deliveries s)\<rparr>)"
proof -
  have route: "dlv_id d' = dlv_id d" "dlv_message_id d' = dlv_message_id d" "dlv_team_id d' = dlv_team_id d"
    "dlv_recipient d' = dlv_recipient d"
    using adv by (simp_all add: advanced_def same_route_def)
  have "dlv_status d \<in> delivery_statuses" using comms_okD(3)[OF ok] d by (simp add: deliveries_ok_def)
  then have "dlv_status d' \<in> delivery_statuses" using adv edges_status by (auto simp: advanced_def)
  then show ?thesis
    using ok d route grouped_update [of _ "hget (tc_deliveries s)"]
    by (auto simp: comms_ok_defs hget_hinsert_fun)
qed

lemma advances_replace:
  assumes "advances s0 s" and "hget (tc_deliveries s) i = Some d" and "advanced d d'"
  shows "advances s0 (s\<lparr>tc_deliveries := hinsert i d' (tc_deliveries s)\<rparr>)"
proof -
  have "comms_ok (s\<lparr>tc_deliveries := hinsert i d' (tc_deliveries s)\<rparr>)"
    using comms_ok_replace advances_ok assms by blast
  moreover have "\<exists>e'. hget (hinsert i d' (tc_deliveries s)) j = Some e' \<and> advanced e e'"
    if "hget (tc_deliveries s0) j = Some e" for j e
    using that assms advanced_trans [of e d d'] by (force simp: advances_def)
  ultimately show ?thesis by (simp add: advances_def)
qed

end
