(* ===== verification/Team_Steps.thy ===== *)
theory Team_Steps
  imports Team_Invariant
begin

text \<open>
  Every handler of the team service keeps the invariant and moves deliveries along their life cycle
  only: one lemma per operation, from the status transitions up to the handlers of
  \<open>service_impl.rs\<close>, on success and on every error path, with any store fault and any provider.
\<close>

section \<open>Moving deliveries\<close>

lemma advances_after: "keeps_team m \<Longrightarrow> advances s0 t \<Longrightarrow> advances s0 (snd (m t))"
  using advances_view keeps_teamD by blast

lemma advances_clock [simp]: "advances s0 (s\<lparr>env_clock_reads := n\<rparr>) = advances s0 s"
  by (rule advances_view) (simp add: tview_def)

lemma advances_write:
  assumes "advances s0 s" and "hget (tc_deliveries s) i = Some d" and "advanced d d'"
  shows "advances s0 (s\<lparr>env_clock_reads := n, tc_deliveries := hinsert i d' (tc_deliveries s)\<rparr>)"
  using advances_replace [of s0 "s\<lparr>env_clock_reads := n\<rparr>" i d d'] assms by simp

lemma advanced_edge: "same_route d d' \<Longrightarrow> delivery_edge (dlv_status d) (dlv_status d') \<Longrightarrow> advanced d d'"
  by (simp add: advanced_def r_into_rtranclp)

lemma advanced_moved:
  "is_valid_transition (dlv_status d) next \<Longrightarrow> advanced d (moved_delivery d next strategy code msg now)"
  by (auto simp: advanced_def same_route_def moved_delivery_def delivery_edge_def)

lemma advances_transition [preserves_intros]:
  "preserves (advances s0) (transition_delivery_status current next strategy code msg trigger)"
proof (rule preservesI)
  fix s assume adv: "advances s0 s"
  show "advances s0 (snd (transition_delivery_status current next strategy code msg trigger s))"
  proof (cases "is_valid_transition (dlv_status current) next \<and>
      (\<exists>d. hget (tc_deliveries s) (dlv_id current) = Some d \<and> dlv_status d = dlv_status current)")
    case False
    then show ?thesis
      using adv by (auto simp: transition_delivery_status_def monad_simps ok_def err_def split: option.splits)
  next
    case True
    then obtain d where d: "hget (tc_deliveries s) (dlv_id current) = Some d" "dlv_status d = dlv_status current"
      "is_valid_transition (dlv_status d) next" by auto
    define t where "t = s\<lparr>env_clock_reads := Suc (env_clock_reads s),
      tc_deliveries := hinsert (dlv_id current)
        (moved_delivery d next strategy code msg (env_clock s (env_clock_reads s))) (tc_deliveries s)\<rparr>"
    have "advances s0 t"
      unfolding t_def by (rule advances_write [OF adv d(1) advanced_moved [OF d(3)]])
    then show ?thesis
      using True d
      by (auto simp: transition_delivery_status_def monad_simps Let_def t_def [symmetric]
          intro!: advances_after preserves_intros)
  qed
qed

lemma advances_turn_id [preserves_intros]:
  "preserves (advances s0) (transition_delivery_with_turn_id did turn)"
proof (rule preservesI)
  fix s assume adv: "advances s0 s"
  show "advances s0 (snd (transition_delivery_with_turn_id did turn s))"
  proof (cases "hget (tc_deliveries s) did")
    case None
    then show ?thesis using adv by (simp add: transition_delivery_with_turn_id_def monad_simps ok_def)
  next
    case (Some d)
    have "advances s0 (s\<lparr>env_clock_reads := Suc (env_clock_reads s), tc_deliveries := hinsert did
        (d\<lparr>dlv_injected_turn_id := Some turn, dlv_updated_at := env_clock s (env_clock_reads s)\<rparr>) (tc_deliveries s)\<rparr>)"
      by (rule advances_write [OF adv Some]) (simp add: advanced_def same_route_def)
    then show ?thesis
      using Some by (auto simp: transition_delivery_with_turn_id_def monad_simps Let_def
          intro!: advances_after preserves_intros)
  qed
qed

lemma advances_manager [preserves_intros]:
  "preserves (advances s0) (get_session sid)" "preserves (advances s0) (interrupt_turn sid tid)"
  "preserves (advances s0) (send_turn sid input)" "preserves (advances s0) now_ms"
  "preserves (advances s0) (store_write w)" "preserves (advances s0) (append_team_event team kind payload ses)"
  "preserves (advances s0) ensure_enabled" "preserves (advances s0) (require_session_active sid)"
  "preserves (advances s0) (team_with_members team)" "preserves (advances s0) (store_call g)"
  by (intro advances_silent allI preserves_intros)+

lemma advances_inject_check [preserves_intros]: "preserves (advances s0) (inject_check did trigger)"
  unfolding inject_check_def Let_def interrupt_for_def
  by (auto intro!: preserves_intros split: sum.splits)

lemma advances_inject_commit [preserves_intros]:
  "preserves (advances s0) (inject_commit delivery message session trigger)"
  unfolding inject_commit_def Let_def by (auto intro!: preserves_intros split: sum.splits runtime_error.splits)

lemma advances_inject [preserves_intros]: "preserves (advances s0) (inject_delivery did trigger)"
  unfolding inject_delivery_def by (auto intro!: preserves_intros split: inject_plan.splits)

lemma advances_queues [preserves_intros]:
  "preserves (advances s0) (queue_and_attempt_delivery ack)"
  "preserves (advances s0) (resume_deferred_for_recipient recipient trigger)"
  "preserves (advances s0) (recover_recipient recipient n)"
  "preserves (advances s0) recover_startup_deferred_deliveries"
  unfolding queue_and_attempt_delivery_def resume_deferred_for_recipient_def recover_recipient_def
    recover_startup_deferred_deliveries_def
  by (intro preserves_intros)+

lemma advances_listener [preserves_intros]: "preserves (advances s0) listener_step"
proof -
  have "preserves (advances s0) (modify (\<lambda>s. s\<lparr>tc_listening := b\<rparr>))"
    "preserves (advances s0) (modify (\<lambda>s. s\<lparr>tc_events_seen := n\<rparr>))" for b n
    by (auto intro!: preserves_modify simp: advances_view [of "s\<lparr>tc_listening := b\<rparr>" s for s]
        advances_view [of "s\<lparr>tc_events_seen := n\<rparr>" s for s] tview_def)
  then show ?thesis
    unfolding listener_step_def Let_def by (auto intro!: preserves_intros)
qed

section \<open>Retrying and cancelling\<close>

lemma advances_retry_lock [preserves_intros]: "preserves (advances s0) (retry_under_lock team did)"
proof (rule preservesI)
  fix s assume adv: "advances s0 s"
  show "advances s0 (snd (retry_under_lock team did s))"
  proof (cases "\<exists>d. hget (tc_deliveries s) did = Some d \<and> dlv_team_id d = team \<and>
      (dlv_status d = ''failed'' \<or> dlv_status d = ''deferred'')")
    case False
    then show ?thesis using adv by (auto simp: retry_under_lock_def monad_simps err_def split: option.splits)
  next
    case True
    then obtain d where d: "hget (tc_deliveries s) did = Some d" "dlv_team_id d = team"
      "dlv_status d = ''failed'' \<or> dlv_status d = ''deferred''" by auto
    then have "delivery_edge (dlv_status d) ''pending''" by (auto simp: delivery_edge_def is_valid_transition_def)
    then show ?thesis
      using d by (auto simp: retry_under_lock_def monad_simps Let_def ok_def same_route_def
          intro!: advances_write [OF adv d(1)] advanced_edge)
  qed
qed

lemma advances_retry [preserves_intros]: "preserves (advances s0) (retry_delivery team did)"
  unfolding retry_delivery_def by (intro preserves_intros)

lemma uncancellable_None:
  "uncancellable ds ids = None \<longleftrightarrow>
     (\<forall>i \<in> set ids. \<forall>d. hget ds i = Some d \<longrightarrow> dlv_status d = ''pending'' \<or> dlv_status d = ''deferred'')"
  by (induction ids) (auto split: option.splits)

text \<open>The cancelling loop, run to its end: it changes the listed deliveries and nothing else.\<close>

lemma cancel_loop:
  assumes "advances s0 s" and "distinct ids" and "uncancellable (tc_deliveries s) ids = None"
  shows "\<exists>out n D. for_fold ids acc cancel_step s = (Inr (acc @ out), s\<lparr>env_clock_reads := n, tc_deliveries := D\<rparr>) \<and>
    advances s0 (s\<lparr>env_clock_reads := n, tc_deliveries := D\<rparr>) \<and>
    (\<forall>i. i \<notin> set ids \<longrightarrow> hget D i = hget (tc_deliveries s) i) \<and>
    (\<forall>d \<in> set out. dlv_status d = ''cancelled'') \<and> List.map_filter (hget D) ids = out"
  using assms
proof (induction ids arbitrary: s acc)
  case Nil
  have "s = s\<lparr>env_clock_reads := env_clock_reads s, tc_deliveries := tc_deliveries s\<rparr>" by simp
  then show ?case using Nil.prems(1) by (auto simp: ok_def map_filter_simps intro!: exI [of _ "env_clock_reads s"] exI [of _ "tc_deliveries s"])
next
  case (Cons i ids)
  note ready = Cons.prems(3)[unfolded uncancellable_None]
  show ?case
  proof (cases "hget (tc_deliveries s) i")
    case None
    then have step: "cancel_step i acc s = (Inr acc, s)" by (simp add: cancel_step_def monad_simps ok_def)
    have "uncancellable (tc_deliveries s) ids = None" using ready by (simp add: uncancellable_None)
    from Cons.IH [OF Cons.prems(1) _ this, of acc] Cons.prems(2) obtain out n D where
      run: "for_fold ids acc cancel_step s = (Inr (acc @ out), s\<lparr>env_clock_reads := n, tc_deliveries := D\<rparr>)"
        "advances s0 (s\<lparr>env_clock_reads := n, tc_deliveries := D\<rparr>)"
        "\<forall>i. i \<notin> set ids \<longrightarrow> hget D i = hget (tc_deliveries s) i" "\<forall>d \<in> set out. dlv_status d = ''cancelled''"
        "List.map_filter (hget D) ids = out" by auto
    have "hget D i = None" using run(3) Cons.prems(2) None by simp
    with run step show ?thesis
      by (intro exI [of _ out] exI [of _ n] exI [of _ D]) (simp add: bindE_Inr map_filter_simps)
  next
    case (Some d)
    let ?now = "env_clock s (env_clock_reads s)"
    let ?d = "d\<lparr>dlv_status := ''cancelled'', dlv_updated_at := ?now\<rparr>"
    let ?s = "s\<lparr>env_clock_reads := Suc (env_clock_reads s), tc_deliveries := hinsert i ?d (tc_deliveries s)\<rparr>"
    have step: "cancel_step i acc s = (Inr (acc @ [?d]), ?s)"
      using Some by (simp add: cancel_step_def monad_simps ok_def Let_def)
    have "delivery_edge (dlv_status d) ''cancelled''"
      using ready Some by (auto simp: delivery_edge_def is_valid_transition_def)
    then have "advances s0 ?s"
      by (intro advances_write [OF Cons.prems(1) Some] advanced_edge) (simp_all add: same_route_def)
    moreover have "uncancellable (tc_deliveries ?s) ids = None"
      using ready Cons.prems(2) by (auto simp: uncancellable_None)
    ultimately obtain out n D where
      run: "for_fold ids (acc @ [?d]) cancel_step ?s = (Inr ((acc @ [?d]) @ out), ?s\<lparr>env_clock_reads := n, tc_deliveries := D\<rparr>)"
        "advances s0 (?s\<lparr>env_clock_reads := n, tc_deliveries := D\<rparr>)"
        "\<forall>i. i \<notin> set ids \<longrightarrow> hget D i = hget (tc_deliveries ?s) i" "\<forall>d \<in> set out. dlv_status d = ''cancelled''"
        "List.map_filter (hget D) ids = out"
      using Cons.IH [of ?s "acc @ [?d]"] Cons.prems(2) by auto
    have "hget D i = Some ?d" using run(3) Cons.prems(2) by simp
    with run step show ?thesis
      by (intro exI [of _ "?d # out"] exI [of _ n] exI [of _ D]) (simp add: bindE_Inr map_filter_simps)
  qed
qed

lemma advances_cancel_lock [preserves_intros]: "preserves (advances s0) (cancel_under_lock team mid)"
proof (rule preservesI)
  fix s assume adv: "advances s0 s"
  have "distinct (ids_of (tc_message_deliveries s) mid)"
    using comms_okD(4)[OF advances_ok [OF adv]] by (auto simp: indexes_ok_def dest: grouped_distinct)
  then show "advances s0 (snd (cancel_under_lock team mid s))"
    using adv cancel_loop [OF adv, of "ids_of (tc_message_deliveries s) mid" "[]"]
    by (auto simp: cancel_under_lock_def monad_simps err_def split: option.splits)
qed

lemma advances_cancel [preserves_intros]: "preserves (advances s0) (cancel_message team mid)"
  unfolding cancel_message_def store_cancelled_def by (intro preserves_intros)

end
