(* ===== verification/Team_Membership.thy ===== *)
theory Team_Membership
  imports Team_Steps
begin

text \<open>
  Teams and their members: creating, joining, leaving and leading keep the invariant, in particular
  that the lead of a team is one of its members, so a team is never empty.
\<close>

section \<open>Changing a roster\<close>

definition roster_of :: "string \<Rightarrow> (string, team_member_record) hmap \<Rightarrow> bool" where
  "roster_of k ms \<longleftrightarrow> hm_wf ms \<and> (\<forall>a m. hget ms a = Some m \<longrightarrow> mem_agent_id m = a \<and> mem_team_id m = k)"

lemma rosterD:
  "comms_ok s \<Longrightarrow> hget (tc_members s) k = Some ms \<Longrightarrow> roster_of k ms"
  by (auto simp: comms_ok_def rosters_ok_def roster_of_def)

lemma teamD:
  assumes "comms_ok s" and "hget (tc_teams s) k = Some t"
  shows "team_id t = k" "team_deleted_at t = None" "\<exists>ms. hget (tc_members s) k = Some ms \<and> hcontains ms (team_lead t)"
  using assms by (auto simp: comms_ok_def rosters_ok_def)

lemma roster_hinsert: "roster_of k ms \<Longrightarrow> mem_agent_id m = a \<Longrightarrow> mem_team_id m = k \<Longrightarrow> roster_of k (hinsert a m ms)"
  by (auto simp: roster_of_def)

lemma roster_hremove: "roster_of k ms \<Longrightarrow> roster_of k (hremove a ms)"
  by (auto simp: roster_of_def split: if_splits)

lemma comms_ok_roster:
  assumes ok: "comms_ok s" and ms: "roster_of k ms" and t: "team_id t = k" "team_deleted_at t = None"
    and lead: "hcontains ms (team_lead t)"
  shows "comms_ok (s\<lparr>tc_teams := hinsert k t (tc_teams s), tc_members := hinsert k ms (tc_members s)\<rparr>)"
  using ok ms t lead by (auto simp: comms_ok_defs roster_of_def hcontains_def)

lemma advances_roster:
  assumes "advances s0 s" and "roster_of k ms" and "team_id t = k" "team_deleted_at t = None"
    and "hcontains ms (team_lead t)"
  shows "advances s0 (s\<lparr>tc_teams := hinsert k t (tc_teams s), tc_members := hinsert k ms (tc_members s)\<rparr>)"
  using comms_ok_roster [OF advances_ok [OF assms(1)] assms(2-5)] assms(1) by (simp add: advances_def)

text \<open>Only the lookups of the members matter.\<close>

lemma advances_members_cong:
  "hget ms = hget (tc_members s) \<Longrightarrow> advances s0 (s\<lparr>tc_members := ms\<rparr>) = advances s0 s"
  by (simp add: advances_def comms_ok_defs)

lemma advances_counters [simp]:
  "advances s0 (s\<lparr>tc_next_team := n\<rparr>) = advances s0 s" "advances s0 (s\<lparr>tc_next_message := n\<rparr>) = advances s0 s"
  "advances s0 (s\<lparr>tc_next_delivery := n\<rparr>) = advances s0 s"
  by (rule advances_view, simp add: tview_def)+

lemma roster_upd_order:
  fixes s :: "('p, 'z) comms_scheme"
  shows "s\<lparr>tc_members := ms, tc_teams := ts\<rparr> = s\<lparr>tc_teams := ts, tc_members := ms\<rparr>"
    and "s\<lparr>tc_members := ms, env_clock_reads := n\<rparr> = s\<lparr>env_clock_reads := n, tc_members := ms\<rparr>"
  by simp_all

section \<open>Creating a team\<close>

lemma founding_hget:
  "hget (founding_members team lead others by now) a =
     (if a = lead \<or> a \<in> set others then Some (founding_member team a by now) else None)"
proof -
  have "hget (fold (\<lambda>a ms. if a = lead then ms else hinsert a (founding_member team a by now) ms) xs ms) a =
      (if a \<in> set xs \<and> a \<noteq> lead then Some (founding_member team a by now) else hget ms a)" for xs ms
    by (induction xs arbitrary: ms) auto
  then show ?thesis by (simp add: founding_members_def)
qed

lemma founding_roster: "roster_of team (founding_members team lead others by now)"
proof -
  have "hm_wf (fold (\<lambda>a ms. if a = lead then ms else hinsert a (founding_member team a by now) ms) xs ms)" if "hm_wf ms" for xs ms
    using that by (induction xs arbitrary: ms) auto
  then have "hm_wf (founding_members team lead others by now)" by (simp add: founding_members_def)
  then show ?thesis by (auto simp: roster_of_def founding_hget founding_member_def split: if_splits)
qed

lemma advances_register [preserves_intros]:
  "preserves (advances s0) (register_team name lead others created_by now)"
proof (rule preservesI)
  fix s assume "advances s0 s"
  then show "advances s0 (snd (register_team name lead others created_by now s))"
    using advances_roster [of s0 "s\<lparr>tc_next_team := n\<rparr>" _ _ _ for n] founding_roster
    by (simp add: register_team_def allocate_team_id_def bindE_def [of allocate_team_id] monad_simps Let_def ok_def
        hcontains_def founding_hget split: prod.splits)
qed

lemma advances_create_team: "preserves (advances s0) (create_team req)"
  unfolding create_team_def Let_def by (intro preserves_intros)

section \<open>Joining, leaving and leading\<close>

lemma advances_join_lock [preserves_intros]: "preserves (advances s0) (join_under_lock req team agent now)"
proof (rule preservesI)
  fix s assume adv: "advances s0 s"
  show "advances s0 (snd (join_under_lock req team agent now s))"
  proof (cases "hget (tc_teams s) team")
    case None
    then show ?thesis using adv by (simp add: join_under_lock_def monad_simps)
  next
    case (Some t)
    obtain ms where ms: "hget (tc_members s) team = Some ms" "hcontains ms (team_lead t)"
      using teamD(3)[OF advances_ok [OF adv] Some] by blast
    let ?s = "s\<lparr>tc_members := hentry [] team (\<lambda>ms. ms) (tc_members s)\<rparr>"
    have "hget (hentry [] team (\<lambda>ms. ms) (tc_members s)) = hget (tc_members s)"
      by (rule ext) (simp add: ms)
    then have adv': "advances s0 ?s" using adv advances_members_cong by blast
    let ?m = "joined_member req team agent (team_lead t) now"
    have "roster_of team (hinsert agent ?m ms)"
      using rosterD [OF advances_ok [OF adv] ms(1)] by (intro roster_hinsert) (simp_all add: joined_member_def)
    then have "advances s0 (?s\<lparr>tc_teams := hinsert team (t\<lparr>team_updated_at := now\<rparr>) (tc_teams ?s),
        tc_members := hinsert team (hinsert agent ?m ms) (tc_members ?s)\<rparr>)"
      using teamD(1,2)[OF advances_ok [OF adv] Some] ms(2)
      by (intro advances_roster [OF adv']) (simp_all add: hcontains_def)
    then show ?thesis using adv' Some ms(1)
      by (simp add: join_under_lock_def monad_simps Let_def ok_def err_def roster_upd_order)
  qed
qed

lemma advances_join: "preserves (advances s0) (join_team req)"
  unfolding join_team_def by (auto intro!: preserves_intros split: prod.splits)

text \<open>The next lead is the remaining member with the smallest \<open>(joined_at, agent_id)\<close>.\<close>

lemma next_lead_least:
  assumes "roster_of k ms" and "ms \<noteq> []"
  shows "\<exists>m. next_lead ms = Some (mem_agent_id m) \<and> hget ms (mem_agent_id m) = Some m \<and>
    (\<forall>a m'. hget ms a = Some m' \<longrightarrow> (mem_joined_at m, mem_agent_id m) \<le> (mem_joined_at m', mem_agent_id m'))"
proof -
  let ?key = "\<lambda>m. (mem_joined_at m, mem_agent_id m)"
  obtain m rest where sorted: "sort_key ?key (hvalues ms) = m # rest"
  proof -
    have "length (sort_key ?key (hvalues ms)) = length ms" by (simp add: hvalues_def)
    then show thesis using that assms(2) by (cases "sort_key ?key (hvalues ms)") auto
  qed
  have wf: "hm_wf ms" using assms(1) by (simp add: roster_of_def)
  have vals: "set (m # rest) = set (hvalues ms)" by (simp flip: sorted)
  then obtain a where "hget ms a = Some m" using hvalues_hget [OF wf] by (metis list.set_intros(1))
  moreover from this have "mem_agent_id m = a" using assms(1) by (simp add: roster_of_def)
  moreover have "?key m \<le> ?key m'" if "hget ms b = Some m'" for b m'
  proof -
    have "m' \<in> set (m # rest)" using vals hvalues_hget [OF wf] that by blast
    moreover have "sorted (map ?key (m # rest))" by (metis sorted sorted_sort_key)
    ultimately show ?thesis by auto
  qed
  ultimately show ?thesis using sorted by (auto simp: next_lead_def)
qed

lemma hremove_nonempty: "hm_wf ms \<Longrightarrow> 1 < length ms \<Longrightarrow> hremove a ms \<noteq> []"
proof
  assume wf: "hm_wf ms" and len: "1 < length ms" and "hremove a ms = []"
  then have "\<forall>k. hget ms k \<noteq> None \<longrightarrow> k = a" by (metis hget_Nil hget_hremove)
  then have "set (hkeys ms) \<subseteq> {a}" by (auto simp: hkeys_set)
  then have "card (set (hkeys ms)) \<le> card {a}" by (intro card_mono) simp_all
  moreover have "card (set (hkeys ms)) = length ms"
    using wf distinct_card [of "hkeys ms"] by (simp add: hm_wf_def hkeys_def)
  ultimately show False using len by simp
qed

text \<open>A removal that passes the checks: the new roster and the lead it ends with.\<close>

lemma remove_under_lock_run:
  assumes ok: "comms_ok s" and t: "hget (tc_teams s) team = Some t" and ms: "hget (tc_members s) team = Some ms"
    and agent: "hcontains ms agent" and len: "1 < length ms"
  shows "\<exists>lead. remove_under_lock team agent s =
      (Inr (t\<lparr>team_lead := lead, team_updated_at := env_clock s (env_clock_reads s)\<rparr>),
       s\<lparr>tc_members := hinsert team (hremove agent ms) (tc_members s), env_clock_reads := Suc (env_clock_reads s),
         tc_teams := hinsert team (t\<lparr>team_lead := lead, team_updated_at := env_clock s (env_clock_reads s)\<rparr>) (tc_teams s)\<rparr>) \<and>
    hcontains (hremove agent ms) lead \<and>
    (if team_lead t = agent then next_lead (hremove agent ms) = Some lead else lead = team_lead t)"
proof (cases "team_lead t = agent")
  case False
  obtain ms' where "hget (tc_members s) team = Some ms'" "hcontains ms' (team_lead t)" using teamD(3)[OF ok t] by blast
  then have "hcontains (hremove agent ms) (team_lead t)" using False ms by (simp add: hcontains_def)
  then show ?thesis using False t ms agent len
    by (intro exI [of _ "team_lead t"]) (simp add: remove_under_lock_def monad_simps Let_def ok_def)
next
  case True
  have roster: "roster_of team ms" using rosterD [OF ok ms] .
  then have "hremove agent ms \<noteq> []" using len by (intro hremove_nonempty) (simp_all add: roster_of_def)
  then obtain m where "next_lead (hremove agent ms) = Some (mem_agent_id m)" "hget (hremove agent ms) (mem_agent_id m) = Some m"
    using next_lead_least [OF roster_hremove [OF roster]] by blast
  moreover from this have "hcontains (hremove agent ms) (mem_agent_id m)" unfolding hcontains_def by simp
  ultimately show ?thesis using True t ms agent len
    by (intro exI [of _ "mem_agent_id m"]) (simp add: remove_under_lock_def monad_simps Let_def ok_def)
qed

lemma advances_remove_lock [preserves_intros]: "preserves (advances s0) (remove_under_lock team agent)"
proof (rule preservesI)
  fix s assume adv: "advances s0 s"
  note ok = advances_ok [OF adv]
  show "advances s0 (snd (remove_under_lock team agent s))"
  proof (cases "\<exists>t ms. hget (tc_teams s) team = Some t \<and> hget (tc_members s) team = Some ms \<and> hcontains ms agent \<and> 1 < length ms")
    case False
    then show ?thesis using adv
      by (auto simp: remove_under_lock_def monad_simps err_def not_less split: option.splits)
  next
    case True
    then obtain t ms where t: "hget (tc_teams s) team = Some t" and ms: "hget (tc_members s) team = Some ms"
      and rest: "hcontains ms agent" "1 < length ms" by blast
    let ?s = "s\<lparr>env_clock_reads := Suc (env_clock_reads s)\<rparr>"
    have "advances s0 (?s\<lparr>tc_teams := hinsert team (t\<lparr>team_lead := lead, team_updated_at := now\<rparr>) (tc_teams ?s),
        tc_members := hinsert team (hremove agent ms) (tc_members ?s)\<rparr>)"
      if "hcontains (hremove agent ms) lead" for lead now
      using teamD(1,2)[OF ok t] that rosterD [OF ok ms] adv by (intro advances_roster roster_hremove) simp_all
    then show ?thesis using remove_under_lock_run [OF ok t ms rest] by (auto simp: roster_upd_order)
  qed
qed

lemma advances_remove: "preserves (advances s0) (remove_team_member team agent)"
  unfolding remove_team_member_def by (intro preserves_intros)

lemma advances_lead_lock [preserves_intros]: "preserves (advances s0) (lead_under_lock team lead)"
proof (rule preservesI)
  fix s assume adv: "advances s0 s"
  note ok = advances_ok [OF adv]
  let ?s = "s\<lparr>env_clock_reads := Suc (env_clock_reads s)\<rparr>"
  have "advances s0 (s\<lparr>env_clock_reads := Suc (env_clock_reads s), tc_teams := hinsert team (t\<lparr>team_lead := lead, team_updated_at := now\<rparr>) (tc_teams s)\<rparr>)"
    if t: "hget (tc_teams s) team = Some t" and ms: "hget (tc_members s) team = Some ms" "hcontains ms lead" for t ms now
  proof -
    have "hget (hinsert team ms (tc_members s)) = hget (tc_members s)" by (rule ext) (simp add: ms)
    moreover have "advances s0 (?s\<lparr>tc_teams := hinsert team (t\<lparr>team_lead := lead, team_updated_at := now\<rparr>) (tc_teams ?s),
        tc_members := hinsert team ms (tc_members ?s)\<rparr>)"
      using teamD(1,2)[OF ok t] ms rosterD [OF ok ms(1)] adv by (intro advances_roster) simp_all
    ultimately show ?thesis
      using advances_members_cong [of "hinsert team ms (tc_members s)" "s\<lparr>env_clock_reads := Suc (env_clock_reads s), tc_teams := hinsert team (t\<lparr>team_lead := lead, team_updated_at := now\<rparr>) (tc_teams s)\<rparr>"]
      by simp
  qed
  then show "advances s0 (snd (lead_under_lock team lead s))" using adv
    by (auto simp: lead_under_lock_def monad_simps ensure_member_def Let_def ok_def split: option.splits if_splits)
qed

lemma advances_set_lead: "preserves (advances s0) (set_team_lead team lead)"
  unfolding set_team_lead_def by (auto intro!: preserves_intros split: option.splits)

end
