(* ===== verification/Team_Creation.thy ===== *)
theory Team_Creation
  imports Team_Membership
begin

text \<open>
  Creating a message with its deliveries: the ids it takes are unused and pairwise different, the
  message and every delivery are filed in all indexes, and the idempotency key leads back to the
  message.
\<close>

section \<open>Taking ids for a batch of deliveries\<close>

text \<open>
  Each delivery advances the counter by at most one more than the number of deliveries in use, so
  a batch stays clear of its own ids as long as this bound is below \<open>2^64\<close>.
\<close>

definition batch_fits :: "nat \<Rightarrow> ('p, 'z) comms_scheme \<Rightarrow> bool" where
  "batch_fits n s \<longleftrightarrow> n * Suc (length (tc_deliveries s)) < 2 ^ 64"

definition id_room :: "('p, 'z) comms_scheme \<Rightarrow> bool" where
  "id_room s \<longleftrightarrow> length (tc_teams s) < 2 ^ 64 \<and> length (tc_messages s) < 2 ^ 64 \<and>
     length (tc_deliveries s) < 2 ^ 64 \<and> batch_fits (tc_max_pending s) s"

definition made_deliveries ::
  "team_message_record \<Rightarrow> int \<Rightarrow> (string \<times> string) list \<Rightarrow> string list \<Rightarrow> team_delivery_record list" where
  "made_deliveries message now rps ids = map2 (\<lambda>rp i. new_delivery message i (fst rp) (snd rp) now) rps ids"

lemma made_ids: "length ids = length rps \<Longrightarrow> map dlv_id (made_deliveries message now rps ids) = ids"
  by (induction rps ids rule: list_induct2') (auto simp: made_deliveries_def new_delivery_def)

lemma made_recipients:
  "length ids = length rps \<Longrightarrow> map dlv_recipient (made_deliveries message now rps ids) = map fst rps"
  by (induction rps ids rule: list_induct2') (auto simp: made_deliveries_def new_delivery_def)

lemma made_fields:
  "d \<in> set (made_deliveries message now rps ids) \<Longrightarrow>
     dlv_message_id d = msg_id message \<and> dlv_team_id d = msg_team_id message \<and> dlv_status d = ''pending'' \<and>
     dlv_effective_policy d = Some (msg_policy message)"
  by (induction rps ids rule: list_induct2') (auto simp: made_deliveries_def new_delivery_def)

lemma allocate_batch:
  assumes "length (tc_deliveries s) < 2 ^ 64" and "batch_fits (length rps) s"
  shows "\<exists>ids k. for_fold rps acc (allocate_delivery message now) s =
      (Inr (acc @ made_deliveries message now rps ids), s\<lparr>tc_next_delivery := tc_next_delivery s + of_nat k\<rparr>) \<and>
    length ids = length rps \<and> distinct ids \<and> k \<le> length rps * Suc (length (tc_deliveries s)) \<and>
    (\<forall>i \<in> set ids. hget (tc_deliveries s) i = None \<and> (\<exists>j < k. i = counter_id ''dlv'' (tc_next_delivery s + of_nat j)))"
  using assms
proof (induction rps arbitrary: s acc)
  case Nil
  have "s = s\<lparr>tc_next_delivery := tc_next_delivery s + of_nat 0\<rparr>" by simp
  then show ?case by (intro exI [of _ "[]"] exI [of _ 0]) (simp add: ok_def made_deliveries_def)
next
  case (Cons rp rps)
  let ?L = "length (tc_deliveries s)" and ?n = "tc_next_delivery s"
  obtain k0 where k0: "k0 \<le> ?L"
    "allocate_delivery_id s = (Inr (counter_id ''dlv'' (?n + of_nat k0)), s\<lparr>tc_next_delivery := ?n + of_nat k0 + 1\<rparr>)"
    "hget (tc_deliveries s) (counter_id ''dlv'' (?n + of_nat k0)) = None"
    using allocate_delivery_run [OF Cons.prems(1)] by blast
  let ?i = "counter_id ''dlv'' (?n + of_nat k0)" and ?s = "s\<lparr>tc_next_delivery := ?n + of_nat k0 + 1\<rparr>"
  let ?d = "new_delivery message ?i (fst rp) (snd rp) now"
  have step: "allocate_delivery message now rp acc s = (Inr (acc @ [?d]), ?s)"
    using k0(2) by (simp add: allocate_delivery_def bindE_Inr ok_def)
  have "batch_fits (length rps) ?s" using Cons.prems(2) by (simp add: batch_fits_def)
  then obtain ids k where run: "for_fold rps (acc @ [?d]) (allocate_delivery message now) ?s =
      (Inr ((acc @ [?d]) @ made_deliveries message now rps ids), ?s\<lparr>tc_next_delivery := tc_next_delivery ?s + of_nat k\<rparr>)"
    and ids: "length ids = length rps" "distinct ids" "k \<le> length rps * Suc ?L"
      "\<forall>i \<in> set ids. hget (tc_deliveries s) i = None \<and> (\<exists>j < k. i = counter_id ''dlv'' (tc_next_delivery ?s + of_nat j))"
    using Cons.IH [of ?s "acc @ [?d]"] Cons.prems(1) by auto
  have later: "i = counter_id ''dlv'' (?n + of_nat (k0 + 1 + j))" if "i = counter_id ''dlv'' (tc_next_delivery ?s + of_nat j)" for i j
    using that by (simp add: algebra_simps)
  have bound: "k0 + 1 + k < 2 ^ 64"
  proof -
    have "k0 + 1 + k \<le> Suc (length rps) * Suc ?L" using k0(1) ids(3) by simp
    then show ?thesis using Cons.prems(2) by (simp add: batch_fits_def)
  qed
  have fresh: "?i \<notin> set ids"
  proof
    assume "?i \<in> set ids"
    then obtain j where j: "j < k" "?i = counter_id ''dlv'' (?n + of_nat (k0 + 1 + j))" using ids(4) later by metis
    then have "k0 = k0 + 1 + j"
      using inj_onD [OF of_nat_word_inj [of ?n], of k0 "k0 + 1 + j"] bound unfolding counter_id_inject by simp
    then show False by simp
  qed
  have "for_fold (rp # rps) acc (allocate_delivery message now) s =
      (Inr (acc @ made_deliveries message now (rp # rps) (?i # ids)), s\<lparr>tc_next_delivery := ?n + of_nat (k0 + 1 + k)\<rparr>)"
    using step run by (simp add: bindE_Inr made_deliveries_def algebra_simps)
  moreover have "\<forall>i \<in> set (?i # ids). hget (tc_deliveries s) i = None \<and> (\<exists>j < k0 + 1 + k. i = counter_id ''dlv'' (?n + of_nat j))"
  proof
    fix i assume "i \<in> set (?i # ids)"
    then consider "i = ?i" | "i \<in> set ids" by auto
    then show "hget (tc_deliveries s) i = None \<and> (\<exists>j < k0 + 1 + k. i = counter_id ''dlv'' (?n + of_nat j))"
    proof cases
      case 1
      then show ?thesis using k0(3) by (intro conjI exI [of _ k0]) simp_all
    next
      case 2
      then obtain j where "j < k" "i = counter_id ''dlv'' (tc_next_delivery ?s + of_nat j)" "hget (tc_deliveries s) i = None"
        using ids(4) by blast
      then show ?thesis using later by (intro conjI exI [of _ "k0 + 1 + j"]) simp_all
    qed
  qed
  ultimately show ?case
    using ids fresh k0(1) by (intro exI [of _ "?i # ids"] exI [of _ "k0 + 1 + k"]) simp
qed

section \<open>Filing a message and its deliveries\<close>

lemma comms_ok_add_message:
  assumes ok: "comms_ok s" and fresh: "hget (tc_messages s) (msg_id m) = None" and team: "hcontains (tc_teams s) (msg_team_id m)"
    and key: "case idx of None \<Rightarrow> True | Some k \<Rightarrow> message_key m = Some k"
  shows "comms_ok (s\<lparr>tc_messages := hinsert (msg_id m) m (tc_messages s),
      tc_team_messages := push_id (msg_team_id m) (msg_id m) (tc_team_messages s),
      tc_idempotency := (case idx of None \<Rightarrow> tc_idempotency s | Some k \<Rightarrow> hinsert k (msg_id m) (tc_idempotency s))\<rparr>)"
    (is "comms_ok ?s")
proof -
  have old: "hget (tc_messages s) i = Some m' \<Longrightarrow> i \<noteq> msg_id m" for i m' using fresh by auto
  have "indexes_ok ?s"
    using idx.grouped_push [of "tc_team_messages s" "hget (tc_messages s)" msg_team_id "msg_id m" m] ok fresh
    by (simp add: comms_ok_def indexes_ok_def hget_hinsert_fun)
  moreover have "rosters_ok ?s" using ok by (simp add: comms_ok_def rosters_ok_def)
  moreover have "messages_ok ?s" using ok team by (simp add: comms_ok_def messages_ok_def)
  moreover have "deliveries_ok ?s" using ok fresh by (fastforce simp: comms_ok_def deliveries_ok_def)
  moreover have "keys_ok ?s" unfolding keys_ok_def
  proof (intro allI impI)
    fix k i assume k: "hget (tc_idempotency ?s) k = Some i"
    show "\<exists>m'. hget (tc_messages ?s) i = Some m' \<and> message_key m' = Some k"
    proof (cases "idx = Some k")
      case True
      then show ?thesis using k key by simp
    next
      case False
      then have "hget (tc_idempotency s) k = Some i" using k by (auto split: option.splits if_splits)
      then obtain m' where "hget (tc_messages s) i = Some m'" "message_key m' = Some k"
        using comms_okD(5)[OF ok] by (auto simp: keys_ok_def)
      then show ?thesis using old by auto
    qed
  qed
  ultimately show ?thesis by (simp add: comms_ok_def)
qed

lemma advances_index:
  assumes adv: "advances s0 s" and fresh: "hget (tc_deliveries s) (dlv_id d) = None" and status: "dlv_status d = ''pending''"
    and msg: "hget (tc_messages s) (dlv_message_id d) = Some m" "msg_team_id m = dlv_team_id d"
  shows "advances s0 (index_delivery d s)"
proof -
  note ok = advances_ok [OF adv]
  have old: "hget (tc_deliveries s) i = Some d' \<Longrightarrow> i \<noteq> dlv_id d" for i d' using fresh by auto
  have "indexes_ok (index_delivery d s)"
    using ok fresh idx.grouped_push [of _ "hget (tc_deliveries s)" _ "dlv_id d" d]
    by (simp add: comms_ok_def indexes_ok_def index_delivery_def hget_hinsert_fun)
  moreover have "deliveries_ok (index_delivery d s)"
    using ok msg status by (auto simp: comms_ok_def deliveries_ok_def index_delivery_def delivery_statuses_def)
  moreover have "rosters_ok (index_delivery d s)" "messages_ok (index_delivery d s)" "keys_ok (index_delivery d s)"
    using ok by (simp_all add: comms_ok_defs index_delivery_def)
  ultimately have "comms_ok (index_delivery d s)" by (simp add: comms_ok_def)
  then show ?thesis using adv old by (force simp: advances_def index_delivery_def)
qed

lemma advances_index_all:
  assumes "advances s0 s" and "distinct (map dlv_id ds)"
    and "\<forall>d \<in> set ds. hget (tc_deliveries s) (dlv_id d) = None \<and> dlv_status d = ''pending'' \<and>
      dlv_message_id d = msg_id m \<and> dlv_team_id d = msg_team_id m"
    and "hget (tc_messages s) (msg_id m) = Some m"
  shows "advances s0 (fold index_delivery ds s)"
  using assms
proof (induction ds arbitrary: s)
  case Nil
  then show ?case by simp
next
  case (Cons d ds)
  have one: "advances s0 (index_delivery d s)" using Cons.prems by (intro advances_index [where m = m]) auto
  have "\<forall>e \<in> set ds. hget (tc_deliveries (index_delivery d s)) (dlv_id e) = None \<and> dlv_status e = ''pending'' \<and>
      dlv_message_id e = msg_id m \<and> dlv_team_id e = msg_team_id m"
    using Cons.prems(2,3) by (auto simp: index_delivery_def) (metis imageI)
  then show ?case using Cons.IH [OF one] Cons.prems(2,4) by (simp add: index_delivery_def)
qed

lemma advances_record:
  assumes "advances s0 s" and "hget (tc_messages s) (msg_id m) = None" and "hcontains (tc_teams s) (msg_team_id m)"
    and "case idx of None \<Rightarrow> True | Some k \<Rightarrow> message_key m = Some k" and "distinct (map dlv_id ds)"
    and "\<forall>d \<in> set ds. hget (tc_deliveries s) (dlv_id d) = None \<and> dlv_status d = ''pending'' \<and>
      dlv_message_id d = msg_id m \<and> dlv_team_id d = msg_team_id m"
  shows "advances s0 (record_message m idx ds s)"
proof -
  have "advances s0 (s\<lparr>tc_messages := hinsert (msg_id m) m (tc_messages s),
      tc_team_messages := push_id (msg_team_id m) (msg_id m) (tc_team_messages s),
      tc_idempotency := (case idx of None \<Rightarrow> tc_idempotency s | Some k \<Rightarrow> hinsert k (msg_id m) (tc_idempotency s))\<rparr>)"
    using comms_ok_add_message [OF advances_ok [OF assms(1)] assms(2-4)] assms(1) by (simp add: advances_def)
  then show ?thesis unfolding record_message_def by (rule advances_index_all) (use assms in auto)
qed

section \<open>The locked block\<close>

lemma normalized_idem: "normalized_non_empty key = Some k \<Longrightarrow> normalized_non_empty (Some k) = Some k"
  by (auto simp: normalized_non_empty_def non_empty_trimmed_def Let_def split: option.splits if_splits)

lemma ensure_member_ok: "hcontains ms a \<Longrightarrow> ensure_member (Some ms) a team = Inr ()"
  by (simp add: ensure_member_def)

lemma members_checked:
  "\<forall>rp \<in> set rps. hcontains ms (fst rp) \<Longrightarrow>
     for_each rps (\<lambda>rp. lift_result (ensure_member (Some ms) (fst rp) team)) = ok ()"
  by (induction rps) (auto simp: ensure_member_ok fun_eq_iff bindE_lift)

text \<open>What the block does when the checks pass and the key is new.\<close>

lemma create_under_lock_new:
  assumes team: "hget (tc_teams s) (mr_team req) = Some team" and ms: "hget (tc_members s) (mr_team req) = Some ms"
    and members: "hcontains ms sender" "\<forall>rp \<in> set rps. hcontains ms (fst rp)"
    and new: "\<And>k. key = Some k \<Longrightarrow> existing_ack (idempotency_index_key (mr_team req) sender scope k) s = None"
    and room: "length (tc_messages s) < 2 ^ 64" "length (tc_deliveries s) < 2 ^ 64" "batch_fits (length rps) s"
  shows "\<exists>mid ids nm nd. let now = env_clock s (env_clock_reads s);
      message = new_message req mid (team_id team) scope sender priority policy rps key now;
      ds = made_deliveries message now rps ids in
    create_under_lock req scope sender priority policy rps key s =
      (Inr \<lparr>tma_message = message, tma_deliveries = ds, tma_disposition = ''created''\<rparr>,
       record_message message (map_option (idempotency_index_key (mr_team req) sender scope) key) ds
         (s\<lparr>env_clock_reads := Suc (env_clock_reads s), tc_next_message := nm, tc_next_delivery := nd\<rparr>)) \<and>
    hget (tc_messages s) mid = None \<and> length ids = length rps \<and> distinct ids \<and>
    (\<forall>i \<in> set ids. hget (tc_deliveries s) i = None)"
proof -
  let ?s1 = "s\<lparr>env_clock_reads := Suc (env_clock_reads s)\<rparr>"
  obtain mid nm where m: "allocate_message_id ?s1 = (Inr mid, ?s1\<lparr>tc_next_message := nm\<rparr>)" "hget (tc_messages s) mid = None"
    using allocate_message_run [of ?s1] room(1) by auto
  let ?now = "env_clock s (env_clock_reads s)"
  let ?message = "new_message req mid (team_id team) scope sender priority policy rps key ?now"
  let ?s2 = "?s1\<lparr>tc_next_message := nm\<rparr>"
  obtain ids k where ds: "for_fold rps [] (allocate_delivery ?message ?now) ?s2 =
      (Inr (made_deliveries ?message ?now rps ids), ?s2\<lparr>tc_next_delivery := tc_next_delivery ?s2 + of_nat k\<rparr>)"
    "length ids = length rps" "distinct ids" "\<forall>i \<in> set ids. hget (tc_deliveries s) i = None"
    using allocate_batch [of ?s2 rps "[]" ?message ?now] room(2,3) by (auto simp: batch_fits_def)
  have none: "Option.bind (map_option (idempotency_index_key (mr_team req) sender scope) key) (\<lambda>k. existing_ack k s) = None"
    using new by (cases key) auto
  show ?thesis
    using m ds team ms members(1) none
    by (intro exI [of _ mid] exI [of _ ids] exI [of _ nm] exI [of _ "tc_next_delivery ?s2 + of_nat k"])
      (simp add: create_under_lock_def monad_simps ensure_member_ok members_checked [OF members(2)] bindE_Inr [of allocate_message_id ?s1 mid, OF m(1)]
        bindE_Inr [of "for_fold rps [] (allocate_delivery ?message ?now)" ?s2, OF ds(1)] Let_def ok_def)
qed

lemma create_under_lock_cases:
  fixes s :: "('p, 'z) comms_scheme"
  obtains (refused) e where "create_under_lock req scope sender priority policy rps key s = (Inl e, s)"
  | (existing) ack k where "create_under_lock req scope sender priority policy rps key s = (Inr ack, s)"
      "key = Some k" "existing_ack (idempotency_index_key (mr_team req) sender scope k) s = Some ack"
  | (fresh) team ms where "hget (tc_teams s) (mr_team req) = Some team" "hget (tc_members s) (mr_team req) = Some ms"
      "hcontains ms sender" "\<forall>rp \<in> set rps. hcontains ms (fst rp)"
      "\<And>k. key = Some k \<Longrightarrow> existing_ack (idempotency_index_key (mr_team req) sender scope k) s = None"
proof -
  have checks: "(\<exists>e. for_each xs (\<lambda>rp. lift_result (ensure_member mss (fst rp) team)) s = (Inl e, s)) \<or>
      (for_each xs (\<lambda>rp. lift_result (ensure_member mss (fst rp) team)) s = (Inr (), s) \<and>
       (\<forall>rp \<in> set xs. \<exists>ms. mss = Some ms \<and> hcontains ms (fst rp)))" for xs :: "(string \<times> string) list" and mss team
    by (induction xs) (auto simp: ok_def bindE_lift ensure_member_def split: option.splits)
  show thesis
  proof (cases "\<exists>team ms. hget (tc_teams s) (mr_team req) = Some team \<and> hget (tc_members s) (mr_team req) = Some ms \<and>
      hcontains ms sender \<and> (\<forall>rp \<in> set rps. hcontains ms (fst rp))")
    case False
    then have "\<exists>e. create_under_lock req scope sender priority policy rps key s = (Inl e, s)"
      using checks [of rps "hget (tc_members s) (mr_team req)" "mr_team req"]
      by (auto simp: create_under_lock_def monad_simps ensure_member_def bindE_Inl split: option.splits)
    then show thesis using refused by blast
  next
    case True
    then obtain team ms where team: "hget (tc_teams s) (mr_team req) = Some team" "hget (tc_members s) (mr_team req) = Some ms"
      "hcontains ms sender" "\<forall>rp \<in> set rps. hcontains ms (fst rp)" by blast
    show thesis
    proof (cases "Option.bind (map_option (idempotency_index_key (mr_team req) sender scope) key) (\<lambda>k. existing_ack k s)")
      case None
      then show thesis using fresh [OF team] by (cases key) auto
    next
      case (Some ack)
      then obtain k where "key = Some k" "existing_ack (idempotency_index_key (mr_team req) sender scope k) s = Some ack"
        by (cases key) auto
      then show thesis using existing [of ack k] Some team
        by (simp add: create_under_lock_def monad_simps ensure_member_ok members_checked [OF team(4)] Let_def ok_def [of ack])
    qed
  qed
qed

lemma new_message_simps [simp]:
  "msg_id (new_message req mid team scope sender priority policy rps key now) = mid"
  "msg_team_id (new_message req mid team scope sender priority policy rps key now) = team"
  "msg_sender (new_message req mid team scope sender priority policy rps key now) = sender"
  "msg_scope (new_message req mid team scope sender priority policy rps key now) = scope"
  "msg_policy (new_message req mid team scope sender priority policy rps key now) = policy"
  "msg_input (new_message req mid team scope sender priority policy rps key now) = mr_input req"
  "msg_idempotency_key (new_message req mid team scope sender priority policy rps key now) = key"
  by (simp_all add: new_message_def)

lemma advances_create_lock:
  assumes adv: "advances s0 s" and key: "key = normalized_non_empty raw"
    and room: "length (tc_messages s) < 2 ^ 64" "length (tc_deliveries s) < 2 ^ 64" "batch_fits (length rps) s"
  shows "advances s0 (snd (create_under_lock req scope sender priority policy rps key s))"
proof (cases rule: create_under_lock_cases [of req scope sender priority policy rps key s])
  case (refused e)
  then show ?thesis using adv by simp
next
  case (existing ack k)
  then show ?thesis using adv by simp
next
  case (fresh team ms)
  let ?now = "env_clock s (env_clock_reads s)"
  obtain mid ids nm nd where run: "create_under_lock req scope sender priority policy rps key s =
      (Inr \<lparr>tma_message = new_message req mid (team_id team) scope sender priority policy rps key ?now,
            tma_deliveries = made_deliveries (new_message req mid (team_id team) scope sender priority policy rps key ?now) ?now rps ids,
            tma_disposition = ''created''\<rparr>,
       record_message (new_message req mid (team_id team) scope sender priority policy rps key ?now)
         (map_option (idempotency_index_key (mr_team req) sender scope) key)
         (made_deliveries (new_message req mid (team_id team) scope sender priority policy rps key ?now) ?now rps ids)
         (s\<lparr>env_clock_reads := Suc (env_clock_reads s), tc_next_message := nm, tc_next_delivery := nd\<rparr>))"
    "hget (tc_messages s) mid = None" "length ids = length rps" "distinct ids" "\<forall>i \<in> set ids. hget (tc_deliveries s) i = None"
    using create_under_lock_new [where key = key and priority = priority and policy = policy, OF fresh room] by (auto simp: Let_def)
  have id: "team_id team = mr_team req" using teamD(1)[OF advances_ok [OF adv] fresh(1)] .
  let ?m = "new_message req mid (team_id team) scope sender priority policy rps key ?now"
  let ?ds = "made_deliveries ?m ?now rps ids"
  have filed: "\<forall>d \<in> set ?ds. hget (tc_deliveries s) (dlv_id d) = None \<and> dlv_status d = ''pending'' \<and>
      dlv_message_id d = msg_id ?m \<and> dlv_team_id d = msg_team_id ?m"
  proof
    fix d assume d: "d \<in> set ?ds"
    then have "dlv_id d \<in> set (map dlv_id ?ds)" by simp
    then show "hget (tc_deliveries s) (dlv_id d) = None \<and> dlv_status d = ''pending'' \<and>
        dlv_message_id d = msg_id ?m \<and> dlv_team_id d = msg_team_id ?m"
      using made_fields [OF d] run(3,5) by (simp only: made_ids)
  qed
  have "case map_option (idempotency_index_key (mr_team req) sender scope) key of None \<Rightarrow> True | Some k \<Rightarrow> message_key ?m = Some k"
    using key normalized_idem by (auto simp: message_key_def id split: option.splits)
  then have "advances s0 (record_message ?m (map_option (idempotency_index_key (mr_team req) sender scope) key) ?ds
      (s\<lparr>env_clock_reads := Suc (env_clock_reads s), tc_next_message := nm, tc_next_delivery := nd\<rparr>))"
    using adv run(2-4) filed fresh(1) id
    by (intro advances_record) (simp_all add: hcontains_def made_ids)
  then show ?thesis using run(1) by simp
qed

section \<open>Sending\<close>

lemma require_active_run:
  "require_session_active i s =
     (case hget (mg_sessions s) i of
        None \<Rightarrow> Inl (NotFound (''session '' @ i))
      | Some r \<Rightarrow> if sess_status r = ''closed'' \<or> sess_status r = ''failed''
                  then Inl (InvalidState (''session '' @ i @ '' is not available in status '' @ sess_status r))
                  else Inr r, s)"
  by (simp add: require_session_active_def monad_simps ok_def err_def split: option.splits)

lemma resolve_step:
  "resolve_recipient x acc s =
     (if trim x = [] then (Inl (InvalidState ''recipient_agent_id cannot be empty''), s)
      else if trim x \<in> fst ` set acc then (Inr acc, s)
      else case fst (require_session_active (trim x) s) of
             Inl e \<Rightarrow> (Inl e, s) | Inr session \<Rightarrow> (Inr (acc @ [(trim x, sess_provider session)]), s))"
  by (simp add: resolve_recipient_def monad_simps normalize_non_empty_def Let_def ok_def
      bindE_def [of "require_session_active (trim x)"] require_active_run split: option.splits)

lemma resolve_all:
  "\<exists>r. for_fold xs acc resolve_recipient s = (r, s) \<and>
     (\<forall>rps. r = Inr rps \<longrightarrow> length rps \<le> length acc + length xs)"
proof (induction xs arbitrary: acc)
  case Nil
  then show ?case by (simp add: ok_def)
next
  case (Cons x xs)
  show ?case
  proof (cases "resolve_recipient x acc s")
    case (Pair r s')
    then have "s' = s" "\<And>a. r = Inr a \<Longrightarrow> length a \<le> Suc (length acc)"
      by (auto simp: resolve_step split: if_splits sum.splits)
    then show ?thesis using Pair Cons.IH by (cases r) (fastforce simp: bindE_def)+
  qed
qed

lemma bindE_pure: "m s = (r, s) \<Longrightarrow> bindE m f s = (case r of Inl e \<Rightarrow> (Inl e, s) | Inr x \<Rightarrow> f x s)"
  by (simp add: bindE_def split: sum.splits)

lemma advances_create_message:
  assumes adv: "advances s0 s" and room: "id_room s"
  shows "advances s0 (snd (create_message_and_deliveries req s))"
proof -
  have lock: "advances s0 (snd (bindE (create_under_lock req scope sender priority policy rps
      (normalized_non_empty (mr_idempotency_key req))) f s))"
    if "length rps \<le> tc_max_pending s" and "\<And>ack. keeps_team (f ack)" for scope sender priority policy rps and f :: "team_message_ack \<Rightarrow> _"
  proof -
    have "batch_fits (length rps) s" using room that(1) unfolding id_room_def batch_fits_def
      by (meson le_less_trans mult_le_mono1)
    then have "advances s0 (snd (create_under_lock req scope sender priority policy rps (normalized_non_empty (mr_idempotency_key req)) s))"
      using room by (intro advances_create_lock [OF adv refl]) (simp_all add: id_room_def)
    then show ?thesis
      by (cases "create_under_lock req scope sender priority policy rps (normalized_non_empty (mr_idempotency_key req)) s")
        (auto simp: bindE_def intro: advances_after [OF that(2)] split: sum.splits)
  qed
  obtain r where r: "for_fold (mr_recipients req) [] resolve_recipient s = (r, s)" "\<And>rps. r = Inr rps \<Longrightarrow> length rps \<le> length (mr_recipients req)"
    using resolve_all [of "mr_recipients req" "[]" s] by auto
  show ?thesis
    using adv r(2)
    by (auto simp: create_message_and_deliveries_def monad_simps Let_def err_def bindE_pure [of "for_fold _ _ _" s, OF r(1)]
        split: sum.splits intro!: lock preserves_intros)
qed

lemma advances_deliver_created [preserves_intros]: "preserves (advances s0) (deliver_created ack)"
  unfolding deliver_created_def by (intro preserves_intros)

lemma advances_bind:
  assumes "advances s0 (snd (m s))" and "\<And>x. preserves (advances s0) (f x)"
  shows "advances s0 (snd (bindE m f s))"
  using assms by (auto simp: bindE_def preserves_def split: prod.splits sum.splits)

lemma advances_send_direct:
  assumes "advances s0 s" and "id_room s"
  shows "advances s0 (snd (send_direct req s))"
  using assms
  by (auto simp: send_direct_def ensure_enabled_def monad_simps ok_def err_def bindE_err
      intro!: advances_bind advances_create_message preserves_intros split: sum.splits)

lemma advances_broadcast:
  assumes "advances s0 s" and "id_room s"
  shows "advances s0 (snd (broadcast req s))"
  using assms
  by (auto simp: broadcast_def ensure_enabled_def monad_simps ok_def err_def bindE_err
      intro!: advances_bind advances_create_message preserves_intros split: sum.splits option.splits)

end
