(* ===== verification/Team_Deletion.thy ===== *)
theory Team_Deletion
  imports Team_Creation
begin

text \<open>
  Deleting a team. The locked block of \<open>delete_team\<close> walks the indexes; this theory shows what is
  left: nothing of the team, everything of the others, and the invariant. The returned deliveries
  are exactly those that were still waiting, cancelled.
\<close>

lemma deliveryD:
  assumes "comms_ok s" and "hget (tc_deliveries s) i = Some d"
  shows "dlv_id d = i" "dlv_status d \<in> delivery_statuses"
    "\<exists>m. hget (tc_messages s) (dlv_message_id d) = Some m \<and> msg_team_id m = dlv_team_id d"
  using assms by (auto simp: comms_ok_def deliveries_ok_def)

section \<open>The loops\<close>

lemma forget_messages:
  fixes s :: "('p, 'z) comms_scheme"
  shows "\<exists>M I. fold forget_message mids s = s\<lparr>tc_messages := M, tc_idempotency := I\<rparr> \<and>
    (\<forall>i. hget M i = (if i \<in> set mids then None else hget (tc_messages s) i)) \<and>
    (\<forall>k. hget I k = (if \<exists>i \<in> set mids. \<exists>m. hget (tc_messages s) i = Some m \<and> message_key m = Some k
                     then None else hget (tc_idempotency s) k))"
proof (induction mids arbitrary: s)
  case Nil
  have "s = s\<lparr>tc_messages := tc_messages s, tc_idempotency := tc_idempotency s\<rparr>" by simp
  then show ?case by (intro exI [of _ "tc_messages s"] exI [of _ "tc_idempotency s"]) simp
next
  case (Cons mid mids)
  obtain Ma Ia where one: "forget_message mid s = s\<lparr>tc_messages := Ma, tc_idempotency := Ia\<rparr>"
    "\<forall>i. hget Ma i = (if i = mid then None else hget (tc_messages s) i)"
    "\<forall>k. hget Ia k = (if \<exists>m. hget (tc_messages s) mid = Some m \<and> message_key m = Some k then None else hget (tc_idempotency s) k)"
  proof (cases "hget (tc_messages s) mid")
    case None
    then show ?thesis
      by (intro that [where Ma = "tc_messages s" and Ia = "tc_idempotency s"]) (simp_all add: forget_message_def)
  next
    case (Some m)
    then show ?thesis
      by (intro that [where Ma = "hremove mid (tc_messages s)" and Ia = "case message_key m of None \<Rightarrow> tc_idempotency s | Some k \<Rightarrow> hremove k (tc_idempotency s)"])
        (auto simp: forget_message_def message_key_def split: option.splits)
  qed
  have "tc_messages (forget_message mid s) = Ma" "tc_idempotency (forget_message mid s) = Ia" by (simp_all add: one(1))
  then obtain M I where rest: "fold forget_message mids (forget_message mid s) = (forget_message mid s)\<lparr>tc_messages := M, tc_idempotency := I\<rparr>"
    "\<forall>i. hget M i = (if i \<in> set mids then None else hget Ma i)"
    "\<forall>k. hget I k = (if \<exists>i \<in> set mids. \<exists>m. hget Ma i = Some m \<and> message_key m = Some k then None else hget Ia k)"
    using Cons.IH [of "forget_message mid s"] by metis
  have "\<forall>k. hget I k = (if \<exists>i \<in> set (mid # mids). \<exists>m. hget (tc_messages s) i = Some m \<and> message_key m = Some k
      then None else hget (tc_idempotency s) k)"
    using rest(3) one(2,3) by auto
  then show ?case using one rest by (intro exI [of _ M] exI [of _ I]) simp
qed

definition waiting :: "team_delivery_record \<Rightarrow> bool" where
  "waiting d \<longleftrightarrow> dlv_status d = ''pending'' \<or> dlv_status d = ''deferred''"

lemma forget_deliveries:
  assumes "grouped (ids_of (tc_recipient_deliveries s)) (hget (tc_deliveries s)) dlv_recipient"
    and "\<forall>i d. hget (tc_deliveries s) i = Some d \<longrightarrow> dlv_id d = i"
  shows "\<exists>out n D R. for_fold dids acc forget_delivery s =
      (Inr (acc @ out), s\<lparr>env_clock_reads := n, tc_deliveries := D, tc_recipient_deliveries := R\<rparr>) \<and>
    (\<forall>i. hget D i = (if i \<in> set dids then None else hget (tc_deliveries s) i)) \<and>
    grouped (ids_of R) (hget D) dlv_recipient \<and>
    (\<forall>d \<in> set out. dlv_status d = ''cancelled'') \<and>
    dlv_id ` set out = {i \<in> set dids. \<exists>d. hget (tc_deliveries s) i = Some d \<and> waiting d}"
  using assms
proof (induction dids arbitrary: s acc)
  case Nil
  then show ?case
    by (intro exI [of _ "[]"] exI [of _ "env_clock_reads s"] exI [of _ "tc_deliveries s"] exI [of _ "tc_recipient_deliveries s"])
      (simp add: ok_def)
next
  case (Cons i dids)
  show ?case
  proof (cases "hget (tc_deliveries s) i")
    case None
    then have step: "forget_delivery i acc s = (Inr acc, s)" by (simp add: forget_delivery_def monad_simps ok_def)
    from Cons.IH [OF Cons.prems, of acc] obtain out n D R where
      run: "for_fold dids acc forget_delivery s =
          (Inr (acc @ out), s\<lparr>env_clock_reads := n, tc_deliveries := D, tc_recipient_deliveries := R\<rparr>)"
        "\<forall>i. hget D i = (if i \<in> set dids then None else hget (tc_deliveries s) i)"
        "grouped (ids_of R) (hget D) dlv_recipient" "\<forall>d \<in> set out. dlv_status d = ''cancelled''"
        "dlv_id ` set out = {i \<in> set dids. \<exists>d. hget (tc_deliveries s) i = Some d \<and> waiting d}" by blast
    have all: "for_fold (i # dids) acc forget_delivery s =
        (Inr (acc @ out), s\<lparr>env_clock_reads := n, tc_deliveries := D, tc_recipient_deliveries := R\<rparr>)"
      using run(1) step by (simp add: bindE_Inr [of "forget_delivery i acc" s])
    have gone: "\<forall>j. hget D j = (if j \<in> set (i # dids) then None else hget (tc_deliveries s) j)" using run(2) None by simp
    have ids: "dlv_id ` set out = {j \<in> set (i # dids). \<exists>d. hget (tc_deliveries s) j = Some d \<and> waiting d}"
      using run(5) None by auto
    show ?thesis using all gone ids run(3,4) by blast
  next
    case (Some d)
    let ?now = "env_clock s (env_clock_reads s)"
    let ?n = "if waiting d then Suc (env_clock_reads s) else env_clock_reads s"
    let ?new = "if waiting d then [d\<lparr>dlv_status := ''cancelled'', dlv_updated_at := ?now\<rparr>] else []"
    let ?s = "s\<lparr>env_clock_reads := ?n, tc_deliveries := hremove i (tc_deliveries s),
      tc_recipient_deliveries := remove_delivery_from_recipient_index (dlv_recipient d) (dlv_id d) (tc_recipient_deliveries s)\<rparr>"
    have id: "dlv_id d = i" using Cons.prems(2) Some by blast
    have step: "forget_delivery i acc s = (Inr (acc @ ?new), ?s)"
      using Some by (auto simp: forget_delivery_def monad_simps ok_def waiting_def)
    have "grouped (ids_of (tc_recipient_deliveries ?s)) (hget (tc_deliveries ?s)) dlv_recipient"
      using idx.grouped_unlist [OF Cons.prems(1) Some] by (simp add: hget_hremove_fun id)
    moreover have "\<forall>j e. hget (tc_deliveries ?s) j = Some e \<longrightarrow> dlv_id e = j" using Cons.prems(2) by (auto split: if_splits)
    ultimately obtain out n D R where
      run: "for_fold dids (acc @ ?new) forget_delivery ?s =
          (Inr ((acc @ ?new) @ out), ?s\<lparr>env_clock_reads := n, tc_deliveries := D, tc_recipient_deliveries := R\<rparr>)"
        "\<forall>i. hget D i = (if i \<in> set dids then None else hget (tc_deliveries ?s) i)"
        "grouped (ids_of R) (hget D) dlv_recipient" "\<forall>d \<in> set out. dlv_status d = ''cancelled''"
        "dlv_id ` set out = {i \<in> set dids. \<exists>d. hget (tc_deliveries ?s) i = Some d \<and> waiting d}"
      using Cons.IH [of ?s "acc @ ?new"] by blast
    have all: "for_fold (i # dids) acc forget_delivery s =
        (Inr (acc @ (?new @ out)), s\<lparr>env_clock_reads := n, tc_deliveries := D, tc_recipient_deliveries := R\<rparr>)"
      using run(1) step by (simp add: bindE_Inr [of "forget_delivery i acc" s])
    have ids: "dlv_id ` set (?new @ out) = {j \<in> set (i # dids). \<exists>d. hget (tc_deliveries s) j = Some d \<and> waiting d}"
    proof (intro set_eqI iffI)
      fix j assume "j \<in> dlv_id ` set (?new @ out)"
      then consider "j = i" "waiting d" | "j \<in> dlv_id ` set out" using id by (auto split: if_splits)
      then show "j \<in> {j \<in> set (i # dids). \<exists>d. hget (tc_deliveries s) j = Some d \<and> waiting d}"
        using Some by cases (auto simp: run(5) split: if_splits)
    next
      fix j assume j: "j \<in> {j \<in> set (i # dids). \<exists>d. hget (tc_deliveries s) j = Some d \<and> waiting d}"
      then show "j \<in> dlv_id ` set (?new @ out)"
        using Some id by (cases "j = i") (auto simp: image_Un run(5))
    qed
    have gone: "\<forall>j. hget D j = (if j \<in> set (i # dids) then None else hget (tc_deliveries s) j)" using run(2) by simp
    have cancelled: "\<forall>d \<in> set (?new @ out). dlv_status d = ''cancelled''" using run(4) by auto
    show ?thesis using all gone cancelled ids run(3) by blast
  qed
qed

section \<open>The locked block\<close>

text \<open>What the deletion of a team leaves: lookups of its own records fail, all others are as before.\<close>

definition only_lost :: "string \<Rightarrow> ('p, 'z) comms_scheme \<Rightarrow> ('p, 'z) comms_scheme \<Rightarrow> bool" where
  "only_lost team s s' \<longleftrightarrow>
     (\<forall>k. hget (tc_teams s') k = (if k = team then None else hget (tc_teams s) k)) \<and>
     (\<forall>k. hget (tc_members s') k = (if k = team then None else hget (tc_members s) k)) \<and>
     (\<forall>i. hget (tc_messages s') i =
        (case hget (tc_messages s) i of None \<Rightarrow> None | Some m \<Rightarrow> if msg_team_id m = team then None else Some m)) \<and>
     (\<forall>i. hget (tc_deliveries s') i =
        (case hget (tc_deliveries s) i of None \<Rightarrow> None | Some d \<Rightarrow> if dlv_team_id d = team then None else Some d))"

lemma delete_ids:
  fixes team :: string
  assumes ok: "comms_ok s"
  defines "mids \<equiv> ids_of (tc_team_messages s) team"
  defines "dids \<equiv> remdups (ids_of (tc_team_deliveries s) team @ concat (map (ids_of (tc_message_deliveries s)) mids))"
  shows "i \<in> set mids \<longleftrightarrow> (\<exists>m. hget (tc_messages s) i = Some m \<and> msg_team_id m = team)"
    and "i \<in> set dids \<longleftrightarrow> (\<exists>d. hget (tc_deliveries s) i = Some d \<and> dlv_team_id d = team)"
proof -
  have idx: "indexes_ok s" using ok by (simp add: comms_ok_def)
  show mids: "i \<in> set mids \<longleftrightarrow> (\<exists>m. hget (tc_messages s) i = Some m \<and> msg_team_id m = team)" for i
    using idx by (simp add: indexes_ok_def mids_def groupedD)
  have "dlv_team_id d = team" if "hget (tc_deliveries s) i = Some d" "dlv_message_id d \<in> set mids" for d
    using deliveryD(3)[OF ok that(1)] that(2) mids by auto
  then show "i \<in> set dids \<longleftrightarrow> (\<exists>d. hget (tc_deliveries s) i = Some d \<and> dlv_team_id d = team)"
    using idx by (auto simp: indexes_ok_def dids_def groupedD)
qed

lemma hget_filter_keys: "hget (filter (\<lambda>kv. P (fst kv)) m) k = (if P k then hget m k else None)"
  by (induction m) (auto simp: hget_def)

lemma comms_ok_deleted:
  fixes team :: string
  assumes ok: "comms_ok s" and lost: "only_lost team s s'"
    and idx: "tc_team_messages s' = hremove team (tc_team_messages s)" "tc_team_deliveries s' = hremove team (tc_team_deliveries s)"
      "tc_message_deliveries s' = fold hremove (ids_of (tc_team_messages s) team) (tc_message_deliveries s)"
      "grouped (ids_of (tc_recipient_deliveries s')) (hget (tc_deliveries s')) dlv_recipient"
    and keys: "\<And>k i. hget (tc_idempotency s') k = Some i \<Longrightarrow> hget (tc_idempotency s) k = Some i \<and>
      (\<forall>m. hget (tc_messages s) i = Some m \<longrightarrow> msg_team_id m \<noteq> team)"
  shows "comms_ok s'"
proof -
  have teams: "hget (tc_teams s') k = (if k = team then None else hget (tc_teams s) k)"
    and members: "hget (tc_members s') k = (if k = team then None else hget (tc_members s) k)"
    and msgs: "hget (tc_messages s') i = (case hget (tc_messages s) i of None \<Rightarrow> None | Some m \<Rightarrow> if msg_team_id m = team then None else Some m)"
    and dels: "hget (tc_deliveries s') i = (case hget (tc_deliveries s) i of None \<Rightarrow> None | Some d \<Rightarrow> if dlv_team_id d = team then None else Some d)"
    for k i using lost by (simp_all add: only_lost_def)
  have dok: "deliveries_ok s" and iok: "indexes_ok s" using ok by (simp_all add: comms_ok_def)
  have "rosters_ok s'" using ok by (auto simp: comms_ok_def rosters_ok_def teams members hcontains_def)
  moreover have "messages_ok s'"
    using ok by (auto simp: comms_ok_def messages_ok_def msgs teams hcontains_def split: option.splits if_splits)
  moreover have "deliveries_ok s'" unfolding deliveries_ok_def
  proof (intro allI impI)
    fix i d assume "hget (tc_deliveries s') i = Some d"
    then have d: "hget (tc_deliveries s) i = Some d" "dlv_team_id d \<noteq> team" by (auto simp: dels split: option.splits if_splits)
    then show "dlv_id d = i \<and> dlv_status d \<in> delivery_statuses \<and>
        (\<exists>m. hget (tc_messages s') (dlv_message_id d) = Some m \<and> msg_team_id m = dlv_team_id d)"
      using dok by (fastforce simp: deliveries_ok_def msgs)
  qed
  moreover have "indexes_ok s'"
  proof -
    have "grouped (ids_of (tc_message_deliveries s')) (hget (tc_deliveries s')) dlv_message_id" unfolding grouped_def
    proof (intro allI conjI)
      fix k
      have ids: "ids_of (tc_message_deliveries s') k =
          (if k \<in> set (ids_of (tc_team_messages s) team) then [] else ids_of (tc_message_deliveries s) k)"
        by (simp add: idx(3) idx.ids_forget_all)
      show "distinct (ids_of (tc_message_deliveries s') k)"
        using iok by (auto simp: ids indexes_ok_def dest: grouped_distinct)
      fix i
      have "dlv_team_id d = team \<longleftrightarrow> k \<in> set (ids_of (tc_team_messages s) team)"
        if "hget (tc_deliveries s) i = Some d" "dlv_message_id d = k" for d
        using that deliveryD(3)[OF ok that(1)] delete_ids(1)[OF ok, of k team] by auto
      then show "i \<in> set (ids_of (tc_message_deliveries s') k) \<longleftrightarrow> (\<exists>d. hget (tc_deliveries s') i = Some d \<and> dlv_message_id d = k)"
        using iok by (auto simp: ids indexes_ok_def groupedD dels split: option.splits if_splits)
    qed
    moreover have "grouped (ids_of (tc_team_messages s')) (hget (tc_messages s')) msg_team_id"
      unfolding idx(1) using iok msgs by (intro idx.grouped_forget [of _ "hget (tc_messages s)"]) (simp_all add: indexes_ok_def)
    moreover have "grouped (ids_of (tc_team_deliveries s')) (hget (tc_deliveries s')) dlv_team_id"
      unfolding idx(2) using iok dels by (intro idx.grouped_forget [of _ "hget (tc_deliveries s)"]) (simp_all add: indexes_ok_def)
    ultimately show ?thesis using idx(4) by (simp add: indexes_ok_def)
  qed
  moreover have "keys_ok s'" unfolding keys_ok_def
  proof (intro allI impI)
    fix k i assume k: "hget (tc_idempotency s') k = Some i"
    then obtain m where "hget (tc_messages s) i = Some m" "message_key m = Some k"
      using conjunct1 [OF keys [OF k]] comms_okD(5)[OF ok] unfolding keys_ok_def by blast
    then show "\<exists>m. hget (tc_messages s') i = Some m \<and> message_key m = Some k" using keys [OF k] by (auto simp: msgs)
  qed
  ultimately show ?thesis by (simp add: comms_ok_def)
qed

lemma delete_under_lock_run:
  fixes s :: "('p, 'z) comms_scheme"
  assumes ok: "comms_ok s" and t: "hget (tc_teams s) team = Some t"
  shows "\<exists>del upd out s'. delete_under_lock team s = (Inr (t\<lparr>team_deleted_at := Some del, team_updated_at := upd\<rparr>, out), s') \<and>
    comms_ok s' \<and> only_lost team s s' \<and> (\<forall>k. starts_with k (team @ ''|'') \<longrightarrow> hget (tc_idempotency s') k = None) \<and>
    env_db s' = env_db s \<and> (\<forall>d \<in> set out. dlv_status d = ''cancelled'') \<and>
    dlv_id ` set out = {i. \<exists>d. hget (tc_deliveries s) i = Some d \<and> dlv_team_id d = team \<and> waiting d}"
proof -
  let ?mids = "ids_of (tc_team_messages s) team"
  let ?dids = "remdups (ids_of (tc_team_deliveries s) team @ concat (map (ids_of (tc_message_deliveries s)) ?mids))"
  note ids = delete_ids [OF ok, of _ team]
  let ?s0 = "s\<lparr>tc_teams := hremove team (tc_teams s), tc_members := hremove team (tc_members s),
    tc_team_messages := hremove team (tc_team_messages s), tc_team_deliveries := hremove team (tc_team_deliveries s)\<rparr>"
  have "tc_messages ?s0 = tc_messages s" "tc_idempotency ?s0 = tc_idempotency s" by simp_all
  note same0 = this
  from forget_messages [of ?mids ?s0, unfolded same0] obtain M I where msgs: "fold forget_message ?mids ?s0 = ?s0\<lparr>tc_messages := M, tc_idempotency := I\<rparr>"
    "\<forall>i. hget M i = (if i \<in> set ?mids then None else hget (tc_messages s) i)"
    "\<forall>k. hget I k = (if \<exists>i \<in> set ?mids. \<exists>m. hget (tc_messages s) i = Some m \<and> message_key m = Some k then None else hget (tc_idempotency s) k)"
    by blast
  let ?s2 = "?s0\<lparr>tc_messages := M, tc_idempotency := I, tc_message_deliveries := fold hremove ?mids (tc_message_deliveries s)\<rparr>"
  have rec: "grouped (ids_of (tc_recipient_deliveries ?s2)) (hget (tc_deliveries ?s2)) dlv_recipient"
    and keyed: "\<forall>i d. hget (tc_deliveries ?s2) i = Some d \<longrightarrow> dlv_id d = i"
    using ok by (simp_all add: comms_ok_def indexes_ok_def deliveries_ok_def)
  have same: "tc_deliveries ?s2 = tc_deliveries s" by simp
  from forget_deliveries [OF rec keyed, of ?dids "[]", unfolded same append_Nil]
  obtain out n D R where dels: "for_fold ?dids [] forget_delivery ?s2 =
      (Inr out, ?s2\<lparr>env_clock_reads := n, tc_deliveries := D, tc_recipient_deliveries := R\<rparr>)"
    "\<forall>i. hget D i = (if i \<in> set ?dids then None else hget (tc_deliveries s) i)"
    "grouped (ids_of R) (hget D) dlv_recipient" "\<forall>d \<in> set out. dlv_status d = ''cancelled''"
    "dlv_id ` set out = {i \<in> set ?dids. \<exists>d. hget (tc_deliveries s) i = Some d \<and> waiting d}"
    by blast
  let ?I = "filter (\<lambda>kv. \<not> starts_with (fst kv) (team @ ''|'')) I"
  define s' where "s' = ?s2\<lparr>env_clock_reads := Suc (Suc n), tc_deliveries := D, tc_recipient_deliveries := R, tc_idempotency := ?I\<rparr>"
  have run: "delete_under_lock team s = (Inr (t\<lparr>team_deleted_at := Some (env_clock s n), team_updated_at := env_clock s (Suc n)\<rparr>, out), s')"
    using t msgs(1)
    by (simp add: delete_under_lock_def monad_simps bindE_Inr [of "for_fold ?dids [] forget_delivery" ?s2, OF dels(1)] ok_def s'_def)
  have lost: "only_lost team s s'"
    using msgs(2) dels(2) ids by (auto simp: only_lost_def s'_def split: option.splits)
  have idem: "hget (tc_idempotency s') k = (if starts_with k (team @ ''|'') then None else hget I k)" for k
    by (simp add: s'_def hget_filter_keys [of "\<lambda>k. \<not> starts_with k (team @ ''|'')"])
  have "hget (tc_idempotency s) k = Some i \<and> (\<forall>m. hget (tc_messages s) i = Some m \<longrightarrow> msg_team_id m \<noteq> team)"
    if "hget (tc_idempotency s') k = Some i" for k i
  proof -
    have k: "hget (tc_idempotency s) k = Some i"
      "\<not> (\<exists>i \<in> set ?mids. \<exists>m. hget (tc_messages s) i = Some m \<and> message_key m = Some k)"
      using that msgs(3) by (auto simp: idem split: if_splits)
    moreover have "\<exists>m. hget (tc_messages s) i = Some m \<and> message_key m = Some k"
      using k(1) ok by (simp add: comms_ok_def keys_ok_def)
    ultimately show ?thesis using ids(1) by auto
  qed
  then have "comms_ok s'"
    by (intro comms_ok_deleted [OF ok lost]) (use dels(3) in \<open>simp_all add: s'_def\<close>)
  then show ?thesis using run lost idem dels(4,5) ids(2) by (auto simp: s'_def)
qed

section \<open>The handler\<close>

lemma store_cancelled_keeps [preserves_intros]: "preserves (\<lambda>s. tview s = v) (store_cancelled team d)"
  unfolding store_cancelled_def by (intro preserves_intros)

lemma only_lost_view: "tview s'' = tview s' \<Longrightarrow> only_lost team s s'' = only_lost team s s'"
  by (simp add: only_lost_def tviewD [of s'' s'])

lemma delete_team_cases:
  assumes ok: "comms_ok s"
  shows "(\<exists>e. delete_team arg s = (Inl e, s)) \<or>
    (\<exists>team t s'. normalize_non_empty arg ''team_id'' = Inr team \<and> hget (tc_teams s) team = Some t \<and>
       tview (snd (delete_team arg s)) = tview s' \<and> comms_ok s' \<and> only_lost team s s')"
proof (cases "tc_enabled s \<and> (\<exists>team t. normalize_non_empty arg ''team_id'' = Inr team \<and> hget (tc_teams s) team = Some t)")
  case False
  then show ?thesis
    by (auto simp: delete_team_def ensure_enabled_def delete_under_lock_def monad_simps err_def split: sum.splits option.splits)
next
  case True
  then obtain team t where team: "tc_enabled s" "normalize_non_empty arg ''team_id'' = Inr team" "hget (tc_teams s) team = Some t" by blast
  obtain del upd out s' where run: "delete_under_lock team s = (Inr (t\<lparr>team_deleted_at := Some del, team_updated_at := upd\<rparr>, out), s')"
    "comms_ok s'" "only_lost team s s'"
    using delete_under_lock_run [OF ok team(3)] by blast
  let ?rest = "bindE (store_write (WTeam (t\<lparr>team_deleted_at := Some del, team_updated_at := upd\<rparr>))) (\<lambda>_.
     bindE (for_each out (store_cancelled team)) (\<lambda>_.
     ignore (append_team_event team ''team.deleted'' (jobject [(''team'', team_json (t\<lparr>team_deleted_at := Some del, team_updated_at := upd\<rparr>))])
       (Some (team_created_by (t\<lparr>team_deleted_at := Some del, team_updated_at := upd\<rparr>))))))"
  have "delete_team arg s = ?rest s'"
    using team by (simp add: delete_team_def ensure_enabled_def monad_simps bindE_Inr [of "delete_under_lock team" s, OF run(1)])
  moreover have "keeps_team ?rest" by (intro allI preserves_intros)
  ultimately have "tview (snd (delete_team arg s)) = tview s'" using keeps_teamD by metis
  then show ?thesis using team(2,3) run(2,3) by blast
qed

end
