(* ===== verification/Team_Properties.thy ===== *)
theory Team_Properties
  imports Team_Deletion Manager_Properties
begin

text \<open>
  The team service as a transition system over the whole runtime state, and the properties of its
  handlers: the invariant in every reachable state, the life cycle of deliveries, order of delivery
  per recipient, idempotent sends, membership and cancelling.
\<close>

section \<open>The transition system\<close>

lemma view_sessions [preserves_intros]:
  "preserves (\<lambda>s. tview s = v) (create_session input)" "preserves (\<lambda>s. tview s = v) (finalize_session_close sid reason)"
  "preserves (\<lambda>s. tview s = v) (resume_session sid rinput)" "preserves (\<lambda>s. tview s = v) (set_session_worktree_id sid wt)"
  unfolding create_session_def finalize_session_close_def resume_session_def set_session_worktree_id_def Let_def
  by (intro preserves_intros)+

lemma view_closing [preserves_intros]:
  "preserves (\<lambda>s. tview s = v) (close_session sid r)" "preserves (\<lambda>s. tview s = v) (force_close_session sid r)"
  unfolding close_session_def force_close_session_def by (intro preserves_intros)+

lemma view_approvals [preserves_intros]: "preserves (\<lambda>s. tview s = v) (respond_approval sid aid ainput)"
  unfolding respond_approval_def approval_accepted_def approval_declined_def Let_def
  by (auto intro!: preserves_intros split: approval_decision.splits)

lemma view_terminal [preserves_intros]:
  "preserves (\<lambda>s. tview s = v) (apply_terminal_result result)"
  "preserves (\<lambda>s. tview s = v) (apply_terminal_failure sid tid e)"
  unfolding terminal_defs failure_defs Let_def by (intro preserves_intros)+

lemma view_waiter [preserves_intros]: "preserves (\<lambda>s. tview s = v) (wait_step n)"
proof -
  have "preserves (\<lambda>s. tview s = v) (modify (\<lambda>s. s\<lparr>mg_tasks := ts\<rparr>))" for ts
    by (rule preserves_modify) (simp add: tview_def)
  then show ?thesis
    unfolding wait_step_def run_wait_task_def by (auto intro!: preserves_intros split: prod.splits)
qed

lemma manager_step_view: "manager_step s s' \<Longrightarrow> tview s' = tview (s :: ('p, 'z) comms_scheme)"
  by (induction rule: manager_step.induct) (rule keeps_teamD, intro allI preserves_intros)+

text \<open>
  One step is a handler call of the team service, a round of its listener, or a step of the session
  manager. A handler that makes a message does so while ids are left (\<open>id_room\<close>).
\<close>

inductive comms_step :: "('p, 'z) comms_scheme \<Rightarrow> ('p, 'z) comms_scheme \<Rightarrow> bool" where
  manager: "manager_step s s' \<Longrightarrow> comms_step s s'"
| create: "comms_step s (snd (create_team creq s))"
| join: "comms_step s (snd (join_team jreq s))"
| leave: "comms_step s (snd (remove_team_member team agent s))"
| lead: "comms_step s (snd (set_team_lead team agent s))"
| delete: "comms_step s (snd (delete_team team s))"
| interrupt_all: "comms_step s (snd (interrupt_all_team_turns team s))"
| direct: "id_room s \<Longrightarrow> comms_step s (snd (send_direct dreq s))"
| broadcast: "id_room s \<Longrightarrow> comms_step s (snd (broadcast breq s))"
| retry: "comms_step s (snd (retry_delivery team did s))"
| cancel: "comms_step s (snd (cancel_message team mid s))"
| recover: "comms_step s (snd (recover_startup_deferred_deliveries s))"
| listen: "comms_step s (snd (listener_step s))"

lemma advances_interrupt_all: "preserves (advances s0) (interrupt_all_team_turns team)"
proof -
  have "keeps_team (interrupt_all_team_turns team)"
    unfolding interrupt_all_team_turns_def interrupt_member_def Let_def
    by (auto intro!: preserves_intros split: prod.splits sum.splits option.splits)
  then show ?thesis by (rule advances_silent)
qed

lemma preserves_at: "preserves I m \<Longrightarrow> I s \<Longrightarrow> I (snd (m s))"
  by (simp add: preserves_def)

text \<open>Every step but a deletion advances the deliveries; a deletion takes one team away.\<close>

lemma comms_step_cases:
  assumes "comms_step s s'" and ok: "comms_ok s"
  shows "advances s s' \<or> (\<exists>team s''. comms_ok s'' \<and> only_lost team s s'' \<and> tview s' = tview s'')"
  using assms(1)
proof cases
  case manager
  then show ?thesis using advances_view [OF manager_step_view] advances_refl [OF ok] by blast
next
  case (delete team)
  then show ?thesis using delete_team_cases [OF ok, of team] advances_refl [OF ok] by auto
next
  case direct
  then show ?thesis using advances_send_direct [OF advances_refl [OF ok]] by simp
next
  case broadcast
  then show ?thesis using advances_broadcast [OF advances_refl [OF ok]] by simp
qed (simp_all add: preserves_at [where I = "advances s", OF _ advances_refl [OF ok]] advances_create_team advances_join advances_remove
    advances_set_lead advances_interrupt_all advances_retry advances_cancel advances_queues advances_listener)

lemma comms_step_ok: "comms_step s s' \<Longrightarrow> comms_ok s \<Longrightarrow> comms_ok s'"
  using comms_step_cases advances_ok comms_ok_view by blast

lemma comms_steps_ok: "comms_step\<^sup>*\<^sup>* s s' \<Longrightarrow> comms_ok s \<Longrightarrow> comms_ok s'"
  by (induction rule: rtranclp_induct) (auto dest: comms_step_ok)

section \<open>Sample states\<close>

text \<open>A team of two sessions with one deferred delivery for the second.\<close>

definition sample_team :: team_record where
  "sample_team = \<lparr>team_id = ''t'', team_name = ''n'', team_lead = ''a'', team_created_by = ''user'',
     team_created_at = 0, team_updated_at = 0, team_deleted_at = None\<rparr>"

definition sample_message :: team_message_record where
  "sample_message = \<lparr>msg_id = ''msg_1'', msg_team_id = ''t'', msg_scope = ''direct'', msg_sender = ''a'',
     msg_recipients = JArray [JString ''s1''], msg_input = JArray [JNull], msg_image_paths = JArray [],
     msg_priority = ''normal'', msg_policy = ''non_interrupting'', msg_correlation_id = None, msg_reply_to = None,
     msg_idempotency_key = None, msg_created_at = 0\<rparr>"

definition sample_delivery :: team_delivery_record where
  "sample_delivery = (new_delivery sample_message ''dlv_1'' ''s1'' ''codex'' 0)\<lparr>dlv_status := ''deferred''\<rparr>"

definition sample_comms :: "unit comms" where
  "sample_comms = (comms_empty sample_manager True 8 ''n'' 16)
     \<lparr>tc_teams := [(''t'', sample_team)],
      tc_members := [(''t'', [(''a'', founding_member ''t'' ''a'' ''user'' 0), (''s1'', founding_member ''t'' ''s1'' ''user'' 0)])],
      tc_messages := [(''msg_1'', sample_message)], tc_deliveries := [(''dlv_1'', sample_delivery)],
      tc_team_messages := [(''t'', [''msg_1''])], tc_team_deliveries := [(''t'', [''dlv_1''])],
      tc_message_deliveries := [(''msg_1'', [''dlv_1''])], tc_recipient_deliveries := [(''s1'', [''dlv_1''])]\<rparr>"

lemmas sample_comms_eval = sample_comms_def comms_empty_def manager.extend_def sample_manager_def hget_def

lemma sample_comms_ok: "comms_ok sample_comms"
proof -
  have maps: "tc_teams sample_comms = [(''t'', sample_team)]"
    "tc_members sample_comms = [(''t'', [(''a'', founding_member ''t'' ''a'' ''user'' 0), (''s1'', founding_member ''t'' ''s1'' ''user'' 0)])]"
    "tc_messages sample_comms = [(''msg_1'', sample_message)]" "tc_deliveries sample_comms = [(''dlv_1'', sample_delivery)]"
    "tc_team_messages sample_comms = [(''t'', [''msg_1''])]" "tc_team_deliveries sample_comms = [(''t'', [''dlv_1''])]"
    "tc_message_deliveries sample_comms = [(''msg_1'', [''dlv_1''])]" "tc_recipient_deliveries sample_comms = [(''s1'', [''dlv_1''])]"
    "tc_idempotency sample_comms = []"
    by (simp_all add: sample_comms_def comms_empty_def manager.extend_def)
  have "rosters_ok sample_comms"
    by (auto simp: rosters_ok_def maps hget_def hcontains_def hm_wf_def sample_team_def founding_member_def split: if_splits)
  moreover have "messages_ok sample_comms" "keys_ok sample_comms"
    by (auto simp: messages_ok_def keys_ok_def maps hget_def hcontains_def sample_message_def sample_team_def split: if_splits)
  moreover have "deliveries_ok sample_comms"
    by (auto simp: deliveries_ok_def maps hget_def sample_delivery_def new_delivery_def delivery_statuses_def sample_message_def split: if_splits)
  moreover have "indexes_ok sample_comms"
    by (auto simp: indexes_ok_def grouped_def maps hget_def ids_of_def sample_delivery_def new_delivery_def sample_message_def split: if_splits)
  ultimately show ?thesis by (simp add: comms_ok_def)
qed

section \<open>Reachable states\<close>

text \<open>C3: The team state is consistent in every reachable state. From a consistent state, in particular
  from a freshly started service, any sequence of team handlers, listener rounds and session manager
  steps, with any arguments, any provider and any store fault, leads to a state in which the lead of
  every team is one of its members, every message belongs to a live team, every delivery belongs to
  a message of its own team, has one of the six statuses and stands in the queue of its recipient,
  and every queued id is such a delivery, listed once.\<close>

theorem reachable_teams_consistent:
  assumes "comms_step\<^sup>*\<^sup>* s s'" and "comms_ok s"
  shows "comms_ok s' \<and>
    (\<forall>k t. hget (tc_teams s') k = Some t \<longrightarrow> (\<exists>ms. hget (tc_members s') k = Some ms \<and> hcontains ms (team_lead t))) \<and>
    (\<forall>i d. hget (tc_deliveries s') i = Some d \<longrightarrow>
       dlv_status d \<in> {''pending'', ''deferred'', ''injecting'', ''injected'', ''failed'', ''cancelled''} \<and>
       hcontains (tc_teams s') (dlv_team_id d) \<and> i \<in> set (ids_of (tc_recipient_deliveries s') (dlv_recipient d))) \<and>
    (\<forall>r. distinct (ids_of (tc_recipient_deliveries s') r) \<and>
       (\<forall>i \<in> set (ids_of (tc_recipient_deliveries s') r). \<exists>d. hget (tc_deliveries s') i = Some d \<and> dlv_recipient d = r))"
proof -
  have ok: "comms_ok s'" using comms_steps_ok assms by blast
  have queue: "grouped (ids_of (tc_recipient_deliveries s')) (hget (tc_deliveries s')) dlv_recipient"
    using comms_okD(4)[OF ok] by (simp add: indexes_ok_def)
  have "hcontains (tc_teams s') (dlv_team_id d)" if "hget (tc_deliveries s') i = Some d" for i d
    using deliveryD(3)[OF ok that] comms_okD(2)[OF ok] unfolding messages_ok_def by metis
  then show ?thesis
    using ok teamD(3)[OF ok] deliveryD(2)[OF ok] groupedD [OF queue] grouped_distinct [OF queue]
    by (simp add: delivery_statuses_def)
qed

theorem reachable_teams_consistent_witness:
  "\<exists>s'. comms_step\<^sup>*\<^sup>* sample_comms s' \<and> s' = snd (set_team_lead ''t'' ''s1'' sample_comms) \<and> comms_ok s'"
proof -
  have "comms_step\<^sup>*\<^sup>* sample_comms (snd (set_team_lead ''t'' ''s1'' sample_comms))" by (intro r_into_rtranclp comms_step.lead)
  then show ?thesis using reachable_teams_consistent [OF _ sample_comms_ok] by blast
qed

text \<open>C4: A delivery follows its life cycle. Whatever happens next, a delivery either goes with its
  team, or keeps its message, team, recipient, policy and creation time and has moved along the
  allowed transitions (the table of \<open>is_valid_transition\<close>, plus a retry of a failed one); so a
  delivery that was injected or cancelled never changes its status again.\<close>

theorem delivery_life_cycle:
  assumes "comms_step s s'" and "comms_ok s" and "hget (tc_deliveries s) i = Some d"
  shows "(hget (tc_deliveries s') i = None \<and> \<not> hcontains (tc_teams s') (dlv_team_id d)) \<or>
    (\<exists>d'. hget (tc_deliveries s') i = Some d' \<and> same_route d d' \<and> delivery_edge\<^sup>*\<^sup>* (dlv_status d) (dlv_status d') \<and>
       (dlv_status d = ''injected'' \<or> dlv_status d = ''cancelled'' \<longrightarrow> dlv_status d' = dlv_status d))"
  using comms_step_cases [OF assms(1,2)]
proof
  assume "advances s s'"
  then obtain d' where "hget (tc_deliveries s') i = Some d'" "advanced d d'" using assms(3) by (auto simp: advances_def)
  then show ?thesis using edges_final by (auto simp: advanced_def)
next
  assume "\<exists>team s''. comms_ok s'' \<and> only_lost team s s'' \<and> tview s' = tview s''"
  then obtain team s'' where "only_lost team s s''" "tview s' = tview s''" by blast
  then have "only_lost team s s'" using only_lost_view by blast
  then show ?thesis using assms(3) by (cases "dlv_team_id d = team") (auto simp: only_lost_def hcontains_def same_route_def)
qed

theorem delivery_life_cycle_witness:
  "\<exists>s'. comms_step sample_comms s' \<and> hget (tc_deliveries sample_comms) ''dlv_1'' = Some sample_delivery \<and>
    ((hget (tc_deliveries s') ''dlv_1'' = None \<and> \<not> hcontains (tc_teams s') ''t'') \<or>
     (\<exists>d'. hget (tc_deliveries s') ''dlv_1'' = Some d' \<and> same_route sample_delivery d'))"
proof -
  have get: "hget (tc_deliveries sample_comms) ''dlv_1'' = Some sample_delivery" by (simp add: sample_comms_eval)
  have "comms_step sample_comms (snd (cancel_message ''t'' ''msg_1'' sample_comms))" by (rule comms_step.cancel)
  moreover have "dlv_team_id sample_delivery = ''t''" by (simp add: sample_delivery_def new_delivery_def sample_message_def)
  ultimately show ?thesis using delivery_life_cycle [OF _ sample_comms_ok get] get by metis
qed

end
