(* ===== verification/Delivery_Properties.thy ===== *)
theory Delivery_Properties
  imports Team_Properties
begin

text \<open>
  What one delivery attempt does: \<open>inject_delivery\<close> respects the order of the recipient's queue,
  never gives a busy session a second turn, and fails for a recipient that is gone.
\<close>

section \<open>What a delivery attempt leaves alone\<close>

definition mview where
  "mview s = (mg_sessions s, mg_turns s, mg_approvals s, mg_tasks s, mg_providers s)"

lemma mview_basic [preserves_intros]:
  "preserves (\<lambda>s. mview s = v) (store_call g)" "preserves (\<lambda>s. mview s = v) (store_write w)"
  "preserves (\<lambda>s. mview s = v) now_ms" "preserves (\<lambda>s. mview s = v) (provider_call h)"
  "preserves (\<lambda>s. mview s = v) (get_session sid)" "preserves (\<lambda>s. mview s = v) (require_provider k)"
  "preserves (\<lambda>s. mview s = v) (require_kind r)"
  by (auto simp: preserves_def store_call_def store_write_def now_ms_def provider_call_def get_session_def
      require_provider_def require_kind_def monad_simps ok_or_else_def bindE_gets mview_def Let_def
      split: prod.splits option.splits sum.splits)

lemma mview_event [preserves_intros]:
  "preserves (\<lambda>s. mview s = v) (append_team_event team kind payload ses)"
  "preserves (\<lambda>s. mview s = v) (append_event sc i ses' t kind' crit payload')"
  by (auto simp: preserves_def append_event_def append_team_event_def monad_simps bindE_store_call store_call_def
      ok_def mview_def Let_def split: prod.splits option.splits sum.splits)

lemma mview_deliveries [preserves_intros]: "preserves (\<lambda>s. mview s = v) (modify (\<lambda>s. s\<lparr>tc_deliveries := f s\<rparr>))"
  by (rule preserves_modify) (simp add: mview_def)

lemma mview_transition [preserves_intros]:
  "preserves (\<lambda>s. mview s = v) (transition_delivery_status current next strategy code msg trigger)"
  unfolding transition_delivery_status_def Let_def by (intro preserves_intros)

lemma mview_interrupt [preserves_intros]: "preserves (\<lambda>s. mview s = v) (interrupt_turn sid tid)"
  unfolding interrupt_turn_def by (intro preserves_intros)

lemma mview_check [preserves_intros]: "preserves (\<lambda>s. mview s = v) (inject_check did trigger)"
  unfolding inject_check_def Let_def interrupt_for_def by (auto intro!: preserves_intros split: sum.splits)

lemma mviewD:
  "mview s' = mview s \<Longrightarrow> mg_sessions s' = mg_sessions s \<and> mg_turns s' = mg_turns s \<and>
     mg_approvals s' = mg_approvals s \<and> mg_tasks s' = mg_tasks s \<and> mg_providers s' = mg_providers s"
  by (simp add: mview_def)

text \<open>A status transition does not reach a provider either.\<close>

lemma pstate_basic [preserves_intros]:
  "preserves (\<lambda>s. mg_provider_state s = v) (store_write w)" "preserves (\<lambda>s. mg_provider_state s = v) now_ms"
  "preserves (\<lambda>s. mg_provider_state s = v) (append_team_event team kind payload ses)"
  "preserves (\<lambda>s. mg_provider_state s = v) (modify (\<lambda>s. s\<lparr>tc_deliveries := f s\<rparr>))"
  by (auto simp: preserves_def store_call_def store_write_def now_ms_def append_team_event_def monad_simps modify_def
      Let_def split: prod.splits option.splits sum.splits)

lemma pstate_transition:
  "mg_provider_state (snd (transition_delivery_status current next strategy code msg trigger s)) = mg_provider_state s"
  by (rule keepsD) (unfold transition_delivery_status_def Let_def, intro preserves_intros)

text \<open>The new status of a delivery that is moved, whether or not the store takes it.\<close>

lemma transition_moves:
  assumes "is_valid_transition (dlv_status d) next" and "hget (tc_deliveries s) (dlv_id d) = Some d"
  shows "\<exists>now. tc_deliveries (snd (transition_delivery_status d next strategy code msg trigger s)) =
    hinsert (dlv_id d) (moved_delivery d next strategy code msg now) (tc_deliveries s) \<and>
    (\<forall>u. fst (transition_delivery_status d next strategy code msg trigger s) = Inr u \<longrightarrow>
       u = moved_delivery d next strategy code msg now)"
proof -
  let ?now = "env_clock s (env_clock_reads s)"
  let ?u = "moved_delivery d next strategy code msg ?now"
  let ?t = "s\<lparr>env_clock_reads := Suc (env_clock_reads s), tc_deliveries := hinsert (dlv_id d) ?u (tc_deliveries s)\<rparr>"
  let ?rest = "bindE (store_write (WDelivery ?u)) (\<lambda>_.
      bindE (ignore (append_team_event (dlv_team_id ?u) (delivery_event_kind next)
        (jobject [(''delivery'', delivery_json ?u),
                  (''trigger'', JString (to_ascii_lowercase (trigger_debug trigger)))]) (Some (dlv_recipient d)))) (\<lambda>_.
      bindE (gets (message_terminal_state (dlv_message_id d))) (\<lambda>complete.
      bindE (if complete
             then ignore (append_team_event (dlv_team_id d) ''team_message.completed''
               (jobject [(''message_id'', JString (dlv_message_id d)), (''team_id'', JString (dlv_team_id d))])
               (Some (dlv_recipient d)))
             else ok ()) (\<lambda>_.
      ok ?u))))"
  have run: "transition_delivery_status d next strategy code msg trigger s = ?rest ?t"
    using assms by (simp add: transition_delivery_status_def monad_simps Let_def)
  have "keeps_team ?rest" by (intro allI preserves_intros)
  then have "tc_deliveries (snd (?rest ?t)) = tc_deliveries ?t" by (intro tviewD(4) keeps_teamD)
  also have "tc_deliveries ?t = hinsert (dlv_id d) ?u (tc_deliveries s)" by simp
  finally have "tc_deliveries (snd (?rest ?t)) = hinsert (dlv_id d) ?u (tc_deliveries s)" .
  moreover have "u = ?u" if "fst (?rest ?t) = Inr u" for u
    using that by (auto simp: bindE_def ok_def split: prod.splits sum.splits)
  ultimately show ?thesis unfolding run by blast
qed

lemma moved_status [simp]: "dlv_status (moved_delivery d next strategy code msg now) = next"
  by (simp add: moved_delivery_def)

lemma snd_bindE_return: "snd (bindE m (\<lambda>x. ok (f x)) s) = snd (m s)"
  by (simp add: bindE_def ok_def split: prod.splits sum.splits)

lemma fst_bindE_return: "fst (bindE m ok s) = fst (m s)"
  by (simp add: bindE_def ok_def split: prod.splits sum.splits)

section \<open>Order of delivery\<close>

lemma queue_blocker_Some:
  assumes "hget ds c = Some e" and "\<not> is_terminal_status (dlv_status e)" and "c \<noteq> did"
  shows "did \<notin> set pre \<Longrightarrow> \<exists>b. queue_blocker ds did (pre @ c # mid @ did # post) = Some b"
  by (induction pre) (use assms in \<open>auto split: option.splits\<close>)

text \<open>C13: Deliveries to one recipient are attempted in the order they were queued. While a delivery
  queued earlier for the same recipient is unfinished, an attempt at a later one starts no turn,
  calls no provider and interrupts nothing: sessions, turns, approvals and waiters are as before,
  and a pending delivery becomes deferred.\<close>

theorem delivery_waits_for_earlier:
  assumes "comms_ok s" and "hget (tc_deliveries s) did = Some d"
    and "ids_of (tc_recipient_deliveries s) (dlv_recipient d) = pre @ c # mid @ did # post"
    and "hget (tc_deliveries s) c = Some e" and "\<not> is_terminal_status (dlv_status e)"
  shows "\<exists>s' d'. snd (inject_delivery did trigger s) = s' \<and> mview s' = mview s \<and> mg_provider_state s' = mg_provider_state s \<and>
    hget (tc_deliveries s') did = Some d' \<and>
    dlv_status d' = (if dlv_status d = ''pending'' then ''deferred'' else dlv_status d)"
proof -
  have id: "dlv_id d = did" using deliveryD(1)[OF assms(1,2)] .
  have "distinct (pre @ c # mid @ did # post)"
    using comms_okD(4)[OF assms(1)] grouped_distinct assms(3) unfolding indexes_ok_def by metis
  then have "did \<notin> set pre" "c \<noteq> did" by auto
  then obtain b where blocked: "find_recipient_queue_blocker d s = Some b"
    using queue_blocker_Some [OF assms(4,5), of did pre mid post] assms(3) id by (auto simp: find_recipient_queue_blocker_def)
  obtain m where m: "hget (tc_messages s) (dlv_message_id d) = Some m" using deliveryD(3)[OF assms(1,2)] by blast
  consider (idle) "dlv_status d \<noteq> ''pending''" | (pending) "dlv_status d = ''pending''" by blast
  then show ?thesis
  proof cases
    case idle
    then have "inject_delivery did trigger s = (Inr d, s)"
      using assms(2) m blocked by (auto simp: inject_delivery_def inject_check_def monad_simps Let_def ok_def)
    then show ?thesis using assms(2) idle by simp
  next
    case pending
    then have run: "snd (inject_delivery did trigger s) = snd (transition_delivery_status d ''deferred'' None None None trigger s)"
      using assms(2) m blocked
      by (simp add: inject_delivery_def inject_check_def monad_simps Let_def snd_bindE_return)
    have "is_valid_transition (dlv_status d) ''deferred''" using pending by (simp add: is_valid_transition_def)
    from transition_moves [OF this, of s None None None trigger] assms(2) id obtain now where
      "tc_deliveries (snd (transition_delivery_status d ''deferred'' None None None trigger s)) =
        hinsert did (moved_delivery d ''deferred'' None None None now) (tc_deliveries s)" by auto
    moreover have "mview (snd (transition_delivery_status d ''deferred'' None None None trigger s)) = mview s"
      by (intro keepsD preserves_intros)
    moreover have "hget (hinsert did (moved_delivery d ''deferred'' None None None now) (tc_deliveries s)) did =
        Some (moved_delivery d ''deferred'' None None None now)" by simp
    ultimately show ?thesis using pending run pstate_transition moved_status by metis
  qed
qed

text \<open>The sample service with a second delivery queued behind the deferred one.\<close>

definition second_delivery :: team_delivery_record where
  "second_delivery = new_delivery sample_message ''dlv_2'' ''s1'' ''codex'' 1"

definition queued_comms :: "unit comms" where
  "queued_comms = index_delivery second_delivery sample_comms"

lemma queued_comms_ok: "comms_ok queued_comms"
proof -
  have "advances sample_comms queued_comms" unfolding queued_comms_def
    by (rule advances_index [OF advances_refl [OF sample_comms_ok], of _ sample_message])
      (simp_all add: second_delivery_def new_delivery_def sample_message_def sample_comms_eval)
  then show ?thesis by (rule advances_ok)
qed

lemma queued_maps:
  "hget (tc_deliveries queued_comms) ''dlv_2'' = Some second_delivery"
  "hget (tc_deliveries queued_comms) ''dlv_1'' = Some sample_delivery"
  "ids_of (tc_recipient_deliveries queued_comms) ''s1'' = [''dlv_1'', ''dlv_2'']"
  by (simp_all add: queued_comms_def index_delivery_def second_delivery_def new_delivery_def idx.ids_push)
    (simp_all add: sample_comms_eval ids_of_def)

theorem delivery_waits_for_earlier_witness:
  "\<exists>s' d'. snd (inject_delivery ''dlv_2'' TriggerQueue queued_comms) = s' \<and> mview s' = mview queued_comms \<and>
    mg_provider_state s' = mg_provider_state queued_comms \<and>
    hget (tc_deliveries s') ''dlv_2'' = Some d' \<and> dlv_status d' = ''deferred''"
  using delivery_waits_for_earlier [OF queued_comms_ok queued_maps(1), of "[]" "''dlv_1''" "[]" "[]" sample_delivery TriggerQueue]
    queued_maps(2,3)
  by (simp add: second_delivery_def new_delivery_def sample_delivery_def is_terminal_status_def)

section \<open>A busy recipient\<close>

lemma moved_id [simp]: "dlv_id (moved_delivery d next strategy code msg now) = dlv_id d"
  by (simp add: moved_delivery_def)

lemma inject_commit_busy:
  assumes d: "hget (tc_deliveries s) (dlv_id d) = Some d" "waiting d"
    and busy: "hget (mg_sessions s) (sess_id r) = Some r'" "sess_active_turn_id r' \<noteq> None"
  shows "mview (snd (inject_commit d m r trigger s)) = mview s \<and>
    (\<exists>d'. hget (tc_deliveries (snd (inject_commit d m r trigger s))) (dlv_id d) = Some d' \<and>
       (dlv_status d' = ''injecting'' \<or> dlv_status d' = ''deferred''))"
proof -
  let ?go = "transition_delivery_status d ''injecting'' None None None trigger"
  have valid: "is_valid_transition (dlv_status d) ''injecting''" using d(2) by (auto simp: waiting_def is_valid_transition_def)
  obtain x s2 where go: "?go s = (x, s2)" by fastforce
  have same: "mview s2 = mview s" using keepsD [of mview ?go s] go by (simp add: mview_transition)
  obtain now where D2: "tc_deliveries s2 = hinsert (dlv_id d) (moved_delivery d ''injecting'' None None None now) (tc_deliveries s)"
    "\<forall>u. x = Inr u \<longrightarrow> u = moved_delivery d ''injecting'' None None None now"
    using transition_moves [OF valid d(1), of None None None trigger] go by auto
  show ?thesis
  proof (cases x)
    case (Inl e)
    then have "inject_commit d m r trigger s = (Inl e, s2)" using go by (simp add: inject_commit_def bindE_Inl)
    then show ?thesis using same D2(1) by simp
  next
    case (Inr u)
    then have u: "u = moved_delivery d ''injecting'' None None None now" using D2(2) by blast
    let ?input = "\<lparr>sti_input = build_injected_input m (sess_id r), sti_expected_turn_id = None, sti_permission_mode = None\<rparr>"
    have "hget (mg_sessions s2) (sess_id r) = Some r'" using busy(1) mviewD [OF same] by simp
    then obtain why where refused: "send_turn (sess_id r) ?input s2 = (Inl (InvalidState why), s2)"
      using send_turn_refused [of s2 "sess_id r" r'] busy(2) by blast
    let ?again = "transition_delivery_status u ''deferred'' None (Some ''turn_ownership_rejected'')
      (Some (error_to_string (InvalidState why))) trigger"
    have run: "inject_commit d m r trigger s = ?again s2"
      using Inr go refused by (simp add: inject_commit_def bindE_Inr [of ?go s u] bindE_attempt)
    have "hget (tc_deliveries s2) (dlv_id u) = Some u" by (simp add: D2(1) u)
    moreover have "is_valid_transition (dlv_status u) ''deferred''" by (simp add: u is_valid_transition_def)
    ultimately obtain now' where "tc_deliveries (snd (?again s2)) = hinsert (dlv_id u)
        (moved_delivery u ''deferred'' None (Some ''turn_ownership_rejected'') (Some (error_to_string (InvalidState why))) now')
        (tc_deliveries s2)"
      using transition_moves by blast
    moreover have "mview (snd (?again s2)) = mview s2" by (intro keepsD preserves_intros)
    ultimately show ?thesis using same by (simp add: run u)
  qed
qed

lemma bind_return: "bindE m ok = m"
  by (rule ext) (simp add: bindE_def ok_def split: prod.splits sum.splits)

lemma stays_put: "\<exists>y. ok x s = (y, s)" "\<exists>y. err e s = (y, s)"
  by (simp_all add: ok_def err_def)

text \<open>The four ways an attempt at a waiting delivery goes while the recipient has an active turn.\<close>

lemma inject_busy_forms:
  assumes d: "hget (tc_deliveries s) did = Some d" and r: "hget (mg_sessions s) (dlv_recipient d) = Some r"
    "sess_active_turn_id r = Some tid" and m: "hget (tc_messages s) (dlv_message_id d) = Some m" and "waiting d"
  shows "(\<exists>y. inject_delivery did trigger s = (y, s)) \<or>
    inject_delivery did trigger s = transition_delivery_status d ''deferred'' None None None trigger s \<or>
    (\<exists>what. inject_delivery did trigger s =
       bindE (interrupt_for what d (sess_id r) tid) (\<lambda>_. inject_commit d m r trigger) s)"
proof (cases "sess_status r = ''closed'' \<or> sess_status r = ''failed''")
  case True
  have "\<not> is_valid_transition (dlv_status d) ''failed''" "dlv_status d \<noteq> ''failed''"
    using assms(5) by (auto simp: waiting_def is_valid_transition_def)
  then show ?thesis
    using assms True
    by (cases "find_recipient_queue_blocker d s"; cases "normalize_policy (case dlv_effective_policy d of None \<Rightarrow> msg_policy m | Some p \<Rightarrow> p)")
      (simp_all add: inject_delivery_def inject_check_def monad_simps Let_def waiting_def bind_return get_session_def
        ok_or_else_def transition_delivery_status_def [of d "''failed''"] stays_put)
next
  case False
  then show ?thesis
    using assms
    by (cases "find_recipient_queue_blocker d s"; cases "normalize_policy (case dlv_effective_policy d of None \<Rightarrow> msg_policy m | Some p \<Rightarrow> p)")
      (simp_all add: inject_delivery_def inject_check_def monad_simps Let_def waiting_def bind_return get_session_def
        ok_or_else_def stays_put, blast?)
qed


text \<open>The sample service whose recipient is in a turn.\<close>

definition busy_session :: session_record where
  "busy_session = sample_session\<lparr>sess_active_turn_id := Some ''turn''\<rparr>"

definition busy_comms :: "unit comms" where
  "busy_comms = sample_comms\<lparr>mg_sessions := [(''s1'', busy_session)]\<rparr>"

lemma busy_comms_ok: "comms_ok busy_comms"
  using sample_comms_ok comms_ok_view [of busy_comms sample_comms] by (simp add: busy_comms_def tview_def)


section \<open>A recipient that is gone\<close>

text \<open>C28: A delivery to a session that is gone is refused and stays where it is. When the recipient's
  session does not exist or is closed or failed, an attempt at the first unfinished delivery of its
  queue ends with \<open>InvalidState\<close> and changes nothing at all: the transition table has no way from
  a waiting status to \<open>failed\<close>, so the delivery is neither failed nor removed and keeps blocking
  the deliveries queued behind it.\<close>

theorem unreachable_recipient_blocks:
  assumes "hget (tc_deliveries s) did = Some d" and "dlv_status d = ''pending'' \<or> dlv_status d = ''deferred''"
    and "hget (tc_messages s) (dlv_message_id d) = Some m" and "find_recipient_queue_blocker d s = None"
    and "normalize_policy (case dlv_effective_policy d of None \<Rightarrow> msg_policy m | Some p \<Rightarrow> p) = Inr policy"
    and "case hget (mg_sessions s) (dlv_recipient d) of None \<Rightarrow> True
         | Some r \<Rightarrow> sess_status r = ''closed'' \<or> sess_status r = ''failed''"
  shows "inject_delivery did trigger s =
    (Inl (InvalidState (''invalid delivery transition '' @ dlv_status d @ '' -> failed'')), s)"
proof -
  have invalid: "\<not> is_valid_transition (dlv_status d) ''failed''" "dlv_status d \<noteq> ''failed''"
    using assms(2) by (auto simp: is_valid_transition_def)
  then have fail: "bindE (transition_delivery_status d ''failed'' None (Some code) (Some msg) trigger) f =
      err (InvalidState (''invalid delivery transition '' @ dlv_status d @ '' -> failed''))" for code msg f
    by (simp add: transition_delivery_status_def bindE_err)
  show ?thesis
    using assms
    by (cases "hget (mg_sessions s) (dlv_recipient d)")
      (auto simp: inject_delivery_def inject_check_def monad_simps Let_def get_session_def ok_or_else_def fail err_def)
qed

theorem unreachable_recipient_blocks_witness:
  "inject_delivery ''dlv_1'' TriggerRetry (sample_comms\<lparr>mg_sessions := []\<rparr>) =
    (Inl (InvalidState ''invalid delivery transition deferred -> failed''), sample_comms\<lparr>mg_sessions := []\<rparr>)"
proof -
  let ?s = "sample_comms\<lparr>mg_sessions := []\<rparr>"
  have "hget (tc_deliveries ?s) ''dlv_1'' = Some sample_delivery" by (simp add: sample_comms_eval)
  moreover have "hget (tc_messages ?s) (dlv_message_id sample_delivery) = Some sample_message"
    by (simp add: sample_comms_eval sample_delivery_def new_delivery_def sample_message_def)
  moreover have "find_recipient_queue_blocker sample_delivery ?s = None"
    by (simp add: find_recipient_queue_blocker_def sample_comms_eval ids_of_def sample_delivery_def new_delivery_def)
  moreover have "normalize_policy (case dlv_effective_policy sample_delivery of None \<Rightarrow> msg_policy sample_message | Some p \<Rightarrow> p) =
      Inr ''non_interrupting''"
    by (simp add: sample_delivery_def new_delivery_def sample_message_def normalize_policy_def delivery_policies_def text_eval)
  ultimately show ?thesis
    using unreachable_recipient_blocks [of ?s "''dlv_1''" sample_delivery sample_message "''non_interrupting''" TriggerRetry]
    by (simp add: sample_delivery_def new_delivery_def hget_def)
qed

end
