(* ===== verification/Message_Properties.thy ===== *)
theory Message_Properties
  imports Delivery_Properties
begin

text \<open>
  Sending messages: a repeated send with the same idempotency key returns the first message, a
  broadcast reaches every other member once; cancelling is all or nothing, and paging through the
  messages of a team shows each of them once.
\<close>

section \<open>What delivering leaves alone\<close>

definition fview where
  "fview s = (tc_teams s, tc_members s, tc_messages s, tc_team_messages s, tc_team_deliveries s,
     tc_message_deliveries s, tc_recipient_deliveries s, tc_idempotency s, tc_enabled s, tc_max_pending s)"

lemma fview_of_tview: "tview s' = tview s \<Longrightarrow> fview s' = fview s"
  by (simp add: tview_def fview_def)

lemma fviewD:
  assumes "fview s' = fview s"
  shows "tc_teams s' = tc_teams s" "tc_members s' = tc_members s" "tc_messages s' = tc_messages s"
    "tc_message_deliveries s' = tc_message_deliveries s" "tc_idempotency s' = tc_idempotency s"
    "tc_enabled s' = tc_enabled s" "tc_max_pending s' = tc_max_pending s"
  using assms by (simp_all add: fview_def)

lemma fview_silent: "keeps_team m \<Longrightarrow> preserves (\<lambda>s. fview s = v) m"
  using fview_of_tview keeps_teamD unfolding preserves_def by metis

lemma fview_manager [preserves_intros]:
  "preserves (\<lambda>s. fview s = v) (get_session sid)" "preserves (\<lambda>s. fview s = v) (interrupt_turn sid tid)"
  "preserves (\<lambda>s. fview s = v) (send_turn sid input)" "preserves (\<lambda>s. fview s = v) now_ms"
  "preserves (\<lambda>s. fview s = v) (store_write w)" "preserves (\<lambda>s. fview s = v) (append_team_event team kind payload ses)"
  by (intro fview_silent allI preserves_intros)+

lemma fview_deliveries [preserves_intros]: "preserves (\<lambda>s. fview s = v) (modify (\<lambda>s. s\<lparr>tc_deliveries := f s\<rparr>))"
  by (rule preserves_modify) (simp add: fview_def)

lemma fview_transition [preserves_intros]:
  "preserves (\<lambda>s. fview s = v) (transition_delivery_status current next strategy code msg trigger)"
  "preserves (\<lambda>s. fview s = v) (transition_delivery_with_turn_id did turn)"
  unfolding transition_delivery_status_def transition_delivery_with_turn_id_def Let_def by (intro preserves_intros)+

lemma fview_inject [preserves_intros]: "preserves (\<lambda>s. fview s = v) (inject_delivery did trigger)"
  unfolding inject_delivery_def inject_check_def inject_commit_def interrupt_for_def Let_def
  by (auto intro!: preserves_intros split: sum.splits runtime_error.splits inject_plan.splits)

lemma fview_deliver [preserves_intros]: "preserves (\<lambda>s. fview s = v) (deliver_created ack)"
  unfolding deliver_created_def queue_and_attempt_delivery_def by (intro preserves_intros)

section \<open>A message that was made\<close>

text \<open>What a successful call of \<open>create_message_and_deliveries\<close> went through.\<close>

lemma create_message_Inr:
  assumes "create_message_and_deliveries req s = (Inr ack, s')"
  obtains scope policy sender rps s2 where "normalize_scope (mr_scope req) = Inr scope"
    "normalize_policy (mr_policy req) = Inr policy" "normalize_non_empty (mr_sender req) ''sender_agent_id'' = Inr sender"
    "length (mr_recipients req) \<le> tc_max_pending s" "for_fold (mr_recipients req) [] resolve_recipient s = (Inr rps, s)"
    "create_under_lock req scope sender (normalize_priority (mr_priority req)) policy rps
       (normalized_non_empty (mr_idempotency_key req)) s = (Inr ack, s2)" "tview s' = tview s2"
proof -
  obtain r where r: "for_fold (mr_recipients req) [] resolve_recipient s = (r, s)" using resolve_all by blast
  obtain scope where scope: "normalize_scope (mr_scope req) = Inr scope"
    using assms by (cases "normalize_scope (mr_scope req)") (auto simp: create_message_and_deliveries_def monad_simps Let_def)
  obtain policy where policy: "normalize_policy (mr_policy req) = Inr policy"
    using assms scope by (cases "normalize_policy (mr_policy req)") (auto simp: create_message_and_deliveries_def monad_simps Let_def)
  obtain sender where sender: "normalize_non_empty (mr_sender req) ''sender_agent_id'' = Inr sender"
    using assms scope policy by (cases "normalize_non_empty (mr_sender req) ''sender_agent_id''") (auto simp: create_message_and_deliveries_def monad_simps Let_def)
  have limit: "length (mr_recipients req) \<le> tc_max_pending s"
    using assms scope policy sender by (auto simp: create_message_and_deliveries_def monad_simps Let_def err_def split: if_splits)
  obtain rps where rps: "r = Inr rps"
    using assms scope policy sender limit
    by (cases r) (auto simp: create_message_and_deliveries_def monad_simps Let_def bindE_pure [of "for_fold (mr_recipients req) [] resolve_recipient" s, OF r])
  let ?lock = "create_under_lock req scope sender (normalize_priority (mr_priority req)) policy rps
       (normalized_non_empty (mr_idempotency_key req))"
  let ?rest = "\<lambda>ack. (if tma_disposition ack \<noteq> ''created'' then ok ack
     else
     bindE (store_write (WMessage (tma_message ack))) (\<lambda>_.
     bindE (for_each (tma_deliveries ack) (\<lambda>d. store_write (WDelivery d))) (\<lambda>_.
     bindE (ignore (append_team_event (mr_team req) ''team_message.created''
       (jobject [(''message'', message_json (tma_message ack)),
                 (''deliveries'', JArray (map delivery_json (tma_deliveries ack)))]) (Some sender))) (\<lambda>_.
     bindE (for_each (tma_deliveries ack) (\<lambda>d. ignore (append_team_event (mr_team req) ''team_delivery.pending''
       (jobject [(''delivery'', delivery_json d)]) (Some (dlv_recipient d))))) (\<lambda>_.
     ok ack)))))"
  have "bindE ?lock ?rest s = (Inr ack, s')"
    using assms scope policy sender limit rps
    by (simp add: create_message_and_deliveries_def monad_simps Let_def bindE_pure [of "for_fold (mr_recipients req) [] resolve_recipient" s, OF r])
  then obtain a s2 where lock: "?lock s = (Inr a, s2)" and rest: "?rest a s2 = (Inr ack, s')"
    unfolding bindE_eq_Inr by blast
  have "ack = a" using rest by (auto simp: bindE_eq_Inr ok_def split: if_splits)
  have "keeps_team (?rest a)" by (intro allI preserves_intros)
  then have "tview (snd (?rest a s2)) = tview s2" by (rule keeps_teamD)
  then have "tview s' = tview s2" using rest by simp
  with lock \<open>ack = a\<close> show thesis using that scope policy sender limit r rps by blast
qed

text \<open>The locked block: who it lets through, and what it finds under a known key.\<close>

lemma create_lock_members:
  assumes "create_under_lock req scope sender priority policy rps key s = (Inr ack, s2)"
  obtains team ms where "hget (tc_teams s) (mr_team req) = Some team" "hget (tc_members s) (mr_team req) = Some ms"
    "hcontains ms sender" "\<forall>rp \<in> set rps. hcontains ms (fst rp)"
proof -
  have checks: "(\<exists>e. for_each xs (\<lambda>rp. lift_result (ensure_member mss (fst rp) team)) s = (Inl e, s)) \<or>
      (\<forall>rp \<in> set xs. \<exists>ms. mss = Some ms \<and> hcontains ms (fst rp))" for xs :: "(string \<times> string) list" and mss team
    by (induction xs) (auto simp: ok_def bindE_lift ensure_member_def split: option.splits)
  show thesis
    using assms that checks [of rps "hget (tc_members s) (mr_team req)" "mr_team req"]
    by (cases "hget (tc_teams s) (mr_team req)"; cases "hget (tc_members s) (mr_team req)")
      (auto simp: create_under_lock_def monad_simps ensure_member_def bindE_Inl split: if_splits)
qed

lemma create_lock_existing:
  assumes "hget (tc_teams s) (mr_team req) = Some team" "hget (tc_members s) (mr_team req) = Some ms"
    "hcontains ms sender" "\<forall>rp \<in> set rps. hcontains ms (fst rp)"
    and "existing_ack (idempotency_index_key (mr_team req) sender scope k) s = Some ack"
  shows "create_under_lock req scope sender priority policy rps (Some k) s = (Inr ack, s)"
  using assms by (simp add: create_under_lock_def monad_simps ensure_member_ok members_checked Let_def ok_def [of ack])

lemma index_all_simps [simp]:
  "tc_messages (fold index_delivery ds s) = tc_messages s" "tc_idempotency (fold index_delivery ds s) = tc_idempotency s"
  "tc_teams (fold index_delivery ds s) = tc_teams s" "tc_members (fold index_delivery ds s) = tc_members s"
  "tc_enabled (fold index_delivery ds s) = tc_enabled s" "tc_max_pending (fold index_delivery ds s) = tc_max_pending s"
  by (induction ds arbitrary: s) (simp_all add: index_delivery_def)

lemma index_all_message:
  "\<forall>d \<in> set ds. dlv_message_id d = mid \<Longrightarrow>
     ids_of (tc_message_deliveries (fold index_delivery ds s)) mid = ids_of (tc_message_deliveries s) mid @ map dlv_id ds"
  by (induction ds arbitrary: s) (simp_all add: index_delivery_def idx.ids_push)

lemma map_filter_ids:
  assumes "\<forall>i \<in> set ids. \<exists>d. f i = Some d \<and> g d = i"
  shows "map g (List.map_filter f ids) = ids"
  using assms by (induction ids) (auto simp: List.map_filter_simps)

lemma listed_deliveries:
  assumes "comms_ok s" shows "map dlv_id (List.map_filter (hget (tc_deliveries s)) (ids_of (tc_message_deliveries s) mid)) =
    ids_of (tc_message_deliveries s) mid"
proof (rule map_filter_ids)
  have "grouped (ids_of (tc_message_deliveries s)) (hget (tc_deliveries s)) dlv_message_id"
    using comms_okD(4)[OF assms] by (simp add: indexes_ok_def)
  then show "\<forall>i \<in> set (ids_of (tc_message_deliveries s) mid). \<exists>d. hget (tc_deliveries s) i = Some d \<and> dlv_id d = i"
    using groupedD deliveryD(1)[OF assms] by metis
qed

text \<open>A created or found message stands under its id and its key, with its deliveries listed.\<close>

lemma create_lock_registers:
  assumes ok: "comms_ok s" and lock: "create_under_lock req scope sender priority policy rps (Some k) s = (Inr ack, s2)"
    and room: "length (tc_messages s) < 2 ^ 64" "length (tc_deliveries s) < 2 ^ 64" "batch_fits (length rps) s"
  shows "hget (tc_idempotency s2) (idempotency_index_key (mr_team req) sender scope k) = Some (msg_id (tma_message ack))
    \<and> hget (tc_messages s2) (msg_id (tma_message ack)) = Some (tma_message ack)
    \<and> ids_of (tc_message_deliveries s2) (msg_id (tma_message ack)) = map dlv_id (tma_deliveries ack)
    \<and> tc_teams s2 = tc_teams s \<and> tc_members s2 = tc_members s
    \<and> tc_enabled s2 = tc_enabled s \<and> tc_max_pending s2 = tc_max_pending s"
proof (cases rule: create_under_lock_cases [of req scope sender priority policy rps "Some k" s])
  case (refused e)
  then show ?thesis using lock by simp
next
  case (existing ack' k')
  then have same: "s2 = s" "existing_ack (idempotency_index_key (mr_team req) sender scope k) s = Some ack" using lock by auto
  then obtain mid m where mid: "hget (tc_idempotency s) (idempotency_index_key (mr_team req) sender scope k) = Some mid"
    "hget (tc_messages s) mid = Some m" "ack = \<lparr>tma_message = m, tma_deliveries = List.map_filter (hget (tc_deliveries s))
       (ids_of (tc_message_deliveries s) mid), tma_disposition = ''existing''\<rparr>"
    by (auto simp: existing_ack_def split: option.splits)
  moreover have "msg_id m = mid" using comms_okD(2)[OF ok] mid(2) by (simp add: messages_ok_def)
  ultimately show ?thesis using same listed_deliveries [OF ok] by simp
next
  case (fresh team ms)
  let ?now = "env_clock s (env_clock_reads s)"
  obtain mid ids nm nd m where m: "m = new_message req mid (team_id team) scope sender priority policy rps (Some k) ?now"
    and run: "create_under_lock req scope sender priority policy rps (Some k) s =
      (Inr \<lparr>tma_message = m, tma_deliveries = made_deliveries m ?now rps ids, tma_disposition = ''created''\<rparr>,
       record_message m (Some (idempotency_index_key (mr_team req) sender scope k)) (made_deliveries m ?now rps ids)
         (s\<lparr>env_clock_reads := Suc (env_clock_reads s), tc_next_message := nm, tc_next_delivery := nd\<rparr>))"
    and mid: "hget (tc_messages s) mid = None"
    using create_under_lock_new [where key = "Some k" and priority = priority and policy = policy, OF fresh room] by (auto simp: Let_def)
  have "ids_of (tc_message_deliveries s) mid = []"
  proof -
    have "grouped (ids_of (tc_message_deliveries s)) (hget (tc_deliveries s)) dlv_message_id"
      using comms_okD(4)[OF ok] by (simp add: indexes_ok_def)
    then have "i \<notin> set (ids_of (tc_message_deliveries s) mid)" for i
      using groupedD comms_okD(3)[OF ok] mid unfolding deliveries_ok_def by (metis option.distinct(1))
    then show ?thesis by (metis list.set_intros(1) neq_Nil_conv)
  qed
  moreover have "\<forall>d \<in> set (made_deliveries m ?now rps ids). dlv_message_id d = mid"
    using made_fields [of _ m ?now rps ids] m by simp
  ultimately show ?thesis using lock run m
    by (auto simp: record_message_def index_all_message)
qed

section \<open>Sending twice\<close>

definition direct_message :: "send_direct_request \<Rightarrow> message_request" where
  "direct_message req =
     \<lparr>mr_team = trim (sdr_team req), mr_scope = ''direct'', mr_sender = trim (sdr_sender req),
      mr_recipients = [trim (sdr_recipient req)], mr_input = sdr_input req,
      mr_image_paths = sdr_image_paths req, mr_priority = sdr_priority req, mr_policy = sdr_policy req,
      mr_correlation_id = sdr_correlation_id req, mr_reply_to = sdr_reply_to req,
      mr_idempotency_key = sdr_idempotency_key req\<rparr>"

definition direct_accepted :: "send_direct_request \<Rightarrow> bool" where
  "direct_accepted req \<longleftrightarrow> trim (sdr_team req) \<noteq> [] \<and> trim (sdr_sender req) \<noteq> [] \<and> trim (sdr_recipient req) \<noteq> [] \<and>
     (\<exists>items. sdr_input req = JArray items \<and> items \<noteq> [])"

lemma send_direct_run:
  "send_direct req s =
     (if \<not> tc_enabled s then (Inl (Unsupported ''team comms service is disabled''), s)
      else if direct_accepted req then bindE (create_message_and_deliveries (direct_message req)) deliver_created s
      else (fst (send_direct req s), s))"
  by (auto simp: send_direct_def ensure_enabled_def monad_simps normalize_non_empty_def normalize_non_empty_input_def
      direct_accepted_def direct_message_def Let_def err_def split: json.splits)

lemma direct_not_accepted: "\<not> direct_accepted req \<Longrightarrow> tc_enabled s \<Longrightarrow> isl (fst (send_direct req s))"
  by (auto simp: send_direct_def ensure_enabled_def monad_simps normalize_non_empty_def normalize_non_empty_input_def
      direct_accepted_def Let_def err_def split: json.splits)

lemma send_direct_Inr:
  assumes "send_direct req s = (Inr ack, s1)"
  obtains s2 where "tc_enabled s" "direct_accepted req"
    "create_message_and_deliveries (direct_message req) s = (Inr ack, s2)" "s1 = snd (deliver_created ack s2)"
proof -
  have on: "tc_enabled s" using assms send_direct_run [of req s] by (auto split: if_splits)
  have acc: "direct_accepted req" using assms direct_not_accepted [of req s] on by (cases "direct_accepted req") auto
  have "bindE (create_message_and_deliveries (direct_message req)) deliver_created s = (Inr ack, s1)"
    using assms on acc send_direct_run [of req s] by simp
  then obtain a s2 where make: "create_message_and_deliveries (direct_message req) s = (Inr a, s2)" and rest: "deliver_created a s2 = (Inr ack, s1)"
    unfolding bindE_eq_Inr by blast
  have "a = ack" using rest by (auto simp: deliver_created_def bindE_eq_Inr ok_def)
  then show thesis using that on acc make rest by simp
qed

lemma create_message_existing:
  assumes "normalize_scope (mr_scope req) = Inr scope" "normalize_policy (mr_policy req) = Inr policy"
    "normalize_non_empty (mr_sender req) ''sender_agent_id'' = Inr sender"
    "length (mr_recipients req) \<le> tc_max_pending s" "for_fold (mr_recipients req) [] resolve_recipient s = (Inr rps, s)"
    "create_under_lock req scope sender (normalize_priority (mr_priority req)) policy rps
       (normalized_non_empty (mr_idempotency_key req)) s = (Inr ack, s)" "tma_disposition ack = ''existing''"
  shows "create_message_and_deliveries req s = (Inr ack, s)"
  using assms(1-4,7)
  by (simp add: create_message_and_deliveries_def monad_simps Let_def bindE_pure [of "for_fold (mr_recipients req) [] resolve_recipient" s, OF assms(5)]
      bindE_pure [of "create_under_lock req scope sender (normalize_priority (mr_priority req)) policy rps
        (normalized_non_empty (mr_idempotency_key req))" s, OF assms(6)] ok_def)

text \<open>C14: Sending again under the same idempotency key does not send twice. When \<open>send_direct\<close> with a
  key succeeded and the recipient's session is still usable, the same request again returns the same
  message with the same deliveries, marked \<open>existing\<close>, and changes nothing: no id is taken, nothing
  is stored, no event is emitted and no turn is started, however far the first deliveries came.\<close>

theorem send_direct_idempotent:
  assumes ok: "comms_ok s" and room: "id_room s" and first: "send_direct req s = (Inr ack, s1)"
    and key: "normalized_non_empty (sdr_idempotency_key req) = Some k"
    and session: "hget (mg_sessions s1) (trim (sdr_recipient req)) = Some session" "sess_status session \<notin> {''closed'', ''failed''}"
  shows "\<exists>ds. send_direct req s1 = (Inr \<lparr>tma_message = tma_message ack, tma_deliveries = ds, tma_disposition = ''existing''\<rparr>, s1) \<and>
    map dlv_id ds = map dlv_id (tma_deliveries ack)"
proof -
  obtain s2 where on: "tc_enabled s" and acc: "direct_accepted req"
    and make: "create_message_and_deliveries (direct_message req) s = (Inr ack, s2)" and s1: "s1 = snd (deliver_created ack s2)"
    using send_direct_Inr [OF first] by blast
  let ?m = "direct_message req"
  have keyed: "normalized_non_empty (mr_idempotency_key ?m) = Some k" using key by (simp add: direct_message_def)
  obtain scope policy sender rps s3 where norm: "normalize_scope (mr_scope ?m) = Inr scope"
    "normalize_policy (mr_policy ?m) = Inr policy" "normalize_non_empty (mr_sender ?m) ''sender_agent_id'' = Inr sender"
    and limit: "length (mr_recipients ?m) \<le> tc_max_pending s" and rps: "for_fold (mr_recipients ?m) [] resolve_recipient s = (Inr rps, s)"
    and lock: "create_under_lock ?m scope sender (normalize_priority (mr_priority ?m)) policy rps (Some k) s = (Inr ack, s3)"
    and view: "tview s2 = tview s3"
    using create_message_Inr [OF make] unfolding keyed by metis
  have "length rps \<le> tc_max_pending s" using resolve_all [of "mr_recipients ?m" "[]" s] rps limit by auto
  then have fits: "batch_fits (length rps) s" using room unfolding id_room_def batch_fits_def by (meson le_less_trans mult_le_mono1)
  note room' = room [unfolded id_room_def]
  have reg: "hget (tc_idempotency s3) (idempotency_index_key (mr_team ?m) sender scope k) = Some (msg_id (tma_message ack))"
    "hget (tc_messages s3) (msg_id (tma_message ack)) = Some (tma_message ack)"
    "ids_of (tc_message_deliveries s3) (msg_id (tma_message ack)) = map dlv_id (tma_deliveries ack)"
    "tc_teams s3 = tc_teams s" "tc_members s3 = tc_members s" "tc_enabled s3 = tc_enabled s" "tc_max_pending s3 = tc_max_pending s"
    using create_lock_registers [OF ok lock _ _ fits] room' by simp_all
  have adv: "comms_ok s1" using advances_send_direct [OF advances_refl [OF ok] room, of req] first advances_ok by force
  have "fview s1 = fview s2" unfolding s1 by (rule preserves_at [OF fview_deliver]) simp
  then have frame: "fview s1 = fview s3" using fview_of_tview [OF view] by simp
  note same = fviewD [OF frame]
  obtain team ms where mem: "hget (tc_teams s) (mr_team ?m) = Some team" "hget (tc_members s) (mr_team ?m) = Some ms"
    "hcontains ms sender" "\<forall>rp \<in> set rps. hcontains ms (fst rp)" using create_lock_members [OF lock] by blast
  let ?r = "trim (sdr_recipient req)"
  have one: "mr_recipients ?m = [?r]" "?r \<noteq> []" using acc by (auto simp: direct_message_def direct_accepted_def)
  have "fst ` set rps = {?r}" using rps one by (auto simp: resolve_step bindE_def ok_def split: if_splits sum.splits)
  then have "hcontains ms ?r" using mem(4) by (metis image_iff singletonI)
  have again: "for_fold (mr_recipients ?m) [] resolve_recipient s1 = (Inr [(?r, sess_provider session)], s1)"
    using session one by (simp add: resolve_step bindE_def ok_def require_active_run)
  let ?ack = "\<lparr>tma_message = tma_message ack, tma_deliveries = List.map_filter (hget (tc_deliveries s1))
     (map dlv_id (tma_deliveries ack)), tma_disposition = ''existing''\<rparr>"
  have "existing_ack (idempotency_index_key (mr_team ?m) sender scope k) s1 = Some ?ack"
    using reg by (simp add: existing_ack_def same)
  then have "create_under_lock ?m scope sender (normalize_priority (mr_priority ?m)) policy [(?r, sess_provider session)] (Some k) s1 = (Inr ?ack, s1)"
    using mem(1-3) \<open>hcontains ms ?r\<close> by (intro create_lock_existing [where team = team and ms = ms]) (simp_all add: same reg)
  then have "create_message_and_deliveries ?m s1 = (Inr ?ack, s1)"
    using limit by (intro create_message_existing [OF norm _ again]) (simp_all add: same reg keyed)
  then have "send_direct req s1 = (Inr ?ack, s1)"
    using on acc send_direct_run [of req s1] by (simp add: same reg bindE_Inr deliver_created_def monad_simps ok_def)
  moreover have "map dlv_id (tma_deliveries ?ack) = map dlv_id (tma_deliveries ack)"
    using listed_deliveries [OF adv, of "msg_id (tma_message ack)"] by (simp add: same reg)
  ultimately show ?thesis by (metis team_message_ack.select_convs(2))
qed

definition sample_direct :: send_direct_request where
  "sample_direct = \<lparr>sdr_team = ''t'', sdr_sender = ''a'', sdr_recipient = ''s1'', sdr_input = JArray [JNull], sdr_image_paths = [],
     sdr_priority = ''normal'', sdr_policy = ''non_interrupting'', sdr_correlation_id = None, sdr_reply_to = None,
     sdr_idempotency_key = Some ''once''\<rparr>"

definition stored_comms :: "unit comms" where
  "stored_comms = busy_comms\<lparr>env_db := empty_db\<lparr>db_sessions := [busy_session], db_teams := [sample_team]\<rparr>\<rparr>"

lemma stored_comms_ok: "comms_ok stored_comms" "id_room stored_comms"
  using busy_comms_ok comms_ok_view [of stored_comms busy_comms]
  by (simp_all add: stored_comms_def tview_def id_room_def batch_fits_def busy_comms_def sample_comms_eval)

lemma sample_direct_sent:
  "case send_direct sample_direct stored_comms of
     (Inl _, _) \<Rightarrow> False
   | (Inr _, s1) \<Rightarrow> map_option sess_status (hget (mg_sessions s1) (trim (sdr_recipient sample_direct))) = Some ''ready''"
  by code_simp

theorem send_direct_idempotent_witness:
  "\<exists>ack s1 ds. send_direct sample_direct stored_comms = (Inr ack, s1) \<and>
     send_direct sample_direct s1 = (Inr \<lparr>tma_message = tma_message ack, tma_deliveries = ds, tma_disposition = ''existing''\<rparr>, s1)"
proof -
  obtain ack s1 r where first: "send_direct sample_direct stored_comms = (Inr ack, s1)"
    and "hget (mg_sessions s1) (trim (sdr_recipient sample_direct)) = Some r" "sess_status r = ''ready''"
    using sample_direct_sent by (auto split: prod.splits sum.splits)
  moreover have "normalized_non_empty (sdr_idempotency_key sample_direct) = Some ''once''" by code_simp
  ultimately show ?thesis
    using send_direct_idempotent [OF stored_comms_ok first] by fastforce
qed

end
