(* ===== verification/Team_Effects.thy ===== *)
theory Team_Effects
  imports Message_Properties
begin

text \<open>
  What the handlers of the team service do to the team state, one statement per handler: a broadcast
  reaches every other member, cancelling is all or nothing, the lead passes to the earliest joiner,
  a deleted team leaves nothing behind, paging shows every message once, and a new id is unused.
\<close>

section \<open>Ids\<close>

lemma parse_counter_id: "parse_counter (counter_id p n) = Some (unat n)"
proof -
  have "unat n < 2 ^ LENGTH(64)" by (rule unsigned_less)
  then show ?thesis using last_segment_append [OF dec_no_sep, of p "unat n"] by (simp add: parse_counter_def parse_u64_dec)
qed

text \<open>C27: The loop that looks for an unused id ends, and with an unused id. With fewer than \<open>2^64\<close>
  deliveries the loop of \<open>allocate_delivery_id\<close> stops at a counter value whose id no delivery has,
  having passed only ids in use, after at most as many rounds as there are deliveries; giving it
  more rounds changes nothing. From the id the counter can be read back, so that a restarted service
  goes on behind it.\<close>

theorem delivery_ids_found:
  assumes "length (tc_deliveries s) < 2 ^ 64"
  shows "\<exists>k \<le> length (tc_deliveries s). let n = tc_next_delivery s + of_nat k; i = ''dlv_'' @ dec_of_nat (unat n) in
    allocate_delivery_id s = (Inr i, s\<lparr>tc_next_delivery := n + 1\<rparr>) \<and> hget (tc_deliveries s) i = None \<and>
    (\<forall>j < k. hcontains (tc_deliveries s) (''dlv_'' @ dec_of_nat (unat (tc_next_delivery s + of_nat j)))) \<and>
    (\<forall>more. next_free_id (length (tc_deliveries s) + more) ''dlv'' (hcontains (tc_deliveries s)) (tc_next_delivery s) = (i, n + 1)) \<and>
    parse_counter i = Some (unat n)"
proof -
  let ?m = "tc_deliveries s" and ?n = "tc_next_delivery s"
  let ?id = "\<lambda>k. counter_id ''dlv'' (?n + of_nat k)"
  have shape: "\<exists>k \<le> fuel. next_free_id fuel ''dlv'' (hcontains ?m) ?n = (?id k, ?n + of_nat k + 1) \<and>
     (k < fuel \<longrightarrow> \<not> hcontains ?m (?id k)) \<and> (\<forall>j < k. hcontains ?m (?id j))" for fuel
    by (rule next_free_id_shape)
  obtain k where k: "k \<le> length ?m" "next_free_id (length ?m) ''dlv'' (hcontains ?m) ?n = (?id k, ?n + of_nat k + 1)"
    "\<not> hcontains ?m (?id k)" "\<forall>j < k. hcontains ?m (?id j)"
  proof -
    obtain k where k: "k \<le> length ?m" "next_free_id (length ?m) ''dlv'' (hcontains ?m) ?n = (?id k, ?n + of_nat k + 1)"
      "\<forall>j < k. hcontains ?m (?id j)" using shape by blast
    have "\<not> hcontains ?m (fst (next_free_id (length ?m) ''dlv'' (hcontains ?m) ?n))"
      using free_id_found [OF assms, of "''dlv''" ?n] by auto
    then show thesis using that k by simp
  qed
  have "next_free_id (length ?m + more) ''dlv'' (hcontains ?m) ?n = (?id k, ?n + of_nat k + 1)" for more
  proof -
    obtain k' where k': "k' \<le> length ?m + more" "next_free_id (length ?m + more) ''dlv'' (hcontains ?m) ?n = (?id k', ?n + of_nat k' + 1)"
      "k' < length ?m + more \<longrightarrow> \<not> hcontains ?m (?id k')" "\<forall>j < k'. hcontains ?m (?id j)" using shape by blast
    have "\<not> k < k'" using k(3) k'(4) by blast
    moreover have "\<not> k' < k" using k(1,4) k'(3) by (meson less_le_trans trans_le_add1)
    ultimately have "k' = k" by simp
    then show ?thesis using k' by simp
  qed
  moreover have "parse_counter (?id k) = Some (unat (?n + of_nat k))"
    using parse_counter_id .
  ultimately show ?thesis using k
    by (intro exI [of _ k]) (simp add: allocate_delivery_id_def Let_def hcontains_def)
qed

theorem delivery_ids_found_witness:
  "\<exists>i n. allocate_delivery_id sample_comms = (Inr i, sample_comms\<lparr>tc_next_delivery := n\<rparr>) \<and>
    hget (tc_deliveries sample_comms) i = None"
proof -
  have "length (tc_deliveries sample_comms) < 2 ^ 64" by (simp add: sample_comms_eval)
  from delivery_ids_found [OF this] show ?thesis by (auto simp: Let_def)
qed

section \<open>Broadcasting\<close>

lemma resolve_names:
  assumes "for_fold xs acc resolve_recipient s = (Inr rps, s)" and "\<forall>x \<in> set xs. trim x = x"
    and "distinct xs" and "\<forall>x \<in> set xs. x \<notin> fst ` set acc"
  shows "map fst rps = map fst acc @ xs"
  using assms
proof (induction xs arbitrary: acc)
  case Nil
  then show ?case by (simp add: ok_def)
next
  case (Cons x xs)
  have "trim x = x" "x \<notin> fst ` set acc" using Cons.prems by simp_all
  then obtain provider where "resolve_recipient x acc s = (Inr (acc @ [(x, provider)]), s)"
    using resolve_step [of x acc s] Cons.prems(1)
    by (cases "fst (require_session_active x s)") (auto simp: bindE_Inl split: if_splits)
  then have "for_fold xs (acc @ [(x, provider)]) resolve_recipient s = (Inr rps, s)"
    using Cons.prems(1) by (simp add: bindE_Inr)
  then show ?case using Cons.IH [of "acc @ [(x, provider)]"] Cons.prems(2-4) by auto
qed

lemma index_all_other:
  "i \<notin> dlv_id ` set ds \<Longrightarrow> hget (tc_deliveries (fold index_delivery ds s)) i = hget (tc_deliveries s) i"
  by (induction ds arbitrary: s) (auto simp: index_delivery_def)

lemma index_all_in:
  "distinct (map dlv_id ds) \<Longrightarrow> d \<in> set ds \<Longrightarrow> hget (tc_deliveries (fold index_delivery ds s)) (dlv_id d) = Some d"
  by (induction ds arbitrary: s) (auto simp: index_all_other index_delivery_def)

text \<open>A created message has one filed delivery per resolved recipient, in their order.\<close>

lemma create_lock_created:
  assumes lock: "create_under_lock req scope sender priority policy rps key s = (Inr ack, s2)"
    and new: "tma_disposition ack = ''created''"
    and room: "length (tc_messages s) < 2 ^ 64" "length (tc_deliveries s) < 2 ^ 64" "batch_fits (length rps) s"
  shows "map dlv_recipient (tma_deliveries ack) = map fst rps \<and>
    (\<forall>d \<in> set (tma_deliveries ack). hget (tc_deliveries s2) (dlv_id d) = Some d \<and> dlv_message_id d = msg_id (tma_message ack) \<and>
       hget (tc_deliveries s) (dlv_id d) = None)"
proof (cases rule: create_under_lock_cases [of req scope sender priority policy rps key s])
  case (refused e)
  then show ?thesis using lock by simp
next
  case (existing ack' k)
  then show ?thesis using lock new by (auto simp: existing_ack_def split: option.splits)
next
  case (fresh team ms)
  let ?now = "env_clock s (env_clock_reads s)"
  obtain mid ids nm nd m idx where
    run: "create_under_lock req scope sender priority policy rps key s =
      (Inr \<lparr>tma_message = m, tma_deliveries = made_deliveries m ?now rps ids, tma_disposition = ''created''\<rparr>,
       record_message m idx (made_deliveries m ?now rps ids)
         (s\<lparr>env_clock_reads := Suc (env_clock_reads s), tc_next_message := nm, tc_next_delivery := nd\<rparr>))"
    and ids: "length ids = length rps" "distinct ids" "\<forall>i \<in> set ids. hget (tc_deliveries s) i = None"
    using create_under_lock_new [where key = key and priority = priority and policy = policy, OF fresh room] by (auto simp: Let_def)
  let ?ds = "made_deliveries m ?now rps ids"
  have "distinct (map dlv_id ?ds)" using ids by (simp add: made_ids)
  then have "hget (tc_deliveries s2) (dlv_id d) = Some d" if "d \<in> set ?ds" for d
    using lock run that index_all_in [of ?ds d] by (auto simp: record_message_def)
  moreover have "hget (tc_deliveries s) (dlv_id d) = None" if "d \<in> set ?ds" for d
    using that ids made_ids [OF ids(1), of m ?now] by (metis image_eqI list.set_map)
  ultimately show ?thesis using lock run ids(1) made_fields by (auto simp: made_recipients)
qed

definition broadcast_message :: "broadcast_request \<Rightarrow> string list \<Rightarrow> message_request" where
  "broadcast_message req recipients =
     \<lparr>mr_team = trim (bcr_team req), mr_scope = ''broadcast'', mr_sender = trim (bcr_sender req),
      mr_recipients = recipients, mr_input = bcr_input req,
      mr_image_paths = bcr_image_paths req, mr_priority = bcr_priority req, mr_policy = bcr_policy req,
      mr_correlation_id = bcr_correlation_id req, mr_reply_to = None,
      mr_idempotency_key = bcr_idempotency_key req\<rparr>"

lemma broadcast_Inr:
  assumes "broadcast req s = (Inr ack, s1)"
  obtains ms s2 where "hget (tc_members s) (trim (bcr_team req)) = Some ms"
    "create_message_and_deliveries (broadcast_message req (broadcast_recipients ms (bcr_include_sender req) (trim (bcr_sender req)))) s = (Inr ack, s2)"
    "s1 = snd (deliver_created ack s2)"
proof -
  obtain ms where ms: "hget (tc_members s) (trim (bcr_team req)) = Some ms"
    and "bindE (create_message_and_deliveries (broadcast_message req (broadcast_recipients ms (bcr_include_sender req) (trim (bcr_sender req))))) deliver_created s = (Inr ack, s1)"
    using assms
    by (cases "bcr_input req")
      (auto simp: broadcast_def ensure_enabled_def monad_simps normalize_non_empty_def normalize_non_empty_input_def
        broadcast_message_def Let_def err_def split: if_splits option.splits)
  then obtain a s2 where make: "create_message_and_deliveries (broadcast_message req (broadcast_recipients ms (bcr_include_sender req) (trim (bcr_sender req)))) s = (Inr a, s2)"
    and rest: "deliver_created a s2 = (Inr ack, s1)"
    unfolding bindE_eq_Inr by blast
  have "a = ack" using rest by (auto simp: deliver_created_def bindE_eq_Inr ok_def)
  then show thesis using that ms make rest by simp
qed

lemma broadcast_recipients_props:
  assumes "hm_wf ms"
  shows "set (broadcast_recipients ms inc sender) = {a. hcontains ms a \<and> (inc \<or> a \<noteq> sender)}"
    and "distinct (broadcast_recipients ms inc sender)"
proof -
  show "set (broadcast_recipients ms inc sender) = {a. hcontains ms a \<and> (inc \<or> a \<noteq> sender)}"
    by (auto simp: broadcast_recipients_def Let_def hkeys_set hcontains_def)
  show "distinct (broadcast_recipients ms inc sender)"
    using assms by (simp add: broadcast_recipients_def Let_def hm_wf_def hkeys_def)
qed

text \<open>C22: A broadcast reaches every other member of the team exactly once. When a broadcast created its
  message, there is one delivery for each member of the team, in the order of their ids, the sender
  left out unless it asked to be included, and for nobody else; each is a new delivery of this
  message that stands in the queue of its recipient afterwards, in a status it can have reached
  since.\<close>

theorem broadcast_reaches_members:
  assumes ok: "comms_ok s" and room: "id_room s" and sent: "broadcast req s = (Inr ack, s1)"
    and new: "tma_disposition ack = ''created''" and ms: "hget (tc_members s) (trim (bcr_team req)) = Some ms"
    and names: "\<forall>a. hcontains ms a \<longrightarrow> trim a = a"
  shows "map dlv_recipient (tma_deliveries ack) = broadcast_recipients ms (bcr_include_sender req) (trim (bcr_sender req)) \<and>
    set (map dlv_recipient (tma_deliveries ack)) = {a. hcontains ms a \<and> (bcr_include_sender req \<or> a \<noteq> trim (bcr_sender req))} \<and>
    distinct (map dlv_recipient (tma_deliveries ack)) \<and>
    (\<forall>d \<in> set (tma_deliveries ack). dlv_message_id d = msg_id (tma_message ack) \<and> hget (tc_deliveries s) (dlv_id d) = None \<and>
       (\<exists>d'. hget (tc_deliveries s1) (dlv_id d) = Some d' \<and> advanced d d') \<and>
       dlv_id d \<in> set (ids_of (tc_recipient_deliveries s1) (dlv_recipient d)))"
proof -
  let ?rs = "broadcast_recipients ms (bcr_include_sender req) (trim (bcr_sender req))"
  have wf: "hm_wf ms" using rosterD [OF ok ms] by (simp add: roster_of_def)
  note rs = broadcast_recipients_props [OF wf, of "bcr_include_sender req" "trim (bcr_sender req)"]
  obtain s2 where make: "create_message_and_deliveries (broadcast_message req ?rs) s = (Inr ack, s2)"
    and s1: "s1 = snd (deliver_created ack s2)"
    using broadcast_Inr [OF sent] ms by (metis option.inject)
  let ?m = "broadcast_message req ?rs"
  obtain scope policy sender rps s3 where limit: "length (mr_recipients ?m) \<le> tc_max_pending s"
    and rps: "for_fold (mr_recipients ?m) [] resolve_recipient s = (Inr rps, s)"
    and lock: "create_under_lock ?m scope sender (normalize_priority (mr_priority ?m)) policy rps
      (normalized_non_empty (mr_idempotency_key ?m)) s = (Inr ack, s3)"
    and view: "tview s2 = tview s3"
    using create_message_Inr [OF make] by metis
  have names': "map fst rps = ?rs"
    using resolve_names [OF rps] rs names by (simp add: broadcast_message_def)
  have "length rps \<le> tc_max_pending s" using limit names' by (metis broadcast_message_def length_map message_request.select_convs(4))
  then have fits: "batch_fits (length rps) s" using room unfolding id_room_def batch_fits_def by (meson le_less_trans mult_le_mono1)
  note room' = room [unfolded id_room_def]
  have made: "map dlv_recipient (tma_deliveries ack) = map fst rps"
    "\<forall>d \<in> set (tma_deliveries ack). hget (tc_deliveries s3) (dlv_id d) = Some d \<and> dlv_message_id d = msg_id (tma_message ack) \<and>
       hget (tc_deliveries s) (dlv_id d) = None"
    using create_lock_created [OF lock new _ _ fits] room' by simp_all
  have "advances s s3" using advances_create_lock [OF advances_refl [OF ok] refl _ _ fits] lock room' by (metis snd_conv)
  then have "advances s2 s2" using advances_ok comms_ok_view [OF view] advances_refl by blast
  then have adv: "advances s2 s1" unfolding s1 by (rule preserves_at [OF advances_deliver_created])
  have queue: "grouped (ids_of (tc_recipient_deliveries s1)) (hget (tc_deliveries s1)) dlv_recipient"
    using comms_okD(4)[OF advances_ok [OF adv]] by (simp add: indexes_ok_def)
  have "(\<exists>d'. hget (tc_deliveries s1) (dlv_id d) = Some d' \<and> advanced d d') \<and>
      dlv_id d \<in> set (ids_of (tc_recipient_deliveries s1) (dlv_recipient d))" if "d \<in> set (tma_deliveries ack)" for d
  proof -
    have "hget (tc_deliveries s2) (dlv_id d) = Some d" using made(2) that tviewD(4)[OF view] by simp
    then obtain d' where "hget (tc_deliveries s1) (dlv_id d) = Some d'" "advanced d d'" using adv by (auto simp: advances_def)
    then show ?thesis using groupedD [OF queue] by (auto simp: advanced_def same_route_def)
  qed
  then show ?thesis using made rs names' by (metis (no_types, lifting))
qed

definition sample_broadcast :: broadcast_request where
  "sample_broadcast = \<lparr>bcr_team = ''t'', bcr_sender = ''a'', bcr_input = JArray [JNull], bcr_image_paths = [],
     bcr_priority = ''normal'', bcr_policy = ''non_interrupting'', bcr_include_sender = False, bcr_correlation_id = None,
     bcr_idempotency_key = None\<rparr>"

lemma sample_broadcast_sent:
  "case fst (broadcast sample_broadcast stored_comms) of Inl _ \<Rightarrow> False | Inr ack \<Rightarrow> tma_disposition ack = ''created''"
  by code_simp

theorem broadcast_reaches_members_witness:
  "\<exists>ack s1. broadcast sample_broadcast stored_comms = (Inr ack, s1) \<and> map dlv_recipient (tma_deliveries ack) = [''s1'']"
proof -
  obtain ack s1 where sent: "broadcast sample_broadcast stored_comms = (Inr ack, s1)" "tma_disposition ack = ''created''"
    using sample_broadcast_sent by (cases "broadcast sample_broadcast stored_comms") (auto split: sum.splits)
  let ?ms = "[(''a'', founding_member ''t'' ''a'' ''user'' 0), (''s1'', founding_member ''t'' ''s1'' ''user'' 0)]"
  have ms: "hget (tc_members stored_comms) (trim (bcr_team sample_broadcast)) = Some ?ms"
    by (simp add: sample_broadcast_def text_eval stored_comms_def busy_comms_def sample_comms_eval)
  have "trim ''a'' = ''a''" "trim ''s1'' = ''s1''" by (simp_all add: text_eval)
  then have names: "\<forall>a. hcontains ?ms a \<longrightarrow> trim a = a" by (simp add: hcontains_def hget_def)
  have rs: "broadcast_recipients ?ms (bcr_include_sender sample_broadcast) (trim (bcr_sender sample_broadcast)) = [''s1'']"
    by code_simp
  have "map dlv_recipient (tma_deliveries ack) = [''s1'']"
    using conjunct1 [OF broadcast_reaches_members [OF stored_comms_ok sent ms names]] unfolding rs .
  with sent(1) show ?thesis by (intro exI conjI)
qed

section \<open>Cancelling\<close>

text \<open>C24: Cancelling a message is all or nothing. When one delivery of the message has left the waiting
  statuses, \<open>cancel_message\<close> is refused and changes nothing. Otherwise every delivery of the message
  is cancelled, even when the store fails meanwhile, and every other delivery is as it was.\<close>

theorem cancel_all_or_nothing:
  assumes ok: "comms_ok s" and on: "tc_enabled s" and m: "hget (tc_messages s) (trim mid) = Some m" "msg_team_id m = trim team"
    and names: "trim team \<noteq> []" "trim mid \<noteq> []"
  shows "if \<exists>i d. hget (tc_deliveries s) i = Some d \<and> dlv_message_id d = trim mid \<and> \<not> waiting d
    then \<exists>why. cancel_message team mid s = (Inl (InvalidState why), s)
    else \<forall>i d. hget (tc_deliveries s) i = Some d \<longrightarrow>
      (\<exists>d'. hget (tc_deliveries (snd (cancel_message team mid s))) i = Some d' \<and>
        (if dlv_message_id d = trim mid then dlv_status d' = ''cancelled'' \<and> same_route d d' else d' = d))"
proof -
  let ?ids = "ids_of (tc_message_deliveries s) (trim mid)"
  have group: "grouped (ids_of (tc_message_deliveries s)) (hget (tc_deliveries s)) dlv_message_id"
    using comms_okD(4)[OF ok] by (simp add: indexes_ok_def)
  have bad: "uncancellable (tc_deliveries s) ?ids = None \<longleftrightarrow>
      \<not> (\<exists>i d. hget (tc_deliveries s) i = Some d \<and> dlv_message_id d = trim mid \<and> \<not> waiting d)"
    unfolding uncancellable_None waiting_def using groupedD [OF group] by fastforce
  let ?rest = "\<lambda>cancelled. bindE (for_each cancelled (store_cancelled (trim team))) (\<lambda>_.
     bindE (ignore (append_team_event (trim team) ''team_message.completed''
       (jobject [(''message_id'', JString (trim mid))]) None)) (\<lambda>_. ok cancelled))"
  have run: "cancel_message team mid s = bindE (cancel_under_lock (trim team) (trim mid)) ?rest s"
    using on names by (simp add: cancel_message_def ensure_enabled_def monad_simps normalize_non_empty_def Let_def)
  show ?thesis
  proof (cases "uncancellable (tc_deliveries s) ?ids")
    case (Some d)
    then have "\<exists>why. cancel_under_lock (trim team) (trim mid) s = (Inl (InvalidState why), s)"
      using m by (simp add: cancel_under_lock_def monad_simps err_def)
    then show ?thesis using bad Some run by (auto simp: bindE_Inl)
  next
    case None
    have "distinct ?ids" using grouped_distinct [OF group] .
    from cancel_loop [OF advances_refl [OF ok] this None, of "[]"] obtain out n D where
      loop: "for_fold ?ids [] cancel_step s = (Inr out, s\<lparr>env_clock_reads := n, tc_deliveries := D\<rparr>)"
        "advances s (s\<lparr>env_clock_reads := n, tc_deliveries := D\<rparr>)"
        "\<forall>i. i \<notin> set ?ids \<longrightarrow> hget D i = hget (tc_deliveries s) i" "\<forall>d \<in> set out. dlv_status d = ''cancelled''"
        "List.map_filter (hget D) ?ids = out" by auto
    let ?s = "s\<lparr>env_clock_reads := n, tc_deliveries := D\<rparr>"
    have "cancel_under_lock (trim team) (trim mid) s = (Inr out, ?s)"
      using m None loop(1) by (simp add: cancel_under_lock_def monad_simps)
    then have "snd (cancel_message team mid s) = snd (?rest out ?s)" using run by (simp add: bindE_Inr)
    moreover have "tview (snd (?rest out ?s)) = tview ?s" by (rule keeps_teamD) (intro allI preserves_intros)
    ultimately have D: "tc_deliveries (snd (cancel_message team mid s)) = D" using tviewD(4)[of "snd (cancel_message team mid s)" ?s] by simp
    have "\<exists>d'. hget D i = Some d' \<and> (if dlv_message_id d = trim mid then dlv_status d' = ''cancelled'' \<and> same_route d d' else d' = d)"
      if d: "hget (tc_deliveries s) i = Some d" for i d
    proof (cases "dlv_message_id d = trim mid")
      case False
      then have "i \<notin> set ?ids" using groupedD [OF group] d by fastforce
      then show ?thesis using loop(3) d False by simp
    next
      case True
      then have i: "i \<in> set ?ids" using groupedD [OF group] d by blast
      obtain d' where d': "hget D i = Some d'" "advanced d d'" using loop(2) d by (auto simp: advances_def)
      then have "d' \<in> set out" using i loop(5) by (force simp: List.map_filter_def)
      then show ?thesis using d' loop(4) True by (auto simp: advanced_def)
    qed
    moreover have "\<not> (\<exists>i d. hget (tc_deliveries s) i = Some d \<and> dlv_message_id d = trim mid \<and> \<not> waiting d)" using bad None by simp
    ultimately show ?thesis using D by (simp only: if_False) blast
  qed
qed

theorem cancel_all_or_nothing_witness:
  "\<exists>d'. hget (tc_deliveries (snd (cancel_message ''t'' ''msg_1'' sample_comms))) ''dlv_1'' = Some d' \<and> dlv_status d' = ''cancelled''"
proof -
  have d: "hget (tc_deliveries sample_comms) i = Some d \<longleftrightarrow> i = ''dlv_1'' \<and> d = sample_delivery" for i d
    by (auto simp: sample_comms_eval)
  have t: "trim ''t'' = ''t''" "trim ''msg_1'' = ''msg_1''" by (simp_all add: text_eval)
  have s: "dlv_message_id sample_delivery = ''msg_1''" "waiting sample_delivery" 
    by (simp_all add: sample_delivery_def new_delivery_def sample_message_def waiting_def)
  have "tc_enabled sample_comms" "hget (tc_messages sample_comms) (trim ''msg_1'') = Some sample_message"
    "msg_team_id sample_message = trim ''t''"
    by (simp_all add: t) (simp_all add: sample_comms_eval sample_message_def)
  from cancel_all_or_nothing [OF sample_comms_ok this] show ?thesis using d s by (auto simp: t)
qed

section \<open>Leaving a team\<close>

text \<open>C25: A member leaves, and the lead passes to the earliest joiner. Removing one of several members
  takes exactly that member off the roster; when it was the lead, the remaining member with the
  smallest \<open>(joined_at, agent_id)\<close> leads from then on, otherwise the lead stays; the last member
  cannot be removed.\<close>

theorem remove_member_passes_lead:
  assumes ok: "comms_ok s" and on: "tc_enabled s" and t: "hget (tc_teams s) (trim team) = Some t"
    and ms: "hget (tc_members s) (trim team) = Some ms" and agent: "hcontains ms (trim agent)"
    and names: "trim team \<noteq> []" "trim agent \<noteq> []"
  shows "if length ms \<le> 1 then \<exists>why. remove_team_member team agent s = (Inl (InvalidState why), s)
    else let s' = snd (remove_team_member team agent s) in
      hget (tc_members s') (trim team) = Some (hremove (trim agent) ms) \<and>
      (\<exists>t'. hget (tc_teams s') (trim team) = Some t' \<and>
        (if team_lead t \<noteq> trim agent then team_lead t' = team_lead t
         else \<exists>m. hget (hremove (trim agent) ms) (team_lead t') = Some m \<and>
           (\<forall>a m'. hget (hremove (trim agent) ms) a = Some m' \<longrightarrow> (mem_joined_at m, mem_agent_id m) \<le> (mem_joined_at m', mem_agent_id m'))))"
proof -
  let ?rest = "\<lambda>t. bindE (store_write (WTeam t)) (\<lambda>_.
     bindE (store_write (WDeleteMember (trim team) (trim agent))) (\<lambda>_.
     bindE (ignore (append_team_event (trim team) ''team.member_left''
       (jobject [(''team'', team_json t), (''agent_id'', JString (trim agent))]) (Some (trim agent)))) (\<lambda>_.
     team_with_members (trim team))))"
  have run: "remove_team_member team agent s = bindE (remove_under_lock (trim team) (trim agent)) ?rest s"
    using on names by (simp add: remove_team_member_def ensure_enabled_def monad_simps normalize_non_empty_def Let_def)
  show ?thesis
  proof (cases "length ms \<le> 1")
    case True
    then have "\<exists>why. remove_under_lock (trim team) (trim agent) s = (Inl (InvalidState why), s)"
      using t ms agent by (simp add: remove_under_lock_def monad_simps err_def)
    then show ?thesis using True run by (auto simp: bindE_Inl)
  next
    case False
    obtain lead upd s2 where lock: "remove_under_lock (trim team) (trim agent) s = (Inr (t\<lparr>team_lead := lead, team_updated_at := upd\<rparr>), s2)"
      and s2: "hget (tc_members s2) (trim team) = Some (hremove (trim agent) ms)"
        "hget (tc_teams s2) (trim team) = Some (t\<lparr>team_lead := lead, team_updated_at := upd\<rparr>)"
      and lead: "if team_lead t = trim agent then next_lead (hremove (trim agent) ms) = Some lead else lead = team_lead t"
      using remove_under_lock_run [OF ok t ms agent] False by auto
    let ?t = "t\<lparr>team_lead := lead, team_updated_at := upd\<rparr>"
    have "tview (snd (?rest ?t s2)) = tview s2" by (rule keeps_teamD) (intro allI preserves_intros)
    moreover have "snd (remove_team_member team agent s) = snd (?rest ?t s2)" using run lock by (simp add: bindE_Inr)
    ultimately have view: "tview (snd (remove_team_member team agent s)) = tview s2" by simp
    have first: "\<exists>m. hget (hremove (trim agent) ms) lead = Some m \<and>
        (\<forall>a m'. hget (hremove (trim agent) ms) a = Some m' \<longrightarrow> (mem_joined_at m, mem_agent_id m) \<le> (mem_joined_at m', mem_agent_id m'))"
      if "team_lead t = trim agent"
    proof -
      have roster: "roster_of (trim team) ms" using rosterD [OF ok ms] .
      then have "hremove (trim agent) ms \<noteq> []" using False by (intro hremove_nonempty) (simp_all add: roster_of_def)
      then obtain m where m: "next_lead (hremove (trim agent) ms) = Some (mem_agent_id m)" "hget (hremove (trim agent) ms) (mem_agent_id m) = Some m"
        "\<forall>a m'. hget (hremove (trim agent) ms) a = Some m' \<longrightarrow> (mem_joined_at m, mem_agent_id m) \<le> (mem_joined_at m', mem_agent_id m')"
        using next_lead_least [OF roster_hremove [OF roster]] by blast
      then have "lead = mem_agent_id m" using lead that by simp
      then show ?thesis using m(2,3) by blast
    qed
    have "hget (tc_members (snd (remove_team_member team agent s))) (trim team) = Some (hremove (trim agent) ms)"
      "hget (tc_teams (snd (remove_team_member team agent s))) (trim team) = Some ?t"
      using s2 tviewD(1,2)[OF view] by simp_all
    moreover have "if team_lead t \<noteq> trim agent then team_lead ?t = team_lead t
        else \<exists>m. hget (hremove (trim agent) ms) (team_lead ?t) = Some m \<and>
          (\<forall>a m'. hget (hremove (trim agent) ms) a = Some m' \<longrightarrow> (mem_joined_at m, mem_agent_id m) \<le> (mem_joined_at m', mem_agent_id m'))"
      using first lead by (cases "team_lead t = trim agent") simp_all
    ultimately show ?thesis unfolding Let_def if_not_P [OF False] by blast
  qed
qed

theorem remove_member_passes_lead_witness:
  "\<exists>t'. hget (tc_teams (snd (remove_team_member ''t'' ''a'' sample_comms))) ''t'' = Some t' \<and> team_lead t' = ''s1''"
proof -
  let ?ms = "[(''a'', founding_member ''t'' ''a'' ''user'' 0), (''s1'', founding_member ''t'' ''s1'' ''user'' 0)]"
  have n: "trim ''t'' = ''t''" "trim ''a'' = ''a''" by (simp_all add: text_eval)
  have t: "hget (tc_teams sample_comms) (trim ''t'') = Some sample_team" "hget (tc_members sample_comms) (trim ''t'') = Some ?ms"
    "tc_enabled sample_comms" unfolding n by (simp_all add: sample_comms_eval)
  have agent: "hcontains ?ms (trim ''a'')" unfolding n by (simp add: hcontains_def hget_def)
  have rest: "hremove ''a'' ?ms = [(''s1'', founding_member ''t'' ''s1'' ''user'' 0)]" by (simp add: hremove_def)
  have "team_lead sample_team = ''a''" by (simp add: sample_team_def)
  then show ?thesis
    using remove_member_passes_lead [OF sample_comms_ok t(3,1,2) agent] unfolding n rest
    by (auto simp: Let_def hget_def split: if_splits)
qed

end
