(* ===== verification/Team_Reading.thy ===== *)
theory Team_Reading
  imports Message_Properties
begin

text \<open>
  Reading messages page by page, and what a restarted service finds after a team was deleted.
\<close>

section \<open>Paging\<close>

text \<open>A client that follows \<open>next_cursor\<close> until there is none.\<close>

fun read_pages :: "nat \<Rightarrow> string \<Rightarrow> string option \<Rightarrow> nat option \<Rightarrow> ('p, 'z) comms_scheme \<Rightarrow> team_message_record list option" where
  "read_pages 0 team cursor limit s = None"
| "read_pages (Suc n) team cursor limit s =
     (case fst (list_messages team cursor limit s) of
        Inl _ \<Rightarrow> None
      | Inr page \<Rightarrow>
          (case lmr_next_cursor page of
             None \<Rightarrow> Some (lmr_messages page)
           | Some c \<Rightarrow> map_option (\<lambda>rest. lmr_messages page @ rest) (read_pages n team (Some c) limit s)))"

lemma position_nth: "distinct xs \<Longrightarrow> i < length xs \<Longrightarrow> position (xs ! i) xs = Some i"
proof (induction xs arbitrary: i)
  case Nil
  then show ?case by simp
next
  case (Cons x xs)
  then show ?case by (cases i) auto
qed

lemma page_limit_pos: "0 < page_limit limit"
  by (simp add: page_limit_def)

lemma map_filter_all: "\<forall>i \<in> set ids. f i = Some (g i) \<Longrightarrow> List.map_filter f ids = map g ids"
  by (induction ids) (auto simp: List.map_filter_simps)

lemma message_page_run:
  assumes "\<forall>i \<in> set ids. hget messages i = Some (g i) \<and> msg_id (g i) = i" and "start \<le> length ids" and "0 < limit"
  shows "message_page messages ids start limit =
    \<lparr>lmr_messages = map g (take limit (drop start ids)),
     lmr_next_cursor = (if start + limit < length ids then Some (ids ! (start + limit - 1)) else None)\<rparr>"
proof -
  let ?ids = "take limit (drop start ids)"
  have "set ?ids \<subseteq> set ids" by (meson in_set_dropD in_set_takeD subsetI)
  then have page: "List.map_filter (hget messages) ?ids = map g ?ids" using assms(1) by (intro map_filter_all) auto
  have last: "msg_id (last (map g ?ids)) = ids ! (start + limit - 1)" if "start + limit < length ids"
  proof -
    have len: "length ?ids = limit" using that by simp
    then have ne: "?ids \<noteq> []" using assms(3) by auto
    then have "last ?ids = ids ! (start + (limit - 1))" using len assms(3) that by (simp add: last_conv_nth)
    moreover have "last ?ids \<in> set ids" using ne last_in_set \<open>set ?ids \<subseteq> set ids\<close> by blast
    ultimately show ?thesis using ne assms(1,3) by (simp add: last_map)
  qed
  show ?thesis
  proof (cases "start + limit < length ids")
    case True
    then have "map g ?ids \<noteq> []" using assms(3) by auto
    then show ?thesis using True last [OF True] unfolding message_page_def page Let_def by simp
  next
    case False
    then show ?thesis using assms(2) unfolding message_page_def page Let_def by simp
  qed
qed

lemma read_pages_from:
  assumes "tc_enabled s" and "trim team \<noteq> []" and ids: "ids = ids_of (tc_team_messages s) (trim team)" "distinct ids"
    and rows: "\<forall>i \<in> set ids. hget (tc_messages s) i = Some (g i) \<and> msg_id (g i) = i \<and> trim i = i \<and> i \<noteq> []"
    and "page_start ids cursor (trim team) = Inr start" and "start \<le> length ids" and "length ids - start < n"
  shows "read_pages n team cursor limit s = Some (map g (drop start ids))"
  using assms(6-8)
proof (induction n arbitrary: cursor start)
  case 0
  then show ?case by simp
next
  case (Suc n)
  let ?l = "page_limit limit"
  have page: "message_page (tc_messages s) ids start ?l =
    \<lparr>lmr_messages = map g (take ?l (drop start ids)),
     lmr_next_cursor = (if start + ?l < length ids then Some (ids ! (start + ?l - 1)) else None)\<rparr>"
    using rows Suc.prems(2) page_limit_pos by (intro message_page_run) auto
  have run: "fst (list_messages team cursor limit s) = Inr (message_page (tc_messages s) ids start ?l)"
    using assms(1,2) Suc.prems(1)
    by (simp add: list_messages_def ensure_enabled_def monad_simps normalize_non_empty_def Let_def gets_def flip: ids(1))
  show ?case
  proof (cases "start + ?l < length ids")
    case True
    let ?i = "start + ?l - 1"
    have i: "?i < length ids" "Suc ?i = start + ?l" using True page_limit_pos [of limit] by auto
    then have "trim (ids ! ?i) = ids ! ?i" "ids ! ?i \<noteq> []" using rows nth_mem by blast+
    then have "page_start ids (Some (ids ! ?i)) (trim team) = Inr (start + ?l)"
      using position_nth [OF ids(2) i(1)] i(2) by (simp add: page_start_def non_empty_trimmed_def Let_def)
    then have "read_pages n team (Some (ids ! ?i)) limit s = Some (map g (drop (start + ?l) ids))"
      using True Suc.prems(3) page_limit_pos [of limit] by (intro Suc.IH) auto
    then show ?thesis using run page True by (simp flip: map_append) (metis append_take_drop_id drop_drop add.commute)
  next
    case False
    then show ?thesis using run page by simp
  qed
qed

text \<open>C26: Paging through the messages of a team ends and shows each message once. Starting without a
  cursor and following \<open>next_cursor\<close>, whatever page size is asked for, a client gets after at most
  one page per message the complete list: every message of the team, in the order they were sent,
  none left out and none twice.\<close>

theorem paging_shows_every_message:
  assumes ok: "comms_ok s" and "tc_enabled s" and "trim team \<noteq> []"
    and names: "\<forall>i. hcontains (tc_messages s) i \<longrightarrow> trim i = i \<and> i \<noteq> []"
  shows "\<exists>ms. read_pages (Suc (length (ids_of (tc_team_messages s) (trim team)))) team None limit s = Some ms \<and>
    map msg_id ms = ids_of (tc_team_messages s) (trim team) \<and> distinct ms \<and>
    (\<forall>m. m \<in> set ms \<longleftrightarrow> (\<exists>i. hget (tc_messages s) i = Some m \<and> msg_team_id m = trim team))"
proof -
  let ?ids = "ids_of (tc_team_messages s) (trim team)"
  let ?g = "\<lambda>i. the (hget (tc_messages s) i)"
  have group: "grouped (ids_of (tc_team_messages s)) (hget (tc_messages s)) msg_team_id"
    using comms_okD(4)[OF ok] by (simp add: indexes_ok_def)
  have id: "hget (tc_messages s) i = Some m \<Longrightarrow> msg_id m = i" for i m using comms_okD(2)[OF ok] by (simp add: messages_ok_def)
  have rows: "\<forall>i \<in> set ?ids. hget (tc_messages s) i = Some (?g i) \<and> msg_id (?g i) = i \<and> trim i = i \<and> i \<noteq> []"
    using groupedD [OF group] id names by (fastforce simp: hcontains_def)
  have "page_start ?ids None (trim team) = Inr 0" by (simp add: page_start_def non_empty_trimmed_def)
  then have "read_pages (Suc (length ?ids)) team None limit s = Some (map ?g (drop 0 ?ids))"
    by (intro read_pages_from [OF assms(2,3) refl grouped_distinct [OF group] rows]) simp_all
  moreover have "map msg_id (map ?g ?ids) = ?ids" using rows by (simp add: map_idI)
  moreover from this have "distinct (map ?g ?ids)" using grouped_distinct [OF group] by (metis distinct_map)
  moreover have "m \<in> set (map ?g ?ids) \<longleftrightarrow> (\<exists>i. hget (tc_messages s) i = Some m \<and> msg_team_id m = trim team)" for m
    using groupedD [OF group] by force
  ultimately show ?thesis by auto
qed

theorem paging_shows_every_message_witness:
  "\<exists>ms. read_pages 2 ''t'' None (Some 1) sample_comms = Some ms \<and> map msg_id ms = [''msg_1'']"
proof -
  have t: "trim ''t'' = ''t''" "trim ''msg_1'' = ''msg_1''" by (simp_all add: text_eval)
  have "tc_enabled sample_comms" "\<forall>i. hcontains (tc_messages sample_comms) i \<longrightarrow> trim i = i \<and> i \<noteq> []"
    by (simp_all add: sample_comms_def comms_empty_def manager.extend_def hcontains_def hget_def t)
  moreover have "ids_of (tc_team_messages sample_comms) (trim ''t'') = [''msg_1'']"
    unfolding t by (simp add: ids_of_def sample_comms_eval)
  ultimately show ?thesis
    using paging_shows_every_message [OF sample_comms_ok, of "''t''" "Some 1"] by (auto simp: t numeral_2_eq_2)
qed

section \<open>Deleting a team\<close>

definition dead_in_store :: "string \<Rightarrow> database \<Rightarrow> bool" where
  "dead_in_store team db \<longleftrightarrow> (\<forall>t \<in> set (db_teams db). team_id t = team \<longrightarrow> team_deleted_at t \<noteq> None)"

lemma dead_write: "team_deleted_at t \<noteq> None \<Longrightarrow> apply_write (WTeam t) db = Inr db' \<Longrightarrow> dead_in_store (team_id t) db'"
  by (auto simp: dead_in_store_def db_upsert_team_def tbl_upsert_def merge_team_def image_iff split: if_splits) metis

lemma hydrate_teams_live:
  "(\<forall>t \<in> set ts. team_id t = k \<longrightarrow> team_deleted_at t \<noteq> None) \<Longrightarrow>
     hget (tc_teams (snd (fold hydrate_team ts acc))) k = hget (tc_teams (snd acc)) k"
  by (induction ts arbitrary: acc) (auto simp: hydrate_team_def split: prod.splits)

lemma hydrate_rest_teams:
  "tc_teams (fold hydrate_member ms s) = tc_teams s" "tc_teams (snd (fold hydrate_message xs acc)) = tc_teams (snd acc)"
  "tc_teams (snd (fold hydrate_delivery ds acc)) = tc_teams (snd acc)"
proof -
  show "tc_teams (fold hydrate_member ms s) = tc_teams s"
    by (induction ms arbitrary: s) (simp_all add: hydrate_member_def)
  show "tc_teams (snd (fold hydrate_message xs acc)) = tc_teams (snd acc)"
    by (induction xs arbitrary: acc) (simp_all add: hydrate_message_def split: prod.splits)
  show "tc_teams (snd (fold hydrate_delivery ds acc)) = tc_teams (snd acc)"
    by (induction ds arbitrary: acc) (simp_all add: hydrate_delivery_def index_delivery_def split: prod.splits)
qed

lemma hydrated_teams:
  "tc_teams (hydrate_comms h s0) = tc_teams (snd (fold hydrate_team (hyd_teams h) (0, s0)))"
  by (simp add: hydrate_comms_def hydrate_rest_teams split: prod.splits)
    (metis hydrate_rest_teams prod.sel(2))

text \<open>What is stored after the team row does not touch the team rows.\<close>

lemma team_rows_kept:
  "preserves (\<lambda>s. db_teams (env_db s) = ts) (store_write (WDelivery d))"
  "preserves (\<lambda>s. db_teams (env_db s) = ts) (append_team_event team kind payload ses)"
  by (auto simp: preserves_def store_write_def store_call_def append_team_event_def monad_simps Let_def ok_def now_ms_def
      db_upsert_team_delivery_def db_append_runtime_event_def split: option.splits sum.splits prod.splits if_splits)

lemma team_rows_cancelled: "preserves (\<lambda>s. db_teams (env_db s) = ts) (for_each ds (store_cancelled team))"
  unfolding store_cancelled_def by (intro preserves_intros team_rows_kept)

lemma delete_team_stored:
  assumes ok: "comms_ok s" and gone: "delete_team team s = (Inr (), s')"
  shows "dead_in_store (trim team) (env_db s')"
proof -
  have on: "tc_enabled s" and name: "trim team \<noteq> []"
    using gone by (auto simp: delete_team_def ensure_enabled_def monad_simps normalize_non_empty_def Let_def err_def split: if_splits)
  let ?rest = "\<lambda>(deleted, cancelled). bindE (store_write (WTeam deleted)) (\<lambda>_.
     bindE (for_each cancelled (store_cancelled (trim team))) (\<lambda>_.
     ignore (append_team_event (trim team) ''team.deleted'' (jobject [(''team'', team_json deleted)]) (Some (team_created_by deleted)))))"
  have "bindE (delete_under_lock (trim team)) ?rest s = (Inr (), s')"
    using gone on name by (simp add: delete_team_def ensure_enabled_def monad_simps normalize_non_empty_def Let_def)
  then obtain deleted cancelled s1 where lock: "delete_under_lock (trim team) s = (Inr (deleted, cancelled), s1)"
    and rest: "?rest (deleted, cancelled) s1 = (Inr (), s')" unfolding bindE_eq_Inr by auto
  obtain t where t: "hget (tc_teams s) (trim team) = Some t"
    using lock by (cases "hget (tc_teams s) (trim team)") (auto simp: delete_under_lock_def monad_simps)
  then have del: "team_id deleted = trim team" "team_deleted_at deleted \<noteq> None"
    using delete_under_lock_run [OF ok t] lock teamD(1)[OF ok t] by auto
  obtain s2 where w: "store_write (WTeam deleted) s1 = (Inr (), s2)"
    and tail: "bindE (for_each cancelled (store_cancelled (trim team))) (\<lambda>_.
     ignore (append_team_event (trim team) ''team.deleted'' (jobject [(''team'', team_json deleted)]) (Some (team_created_by deleted)))) s2 = (Inr (), s')"
    using rest by (auto simp: bindE_eq_Inr)
  obtain db' where "apply_write (WTeam deleted) (env_db s1) = Inr db'" "env_db s2 = db'"
    using w by (auto simp: store_write_def store_call_def Let_def split: option.splits sum.splits)
  then have "dead_in_store (trim team) (env_db s2)" using dead_write del by metis
  moreover have "db_teams (env_db s') = db_teams (env_db s2)"
  proof -
    have "preserves (\<lambda>s. db_teams (env_db s) = db_teams (env_db s2)) (bindE (for_each cancelled (store_cancelled (trim team))) (\<lambda>_.
     ignore (append_team_event (trim team) ''team.deleted'' (jobject [(''team'', team_json deleted)]) (Some (team_created_by deleted)))))"
      by (intro preserves_intros team_rows_cancelled team_rows_kept)
    from preserves_at [OF this, of s2] tail show ?thesis by simp
  qed
  ultimately show ?thesis by (simp add: dead_in_store_def)
qed

text \<open>C23: A deleted team is gone, at once and for good. Deleting a team removes it with its members, its
  messages, its deliveries and its idempotency keys, and nothing of any other team, whether or not
  the store goes along. When the call reports success, a service started on the store later does
  not know the team either.\<close>

theorem deleted_team_is_gone:
  assumes ok: "comms_ok s" and gone: "delete_team team s = (Inr (), s')"
    and restart: "env_db m = env_db s'" "comms_new m enabled limit nonce capacity = Inr c"
  shows "comms_ok s' \<and> only_lost (trim team) s s' \<and>
    (\<forall>r. \<forall>i \<in> set (ids_of (tc_recipient_deliveries s') r). \<exists>d. hget (tc_deliveries s') i = Some d \<and> dlv_team_id d \<noteq> trim team) \<and>
    hget (tc_teams c) (trim team) = None"
proof -
  obtain s'' where s'': "tview s' = tview s''" "comms_ok s''" "only_lost (trim team) s s''"
    using delete_team_cases [OF ok, of team] gone by (auto simp: normalize_non_empty_def Let_def split: if_splits)
  then have ok': "comms_ok s'" and lost: "only_lost (trim team) s s'" using comms_ok_view only_lost_view by blast+
  have queue: "grouped (ids_of (tc_recipient_deliveries s')) (hget (tc_deliveries s')) dlv_recipient"
    using comms_okD(4)[OF ok'] by (simp add: indexes_ok_def)
  have "dlv_team_id d \<noteq> trim team" if "hget (tc_deliveries s') i = Some d" for i d
    using that lost by (auto simp: only_lost_def split: option.splits if_splits)
  then have "\<forall>r. \<forall>i \<in> set (ids_of (tc_recipient_deliveries s') r). \<exists>d. hget (tc_deliveries s') i = Some d \<and> dlv_team_id d \<noteq> trim team"
    using groupedD [OF queue] by metis
  moreover have "hget (tc_teams c) (trim team) = None"
  proof -
    obtain m' where c: "c = hydrate_comms (hydrate_runtime_state (env_db m)) (comms_empty m' enabled limit nonce capacity)"
      using restart(2) by (auto simp: comms_new_def store_call_def Let_def split: option.splits prod.splits sum.splits)
    have "\<forall>t \<in> set (hyd_teams (hydrate_runtime_state (env_db m))). team_id t = trim team \<longrightarrow> team_deleted_at t \<noteq> None"
      using delete_team_stored [OF ok gone] restart(1) by (simp add: hydrate_runtime_state_def select_teams_def dead_in_store_def)
    then have "hget (tc_teams c) (trim team) = hget (tc_teams (snd (0 :: nat, comms_empty m' enabled limit nonce capacity))) (trim team)"
      unfolding c hydrated_teams by (rule hydrate_teams_live)
    then show ?thesis by (simp add: comms_empty_def manager.extend_def)
  qed
  ultimately show ?thesis using ok' lost by blast
qed

definition filed_comms :: "unit comms" where
  "filed_comms = stored_comms\<lparr>env_db := (env_db stored_comms)\<lparr>db_messages := [sample_message], db_deliveries := [sample_delivery]\<rparr>\<rparr>"

lemma filed_comms_ok: "comms_ok filed_comms"
  using stored_comms_ok(1) comms_ok_view [of filed_comms stored_comms] by (simp add: filed_comms_def tview_def)

lemma sample_deleted: "fst (delete_team ''t'' filed_comms) = Inr ()"
  by code_simp

theorem deleted_team_is_gone_witness:
  "\<exists>c :: unit comms. comms_new (sample_manager\<lparr>env_db := env_db (snd (delete_team ''t'' filed_comms))\<rparr>) True 8 ''n'' 16 = Inr c \<and>
     hget (tc_teams c) ''t'' = None \<and> only_lost ''t'' filed_comms (snd (delete_team ''t'' filed_comms))"
proof -
  let ?s = "snd (delete_team ''t'' filed_comms)" and ?m = "sample_manager\<lparr>env_db := env_db (snd (delete_team ''t'' filed_comms))\<rparr>"
  have gone: "delete_team ''t'' filed_comms = (Inr (), ?s)" using sample_deleted by (metis prod.collapse)
  have "\<exists>c. comms_new ?m True 8 ''n'' 16 = Inr c" by (simp add: comms_new_def store_call_def Let_def sample_manager_def)
  then obtain c where c: "comms_new ?m True 8 ''n'' 16 = Inr c" ..
  have "trim ''t'' = ''t''" by (simp add: text_eval)
  then show ?thesis using deleted_team_is_gone [OF filed_comms_ok gone _ c] c by auto
qed

end
