(* ===== verification/Text_Streams.thy ===== *)
theory Text_Streams
  imports Text
begin

text \<open>
  The parts of \<open>std::str\<close> and \<open>std::path\<close> that command lines and log files need:
  \<open>split_whitespace\<close>, \<open>lines\<close>, UTF-8 validity (\<open>read_to_string\<close>) and \<open>String::from_utf8_lossy\<close>,
  and \<open>Path::join\<close>. Text is the list of its bytes, as in the theory \<open>Text\<close>.
\<close>

section \<open>Words and lines\<close>

text \<open>The bytes up to the next white space.\<close>

fun take_word :: "string \<Rightarrow> string" where
  "take_word [] = []"
| "take_word (c # cs) =
     (if find (\<lambda>w. starts_with (c # cs) w) ws_encodings \<noteq> None then [] else c # take_word cs)"

function split_whitespace :: "string \<Rightarrow> string list" where
  "split_whitespace s =
     (let t = trim_start s; w = take_word t
      in if w = [] then [] else w # split_whitespace (drop (length w) t))"
  by pat_completeness auto

lemma strip_front_length: "length (strip_front ws s) \<le> length s"
proof -
  obtain p where "s = p @ strip_front ws s" using strip_front_suffix by blast
  then show ?thesis by (metis le_add2 length_append)
qed

termination split_whitespace
proof (relation "measure length")
  fix s t w :: string
  assume t: "t = trim_start s" and w: "w = take_word t" and ne: "w \<noteq> []"
  have "t \<noteq> []" using w ne by auto
  moreover have "length t \<le> length s" using t strip_front_length by (simp add: trim_start_def)
  ultimately show "(drop (length w) t, s) \<in> measure length" using ne by (cases t; cases w) auto
qed simp

declare split_whitespace.simps [simp del]

definition strip_cr :: "string \<Rightarrow> string" where
  "strip_cr line = (if line \<noteq> [] \<and> last line = CHR 0x0D then butlast line else line)"

text \<open>The first argument holds the bytes of the current line, last one first.\<close>

fun lines_from :: "string \<Rightarrow> string \<Rightarrow> string list" where
  "lines_from cur [] = (if cur = [] then [] else [rev cur])"
| "lines_from cur (c # cs) =
     (if c = CHR 0x0A then strip_cr (rev cur) # lines_from [] cs else lines_from (c # cur) cs)"

definition str_lines :: "string \<Rightarrow> string list" where
  "str_lines s = lines_from [] s"

section \<open>UTF-8\<close>

definition between :: "nat \<Rightarrow> nat \<Rightarrow> char option \<Rightarrow> bool" where
  "between lo hi c = (case c of None \<Rightarrow> False | Some b \<Rightarrow> lo \<le> of_char b \<and> of_char b \<le> hi)"

definition byte_at :: "nat \<Rightarrow> string \<Rightarrow> char option" where
  "byte_at i s = (if i < length s then Some (s ! i) else None)"

text \<open>
  How many bytes the next character takes and whether they are well formed; for an ill-formed one,
  the bytes that one replacement character stands for (the longest prefix of a well-formed one).
\<close>

definition utf8_unit :: "char \<Rightarrow> string \<Rightarrow> bool \<times> nat" where
  "utf8_unit c rest =
     (let b = of_char c :: nat; cont = between 0x80 0xBF in
      if b < 0x80 then (True, 1)
      else if 0xC2 \<le> b \<and> b \<le> 0xDF
      then if cont (byte_at 0 rest) then (True, 2) else (False, 1)
      else if 0xE0 \<le> b \<and> b \<le> 0xEF
      then
        let lo = (if b = 0xE0 then 0xA0 else 0x80); hi = (if b = 0xED then 0x9F else 0xBF) in
        if \<not> between lo hi (byte_at 0 rest) then (False, 1)
        else if cont (byte_at 1 rest) then (True, 3) else (False, 2)
      else if 0xF0 \<le> b \<and> b \<le> 0xF4
      then
        let lo = (if b = 0xF0 then 0x90 else 0x80); hi = (if b = 0xF4 then 0x8F else 0xBF) in
        if \<not> between lo hi (byte_at 0 rest) then (False, 1)
        else if \<not> cont (byte_at 1 rest) then (False, 2)
        else if cont (byte_at 2 rest) then (True, 4) else (False, 3)
      else (False, 1))"

lemma utf8_unit_pos: "0 < snd (utf8_unit c rest)"
  by (simp add: utf8_unit_def Let_def)

function utf8_valid :: "string \<Rightarrow> bool" where
  "utf8_valid [] = True"
| "utf8_valid (c # cs) =
     (case utf8_unit c cs of (good, n) \<Rightarrow> good \<and> utf8_valid (drop (n - 1) cs))"
  by pat_completeness auto

termination by (relation "measure length") auto

definition replacement_char :: string where
  "replacement_char = [CHR 0xEF, CHR 0xBF, CHR 0xBD]"

function from_utf8_lossy :: "string \<Rightarrow> string" where
  "from_utf8_lossy [] = []"
| "from_utf8_lossy (c # cs) =
     (case utf8_unit c cs of (good, n) \<Rightarrow>
        (if good then take n (c # cs) else replacement_char) @ from_utf8_lossy (drop (n - 1) cs))"
  by pat_completeness auto

termination by (relation "measure length") auto

text \<open>Well-formed text is left as it is.\<close>

lemma lossy_valid: "utf8_valid s \<Longrightarrow> from_utf8_lossy s = s"
proof (induction s rule: utf8_valid.induct)
  case 1
  then show ?case by simp
next
  case (2 c cs)
  obtain good n where u: "utf8_unit c cs = (good, n)" by fastforce
  have "0 < n" using utf8_unit_pos [of c cs] u by simp
  then have "take n (c # cs) @ drop (n - 1) cs = c # cs" by (cases n) auto
  then show ?case using 2 u by simp
qed

section \<open>Paths\<close>

definition path_join :: "string \<Rightarrow> string \<Rightarrow> string" where
  "path_join dir name =
     (if starts_with name ''/'' \<or> dir = [] then name
      else if last dir = CHR ''/'' then dir @ name
      else dir @ ''/'' @ name)"

end
