(* ===== verification/Process_Manager.thy ===== *)
theory Process_Manager
  imports Text_Streams Session_Manager
begin

text \<open>
  The process manager (\<open>runtime-tools/src/process.rs\<close>, \<open>lib.rs\<close>): running commands for sessions under
  a concurrency limit, capturing their output into bounded log files, and reporting how they ended.

  The managed processes are shared objects: the map and the lifecycle task hold the same
  \<open>Arc<ManagedProcess>\<close>. So the state has a heap of them, the map leads to addresses, and a task keeps
  the address it was given. The spawned lifecycle task and its two output pumps run in steps
  (\<open>lifecycle_begin\<close>, \<open>pump_chunk\<close>, \<open>pump_end\<close>, \<open>lifecycle_timeout\<close>, \<open>lifecycle_waited\<close>, \<open>lifecycle_finish\<close>), between
  which handlers may run; what the operating system decides (whether a program starts, what it
  prints, how it ends, which files open) comes in as an argument or as \<open>os_spawn\<close>. A permit of the
  semaphore is held exactly as long as the task exists.
\<close>

section \<open>Configuration and state\<close>

record pm_config =
  pc_enabled :: bool
  pc_max_concurrent :: nat
  pc_default_timeout_ms :: "64 word"
  pc_max_output_bytes :: nat
  pc_allow_shell :: bool
  pc_retention_ms :: "64 word"
  pc_sample_bytes :: nat
  pc_log_dir :: string

text \<open>A child process: which spawn made it, and the pid it got.\<close>

record os_child =
  ch_handle :: nat
  ch_pid :: "int option"

record managed_process =
  mp_record :: process_record
  mp_child :: "os_child option"
  mp_stdout_bytes :: nat
  mp_stderr_bytes :: nat
  mp_stdout_truncated :: bool
  mp_stderr_truncated :: bool
  mp_kill_requested :: bool
  mp_timed_out :: bool

definition managed_new :: "process_record \<Rightarrow> os_child option \<Rightarrow> managed_process" where
  "managed_new r child =
     \<lparr>mp_record = r, mp_child = child, mp_stdout_bytes = 0, mp_stderr_bytes = 0, mp_stdout_truncated = False,
      mp_stderr_truncated = False, mp_kill_requested = False, mp_timed_out = False\<rparr>"

datatype stream = Stdout | Stderr

fun stream_name :: "stream \<Rightarrow> string" where
  "stream_name Stdout = ''stdout''"
| "stream_name Stderr = ''stderr''"

text \<open>An output pump: the log file it appends to and \<open>emitted_budget\<close>.\<close>

record pump =
  pu_path :: string
  pu_budget :: nat

text \<open>The result of waiting for the child: its exit code and signal, or the errno of a failed wait.\<close>

datatype wait_result = Waited "int option" "int option" | WaitFailed "int option"

text \<open>A lifecycle task that has taken its child: what it read from the record, its pumps and the wait.\<close>

record life_run =
  lr_child :: os_child
  lr_id :: string
  lr_session :: "string option"
  lr_timeout :: "64 word"
  lr_stdout :: "pump option"
  lr_stderr :: "pump option"
  lr_wait :: "wait_result option"

datatype life_phase = Starting | Running life_run

record life =
  lf_addr :: nat
  lf_phase :: life_phase

record process_manager = runtime_env +
  pm_config :: pm_config
  pm_next_process :: "64 word"
  pm_next_event :: "64 word"
  pm_processes :: "(string, nat) hmap"
  pm_heap :: "managed_process list"
  pm_event_tx :: "event_record list"
  pm_recovered :: "string list"
  pm_tasks :: "life list"
  pm_files :: "(string, string) hmap"
  os_spawn :: "nat \<Rightarrow> string list \<Rightarrow> string option \<Rightarrow> string + int option"
  os_spawns :: nat
  os_kills :: "nat list"

section \<open>Helpers (lib.rs)\<close>

definition parse_process_sequence :: "string \<Rightarrow> nat option" where
  "parse_process_sequence i =
     (if starts_with i ''proc_'' then parse_u64 (drop 5 i) else None)"

definition is_terminal_process :: "string \<Rightarrow> bool" where
  "is_terminal_process status \<longleftrightarrow> status \<in> {''completed'', ''failed'', ''timed_out'', ''killed''}"

text \<open>\<open>i64::saturating_sub\<close>\<close>

definition saturating_sub :: "int \<Rightarrow> int \<Rightarrow> int" where
  "saturating_sub a b = max (- (2 ^ 63)) (min (2 ^ 63 - 1) (a - b))"

section \<open>Starting the manager\<close>

text \<open>
  The loop of \<open>new\<close> over the stored processes: a process that was running or queued died with the
  previous manager.
\<close>

definition adopt_process ::
  "process_record \<Rightarrow> nat \<Rightarrow> ('z process_manager_scheme, runtime_error, nat) rt" where
  "adopt_process r max_seq =
     (let mx = (case parse_process_sequence (proc_id r) of None \<Rightarrow> max_seq | Some n \<Rightarrow> max max_seq n);
          file = (\<lambda>r s. s\<lparr>pm_processes := hinsert (proc_id r) (length (pm_heap s)) (pm_processes s),
                          pm_heap := pm_heap s @ [managed_new r None]\<rparr>) in
      if proc_status r = ''running'' \<or> proc_status r = ''queued''
      then
        bindE now_ms (\<lambda>now.
        let r' = r\<lparr>proc_status := ''failed'', proc_ended_at := Some now\<rparr> in
        bindE (store_write (WProcess r')) (\<lambda>_.
        bindE (modify (\<lambda>s. s\<lparr>pm_recovered := pm_recovered s @ [proc_id r']\<rparr>)) (\<lambda>_.
        bindE (modify (file r')) (\<lambda>_. ok mx))))
      else bindE (modify (file r)) (\<lambda>_. ok mx))"

definition pm_empty ::
  "'a runtime_env_scheme \<Rightarrow> pm_config \<Rightarrow> (string, string) hmap \<Rightarrow>
   (nat \<Rightarrow> string list \<Rightarrow> string option \<Rightarrow> string + int option) \<Rightarrow> process_manager" where
  "pm_empty env cfg files spawn =
     runtime_env.extend (runtime_env.truncate env)
       \<lparr>pm_config = cfg, pm_next_process = 1, pm_next_event = 1, pm_processes = [], pm_heap = [], pm_event_tx = [],
        pm_recovered = [], pm_tasks = [], pm_files = files, os_spawn = spawn, os_spawns = 0, os_kills = []\<rparr>"

text \<open>\<open>mkdir\<close> is the outcome of \<open>create_dir_all\<close>: \<open>None\<close>, or the text of its error.\<close>

definition process_manager_new ::
  "'a runtime_env_scheme \<Rightarrow> pm_config \<Rightarrow> string option \<Rightarrow> (string, string) hmap \<Rightarrow>
   (nat \<Rightarrow> string list \<Rightarrow> string option \<Rightarrow> string + int option) \<Rightarrow> runtime_error + process_manager" where
  "process_manager_new env cfg mkdir files spawn =
     (case mkdir of
        Some e \<Rightarrow> Inl (Bootstrap (''failed to create process log dir '' @ pc_log_dir cfg @ '': '' @ e))
      | None \<Rightarrow>
          (case bindE (store_call (\<lambda>db. Inr (hydrate_runtime_state db, db))) (\<lambda>h.
                for_fold (hyd_processes h) 0 adopt_process) (pm_empty env cfg files spawn) of
             (Inl e, _) \<Rightarrow> Inl e
           | (Inr mx, s) \<Rightarrow> Inr (s\<lparr>pm_next_process := of_nat mx + 1\<rparr>)))"

definition startup_recovered_processes :: "'z process_manager_scheme \<Rightarrow> string list" where
  "startup_recovered_processes s = pm_recovered s"

section \<open>Events and lookups\<close>

definition append_process_event ::
  "string \<Rightarrow> string option \<Rightarrow> string \<Rightarrow> criticality \<Rightarrow> json \<Rightarrow> ('z process_manager_scheme, runtime_error, unit) rt" where
  "append_process_event pid session kind crit payload =
     bindE (gets pm_next_event) (\<lambda>n.
     bindE (modify (\<lambda>s. s\<lparr>pm_next_event := n + 1\<rparr>)) (\<lambda>_.
     bindE now_ms (\<lambda>now.
     bindE (attempt (store_call (db_append_runtime_event
       \<lparr>ne_event_id = ''evt_proc_'' @ pid @ ''_'' @ dec_of_nat (unat n), ne_scope = ScopeProcess, ne_scope_id = pid,
        ne_session_id = session, ne_team_id = None, ne_turn_id = None, ne_kind = kind, ne_criticality = crit,
        ne_payload = payload, ne_provider = None, ne_provider_seq = None, ne_created_at = now\<rparr>))) (\<lambda>r.
     case r of
       Inl _ \<Rightarrow> ok ()
     | Inr record \<Rightarrow> modify (\<lambda>s. s\<lparr>pm_event_tx := pm_event_tx s @ [record]\<rparr>)))))"

definition process_from_id :: "string \<Rightarrow> ('z process_manager_scheme, runtime_error, nat) rt" where
  "process_from_id pid =
     bindE (gets (\<lambda>s. hget (pm_processes s) pid)) (\<lambda>found. ok_or_else found (NotFound (''process '' @ pid)))"

text \<open>The loop over \<open>processes.values()\<close>; the list order stands for the map's iteration order.\<close>

definition process_from_pid :: "int \<Rightarrow> ('z process_manager_scheme, runtime_error, nat) rt" where
  "process_from_pid pid =
     bindE (gets (\<lambda>s. find (\<lambda>a. proc_pid (mp_record (pm_heap s ! a)) = Some pid) (hvalues (pm_processes s)))) (\<lambda>found.
     ok_or_else found (NotFound (''process pid '' @ dec_of_int pid)))"

definition process_id_from_pid :: "int \<Rightarrow> ('z process_manager_scheme, runtime_error, string) rt" where
  "process_id_from_pid pid =
     bindE (process_from_pid pid) (\<lambda>a. gets (\<lambda>s. proc_id (mp_record (pm_heap s ! a))))"

definition ensure_ownership :: "nat \<Rightarrow> string option \<Rightarrow> ('z process_manager_scheme, runtime_error, unit) rt" where
  "ensure_ownership a caller =
     (case caller of
        None \<Rightarrow> ok ()
      | Some c \<Rightarrow>
          bindE (gets (\<lambda>s. mp_record (pm_heap s ! a))) (\<lambda>r.
          if proc_session_id r = Some c then ok ()
          else err (InvalidState (''process '' @ proc_id r @ '' belongs to a different session''))))"

section \<open>Listing\<close>

definition expired :: "pm_config \<Rightarrow> int \<Rightarrow> process_record \<Rightarrow> bool" where
  "expired cfg now r \<longleftrightarrow>
     is_terminal_process (proc_status r) \<and>
     (case proc_ended_at r of None \<Rightarrow> False | Some e \<Rightarrow> saturating_sub now e \<ge> sint (pc_retention_ms cfg))"

definition cleanup_expired_terminal :: "('z process_manager_scheme, runtime_error, unit) rt" where
  "cleanup_expired_terminal =
     bindE (gets pm_config) (\<lambda>cfg.
     if pc_retention_ms cfg = 0 then ok ()
     else
     bindE now_ms (\<lambda>now.
     bindE (gets (\<lambda>s. map fst (filter (\<lambda>(i, a). expired cfg now (mp_record (pm_heap s ! a))) (pm_processes s)))) (\<lambda>to_remove.
     modify (\<lambda>s. s\<lparr>pm_processes := fold hremove to_remove (pm_processes s)\<rparr>))))"

record process_summary =
  psm_process_id :: string
  psm_session_id :: "string option"
  psm_pid :: "int option"
  psm_status :: string
  psm_command :: json
  psm_cwd :: "string option"
  psm_started_at :: int
  psm_ended_at :: "int option"

definition summary_of :: "process_record \<Rightarrow> process_summary" where
  "summary_of r =
     \<lparr>psm_process_id = proc_id r, psm_session_id = proc_session_id r, psm_pid = proc_pid r, psm_status = proc_status r,
      psm_command = proc_command r, psm_cwd = proc_cwd r, psm_started_at = proc_started_at r,
      psm_ended_at = proc_ended_at r\<rparr>"

definition listed :: "string option \<Rightarrow> bool \<Rightarrow> process_record \<Rightarrow> bool" where
  "listed caller include_completed r \<longleftrightarrow>
     (case caller of None \<Rightarrow> True | Some c \<Rightarrow> proc_session_id r = Some c) \<and>
     (include_completed \<or> \<not> is_terminal_process (proc_status r))"

text \<open>\<open>rows.sort_by(..)\<close> is stable and puts the latest start first.\<close>

definition list_process_entries ::
  "string option \<Rightarrow> bool \<Rightarrow> ('z process_manager_scheme, runtime_error, process_summary list) rt" where
  "list_process_entries caller include_completed =
     bindE cleanup_expired_terminal (\<lambda>_.
     gets (\<lambda>s. sort_key (\<lambda>p. - psm_started_at p)
       (map summary_of (filter (listed caller include_completed)
         (map (\<lambda>a. mp_record (pm_heap s ! a)) (hvalues (pm_processes s)))))))"

record process_details =
  pd_process :: process_summary
  pd_exit_code :: "int option"
  pd_signal :: "int option"
  pd_timeout_ms :: "int option"
  pd_stdout_path :: "string option"
  pd_stderr_path :: "string option"
  pd_stdout_bytes :: nat
  pd_stderr_bytes :: nat
  pd_stdout_truncated :: bool
  pd_stderr_truncated :: bool

definition detail_from_process :: "managed_process \<Rightarrow> process_details" where
  "detail_from_process mp =
     (let r = mp_record mp in
      \<lparr>pd_process = summary_of r, pd_exit_code = proc_exit_code r, pd_signal = proc_signal r,
       pd_timeout_ms = proc_timeout_ms r, pd_stdout_path = proc_stdout_path r, pd_stderr_path = proc_stderr_path r,
       pd_stdout_bytes = mp_stdout_bytes mp, pd_stderr_bytes = mp_stderr_bytes mp,
       pd_stdout_truncated = mp_stdout_truncated mp, pd_stderr_truncated = mp_stderr_truncated mp\<rparr>)"

definition details_at :: "nat \<Rightarrow> ('z process_manager_scheme, runtime_error, process_details) rt" where
  "details_at a = gets (\<lambda>s. detail_from_process (pm_heap s ! a))"

section \<open>The lifecycle task\<close>

definition task_at :: "nat \<Rightarrow> 'z process_manager_scheme \<Rightarrow> life option" where
  "task_at a s = find (\<lambda>t. lf_addr t = a) (pm_tasks s)"

definition running_at :: "nat \<Rightarrow> 'z process_manager_scheme \<Rightarrow> life_run option" where
  "running_at a s =
     (case task_at a s of
        None \<Rightarrow> None
      | Some t \<Rightarrow> (case lf_phase t of Starting \<Rightarrow> None | Running run \<Rightarrow> Some run))"

definition set_phase :: "nat \<Rightarrow> life_run \<Rightarrow> 'z process_manager_scheme \<Rightarrow> 'z process_manager_scheme" where
  "set_phase a run s = s\<lparr>pm_tasks := map (\<lambda>t. if lf_addr t = a then t\<lparr>lf_phase := Running run\<rparr> else t) (pm_tasks s)\<rparr>"

definition drop_task :: "nat \<Rightarrow> 'z process_manager_scheme \<Rightarrow> 'z process_manager_scheme" where
  "drop_task a s = s\<lparr>pm_tasks := filter (\<lambda>t. lf_addr t \<noteq> a) (pm_tasks s)\<rparr>"

definition log_path :: "pm_config \<Rightarrow> string \<Rightarrow> stream \<Rightarrow> string" where
  "log_path cfg pid st = path_join (pc_log_dir cfg) (pid @ ''.'' @ stream_name st @ ''.log'')"

definition or_log_path :: "pm_config \<Rightarrow> process_record \<Rightarrow> stream \<Rightarrow> string" where
  "or_log_path cfg r st =
     (case (case st of Stdout \<Rightarrow> proc_stdout_path r | Stderr \<Rightarrow> proc_stderr_path r) of
        Some p \<Rightarrow> p
      | None \<Rightarrow> log_path cfg (proc_id r) st)"

text \<open>Opening with \<open>create(true).append(true)\<close>; \<open>opens\<close> says which files can be opened.\<close>

definition open_log :: "(string \<Rightarrow> bool) \<Rightarrow> string \<Rightarrow> (string, string) hmap \<Rightarrow> pump option \<times> (string, string) hmap" where
  "open_log opens path files =
     (if \<not> opens path then (None, files)
      else (Some \<lparr>pu_path = path, pu_budget = 0\<rparr>, if hcontains files path then files else hinsert path [] files))"

text \<open>The start of \<open>run_lifecycle\<close>: take the child out of its slot, start the pumps.\<close>

definition lifecycle_begin :: "nat \<Rightarrow> (string \<Rightarrow> bool) \<Rightarrow> 'z process_manager_scheme \<Rightarrow> 'z process_manager_scheme" where
  "lifecycle_begin a opens s =
     (let mp = pm_heap s ! a; r = mp_record mp; cfg = pm_config s in
      case mp_child mp of
        None \<Rightarrow> drop_task a s
      | Some child \<Rightarrow>
          (case open_log opens (or_log_path cfg r Stdout) (pm_files s) of (out, files1) \<Rightarrow>
           case open_log opens (or_log_path cfg r Stderr) files1 of (er, files2) \<Rightarrow>
             set_phase a
               \<lparr>lr_child = child, lr_id = proc_id r, lr_session = proc_session_id r,
                lr_timeout = max 1 (case proc_timeout_ms r of None \<Rightarrow> pc_default_timeout_ms cfg | Some t \<Rightarrow> word_of_int t),
                lr_stdout = out, lr_stderr = er, lr_wait = None\<rparr>
               (s\<lparr>pm_heap := (pm_heap s)[a := mp\<lparr>mp_child := None\<rparr>], pm_files := files2\<rparr>)))"

fun pump_of :: "stream \<Rightarrow> life_run \<Rightarrow> pump option" where
  "pump_of Stdout run = lr_stdout run"
| "pump_of Stderr run = lr_stderr run"

fun set_pump :: "stream \<Rightarrow> pump option \<Rightarrow> life_run \<Rightarrow> life_run" where
  "set_pump Stdout p run = run\<lparr>lr_stdout := p\<rparr>"
| "set_pump Stderr p run = run\<lparr>lr_stderr := p\<rparr>"

fun bytes_of :: "stream \<Rightarrow> managed_process \<Rightarrow> nat" where
  "bytes_of Stdout mp = mp_stdout_bytes mp"
| "bytes_of Stderr mp = mp_stderr_bytes mp"

fun truncated_of :: "stream \<Rightarrow> managed_process \<Rightarrow> bool" where
  "truncated_of Stdout mp = mp_stdout_truncated mp"
| "truncated_of Stderr mp = mp_stderr_truncated mp"

fun count_bytes :: "stream \<Rightarrow> nat \<Rightarrow> bool \<Rightarrow> managed_process \<Rightarrow> managed_process" where
  "count_bytes Stdout n over mp =
     mp\<lparr>mp_stdout_bytes := mp_stdout_bytes mp + n, mp_stdout_truncated := (over \<or> mp_stdout_truncated mp)\<rparr>"
| "count_bytes Stderr n over mp =
     mp\<lparr>mp_stderr_bytes := mp_stderr_bytes mp + n, mp_stderr_truncated := (over \<or> mp_stderr_truncated mp)\<rparr>"

definition append_file :: "string \<Rightarrow> string \<Rightarrow> (string, string) hmap \<Rightarrow> (string, string) hmap" where
  "append_file path bytes files = hentry [] path (\<lambda>old. old @ bytes) files"

text \<open>
  One round of the loop of \<open>pump_stream\<close> that read \<open>chunk\<close>; \<open>reached\<close> is how many of the bytes it
  writes get into the file (the result of the write is not looked at).
\<close>

definition pump_chunk ::
  "nat \<Rightarrow> stream \<Rightarrow> string \<Rightarrow> nat \<Rightarrow> ('z process_manager_scheme, runtime_error, unit) rt" where
  "pump_chunk a st chunk reached =
     bindE (gets (running_at a)) (\<lambda>task.
     case task of
       Some run \<Rightarrow>
         (case pump_of st run of
            None \<Rightarrow> ok ()
          | Some p \<Rightarrow>
              bindE (gets (\<lambda>s. (pm_config s, pm_heap s ! a))) (\<lambda>(cfg, mp).
              let used = bytes_of st mp;
                  remaining = pc_max_output_bytes cfg - used;
                  to_write = min remaining (length chunk);
                  truncated_now = (to_write < length chunk);
                  budget = min (2 ^ 64 - 1) (pu_budget p + length chunk);
                  emit = (budget \<ge> max 1 (pc_sample_bytes cfg) \<or> truncated_now) in
              bindE (modify (\<lambda>s. set_phase a (set_pump st (Some (p\<lparr>pu_budget := (if emit then 0 else budget)\<rparr>)) run)
                (s\<lparr>pm_heap := (pm_heap s)[a := count_bytes st to_write truncated_now mp],
                   pm_files := (if to_write > 0 then append_file (pu_path p) (take reached (take to_write chunk)) (pm_files s)
                                else pm_files s)\<rparr>))) (\<lambda>_.
              if emit
              then append_process_event (lr_id run) (lr_session run) ''process.output'' Droppable
                     (jobject [(''process_id'', JString (lr_id run)), (''stream'', JString (stream_name st)),
                       (''bytes_seen'', jint (int (length chunk))), (''bytes_written'', jint (int to_write)),
                       (''truncated'', JBool truncated_now)])
              else ok ())))
     | None \<Rightarrow> ok ())"

text \<open>End of file or a read error ends a pump.\<close>

definition pump_end :: "nat \<Rightarrow> stream \<Rightarrow> 'z process_manager_scheme \<Rightarrow> 'z process_manager_scheme" where
  "pump_end a st s =
     (case running_at a s of
        Some run \<Rightarrow> set_phase a (set_pump st None run) s
      | None \<Rightarrow> s)"

text \<open>The sleeping branch of the \<open>select!\<close> wins: the child is killed and waited for.\<close>

definition lifecycle_timeout :: "nat \<Rightarrow> 'z process_manager_scheme \<Rightarrow> 'z process_manager_scheme" where
  "lifecycle_timeout a s =
     (case running_at a s of
        Some run \<Rightarrow>
          if lr_wait run \<noteq> None \<or> mp_timed_out (pm_heap s ! a) then s
          else s\<lparr>pm_heap := (pm_heap s)[a := (pm_heap s ! a)\<lparr>mp_timed_out := True\<rparr>],
                 os_kills := os_kills s @ [ch_handle (lr_child run)]\<rparr>
      | None \<Rightarrow> s)"

text \<open>Waiting for the child returns, in either branch.\<close>

definition lifecycle_waited :: "nat \<Rightarrow> wait_result \<Rightarrow> 'z process_manager_scheme \<Rightarrow> 'z process_manager_scheme" where
  "lifecycle_waited a w s =
     (case running_at a s of
        Some run \<Rightarrow> if lr_wait run \<noteq> None then s else set_phase a (run\<lparr>lr_wait := Some w\<rparr>) s
      | None \<Rightarrow> s)"

definition outcome_of :: "managed_process \<Rightarrow> wait_result \<Rightarrow> string \<times> int option \<times> int option" where
  "outcome_of mp w =
     (case w of
        Waited code signal \<Rightarrow>
          (if mp_timed_out mp then ''timed_out''
           else if mp_kill_requested mp then ''killed''
           else if code = Some 0 then ''completed'' else ''failed'', code, signal)
      | WaitFailed errno \<Rightarrow> (''failed'', None, errno))"

definition process_event_kind :: "string \<Rightarrow> string" where
  "process_event_kind status =
     (if status = ''completed'' then ''process.completed''
      else if status = ''timed_out'' then ''process.timed_out''
      else if status = ''killed'' then ''process.killed''
      else ''process.failed'')"

text \<open>The end of \<open>run_lifecycle\<close>, once the child has exited and both pumps have returned.\<close>

definition lifecycle_finish :: "nat \<Rightarrow> ('z process_manager_scheme, runtime_error, unit) rt" where
  "lifecycle_finish a =
     bindE (gets (running_at a)) (\<lambda>task.
     case task of
       Some run \<Rightarrow>
         (case lr_wait run of
            None \<Rightarrow> ok ()
          | Some w \<Rightarrow>
              if lr_stdout run \<noteq> None \<or> lr_stderr run \<noteq> None then ok ()
              else
              bindE (gets (\<lambda>s. pm_heap s ! a)) (\<lambda>mp.
              case outcome_of mp w of (status, code, signal) \<Rightarrow>
              bindE now_ms (\<lambda>now.
              let r = (mp_record mp)\<lparr>proc_status := status, proc_exit_code := code, proc_signal := signal, proc_ended_at := Some now\<rparr> in
              bindE (modify (\<lambda>s. s\<lparr>pm_heap := (pm_heap s)[a := mp\<lparr>mp_record := r\<rparr>]\<rparr>)) (\<lambda>_.
              bindE (ignore (store_write (WProcess r))) (\<lambda>_.
              bindE (append_process_event (lr_id run) (lr_session run) (process_event_kind status) Critical
                (jobject [(''process_id'', JString (lr_id run)), (''status'', JString status),
                  (''exit_code'', jopt jint code), (''signal'', jopt jint signal)])) (\<lambda>_.
              modify (drop_task a)))))))
     | None \<Rightarrow> ok ())"

section \<open>Running a process\<close>

record process_run_request =
  prr_caller :: "string option"
  prr_tool_call_id :: "string option"
  prr_command :: string
  prr_cwd :: "string option"
  prr_timeout_ms :: "64 word option"

definition command_argv :: "pm_config \<Rightarrow> string \<Rightarrow> runtime_error + string list" where
  "command_argv cfg command =
     (if pc_allow_shell cfg then Inr [''sh'', ''-lc'', command]
      else case split_whitespace command of
             [] \<Rightarrow> Inl (InvalidState ''command cannot be empty'')
           | words \<Rightarrow> Inr words)"

definition spawn_child ::
  "string list \<Rightarrow> string option \<Rightarrow> ('z process_manager_scheme, runtime_error, os_child) rt" where
  "spawn_child argv cwd s =
     (let s' = s\<lparr>os_spawns := Suc (os_spawns s)\<rparr> in
      case os_spawn s (os_spawns s) argv cwd of
        Inl e \<Rightarrow> (Inl (Io (''failed to spawn process: '' @ e)), s')
      | Inr pid \<Rightarrow> (Inr \<lparr>ch_handle = os_spawns s, ch_pid = pid\<rparr>, s'))"

definition teardown_untracked_child :: "os_child \<Rightarrow> ('z process_manager_scheme, runtime_error, unit) rt" where
  "teardown_untracked_child child = modify (\<lambda>s. s\<lparr>os_kills := os_kills s @ [ch_handle child]\<rparr>)"

definition started_record ::
  "pm_config \<Rightarrow> process_run_request \<Rightarrow> string \<Rightarrow> string \<Rightarrow> string option \<Rightarrow> int option \<Rightarrow> int \<Rightarrow> process_record" where
  "started_record cfg req pid command cwd os_pid now =
     \<lparr>proc_id = pid, proc_session_id = prr_caller req, proc_tool_call_id = prr_tool_call_id req, proc_pid = os_pid,
      proc_command = jobject [(''command'', JString command)], proc_cwd = cwd, proc_status = ''running'',
      proc_exit_code = None, proc_signal = None, proc_stdout_path = Some (log_path cfg pid Stdout),
      proc_stderr_path = Some (log_path cfg pid Stderr), proc_started_at = now, proc_ended_at = None,
      proc_timeout_ms = Some (sint (case prr_timeout_ms req of None \<Rightarrow> pc_default_timeout_ms cfg | Some t \<Rightarrow> t))\<rparr>"

text \<open>\<open>run_process\<close> once it holds a permit.\<close>

definition run_admitted ::
  "process_run_request \<Rightarrow> string \<Rightarrow> ('z process_manager_scheme, runtime_error, process_details) rt" where
  "run_admitted req command =
     bindE (gets (\<lambda>s. (pm_config s, pm_next_process s))) (\<lambda>(cfg, n).
     bindE (modify (\<lambda>s. s\<lparr>pm_next_process := n + 1\<rparr>)) (\<lambda>_.
     let pid = ''proc_'' @ dec_of_nat (unat n); cwd = non_empty_trimmed (prr_cwd req) in
     bindE (lift_result (command_argv cfg command)) (\<lambda>argv.
     bindE (spawn_child argv cwd) (\<lambda>child.
     bindE now_ms (\<lambda>now.
     let r = started_record cfg req pid command cwd (ch_pid child) now in
     bindE (attempt (store_write (WProcess r))) (\<lambda>stored.
     case stored of
       Inl e \<Rightarrow> bindE (teardown_untracked_child child) (\<lambda>_. err e)
     | Inr _ \<Rightarrow>
         bindE (gets (\<lambda>s. length (pm_heap s))) (\<lambda>a.
         bindE (modify (\<lambda>s. s\<lparr>pm_heap := pm_heap s @ [managed_new r (Some child)],
           pm_processes := hinsert pid a (pm_processes s)\<rparr>)) (\<lambda>_.
         bindE (append_process_event pid (prr_caller req) ''process.started'' Critical
           (jobject [(''process_id'', JString pid), (''pid'', jopt jint (ch_pid child)), (''cwd'', jopt JString cwd)])) (\<lambda>_.
         bindE (modify (\<lambda>s. s\<lparr>pm_tasks := pm_tasks s @ [\<lparr>lf_addr = a, lf_phase = Starting\<rparr>]\<rparr>)) (\<lambda>_.
         bindE (process_from_id pid) details_at))))))))))"

definition permits :: "pm_config \<Rightarrow> nat" where
  "permits cfg = max 1 (pc_max_concurrent cfg)"

text \<open>\<open>None\<close>: the call waits for a permit.\<close>

definition run_process ::
  "process_run_request \<Rightarrow> 'z process_manager_scheme \<Rightarrow> ((runtime_error + process_details) \<times> 'z process_manager_scheme) option" where
  "run_process req s =
     (let command = trim (prr_command req) in
      if \<not> pc_enabled (pm_config s) then Some (Inl (Unsupported ''gg_process tools are disabled''), s)
      else if command = [] then Some (Inl (InvalidState ''command cannot be empty''), s)
      else if length (pm_tasks s) < permits (pm_config s) then Some (run_admitted req command s)
      else None)"

section \<open>The other handlers\<close>

definition process_healthcheck :: "('z process_manager_scheme, runtime_error, unit) rt" where
  "process_healthcheck = ok ()"

definition list_processes ::
  "string option \<Rightarrow> bool \<Rightarrow> ('z process_manager_scheme, runtime_error, process_summary list) rt" where
  "list_processes caller include_completed = list_process_entries caller include_completed"

definition get_process ::
  "string \<Rightarrow> string option \<Rightarrow> ('z process_manager_scheme, runtime_error, process_details) rt" where
  "get_process pid caller =
     bindE (process_from_id pid) (\<lambda>a.
     bindE (ensure_ownership a caller) (\<lambda>_.
     details_at a))"

record log_request =
  lgr_process_id :: string
  lgr_caller :: "string option"
  lgr_stream :: "string option"
  lgr_head_lines :: "nat option"
  lgr_tail_lines :: "nat option"
  lgr_max_bytes :: "nat option"

record logs_chunk =
  lc_process_id :: string
  lc_stream :: string
  lc_content :: string
  lc_head_lines :: nat
  lc_tail_lines :: nat
  lc_truncated :: bool
  lc_bytes :: nat

definition requested_streams ::
  "process_details \<Rightarrow> string option \<Rightarrow> runtime_error + (string \<times> string option \<times> bool) list" where
  "requested_streams d which =
     (let out = (''stdout'', pd_stdout_path d, pd_stdout_truncated d);
          er = (''stderr'', pd_stderr_path d, pd_stderr_truncated d) in
      case which of
        None \<Rightarrow> Inr [out, er]
      | Some name \<Rightarrow>
          if name = ''stdout'' then Inr [out]
          else if name = ''stderr'' then Inr [er]
          else Inl (InvalidState (''unsupported stream '' @ name)))"

text \<open>\<open>read_to_string(path).unwrap_or_default()\<close>: a missing file and ill-formed UTF-8 read as empty.\<close>

definition read_log :: "(string, string) hmap \<Rightarrow> string \<Rightarrow> string" where
  "read_log files path =
     (case hget files path of None \<Rightarrow> [] | Some bytes \<Rightarrow> if utf8_valid bytes then bytes else [])"

definition with_newlines :: "string list \<Rightarrow> string" where
  "with_newlines ls = concat (map (\<lambda>l. l @ [CHR 0x0A]) ls)"

definition head_tail :: "string list \<Rightarrow> nat \<Rightarrow> nat \<Rightarrow> string \<times> bool" where
  "head_tail ls head tail =
     (let tail_start = length ls - tail; gap = (head > 0 \<and> tail_start > head) in
      (with_newlines (take head ls) @ (if gap then ''...'' @ [CHR 0x0A] else [])
         @ with_newlines (drop tail_start ls), gap))"

definition keep_last_bytes :: "nat option \<Rightarrow> string \<times> bool \<Rightarrow> string \<times> bool" where
  "keep_last_bytes max_bytes out =
     (case max_bytes of
        None \<Rightarrow> out
      | Some n \<Rightarrow>
          if length (fst out) > n then (from_utf8_lossy (drop (length (fst out) - n) (fst out)), True) else out)"

definition log_chunk ::
  "log_request \<Rightarrow> (string, string) hmap \<Rightarrow> string \<Rightarrow> string \<times> string option \<times> bool \<Rightarrow> logs_chunk option" where
  "log_chunk req files pid st =
     (case st of (name, path, over) \<Rightarrow>
      case path of
        None \<Rightarrow> None
      | Some p \<Rightarrow>
          (let head = (case lgr_head_lines req of None \<Rightarrow> 0 | Some n \<Rightarrow> n);
               tail = (case lgr_tail_lines req of None \<Rightarrow> 80 | Some n \<Rightarrow> n) in
           case keep_last_bytes (lgr_max_bytes req) (head_tail (str_lines (read_log files p)) head tail) of
             (out, truncated) \<Rightarrow>
               Some \<lparr>lc_process_id = pid, lc_stream = name, lc_content = out, lc_head_lines = head, lc_tail_lines = tail,
                     lc_truncated = (truncated \<or> over), lc_bytes = length out\<rparr>))"

definition read_process_logs :: "log_request \<Rightarrow> ('z process_manager_scheme, runtime_error, logs_chunk list) rt" where
  "read_process_logs req =
     bindE (process_from_id (lgr_process_id req)) (\<lambda>a.
     bindE (ensure_ownership a (lgr_caller req)) (\<lambda>_.
     bindE (details_at a) (\<lambda>d.
     bindE (lift_result (requested_streams d (lgr_stream req))) (\<lambda>streams.
     gets (\<lambda>s. List.map_filter (log_chunk req (pm_files s) (psm_process_id (pd_process d))) streams)))))"

definition kill_process ::
  "string \<Rightarrow> string option \<Rightarrow> string option \<Rightarrow> ('z process_manager_scheme, runtime_error, process_details) rt" where
  "kill_process pid caller reason =
     bindE (process_from_id pid) (\<lambda>a.
     bindE (ensure_ownership a caller) (\<lambda>_.
     bindE (modify (\<lambda>s. s\<lparr>pm_heap := (pm_heap s)[a := (pm_heap s ! a)\<lparr>mp_kill_requested := True\<rparr>]\<rparr>)) (\<lambda>_.
     bindE (gets (\<lambda>s. pm_heap s ! a)) (\<lambda>mp.
     bindE (case mp_child mp of
              None \<Rightarrow> ok ()
            | Some child \<Rightarrow>
                bindE (modify (\<lambda>s. s\<lparr>os_kills := os_kills s @ [ch_handle child]\<rparr>)) (\<lambda>_.
                append_process_event (proc_id (mp_record mp)) (proc_session_id (mp_record mp)) ''process.kill_requested'' Critical
                  (jobject [(''reason'', JString (case reason of None \<Rightarrow> ''requested'' | Some r \<Rightarrow> r)),
                            (''process_id'', JString (proc_id (mp_record mp)))]))) (\<lambda>_.
     details_at a)))))"

definition replay_process_events ::
  "string \<Rightarrow> string option \<Rightarrow> int option \<Rightarrow> nat \<Rightarrow> ('z process_manager_scheme, runtime_error, event_record list) rt" where
  "replay_process_events pid caller after limit =
     bindE (process_from_id pid) (\<lambda>a.
     bindE (ensure_ownership a caller) (\<lambda>_.
     store_call (\<lambda>db. case db_list_runtime_events (Some (ScopeProcess, pid)) after (max limit 1) db of
                        Inl e \<Rightarrow> Inl e | Inr rows \<Rightarrow> Inr (rows, db))))"

end
