(* ===== verification/Process_Properties.thy ===== *)
theory Process_Properties
  imports Process_Manager
begin

text \<open>
  Properties of the process manager. The step relation lets the handlers and the steps of the
  lifecycle tasks interleave in any order, with any output, exit status, store fault and spawn
  result; \<open>pm_ok\<close> is its invariant.
\<close>

section \<open>Steps\<close>

inductive process_step :: "'z process_manager_scheme \<Rightarrow> 'z process_manager_scheme \<Rightarrow> bool" where
  run: "run_process req s = Some (r, s') \<Longrightarrow> process_step s s'"
| start: "task_at a s = Some t \<Longrightarrow> lf_phase t = Starting \<Longrightarrow> process_step s (lifecycle_begin a opens s)"
| chunk: "chunk \<noteq> [] \<Longrightarrow> length chunk \<le> 8192 \<Longrightarrow> process_step s (snd (pump_chunk a st chunk reached s))"
| pump_end: "process_step s (pump_end a st s)"
| timeout: "process_step s (lifecycle_timeout a s)"
| waited: "process_step s (lifecycle_waited a w s)"
| finish: "process_step s (snd (lifecycle_finish a s))"
| list: "process_step s (snd (list_processes caller all s))"
| get: "process_step s (snd (get_process pid caller s))"
| logs: "process_step s (snd (read_process_logs lreq s))"
| kill: "process_step s (snd (kill_process pid caller reason s))"
| replay: "process_step s (snd (replay_process_events pid caller after limit s))"

section \<open>The invariant\<close>

definition pview where
  "pview s = (pm_config s, pm_processes s, pm_heap s, pm_tasks s, pm_files s, os_kills s)"

lemma pviewD:
  assumes "pview s' = pview s"
  shows "pm_config s' = pm_config s" "pm_processes s' = pm_processes s" "pm_heap s' = pm_heap s"
    "pm_tasks s' = pm_tasks s" "pm_files s' = pm_files s" "os_kills s' = os_kills s"
  using assms by (simp_all add: pview_def)

definition output_ok :: "pm_config \<Rightarrow> managed_process \<Rightarrow> bool" where
  "output_ok cfg mp \<longleftrightarrow>
     (\<forall>st. bytes_of st mp \<le> pc_max_output_bytes cfg \<and> (truncated_of st mp \<longrightarrow> bytes_of st mp = pc_max_output_bytes cfg))"

text \<open>What the phase of its task, if it has one, says of a managed process.\<close>

fun object_ok :: "life_phase option \<Rightarrow> managed_process \<Rightarrow> bool" where
  "object_ok None mp \<longleftrightarrow> mp_child mp = None \<and> proc_status (mp_record mp) \<notin> {''running'', ''queued''}"
| "object_ok (Some Starting) mp \<longleftrightarrow> mp_child mp \<noteq> None \<and> proc_status (mp_record mp) = ''running''"
| "object_ok (Some (Running _)) mp \<longleftrightarrow> mp_child mp = None \<and> proc_status (mp_record mp) = ''running''"

definition phase_at :: "'z process_manager_scheme \<Rightarrow> nat \<Rightarrow> life_phase option" where
  "phase_at s a = map_option lf_phase (task_at a s)"

definition tasks_ok :: "'z process_manager_scheme \<Rightarrow> bool" where
  "tasks_ok s \<longleftrightarrow> length (pm_tasks s) \<le> permits (pm_config s) \<and> distinct (map lf_addr (pm_tasks s)) \<and>
     (\<forall>t \<in> set (pm_tasks s). lf_addr t < length (pm_heap s))"

definition heap_ok :: "'z process_manager_scheme \<Rightarrow> bool" where
  "heap_ok s \<longleftrightarrow>
     (\<forall>a < length (pm_heap s). object_ok (phase_at s a) (pm_heap s ! a) \<and> output_ok (pm_config s) (pm_heap s ! a))"

definition table_ok :: "'z process_manager_scheme \<Rightarrow> bool" where
  "table_ok s \<longleftrightarrow>
     (\<forall>i a. hget (pm_processes s) i = Some a \<longrightarrow> a < length (pm_heap s) \<and> proc_id (mp_record (pm_heap s ! a)) = i)"

definition pm_ok :: "'z process_manager_scheme \<Rightarrow> bool" where
  "pm_ok s \<longleftrightarrow> tasks_ok s \<and> heap_ok s \<and> table_ok s"

lemmas pm_ok_defs = pm_ok_def tasks_ok_def heap_ok_def table_ok_def

lemma pm_ok_view: "pview s' = pview s \<Longrightarrow> pm_ok s' = pm_ok s"
  by (simp add: pm_ok_defs phase_at_def task_at_def pviewD [of s' s])

lemma pview_event [preserves_intros]:
  "preserves (\<lambda>s. pview s = v) (append_process_event pid ses kind crit payload)"
  "preserves (\<lambda>s. pview s = v) (store_call f)" "preserves (\<lambda>s. pview s = v) (store_write w)"
  "preserves (\<lambda>s. pview s = v) now_ms"
  by (auto simp: preserves_def append_process_event_def store_write_def store_call_def bindE_def attempt_def gets_def Let_def
      ok_def now_ms_def modify_def pview_def split: option.splits sum.splits prod.splits)

lemma bindE_clock: "bindE now_ms f s = f (env_clock s (env_clock_reads s)) (s\<lparr>env_clock_reads := Suc (env_clock_reads s)\<rparr>)"
  by (simp add: bindE_def now_ms_def)

lemma event_returns: "fst (append_process_event pid ses kind crit payload s) = Inr ()"
  by (simp add: append_process_event_def monad_simps bindE_clock modify_def ok_def split: sum.splits)

lemma bindE_event:
  "bindE (append_process_event pid ses kind crit payload) f s = f () (snd (append_process_event pid ses kind crit payload s))"
  using event_returns [of pid ses kind crit payload s]
  by (cases "append_process_event pid ses kind crit payload s") (simp add: bindE_def)

lemma pview_after_event: "pview (snd (append_process_event pid ses kind crit payload s)) = pview s"
  by (rule keepsD) (intro preserves_intros)

lemma phase_heap [simp]:
  "phase_at (s\<lparr>pm_heap := h\<rparr>) = phase_at s" "phase_at (s\<lparr>pm_files := f\<rparr>) = phase_at s" "phase_at (s\<lparr>os_kills := k\<rparr>) = phase_at s"
  "phase_at (s\<lparr>pm_processes := p\<rparr>) = phase_at s"
  by (simp_all add: phase_at_def task_at_def fun_eq_iff)

lemma find_map_same: "find (\<lambda>t. lf_addr t = b) (map (\<lambda>t. if lf_addr t = a then t\<lparr>lf_phase := p\<rparr> else t) ts) =
  map_option (\<lambda>t. if b = a then t\<lparr>lf_phase := p\<rparr> else t) (find (\<lambda>t. lf_addr t = b) ts)"
  by (induction ts) auto

lemma find_filter_other: "find (\<lambda>t. lf_addr t = b) (filter (\<lambda>t. lf_addr t \<noteq> a) ts) =
  (if b = a then None else find (\<lambda>t. lf_addr t = b) ts)"
  by (induction ts) (auto simp: find_None_iff)

lemma phase_at_steps:
  "phase_at (set_phase a run s) b = (if b = a then map_option (\<lambda>_. Running run) (phase_at s a) else phase_at s b)"
  "phase_at (drop_task a s) b = (if b = a then None else phase_at s b)"
  by (auto simp: phase_at_def task_at_def set_phase_def drop_task_def find_map_same find_filter_other option.map_comp comp_def)

lemma phase_task: "phase_at s a \<noteq> None \<longleftrightarrow> a \<in> lf_addr ` set (pm_tasks s)"
  by (auto simp: phase_at_def task_at_def find_None_iff image_iff)

text \<open>Replacing one object.\<close>

lemma nth_update: "a < length xs \<Longrightarrow> xs[a := x] ! b = (if b = a then x else xs ! b)"
  by simp

lemma heap_ok_set:
  assumes "heap_ok s" and "a < length (pm_heap s)" and "object_ok (phase_at s a) mp" and "output_ok (pm_config s) mp"
  shows "heap_ok (s\<lparr>pm_heap := (pm_heap s)[a := mp]\<rparr>)"
  using assms by (simp add: heap_ok_def nth_list_update)

lemma pm_ok_set:
  assumes "pm_ok s" and "a < length (pm_heap s)" and "object_ok (phase_at s a) mp" and "output_ok (pm_config s) mp"
    and "proc_id (mp_record mp) = proc_id (mp_record (pm_heap s ! a))"
  shows "pm_ok (s\<lparr>pm_heap := (pm_heap s)[a := mp]\<rparr>)"
  using assms heap_ok_set [of s a mp] by (auto simp: pm_ok_def tasks_ok_def table_ok_def nth_list_update)

lemma pm_ok_phase:
  assumes ok: "pm_ok s" and a: "phase_at s a = Some p" and mp: "object_ok (Some (Running run)) mp" "output_ok (pm_config s) mp"
    and id: "proc_id (mp_record mp) = proc_id (mp_record (pm_heap s ! a))"
  shows "pm_ok (set_phase a run (s\<lparr>pm_heap := (pm_heap s)[a := mp], pm_files := f\<rparr>))"
proof -
  have "a \<in> lf_addr ` set (pm_tasks s)" using phase_task [of s a] a by simp
  then have bound: "a < length (pm_heap s)" using ok by (auto simp: pm_ok_def tasks_ok_def)
  let ?s = "s\<lparr>pm_heap := (pm_heap s)[a := mp], pm_files := f\<rparr>"
  have addr: "lf_addr (if lf_addr t = a then t\<lparr>lf_phase := q\<rparr> else t) = lf_addr t" for t q by simp
  have "tasks_ok (set_phase a run ?s)"
    using ok by (auto simp: pm_ok_def tasks_ok_def set_phase_def comp_def addr)
  moreover have "heap_ok (set_phase a run ?s)"
    unfolding heap_ok_def phase_at_steps using ok a mp bound
    by (simp add: pm_ok_def heap_ok_def set_phase_def nth_list_update)
  moreover have "table_ok (set_phase a run ?s)"
    using ok id nth_update [OF bound, of mp] by (simp add: pm_ok_def table_ok_def set_phase_def)
  ultimately show ?thesis by (simp add: pm_ok_def)
qed

lemma running_phase: "running_at a s = Some run \<longleftrightarrow> phase_at s a = Some (Running run)"
  by (auto simp: running_at_def phase_at_def split: option.splits life_phase.splits)

lemma object_at:
  assumes "pm_ok s" and "phase_at s a = Some p"
  shows "a < length (pm_heap s)" "object_ok (Some p) (pm_heap s ! a)" "output_ok (pm_config s) (pm_heap s ! a)"
proof -
  have "a \<in> lf_addr ` set (pm_tasks s)" using phase_task [of s a] assms(2) by simp
  then show bound: "a < length (pm_heap s)" using assms(1) by (auto simp: pm_ok_def tasks_ok_def)
  then show "object_ok (Some p) (pm_heap s ! a)" "output_ok (pm_config s) (pm_heap s ! a)"
    using assms by (auto simp: pm_ok_def heap_ok_def)
qed

lemma output_frame:
  "output_ok cfg (mp\<lparr>mp_child := c\<rparr>) = output_ok cfg mp" "output_ok cfg (mp\<lparr>mp_record := r\<rparr>) = output_ok cfg mp"
  "output_ok cfg (mp\<lparr>mp_timed_out := b\<rparr>) = output_ok cfg mp" "output_ok cfg (mp\<lparr>mp_kill_requested := b\<rparr>) = output_ok cfg mp"
proof -
  have "bytes_of st (mp\<lparr>mp_child := c\<rparr>) = bytes_of st mp" "truncated_of st (mp\<lparr>mp_child := c\<rparr>) = truncated_of st mp"
    "bytes_of st (mp\<lparr>mp_record := r\<rparr>) = bytes_of st mp" "truncated_of st (mp\<lparr>mp_record := r\<rparr>) = truncated_of st mp"
    "bytes_of st (mp\<lparr>mp_timed_out := b\<rparr>) = bytes_of st mp" "truncated_of st (mp\<lparr>mp_timed_out := b\<rparr>) = truncated_of st mp"
    "bytes_of st (mp\<lparr>mp_kill_requested := b\<rparr>) = bytes_of st mp" "truncated_of st (mp\<lparr>mp_kill_requested := b\<rparr>) = truncated_of st mp"
    for st by (cases st; simp)+
  then show "output_ok cfg (mp\<lparr>mp_child := c\<rparr>) = output_ok cfg mp" "output_ok cfg (mp\<lparr>mp_record := r\<rparr>) = output_ok cfg mp"
    "output_ok cfg (mp\<lparr>mp_timed_out := b\<rparr>) = output_ok cfg mp" "output_ok cfg (mp\<lparr>mp_kill_requested := b\<rparr>) = output_ok cfg mp"
    by (simp_all add: output_ok_def)
qed

lemma begin_ok:
  assumes ok: "pm_ok s" and a: "phase_at s a = Some Starting"
  shows "pm_ok (lifecycle_begin a opens s)"
proof -
  note obj = object_at [OF ok a]
  obtain child where child: "mp_child (pm_heap s ! a) = Some child" using obj(2) by auto
  have "object_ok (Some (Running run)) ((pm_heap s ! a)\<lparr>mp_child := None\<rparr>)" for run using obj(2) by simp
  moreover have "output_ok (pm_config s) ((pm_heap s ! a)\<lparr>mp_child := None\<rparr>)"
    using obj(3) by (simp add: output_frame)
  ultimately show ?thesis
    using pm_ok_phase [OF ok a] child by (simp add: lifecycle_begin_def Let_def split: prod.splits)
qed

text \<open>Counting a chunk keeps the output in bounds: what goes over the limit is cut off and flagged.\<close>

lemma output_count:
  assumes "output_ok cfg mp" and "n = min (pc_max_output_bytes cfg - bytes_of st mp) len" and "over = (n < len)"
  shows "output_ok cfg (count_bytes st n over mp)"
  unfolding output_ok_def
proof
  fix st'
  have "bytes_of st' mp \<le> pc_max_output_bytes cfg" "truncated_of st' mp \<longrightarrow> bytes_of st' mp = pc_max_output_bytes cfg"
    using assms(1) by (auto simp: output_ok_def)
  then show "bytes_of st' (count_bytes st n over mp) \<le> pc_max_output_bytes cfg \<and>
      (truncated_of st' (count_bytes st n over mp) \<longrightarrow> bytes_of st' (count_bytes st n over mp) = pc_max_output_bytes cfg)"
    using assms(2,3) by (cases st; cases st') auto
qed

lemma pm_ok_upd [simp]:
  "pm_ok (s\<lparr>pm_files := f\<rparr>) = pm_ok s" "pm_ok (s\<lparr>os_kills := k\<rparr>) = pm_ok s" "pm_ok (s\<lparr>os_spawns := n\<rparr>) = pm_ok s"
  "pm_ok (s\<lparr>pm_next_process := w\<rparr>) = pm_ok s" "pm_ok (s\<lparr>env_clock_reads := n\<rparr>) = pm_ok s"
  by (simp_all add: pm_ok_defs phase_at_def task_at_def)

text \<open>What a round of a pump does to the manager: it counts, it writes, and perhaps it reports.\<close>

lemma chunk_run:
  assumes run: "running_at a s = Some run" and p: "pump_of st run = Some p"
    and n: "n = min (pc_max_output_bytes (pm_config s) - bytes_of st (pm_heap s ! a)) (length chunk)"
  shows "\<exists>p'. pu_path p' = pu_path p \<and> pview (snd (pump_chunk a st chunk reached s)) =
    pview (set_phase a (set_pump st (Some p') run) (s\<lparr>pm_heap := (pm_heap s)[a := count_bytes st n (n < length chunk) (pm_heap s ! a)],
      pm_files := (if n > 0 then append_file (pu_path p) (take reached (take n chunk)) (pm_files s) else pm_files s)\<rparr>))"
proof -
  define emit where "emit \<longleftrightarrow> max 1 (pc_sample_bytes (pm_config s)) \<le> min (2 ^ 64 - 1) (pu_budget p + length chunk) \<or> n < length chunk"
  define p' where "p' = p\<lparr>pu_budget := (if emit then 0 else min (2 ^ 64 - 1) (pu_budget p + length chunk))\<rparr>"
  let ?s = "set_phase a (set_pump st (Some p') run) (s\<lparr>pm_heap := (pm_heap s)[a := count_bytes st n (n < length chunk) (pm_heap s ! a)],
      pm_files := (if n > 0 then append_file (pu_path p) (take reached (take n chunk)) (pm_files s) else pm_files s)\<rparr>)"
  let ?ev = "append_process_event (lr_id run) (lr_session run) ''process.output'' Droppable
     (jobject [(''process_id'', JString (lr_id run)), (''stream'', JString (stream_name st)),
       (''bytes_seen'', jint (int (length chunk))), (''bytes_written'', jint (int n)), (''truncated'', JBool (n < length chunk))])"
  have "pump_chunk a st chunk reached s = (if emit then ?ev else ok ()) ?s"
    unfolding pump_chunk_def bindE_gets run p option.case prod.case Let_def bindE_modify n [symmetric] emit_def p'_def ..
  then have "pview (snd (pump_chunk a st chunk reached s)) = pview ?s"
    by (cases emit) (simp_all only: if_True if_False pview_after_event ok_def snd_conv)
  moreover have "pu_path p' = pu_path p" by (simp add: p'_def)
  ultimately show ?thesis by blast
qed

lemma chunk_ok:
  assumes ok: "pm_ok s"
  shows "pm_ok (snd (pump_chunk a st chunk reached s))"
proof (cases "\<exists>run p. running_at a s = Some run \<and> pump_of st run = Some p")
  case False
  then have "snd (pump_chunk a st chunk reached s) = s"
    by (cases "running_at a s") (auto simp: pump_chunk_def bindE_gets ok_def split: option.splits)
  then show ?thesis using ok by simp
next
  case True
  then obtain run p where run: "running_at a s = Some run" "pump_of st run = Some p" by blast
  note phase = run(1)[unfolded running_phase]
  note obj = object_at [OF ok phase]
  let ?n = "min (pc_max_output_bytes (pm_config s) - bytes_of st (pm_heap s ! a)) (length chunk)"
  let ?mp = "count_bytes st ?n (?n < length chunk) (pm_heap s ! a)"
  obtain run' f where view: "pview (snd (pump_chunk a st chunk reached s)) =
      pview (set_phase a run' (s\<lparr>pm_heap := (pm_heap s)[a := ?mp], pm_files := f\<rparr>))"
    using chunk_run [OF run refl] by metis
  have "object_ok (Some (Running run')) ?mp" "proc_id (mp_record ?mp) = proc_id (mp_record (pm_heap s ! a))"
    using obj(2) by (cases st; simp)+
  then show ?thesis
    unfolding pm_ok_view [OF view] by (intro pm_ok_phase [OF ok phase] output_count [OF obj(3) refl refl])
qed

text \<open>A task that changes nothing but its own notes.\<close>

lemma running_again:
  assumes ok: "pm_ok s" and run: "running_at a s = Some run" shows "pm_ok (set_phase a run' s)"
proof -
  note phase = run [unfolded running_phase]
  have "s\<lparr>pm_heap := (pm_heap s)[a := pm_heap s ! a], pm_files := pm_files s\<rparr> = s" by simp
  then show ?thesis
    using pm_ok_phase [OF ok phase, of run' "pm_heap s ! a" "pm_files s"] object_at [OF ok phase] by simp
qed

lemma pump_end_ok: "pm_ok s \<Longrightarrow> pm_ok (pump_end a st s)"
  using running_again [of s a] by (simp add: pump_end_def split: option.splits)

lemma timeout_ok:
  assumes ok: "pm_ok s" shows "pm_ok (lifecycle_timeout a s)"
proof (cases "running_at a s")
  case None
  then show ?thesis using ok by (simp add: lifecycle_timeout_def)
next
  case (Some run)
  note phase = Some [unfolded running_phase]
  note obj = object_at [OF ok phase]
  have "pm_ok (s\<lparr>pm_heap := (pm_heap s)[a := (pm_heap s ! a)\<lparr>mp_timed_out := True\<rparr>]\<rparr>)"
    using ok obj phase by (intro pm_ok_set) (simp_all add: output_frame)
  then show ?thesis using Some ok by (simp add: lifecycle_timeout_def)
qed

lemma waited_ok:
  assumes ok: "pm_ok s" shows "pm_ok (lifecycle_waited a w s)"
  using running_again [OF ok] ok by (simp add: lifecycle_waited_def split: option.splits)

lemma outcome_terminal: "is_terminal_process (fst (outcome_of mp w))"
  by (simp add: outcome_of_def is_terminal_process_def split: wait_result.splits)

lemma finish_run:
  assumes "running_at a s = Some run" and "lr_stdout run = None" "lr_stderr run = None" and "lr_wait run = Some w"
  shows "\<exists>now. pview (snd (lifecycle_finish a s)) = pview (drop_task a (s\<lparr>pm_heap := (pm_heap s)[a := (pm_heap s ! a)
     \<lparr>mp_record := (mp_record (pm_heap s ! a))\<lparr>proc_status := fst (outcome_of (pm_heap s ! a) w),
        proc_exit_code := fst (snd (outcome_of (pm_heap s ! a) w)), proc_signal := snd (snd (outcome_of (pm_heap s ! a) w)),
        proc_ended_at := Some now\<rparr>\<rparr>]\<rparr>))"
proof -
  obtain status code signal where out: "outcome_of (pm_heap s ! a) w = (status, code, signal)" by (cases "outcome_of (pm_heap s ! a) w") auto
  let ?now = "env_clock s (env_clock_reads s)"
  let ?r = "(mp_record (pm_heap s ! a))\<lparr>proc_status := status, proc_exit_code := code, proc_signal := signal, proc_ended_at := Some ?now\<rparr>"
  let ?s = "s\<lparr>env_clock_reads := Suc (env_clock_reads s), pm_heap := (pm_heap s)[a := (pm_heap s ! a)\<lparr>mp_record := ?r\<rparr>]\<rparr>"
  let ?ev = "append_process_event (lr_id run) (lr_session run) (process_event_kind status) Critical
           (jobject [(''process_id'', JString (lr_id run)), (''status'', JString status),
             (''exit_code'', jopt jint code), (''signal'', jopt jint signal)])"
  let ?t = "snd (?ev (snd (store_write (WProcess ?r) ?s)))"
  have "lifecycle_finish a s = (Inr (), drop_task a ?t)"
    using assms out
    by (simp add: lifecycle_finish_def monad_simps bindE_clock Let_def bindE_event modify_def)
  moreover have "pview ?t = pview ?s"
  proof -
    have "pview (snd (store_write (WProcess ?r) ?s)) = pview ?s" by (rule keepsD) (intro preserves_intros)
    then show ?thesis using pview_after_event by metis
  qed
  ultimately have "pview (snd (lifecycle_finish a s)) = pview (drop_task a ?s)"
    by (simp add: pview_def drop_task_def)
  then show ?thesis using out by (intro exI [of _ ?now]) (simp add: pview_def drop_task_def)
qed

lemma drop_ok:
  assumes ok: "pm_ok s" and a: "a < length (pm_heap s)" and mp: "object_ok None mp" "output_ok (pm_config s) mp"
    and id: "proc_id (mp_record mp) = proc_id (mp_record (pm_heap s ! a))"
  shows "pm_ok (drop_task a (s\<lparr>pm_heap := (pm_heap s)[a := mp]\<rparr>))"
proof -
  let ?s = "s\<lparr>pm_heap := (pm_heap s)[a := mp]\<rparr>"
  have "tasks_ok (drop_task a ?s)"
    using ok le_trans [OF length_filter_le [of "\<lambda>t. lf_addr t \<noteq> a" "pm_tasks s"]]
    by (simp add: pm_ok_def tasks_ok_def drop_task_def distinct_map_filter)
  moreover have "heap_ok (drop_task a ?s)"
    unfolding heap_ok_def phase_at_steps using ok mp a by (simp add: pm_ok_def heap_ok_def drop_task_def nth_list_update)
  moreover have "table_ok (drop_task a ?s)"
    using ok id nth_update [OF a, of mp] by (simp add: pm_ok_def table_ok_def drop_task_def)
  ultimately show ?thesis by (simp add: pm_ok_def)
qed

lemma finish_ok:
  assumes ok: "pm_ok s" shows "pm_ok (snd (lifecycle_finish a s))"
proof (cases "\<exists>run w. running_at a s = Some run \<and> lr_stdout run = None \<and> lr_stderr run = None \<and> lr_wait run = Some w")
  case False
  then show ?thesis using ok by (cases "running_at a s") (auto simp: lifecycle_finish_def monad_simps ok_def split: option.splits)
next
  case True
  then obtain run w where run: "running_at a s = Some run" "lr_stdout run = None" "lr_stderr run = None" "lr_wait run = Some w" by blast
  note obj = object_at [OF ok run(1)[unfolded running_phase]]
  obtain now where now: "pview (snd (lifecycle_finish a s)) = pview (drop_task a (s\<lparr>pm_heap := (pm_heap s)[a := (pm_heap s ! a)
     \<lparr>mp_record := (mp_record (pm_heap s ! a))\<lparr>proc_status := fst (outcome_of (pm_heap s ! a) w),
        proc_exit_code := fst (snd (outcome_of (pm_heap s ! a) w)), proc_signal := snd (snd (outcome_of (pm_heap s ! a) w)),
        proc_ended_at := Some now\<rparr>\<rparr>]\<rparr>))" using finish_run [OF run] by blast
  have "fst (outcome_of (pm_heap s ! a) w) \<notin> {''running'', ''queued''}"
    using outcome_terminal [of "pm_heap s ! a" w] by (auto simp: is_terminal_process_def)
  then show ?thesis
    unfolding pm_ok_view [OF now] using obj by (intro drop_ok [OF ok]) (simp_all add: output_frame)
qed

section \<open>Handlers\<close>

lemma hget_fold_hremove: "hget (fold hremove ks m) k = (if k \<in> set ks then None else hget m k)"
  by (induction ks arbitrary: m) auto

lemma pm_ok_forget:
  assumes "pm_ok s" and "\<And>i a. hget m i = Some a \<Longrightarrow> hget (pm_processes s) i = Some a"
  shows "pm_ok (s\<lparr>pm_processes := m\<rparr>)"
  using assms unfolding pm_ok_defs by simp blast

lemma list_ok: "pm_ok s \<Longrightarrow> pm_ok (snd (list_processes caller include s))"
  unfolding list_processes_def list_process_entries_def cleanup_expired_terminal_def
  by (auto simp: monad_simps bindE_clock gets_def hget_fold_hremove intro!: pm_ok_forget split: if_splits)

lemma process_from_id_run:
  "process_from_id pid s = ((case hget (pm_processes s) pid of None \<Rightarrow> Inl (NotFound (''process '' @ pid)) | Some a \<Rightarrow> Inr a), s)"
  by (simp add: process_from_id_def monad_simps ok_or_else_def split: option.splits)

lemma ownership_run:
  "ensure_ownership a caller s =
     ((if caller = None \<or> proc_session_id (mp_record (pm_heap s ! a)) = caller then Inr ()
       else Inl (InvalidState (''process '' @ proc_id (mp_record (pm_heap s ! a)) @ '' belongs to a different session''))), s)"
  by (cases caller) (auto simp: ensure_ownership_def monad_simps ok_def err_def)

lemma bindE_lookup:
  "bindE (process_from_id pid) f s =
     (case hget (pm_processes s) pid of None \<Rightarrow> (Inl (NotFound (''process '' @ pid)), s) | Some a \<Rightarrow> f a s)"
  by (simp add: bindE_def process_from_id_run split: option.splits)

lemma bindE_owner:
  "bindE (ensure_ownership a caller) f s =
     (if caller = None \<or> proc_session_id (mp_record (pm_heap s ! a)) = caller then f () s
      else (Inl (InvalidState (''process '' @ proc_id (mp_record (pm_heap s ! a)) @ '' belongs to a different session'')), s))"
  by (simp add: bindE_def ownership_run)

lemmas handler_simps = bindE_lookup bindE_owner details_at_def monad_simps gets_def

lemma read_only:
  "snd (get_process pid caller s) = s" "snd (read_process_logs req s) = s"
  by (simp_all add: get_process_def read_process_logs_def handler_simps bindE_def [of "gets _"] split: option.splits sum.splits)

lemma replay_ok: "pm_ok s \<Longrightarrow> pm_ok (snd (replay_process_events pid caller after limit s))"
proof -
  assume ok: "pm_ok s"
  have "pview (snd (store_call f s)) = pview s" for f :: "database \<Rightarrow> runtime_error + event_record list \<times> database"
    by (rule keepsD) (intro preserves_intros)
  then show ?thesis using ok pm_ok_view by (auto simp: replay_process_events_def handler_simps split: option.splits)
qed

text \<open>What killing does: it sets the flag, and signals the child only while it is still in its slot.\<close>

lemma kill_run:
  assumes "hget (pm_processes s) pid = Some a" and "caller = None \<or> proc_session_id (mp_record (pm_heap s ! a)) = caller"
    and "a < length (pm_heap s)"
  shows "pview (snd (kill_process pid caller reason s)) = pview (s\<lparr>
      pm_heap := (pm_heap s)[a := (pm_heap s ! a)\<lparr>mp_kill_requested := True\<rparr>],
      os_kills := os_kills s @ (case mp_child (pm_heap s ! a) of None \<Rightarrow> [] | Some c \<Rightarrow> [ch_handle c])\<rparr>)"
proof (cases "mp_child (pm_heap s ! a)")
  case None
  then show ?thesis using assms by (simp add: kill_process_def handler_simps pview_def bindE_def [of "gets _"])
next
  case (Some c)
  then show ?thesis using assms by (auto simp: kill_process_def handler_simps bindE_event pviewD [OF pview_after_event] pview_def)
qed

lemma kill_ok: "pm_ok s \<Longrightarrow> pm_ok (snd (kill_process pid caller reason s))"
proof -
  assume ok: "pm_ok s"
  show ?thesis
  proof (cases "hget (pm_processes s) pid")
    case None
    then show ?thesis using ok by (simp add: kill_process_def handler_simps)
  next
    case (Some a)
    then have a: "a < length (pm_heap s)" using ok by (auto simp: pm_ok_def table_ok_def)
    show ?thesis
    proof (cases "caller = None \<or> proc_session_id (mp_record (pm_heap s ! a)) = caller")
      case False
      then show ?thesis using ok Some by (auto simp: kill_process_def handler_simps)
    next
      case True
      have "object_ok (phase_at s a) (pm_heap s ! a)" "output_ok (pm_config s) (pm_heap s ! a)"
        using ok a by (simp_all add: pm_ok_def heap_ok_def)
      moreover have "object_ok p (mp\<lparr>mp_kill_requested := True\<rparr>) = object_ok p mp" for p mp
        by (cases "(p, mp)" rule: object_ok.cases) simp_all
      ultimately have "pm_ok (s\<lparr>pm_heap := (pm_heap s)[a := (pm_heap s ! a)\<lparr>mp_kill_requested := True\<rparr>]\<rparr>)"
        using ok a by (intro pm_ok_set) (simp_all add: output_frame)
      then show ?thesis unfolding pm_ok_view [OF kill_run [OF Some True a]] by simp
    qed
  qed
qed

lemma new_output_ok: "output_ok cfg (managed_new r child)"
  unfolding output_ok_def
proof
  fix st show "bytes_of st (managed_new r child) \<le> pc_max_output_bytes cfg \<and>
      (truncated_of st (managed_new r child) \<longrightarrow> bytes_of st (managed_new r child) = pc_max_output_bytes cfg)"
    by (cases st) (simp_all add: managed_new_def)
qed

text \<open>Filing a started process with its task.\<close>

lemma pm_ok_started:
  assumes ok: "pm_ok s" and room: "length (pm_tasks s) < permits (pm_config s)" and r: "proc_id r = pid" "proc_status r = ''running''"
  shows "pm_ok (s\<lparr>pm_heap := pm_heap s @ [managed_new r (Some child)], pm_processes := hinsert pid (length (pm_heap s)) (pm_processes s),
    pm_tasks := pm_tasks s @ [\<lparr>lf_addr = length (pm_heap s), lf_phase = Starting\<rparr>]\<rparr>)" (is "pm_ok ?s")
proof -
  let ?n = "length (pm_heap s)"
  have old: "\<forall>t \<in> set (pm_tasks s). lf_addr t < ?n" using ok by (simp add: pm_ok_def tasks_ok_def)
  then have "?n \<notin> lf_addr ` set (pm_tasks s)" by auto
  then have fresh: "phase_at s ?n = None" using phase_task [of s ?n] by simp
  have "find P (xs @ [x]) = (case find P xs of Some y \<Rightarrow> Some y | None \<Rightarrow> if P x then Some x else None)" for P :: "life \<Rightarrow> bool" and xs x
    by (induction xs) auto
  then have phase: "phase_at ?s a = (if a = ?n then Some Starting else phase_at s a)" for a
    using fresh by (auto simp: phase_at_def task_at_def split: option.splits)
  have "tasks_ok ?s" using ok room old \<open>?n \<notin> _\<close> by (auto simp: pm_ok_def tasks_ok_def)
  moreover have "heap_ok ?s" unfolding heap_ok_def phase
    using ok r new_output_ok by (auto simp: pm_ok_def heap_ok_def nth_append less_Suc_eq managed_new_def)
  moreover have "table_ok ?s" using ok r by (auto simp: pm_ok_def table_ok_def nth_append managed_new_def dest: less_SucI)
  ultimately show ?thesis by (simp add: pm_ok_def)
qed

text \<open>What an admitted call leaves: nothing new but the counters, or the new process with its task.\<close>

lemma run_admitted_cases:
  shows "(\<exists>e n k. fst (run_admitted req command s) = Inl e \<and>
      pview (snd (run_admitted req command s)) = pview (s\<lparr>pm_next_process := n, os_kills := os_kills s @ k\<rparr>)) \<or>
    (\<exists>r child n. let pid = ''proc_'' @ dec_of_nat (unat (pm_next_process s)) in
      proc_id r = pid \<and> proc_status r = ''running'' \<and> fst (run_admitted req command s) = Inr (detail_from_process (managed_new r (Some child))) \<and>
      pview (snd (run_admitted req command s)) = pview (s\<lparr>pm_next_process := n, pm_heap := pm_heap s @ [managed_new r (Some child)],
        pm_processes := hinsert pid (length (pm_heap s)) (pm_processes s),
        pm_tasks := pm_tasks s @ [\<lparr>lf_addr = length (pm_heap s), lf_phase = Starting\<rparr>]\<rparr>))"
proof -
  let ?pid = "''proc_'' @ dec_of_nat (unat (pm_next_process s))" and ?cwd = "non_empty_trimmed (prr_cwd req)"
  let ?s1 = "s\<lparr>pm_next_process := pm_next_process s + 1\<rparr>"
  show ?thesis
  proof (cases "command_argv (pm_config s) command")
    case (Inl e)
    then have "run_admitted req command s = (Inl e, ?s1)" by (simp add: run_admitted_def monad_simps Let_def)
    then show ?thesis by (auto simp: pview_def intro!: exI [of _ "[]"])
  next
    case (Inr argv)
    let ?s2 = "?s1\<lparr>os_spawns := Suc (os_spawns s)\<rparr>"
    show ?thesis
    proof (cases "os_spawn s (os_spawns s) argv ?cwd")
      case (Inl e)
      then have "run_admitted req command s = (Inl (Io (''failed to spawn process: '' @ e)), ?s2)"
        using Inr by (simp add: run_admitted_def monad_simps Let_def bindE_def [of "spawn_child _ _"] spawn_child_def)
      then show ?thesis by (auto simp: pview_def intro!: exI [of _ "[]"])
    next
      case (Inr os_pid)
      let ?child = "\<lparr>ch_handle = os_spawns s, ch_pid = os_pid\<rparr>"
      let ?r = "started_record (pm_config s) req ?pid command ?cwd os_pid (env_clock s (env_clock_reads s))"
      let ?s3 = "?s2\<lparr>env_clock_reads := Suc (env_clock_reads s)\<rparr>"
      let ?rest = "\<lambda>stored. case stored of
         Inl e \<Rightarrow> bindE (teardown_untracked_child ?child) (\<lambda>_. err e)
       | Inr (_ :: unit) \<Rightarrow>
         bindE (gets (\<lambda>s. length (pm_heap s))) (\<lambda>a.
         bindE (modify (\<lambda>s. s\<lparr>pm_heap := pm_heap s @ [managed_new ?r (Some ?child)],
           pm_processes := hinsert ?pid a (pm_processes s)\<rparr>)) (\<lambda>_.
         bindE (append_process_event ?pid (prr_caller req) ''process.started'' Critical
           (jobject [(''process_id'', JString ?pid), (''pid'', jopt jint os_pid), (''cwd'', jopt JString ?cwd)])) (\<lambda>_.
         bindE (modify (\<lambda>s. s\<lparr>pm_tasks := pm_tasks s @ [\<lparr>lf_addr = a, lf_phase = Starting\<rparr>]\<rparr>)) (\<lambda>_.
         bindE (process_from_id ?pid) details_at))))"
      obtain w s4 where w: "store_write (WProcess ?r) ?s3 = (w, s4)" by fastforce
      have run: "run_admitted req command s = ?rest w s4"
        using \<open>command_argv _ _ = _\<close> Inr w
        by (cases w) (simp_all add: run_admitted_def monad_simps Let_def bindE_def [of "spawn_child _ _"] spawn_child_def bindE_clock)
      have v: "pview s4 = pview ?s3" using keepsD [of pview "store_write (WProcess ?r)" ?s3] w by (simp add: pview_event)
      show ?thesis
      proof (cases w)
        case (Inl e)
        then show ?thesis using run v pviewD [OF v]
          by (intro disjI1 exI [of _ e] exI [of _ "pm_next_process s + 1"] exI [of _ "[os_spawns s]"])
            (simp add: teardown_untracked_child_def monad_simps err_def pview_def)
      next
        case (Inr u)
        have "proc_id ?r = ?pid" "proc_status ?r = ''running''" by (simp_all add: started_record_def)
        then show ?thesis using run Inr pviewD [OF v]
          by (intro disjI2 exI [of _ ?r] exI [of _ ?child] exI [of _ "pm_next_process s + 1"])
            (simp add: monad_simps bindE_event pviewD [OF pview_after_event] pview_def bindE_lookup details_at_def gets_def Let_def)
      qed
    qed
  qed
qed

lemma run_ok:
  assumes ok: "pm_ok s" and run: "run_process req s = Some (r, s')"
  shows "pm_ok s'"
proof (cases "pc_enabled (pm_config s) \<and> trim (prr_command req) \<noteq> []")
  case False
  then show ?thesis using run ok by (auto simp: run_process_def Let_def split: if_splits)
next
  case True
  then have room: "length (pm_tasks s) < permits (pm_config s)" and s': "run_admitted req (trim (prr_command req)) s = (r, s')"
    using run by (auto simp: run_process_def Let_def split: if_splits)
  from run_admitted_cases [of req "trim (prr_command req)" s] show ?thesis
  proof (elim disjE exE conjE)
    fix e n k assume "pview (snd (run_admitted req (trim (prr_command req)) s)) = pview (s\<lparr>pm_next_process := n, os_kills := os_kills s @ k\<rparr>)"
    from pm_ok_view [OF this] show ?thesis using ok s' by simp
  next
    fix r child n
    assume new: "let pid = ''proc_'' @ dec_of_nat (unat (pm_next_process s)) in
      proc_id r = pid \<and> proc_status r = ''running'' \<and> fst (run_admitted req (trim (prr_command req)) s) = Inr (detail_from_process (managed_new r (Some child))) \<and>
      pview (snd (run_admitted req (trim (prr_command req)) s)) = pview (s\<lparr>pm_next_process := n, pm_heap := pm_heap s @ [managed_new r (Some child)],
        pm_processes := hinsert pid (length (pm_heap s)) (pm_processes s),
        pm_tasks := pm_tasks s @ [\<lparr>lf_addr = length (pm_heap s), lf_phase = Starting\<rparr>]\<rparr>)"
    then have view: "pview (snd (run_admitted req (trim (prr_command req)) s)) = pview (s\<lparr>pm_next_process := n, pm_heap := pm_heap s @ [managed_new r (Some child)],
        pm_processes := hinsert (proc_id r) (length (pm_heap s)) (pm_processes s),
        pm_tasks := pm_tasks s @ [\<lparr>lf_addr = length (pm_heap s), lf_phase = Starting\<rparr>]\<rparr>)" and "proc_status r = ''running''"
      by (auto simp: Let_def)
    then show ?thesis
      using pm_ok_started [of "s\<lparr>pm_next_process := n\<rparr>" r "proc_id r" child] ok room s' pm_ok_view [OF view] by simp
  qed
qed

lemma step_ok: "process_step s s' \<Longrightarrow> pm_ok s \<Longrightarrow> pm_ok s'"
  by (induction rule: process_step.induct)
    (auto simp: read_only phase_at_def intro: run_ok begin_ok chunk_ok pump_end_ok timeout_ok waited_ok finish_ok list_ok kill_ok replay_ok)

end
