(* ===== verification/Process_Theorems.thy ===== *)
theory Process_Theorems
  imports Process_Properties
begin

text \<open>
  The theorems on the process manager: its limits in every reachable state, what a restart makes of
  the stored processes, what ends up in a log file, how a process ends, who may see it and what
  killing does.
\<close>

section \<open>Starting\<close>

lemma config_basic [preserves_intros]:
  "preserves (\<lambda>s. pm_config s = c) (append_process_event pid ses kind crit payload)"
  "preserves (\<lambda>s. pm_config s = c) (store_call f)" "preserves (\<lambda>s. pm_config s = c) (store_write w)"
  "preserves (\<lambda>s. pm_config s = c) now_ms"
  by (auto simp: preserves_def append_process_event_def store_write_def store_call_def bindE_def attempt_def gets_def Let_def
      ok_def now_ms_def modify_def split: option.splits sum.splits prod.splits)

lemma config_steps [preserves_intros]:
  "preserves (\<lambda>s. pm_config s = c) (pump_chunk a st chunk n)" "preserves (\<lambda>s. pm_config s = c) (lifecycle_finish a)"
  "preserves (\<lambda>s. pm_config s = c) (list_processes caller all)" "preserves (\<lambda>s. pm_config s = c) (kill_process pid caller reason)"
  "preserves (\<lambda>s. pm_config s = c) (replay_process_events pid caller after limit)"
  unfolding pump_chunk_def lifecycle_finish_def list_processes_def list_process_entries_def cleanup_expired_terminal_def
    kill_process_def replay_process_events_def process_from_id_def ensure_ownership_def details_at_def Let_def
  by (auto intro!: preserves_intros preserves_modify simp: set_phase_def drop_task_def split: prod.splits option.splits)

lemma step_config: "process_step s s' \<Longrightarrow> pm_config s' = pm_config s"
proof (induction rule: process_step.induct)
  case (run req s r s')
  show ?case
  proof (cases "snd (run_admitted req (trim (prr_command req)) s) = s'")
    case True
    then show ?thesis
      using run_admitted_cases [of req "trim (prr_command req)" s] by (auto simp: Let_def pview_def)
  next
    case False
    then show ?thesis using run by (auto simp: run_process_def Let_def split: if_splits)
  qed
next
  case (start a s t opens)
  then show ?case by (simp add: lifecycle_begin_def set_phase_def drop_task_def Let_def split: option.splits prod.splits)
next
  case (pump_end s a st)
  then show ?case by (simp add: pump_end_def set_phase_def split: option.splits)
next
  case (timeout s a)
  then show ?case by (simp add: lifecycle_timeout_def split: option.splits)
next
  case (waited s a w)
  then show ?case by (simp add: lifecycle_waited_def set_phase_def split: option.splits)
qed (simp_all add: read_only keepsD [OF config_steps(1)] keepsD [OF config_steps(2)] keepsD [OF config_steps(3)]
    keepsD [OF config_steps(4)] keepsD [OF config_steps(5)])

text \<open>What the loop of \<open>new\<close> keeps true while it adopts the stored processes.\<close>

definition adopting :: "process_record list \<Rightarrow> nat \<Rightarrow> process_manager \<Rightarrow> bool" where
  "adopting rest mx s \<longleftrightarrow>
     pm_ok s \<and> pm_tasks s = [] \<and>
     (\<forall>r \<in> set (db_processes (env_db s)). proc_status r \<in> {''running'', ''queued''} \<longrightarrow> r \<in> set rest) \<and>
     (\<forall>i. hcontains (pm_processes s) i \<longrightarrow> (case parse_process_sequence i of None \<Rightarrow> True | Some n \<Rightarrow> n \<le> mx))"

definition adopted :: "process_record \<Rightarrow> int \<Rightarrow> process_record" where
  "adopted r now = (if proc_status r = ''running'' \<or> proc_status r = ''queued''
     then r\<lparr>proc_status := ''failed'', proc_ended_at := Some now\<rparr> else r)"

lemma pm_ok_adopt:
  assumes ok: "pm_ok s" and none: "pm_tasks s = []"
  shows "pm_ok (s\<lparr>pm_processes := hinsert (proc_id r) (length (pm_heap s)) (pm_processes s),
    pm_heap := pm_heap s @ [managed_new (adopted r now) None]\<rparr>)" (is "pm_ok ?s")
proof -
  have phase: "phase_at t a = None" if "pm_tasks t = []" for t :: "'a process_manager_scheme" and a
    using that by (simp add: phase_at_def task_at_def)
  have "tasks_ok ?s" using none by (simp add: tasks_ok_def permits_def)
  moreover have "heap_ok ?s" using ok none new_output_ok
    by (auto simp: heap_ok_def pm_ok_def phase nth_append less_Suc_eq managed_new_def adopted_def)
  moreover have "table_ok ?s" using ok by (auto simp: pm_ok_def table_ok_def nth_append managed_new_def adopted_def dest: less_SucI)
  ultimately show ?thesis by (simp add: pm_ok_def)
qed

lemma sequence_of_id: "m < 2 ^ 64 \<Longrightarrow> parse_process_sequence (''proc_'' @ dec_of_nat m) = Some m"
  by (simp add: parse_process_sequence_def parse_u64_dec)

lemma adopt_step:
  assumes inv: "adopting (r # rest) mx s" and step: "adopt_process r mx s = (Inr mx', s')"
  shows "adopting rest mx' s'"
proof -
  let ?now = "env_clock s (env_clock_reads s)"
  define s1 where "s1 = (if proc_status r = ''running'' \<or> proc_status r = ''queued''
     then snd (store_write (WProcess (adopted r ?now)) (s\<lparr>env_clock_reads := Suc (env_clock_reads s)\<rparr>)) else s)"
  have mx': "mx' = (case parse_process_sequence (proc_id r) of None \<Rightarrow> mx | Some n \<Rightarrow> max mx n)"
    and s': "pview s' = pview (s1\<lparr>pm_processes := hinsert (proc_id r) (length (pm_heap s1)) (pm_processes s1),
      pm_heap := pm_heap s1 @ [managed_new (adopted r ?now) None]\<rparr>)"
    and db: "env_db s' = env_db s1" and w: "proc_status r = ''running'' \<or> proc_status r = ''queued'' \<Longrightarrow>
      fst (store_write (WProcess (adopted r ?now)) (s\<lparr>env_clock_reads := Suc (env_clock_reads s)\<rparr>)) = Inr ()"
    using step
    by (auto simp: adopt_process_def s1_def adopted_def Let_def monad_simps bindE_clock bindE_eq_Inr ok_def pview_def modify_def
        split: if_splits)
  have v: "pview s1 = pview s"
    unfolding s1_def by (simp add: keepsD [OF pview_event(3)]) (simp add: pview_def)
  have "pm_ok s1" "pm_tasks s1 = []" using inv pm_ok_view [OF v] pviewD [OF v] by (simp_all add: adopting_def)
  from pm_ok_adopt [OF this, of r ?now] have "pm_ok s'" using pm_ok_view [OF s'] by simp
  moreover have "pm_tasks s' = []" using inv pviewD [OF s'] pviewD [OF v] by (simp add: adopting_def)
  moreover have "x \<in> set rest" if x: "x \<in> set (db_processes (env_db s'))" "proc_status x \<in> {''running'', ''queued''}" for x
  proof (cases "proc_status r = ''running'' \<or> proc_status r = ''queued''")
    case False
    then have "x \<in> set (r # rest)" using inv x db by (auto simp: adopting_def s1_def)
    then show ?thesis using False x(2) by auto
  next
    case True
    have "env_db s1 = (env_db s)\<lparr>db_processes := tbl_upsert proc_id replace_row (adopted r ?now) (db_processes (env_db s))\<rparr>"
      using w [OF True] True
      by (auto simp: s1_def store_write_def store_call_def Let_def db_upsert_process_def split: option.splits sum.splits)
    then have "x \<in> set (tbl_upsert proc_id replace_row (adopted r ?now) (db_processes (env_db s)))" using x(1) db by simp
    moreover have "x \<noteq> adopted r ?now" using x(2) True by (auto simp: adopted_def)
    moreover have "proc_id (adopted r ?now) = proc_id r" by (simp add: adopted_def)
    ultimately have "x \<in> set (db_processes (env_db s))" "proc_id x \<noteq> proc_id r"
      by (auto simp: tbl_upsert_def replace_row_def image_iff split: if_splits)
    then show ?thesis using inv x(2) by (auto simp: adopting_def)
  qed
  moreover have "case parse_process_sequence i of None \<Rightarrow> True | Some n \<Rightarrow> n \<le> mx'" if "hcontains (pm_processes s') i" for i
  proof (cases "i = proc_id r")
    case True
    then show ?thesis using mx' by (simp split: option.splits)
  next
    case False
    then have "hcontains (pm_processes s) i" using that pviewD(2)[OF s'] pviewD(2)[OF v] by (simp add: hcontains_def)
    then have "case parse_process_sequence i of None \<Rightarrow> True | Some n \<Rightarrow> n \<le> mx" using inv by (simp add: adopting_def)
    then show ?thesis using mx' by (auto split: option.splits)
  qed
  ultimately show ?thesis by (auto simp: adopting_def)
qed

lemma adopt_all:
  "adopting rs mx s \<Longrightarrow> for_fold rs mx adopt_process s = (Inr mx', s') \<Longrightarrow> adopting [] mx' s'"
proof (induction rs arbitrary: mx s)
  case Nil
  then show ?case by (simp add: ok_def)
next
  case (Cons r rs)
  then obtain mx1 s1 where "adopt_process r mx s = (Inr mx1, s1)" "for_fold rs mx1 adopt_process s1 = (Inr mx', s')"
    by (auto simp: bindE_eq_Inr)
  then show ?case using Cons.IH adopt_step [OF Cons.prems(1)] by blast
qed

lemma process_manager_new_run:
  assumes "process_manager_new env cfg mkdir files spawn = Inr s"
  obtains mx s0 where "adopting [] mx s0" "s = s0\<lparr>pm_next_process := of_nat mx + 1\<rparr>" "pm_config s = cfg"
proof -
  let ?e = "pm_empty env cfg files spawn"
  let ?run = "bindE (store_call (\<lambda>db. Inr (hydrate_runtime_state db, db))) (\<lambda>h. for_fold (hyd_processes h) 0 adopt_process)"
  obtain mx s0 where run: "?run ?e = (Inr mx, s0)" and s: "s = s0\<lparr>pm_next_process := of_nat mx + 1\<rparr>"
    using assms by (auto simp: process_manager_new_def split: option.splits prod.splits sum.splits)
  obtain h s1 where call: "store_call (\<lambda>db. Inr (hydrate_runtime_state db, db)) ?e = (Inr h, s1)"
    and loop: "for_fold (hyd_processes h) 0 adopt_process s1 = (Inr mx, s0)" using run unfolding bindE_eq_Inr by blast
  have h: "h = hydrate_runtime_state (env_db ?e)" "env_db s1 = env_db ?e" and s1: "pview s1 = pview ?e"
    using call by (auto simp: store_call_def Let_def pview_def split: option.splits)
  have "pm_ok ?e" "pm_tasks ?e = []" "pm_processes ?e = []"
    by (simp_all add: pm_empty_def runtime_env.extend_def pm_ok_defs permits_def)
  then have "adopting (hyd_processes h) 0 s1"
    using pm_ok_view [OF s1] pviewD [OF s1] h by (simp add: adopting_def hcontains_def hydrate_runtime_state_def select_processes_def)
  then have "adopting [] mx s0" using loop by (rule adopt_all)
  moreover have "pm_config s0 = cfg"
  proof -
    have "preserves (\<lambda>s. pm_config s = c) (adopt_process r m)" for c r m
      unfolding adopt_process_def Let_def by (auto intro!: preserves_intros preserves_modify)
    then have "preserves (\<lambda>s. pm_config s = pm_config ?e) ?run" by (intro preserves_intros)
    from preservesD [OF this refl] run have "pm_config s0 = pm_config ?e" by simp
    then show ?thesis by (simp add: pm_empty_def runtime_env.extend_def)
  qed
  ultimately show thesis using that s by simp
qed

section \<open>Limits\<close>

text \<open>C29: The process manager keeps its limits. Whatever is asked of it, and however the handlers and
  the steps of the lifecycle tasks interleave, from the start of the manager on: never more than
  \<open>max_concurrent\<close> processes (at least one) are live at a time; a process is marked running exactly
  as long as its lifecycle task exists, so every process that ended was settled and gave its
  permit back; and no stream is captured beyond its limit, with the truncation flag only set once
  the limit is reached.\<close>

theorem process_limits_hold:
  assumes "process_manager_new env cfg mkdir files spawn = Inr s" and "process_step\<^sup>*\<^sup>* s s'"
  shows "length (pm_tasks s') \<le> max 1 (pc_max_concurrent cfg) \<and> distinct (map lf_addr (pm_tasks s')) \<and>
    (\<forall>i a. hget (pm_processes s') i = Some a \<longrightarrow>
       proc_id (mp_record (pm_heap s' ! a)) = i \<and>
       (proc_status (mp_record (pm_heap s' ! a)) = ''running'' \<longleftrightarrow> a \<in> lf_addr ` set (pm_tasks s')) \<and>
       (\<forall>st. bytes_of st (pm_heap s' ! a) \<le> pc_max_output_bytes cfg \<and>
         (truncated_of st (pm_heap s' ! a) \<longrightarrow> bytes_of st (pm_heap s' ! a) = pc_max_output_bytes cfg)))"
proof -
  obtain mx s0 where "adopting [] mx s0" "s = s0\<lparr>pm_next_process := of_nat mx + 1\<rparr>" "pm_config s = cfg"
    using process_manager_new_run [OF assms(1)] .
  then have start: "pm_ok s" "pm_config s = cfg" by (simp_all add: adopting_def)
  have inv: "pm_ok s' \<and> pm_config s' = cfg"
    using assms(2)
  proof (induction rule: rtranclp_induct)
    case base
    then show ?case using start by simp
  next
    case (step y z)
    then show ?case using step_ok step_config by metis
  qed
  have running: "proc_status (mp_record mp) = ''running'' \<longleftrightarrow> p \<noteq> None" if "object_ok p mp" for p mp
    using that by (cases "(p, mp)" rule: object_ok.cases) auto
  have "a < length (pm_heap s') \<and> proc_id (mp_record (pm_heap s' ! a)) = i" if "hget (pm_processes s') i = Some a" for i a
    using inv that by (simp add: pm_ok_def table_ok_def)
  moreover have "object_ok (phase_at s' a) (pm_heap s' ! a)" "output_ok cfg (pm_heap s' ! a)" if "a < length (pm_heap s')" for a
    using inv that by (auto simp: pm_ok_def heap_ok_def)
  ultimately have "proc_id (mp_record (pm_heap s' ! a)) = i \<and>
      (proc_status (mp_record (pm_heap s' ! a)) = ''running'' \<longleftrightarrow> a \<in> lf_addr ` set (pm_tasks s')) \<and>
      (\<forall>st. bytes_of st (pm_heap s' ! a) \<le> pc_max_output_bytes cfg \<and>
         (truncated_of st (pm_heap s' ! a) \<longrightarrow> bytes_of st (pm_heap s' ! a) = pc_max_output_bytes cfg))"
    if "hget (pm_processes s') i = Some a" for i a
    using that running phase_task [of s' a] unfolding output_ok_def by blast
  moreover have "length (pm_tasks s') \<le> permits (pm_config s')" "distinct (map lf_addr (pm_tasks s'))" "pm_config s' = cfg"
    using inv by (auto simp: pm_ok_def tasks_ok_def)
  ultimately show ?thesis by (simp add: permits_def)
qed

text \<open>A manager with room for one process whose programs all start.\<close>

definition sample_config :: pm_config where
  "sample_config = \<lparr>pc_enabled = True, pc_max_concurrent = 1, pc_default_timeout_ms = 1000, pc_max_output_bytes = 4,
     pc_allow_shell = True, pc_retention_ms = 0, pc_sample_bytes = 1024, pc_log_dir = ''logs''\<rparr>"

definition sample_env :: runtime_env where
  "sample_env = \<lparr>env_db = empty_db, env_faults = (\<lambda>_. None), env_store_ops = 0, env_clock = (\<lambda>n. 2000 + int n), env_clock_reads = 0\<rparr>"

definition sample_pm :: process_manager where
  "sample_pm = (pm_empty sample_env sample_config [] (\<lambda>n argv cwd. Inr (Some (int n))))\<lparr>env_store_ops := 1\<rparr>"

definition sample_run :: process_run_request where
  "sample_run = \<lparr>prr_caller = Some ''s1'', prr_tool_call_id = None, prr_command = ''ls'', prr_cwd = None, prr_timeout_ms = None\<rparr>"

lemma sample_pm_started:
  "process_manager_new sample_env sample_config None [] (\<lambda>n argv cwd. Inr (Some (int n))) = Inr sample_pm"
  by (simp add: process_manager_new_def sample_pm_def pm_empty_def runtime_env.extend_def runtime_env.truncate_def sample_env_def
      bindE_def store_call_def Let_def hydrate_runtime_state_def select_processes_def empty_db_def ok_def)

theorem process_limits_hold_witness:
  "\<exists>s'. process_step sample_pm s' \<and> run_process sample_run sample_pm = Some (fst (run_admitted sample_run ''ls'' sample_pm), s') \<and>
    length (pm_tasks s') \<le> 1"
proof -
  let ?s = "snd (run_admitted sample_run ''ls'' sample_pm)"
  have "trim ''ls'' = ''ls''" by (simp add: text_eval)
  then have run: "run_process sample_run sample_pm = Some (fst (run_admitted sample_run ''ls'' sample_pm), ?s)"
    by (simp add: run_process_def Let_def sample_run_def sample_pm_def pm_empty_def runtime_env.extend_def sample_config_def permits_def)
  then have step: "process_step sample_pm ?s" by (rule process_step.run)
  have "length (pm_tasks ?s) \<le> 1"
    using process_limits_hold [OF sample_pm_started r_into_rtranclp [of process_step, OF step]] by (simp add: sample_config_def)
  then show ?thesis using step run by blast
qed

section \<open>Restart\<close>


definition crashed_env :: runtime_env where
  "crashed_env = sample_env\<lparr>env_db := empty_db\<lparr>db_processes := [started_record sample_config sample_run ''proc_7'' ''ls'' None (Some 1) 5]\<rparr>\<rparr>"


section \<open>Output\<close>

text \<open>A pump that reads these chunks one after the other, every write going through.\<close>

fun pump_all :: "nat \<Rightarrow> stream \<Rightarrow> string list \<Rightarrow> 'z process_manager_scheme \<Rightarrow> 'z process_manager_scheme" where
  "pump_all a st [] s = s"
| "pump_all a st (c # cs) s = pump_all a st cs (snd (pump_chunk a st c (length c) s))"

definition pumping :: "nat \<Rightarrow> stream \<Rightarrow> string \<Rightarrow> 'z process_manager_scheme \<Rightarrow> bool" where
  "pumping a st path s \<longleftrightarrow> a < length (pm_heap s) \<and>
     (\<exists>run p. running_at a s = Some run \<and> pump_of st run = Some p \<and> pu_path p = path)"

text \<open>The bytes captured of a stream so far.\<close>

definition log_bytes :: "string \<Rightarrow> 'z process_manager_scheme \<Rightarrow> string" where
  "log_bytes path s = (case hget (pm_files s) path of None \<Rightarrow> [] | Some b \<Rightarrow> b)"

lemma pump_set [simp]: "pump_of st (set_pump st p run) = p"
  by (cases st) simp_all

lemma phase_view: "pview s' = pview s \<Longrightarrow> phase_at s' = phase_at s"
  by (simp add: fun_eq_iff phase_at_def task_at_def pviewD [of s' s])

lemma count_bytes_of [simp]:
  "bytes_of st (count_bytes st n over mp) = bytes_of st mp + n" "truncated_of st (count_bytes st n over mp) \<longleftrightarrow> over \<or> truncated_of st mp"
  by (cases st; simp)+

lemma chunk_effect:
  assumes "pumping a st path s"
    and n: "n = min (pc_max_output_bytes (pm_config s) - bytes_of st (pm_heap s ! a)) (length chunk)"
    and t: "t = snd (pump_chunk a st chunk (length chunk) s)"
  shows "pumping a st path t \<and> pm_config t = pm_config s \<and> log_bytes path t = log_bytes path s @ take n chunk \<and>
    bytes_of st (pm_heap t ! a) = bytes_of st (pm_heap s ! a) + n \<and>
    (truncated_of st (pm_heap t ! a) \<longleftrightarrow> n < length chunk \<or> truncated_of st (pm_heap s ! a))"
proof -
  obtain run p where run: "running_at a s = Some run" "pump_of st run = Some p" and path: "pu_path p = path"
    and a: "a < length (pm_heap s)" using assms(1) by (auto simp: pumping_def)
  let ?s = "s\<lparr>pm_heap := (pm_heap s)[a := count_bytes st n (n < length chunk) (pm_heap s ! a)],
      pm_files := (if n > 0 then append_file (pu_path p) (take (length chunk) (take n chunk)) (pm_files s) else pm_files s)\<rparr>"
  obtain p' where p': "pu_path p' = path" and v: "pview t = pview (set_phase a (set_pump st (Some p') run) ?s)"
    using chunk_run [OF run n, of "length chunk"] path t by metis
  have "phase_at t a = Some (Running (set_pump st (Some p') run))"
    using run(1) unfolding phase_view [OF v] running_phase by (simp add: phase_at_steps)
  then have r: "running_at a t = Some (set_pump st (Some p') run)" by (simp add: running_phase)
  have f: "pm_heap t = pm_heap ?s" "pm_files t = pm_files ?s" "pm_config t = pm_config s" using pviewD [OF v] by (simp_all add: set_phase_def)
  have "log_bytes path t = log_bytes path s @ take n chunk"
    using n path by (cases "n = 0") (auto simp: log_bytes_def f append_file_def split: option.splits)
  then show ?thesis using a r p' f by (auto simp: pumping_def)
qed

text \<open>C32: A log file holds the first bytes of the stream, up to the limit. However the output arrives in
  chunks, when every write goes through, the file has grown by exactly the first
  \<open>max_output_bytes_per_process\<close> bytes of what was read, the byte counter is the number of bytes
  kept, and the truncation flag is set exactly when something was dropped.\<close>

theorem log_keeps_first_bytes:
  assumes "pumping a st path s" and "bytes_of st (pm_heap s ! a) = 0" and "\<not> truncated_of st (pm_heap s ! a)"
  shows "let limit = pc_max_output_bytes (pm_config s); s' = pump_all a st chunks s in
    log_bytes path s' = log_bytes path s @ take limit (concat chunks) \<and>
    bytes_of st (pm_heap s' ! a) = min limit (length (concat chunks)) \<and>
    (truncated_of st (pm_heap s' ! a) \<longleftrightarrow> limit < length (concat chunks))"
proof -
  have "log_bytes path (pump_all a st chunks s) = log_bytes path s @ take (pc_max_output_bytes (pm_config s) - bytes_of st (pm_heap s ! a)) (concat chunks) \<and>
    bytes_of st (pm_heap (pump_all a st chunks s) ! a) = min (pc_max_output_bytes (pm_config s)) (bytes_of st (pm_heap s ! a) + length (concat chunks)) \<and>
    (truncated_of st (pm_heap (pump_all a st chunks s) ! a) \<longleftrightarrow>
       truncated_of st (pm_heap s ! a) \<or> pc_max_output_bytes (pm_config s) < bytes_of st (pm_heap s ! a) + length (concat chunks))"
    if "pumping a st path s" and "bytes_of st (pm_heap s ! a) \<le> pc_max_output_bytes (pm_config s)" for s :: "'a process_manager_scheme"
    using that
  proof (induction chunks arbitrary: s)
    case Nil
    then show ?case by simp
  next
    case (Cons c cs)
    let ?t = "snd (pump_chunk a st c (length c) s)" and ?limit = "pc_max_output_bytes (pm_config s)"
    let ?used = "bytes_of st (pm_heap s ! a)"
    note one = chunk_effect [OF Cons.prems(1) refl refl, of c]
    have "bytes_of st (pm_heap ?t ! a) \<le> pc_max_output_bytes (pm_config ?t)" using one Cons.prems(2) by auto
    with Cons.IH [of ?t] one have rest: "log_bytes path (pump_all a st cs ?t) = log_bytes path ?t @ take (?limit - bytes_of st (pm_heap ?t ! a)) (concat cs)"
      "bytes_of st (pm_heap (pump_all a st cs ?t) ! a) = min ?limit (bytes_of st (pm_heap ?t ! a) + length (concat cs))"
      "truncated_of st (pm_heap (pump_all a st cs ?t) ! a) \<longleftrightarrow> truncated_of st (pm_heap ?t ! a) \<or> ?limit < bytes_of st (pm_heap ?t ! a) + length (concat cs)"
      by auto
    have "take (min (?limit - ?used) (length c)) c @ take (?limit - (?used + min (?limit - ?used) (length c))) (concat cs) =
        take (?limit - ?used) (c @ concat cs)" by (auto simp: min_def)
    then show ?case using one rest Cons.prems(2) by (auto simp: min_def)
  qed
  from this [of s] show ?thesis using assms by (simp add: Let_def)
qed

text \<open>The sample manager while its process prints.\<close>

definition printing_pm :: process_manager where
  "printing_pm = sample_pm\<lparr>pm_heap := [managed_new (started_record sample_config sample_run ''proc_1'' ''ls'' None None 0) None],
     pm_processes := [(''proc_1'', 0)],
     pm_tasks := [\<lparr>lf_addr = 0, lf_phase = Running \<lparr>lr_child = \<lparr>ch_handle = 0, ch_pid = None\<rparr>, lr_id = ''proc_1'', lr_session = Some ''s1'',
       lr_timeout = 1000, lr_stdout = Some \<lparr>pu_path = ''out'', pu_budget = 0\<rparr>, lr_stderr = None,
       lr_wait = Some (Waited (Some 0) None)\<rparr>\<rparr>]\<rparr>"

lemma printing_facts: "pumping 0 Stdout ''out'' printing_pm" "pm_config printing_pm = sample_config" "pm_files printing_pm = []"
  "pm_heap printing_pm ! 0 = managed_new (started_record sample_config sample_run ''proc_1'' ''ls'' None None 0) None"
  "hget (pm_processes printing_pm) ''proc_1'' = Some 0"
  by (simp_all add: pumping_def printing_pm_def running_at_def task_at_def sample_pm_def pm_empty_def runtime_env.extend_def hget_def)

theorem log_keeps_first_bytes_witness:
  "log_bytes ''out'' (pump_all 0 Stdout [''abc'', ''def''] printing_pm) = ''abcd'' \<and>
    truncated_of Stdout (pm_heap (pump_all 0 Stdout [''abc'', ''def''] printing_pm) ! 0)"
  using log_keeps_first_bytes [OF printing_facts(1), of "[''abc'', ''def'']"]
  by (simp add: printing_facts Let_def managed_new_def log_bytes_def sample_config_def hget_def)

section \<open>The end of a process\<close>

lemma remove_one_key: "distinct (map f xs) \<Longrightarrow> k \<in> f ` set xs \<Longrightarrow> Suc (length (filter (\<lambda>x. f x \<noteq> k) xs)) = length xs"
proof (induction xs)
  case Nil
  then show ?case by simp
next
  case (Cons x xs)
  show ?case
  proof (cases "f x = k")
    case True
    then have "\<forall>y \<in> set xs. f y \<noteq> k" using Cons.prems(1) by (metis distinct.simps(2) image_eqI list.set_map list.simps(9))
    then have "filter (\<lambda>x. f x \<noteq> k) xs = xs" by (simp add: filter_id_conv)
    then show ?thesis using True by simp
  next
    case False
    then show ?thesis using Cons by auto
  qed
qed

text \<open>C31: A process that has ended is settled. Once its output is drained, the lifecycle records how the
  process ended (a timeout before a kill request before the exit code), and it gives the permit
  back: the next waiting command is admitted at once. Until then the record stays as it was.\<close>

theorem finished_process_is_settled:
  assumes ok: "pm_ok s" and run: "running_at a s = Some run" and w: "lr_wait run = Some w"
  shows "let s' = snd (lifecycle_finish a s); r = mp_record (pm_heap s ! a); r' = mp_record (pm_heap s' ! a) in
    if lr_stdout run \<noteq> None \<or> lr_stderr run \<noteq> None then s' = s
    else proc_status r' = (case w of WaitFailed _ \<Rightarrow> ''failed''
           | Waited code _ \<Rightarrow> if mp_timed_out (pm_heap s ! a) then ''timed_out'' else if mp_kill_requested (pm_heap s ! a) then ''killed''
               else if code = Some 0 then ''completed'' else ''failed'') \<and>
      proc_exit_code r' = (case w of Waited code _ \<Rightarrow> code | WaitFailed _ \<Rightarrow> None) \<and> proc_ended_at r' \<noteq> None \<and>
      proc_id r' = proc_id r \<and> proc_session_id r' = proc_session_id r \<and> proc_command r' = proc_command r \<and>
      Suc (length (pm_tasks s')) = length (pm_tasks s) \<and> phase_at s' a = None \<and>
      (\<forall>req. pc_enabled (pm_config s) \<and> trim (prr_command req) \<noteq> [] \<longrightarrow> run_process req s' \<noteq> None)"
proof (cases "lr_stdout run \<noteq> None \<or> lr_stderr run \<noteq> None")
  case True
  then show ?thesis using run w by (simp add: lifecycle_finish_def monad_simps Let_def ok_def)
next
  case False
  note phase = run [unfolded running_phase]
  note obj = object_at [OF ok phase]
  let ?mp = "pm_heap s ! a" and ?s' = "snd (lifecycle_finish a s)"
  let ?rec = "\<lambda>now. (mp_record ?mp)\<lparr>proc_status := fst (outcome_of ?mp w), proc_exit_code := fst (snd (outcome_of ?mp w)),
        proc_signal := snd (snd (outcome_of ?mp w)), proc_ended_at := Some now\<rparr>"
  obtain now where v: "pview ?s' = pview (drop_task a (s\<lparr>pm_heap := (pm_heap s)[a := ?mp\<lparr>mp_record := ?rec now\<rparr>]\<rparr>))"
    using finish_run [OF run _ _ w] False by auto
  have rec: "mp_record (pm_heap ?s' ! a) = ?rec now" using pviewD(3)[OF v] obj(1) by (simp add: drop_task_def)
  have tasks: "pm_tasks ?s' = filter (\<lambda>t. lf_addr t \<noteq> a) (pm_tasks s)" "pm_config ?s' = pm_config s"
    using pviewD [OF v] by (simp_all add: drop_task_def)
  have dist: "distinct (map lf_addr (pm_tasks s))" "length (pm_tasks s) \<le> permits (pm_config s)" using ok by (auto simp: pm_ok_def tasks_ok_def)
  have "a \<in> lf_addr ` set (pm_tasks s)" using phase_task [of s a] phase by simp
  then have count: "Suc (length (pm_tasks ?s')) = length (pm_tasks s)"
    using remove_one_key [OF dist(1)] tasks(1) by simp
  then have room: "length (pm_tasks ?s') < permits (pm_config ?s')" using dist(2) tasks(2) by simp
  have out: "fst (outcome_of ?mp w) = (case w of WaitFailed _ \<Rightarrow> ''failed''
       | Waited code _ \<Rightarrow> if mp_timed_out ?mp then ''timed_out'' else if mp_kill_requested ?mp then ''killed''
           else if code = Some 0 then ''completed'' else ''failed'')"
    "fst (snd (outcome_of ?mp w)) = (case w of Waited code _ \<Rightarrow> code | WaitFailed _ \<Rightarrow> None)"
    by (simp_all add: outcome_of_def split: wait_result.splits)
  have "phase_at ?s' a = None" unfolding phase_view [OF v] by (simp add: phase_at_steps)
  moreover have "run_process req ?s' \<noteq> None" for req using room by (simp add: run_process_def Let_def)
  ultimately show ?thesis unfolding Let_def if_not_P [OF False] rec using out count by simp
qed

definition drained_pm :: process_manager where
  "drained_pm = pump_end 0 Stdout printing_pm"

lemma drained_facts: "pm_ok drained_pm"
  "running_at 0 drained_pm = Some \<lparr>lr_child = \<lparr>ch_handle = 0, ch_pid = None\<rparr>, lr_id = ''proc_1'', lr_session = Some ''s1'',
     lr_timeout = 1000, lr_stdout = None, lr_stderr = None, lr_wait = Some (Waited (Some 0) None)\<rparr>"
  "pm_heap drained_pm ! 0 = managed_new (started_record sample_config sample_run ''proc_1'' ''ls'' None None 0) None"
  "hget (pm_processes drained_pm) ''proc_1'' = Some 0"
proof -
  have "tasks_ok printing_pm" "table_ok printing_pm"
    by (auto simp: tasks_ok_def table_ok_def printing_pm_def permits_def hget_def managed_new_def started_record_def split: if_splits)
  moreover have "heap_ok printing_pm"
  proof -
    have "output_ok (pm_config printing_pm) (pm_heap printing_pm ! 0)" unfolding printing_facts(4) by (rule new_output_ok)
    moreover have "object_ok (phase_at printing_pm 0) (pm_heap printing_pm ! 0)" "length (pm_heap printing_pm) = 1"
      by (simp_all add: printing_pm_def phase_at_def task_at_def managed_new_def started_record_def)
    ultimately show ?thesis by (simp add: heap_ok_def)
  qed
  ultimately have "pm_ok printing_pm" by (simp add: pm_ok_def)
  then show "pm_ok drained_pm" unfolding drained_pm_def by (rule pump_end_ok)
qed (simp_all add: drained_pm_def pump_end_def set_phase_def running_at_def task_at_def printing_pm_def hget_def)

theorem finished_process_is_settled_witness:
  "pm_ok drained_pm \<and> proc_status (mp_record (pm_heap (snd (lifecycle_finish 0 drained_pm)) ! 0)) = ''completed''"
  using finished_process_is_settled [OF drained_facts(1,2), of "Waited (Some 0) None"] drained_facts(1)
  by (simp add: Let_def drained_facts(3) managed_new_def)

section \<open>Who may see a process\<close>

text \<open>C34: A session cannot reach the process of another. Asked by a caller that did not start the process,
  every handler that takes a process id is refused with the same error and changes nothing, and the
  caller's listing does not show the process.\<close>

theorem foreign_process_hidden:
  assumes "hget (pm_processes s) pid = Some a" and "proc_session_id (mp_record (pm_heap s ! a)) \<noteq> Some caller"
  shows "let refused = InvalidState (''process '' @ proc_id (mp_record (pm_heap s ! a)) @ '' belongs to a different session'') in
    get_process pid (Some caller) s = (Inl refused, s) \<and> kill_process pid (Some caller) reason s = (Inl refused, s) \<and>
    replay_process_events pid (Some caller) after limit s = (Inl refused, s) \<and>
    (lgr_process_id lreq = pid \<and> lgr_caller lreq = Some caller \<longrightarrow> read_process_logs lreq s = (Inl refused, s)) \<and>
    \<not> listed (Some caller) all (mp_record (pm_heap s ! a))"
  using assms
  by (simp add: get_process_def kill_process_def replay_process_events_def read_process_logs_def handler_simps listed_def Let_def)

theorem foreign_process_hidden_witness:
  "kill_process ''proc_1'' (Some ''s2'') None printing_pm = (Inl (InvalidState ''process proc_1 belongs to a different session''), printing_pm)"
proof -
  have "proc_session_id (mp_record (pm_heap printing_pm ! 0)) \<noteq> Some ''s2''" "proc_id (mp_record (pm_heap printing_pm ! 0)) = ''proc_1''"
    by (simp_all add: printing_facts managed_new_def started_record_def sample_run_def)
  then show ?thesis using foreign_process_hidden [OF printing_facts(5)] by (simp add: Let_def)
qed

section \<open>Killing\<close>

text \<open>C30: Killing a process reaches it only before its lifecycle task has started. The task takes the child
  out of its slot first thing; from then on \<open>kill_process\<close> answers as if it had worked, but sends no
  signal, emits no event and stores nothing: it only sets the flag that will label the process
  \<open>killed\<close> when it ends on its own or times out. Before that it does signal the child.\<close>

theorem kill_misses_running_process:
  assumes ok: "pm_ok s" and found: "hget (pm_processes s) pid = Some a"
    and owner: "caller = None \<or> proc_session_id (mp_record (pm_heap s ! a)) = caller"
  shows "case phase_at s a of
      Some (Running run) \<Rightarrow> kill_process pid caller reason s =
        (Inr (detail_from_process (pm_heap s ! a)), s\<lparr>pm_heap := (pm_heap s)[a := (pm_heap s ! a)\<lparr>mp_kill_requested := True\<rparr>]\<rparr>)
    | Some Starting \<Rightarrow> \<exists>c. mp_child (pm_heap s ! a) = Some c \<and> os_kills (snd (kill_process pid caller reason s)) = os_kills s @ [ch_handle c]
    | None \<Rightarrow> os_kills (snd (kill_process pid caller reason s)) = os_kills s"
proof -
  have a: "a < length (pm_heap s)" using ok found by (auto simp: pm_ok_def table_ok_def)
  then have obj: "object_ok (phase_at s a) (pm_heap s ! a)" using ok by (simp add: pm_ok_def heap_ok_def)
  note kills = pviewD(6)[OF kill_run [OF found owner a, of reason]]
  have same: "detail_from_process ((pm_heap s ! a)\<lparr>mp_kill_requested := True\<rparr>) = detail_from_process (pm_heap s ! a)"
    by (simp add: detail_from_process_def)
  show ?thesis
  proof (cases "phase_at s a")
    case None
    then show ?thesis using obj kills by simp
  next
    case (Some p)
    show ?thesis
    proof (cases p)
      case Starting
      then obtain c where "mp_child (pm_heap s ! a) = Some c" using obj Some by auto
      then show ?thesis using Some Starting kills by simp
    next
      case (Running run)
      then have "mp_child (pm_heap s ! a) = None" using obj Some by simp
      then show ?thesis using Some Running owner found a by (auto simp: kill_process_def handler_simps same)
    qed
  qed
qed

theorem kill_misses_running_process_witness:
  "\<exists>s. kill_process ''proc_1'' (Some ''s1'') None drained_pm = (Inr (detail_from_process (pm_heap drained_pm ! 0)), s) \<and>
    os_kills s = os_kills drained_pm \<and> phase_at s 0 = phase_at drained_pm 0"
proof -
  have "hget (pm_processes drained_pm) ''proc_1'' = Some 0" "proc_session_id (mp_record (pm_heap drained_pm ! 0)) = Some ''s1''"
    by (simp_all add: drained_facts managed_new_def started_record_def sample_run_def)
  then show ?thesis
    using kill_misses_running_process [OF drained_facts(1), of "''proc_1''" 0 "Some ''s1''" None] drained_facts(2)
    by (simp add: running_phase)
qed

section \<open>Reading logs\<close>



text \<open>Cutting to \<open>max_bytes\<close> may split a character; each byte of the rest becomes a three byte replacement
  character, so the content can be longer than the limit.\<close>

lemma byte_limit_exceeded: "length (fst (keep_last_bytes (Some 2) ([CHR 0xE2, CHR 0x82, CHR 0xAC], False))) = 6"
  by code_simp

end
