(* ===== verification/Worktree_State.thy ===== *)
theory Worktree_State
  imports Team_Service Text_Streams
begin

text \<open>
  State and helpers of the worktree service (\<open>runtime-tools/src/worktree/mod.rs\<close>, \<open>core.rs\<close>). The
  service holds the store, the session manager and the team service, so its state extends theirs.

  Git, the init script and the file system are outside the runtime: what the \<open>n\<close>-th question to the
  operating system answers is the state's \<open>os_exec\<close>, \<open>os_exists\<close> or \<open>os_mkdir\<close> at \<open>n\<close>, arbitrary
  functions, and \<open>os_log\<close> is the list of the questions asked so far. The per-repository mutexes of
  \<open>lock_for_repo\<close> order concurrent handlers; handlers here run one after the other, so they carry no
  state.
\<close>

section \<open>State (mod.rs, lib.rs)\<close>

record ws_config =
  wc_enabled :: bool
  wc_root_dir :: string
  wc_init_script_path :: string
  wc_deletion_policy_default :: string

text \<open>
  What a command that ran gives back: its exit code (none when a signal ended it), how its
  \<open>ExitStatus\<close> prints, and its output.
\<close>

record cmd_output =
  co_code :: "int option"
  co_status :: string
  co_stdout :: string
  co_stderr :: string

definition status_success :: "cmd_output \<Rightarrow> bool" where
  "status_success o' \<longleftrightarrow> co_code o' = Some 0"

text \<open>\<open>git -C dir args\<close>, and \<open>sh -lc command\<close> in a directory.\<close>

datatype os_command = Git string "string list" | Shell string string

datatype os_action = Exec os_command | PathExists string | CreateDirAll string

record 'p worktrees = "'p comms" +
  ws_config :: ws_config
  ws_next_worktree :: "64 word"
  ws_next_operation :: "64 word"
  ws_next_event :: "64 word"
  ws_nonce :: string
  os_exec :: "nat \<Rightarrow> os_command \<Rightarrow> string + cmd_output"
  os_exists :: "nat \<Rightarrow> string \<Rightarrow> bool"
  os_mkdir :: "nat \<Rightarrow> string \<Rightarrow> string option"
  os_log :: "os_action list"

definition run_command :: "os_command \<Rightarrow> (('p, 'z) worktrees_scheme, 'e, string + cmd_output) rt" where
  "run_command c s = (Inr (os_exec s (length (os_log s)) c), s\<lparr>os_log := os_log s @ [Exec c]\<rparr>)"

definition path_exists :: "string \<Rightarrow> (('p, 'z) worktrees_scheme, 'e, bool) rt" where
  "path_exists p s = (Inr (os_exists s (length (os_log s)) p), s\<lparr>os_log := os_log s @ [PathExists p]\<rparr>)"

definition create_dir_all :: "string \<Rightarrow> (('p, 'z) worktrees_scheme, 'e, string option) rt" where
  "create_dir_all p s = (Inr (os_mkdir s (length (os_log s)) p), s\<lparr>os_log := os_log s @ [CreateDirAll p]\<rparr>)"

definition hydrate :: "('z runtime_env_scheme, runtime_error, hydrated_state) rt" where
  "hydrate = store_call (\<lambda>db. Inr (hydrate_runtime_state db, db))"

record planned_paths =
  pl_repo_root :: string
  pl_worktree_root :: string
  pl_worktree_cwd :: string
  pl_branch_name :: string
  pl_worktree_name :: string
  pl_unified_path :: string

definition ensure_worktrees_enabled :: "(('p, 'z) worktrees_scheme, runtime_error, unit) rt" where
  "ensure_worktrees_enabled =
     bindE (gets (\<lambda>s. wc_enabled (ws_config s))) (\<lambda>enabled.
     if enabled then ok () else err (Unsupported ''managed worktrees are disabled''))"

section \<open>Ids, policies and events (core.rs)\<close>

definition allocate_worktree_id :: "(('p, 'z) worktrees_scheme, 'e, string) rt" where
  "allocate_worktree_id s =
     (Inr (''wt_'' @ dec_of_nat (unat (ws_next_worktree s))), s\<lparr>ws_next_worktree := ws_next_worktree s + 1\<rparr>)"

definition allocate_operation_id :: "(('p, 'z) worktrees_scheme, 'e, string) rt" where
  "allocate_operation_id s =
     (Inr (''op_spawn_'' @ dec_of_nat (unat (ws_next_operation s))), s\<lparr>ws_next_operation := ws_next_operation s + 1\<rparr>)"

definition normalize_deletion_policy :: "ws_config \<Rightarrow> string option \<Rightarrow> string" where
  "normalize_deletion_policy cfg requested =
     (let policy = to_ascii_lowercase
            (case non_empty_trimmed requested of None \<Rightarrow> wc_deletion_policy_default cfg | Some p \<Rightarrow> p) in
      if policy = ''delete_on_last_claim'' then ''delete_on_last_claim'' else ''retain_on_last_claim'')"

definition append_worktree_event ::
  "string \<Rightarrow> string \<Rightarrow> json \<Rightarrow> string option \<Rightarrow> string option \<Rightarrow> (('p, 'z) worktrees_scheme, runtime_error, unit) rt" where
  "append_worktree_event wid kind payload session team =
     bindE (gets (\<lambda>s. (ws_nonce s, ws_next_event s))) (\<lambda>(nonce, n).
     bindE (modify (\<lambda>s. s\<lparr>ws_next_event := n + 1\<rparr>)) (\<lambda>_.
     bindE now_ms (\<lambda>now.
     ignore (store_call (db_append_runtime_event
       \<lparr>ne_event_id = ''evt_worktree_'' @ wid @ ''_'' @ nonce @ ''_'' @ dec_of_nat (unat n), ne_scope = ScopeWorktree,
        ne_scope_id = wid, ne_session_id = session, ne_team_id = team, ne_turn_id = None, ne_kind = kind,
        ne_criticality = Critical, ne_payload = payload, ne_provider = None, ne_provider_seq = None,
        ne_created_at = now\<rparr>)))))"

definition append_diagnostic ::
  "string option \<Rightarrow> string option \<Rightarrow> string \<Rightarrow> string \<Rightarrow> json \<Rightarrow> ('z runtime_env_scheme, runtime_error, diagnostic_record) rt" where
  "append_diagnostic op team code message payload =
     bindE now_ms (\<lambda>now. store_call (db_append_diagnostic op team code message payload now))"

section \<open>Paths (core.rs)\<close>

definition is_ascii_alphanumeric :: "char \<Rightarrow> bool" where
  "is_ascii_alphanumeric c \<longleftrightarrow>
     (let n = of_char c :: nat in (48 \<le> n \<and> n \<le> 57) \<or> (65 \<le> n \<and> n \<le> 90) \<or> (97 \<le> n \<and> n \<le> 122))"

text \<open>
  The loop over \<open>repo_root.chars()\<close>, byte by byte: a continuation byte belongs to the character
  before it, which has been translated already.
\<close>

fun unified_from :: "bool \<Rightarrow> string \<Rightarrow> string" where
  "unified_from prev_sep [] = []"
| "unified_from prev_sep (c # cs) =
     (if c = CHR ''/'' \<or> c = CHR 0x5C then (if prev_sep then [] else ''__'') @ unified_from True cs
      else if 128 \<le> (of_char c :: nat) \<and> (of_char c :: nat) < 192 then unified_from prev_sep cs
      else if is_ascii_alphanumeric c \<or> c \<in> {CHR ''-'', CHR ''_'', CHR ''.''} then c # unified_from False cs
      else CHR ''_'' # unified_from False cs)"

definition trim_matches :: "char \<Rightarrow> string \<Rightarrow> string" where
  "trim_matches c s = rev (dropWhile (\<lambda>x. x = c) (rev (dropWhile (\<lambda>x. x = c) s)))"

definition derive_unified_workspace_path :: "string \<Rightarrow> string" where
  "derive_unified_workspace_path repo_root =
     (let trimmed = trim_matches (CHR ''_'') (unified_from False repo_root)
      in if trimmed = [] then ''workspace'' else trimmed)"

definition replace_char :: "char \<Rightarrow> string \<Rightarrow> string \<Rightarrow> string" where
  "replace_char c with s = concat (map (\<lambda>x. if x = c then with else [x]) s)"

definition plan_worktree_paths :: "ws_config \<Rightarrow> string \<Rightarrow> string \<Rightarrow> string option \<Rightarrow> planned_paths" where
  "plan_worktree_paths cfg repo_root name branch_prefix =
     (let prefix = (case non_empty_trimmed branch_prefix of None \<Rightarrow> ''gg'' | Some p \<Rightarrow> p);
          branch = prefix @ ''/'' @ trim name;
          unified = derive_unified_workspace_path repo_root;
          root = path_join (wc_root_dir cfg) unified in
      \<lparr>pl_repo_root = trim repo_root, pl_worktree_root = root,
       pl_worktree_cwd = path_join root (replace_char (CHR ''/'') ''--'' branch), pl_branch_name = branch,
       pl_worktree_name = trim name, pl_unified_path = unified\<rparr>)"

section \<open>Git and the init script (core.rs)\<close>

definition resolve_repo_root_from_source_cwd :: "string \<Rightarrow> (('p, 'z) worktrees_scheme, runtime_error, string) rt" where
  "resolve_repo_root_from_source_cwd cwd =
     bindE (run_command (Git cwd [''rev-parse'', ''--show-toplevel''])) (\<lambda>r.
     case r of
       Inl e \<Rightarrow> err (Io (''failed to run git rev-parse: '' @ e))
     | Inr out \<Rightarrow>
         if \<not> status_success out
         then err (InvalidState ''source session cwd is not inside a git repository'')
         else
         let root = trim (from_utf8_lossy (co_stdout out)) in
         if root = [] then err (InvalidState ''unable to resolve git repository root'') else ok root)"

text \<open>The result is \<open>(stdout, stderr, exit_code)\<close>.\<close>

definition run_git_for_repo ::
  "string \<Rightarrow> string list \<Rightarrow> int list \<Rightarrow> (('p, 'z) worktrees_scheme, runtime_error, string \<times> string \<times> int) rt" where
  "run_git_for_repo repo args allowed =
     bindE (run_command (Git repo args)) (\<lambda>r.
     case r of
       Inl e \<Rightarrow> err (Io (''failed to run git '' @ join '' '' args @ '': '' @ e))
     | Inr out \<Rightarrow>
         let code = (case co_code out of None \<Rightarrow> - 1 | Some c \<Rightarrow> c) in
         if \<not> status_success out \<and> code \<notin> set allowed
         then
           let stderr = trim (from_utf8_lossy (co_stderr out)) in
           err (Io (if stderr = []
                    then ''git '' @ join '' '' args @ '' failed with status '' @ co_status out
                    else ''git '' @ join '' '' args @ '' failed: '' @ stderr))
         else ok (from_utf8_lossy (co_stdout out), from_utf8_lossy (co_stderr out), code))"

definition run_worktree_init_script :: "string \<Rightarrow> (('p, 'z) worktrees_scheme, runtime_error, string) rt" where
  "run_worktree_init_script cwd =
     bindE (gets (\<lambda>s. wc_init_script_path (ws_config s))) (\<lambda>configured.
     bindE (path_exists (if starts_with configured ''/'' then configured else path_join cwd configured)) (\<lambda>there.
     if \<not> there then ok ''skipped_missing''
     else
     bindE (run_command (Shell (if starts_with configured ''/'' then configured else ''./'' @ configured) cwd)) (\<lambda>r.
     case r of
       Inl e \<Rightarrow> err (Io (''failed to run worktree init script: '' @ e))
     | Inr out \<Rightarrow>
         if status_success out then ok ''succeeded''
         else
         let stderr = trim (from_utf8_lossy (co_stderr out)) in
         err (InvalidState (if stderr = [] then ''worktree init script failed''
                            else ''worktree init script failed: '' @ stderr)))))"

section \<open>Records and claims (core.rs)\<close>

definition tombstone_prefix :: string where
  "tombstone_prefix = ''__gg_tombstoned__/''"

definition is_record_tombstoned :: "worktree_record \<Rightarrow> bool" where
  "is_record_tombstoned r \<longleftrightarrow>
     starts_with (wt_repo_root r) tombstone_prefix \<or> starts_with (wt_cwd r) tombstone_prefix \<or>
     starts_with (wt_branch_name r) tombstone_prefix"

definition worktree_by_identity :: "hydrated_state \<Rightarrow> planned_paths \<Rightarrow> worktree_record option" where
  "worktree_by_identity h planned =
     find (\<lambda>r. \<not> is_record_tombstoned r \<and> wt_repo_root r = pl_repo_root planned \<and>
               wt_cwd r = pl_worktree_cwd planned \<and> wt_branch_name r = pl_branch_name planned)
       (hyd_worktrees h)"

definition planned_record ::
  "string \<Rightarrow> planned_paths \<Rightarrow> string \<Rightarrow> string option \<Rightarrow> string option \<Rightarrow> int \<Rightarrow> worktree_record" where
  "planned_record wid planned policy by_session by_operation now =
     \<lparr>wt_id = wid, wt_repo_root = pl_repo_root planned, wt_root = pl_worktree_root planned,
      wt_cwd = pl_worktree_cwd planned, wt_branch_name = pl_branch_name planned, wt_name = pl_worktree_name planned,
      wt_unified_path = pl_unified_path planned, wt_deletion_policy = policy, wt_created_by_session = by_session,
      wt_created_by_operation = by_operation, wt_created_at = now, wt_updated_at = now\<rparr>"

definition upsert_worktree_record ::
  "string \<Rightarrow> planned_paths \<Rightarrow> string \<Rightarrow> string option \<Rightarrow> string option \<Rightarrow>
   ('z runtime_env_scheme, runtime_error, worktree_record) rt" where
  "upsert_worktree_record wid planned policy by_session by_operation =
     bindE now_ms (\<lambda>now.
     bindE (store_write (WWorktree (planned_record wid planned policy by_session by_operation now))) (\<lambda>_.
     bindE hydrate (\<lambda>h.
     ok_or_else (worktree_by_identity h planned)
       (InvalidState (''managed worktree logical upsert did not persist identity for '' @ pl_worktree_cwd planned)))))"

definition get_worktree_from_hydrated :: "string \<Rightarrow> hydrated_state \<Rightarrow> runtime_error + worktree_record" where
  "get_worktree_from_hydrated wid h =
     (case find (\<lambda>r. wt_id r = wid \<and> \<not> is_record_tombstoned r) (hyd_worktrees h) of
        None \<Rightarrow> Inl (NotFound (''worktree '' @ wid))
      | Some r \<Rightarrow> Inr r)"

definition active_claims_for :: "hydrated_state \<Rightarrow> string \<Rightarrow> worktree_claim_record list" where
  "active_claims_for h wid =
     filter (\<lambda>c. claim_worktree_id c = wid \<and> claim_released_at c = None) (hyd_claims h)"

definition show_ref_args :: "string \<Rightarrow> string list" where
  "show_ref_args branch = [''show-ref'', ''--verify'', ''--quiet'', ''refs/heads/'' @ branch]"

definition branch_exists_for_record :: "worktree_record \<Rightarrow> (('p, 'z) worktrees_scheme, runtime_error, bool) rt" where
  "branch_exists_for_record r =
     bindE (run_git_for_repo (wt_repo_root r) (show_ref_args (wt_branch_name r)) [1]) (\<lambda>(_, _, code).
     ok (code = 0))"

definition has_live_artifacts_for_record :: "worktree_record \<Rightarrow> (('p, 'z) worktrees_scheme, runtime_error, bool) rt" where
  "has_live_artifacts_for_record r =
     bindE (path_exists (wt_cwd r)) (\<lambda>there.
     if there then ok True
     else
     bindE (attempt (branch_exists_for_record r)) (\<lambda>res.
     ok (case res of Inr present \<Rightarrow> present | Inl _ \<Rightarrow> True)))"

section \<open>Serialized records\<close>

definition worktree_json :: "worktree_record \<Rightarrow> json" where
  "worktree_json w =
     jobject [(''id'', JString (wt_id w)), (''repo_root'', JString (wt_repo_root w)),
       (''worktree_root'', JString (wt_root w)), (''worktree_cwd'', JString (wt_cwd w)),
       (''branch_name'', JString (wt_branch_name w)), (''worktree_name'', JString (wt_name w)),
       (''unified_workspace_path'', JString (wt_unified_path w)), (''deletion_policy'', JString (wt_deletion_policy w)),
       (''created_by_session_id'', jopt JString (wt_created_by_session w)),
       (''created_by_operation_id'', jopt JString (wt_created_by_operation w)),
       (''created_at'', jint (wt_created_at w)), (''updated_at'', jint (wt_updated_at w))]"

definition claim_json :: "worktree_claim_record \<Rightarrow> json" where
  "claim_json c =
     jobject [(''worktree_id'', JString (claim_worktree_id c)), (''session_id'', JString (claim_session_id c)),
       (''claim_role'', JString (claim_role c)), (''created_at'', jint (claim_created_at c)),
       (''released_at'', jopt jint (claim_released_at c))]"

end
