(* ===== verification/Worktree_Repair.thy ===== *)
theory Worktree_Repair
  imports Worktree_State
begin

text \<open>
  Starting the worktree service (\<open>runtime-tools/src/worktree/mod.rs\<close>): \<open>repair_startup_state\<close> brings
  the stored worktrees and claims into shape, \<open>worktrees_new\<close> then sets the id counters. A \<open>BTreeMap\<close>
  is an association list that is read in key order.
\<close>

section \<open>Helpers\<close>

definition btree_keys :: "('k :: linorder, 'v) hmap \<Rightarrow> 'k list" where
  "btree_keys m = sort (hkeys m)"

definition btree_values :: "('k :: linorder, 'v) hmap \<Rightarrow> 'v list" where
  "btree_values m = map snd (sort_key fst m)"

definition tombstone_record :: "worktree_record \<Rightarrow> int \<Rightarrow> worktree_record" where
  "tombstone_record r now =
     (let mark = tombstone_prefix @ wt_id r in
      r\<lparr>wt_repo_root := mark, wt_root := mark, wt_cwd := mark, wt_branch_name := mark,
        wt_name := ''tombstoned-'' @ wt_id r, wt_unified_path := ''tombstoned_'' @ wt_id r,
        wt_deletion_policy := ''retain_on_last_claim'', wt_updated_at := now\<rparr>)"

definition merge_deletion_policy :: "string \<Rightarrow> string \<Rightarrow> string" where
  "merge_deletion_policy left right =
     (if left = ''delete_on_last_claim'' \<or> right = ''delete_on_last_claim''
      then ''delete_on_last_claim'' else ''retain_on_last_claim'')"

definition merge_claim_role :: "string \<Rightarrow> string \<Rightarrow> string" where
  "merge_claim_role left right = (if left = ''owner'' \<or> right = ''owner'' then ''owner'' else ''consumer'')"

fun merge_released_at :: "int option \<Rightarrow> int option \<Rightarrow> int option" where
  "merge_released_at None None = None"
| "merge_released_at (Some v) None = Some v"
| "merge_released_at None (Some v) = Some v"
| "merge_released_at (Some l) (Some r) = Some (min l r)"

section \<open>Worktree records\<close>

definition normalize_record :: "worktree_record \<Rightarrow> worktree_record" where
  "normalize_record r =
     (let repo = trim (wt_repo_root r); root = trim (wt_root r); cwd = trim (wt_cwd r);
          name = trim (wt_name r); unified = trim (wt_unified_path r) in
      r\<lparr>wt_repo_root := repo,
        wt_root := (if root = [] then cwd else root),
        wt_cwd := cwd,
        wt_branch_name := trim (wt_branch_name r),
        wt_name := (if name = [] then wt_id r else name),
        wt_unified_path := (if unified = [] then derive_unified_workspace_path repo else unified)\<rparr>)"

definition malformed :: "worktree_record \<Rightarrow> bool" where
  "malformed r \<longleftrightarrow> wt_repo_root r = [] \<or> wt_cwd r = [] \<or> wt_branch_name r = []"

definition identity_key :: "worktree_record \<Rightarrow> string \<times> string \<times> string" where
  "identity_key r = (wt_repo_root r, wt_cwd r, wt_branch_name r)"

definition merge_into_winner :: "worktree_record \<Rightarrow> worktree_record \<Rightarrow> worktree_record" where
  "merge_into_winner winner r =
     winner\<lparr>wt_deletion_policy := merge_deletion_policy (wt_deletion_policy winner) (wt_deletion_policy r),
            wt_created_at := min (wt_created_at winner) (wt_created_at r),
            wt_updated_at := max (wt_updated_at winner) (wt_updated_at r),
            wt_created_by_session := or_else (wt_created_by_session winner) (wt_created_by_session r),
            wt_created_by_operation := or_else (wt_created_by_operation winner) (wt_created_by_operation r)\<rparr>"

text \<open>The four maps and sets the loop over the ordered records fills.\<close>

record record_groups =
  rg_winner_by_identity :: "(string \<times> string \<times> string, string) hmap"
  rg_winners :: "(string, worktree_record) hmap"
  rg_losers :: "(string, string) hmap"
  rg_malformed :: "(string, unit) hmap"

definition group_record :: "worktree_record \<Rightarrow> record_groups \<Rightarrow> record_groups" where
  "group_record r g =
     (if malformed r then g\<lparr>rg_malformed := hinsert (wt_id r) () (rg_malformed g)\<rparr>
      else
        case hget (rg_winner_by_identity g) (identity_key r) of
          Some wid \<Rightarrow>
            g\<lparr>rg_losers := hinsert (wt_id r) wid (rg_losers g),
              rg_winners := (case hget (rg_winners g) wid of
                               None \<Rightarrow> rg_winners g
                             | Some winner \<Rightarrow> hinsert wid (merge_into_winner winner r) (rg_winners g))\<rparr>
        | None \<Rightarrow>
            g\<lparr>rg_winner_by_identity := hinsert (identity_key r) (wt_id r) (rg_winner_by_identity g),
              rg_winners := hinsert (wt_id r) r (rg_winners g)\<rparr>)"

definition normalized_records :: "hydrated_state \<Rightarrow> (string, worktree_record) hmap" where
  "normalized_records h = hcollect wt_id (map normalize_record (hyd_worktrees h))"

definition group_records :: "hydrated_state \<Rightarrow> record_groups" where
  "group_records h =
     fold group_record
       (sort_key (\<lambda>r. (wt_created_at r, wt_id r)) (btree_values (normalized_records h)))
       \<lparr>rg_winner_by_identity = [], rg_winners = [], rg_losers = [], rg_malformed = []\<rparr>"

section \<open>Claims\<close>

definition normalize_claim :: "worktree_claim_record \<Rightarrow> worktree_claim_record" where
  "normalize_claim c =
     (let role = trim (claim_role c) in
      c\<lparr>claim_worktree_id := trim (claim_worktree_id c), claim_session_id := trim (claim_session_id c),
        claim_role := (if role = [] then ''consumer'' else role)\<rparr>)"

definition release_if_active :: "int \<Rightarrow> worktree_claim_record \<Rightarrow> worktree_claim_record" where
  "release_if_active now c =
     (if claim_released_at c = None then c\<lparr>claim_released_at := Some now\<rparr> else c)"

definition merge_claim :: "worktree_claim_record \<Rightarrow> worktree_claim_record \<Rightarrow> worktree_claim_record" where
  "merge_claim existing c =
     existing\<lparr>claim_created_at := min (claim_created_at existing) (claim_created_at c),
              claim_role := merge_claim_role (claim_role existing) (claim_role c),
              claim_released_at := merge_released_at (claim_released_at existing) (claim_released_at c)\<rparr>"

type_synonym claim_map = "(string \<times> string, worktree_claim_record) hmap"

definition moved_claim :: "record_groups \<Rightarrow> worktree_claim_record \<Rightarrow> worktree_claim_record" where
  "moved_claim g c =
     (case hget (rg_losers g) (claim_worktree_id c) of None \<Rightarrow> c | Some wid \<Rightarrow> c\<lparr>claim_worktree_id := wid\<rparr>)"

definition checked_claim ::
  "record_groups \<Rightarrow> string list \<Rightarrow> int \<Rightarrow> worktree_claim_record \<Rightarrow> worktree_claim_record" where
  "checked_claim g session_ids now c =
     (if hcontains (rg_winners g) (claim_worktree_id c) \<and> claim_session_id c \<in> set session_ids
      then c else release_if_active now c)"

definition file_claim :: "worktree_claim_record \<Rightarrow> claim_map \<Rightarrow> claim_map" where
  "file_claim c by_key =
     hinsert (claim_key c) (case hget by_key (claim_key c) of None \<Rightarrow> c | Some existing \<Rightarrow> merge_claim existing c) by_key"

text \<open>One round of the loop over the stored claims: \<open>claim_by_key\<close> and \<open>claims_changed\<close>.\<close>

definition group_claim ::
  "record_groups \<Rightarrow> string list \<Rightarrow> int \<Rightarrow> worktree_claim_record \<Rightarrow>
   claim_map \<times> worktree_claim_record list \<Rightarrow> claim_map \<times> worktree_claim_record list" where
  "group_claim g session_ids now original acc =
     (let by_key = fst acc; changed = snd acc; c = normalize_claim original in
      if claim_worktree_id c = [] \<or> claim_session_id c = []
      then (by_key, changed @ [release_if_active now c])
      else
        (file_claim (checked_claim g session_ids now (moved_claim g c)) by_key,
         if hget (rg_losers g) (claim_worktree_id c) = None then changed
         else changed @ [release_if_active now c]))"

definition i64_limit :: int where
  "i64_limit = 2 ^ 63 - 1"

definition winner_created_at :: "record_groups \<Rightarrow> string \<Rightarrow> int" where
  "winner_created_at g wid =
     (case hget (rg_winners g) wid of None \<Rightarrow> i64_limit | Some r \<Rightarrow> wt_created_at r)"

definition active_claims_by_session :: "claim_map \<Rightarrow> (string, worktree_claim_record list) hmap" where
  "active_claims_by_session by_key =
     fold (\<lambda>c m. if claim_released_at c = None then hentry [] (claim_session_id c) (\<lambda>cs. cs @ [c]) m else m)
       (btree_values by_key) []"

text \<open>Of a session's active claims the one on the oldest worktree stays.\<close>

definition losing_claims :: "record_groups \<Rightarrow> worktree_claim_record list \<Rightarrow> worktree_claim_record list" where
  "losing_claims g cs =
     drop 1 (sort_key (\<lambda>c. (winner_created_at g (claim_worktree_id c), claim_worktree_id c)) cs)"

definition release_claim :: "int \<Rightarrow> worktree_claim_record \<Rightarrow> claim_map \<Rightarrow> claim_map" where
  "release_claim now losing by_key =
     (case hget by_key (claim_key losing) of
        None \<Rightarrow> by_key
      | Some existing \<Rightarrow> hinsert (claim_key losing) (release_if_active now existing) by_key)"

definition settle_sessions :: "record_groups \<Rightarrow> int \<Rightarrow> claim_map \<Rightarrow> claim_map" where
  "settle_sessions g now by_key =
     fold (\<lambda>cs m. fold (release_claim now) (losing_claims g cs) m)
       (btree_values (active_claims_by_session by_key)) by_key"

definition group_claims ::
  "record_groups \<Rightarrow> hydrated_state \<Rightarrow> int \<Rightarrow> claim_map \<times> worktree_claim_record list" where
  "group_claims g h now =
     fold (group_claim g (map (\<lambda>s. trim (sess_id s)) (hyd_sessions h)) now) (hyd_claims h) ([], [])"

section \<open>Repair and start\<close>

definition tombstones :: "hydrated_state \<Rightarrow> int \<Rightarrow> string list \<Rightarrow> worktree_record list" where
  "tombstones h now ids = map (\<lambda>r. tombstone_record r now) (List.map_filter (hget (normalized_records h)) ids)"

definition repair_startup_state :: "hydrated_state \<Rightarrow> ('z runtime_env_scheme, runtime_error, unit) rt" where
  "repair_startup_state h =
     bindE now_ms (\<lambda>now.
     let g = group_records h in
     bindE (for_each (btree_values (rg_winners g)) (\<lambda>w. store_write (WWorktree w))) (\<lambda>_.
     bindE (for_each (tombstones h now (btree_keys (rg_losers g))) (\<lambda>w. store_write (WWorktree w))) (\<lambda>_.
     bindE (for_each (tombstones h now (btree_keys (rg_malformed g))) (\<lambda>w. store_write (WWorktree w))) (\<lambda>_.
     let (by_key, changed) = group_claims g h now in
     bindE (for_each (btree_values (settle_sessions g now by_key)) (\<lambda>c. store_write (WClaim c))) (\<lambda>_.
     for_each changed (\<lambda>c. store_write (WClaim c)))))))"

definition parse_sequence :: "string \<Rightarrow> string \<Rightarrow> nat option" where
  "parse_sequence prefix i =
     (if starts_with i prefix then parse_u64 (drop (length prefix) i) else None)"

definition max_sequence :: "string \<Rightarrow> string list \<Rightarrow> nat" where
  "max_sequence prefix ids =
     fold (\<lambda>i mx. case parse_sequence prefix i of None \<Rightarrow> mx | Some n \<Rightarrow> max mx n) ids 0"

definition worktrees_empty ::
  "'p comms \<Rightarrow> ws_config \<Rightarrow> string \<Rightarrow> (nat \<Rightarrow> os_command \<Rightarrow> string + cmd_output) \<Rightarrow> (nat \<Rightarrow> string \<Rightarrow> bool) \<Rightarrow>
   (nat \<Rightarrow> string \<Rightarrow> string option) \<Rightarrow> 'p worktrees" where
  "worktrees_empty s cfg nonce exec pexists mkdir =
     comms.extend s
       \<lparr>ws_config = cfg, ws_next_worktree = 1, ws_next_operation = 1, ws_next_event = 1, ws_nonce = nonce,
        os_exec = exec, os_exists = pexists, os_mkdir = mkdir, os_log = []\<rparr>"

text \<open>\<open>RuntimeWorktreeService::new\<close>; the state after the two hydrations and the repair.\<close>

definition worktrees_start :: "(('p, 'z) worktrees_scheme, runtime_error, unit) rt" where
  "worktrees_start =
     bindE hydrate (\<lambda>h0.
     bindE (repair_startup_state h0) (\<lambda>_.
     bindE hydrate (\<lambda>h.
     modify (\<lambda>s. s\<lparr>ws_next_worktree := of_nat (max_sequence ''wt_'' (map wt_id (hyd_worktrees h))) + 1,
                   ws_next_operation :=
                     of_nat (max_sequence ''op_spawn_'' (map jr_operation_id (hyd_journal h))) + 1\<rparr>))))"

definition worktrees_new ::
  "'p comms \<Rightarrow> ws_config \<Rightarrow> string \<Rightarrow> (nat \<Rightarrow> os_command \<Rightarrow> string + cmd_output) \<Rightarrow> (nat \<Rightarrow> string \<Rightarrow> bool) \<Rightarrow>
   (nat \<Rightarrow> string \<Rightarrow> string option) \<Rightarrow> runtime_error + 'p worktrees" where
  "worktrees_new s cfg nonce exec pexists mkdir =
     (case worktrees_start (worktrees_empty s cfg nonce exec pexists mkdir) of
        (Inl e, _) \<Rightarrow> Inl e
      | (Inr _, s') \<Rightarrow> Inr s')"

end
