(* ===== verification/Worktree_Service.thy ===== *)
theory Worktree_Service
  imports Worktree_Repair
begin

text \<open>
  The handlers of the worktree service (\<open>runtime-tools/src/worktree/service.rs\<close>): listing, creating,
  claiming, releasing and cleaning up worktrees. Each is the whole handler, with the questions to git
  and the file system in the source's order.
\<close>

definition worktree_healthcheck :: "(('p, 'z) worktrees_scheme, runtime_error, unit) rt" where
  "worktree_healthcheck = ok ()"

definition list_worktrees :: "(('p, 'z) worktrees_scheme, runtime_error, worktree_record list) rt" where
  "list_worktrees =
     bindE ensure_worktrees_enabled (\<lambda>_.
     bindE hydrate (\<lambda>h.
     ok (sort_key wt_created_at (filter (\<lambda>r. \<not> is_record_tombstoned r) (hyd_worktrees h)))))"

definition get_worktree :: "string \<Rightarrow> (('p, 'z) worktrees_scheme, runtime_error, worktree_record) rt" where
  "get_worktree wid =
     bindE ensure_worktrees_enabled (\<lambda>_.
     bindE hydrate (\<lambda>h.
     lift_result (get_worktree_from_hydrated wid h)))"

section \<open>Creating\<close>

record worktree_create_request =
  wcr_team_id :: "string option"
  wcr_source_session_id :: string
  wcr_repo_root :: "string option"
  wcr_worktree_name :: string
  wcr_branch_prefix :: "string option"
  wcr_base_ref :: "string option"
  wcr_deletion_policy :: "string option"
  wcr_run_init_script :: "bool option"
  wcr_created_by_session_id :: "string option"
  wcr_operation_id :: "string option"

record worktree_create_response =
  wcp_worktree :: worktree_record
  wcp_created :: bool
  wcp_init_script_status :: string

definition requested_repo_root ::
  "string option \<Rightarrow> string \<Rightarrow> (('p, 'z) worktrees_scheme, runtime_error, string) rt" where
  "requested_repo_root requested cwd =
     (case non_empty_trimmed requested of
        Some root \<Rightarrow> ok root
      | None \<Rightarrow> resolve_repo_root_from_source_cwd cwd)"

text \<open>The record of the same identity, unless its worktree has been cleaned up already.\<close>

definition reusable_worktree ::
  "planned_paths \<Rightarrow> (('p, 'z) worktrees_scheme, runtime_error, worktree_record option) rt" where
  "reusable_worktree planned =
     bindE hydrate (\<lambda>h.
     case worktree_by_identity h planned of
       None \<Rightarrow> ok None
     | Some existing \<Rightarrow>
         let active = length (active_claims_for h (wt_id existing)) in
         bindE (has_live_artifacts_for_record existing) (\<lambda>live.
         let stale_cleaned = (active = 0 \<and> \<not> live \<and> wt_deletion_policy existing = ''delete_on_last_claim'') in
         ok (if stale_cleaned then None else Some existing)))"

definition remove_args :: "string \<Rightarrow> string list" where
  "remove_args cwd = [''worktree'', ''remove'', ''--force'', cwd]"

definition branch_delete_args :: "string \<Rightarrow> string list" where
  "branch_delete_args branch = [''branch'', ''-D'', branch]"

text \<open>The init script; when it fails, the worktree and the branch just made are removed again.\<close>

definition run_init_or_undo ::
  "worktree_create_request \<Rightarrow> planned_paths \<Rightarrow> (('p, 'z) worktrees_scheme, runtime_error, string) rt" where
  "run_init_or_undo req planned =
     (if (case wcr_run_init_script req of None \<Rightarrow> True | Some b \<Rightarrow> b)
      then
        bindE (attempt (run_worktree_init_script (pl_worktree_cwd planned))) (\<lambda>r.
        case r of
          Inr status \<Rightarrow> ok status
        | Inl e \<Rightarrow>
            bindE (ignore (append_diagnostic (wcr_operation_id req) (wcr_team_id req) ''worktree_init_failed''
              (error_to_string e)
              (jobject [(''worktree_cwd'', JString (pl_worktree_cwd planned)),
                        (''branch_name'', JString (pl_branch_name planned))]))) (\<lambda>_.
            bindE (ignore (run_git_for_repo (pl_repo_root planned) (remove_args (pl_worktree_cwd planned)) [128, 255])) (\<lambda>_.
            bindE (ignore (run_git_for_repo (pl_repo_root planned) (branch_delete_args (pl_branch_name planned)) [1])) (\<lambda>_.
            err e))))
      else ok ''skipped_disabled'')"

definition git_add_worktree ::
  "worktree_create_request \<Rightarrow> planned_paths \<Rightarrow> (('p, 'z) worktrees_scheme, runtime_error, unit) rt" where
  "git_add_worktree req planned =
     bindE (run_git_for_repo (pl_repo_root planned) (show_ref_args (pl_branch_name planned)) [1]) (\<lambda>(_, _, code).
     bindE (if code = 0 then ok True else path_exists (pl_worktree_cwd planned)) (\<lambda>taken.
     if taken
     then err (InvalidState (''worktree name '' @ [CHR 0x27] @ pl_worktree_name planned @ [CHR 0x27] @ '' already exists''))
     else
     bindE (create_dir_all (pl_worktree_root planned)) (\<lambda>made.
     case made of
       Some e \<Rightarrow> err (Io (''failed to create worktree root '' @ pl_worktree_root planned @ '': '' @ e))
     | None \<Rightarrow>
         bindE (run_git_for_repo (pl_repo_root planned)
           ([''worktree'', ''add'', ''-b'', pl_branch_name planned, pl_worktree_cwd planned]
              @ (case non_empty_trimmed (wcr_base_ref req) of None \<Rightarrow> [] | Some b \<Rightarrow> [b])) []) (\<lambda>_.
         ok ()))))"

definition record_new_worktree ::
  "worktree_create_request \<Rightarrow> planned_paths \<Rightarrow> string \<Rightarrow> string \<Rightarrow>
   (('p, 'z) worktrees_scheme, runtime_error, worktree_create_response) rt" where
  "record_new_worktree req planned source_id init_status =
     bindE allocate_worktree_id (\<lambda>wid.
     bindE (gets ws_config) (\<lambda>cfg.
     bindE (upsert_worktree_record wid planned (normalize_deletion_policy cfg (wcr_deletion_policy req))
       (wcr_created_by_session_id req) (wcr_operation_id req)) (\<lambda>worktree.
     bindE (append_worktree_event (wt_id worktree) ''worktree.created''
       (jobject [(''worktree'', worktree_json worktree), (''init_script_status'', JString init_status)])
       (Some source_id) (wcr_team_id req)) (\<lambda>_.
     ok \<lparr>wcp_worktree = worktree, wcp_created = True, wcp_init_script_status = init_status\<rparr>))))"

definition create_worktree ::
  "worktree_create_request \<Rightarrow> (('p, 'z) worktrees_scheme, runtime_error, worktree_create_response) rt" where
  "create_worktree req =
     bindE ensure_worktrees_enabled (\<lambda>_.
     bindE (get_session (wcr_source_session_id req)) (\<lambda>source.
     bindE (ok_or_else (sess_cwd source) (InvalidState ''source session has no cwd for worktree planning'')) (\<lambda>cwd.
     bindE (requested_repo_root (wcr_repo_root req) cwd) (\<lambda>repo_root.
     bindE (gets ws_config) (\<lambda>cfg.
     let planned = plan_worktree_paths cfg repo_root (wcr_worktree_name req) (wcr_branch_prefix req) in
     bindE (reusable_worktree planned) (\<lambda>found.
     case found of
       Some existing \<Rightarrow>
         ok \<lparr>wcp_worktree = existing, wcp_created = False, wcp_init_script_status = ''skipped_existing''\<rparr>
     | None \<Rightarrow>
         bindE (git_add_worktree req planned) (\<lambda>_.
         bindE (run_init_or_undo req planned) (\<lambda>init_status.
         record_new_worktree req planned (sess_id source) init_status))))))))"

section \<open>Claiming\<close>

record worktree_claim_request =
  wqr_worktree_id :: string
  wqr_session_id :: string
  wqr_claim_role :: string

record worktree_claim_response =
  wqp_worktree :: worktree_record
  wqp_claim :: worktree_claim_record

definition conflicting_claim :: "hydrated_state \<Rightarrow> worktree_claim_request \<Rightarrow> worktree_claim_record option" where
  "conflicting_claim h req =
     find (\<lambda>c. claim_session_id c = wqr_session_id req \<and> claim_released_at c = None \<and>
               claim_worktree_id c \<noteq> wqr_worktree_id req) (hyd_claims h)"

definition claim_worktree ::
  "worktree_claim_request \<Rightarrow> (('p, 'z) worktrees_scheme, runtime_error, worktree_claim_response) rt" where
  "claim_worktree req =
     bindE ensure_worktrees_enabled (\<lambda>_.
     bindE hydrate (\<lambda>h.
     bindE (lift_result (get_worktree_from_hydrated (wqr_worktree_id req) h)) (\<lambda>worktree.
     case conflicting_claim h req of
       Some conflict \<Rightarrow>
         err (InvalidState (''session '' @ wqr_session_id req @ '' already has an active claim on worktree ''
                @ claim_worktree_id conflict))
     | None \<Rightarrow>
         bindE now_ms (\<lambda>now.
         let claim = \<lparr>claim_worktree_id = wqr_worktree_id req, claim_session_id = wqr_session_id req,
                      claim_role = to_ascii_lowercase (trim (wqr_claim_role req)), claim_created_at = now,
                      claim_released_at = None\<rparr> in
         bindE (store_write (WClaim claim)) (\<lambda>_.
         bindE (append_worktree_event (wt_id worktree) ''worktree.claimed'' (jobject [(''claim'', claim_json claim)])
           (Some (wqr_session_id req)) None) (\<lambda>_.
         ok \<lparr>wqp_worktree = worktree, wqp_claim = claim\<rparr>))))))"

section \<open>Cleaning up\<close>

record worktree_cleanup_request =
  wlr_worktree_id :: string
  wlr_reason :: "string option"

record worktree_cleanup_response =
  wlp_worktree_id :: string
  wlp_status :: string
  wlp_deletion_policy :: string
  wlp_active_claim_count :: nat
  wlp_worktree_path_deleted :: bool
  wlp_branch_deleted :: bool
  wlp_diagnostics :: "string list"

definition cleanup_response ::
  "worktree_record \<Rightarrow> string \<Rightarrow> nat \<Rightarrow> bool \<Rightarrow> bool \<Rightarrow> string list \<Rightarrow> worktree_cleanup_response" where
  "cleanup_response w status active path_gone branch_gone diagnostics =
     \<lparr>wlp_worktree_id = wt_id w, wlp_status = status, wlp_deletion_policy = wt_deletion_policy w,
      wlp_active_claim_count = active, wlp_worktree_path_deleted = path_gone, wlp_branch_deleted = branch_gone,
      wlp_diagnostics = diagnostics\<rparr>"

text \<open>Removing the directory: whether it is gone, and what went wrong.\<close>

definition delete_path :: "worktree_record \<Rightarrow> (('p, 'z) worktrees_scheme, runtime_error, bool \<times> string list) rt" where
  "delete_path w =
     bindE (path_exists (wt_cwd w)) (\<lambda>there.
     if there
     then
       bindE (attempt (run_git_for_repo (wt_repo_root w) (remove_args (wt_cwd w)) [128, 255])) (\<lambda>r.
       case r of
         Inr _ \<Rightarrow> bindE (path_exists (wt_cwd w)) (\<lambda>still. ok (\<not> still, []))
       | Inl e \<Rightarrow> ok (False, [error_to_string e]))
     else ok (True, []))"

definition delete_branch :: "worktree_record \<Rightarrow> (('p, 'z) worktrees_scheme, runtime_error, bool \<times> string list) rt" where
  "delete_branch w =
     bindE (attempt (run_git_for_repo (wt_repo_root w) (show_ref_args (wt_branch_name w)) [1])) (\<lambda>r.
     case r of
       Inl e \<Rightarrow> ok (False, [error_to_string e])
     | Inr (_, _, code) \<Rightarrow>
         if code = 1 then ok (True, [])
         else
         bindE (attempt (run_git_for_repo (wt_repo_root w) (branch_delete_args (wt_branch_name w)) [1])) (\<lambda>r.
         case r of
           Inr _ \<Rightarrow> ok (True, [])
         | Inl e \<Rightarrow> ok (False, [error_to_string e])))"

definition delete_worktree_files ::
  "worktree_record \<Rightarrow> string option \<Rightarrow> nat \<Rightarrow> (('p, 'z) worktrees_scheme, runtime_error, worktree_cleanup_response) rt" where
  "delete_worktree_files w reason active =
     bindE (delete_path w) (\<lambda>(path_gone, d1).
     bindE (delete_branch w) (\<lambda>(branch_gone, d2).
     let diagnostics = d1 @ d2; diag_json = JArray (map JString diagnostics) in
     bindE (if diagnostics = []
            then append_worktree_event (wt_id w) ''worktree.cleaned_up''
              (jobject [(''worktree_id'', JString (wt_id w)), (''reason'', jopt JString reason),
                        (''worktree_path_deleted'', JBool path_gone), (''branch_deleted'', JBool branch_gone)]) None None
            else
              bindE (ignore (append_diagnostic None None ''worktree_cleanup_failed'' ''managed worktree cleanup failed''
                (jobject [(''worktree_id'', JString (wt_id w)), (''diagnostics'', diag_json)]))) (\<lambda>_.
              append_worktree_event (wt_id w) ''worktree.cleanup_failed''
                (jobject [(''worktree_id'', JString (wt_id w)), (''reason'', jopt JString reason),
                          (''diagnostics'', diag_json)]) None None)) (\<lambda>_.
     ok (cleanup_response w (if diagnostics = [] then ''deleted'' else ''cleanup_failed'') active
           path_gone branch_gone diagnostics))))"

definition cleanup_worktree ::
  "worktree_cleanup_request \<Rightarrow> (('p, 'z) worktrees_scheme, runtime_error, worktree_cleanup_response) rt" where
  "cleanup_worktree req =
     bindE ensure_worktrees_enabled (\<lambda>_.
     bindE hydrate (\<lambda>h.
     bindE (lift_result (get_worktree_from_hydrated (wlr_worktree_id req) h)) (\<lambda>w.
     let active = length (active_claims_for h (wt_id w)) in
     if active > 0 then ok (cleanup_response w ''skipped_live_claims'' active False False [])
     else if wt_deletion_policy w \<noteq> ''delete_on_last_claim''
     then ok (cleanup_response w ''retained_by_policy'' active False False [])
     else delete_worktree_files w (wlr_reason req) active)))"

section \<open>Releasing\<close>

record worktree_release_request =
  wrr_worktree_id :: string
  wrr_session_id :: string
  wrr_cleanup_if_last_claim :: "bool option"

record worktree_release_response =
  wrp_worktree :: worktree_record
  wrp_released_claim :: worktree_claim_record
  wrp_active_claim_count :: nat
  wrp_cleanup :: "worktree_cleanup_response option"

definition release_worktree ::
  "worktree_release_request \<Rightarrow> (('p, 'z) worktrees_scheme, runtime_error, worktree_release_response) rt" where
  "release_worktree req =
     bindE ensure_worktrees_enabled (\<lambda>_.
     bindE hydrate (\<lambda>h.
     bindE (lift_result (get_worktree_from_hydrated (wrr_worktree_id req) h)) (\<lambda>worktree.
     bindE (ok_or_else
       (find (\<lambda>c. claim_worktree_id c = wrr_worktree_id req \<and> claim_session_id c = wrr_session_id req) (hyd_claims h))
       (NotFound (''worktree claim '' @ wrr_worktree_id req @ '':'' @ wrr_session_id req))) (\<lambda>existing.
     bindE now_ms (\<lambda>now.
     let released = existing\<lparr>claim_released_at := Some now\<rparr> in
     bindE (store_write (WClaim released)) (\<lambda>_.
     bindE (append_worktree_event (wt_id worktree) ''worktree.released'' (jobject [(''claim'', claim_json released)])
       (Some (wrr_session_id req)) None) (\<lambda>_.
     bindE hydrate (\<lambda>after.
     let active = length (active_claims_for after (wt_id worktree)) in
     bindE (if (case wrr_cleanup_if_last_claim req of None \<Rightarrow> True | Some b \<Rightarrow> b) \<and> active = 0
            then bindE (cleanup_worktree \<lparr>wlr_worktree_id = wt_id worktree, wlr_reason = Some ''release_last_claim''\<rparr>)
                   (\<lambda>r. ok (Some r))
            else ok None) (\<lambda>cleanup.
     ok \<lparr>wrp_worktree = worktree, wrp_released_claim = released, wrp_active_claim_count = active,
         wrp_cleanup = cleanup\<rparr>)))))))))"

end
