(* ===== verification/Worktree_Spawn.thy ===== *)
theory Worktree_Spawn
  imports Worktree_Service
begin

text \<open>
  Spawning a team member and losing one (\<open>runtime-tools/src/worktree/spawn.rs\<close>): the one operation
  that runs through all services - a worktree is made or reused, a session created in it, the
  session joined to the team, the worktree claimed for it and an onboarding message sent, with a
  journal row per stage and compensation when a later stage fails. The branches under
  \<open>#[cfg(test)]\<close> are not in the program.
\<close>

section \<open>Journal\<close>

definition record_journal ::
  "string \<Rightarrow> string \<Rightarrow> string \<Rightarrow> json \<Rightarrow> ('z runtime_env_scheme, runtime_error, unit) rt" where
  "record_journal op team stage payload =
     bindE now_ms (\<lambda>now.
     bindE (store_call (\<lambda>db. Inr (db_list_journal (Some team) db, db))) (\<lambda>rows.
     store_write (WJournal
       \<lparr>jr_operation_id = op, jr_team_id = team, jr_kind = ''spawn_member_with_worktree'', jr_stage = stage,
        jr_payload = payload,
        jr_created_at = (case find (\<lambda>j. jr_operation_id j = op) rows of None \<Rightarrow> now | Some j \<Rightarrow> jr_created_at j),
        jr_updated_at = now\<rparr>)))"

section \<open>Rollback\<close>

text \<open>The three steps of the rollback that may report; each returns its diagnostics.\<close>

definition rollback_diagnostic ::
  "string \<Rightarrow> string \<Rightarrow> string \<Rightarrow> string \<Rightarrow> runtime_error \<Rightarrow> (('p, 'z) worktrees_scheme, runtime_error, unit) rt" where
  "rollback_diagnostic op team sid code e =
     ignore (append_diagnostic (Some op) (Some team) code (error_to_string e)
       (jobject [(''spawned_session_id'', JString sid)]))"

definition rollback_membership ::
  "string \<Rightarrow> string \<Rightarrow> string \<Rightarrow> (('p, 'z) worktrees_scheme, runtime_error, string list) rt" where
  "rollback_membership team op sid =
     bindE (attempt (remove_team_member team sid)) (\<lambda>r.
     case r of
       Inr _ \<Rightarrow> ok []
     | Inl e \<Rightarrow>
         bindE (rollback_diagnostic op team sid ''spawn_rollback_team_remove_failed'' e) (\<lambda>_.
         ok [''team_remove_failed:'' @ error_to_string e]))"

definition rollback_session ::
  "string \<Rightarrow> string \<Rightarrow> string \<Rightarrow> string \<Rightarrow> (('p, 'z) worktrees_scheme, runtime_error, string list) rt" where
  "rollback_session team op sid reason =
     bindE (attempt (close_session sid (Some (''spawn_rollback_'' @ reason)))) (\<lambda>r.
     case r of
       Inr _ \<Rightarrow> ok []
     | Inl e \<Rightarrow>
         bindE (rollback_diagnostic op team sid ''spawn_rollback_session_close_failed'' e) (\<lambda>_.
         bindE (attempt (force_close_session sid (Some (''spawn_rollback_'' @ reason)))) (\<lambda>f.
         case f of
           Inr _ \<Rightarrow> ok [''session_close_failed:'' @ error_to_string e]
         | Inl fe \<Rightarrow>
             bindE (rollback_diagnostic op team sid ''spawn_rollback_session_force_close_failed'' fe) (\<lambda>_.
             ok [''session_close_failed:'' @ error_to_string e, ''session_force_close_failed:'' @ error_to_string fe]))))"

definition cleanup_if_created ::
  "string option \<Rightarrow> string \<Rightarrow> (('p, 'z) worktrees_scheme, runtime_error, unit) rt" where
  "cleanup_if_created created reason =
     (case created of
        None \<Rightarrow> ok ()
      | Some wid \<Rightarrow> ignore (cleanup_worktree \<lparr>wlr_worktree_id = wid, wlr_reason = Some reason\<rparr>))"

definition rollback_spawn_after_join ::
  "string \<Rightarrow> string \<Rightarrow> string \<Rightarrow> string option \<Rightarrow> string option \<Rightarrow> string \<Rightarrow> string \<Rightarrow> json \<Rightarrow>
   (('p, 'z) worktrees_scheme, runtime_error, unit) rt" where
  "rollback_spawn_after_join team op sid assigned created reason message payload =
     bindE (rollback_membership team op sid) (\<lambda>d1.
     bindE (rollback_session team op sid reason) (\<lambda>d2.
     bindE (case assigned of
              None \<Rightarrow> ok ()
            | Some wid \<Rightarrow> ignore (release_worktree
                \<lparr>wrr_worktree_id = wid, wrr_session_id = sid, wrr_cleanup_if_last_claim = Some False\<rparr>)) (\<lambda>_.
     bindE (cleanup_if_created created (''spawn_rollback_'' @ reason)) (\<lambda>_.
     bindE (ignore (append_diagnostic (Some op) (Some team) reason message payload)) (\<lambda>_.
     ignore (record_journal op team ''rolled_back''
       (jobject [(''reason'', JString reason), (''message'', JString message), (''payload'', payload),
                 (''rollback_diagnostics'', JArray (map JString (d1 @ d2)))])))))))"

section \<open>The worktree of the new member\<close>

record spawn_worktree_input =
  swi_mode :: "string option"
  swi_name :: "string option"
  swi_branch_prefix :: "string option"
  swi_base_ref :: "string option"
  swi_run_init_script :: "bool option"

record member_spawn_request =
  msr_team :: string
  msr_source_session :: string
  msr_provider :: "string option"
  msr_model :: "string option"
  msr_title :: "string option"
  msr_prompt :: "string option"
  msr_permission_mode :: "string option"
  msr_metadata :: "json option"
  msr_worktree :: "spawn_worktree_input option"
  msr_creator_agent_id :: "string option"
  msr_subscription :: "string option"

record member_spawn_response =
  msp_operation_id :: string
  msp_team :: team_view
  msp_session :: session_record
  msp_member :: team_member_record
  msp_worktree :: "worktree_record option"
  msp_assignment_mode :: string
  msp_created_by_operation :: bool
  msp_onboarding :: json
  msp_journal_stage :: string

text \<open>The local variables the worktree part of the function sets.\<close>

record spawn_assignment =
  sa_mode :: string
  sa_created_by_operation :: bool
  sa_worktree :: "worktree_record option"
  sa_created_id :: "string option"

definition reuse_worktree :: "planned_paths \<Rightarrow> (('p, 'z) worktrees_scheme, runtime_error, worktree_record) rt" where
  "reuse_worktree planned =
     bindE hydrate (\<lambda>h.
     case worktree_by_identity h planned of
       Some existing \<Rightarrow>
         bindE (has_live_artifacts_for_record existing) (\<lambda>live.
         if \<not> live
         then err (NotFound (''reused worktree identity exists but artifacts are missing: '' @ pl_worktree_cwd planned))
         else ok existing)
     | None \<Rightarrow>
         bindE (path_exists (pl_worktree_cwd planned)) (\<lambda>there.
         if \<not> there then err (NotFound (''reused worktree path not found: '' @ pl_worktree_cwd planned))
         else
         bindE allocate_worktree_id (\<lambda>wid.
         upsert_worktree_record wid planned ''retain_on_last_claim'' None None)))"

definition assign_worktree ::
  "member_spawn_request \<Rightarrow> string \<Rightarrow> string \<Rightarrow> session_record \<Rightarrow> string \<Rightarrow>
   (('p, 'z) worktrees_scheme, runtime_error, spawn_assignment) rt" where
  "assign_worktree req team op source cwd =
     (case msr_worktree req of
        None \<Rightarrow> ok \<lparr>sa_mode = ''none'', sa_created_by_operation = False, sa_worktree = None, sa_created_id = None\<rparr>
      | Some input \<Rightarrow>
          let mode = to_ascii_lowercase (case non_empty_trimmed (swi_mode input) of None \<Rightarrow> ''create'' | Some m \<Rightarrow> m) in
          bindE (ok_or_else (non_empty_trimmed (swi_name input)) (InvalidState ''worktree.name is required'')) (\<lambda>name.
          bindE (resolve_repo_root_from_source_cwd cwd) (\<lambda>repo_root.
          bindE (gets ws_config) (\<lambda>cfg.
          let planned = plan_worktree_paths cfg repo_root name (swi_branch_prefix input) in
          if mode = ''reuse'' \<or> mode = ''use_existing''
          then
            bindE (reuse_worktree planned) (\<lambda>existing.
            ok \<lparr>sa_mode = ''reused'', sa_created_by_operation = False, sa_worktree = Some existing, sa_created_id = None\<rparr>)
          else
            bindE (create_worktree
              \<lparr>wcr_team_id = Some team, wcr_source_session_id = sess_id source, wcr_repo_root = Some repo_root,
               wcr_worktree_name = name, wcr_branch_prefix = swi_branch_prefix input, wcr_base_ref = swi_base_ref input,
               wcr_deletion_policy = Some ''delete_on_last_claim'', wcr_run_init_script = swi_run_init_script input,
               wcr_created_by_session_id = Some (sess_id source), wcr_operation_id = Some op\<rparr>) (\<lambda>created.
            bindE (record_journal op team ''worktree_created''
              (jobject [(''worktree'', worktree_json (wcp_worktree created))])) (\<lambda>_.
            ok \<lparr>sa_mode = ''created'', sa_created_by_operation = True, sa_worktree = Some (wcp_worktree created),
                sa_created_id = Some (wt_id (wcp_worktree created))\<rparr>))))))"

section \<open>The session of the new member\<close>

definition spawn_provider :: "member_spawn_request \<Rightarrow> session_record \<Rightarrow> runtime_error + provider_kind" where
  "spawn_provider req source =
     (case msr_provider req of
        Some p \<Rightarrow>
          (case kind_from_str p of None \<Rightarrow> Inl (InvalidState (''unsupported provider '' @ p)) | Some k \<Rightarrow> Inr k)
      | None \<Rightarrow>
          (case kind_from_str (sess_provider source) of
             None \<Rightarrow> Inl (InvalidState (''source session has unsupported provider '' @ sess_provider source))
           | Some k \<Rightarrow> Inr k))"

definition spawn_permission_mode ::
  "member_spawn_request \<Rightarrow> session_record \<Rightarrow> provider_kind \<Rightarrow> worktree_record option \<Rightarrow> string option" where
  "spawn_permission_mode req source provider wt =
     or_else (msr_permission_mode req)
       (or_else (sess_permission_mode source)
         (if provider = Codex \<and> wt \<noteq> None then Some ''full_auto'' else None))"

definition failed_payload :: "string \<Rightarrow> runtime_error \<Rightarrow> json" where
  "failed_payload reason e = jobject [(''reason'', JString reason), (''error'', JString (error_to_string e))]"

definition spawn_session ::
  "member_spawn_request \<Rightarrow> string \<Rightarrow> string \<Rightarrow> session_record \<Rightarrow> spawn_assignment \<Rightarrow> provider_kind \<Rightarrow>
   (('p, 'z) worktrees_scheme, runtime_error, session_record) rt" where
  "spawn_session req team op source a provider =
     bindE (attempt (create_session
       \<lparr>csi_provider = provider, csi_model = or_else (msr_model req) (sess_model source),
        csi_cwd = or_else (map_option wt_cwd (sa_worktree a)) (sess_cwd source),
        csi_permission_mode = spawn_permission_mode req source provider (sa_worktree a),
        csi_metadata = msr_metadata req\<rparr>)) (\<lambda>r.
     case r of
       Inr session \<Rightarrow>
         bindE (record_journal op team ''session_created''
           (jobject [(''spawned_session_id'', JString (sess_id session))])) (\<lambda>_. ok session)
     | Inl e \<Rightarrow>
         bindE (cleanup_if_created (sa_created_id a) ''spawn_session_create_failed'') (\<lambda>_.
         bindE (record_journal op team ''rolled_back'' (failed_payload ''session_create_failed'' e)) (\<lambda>_.
         err e)))"

definition attach_worktree ::
  "string \<Rightarrow> string \<Rightarrow> string \<Rightarrow> spawn_assignment \<Rightarrow> (('p, 'z) worktrees_scheme, runtime_error, unit) rt" where
  "attach_worktree team op sid a =
     (case sa_worktree a of
        None \<Rightarrow> ok ()
      | Some w \<Rightarrow>
          bindE (attempt (set_session_worktree_id sid (Some (wt_id w)))) (\<lambda>r.
          case r of
            Inr _ \<Rightarrow> ok ()
          | Inl e \<Rightarrow>
              let reason = Some ''spawn_set_worktree_id_failed'' in
              bindE (attempt (close_session sid reason)) (\<lambda>closed.
              bindE (case closed of
                       Inr _ \<Rightarrow> ok ()
                     | Inl ce \<Rightarrow>
                         bindE (rollback_diagnostic op team sid ''spawn_set_worktree_id_session_close_failed'' ce) (\<lambda>_.
                         ignore (force_close_session sid reason))) (\<lambda>_.
              bindE (cleanup_if_created (sa_created_id a) ''spawn_set_worktree_id_failed'') (\<lambda>_.
              bindE (record_journal op team ''rolled_back'' (failed_payload ''set_session_worktree_id_failed'' e)) (\<lambda>_.
              err e))))))"

section \<open>Joining, claiming and onboarding\<close>

definition spawn_join ::
  "member_spawn_request \<Rightarrow> string \<Rightarrow> string \<Rightarrow> string \<Rightarrow> string \<Rightarrow> spawn_assignment \<Rightarrow>
   (('p, 'z) worktrees_scheme, runtime_error, team_view) rt" where
  "spawn_join req team op source_id sid a =
     bindE (attempt (join_team
       \<lparr>tjr_team = team, tjr_agent = sid, tjr_title = msr_title req, tjr_added_by = Some source_id,
        tjr_creator_agent_id = msr_creator_agent_id req, tjr_subscription = msr_subscription req,
        tjr_worktree_id = map_option wt_id (sa_worktree a)\<rparr>)) (\<lambda>r.
     case r of
       Inr joined \<Rightarrow> ok joined
     | Inl e \<Rightarrow>
         bindE (ignore (close_session sid (Some ''spawn_join_failed''))) (\<lambda>_.
         bindE (cleanup_if_created (sa_created_id a) ''spawn_join_failed'') (\<lambda>_.
         bindE (record_journal op team ''rolled_back'' (failed_payload ''team_join_failed'' e)) (\<lambda>_.
         err e))))"

definition spawn_claim ::
  "string \<Rightarrow> string \<Rightarrow> string \<Rightarrow> spawn_assignment \<Rightarrow> (('p, 'z) worktrees_scheme, runtime_error, unit) rt" where
  "spawn_claim team op sid a =
     (case sa_worktree a of
        None \<Rightarrow> ok ()
      | Some w \<Rightarrow>
          bindE (attempt (claim_worktree
            \<lparr>wqr_worktree_id = wt_id w, wqr_session_id = sid,
             wqr_claim_role = (if sa_created_by_operation a then ''owner'' else ''consumer'')\<rparr>)) (\<lambda>r.
          case r of
            Inr _ \<Rightarrow> ok ()
          | Inl e \<Rightarrow>
              bindE (rollback_spawn_after_join team op sid (map_option wt_id (sa_worktree a)) (sa_created_id a)
                ''spawn_claim_failed_after_join'' ''spawn worktree claim failed after team join''
                (jobject [(''spawned_session_id'', JString sid), (''worktree_id'', JString (wt_id w)),
                          (''error'', JString (error_to_string e))])) (\<lambda>_.
              err e)))"

definition newline :: string where
  "newline = [CHR 0x0A]"

definition onboarding_text :: "member_spawn_request \<Rightarrow> team_record \<Rightarrow> string \<Rightarrow> string" where
  "onboarding_text req team sid =
     (let q = [CHR 0x22] in
      ''You were added to team '' @ q @ team_name team @ q @ '' ('' @ team_id team @ '').'' @ newline
        @ ''The team lead is '' @ team_lead team @ ''.'' @ newline @ ''Your name is '' @ sid @ ''.''
        @ (case non_empty_trimmed (msr_title req) of None \<Rightarrow> [] | Some t \<Rightarrow> newline @ ''Your title is '' @ t @ ''.'')
        @ (case non_empty_trimmed (msr_prompt req) of
             None \<Rightarrow> [] | Some p \<Rightarrow> newline @ newline @ ''Role instructions:'' @ newline @ p))"

definition onboarding_image_paths :: "json option \<Rightarrow> string list" where
  "onboarding_image_paths metadata =
     (case Option.bind (Option.bind metadata (\<lambda>m. jget m ''gg_team_manage_add_image_paths'')) as_array of
        None \<Rightarrow> []
      | Some values \<Rightarrow> List.map_filter (\<lambda>v. non_empty_trimmed (as_str v)) values)"

definition onboarding_request ::
  "member_spawn_request \<Rightarrow> string \<Rightarrow> string \<Rightarrow> string \<Rightarrow> string \<Rightarrow> team_record \<Rightarrow> send_direct_request" where
  "onboarding_request req team op source_id sid t =
     \<lparr>sdr_team = team, sdr_sender = source_id, sdr_recipient = sid,
      sdr_input = JArray [jobject [(''type'', JString ''text''), (''text'', JString (onboarding_text req t sid))]],
      sdr_image_paths = onboarding_image_paths (msr_metadata req), sdr_priority = ''normal'',
      sdr_policy = ''start_new_turn_only'', sdr_correlation_id = Some (''spawn-onboarding:'' @ op), sdr_reply_to = None,
      sdr_idempotency_key = Some (''spawn-onboarding:'' @ op)\<rparr>"

definition spawn_onboard ::
  "member_spawn_request \<Rightarrow> string \<Rightarrow> string \<Rightarrow> string \<Rightarrow> string \<Rightarrow> spawn_assignment \<Rightarrow> team_view \<Rightarrow>
   (('p, 'z) worktrees_scheme, runtime_error, team_message_ack) rt" where
  "spawn_onboard req team op source_id sid a joined =
     bindE (attempt (send_direct (onboarding_request req team op source_id sid (twm_team joined)))) (\<lambda>r.
     case r of
       Inr ack \<Rightarrow> ok ack
     | Inl e \<Rightarrow>
         bindE (rollback_spawn_after_join team op sid (map_option wt_id (sa_worktree a)) (sa_created_id a)
           ''spawn_onboarding_failed_after_join'' ''spawn onboarding delivery failed after team join''
           (jobject [(''spawned_session_id'', JString sid), (''error'', JString (error_to_string e))])) (\<lambda>_.
         err e))"

section \<open>Spawning\<close>

definition spawn_input_json :: "spawn_worktree_input \<Rightarrow> json" where
  "spawn_input_json i =
     jobject [(''mode'', jopt JString (swi_mode i)), (''name'', jopt JString (swi_name i)),
       (''branch_prefix'', jopt JString (swi_branch_prefix i)), (''base_ref'', jopt JString (swi_base_ref i)),
       (''run_init_script'', jopt JBool (swi_run_init_script i))]"

definition delivery_ids_json :: "team_message_ack \<Rightarrow> json" where
  "delivery_ids_json ack = JArray (map (\<lambda>d. JString (dlv_id d)) (tma_deliveries ack))"

text \<open>From the joined team on: claim, onboarding and the last journal rows.\<close>

definition spawn_finish ::
  "member_spawn_request \<Rightarrow> string \<Rightarrow> string \<Rightarrow> string \<Rightarrow> session_record \<Rightarrow> spawn_assignment \<Rightarrow> team_view \<Rightarrow>
   (('p, 'z) worktrees_scheme, runtime_error, member_spawn_response) rt" where
  "spawn_finish req team op source_id session a joined =
     (let sid = sess_id session in
      bindE (spawn_claim team op sid a) (\<lambda>_.
      bindE (record_journal op team ''team_joined'' (jobject [(''spawned_session_id'', JString sid)])) (\<lambda>_.
      bindE (spawn_onboard req team op source_id sid a joined) (\<lambda>ack.
      bindE (record_journal op team ''onboarding_sent''
        (jobject [(''message_id'', JString (msg_id (tma_message ack))), (''delivery_ids'', delivery_ids_json ack)])) (\<lambda>_.
      bindE (record_journal op team ''completed''
        (jobject [(''spawned_session_id'', JString sid),
                  (''worktree_id'', jopt JString (map_option wt_id (sa_worktree a)))])) (\<lambda>_.
      bindE (ok_or_else (find (\<lambda>m. mem_agent_id m = sid) (twm_members joined))
        (InvalidState ''spawned member missing after join'')) (\<lambda>member.
      ok \<lparr>msp_operation_id = op, msp_team = joined, msp_session = session, msp_member = member,
          msp_worktree = sa_worktree a, msp_assignment_mode = sa_mode a,
          msp_created_by_operation = sa_created_by_operation a,
          msp_onboarding = jobject [(''status'', JString ''sent''), (''message_id'', JString (msg_id (tma_message ack))),
                                    (''delivery_ids'', delivery_ids_json ack)],
          msp_journal_stage = ''completed''\<rparr>)))))))"

definition spawn_team_member ::
  "member_spawn_request \<Rightarrow> (('p, 'z) worktrees_scheme, runtime_error, member_spawn_response) rt" where
  "spawn_team_member req =
     bindE ensure_worktrees_enabled (\<lambda>_.
     let team = trim (msr_team req) in
     if team = [] then err (InvalidState ''team_id is required'')
     else
     bindE allocate_operation_id (\<lambda>op.
     bindE (record_journal op team ''planned''
       (jobject [(''source_session_id'', JString (msr_source_session req)),
                 (''worktree'', jopt spawn_input_json (msr_worktree req))])) (\<lambda>_.
     bindE (get_session (msr_source_session req)) (\<lambda>source.
     bindE (ok_or_else (sess_cwd source) (InvalidState ''source session has no cwd'')) (\<lambda>cwd.
     bindE (assign_worktree req team op source cwd) (\<lambda>a.
     bindE (lift_result (spawn_provider req source)) (\<lambda>provider.
     bindE (spawn_session req team op source a provider) (\<lambda>session.
     bindE (attach_worktree team op (sess_id session) a) (\<lambda>_.
     bindE (spawn_join req team op (sess_id source) (sess_id session) a) (\<lambda>joined.
     spawn_finish req team op (sess_id source) session a joined))))))))))"

section \<open>A member left\<close>

record member_removed_request =
  mrr_team :: string
  mrr_agent :: string
  mrr_removed_by :: "string option"

record member_removed_response =
  mrp_released_claims :: "worktree_claim_record list"
  mrp_cleanup_results :: "worktree_cleanup_response list"
  mrp_diagnostics :: "diagnostic_record list"

definition removal_diagnostic ::
  "string \<Rightarrow> string \<Rightarrow> worktree_claim_record \<Rightarrow> runtime_error \<Rightarrow> (('p, 'z) worktrees_scheme, runtime_error, diagnostic_record) rt" where
  "removal_diagnostic team code c e =
     append_diagnostic None (Some team) code (error_to_string e)
       (jobject [(''worktree_id'', JString (claim_worktree_id c)), (''session_id'', JString (claim_session_id c))])"

definition release_on_removal ::
  "string \<Rightarrow> worktree_claim_record \<Rightarrow> member_removed_response \<Rightarrow>
   (('p, 'z) worktrees_scheme, runtime_error, member_removed_response) rt" where
  "release_on_removal team c acc =
     bindE now_ms (\<lambda>now.
     let released = c\<lparr>claim_released_at := Some now\<rparr> in
     bindE (attempt (store_write (WClaim released))) (\<lambda>w.
     case w of
       Inl e \<Rightarrow>
         bindE (removal_diagnostic team ''worktree_claim_release_failed'' c e) (\<lambda>d.
         ok (acc\<lparr>mrp_diagnostics := mrp_diagnostics acc @ [d]\<rparr>))
     | Inr _ \<Rightarrow>
         let acc' = acc\<lparr>mrp_released_claims := mrp_released_claims acc @ [released]\<rparr> in
         bindE (attempt (cleanup_worktree
           \<lparr>wlr_worktree_id = claim_worktree_id released, wlr_reason = Some ''team_member_removed''\<rparr>)) (\<lambda>r.
         case r of
           Inr result \<Rightarrow> ok (acc'\<lparr>mrp_cleanup_results := mrp_cleanup_results acc' @ [result]\<rparr>)
         | Inl e \<Rightarrow>
             bindE (removal_diagnostic team ''worktree_cleanup_failed_on_member_remove'' released e) (\<lambda>d.
             ok (acc'\<lparr>mrp_diagnostics := mrp_diagnostics acc' @ [d]\<rparr>)))))"

definition on_member_removed ::
  "member_removed_request \<Rightarrow> (('p, 'z) worktrees_scheme, runtime_error, member_removed_response) rt" where
  "on_member_removed req =
     bindE ensure_worktrees_enabled (\<lambda>_.
     bindE hydrate (\<lambda>h.
     for_fold (filter (\<lambda>c. claim_session_id c = mrr_agent req \<and> claim_released_at c = None) (hyd_claims h))
       \<lparr>mrp_released_claims = [], mrp_cleanup_results = [], mrp_diagnostics = []\<rparr>
       (release_on_removal (mrr_team req))))"

end
