(* ===== verification/Worktree_Frame.thy ===== *)
theory Worktree_Frame
  imports Worktree_Spawn Team_Properties
begin

text \<open>
  What sessions and teams leave alone. \<open>wview\<close> is what the worktree service is about: the stored
  worktrees and claims, and what was asked of git and the file system. Nothing the session manager
  and the team service do changes it, so their steps are silent steps of the worktree service.
\<close>

section \<open>The view\<close>

definition wview :: "('p, 'z) worktrees_scheme \<Rightarrow> worktree_record list \<times> worktree_claim_record list \<times> ws_config \<times> os_action list" where
  "wview s = (db_worktrees (env_db s), db_claims (env_db s), ws_config s, os_log s)"

definition db_view :: "database \<Rightarrow> worktree_record list \<times> worktree_claim_record list" where
  "db_view db = (db_worktrees db, db_claims db)"

abbreviation keeps_trees :: "(('p, 'z) worktrees_scheme, 'e, 'a) rt \<Rightarrow> bool" where
  "keeps_trees m \<equiv> (\<forall>v. preserves (\<lambda>s. wview s = v) m)"

text \<open>A write of another table.\<close>

fun spares_trees :: "store_write \<Rightarrow> bool" where
  "spares_trees (WWorktree r) = False"
| "spares_trees (WClaim r) = False"
| "spares_trees w = True"

lemma write_db_view: "apply_write w db = Inr db' \<Longrightarrow> spares_trees w \<Longrightarrow> db_view db' = db_view db"
  by (cases w) (auto simp: write_defs db_view_def split: if_splits)

lemma event_db_view: "db_append_runtime_event e db = Inr (x, db') \<Longrightarrow> db_view db' = db_view db"
  by (auto simp: db_append_runtime_event_def db_view_def Let_def split: option.splits if_splits sum.splits)

lemma diagnostic_db_view: "db_append_diagnostic a b c d e f db = Inr (x, db') \<Longrightarrow> db_view db' = db_view db"
  by (auto simp: db_append_diagnostic_def db_view_def Let_def split: if_splits)

lemma trees_store_call:
  assumes "\<And>db x db'. f db = Inr (x, db') \<Longrightarrow> db_view db' = db_view db"
  shows "preserves (\<lambda>s. wview s = v) (store_call f)"
  using assms
  by (fastforce simp: preserves_def store_call_def wview_def db_view_def Let_def split: option.splits sum.splits)

lemma trees_store_write [preserves_intros]:
  "spares_trees w \<Longrightarrow> preserves (\<lambda>s. wview s = v) (store_write w)"
  unfolding store_write_def by (rule trees_store_call) (auto dest: write_db_view split: sum.splits)

lemma trees_store_read [preserves_intros]:
  "preserves (\<lambda>s. wview s = v) (store_call (\<lambda>db. Inr (f db, db)))"
  by (rule trees_store_call) simp

lemma trees_store_append [preserves_intros]:
  "preserves (\<lambda>s. wview s = v) (store_call (db_append_runtime_event e))"
  "preserves (\<lambda>s. wview s = v) (store_call (db_append_diagnostic op team code msg payload now))"
  by (rule trees_store_call, erule event_db_view) (rule trees_store_call, erule diagnostic_db_view)

lemma trees_basic [preserves_intros]:
  "preserves (\<lambda>s. wview s = v) now_ms" "preserves (\<lambda>s. wview s = v) (put_session i r)"
  "preserves (\<lambda>s. wview s = v) (put_turn i t)" "preserves (\<lambda>s. wview s = v) (put_approval i a)"
  "preserves (\<lambda>s. wview s = v) (spawn_wait_for_turn k i j)" "preserves (\<lambda>s. wview s = v) (provider_call h)"
  "preserves (\<lambda>s. wview s = v) hydrate"
  by (auto simp: preserves_def now_ms_def put_session_def put_turn_def put_approval_def spawn_wait_for_turn_def
      modify_def provider_call_def wview_def hydrate_def store_call_def Let_def
      split: prod.splits option.splits sum.splits)

text \<open>Updates of the maps of the session manager and the team service.\<close>

lemma trees_modify [preserves_intros]:
  "preserves (\<lambda>s. wview s = v) (modify (\<lambda>s. s\<lparr>mg_next_id := f1 s\<rparr>))"
  "preserves (\<lambda>s. wview s = v) (modify (\<lambda>s. s\<lparr>mg_event_tx := f2 s\<rparr>))"
  "preserves (\<lambda>s. wview s = v) (modify (\<lambda>s. s\<lparr>mg_tasks := f3 s\<rparr>))"
  "preserves (\<lambda>s. wview s = v) (modify (\<lambda>s. s\<lparr>tc_next_event := f4 s\<rparr>))"
  "preserves (\<lambda>s. wview s = v) (modify (\<lambda>s. s\<lparr>tc_teams := f5 s\<rparr>))"
  "preserves (\<lambda>s. wview s = v) (modify (\<lambda>s. s\<lparr>tc_members := f6 s\<rparr>))"
  "preserves (\<lambda>s. wview s = v) (modify (\<lambda>s. s\<lparr>tc_members := f7 s, tc_teams := f8 s\<rparr>))"
  "preserves (\<lambda>s. wview s = v) (modify (\<lambda>s. s\<lparr>tc_teams := f8 s, tc_members := f7 s\<rparr>))"
  "preserves (\<lambda>s. wview s = v) (modify (\<lambda>s. s\<lparr>tc_deliveries := f9 s\<rparr>))"
  "preserves (\<lambda>s. wview s = v) (modify (\<lambda>s. s\<lparr>tc_events_seen := f10 s\<rparr>))"
  "preserves (\<lambda>s. wview s = v) (modify (\<lambda>s. s\<lparr>tc_listening := f11 s\<rparr>))"
  "preserves (\<lambda>s. wview s = v) (modify (\<lambda>s. s\<lparr>ws_next_event := f12 s\<rparr>))"
  by (rule preserves_modify, simp add: wview_def)+

section \<open>Sessions\<close>

lemma trees_lookup [preserves_intros]:
  "preserves (\<lambda>s. wview s = v) (get_session sid)" "preserves (\<lambda>s. wview s = v) (require_provider k)"
  "preserves (\<lambda>s. wview s = v) (require_kind r)" "preserves (\<lambda>s. wview s = v) ensure_enabled"
  "preserves (\<lambda>s. wview s = v) (require_session_active sid)" "preserves (\<lambda>s. wview s = v) (team_with_members t)"
  unfolding get_session_def require_provider_def require_kind_def ensure_enabled_def
    require_session_active_def team_with_members_def
  by (intro preserves_intros)+

lemma trees_counters [preserves_intros]:
  "preserves (\<lambda>s. wview s = v) (allocate_id p q)" "preserves (\<lambda>s. wview s = v) allocate_team_id"
  "preserves (\<lambda>s. wview s = v) allocate_message_id" "preserves (\<lambda>s. wview s = v) allocate_delivery_id"
  "preserves (\<lambda>s. wview s = v) allocate_worktree_id" "preserves (\<lambda>s. wview s = v) allocate_operation_id"
  by (auto simp: preserves_def allocate_id_def now_ms_def monad_simps ok_def allocate_team_id_def allocate_message_id_def
      allocate_delivery_id_def allocate_worktree_id_def allocate_operation_id_def wview_def bindE_def gets_def modify_def
      split: prod.splits)

lemma trees_event [preserves_intros]:
  "preserves (\<lambda>s. wview s = v) (append_event sc i ses t kind crit payload)"
  "preserves (\<lambda>s. wview s = v) (append_team_event team kind payload ses)"
  unfolding append_event_def append_team_event_def
  by (auto intro!: preserves_intros split: prod.splits)

lemma trees_turns [preserves_intros]:
  "preserves (\<lambda>s. wview s = v) (dispatch_send_turn_with_resume_fallback kind req cwd pref cref md)"
  "preserves (\<lambda>s. wview s = v) (send_turn_admit sid input)"
  "preserves (\<lambda>s. wview s = v) (interrupt_turn sid tid)"
  unfolding dispatch_send_turn_with_resume_fallback_def send_turn_admit_def interrupt_turn_def Let_def
  by (auto intro!: preserves_intros split: runtime_error.splits sum.splits)

lemma trees_send_turn [preserves_intros]:
  "preserves (\<lambda>s. wview s = v) (send_turn sid input)"
  unfolding send_turn_def send_turn_failed_def send_turn_accept_def Let_def
  by (auto intro!: preserves_intros split: runtime_error.splits sum.splits option.splits bool.splits)

lemma trees_sessions [preserves_intros]:
  "preserves (\<lambda>s. wview s = v) (create_session input)" "preserves (\<lambda>s. wview s = v) (finalize_session_close sid reason)"
  "preserves (\<lambda>s. wview s = v) (resume_session sid rinput)" "preserves (\<lambda>s. wview s = v) (set_session_worktree_id sid wt)"
  unfolding create_session_def finalize_session_close_def resume_session_def set_session_worktree_id_def Let_def
  by (auto intro!: preserves_intros)

lemma trees_closing [preserves_intros]:
  "preserves (\<lambda>s. wview s = v) (close_session sid r)" "preserves (\<lambda>s. wview s = v) (force_close_session sid r)"
  unfolding close_session_def force_close_session_def by (intro preserves_intros)+

lemma trees_approvals [preserves_intros]: "preserves (\<lambda>s. wview s = v) (respond_approval sid aid ainput)"
  unfolding respond_approval_def approval_accepted_def approval_declined_def Let_def
  by (auto intro!: preserves_intros split: approval_decision.splits)

lemma trees_terminal [preserves_intros]:
  "preserves (\<lambda>s. wview s = v) (apply_terminal_result result)"
  "preserves (\<lambda>s. wview s = v) (apply_terminal_failure sid tid e)"
  unfolding terminal_defs failure_defs Let_def by (auto intro!: preserves_intros)

lemma trees_waiter [preserves_intros]: "preserves (\<lambda>s. wview s = v) (wait_step n)"
  unfolding wait_step_def run_wait_task_def by (auto intro!: preserves_intros split: prod.splits)

lemma manager_step_trees: "manager_step s s' \<Longrightarrow> wview s' = wview (s :: ('p, 'z) worktrees_scheme)"
  by (induction rule: manager_step.induct) (rule keepsD, rule preserves_intros)+

section \<open>Teams\<close>

lemma forget_message_trees: "wview (forget_message mid s) = wview (s :: ('p, 'z) worktrees_scheme)"
  by (simp add: forget_message_def wview_def Let_def split: option.splits)

lemma fold_forget_trees: "wview (fold forget_message mids s) = wview (s :: ('p, 'z) worktrees_scheme)"
  by (induction mids arbitrary: s) (simp_all add: forget_message_trees)

lemma fold_index_trees: "wview (fold index_delivery ds s) = wview (s :: ('p, 'z) worktrees_scheme)"
  by (induction ds arbitrary: s) (simp_all add: index_delivery_def wview_def)

lemma trees_modify_messages [preserves_intros]:
  "preserves (\<lambda>s. wview s = v) (modify (record_message m idx ds))"
  "preserves (\<lambda>s. wview s = v) (modify (\<lambda>s. fold forget_message mids
     (s\<lparr>tc_teams := f1 s, tc_members := f2 s, tc_team_messages := f3 s, tc_team_deliveries := f4 s\<rparr>)))"
  "preserves (\<lambda>s. wview s = v) (modify (\<lambda>s. s\<lparr>tc_message_deliveries := f5 s\<rparr>))"
  "preserves (\<lambda>s. wview s = v) (modify (\<lambda>s. s\<lparr>tc_idempotency := f6 s\<rparr>))"
  "preserves (\<lambda>s. wview s = v) (modify (\<lambda>s. s\<lparr>tc_deliveries := f7 s, tc_recipient_deliveries := f8 s\<rparr>))"
  by (rule preserves_modify, simp only: fold_forget_trees fold_index_trees record_message_def, simp add: wview_def,
      rule preserves_modify, simp only: fold_forget_trees, simp add: wview_def)
     (rule preserves_modify, simp add: wview_def)+

lemma trees_transitions [preserves_intros]:
  "preserves (\<lambda>s. wview s = v) (transition_delivery_status d status strategy code msg trigger)"
  "preserves (\<lambda>s. wview s = v) (transition_delivery_with_turn_id did turn)"
  unfolding transition_delivery_status_def transition_delivery_with_turn_id_def Let_def
  by (auto intro!: preserves_intros split: option.splits)

lemma trees_inject [preserves_intros]:
  "preserves (\<lambda>s. wview s = v) (inject_delivery did trigger)"
  unfolding inject_delivery_def inject_check_def inject_commit_def interrupt_for_def Let_def
  by (auto intro!: preserves_intros split: option.splits sum.splits inject_plan.splits runtime_error.splits)

lemma trees_messages [preserves_intros]:
  "preserves (\<lambda>s. wview s = v) (create_message_and_deliveries req)"
  "preserves (\<lambda>s. wview s = v) (deliver_created ack)"
  unfolding create_message_and_deliveries_def create_under_lock_def resolve_recipient_def allocate_delivery_def
    deliver_created_def queue_and_attempt_delivery_def Let_def
  by (auto intro!: preserves_intros split: option.splits)

lemma trees_queues [preserves_intros]:
  "preserves (\<lambda>s. wview s = v) recover_startup_deferred_deliveries"
  "preserves (\<lambda>s. wview s = v) listener_step"
  unfolding recover_startup_deferred_deliveries_def recover_recipient_def listener_step_def
    resume_deferred_for_recipient_def Let_def
  by (auto intro!: preserves_intros split: option.splits prod.splits)

lemma trees_membership [preserves_intros]:
  "preserves (\<lambda>s. wview s = v) (create_team creq)" "preserves (\<lambda>s. wview s = v) (join_team jreq)"
  "preserves (\<lambda>s. wview s = v) (remove_team_member team agent)" "preserves (\<lambda>s. wview s = v) (set_team_lead team agent)"
  unfolding create_team_def register_team_def join_team_def join_under_lock_def remove_team_member_def
    remove_under_lock_def set_team_lead_def lead_under_lock_def Let_def
  by (auto intro!: preserves_intros split: prod.splits)

lemma trees_store_cancelled [preserves_intros]: "preserves (\<lambda>s. wview s = v) (store_cancelled team d)"
  unfolding store_cancelled_def by (auto intro!: preserves_intros)

lemma trees_deletion [preserves_intros]:
  "preserves (\<lambda>s. wview s = v) (delete_team team)" "preserves (\<lambda>s. wview s = v) (interrupt_all_team_turns team)"
  unfolding delete_team_def delete_under_lock_def forget_delivery_def
    interrupt_all_team_turns_def interrupt_member_def Let_def
  by (auto intro!: preserves_intros split: prod.splits option.splits sum.splits)

lemma trees_sending [preserves_intros]:
  "preserves (\<lambda>s. wview s = v) (send_direct dreq)" "preserves (\<lambda>s. wview s = v) (broadcast breq)"
  "preserves (\<lambda>s. wview s = v) (retry_delivery team did)" "preserves (\<lambda>s. wview s = v) (cancel_message team mid)"
  unfolding send_direct_def broadcast_def retry_delivery_def retry_under_lock_def cancel_message_def
    cancel_under_lock_def cancel_step_def Let_def
  by (auto intro!: preserves_intros split: prod.splits option.splits sum.splits)

lemma comms_step_trees: "comms_step s s' \<Longrightarrow> wview s' = wview (s :: ('p, 'z) worktrees_scheme)"
proof (induction rule: comms_step.induct)
  case (manager s s')
  then show ?case by (rule manager_step_trees)
qed (rule keepsD, rule preserves_intros)+

end
