(* ===== verification/Worktree_Claims.thy ===== *)
theory Worktree_Claims
  imports Worktree_Frame
begin

text \<open>
  The worktree service as a transition system over the whole runtime state, and its first invariant:
  a session holds at most one worktree.
\<close>

section \<open>The transition system\<close>

text \<open>
  One step is a handler call of the worktree service or a step of the team service or the session
  manager, with any arguments. Handlers that create sessions or messages do so while ids are left.
\<close>

inductive worktree_step :: "('p, 'z) worktrees_scheme \<Rightarrow> ('p, 'z) worktrees_scheme \<Rightarrow> bool" where
  comms: "comms_step s s' \<Longrightarrow> worktree_step s s'"
| create: "worktree_step s (snd (create_worktree cr s))"
| claim: "worktree_step s (snd (claim_worktree qr s))"
| release: "worktree_step s (snd (release_worktree rr s))"
| cleanup: "worktree_step s (snd (cleanup_worktree lr s))"
| spawn: "worktree_step s (snd (spawn_team_member sr s))"
| removed: "worktree_step s (snd (on_member_removed mr s))"

section \<open>One claim per session\<close>

definition active_claim :: "worktree_claim_record \<Rightarrow> bool" where
  "active_claim c \<longleftrightarrow> claim_released_at c = None"

definition single_claims :: "worktree_claim_record list \<Rightarrow> bool" where
  "single_claims cs \<longleftrightarrow>
     (\<forall>c \<in> set cs. \<forall>d \<in> set cs. active_claim c \<longrightarrow> active_claim d \<longrightarrow>
        claim_session_id c = claim_session_id d \<longrightarrow> claim_worktree_id c = claim_worktree_id d)"

abbreviation claims_of :: "('p, 'z) worktrees_scheme \<Rightarrow> worktree_claim_record list" where
  "claims_of s \<equiv> db_claims (env_db s)"

lemma set_upsert_claims:
  "set (tbl_upsert claim_key replace_row r cs) \<subseteq> insert r {c \<in> set cs. claim_key c \<noteq> claim_key r}"
  by (auto simp: tbl_upsert_def image_iff)

lemma single_released:
  assumes "single_claims cs" and "\<not> active_claim r"
  shows "single_claims (tbl_upsert claim_key replace_row r cs)"
  using assms set_upsert_claims [of r cs] unfolding single_claims_def by blast

lemma single_claimed:
  assumes "single_claims cs"
    and "\<forall>c \<in> set cs. active_claim c \<longrightarrow> claim_session_id c = claim_session_id r \<longrightarrow>
           claim_worktree_id c = claim_worktree_id r"
  shows "single_claims (tbl_upsert claim_key replace_row r cs)"
  using assms set_upsert_claims [of r cs] unfolding single_claims_def
  by (metis (no_types, lifting) insertE mem_Collect_eq subsetD)

lemma preserves_of_trees:
  assumes "\<And>v. preserves (\<lambda>s. wview s = v) m" and "\<And>s s'. wview s' = wview s \<Longrightarrow> I s' = I s"
  shows "preserves I m"
  using assms(2) keepsD [OF assms(1)] by (metis preservesI)

section \<open>What the releasing operations do\<close>

text \<open>A command that deletes a directory or a branch; the deletions of one worktree.\<close>

definition deletions :: "string \<Rightarrow> string \<Rightarrow> string \<Rightarrow> os_action set" where
  "deletions repo cwd branch = {Exec (Git repo (remove_args cwd)), Exec (Git repo (branch_delete_args branch))}"

definition destructive :: "os_action \<Rightarrow> bool" where
  "destructive a \<longleftrightarrow> (\<exists>repo cwd branch. a \<in> deletions repo cwd branch)"

definition unclaimed :: "worktree_record \<Rightarrow> ('p, 'z) worktrees_scheme \<Rightarrow> bool" where
  "unclaimed w s \<longleftrightarrow>
     w \<in> set (db_worktrees (env_db s)) \<and> wt_deletion_policy w = ''delete_on_last_claim'' \<and>
     (\<forall>c \<in> set (claims_of s). active_claim c \<longrightarrow> claim_worktree_id c \<noteq> wt_id w)"

definition ask :: "os_action \<Rightarrow> ('p, 'z) worktrees_scheme \<Rightarrow> ('p, 'z) worktrees_scheme" where
  "ask a s = s\<lparr>os_log := os_log s @ [a]\<rparr>"

definition put_claim :: "worktree_claim_record \<Rightarrow> ('p, 'z) worktrees_scheme \<Rightarrow> ('p, 'z) worktrees_scheme" where
  "put_claim c s =
     s\<lparr>env_db := (env_db s)\<lparr>db_claims := tbl_upsert claim_key replace_row c (claims_of s)\<rparr>\<rparr>"

text \<open>
  The contract of the operations that release and clean up: a property that does not depend on
  sessions and teams, is not hurt by a question to the operating system or by a claim that ends, and
  allows deleting an unclaimed worktree, survives all of them.
\<close>

locale releasing =
  fixes I :: "('p, 'z) worktrees_scheme \<Rightarrow> bool"
  assumes silent: "wview s' = wview s \<Longrightarrow> I s' = I s"
    and asked: "I s \<Longrightarrow> \<not> destructive a \<Longrightarrow> I (ask a s)"
    and ended: "I s \<Longrightarrow> \<not> active_claim c \<Longrightarrow> I (put_claim c s)"
    and deleted: "I s \<Longrightarrow> unclaimed w s \<Longrightarrow> a \<in> deletions (wt_repo_root w) (wt_cwd w) (wt_branch_name w) \<Longrightarrow>
      I (ask a s)"
begin

lemma keeps:
  assumes "\<And>v. preserves (\<lambda>s. wview s = v) m"
  shows "preserves I m"
  using assms silent by (rule preserves_of_trees)

end

lemma not_destructive [simp]:
  "\<not> destructive (PathExists p)" "\<not> destructive (CreateDirAll p)" "\<not> destructive (Exec (Shell c d))"
  "\<not> destructive (Exec (Git r (show_ref_args b)))" "\<not> destructive (Exec (Git r [''rev-parse'', x]))"
  "\<not> destructive (Exec (Git r (''worktree'' # ''add'' # xs)))"
  by (auto simp: destructive_def deletions_def remove_args_def branch_delete_args_def show_ref_args_def)

lemma deletions_mem:
  "Exec (Git repo (remove_args cwd)) \<in> deletions repo cwd branch"
  "Exec (Git repo (branch_delete_args branch)) \<in> deletions repo cwd branch"
  by (simp_all add: deletions_def)

lemma unclaimed_ask [simp]: "unclaimed w (ask a s) = unclaimed w s"
  by (simp add: unclaimed_def ask_def)

lemma unclaimed_view: "wview s' = wview s \<Longrightarrow> unclaimed w s' = unclaimed w s"
  by (simp add: unclaimed_def wview_def)

lemma unclaimed_put:
  assumes "unclaimed w s" and "\<not> active_claim c"
  shows "unclaimed w (put_claim c s)"
  using assms set_upsert_claims [of c "claims_of s"] unfolding unclaimed_def put_claim_def by auto

lemma preserves_ask:
  assumes "\<And>s. I s \<Longrightarrow> I (ask a s)" and "\<And>s. snd (m s) = ask a s"
  shows "preserves I m"
  using assms by (simp add: preserves_def)

lemma preserves_command: "(\<And>s. I s \<Longrightarrow> I (ask (Exec c) s)) \<Longrightarrow> preserves I (run_command c)"
  by (rule preserves_ask) (simp_all add: run_command_def ask_def)

lemma preserves_exists: "(\<And>s. I s \<Longrightarrow> I (ask (PathExists p) s)) \<Longrightarrow> preserves I (path_exists p)"
  by (rule preserves_ask) (simp_all add: path_exists_def ask_def)

lemma preserves_mkdir: "(\<And>s. I s \<Longrightarrow> I (ask (CreateDirAll p) s)) \<Longrightarrow> preserves I (create_dir_all p)"
  by (rule preserves_ask) (simp_all add: create_dir_all_def ask_def)

lemma preserves_git: "(\<And>s. I s \<Longrightarrow> I (ask (Exec (Git repo args)) s)) \<Longrightarrow> preserves I (run_git_for_repo repo args allowed)"
  unfolding run_git_for_repo_def Let_def by (auto intro!: preserves_intros preserves_command split: sum.splits)

lemma trees_worktree_event [preserves_intros]:
  "preserves (\<lambda>s. wview s = v) (append_worktree_event wid kind payload session team)"
  "preserves (\<lambda>s. wview s = v) (append_diagnostic op tm code msg payload)"
  "preserves (\<lambda>s. wview s = v) (record_journal op' tm' stage payload)"
  "preserves (\<lambda>s. wview s = v) ensure_worktrees_enabled"
  unfolding append_worktree_event_def append_diagnostic_def record_journal_def ensure_worktrees_enabled_def
  by (auto intro!: preserves_intros split: prod.splits)

text \<open>A write of a claim either fails and changes nothing to see, or puts the claim.\<close>

lemma write_claim_cases:
  "wview (snd (store_write (WClaim c) s)) = wview s \<or>
   wview (snd (store_write (WClaim c) s)) = wview (put_claim c s)"
  by (auto simp: store_write_def store_call_def wview_def put_claim_def Let_def
      db_upsert_managed_worktree_claim_def split: option.splits sum.splits)

text \<open>What a hydration shows is the database of the moment.\<close>

lemma hydrate_cases:
  "hydrate s = (Inr (hydrate_runtime_state (env_db s)), snd (hydrate s)) \<or> (\<exists>e. hydrate s = (Inl e, snd (hydrate s)))"
  "env_db (snd (hydrate s)) = env_db s"
  by (auto simp: hydrate_def store_call_def Let_def split: option.splits)

lemma find_SomeD: "find P xs = Some x \<Longrightarrow> x \<in> set xs \<and> P x"
  by (induction xs) (auto split: if_splits)

lemma found_worktree:
  assumes "get_worktree_from_hydrated wid (hydrate_runtime_state db) = Inr w"
  shows "w \<in> set (db_worktrees db) \<and> wt_id w = wid \<and> \<not> is_record_tombstoned w"
proof -
  have "find (\<lambda>r. wt_id r = wid \<and> \<not> is_record_tombstoned r) (select_worktrees db) = Some w"
    using assms by (simp add: get_worktree_from_hydrated_def hydrate_runtime_state_def split: option.splits)
  from find_SomeD [OF this] show ?thesis by (simp add: select_worktrees_def)
qed

lemma active_claims_none:
  "active_claims_for (hydrate_runtime_state db) wid = [] \<longleftrightarrow>
     (\<forall>c \<in> set (db_claims db). active_claim c \<longrightarrow> claim_worktree_id c \<noteq> wid)"
  by (auto simp: active_claims_for_def hydrate_runtime_state_def select_claims_def active_claim_def filter_empty_conv)

lemma unclaimed_found:
  assumes "get_worktree_from_hydrated wid (hydrate_runtime_state (env_db s)) = Inr w"
    and "active_claims_for (hydrate_runtime_state (env_db s)) (wt_id w) = []"
    and "wt_deletion_policy w = ''delete_on_last_claim''"
  shows "unclaimed w s"
  using assms found_worktree [OF assms(1)] active_claims_none by (simp add: unclaimed_def)

context releasing
begin

lemma write_ended: "\<not> active_claim c \<Longrightarrow> preserves I (store_write (WClaim c))"
  using write_claim_cases silent ended by (metis preservesI)

lemma asks:
  "preserves I (path_exists p)" "\<not> destructive (Exec c) \<Longrightarrow> preserves I (run_command c)"
  "\<not> destructive (Exec (Git r args)) \<Longrightarrow> preserves I (run_git_for_repo r args allowed)"
  by (auto intro!: preserves_exists preserves_command preserves_git asked)

lemma deletes:
  "preserves (\<lambda>s. I s \<and> unclaimed w s) (run_git_for_repo (wt_repo_root w) (remove_args (wt_cwd w)) allowed)"
  "preserves (\<lambda>s. I s \<and> unclaimed w s) (run_git_for_repo (wt_repo_root w) (branch_delete_args (wt_branch_name w)) allowed)"
  by (intro preserves_git, simp add: deleted [OF _ _ deletions_mem(1)])
     (intro preserves_git, simp add: deleted [OF _ _ deletions_mem(2)])

lemma also_unclaimed: "releasing (\<lambda>s. I s \<and> unclaimed w s)"
proof
  fix s c
  assume "I s \<and> unclaimed w s" "\<not> active_claim c"
  then show "I (put_claim c s) \<and> unclaimed w (put_claim c s)"
    by (simp add: unclaimed_put ended)
next
  fix s s' :: "('p, 'z) worktrees_scheme"
  assume "wview s' = wview s"
  then show "(I s' \<and> unclaimed w s') = (I s \<and> unclaimed w s)" using silent [of s' s] unclaimed_view [of s' s] by simp
qed (simp_all add: asked deleted)

lemma delete_path_safe: "preserves (\<lambda>s. I s \<and> unclaimed w s) (delete_path w)"
  unfolding delete_path_def
  by (auto intro!: preserves_intros releasing.asks [OF also_unclaimed] deletes split: sum.splits)

lemma delete_branch_safe: "preserves (\<lambda>s. I s \<and> unclaimed w s) (delete_branch w)"
  unfolding delete_branch_def
  by (auto intro!: preserves_intros releasing.asks [OF also_unclaimed] deletes split: sum.splits)

lemma reports:
  "preserves I (append_worktree_event wid kind payload session team)"
  "preserves I (append_diagnostic op tm code msg payload)"
  "preserves I (record_journal op' tm' stage payload)" "preserves I ensure_worktrees_enabled"
  "preserves I hydrate" "preserves I now_ms"
  by (intro keeps preserves_intros)+

lemma delete_files_safe: "preserves (\<lambda>s. I s \<and> unclaimed w s) (delete_worktree_files w reason n)"
  unfolding delete_worktree_files_def Let_def
  by (auto intro!: preserves_intros delete_path_safe delete_branch_safe releasing.reports [OF also_unclaimed]
      split: prod.splits)

lemma cleanup_safe: "preserves I (cleanup_worktree req)"
proof (rule preservesI)
  fix s
  assume s: "I s"
  let ?s = "snd (hydrate s)" and ?h = "hydrate_runtime_state (env_db s)"
  have here: "I ?s" using s reports(5) by (simp add: preserves_def)
  have "I (snd (delete_worktree_files w r n ?s))"
    if "get_worktree_from_hydrated (wlr_worktree_id req) ?h = Inr w" "active_claims_for ?h (wt_id w) = []"
      "wt_deletion_policy w = ''delete_on_last_claim''" for w r n
    using delete_files_safe here unclaimed_found [where s = ?s] that by (simp add: preserves_def hydrate_cases(2))
  then show "I (snd (cleanup_worktree req s))"
    using s here hydrate_cases(1) [of s]
    by (auto simp: cleanup_worktree_def ensure_worktrees_enabled_def monad_simps ok_def err_def Let_def
        bindE_Inr bindE_Inl split: sum.splits)
qed

lemma release_safe: "preserves I (release_worktree req)"
  unfolding release_worktree_def Let_def
  by (auto intro!: preserves_intros reports cleanup_safe write_ended simp: active_claim_def)

lemma on_member_removed_safe: "preserves I (on_member_removed req)"
  unfolding on_member_removed_def release_on_removal_def removal_diagnostic_def Let_def
  by (auto intro!: preserves_intros reports cleanup_safe write_ended simp: active_claim_def split: sum.splits)

lemma cleanup_if_created_safe: "preserves I (cleanup_if_created created reason)"
  unfolding cleanup_if_created_def by (auto intro!: preserves_intros cleanup_safe split: option.splits)

lemma rollback_diagnostic_safe: "preserves I (rollback_diagnostic op team sid code e)"
  unfolding rollback_diagnostic_def by (intro preserves_intros reports)

lemma session_and_team_safe:
  "preserves I (remove_team_member team agent)" "preserves I (close_session sid why)" "preserves I (force_close_session sid why)"
  "preserves I (create_session input)" "preserves I (set_session_worktree_id sid wt)" "preserves I (join_team jreq)"
  "preserves I (send_direct dreq)" "preserves I (get_session sid)" "preserves I allocate_operation_id"
  by (intro keeps preserves_intros)+

lemma rollback_safe:
  "preserves I (rollback_spawn_after_join team op sid assigned created reason message payload)"
  unfolding rollback_spawn_after_join_def rollback_membership_def rollback_session_def
  by (auto intro!: preserves_intros reports release_safe cleanup_if_created_safe rollback_diagnostic_safe session_and_team_safe
      split: sum.splits option.splits)

end

section \<open>One claim per session, in every step\<close>

lemma single_view: "wview s' = wview s \<Longrightarrow> single_claims (claims_of s') = single_claims (claims_of s)"
  by (simp add: wview_def)

interpretation one: releasing "\<lambda>s. single_claims (claims_of s)"
proof
  fix s :: "('p, 'z) worktrees_scheme" and c
  assume "single_claims (claims_of s)" "\<not> active_claim c"
  then show "single_claims (claims_of (put_claim c s))" by (simp add: put_claim_def single_released)
qed (rule single_view, assumption, simp_all add: ask_def)

lemma single_write_worktree: "preserves (\<lambda>s. single_claims (claims_of s)) (store_write (WWorktree r))"
  by (auto simp: preserves_def store_write_def store_call_def db_upsert_managed_worktree_def Let_def
      split: option.splits)

lemma single_upsert: "preserves (\<lambda>s. single_claims (claims_of s)) (upsert_worktree_record wid planned policy x y)"
  unfolding upsert_worktree_record_def by (intro preserves_intros one.reports single_write_worktree)

lemma single_os:
  "preserves (\<lambda>s. single_claims (claims_of s)) (run_git_for_repo r args allowed)"
  "preserves (\<lambda>s. single_claims (claims_of s)) (run_command c)"
  "preserves (\<lambda>s. single_claims (claims_of s)) (path_exists p)"
  "preserves (\<lambda>s. single_claims (claims_of s)) (create_dir_all p)"
  by (intro preserves_git preserves_command preserves_exists preserves_mkdir, simp add: ask_def)+

lemma single_lookup:
  "preserves (\<lambda>s. single_claims (claims_of s)) (has_live_artifacts_for_record r)"
  "preserves (\<lambda>s. single_claims (claims_of s)) (resolve_repo_root_from_source_cwd cwd)"
  unfolding has_live_artifacts_for_record_def branch_exists_for_record_def resolve_repo_root_from_source_cwd_def Let_def
  by (auto intro!: preserves_intros single_os split: sum.splits prod.splits)

lemma single_counters:
  "preserves (\<lambda>s. single_claims (claims_of s)) allocate_worktree_id"
  by (intro one.keeps preserves_intros)

lemma single_create: "preserves (\<lambda>s. single_claims (claims_of s)) (create_worktree req)"
  unfolding create_worktree_def requested_repo_root_def reusable_worktree_def git_add_worktree_def run_init_or_undo_def
    run_worktree_init_script_def record_new_worktree_def Let_def
  by (auto intro!: preserves_intros one.reports one.session_and_team_safe single_os single_lookup single_upsert single_counters
      split: option.splits sum.splits prod.splits)

lemma single_put:
  assumes "single_claims (claims_of s)" and "conflicting_claim (hydrate_runtime_state (env_db s)) req = None"
    and "claim_session_id c = wqr_session_id req" "claim_worktree_id c = wqr_worktree_id req"
  shows "single_claims (claims_of (snd (store_write (WClaim c) s)))"
proof -
  have "\<forall>d \<in> set (claims_of s). active_claim d \<longrightarrow> claim_session_id d = wqr_session_id req \<longrightarrow>
      claim_worktree_id d = wqr_worktree_id req"
    using assms(2) by (auto simp: conflicting_claim_def find_None_iff hydrate_runtime_state_def select_claims_def active_claim_def)
  then have "single_claims (claims_of (put_claim c s))"
    using assms by (simp add: put_claim_def single_claimed)
  then show ?thesis using write_claim_cases [of c s] assms(1) by (auto simp: wview_def)
qed

lemma preserves_after: "I (snd (m s)) \<Longrightarrow> (\<And>x. preserves I (f x)) \<Longrightarrow> I (snd (bindE m f s))"
  by (auto simp: bindE_def preserves_def split: prod.splits sum.splits)

lemma single_claim: "preserves (\<lambda>s. single_claims (claims_of s)) (claim_worktree req)"
proof (rule preservesI)
  fix s :: "('p, 'z) worktrees_scheme"
  assume s: "single_claims (claims_of s)"
  let ?s = "snd (hydrate s)" and ?h = "hydrate_runtime_state (env_db s)"
  have here: "env_db ?s = env_db s" by (rule hydrate_cases)
  have rest: "single_claims (claims_of (snd (bindE (store_write (WClaim c)) f t)))"
    if "conflicting_claim ?h req = None" "env_db t = env_db s" "\<And>x. preserves (\<lambda>s. single_claims (claims_of s)) (f x)"
      "claim_session_id c = wqr_session_id req" "claim_worktree_id c = wqr_worktree_id req"
    for c t and f :: "unit \<Rightarrow> (('p, 'z) worktrees_scheme, runtime_error, worktree_claim_response) rt"
  proof (rule preserves_after [where I = "\<lambda>s. single_claims (claims_of s)", OF _ that(3)])
    show "single_claims (claims_of (snd (store_write (WClaim c) t)))"
      by (rule single_put [of t req]) (simp_all add: s that)
  qed
  show "single_claims (claims_of (snd (claim_worktree req s)))"
    using s here hydrate_cases(1) [of s]
    by (auto simp: claim_worktree_def ensure_worktrees_enabled_def monad_simps ok_def err_def Let_def bindE_Inr bindE_Inl
        intro!: rest preserves_intros one.reports split: sum.splits option.splits)
qed

lemma single_assign: "preserves (\<lambda>s. single_claims (claims_of s)) (assign_worktree req team op source cwd)"
  unfolding assign_worktree_def reuse_worktree_def Let_def
  by (auto intro!: preserves_intros one.reports single_lookup single_create single_os single_upsert single_counters
      split: option.splits)

lemma single_spawn: "preserves (\<lambda>s. single_claims (claims_of s)) (spawn_team_member req)"
  unfolding spawn_team_member_def spawn_session_def attach_worktree_def spawn_join_def spawn_finish_def spawn_claim_def
    spawn_onboard_def Let_def
  by (auto intro!: preserves_intros one.reports one.session_and_team_safe one.cleanup_if_created_safe one.rollback_safe
      one.rollback_diagnostic_safe single_assign single_claim split: option.splits sum.splits)

lemma worktree_step_single:
  assumes "worktree_step s s'" and "single_claims (claims_of s)"
  shows "single_claims (claims_of s')"
  using assms
proof cases
  case comms
  then show ?thesis using single_view [OF comms_step_trees [OF comms]] assms(2) by simp
qed (use assms in \<open>simp_all add: preserves_at [where I = "\<lambda>s. single_claims (claims_of s)"] single_create single_claim
    one.release_safe one.cleanup_safe single_spawn one.on_member_removed_safe\<close>)

lemma worktree_steps_single:
  "worktree_step\<^sup>*\<^sup>* s s' \<Longrightarrow> single_claims (claims_of s) \<Longrightarrow> single_claims (claims_of s')"
  by (induction rule: rtranclp_induct) (auto dest: worktree_step_single)

end
