(* ===== verification/Worktree_Settling.thy ===== *)
theory Worktree_Settling
  imports Worktree_Claims
begin

text \<open>
  What \<open>repair_startup_state\<close> makes of the stored claims: after the start of the service a session
  holds at most one worktree. The claims are grouped under their keys, a session's claims but one
  are released, and every stored row is overwritten by a grouped claim or by a released one.
\<close>

section \<open>Grouping the claims\<close>

definition keyed :: "claim_map \<Rightarrow> bool" where
  "keyed m \<longleftrightarrow> hm_wf m \<and> (\<forall>k c. hget m k = Some c \<longrightarrow> claim_key c = k)"

lemma keyed_insert: "keyed m \<Longrightarrow> claim_key c = k \<Longrightarrow> keyed (hinsert k c m)"
  by (simp add: keyed_def)

lemma claim_key_released [simp]: "claim_key (release_if_active now c) = claim_key c"
  by (simp add: release_if_active_def claim_key_def)

lemma claim_key_merged [simp]: "claim_key (merge_claim e c) = claim_key e"
  by (simp add: merge_claim_def claim_key_def)

lemma released_inactive [simp]: "\<not> active_claim (release_if_active now c)"
  by (simp add: release_if_active_def active_claim_def)

lemma keyed_file: "keyed m \<Longrightarrow> keyed (file_claim c m)"
  by (auto simp: file_claim_def keyed_def simp del: split_paired_All split: option.splits)

lemma group_claims_keyed: "keyed (fst (fold (group_claim g ids now) cs ([], [])))"
  by (rule fold_invariant [where Q = "\<lambda>_. True" and P = "\<lambda>acc. keyed (fst acc)"])
     (simp_all add: group_claim_def Let_def keyed_file, simp add: keyed_def)

lemma group_claims_released: "\<forall>c \<in> set (snd (fold (group_claim g ids now) cs ([], []))). \<not> active_claim c"
  by (rule fold_invariant [where Q = "\<lambda>_. True" and P = "\<lambda>acc. \<forall>c \<in> set (snd acc). \<not> active_claim c"])
     (auto simp: group_claim_def Let_def)

text \<open>The keys that will be written.\<close>

definition written :: "claim_map \<times> worktree_claim_record list \<Rightarrow> (string \<times> string) set" where
  "written acc = {k. hcontains (fst acc) k} \<union> claim_key ` set (snd acc)"

definition trimmed_claim :: "worktree_claim_record \<Rightarrow> bool" where
  "trimmed_claim c \<longleftrightarrow> trim (claim_worktree_id c) = claim_worktree_id c \<and> trim (claim_session_id c) = claim_session_id c"

lemma claim_key_normalized: "trimmed_claim c \<Longrightarrow> claim_key (normalize_claim c) = claim_key c"
  by (simp add: trimmed_claim_def normalize_claim_def claim_key_def Let_def)

lemma group_claim_written: "written acc \<subseteq> written (group_claim g ids now c acc)"
  by (auto simp: group_claim_def written_def hcontains_def file_claim_def Let_def)

lemma claim_key_checked [simp]: "claim_key (checked_claim g ids now c) = claim_key c"
  by (simp add: checked_claim_def)

lemma group_claim_writes:
  assumes "trimmed_claim c"
  shows "claim_key c \<in> written (group_claim g ids now c acc)"
  using claim_key_normalized [OF assms]
  by (auto simp: group_claim_def written_def hcontains_def file_claim_def moved_claim_def Let_def)

lemma fold_written: "written acc \<subseteq> written (fold (group_claim g ids now) cs acc)"
proof (induction cs arbitrary: acc)
  case (Cons c cs)
  show ?case using subset_trans [OF group_claim_written Cons.IH] by simp
qed simp

lemma group_claims_write:
  assumes "\<forall>c \<in> set cs. trimmed_claim c"
  shows "claim_key ` set cs \<subseteq> written (fold (group_claim g ids now) cs acc)"
  using assms
proof (induction cs arbitrary: acc)
  case (Cons c cs)
  have "claim_key c \<in> written (fold (group_claim g ids now) cs (group_claim g ids now c acc))"
    using group_claim_writes [of c] Cons.prems fold_written by (metis list.set_intros(1) subsetD)
  then show ?case using Cons by simp
qed simp

section \<open>Settling the sessions\<close>

definition active_in :: "claim_map \<Rightarrow> worktree_claim_record set" where
  "active_in m = {c. active_claim c \<and> (\<exists>k. hget m k = Some c)}"

lemma release_claim_active:
  assumes "keyed m"
  shows "keyed (release_claim now l m) \<and> active_in (release_claim now l m) \<subseteq> {c \<in> active_in m. claim_key c \<noteq> claim_key l}"
proof (cases "hget m (claim_key l)")
  case None
  then show ?thesis using assms by (auto simp: release_claim_def active_in_def keyed_def simp del: split_paired_All split_paired_Ex)
next
  case (Some e)
  have "claim_key e = claim_key l" using assms Some by (simp add: keyed_def del: split_paired_All)
  then have "keyed (release_claim now l m)" using assms Some by (simp add: release_claim_def keyed_insert)
  moreover have "active_in (release_claim now l m) \<subseteq> {c \<in> active_in m. claim_key c \<noteq> claim_key l}"
    using assms Some by (auto simp: release_claim_def active_in_def keyed_def simp del: split_paired_All split_paired_Ex split: if_splits)
  ultimately show ?thesis by simp
qed

lemma release_claims_active:
  assumes "keyed m"
  shows "keyed (fold (release_claim now) ls m) \<and>
    active_in (fold (release_claim now) ls m) \<subseteq> {c \<in> active_in m. claim_key c \<notin> claim_key ` set ls}"
  using assms
proof (induction ls arbitrary: m)
  case (Cons l ls)
  have one: "keyed (release_claim now l m)"
    "active_in (release_claim now l m) \<subseteq> {c \<in> active_in m. claim_key c \<noteq> claim_key l}"
    using release_claim_active [OF Cons.prems] by auto
  show ?case using Cons.IH [OF one(1)] one(2) by auto
qed simp

lemma settle_active:
  assumes "keyed m"
  shows "keyed (fold (\<lambda>cs m. fold (release_claim now) (lo cs) m) groups m) \<and>
    active_in (fold (\<lambda>cs m. fold (release_claim now) (lo cs) m) groups m) \<subseteq>
      {c \<in> active_in m. \<forall>cs \<in> set groups. claim_key c \<notin> claim_key ` set (lo cs)}"
  using assms
proof (induction groups arbitrary: m)
  case (Cons cs groups)
  have one: "keyed (fold (release_claim now) (lo cs) m)"
    "active_in (fold (release_claim now) (lo cs) m) \<subseteq> {c \<in> active_in m. claim_key c \<notin> claim_key ` set (lo cs)}"
    using release_claims_active [OF Cons.prems] by auto
  show ?case using Cons.IH [OF one(1)] one(2) unfolding fold_simps list.set by blast
qed simp

lemma release_contains: "hcontains (fold (release_claim now) ls m) k = hcontains m k"
  by (induction ls arbitrary: m) (auto simp: release_claim_def hcontains_def split: option.splits)

lemma settle_contains: "hcontains (settle_sessions g now m) k = hcontains m k"
proof -
  have "hcontains (fold (\<lambda>cs m. fold (release_claim now) (losing_claims g cs) m) groups m) k = hcontains m k" for groups
    by (induction groups arbitrary: m) (simp_all add: release_contains)
  then show ?thesis by (simp add: settle_sessions_def)
qed

lemma fold_entries:
  "(case hget (fold (\<lambda>c m. if P c then hentry [] (f c) (\<lambda>cs. cs @ [c]) m else m) xs m) k of None \<Rightarrow> [] | Some cs \<Rightarrow> cs) =
   (case hget m k of None \<Rightarrow> [] | Some cs \<Rightarrow> cs) @ filter (\<lambda>c. P c \<and> f c = k) xs"
  by (induction xs arbitrary: m) (auto split: option.splits)

lemma hm_wf_fold_entries:
  "hm_wf m \<Longrightarrow> hm_wf (fold (\<lambda>c m. if P c then hentry [] (f c) (\<lambda>cs. cs @ [c]) m else m) xs m)"
  by (induction xs arbitrary: m) (simp_all add: hentry_def)

lemma btree_values_set: "hm_wf m \<Longrightarrow> set (btree_values m) = {v. \<exists>k. hget m k = Some v}"
  using hvalues_hget [of m] by (auto simp: btree_values_def hvalues_def)

lemma session_group:
  assumes "c \<in> set (btree_values m)" and "active_claim c"
  shows "filter (\<lambda>d. active_claim d \<and> claim_session_id d = claim_session_id c) (btree_values m)
    \<in> set (btree_values (active_claims_by_session m))"
proof -
  let ?g = "active_claims_by_session m"
  let ?cs = "filter (\<lambda>d. active_claim d \<and> claim_session_id d = claim_session_id c) (btree_values m)"
  have "(case hget ?g (claim_session_id c) of None \<Rightarrow> [] | Some cs \<Rightarrow> cs) = ?cs"
    unfolding active_claims_by_session_def active_claim_def by (subst fold_entries) simp
  moreover have "c \<in> set ?cs" using assms by simp
  ultimately have "hget ?g (claim_session_id c) = Some ?cs"
    by (cases "hget ?g (claim_session_id c)") auto
  moreover have "hm_wf ?g" unfolding active_claims_by_session_def by (rule hm_wf_fold_entries) simp
  ultimately show ?thesis by (auto simp: btree_values_set)
qed

lemma not_dropped: "distinct ys \<Longrightarrow> x \<in> set ys \<Longrightarrow> x \<notin> set (drop 1 ys) \<Longrightarrow> x = hd ys"
  by (cases ys) auto

lemma distinct_btree_values:
  assumes "hm_wf m" and "keyed m"
  shows "distinct (btree_values m)"
proof -
  have "claim_key v = k" if "(k, v) \<in> set m" for k v
    using that assms by (simp add: keyed_def hm_wf_def hget_def map_of_eq_Some_iff del: split_paired_All)
  then have "inj_on snd (set m)" by (intro inj_onI) (metis prod.collapse)
  moreover have "distinct m" using assms(1) by (simp add: hm_wf_def distinct_map)
  ultimately show ?thesis by (simp add: btree_values_def distinct_map)
qed

text \<open>Of the claims that are still active, a session has one.\<close>

lemma settled_single:
  assumes "keyed m" and "c \<in> active_in (settle_sessions g now m)" "d \<in> active_in (settle_sessions g now m)"
    and "claim_session_id c = claim_session_id d"
  shows "c = d"
proof -
  let ?groups = "btree_values (active_claims_by_session m)"
  let ?cs = "filter (\<lambda>e. active_claim e \<and> claim_session_id e = claim_session_id c) (btree_values m)"
  let ?key = "\<lambda>c. (winner_created_at g (claim_worktree_id c), claim_worktree_id c)"
  have sub: "active_in (settle_sessions g now m) \<subseteq> {c \<in> active_in m. \<forall>cs \<in> set ?groups. claim_key c \<notin> claim_key ` set (losing_claims g cs)}"
    using settle_active [OF assms(1)] unfolding settle_sessions_def by blast
  have wf: "hm_wf m" using assms(1) by (simp add: keyed_def)
  have mem: "x \<in> set ?cs" "x \<notin> set (losing_claims g ?cs)"
    if "x \<in> active_in (settle_sessions g now m)" "claim_session_id x = claim_session_id c" for x
  proof -
    have x: "x \<in> active_in m" using sub that by blast
    then show "x \<in> set ?cs" using that(2) wf by (auto simp: active_in_def btree_values_set simp del: split_paired_Ex)
    have "c \<in> active_in m" using sub assms(2) by blast
    then have "?cs \<in> set ?groups" using wf by (intro session_group) (auto simp: active_in_def btree_values_set simp del: split_paired_Ex)
    then show "x \<notin> set (losing_claims g ?cs)" using sub that(1) by blast
  qed
  have "distinct (btree_values m)"
    using wf assms(1) by (rule distinct_btree_values)
  then have sorted: "distinct (sort_key ?key ?cs)" by simp
  have only: "x = hd (sort_key ?key ?cs)"
    if "x \<in> active_in (settle_sessions g now m)" "claim_session_id x = claim_session_id c" for x
    by (rule not_dropped [OF sorted]) (use mem [OF that] in \<open>simp_all add: losing_claims_def\<close>)
  show ?thesis using only [OF assms(2) refl] only [OF assms(3)] assms(4) by simp
qed

section \<open>Writing the claims back\<close>

lemma write_claims_set:
  assumes "for_each cs (\<lambda>c. store_write (WClaim c)) s = (Inr u, s')"
  shows "set (db_claims (env_db s')) \<subseteq>
    set cs \<union> {c \<in> set (db_claims (env_db s)). claim_key c \<notin> claim_key ` set cs}"
  using assms
proof (induction cs arbitrary: s)
  case Nil
  then show ?case by (simp add: ok_def)
next
  case (Cons c cs)
  obtain s1 where one: "store_write (WClaim c) s = (Inr (), s1)"
    and rest: "for_each cs (\<lambda>c. store_write (WClaim c)) s1 = (Inr u, s')"
    using Cons.prems by (auto simp: bindE_eq_Inr)
  have "db_claims (env_db s1) = tbl_upsert claim_key replace_row c (db_claims (env_db s))"
    using one by (auto simp: store_write_def store_call_def Let_def db_upsert_managed_worktree_claim_def
        split: option.splits sum.splits if_splits)
  then show ?case using Cons.IH [OF rest] set_upsert_claims [of c "db_claims (env_db s)"] by fastforce
qed

lemma write_trees_claims:
  "for_each ws (\<lambda>w. store_write (WWorktree w)) s = (r, s') \<Longrightarrow> db_claims (env_db s') = db_claims (env_db s)"
proof -
  have "preserves (\<lambda>s. db_claims (env_db s) = v) (store_write (WWorktree w))" for v w
    by (auto simp: preserves_def store_write_def store_call_def db_upsert_managed_worktree_def Let_def split: option.splits)
  then have "preserves (\<lambda>s. db_claims (env_db s) = v) (for_each ws (\<lambda>w. store_write (WWorktree w)))" for v
    by (intro preserves_intros)
  then show "for_each ws (\<lambda>w. store_write (WWorktree w)) s = (r, s') \<Longrightarrow> db_claims (env_db s') = db_claims (env_db s)"
    by (auto dest: preservesD)
qed

lemma repair_claims:
  assumes "repair_startup_state (hydrate_runtime_state (env_db s)) s = (Inr u, s')"
    and trimmed: "\<forall>c \<in> set (db_claims (env_db s)). trimmed_claim c"
  shows "single_claims (db_claims (env_db s'))"
proof -
  let ?h = "hydrate_runtime_state (env_db s)" and ?now = "env_clock s (env_clock_reads s)"
  let ?g = "group_records ?h"
  obtain by_key changed where groups: "group_claims ?g ?h ?now = (by_key, changed)" by fastforce
  let ?m = "settle_sessions ?g ?now by_key"
  obtain s1 s2 where before: "db_claims (env_db s1) = db_claims (env_db s)"
    and first: "for_each (btree_values ?m) (\<lambda>c. store_write (WClaim c)) s1 = (Inr (), s2)"
    and second: "for_each changed (\<lambda>c. store_write (WClaim c)) s2 = (Inr u, s')"
    using assms(1) groups by (auto simp: repair_startup_state_def Let_def monad_simps bindE_eq_Inr dest!: write_trees_claims)
  have keyed: "keyed by_key" using group_claims_keyed groups unfolding group_claims_def by (metis fst_conv)
  have m: "keyed ?m" "active_in ?m \<subseteq> active_in by_key"
    using settle_active [OF keyed] unfolding settle_sessions_def by blast+
  have released: "\<forall>c \<in> set changed. \<not> active_claim c"
    using group_claims_released groups unfolding group_claims_def by (metis snd_conv)
  have "set (hyd_claims ?h) = set (db_claims (env_db s))" by (simp add: hydrate_runtime_state_def select_claims_def)
  then have covered: "claim_key ` set (db_claims (env_db s)) \<subseteq> written (by_key, changed)"
    using group_claims_write [of "hyd_claims ?h"] trimmed groups unfolding group_claims_def by metis
  have vals: "set (btree_values ?m) = {c. \<exists>k. hget ?m k = Some c}" using m(1) by (simp add: keyed_def btree_values_set)
  have active: "c \<in> active_in ?m" if c: "c \<in> set (db_claims (env_db s'))" "active_claim c" for c
  proof (rule ccontr)
    assume "c \<notin> active_in ?m"
    then have "c \<notin> set (btree_values ?m)" using c(2) vals by (simp add: active_in_def)
    then have old: "c \<in> set (db_claims (env_db s))" "claim_key c \<notin> claim_key ` set (btree_values ?m)"
      "claim_key c \<notin> claim_key ` set changed"
      using c released before write_claims_set [OF first] write_claims_set [OF second] by auto
    then have "hcontains ?m (claim_key c)" using covered by (auto simp: written_def settle_contains)
    then obtain d where "hget ?m (claim_key c) = Some d" by (auto simp: hcontains_def)
    then have "claim_key c \<in> claim_key ` set (btree_values ?m)"
      using m(1) vals by (metis (mono_tags, lifting) image_eqI keyed_def mem_Collect_eq)
    with old show False by simp
  qed
  show ?thesis
    unfolding single_claims_def using active settled_single [OF keyed] by blast
qed

end
