(* ===== verification/Worktree_Deletion.thy ===== *)
theory Worktree_Deletion
  imports Worktree_Claims
begin

text \<open>
  Which files the worktree service deletes. Every step of the runtime runs \<open>git worktree remove\<close> and
  \<open>git branch -D\<close> only for a worktree that is stored with the policy to delete it and that no
  session holds, or for one the same step has just added.
\<close>

section \<open>Operations that only fail\<close>

definition fails :: "('s, 'e, 'a) rt \<Rightarrow> bool" where
  "fails m \<longleftrightarrow> (\<forall>s. isl (fst (m s)))"

lemma fails_err: "fails (err e)"
  by (simp add: fails_def err_def)

lemma fails_bindE: "(\<And>x. fails (f x)) \<Longrightarrow> fails (bindE m f)"
  by (auto simp: fails_def bindE_def split: prod.splits sum.splits)

lemmas fails_intros = fails_bindE fails_err

lemma ensures_fails:
  assumes "fails m" and "preserves G m" and "\<And>s. P s \<Longrightarrow> G s"
  shows "ensures P m Q G"
  unfolding ensures_def
proof (intro allI impI)
  fix s assume "P s"
  then have "G (snd (m s))" "isl (fst (m s))" using assms by (auto simp: preserves_def fails_def)
  then show "case m s of (Inl _, s') \<Rightarrow> G s' | (Inr x, s') \<Rightarrow> Q x s'" by (auto split: prod.splits sum.splits)
qed

lemma ensures_keeps:
  assumes "preserves P m" and "\<And>s. P s \<Longrightarrow> G s"
  shows "ensures P m (\<lambda>_. P) G"
  unfolding ensures_def
proof (intro allI impI)
  fix s assume "P s"
  then have "P (snd (m s))" using assms by (auto simp: preserves_def)
  then show "case m s of (Inl _, s') \<Rightarrow> G s' | (Inr _, s') \<Rightarrow> P s'" using assms(2) by (auto split: prod.splits sum.splits)
qed

lemma ensures_seq:
  "preserves P m \<Longrightarrow> (\<And>s. P s \<Longrightarrow> E s) \<Longrightarrow> (\<And>x. ensures P (f x) Q E) \<Longrightarrow> ensures P (bindE m f) Q E"
  by (rule ensures_bindE [OF ensures_keeps])

lemma ensures_err: "(\<And>s. P s \<Longrightarrow> E s) \<Longrightarrow> ensures P (err e) Q E"
  by (simp add: ensures_def err_def)

lemma ensures_ok: "ensures P (ok x) (\<lambda>_. P) E"
  by (simp add: ensures_def ok_def)

lemma ensures_snd:
  assumes "ensures P m (\<lambda>_. Q) E" and "P s" and "\<And>s. Q s \<Longrightarrow> E s"
  shows "E (snd (m s))"
proof (cases "m s")
  case (Pair r s')
  then show ?thesis using assms by (cases r) (auto simp: ensures_def split: prod.splits)
qed

lemma ensures_if:
  "(b \<Longrightarrow> ensures P m Q E) \<Longrightarrow> (\<not> b \<Longrightarrow> ensures P n Q E) \<Longrightarrow> ensures P (if b then m else n) Q E"
  by simp

lemma ensures_option:
  "(x = None \<Longrightarrow> ensures P m Q E) \<Longrightarrow> (\<And>y. x = Some y \<Longrightarrow> ensures P (f y) Q E) \<Longrightarrow>
   ensures P (case x of None \<Rightarrow> m | Some y \<Rightarrow> f y) Q E"
  by (cases x) auto

lemma ensures_sum:
  "(\<And>y. x = Inl y \<Longrightarrow> ensures P (f y) Q E) \<Longrightarrow> (\<And>y. x = Inr y \<Longrightarrow> ensures P (g y) Q E) \<Longrightarrow>
   ensures P (case x of Inl y \<Rightarrow> f y | Inr y \<Rightarrow> g y) Q E"
  by (cases x) auto

section \<open>New questions to the operating system\<close>

definition new_actions :: "('p, 'z) worktrees_scheme \<Rightarrow> ('p, 'z) worktrees_scheme \<Rightarrow> os_action list" where
  "new_actions s0 s = drop (length (os_log s0)) (os_log s)"

definition grown :: "('p, 'z) worktrees_scheme \<Rightarrow> ('p, 'z) worktrees_scheme \<Rightarrow> bool" where
  "grown s0 s \<longleftrightarrow> os_log s = os_log s0 @ new_actions s0 s"

definition add_args :: "string \<Rightarrow> string \<Rightarrow> string list" where
  "add_args cwd branch = [''worktree'', ''add'', ''-b'', branch, cwd]"

definition just_added :: "string \<Rightarrow> string \<Rightarrow> string \<Rightarrow> os_action list \<Rightarrow> bool" where
  "just_added repo cwd branch acts \<longleftrightarrow> (\<exists>base. Exec (Git repo (add_args cwd branch @ base)) \<in> set acts)"

definition undoes :: "os_action \<Rightarrow> os_action list \<Rightarrow> bool" where
  "undoes a acts \<longleftrightarrow> (\<exists>repo cwd branch. a \<in> deletions repo cwd branch \<and> just_added repo cwd branch acts)"

definition cleans :: "os_action \<Rightarrow> ('p, 'z) worktrees_scheme \<Rightarrow> bool" where
  "cleans a s \<longleftrightarrow> (\<exists>w. unclaimed w s \<and> a \<in> deletions (wt_repo_root w) (wt_cwd w) (wt_branch_name w))"

text \<open>Only undoing, and undoing or cleaning up.\<close>

definition own :: "('p, 'z) worktrees_scheme \<Rightarrow> ('p, 'z) worktrees_scheme \<Rightarrow> bool" where
  "own s0 s \<longleftrightarrow> grown s0 s \<and> (\<forall>a \<in> set (new_actions s0 s). destructive a \<longrightarrow> undoes a (new_actions s0 s))"

definition guarded :: "('p, 'z) worktrees_scheme \<Rightarrow> ('p, 'z) worktrees_scheme \<Rightarrow> bool" where
  "guarded s0 s \<longleftrightarrow> grown s0 s \<and>
     (\<forall>a \<in> set (new_actions s0 s). destructive a \<longrightarrow> undoes a (new_actions s0 s) \<or> cleans a s)"

lemma own_guarded: "own s0 s \<Longrightarrow> guarded s0 s"
  by (auto simp: own_def guarded_def)

lemma own_refl: "own s s"
  by (simp add: own_def grown_def new_actions_def)

lemma just_added_mono: "just_added r c b acts \<Longrightarrow> just_added r c b (acts @ acts2)"
  by (auto simp: just_added_def)

lemma undoes_mono: "undoes a acts \<Longrightarrow> undoes a (acts @ acts2)"
  unfolding undoes_def using just_added_mono by blast

lemma new_actions_ask:
  assumes "grown s0 s"
  shows "new_actions s0 (ask a s) = new_actions s0 s @ [a]" and "grown s0 (ask a s)"
proof -
  have "os_log (ask a s) = os_log s0 @ (new_actions s0 s @ [a])"
    using assms unfolding grown_def by (simp add: ask_def)
  then show "new_actions s0 (ask a s) = new_actions s0 s @ [a]" by (simp add: new_actions_def)
  with \<open>os_log (ask a s) = _\<close> show "grown s0 (ask a s)" by (simp add: grown_def)
qed

section \<open>The two guards\<close>

lemma own_ask:
  assumes "own s0 s" and "destructive a \<Longrightarrow> undoes a (new_actions s0 s)"
  shows "own s0 (ask a s)"
  using assms new_actions_ask [of s0 s a] undoes_mono [of _ "new_actions s0 s" "[a]"] by (auto simp: own_def)

lemma guarded_ask:
  assumes "guarded s0 s" and "destructive a \<Longrightarrow> cleans a s"
  shows "guarded s0 (ask a s)"
  using assms new_actions_ask [of s0 s a] undoes_mono [of _ "new_actions s0 s" "[a]"]
  by (auto simp: guarded_def cleans_def)

lemma own_view: "wview s' = wview s \<Longrightarrow> own s0 s' = own s0 s"
  by (simp add: own_def grown_def new_actions_def wview_def)

lemma guarded_view: "wview s' = wview s \<Longrightarrow> guarded s0 s' = guarded s0 s"
proof -
  assume v: "wview s' = wview s"
  have "cleans a s' = cleans a s" for a using unclaimed_view [OF v] by (simp add: cleans_def)
  moreover have "os_log s' = os_log s" using v by (simp add: wview_def)
  ultimately show ?thesis by (simp add: guarded_def grown_def new_actions_def)
qed

lemma cleans_put: "cleans a s \<Longrightarrow> \<not> active_claim c \<Longrightarrow> cleans a (put_claim c s)"
  using unclaimed_put by (auto simp: cleans_def)

interpretation guard: releasing "guarded s0" for s0
proof
  fix s c
  assume "guarded s0 s" "\<not> active_claim c"
  moreover have "os_log (put_claim c s) = os_log s" by (simp add: put_claim_def)
  ultimately show "guarded s0 (put_claim c s)"
    using cleans_put by (auto simp: guarded_def grown_def new_actions_def)
next
  fix s a
  assume "guarded s0 s" "\<not> destructive a"
  then show "guarded s0 (ask a s)" by (intro guarded_ask) simp_all
next
  fix s w a
  assume "guarded s0 s" "unclaimed w s" "a \<in> deletions (wt_repo_root w) (wt_cwd w) (wt_branch_name w)"
  then show "guarded s0 (ask a s)" by (intro guarded_ask) (auto simp: cleans_def)
qed (rule guarded_view)

text \<open>Whatever leaves the log alone keeps \<open>own\<close>.\<close>

lemma own_silent:
  assumes "\<And>s. os_log (snd (m s)) = os_log s"
  shows "preserves (own s0) m"
  using assms by (simp add: preserves_def own_def grown_def new_actions_def)

lemma own_keeps:
  assumes "\<And>v. preserves (\<lambda>s. wview s = v) m"
  shows "preserves (own s0) m"
  using assms own_view by (rule preserves_of_trees)

lemma own_store_write: "preserves (own s0) (store_write w)"
  by (rule own_silent) (auto simp: store_write_def store_call_def Let_def split: option.splits sum.splits)

lemma own_os:
  "preserves (own s0) (path_exists p)" "preserves (own s0) (create_dir_all p)"
  "\<not> destructive (Exec c) \<Longrightarrow> preserves (own s0) (run_command c)"
  "\<not> destructive (Exec (Git r args)) \<Longrightarrow> preserves (own s0) (run_git_for_repo r args allowed)"
  by (auto intro!: preserves_exists preserves_mkdir preserves_command preserves_git own_ask)

lemma own_others:
  "preserves (own s0) (append_worktree_event wid kind payload session team)"
  "preserves (own s0) (append_diagnostic op tm code msg payload)"
  "preserves (own s0) (record_journal op' tm' stage payload)" "preserves (own s0) ensure_worktrees_enabled"
  "preserves (own s0) hydrate" "preserves (own s0) now_ms"
  "preserves (own s0) (close_session sid why)" "preserves (own s0) (create_session input)"
  "preserves (own s0) (set_session_worktree_id sid wt)" "preserves (own s0) (join_team jreq)"
  "preserves (own s0) (send_direct dreq)" "preserves (own s0) (get_session sid)"
  "preserves (own s0) allocate_operation_id" "preserves (own s0) allocate_worktree_id"
  by (intro own_keeps preserves_intros)+

lemma own_records:
  "preserves (own s0) (upsert_worktree_record wid planned policy x y)"
  "preserves (own s0) (has_live_artifacts_for_record r)"
  "preserves (own s0) (resolve_repo_root_from_source_cwd cwd)"
  "preserves (own s0) (claim_worktree qr)"
  unfolding upsert_worktree_record_def has_live_artifacts_for_record_def branch_exists_for_record_def
    resolve_repo_root_from_source_cwd_def claim_worktree_def Let_def
  by (auto intro!: preserves_intros own_os own_others own_store_write split: sum.splits prod.splits option.splits)

section \<open>Creating and undoing\<close>

definition own_added :: "('p, 'z) worktrees_scheme \<Rightarrow> planned_paths \<Rightarrow> ('p, 'z) worktrees_scheme \<Rightarrow> bool" where
  "own_added s0 p s \<longleftrightarrow>
     own s0 s \<and> just_added (pl_repo_root p) (pl_worktree_cwd p) (pl_branch_name p) (new_actions s0 s)"

lemma own_added_ask:
  assumes "own_added s0 p s"
    and "destructive a \<Longrightarrow> a \<in> deletions (pl_repo_root p) (pl_worktree_cwd p) (pl_branch_name p)"
  shows "own_added s0 p (ask a s)"
proof -
  have "own s0 s" "grown s0 s" using assms by (auto simp: own_added_def own_def)
  moreover have "destructive a \<Longrightarrow> undoes a (new_actions s0 s)"
    using assms unfolding own_added_def undoes_def by blast
  ultimately show ?thesis
    using assms(1) own_ask [of s0 s a] new_actions_ask [of s0 s a]
      just_added_mono [of _ _ _ "new_actions s0 s" "[a]"]
    by (auto simp: own_added_def)
qed

lemma own_added_keeps:
  assumes "\<And>v. preserves (\<lambda>s. wview s = v) m"
  shows "preserves (own_added s0 p) m"
  using assms by (rule preserves_of_trees) (simp add: own_added_def own_def grown_def new_actions_def wview_def)

lemma own_added_os:
  "preserves (own_added s0 p) (path_exists q)"
  "\<not> destructive (Exec c) \<Longrightarrow> preserves (own_added s0 p) (run_command c)"
  "preserves (own_added s0 p) (run_git_for_repo (pl_repo_root p) (remove_args (pl_worktree_cwd p)) allowed)"
  "preserves (own_added s0 p) (run_git_for_repo (pl_repo_root p) (branch_delete_args (pl_branch_name p)) allowed)"
  by (auto intro!: preserves_exists preserves_command preserves_git own_added_ask deletions_mem)

lemma own_added_init: "preserves (own_added s0 p) (run_init_or_undo req p)"
proof -
  have "preserves (own_added s0 p) (append_diagnostic op tm code msg payload)" for op tm code msg payload
    by (intro own_added_keeps preserves_intros)
  then show ?thesis
    unfolding run_init_or_undo_def run_worktree_init_script_def Let_def
    by (auto intro!: preserves_intros own_added_os split: sum.splits)
qed

lemma run_git_state: "snd (run_git_for_repo repo args allowed s) = ask (Exec (Git repo args)) s"
  by (simp add: run_git_for_repo_def run_command_def ask_def bindE_def Let_def ok_def err_def split: sum.splits)

lemma ensures_state: "(\<And>s. P s \<Longrightarrow> Q (snd (m s)) \<and> E (snd (m s))) \<Longrightarrow> ensures P m (\<lambda>_. Q) E"
  unfolding ensures_def by (auto split: prod.splits sum.splits) (metis snd_conv)+

lemma own_added_after_add:
  "own s0 s \<Longrightarrow> own_added s0 p (ask (Exec (Git (pl_repo_root p) (add_args (pl_worktree_cwd p) (pl_branch_name p) @ base))) s)"
proof -
  assume s: "own s0 s"
  let ?a = "Exec (Git (pl_repo_root p) (add_args (pl_worktree_cwd p) (pl_branch_name p) @ base))"
  have "\<not> destructive ?a" by (simp add: add_args_def)
  then have "own s0 (ask ?a s)" using own_ask [OF s] by blast
  moreover have "new_actions s0 (ask ?a s) = new_actions s0 s @ [?a]" using s by (simp add: own_def new_actions_ask)
  ultimately show ?thesis by (auto simp: own_added_def just_added_def)
qed

lemma git_add_ensures: "ensures (own s0) (git_add_worktree req p) (\<lambda>_. own_added s0 p) (own s0)"
proof -
  have add: "ensures (own s0) (bindE (run_git_for_repo (pl_repo_root p)
      ([''worktree'', ''add'', ''-b'', pl_branch_name p, pl_worktree_cwd p] @ base) []) (\<lambda>_. ok ()))
      (\<lambda>_. own_added s0 p) (own s0)" for base
    using own_added_after_add [of s0 _ p base]
    by (intro ensures_state) (simp add: snd_bindE_ok run_git_state own_added_def add_args_def)
  show ?thesis
    unfolding git_add_worktree_def
    by (auto intro!: ensures_seq ensures_if ensures_option ensures_err add add [simplified] own_os preserves_intros
        split: prod.splits)
qed

lemma own_create: "preserves (own s0) (create_worktree req)"
proof -
  have new: "ensures (own s0) (bindE (git_add_worktree req p) (\<lambda>_. bindE (run_init_or_undo req p)
      (\<lambda>status. record_new_worktree req p sid status))) (\<lambda>_. own s0) (own s0)" for p sid
  proof (rule ensures_bindE [OF git_add_ensures])
    have "preserves (own s0) (record_new_worktree req p sid status)" for status
      unfolding record_new_worktree_def by (intro preserves_intros own_records own_others)
    then have "ensures (own s0) (record_new_worktree req p sid status) (\<lambda>_. own s0) (own s0)" for status
      by (rule ensures_keeps)
    moreover have "ensures (own_added s0 p) (run_init_or_undo req p) (\<lambda>_. own s0) (own s0)"
      using own_added_init by (intro ensures_state) (auto simp: preserves_def own_added_def)
    ultimately show "ensures (own_added s0 p) (bindE (run_init_or_undo req p)
        (\<lambda>status. record_new_worktree req p sid status)) (\<lambda>_. own s0) (own s0)"
      by (rule ensures_bindE [rotated])
  qed
  show ?thesis
    unfolding preserves_iff_ensures create_worktree_def requested_repo_root_def reusable_worktree_def Let_def
    by (auto intro!: ensures_seq ensures_option ensures_ok new own_others own_records preserves_intros
        split: option.splits)
qed

section \<open>Spawning\<close>

lemma own_assign: "preserves (own s0) (assign_worktree req team op source cwd)"
  unfolding assign_worktree_def reuse_worktree_def Let_def
  by (auto intro!: preserves_intros own_create own_others own_records own_os split: option.splits)

text \<open>\<open>match op.await { Ok(x) => .., Err(e) => { compensate; return Err(e) } }\<close>\<close>

lemma ensures_attempt:
  assumes "preserves (own s0) m" and "\<And>x. ensures (own s0) (g x) (\<lambda>_. own s0) (guarded s0)"
    and "\<And>e. fails (f e)" and "\<And>e. preserves (guarded s0) (f e)"
  shows "ensures (own s0) (bindE (attempt m) (\<lambda>r. case r of Inl e \<Rightarrow> f e | Inr x \<Rightarrow> g x)) (\<lambda>_. own s0) (guarded s0)"
  by (intro ensures_seq ensures_sum ensures_fails preserves_attempt own_guarded assms)

lemma own_ensures: "preserves (own s0) m \<Longrightarrow> ensures (own s0) m (\<lambda>_. own s0) (guarded s0)"
  by (rule ensures_keeps [OF _ own_guarded])

lemma spawn_session_ensures: "ensures (own s0) (spawn_session req team op source a k) (\<lambda>_. own s0) (guarded s0)"
  unfolding spawn_session_def
  by (rule ensures_attempt)
     (auto intro!: own_ensures fails_intros preserves_intros own_others guard.reports guard.cleanup_if_created_safe)

lemma attach_ensures: "ensures (own s0) (attach_worktree team op sid a) (\<lambda>_. own s0) (guarded s0)"
  unfolding attach_worktree_def Let_def
  by (intro ensures_option ensures_ok, rule ensures_attempt)
     (auto intro!: own_ensures fails_intros preserves_intros own_others guard.reports guard.cleanup_if_created_safe
        guard.session_and_team_safe guard.rollback_diagnostic_safe split: sum.splits)

lemma join_ensures: "ensures (own s0) (spawn_join req team op src sid a) (\<lambda>_. own s0) (guarded s0)"
  unfolding spawn_join_def
  by (rule ensures_attempt)
     (auto intro!: own_ensures fails_intros preserves_intros own_others guard.reports guard.cleanup_if_created_safe
        guard.session_and_team_safe)

lemma claim_ensures: "ensures (own s0) (spawn_claim team op sid a) (\<lambda>_. own s0) (guarded s0)"
  unfolding spawn_claim_def
  by (intro ensures_option ensures_ok, rule ensures_attempt)
     (auto intro!: own_ensures fails_intros preserves_intros own_records guard.rollback_safe)

lemma onboard_ensures: "ensures (own s0) (spawn_onboard req team op src sid a joined) (\<lambda>_. own s0) (guarded s0)"
  unfolding spawn_onboard_def
  by (rule ensures_attempt)
     (auto intro!: own_ensures fails_intros preserves_intros own_others guard.rollback_safe)

lemma spawn_ensures: "ensures (own s0) (spawn_team_member req) (\<lambda>_. own s0) (guarded s0)"
proof -
  have journal: "ensures (own s0) (record_journal op team stage p) (\<lambda>_. own s0) (guarded s0)" for op team stage p
    by (rule own_ensures [OF own_others(3)])
  have finish: "ensures (own s0) (spawn_finish req team op src session a joined) (\<lambda>_. own s0) (guarded s0)"
    for team op src session a joined
    unfolding spawn_finish_def Let_def
    by (rule ensures_bindE [OF claim_ensures] ensures_bindE [OF journal] ensures_bindE [OF onboard_ensures]
        ensures_bindE [OF own_ensures [OF preserves_ok_or_else]] ensures_ok)+
  show ?thesis
    unfolding spawn_team_member_def Let_def
    by (rule ensures_bindE [OF own_ensures [OF own_others(4)]] ensures_if ensures_err [OF own_guarded]
        ensures_bindE [OF own_ensures [OF own_others(13)]] ensures_bindE [OF journal]
        ensures_bindE [OF own_ensures [OF own_others(12)]] ensures_bindE [OF own_ensures [OF preserves_ok_or_else]]
        ensures_bindE [OF own_ensures [OF own_assign]] ensures_bindE [OF own_ensures [OF preserves_lift]]
        ensures_bindE [OF spawn_session_ensures] ensures_bindE [OF attach_ensures] ensures_bindE [OF join_ensures]
        finish | assumption)+
qed

section \<open>Every step\<close>

lemma worktree_step_guarded: "worktree_step s s' \<Longrightarrow> guarded s s'"
proof (induction rule: worktree_step.induct)
  case (comms s s')
  then show ?case using guarded_view [OF comms_step_trees [OF comms], of s] own_guarded [OF own_refl [of s]] by simp
next
  case (create s cr)
  then show ?case using own_guarded preserves_at [OF own_create own_refl] by blast
next
  case (claim s qr)
  then show ?case using own_guarded preserves_at [OF own_records(4) own_refl] by blast
next
  case (spawn s sr)
  show ?case by (rule ensures_snd [OF spawn_ensures own_refl own_guarded])
qed (simp_all add: preserves_at own_guarded own_refl guard.release_safe guard.cleanup_safe guard.on_member_removed_safe)

end
