(* ===== verification/Worktree_Theorems.thy ===== *)
theory Worktree_Theorems
  imports Worktree_Settling Worktree_Deletion
begin

text \<open>
  The properties of the worktree service: what a start makes of the stored state, who holds a
  worktree, and which files are deleted.
\<close>

section \<open>Samples\<close>

definition tree_config :: ws_config where
  "tree_config = \<lparr>wc_enabled = True, wc_root_dir = ''/w'', wc_init_script_path = ''init.sh'',
     wc_deletion_policy_default = ''retain_on_last_claim''\<rparr>"

definition tree_record :: "string \<Rightarrow> int \<Rightarrow> worktree_record" where
  "tree_record i t = \<lparr>wt_id = i, wt_repo_root = ''r'', wt_root = ''u'', wt_cwd = i,
     wt_branch_name = i, wt_name = i, wt_unified_path = ''r'', wt_deletion_policy = ''delete_on_last_claim'',
     wt_created_by_session = None, wt_created_by_operation = None, wt_created_at = t, wt_updated_at = t\<rparr>"

definition tree_claim :: "string \<Rightarrow> worktree_claim_record" where
  "tree_claim i = \<lparr>claim_worktree_id = i, claim_session_id = ''s1'', claim_role = ''c'', claim_created_at = 0,
     claim_released_at = None\<rparr>"

definition tree_db :: database where
  "tree_db = empty_db\<lparr>db_sessions := [sample_session],
     db_worktrees := [tree_record ''v'' 7, tree_record ''w'' 5],
     db_claims := [tree_claim ''v'', tree_claim ''w'']\<rparr>"

definition tree_exec :: "nat \<Rightarrow> os_command \<Rightarrow> string + cmd_output" where
  "tree_exec n c = Inr \<lparr>co_code = Some 0, co_status = ''exit status: 0'', co_stdout = ''/r'', co_stderr = []\<rparr>"

definition tree_state :: "unit worktrees" where
  "tree_state = worktrees_empty (sample_comms\<lparr>env_db := tree_db\<rparr>) tree_config ''n'' tree_exec
     (\<lambda>_ _. True) (\<lambda>_ _. None)"

lemma tree_db_ok: "db_ok tree_db"
  by (simp add: db_ok_def primary_keys_ok_def logical_keys_ok_def foreign_keys_ok_def tree_db_def empty_db_def
      tree_record_def tree_claim_def sample_session_def claim_key_def worktree_identity_def logical_unique_def
      events_ok_def seqs_from_one_def scope_rows_def)

section \<open>Who holds a worktree\<close>

definition ids_trimmed :: "database \<Rightarrow> bool" where
  "ids_trimmed db \<longleftrightarrow>
     (\<forall>w \<in> set (db_worktrees db). trim (wt_id w) = wt_id w) \<and> (\<forall>s \<in> set (db_sessions db). trim (sess_id s) = sess_id s)"

lemma start_single:
  assumes "worktrees_start s = (Inr u, s')" and "db_ok (env_db s)" and "ids_trimmed (env_db s)"
  shows "single_claims (claims_of s')"
proof -
  let ?s1 = "s\<lparr>env_store_ops := Suc (env_store_ops s)\<rparr>"
  obtain s2 where repair: "repair_startup_state (hydrate_runtime_state (env_db s)) ?s1 = (Inr (), s2)"
    and s2: "claims_of s' = claims_of s2"
    using assms(1)
    by (fastforce simp: worktrees_start_def bindE_eq_Inr modify_def hydrate_def store_call_def Let_def split: option.splits)
  have "\<forall>c \<in> set (claims_of s). trimmed_claim c"
    using assms(2,3) by (fastforce simp: db_ok_def foreign_keys_ok_def ids_trimmed_def trimmed_claim_def)
  then show ?thesis using repair_claims [of ?s1 "()" s2] repair s2 by simp
qed

text \<open>C16: A session holds at most one worktree. Start the worktree service on an intact database (with
  identifiers as the runtime makes them, without surrounding white space), whatever claims it
  holds; then, after any sequence of handlers of the worktree service, the team service and the
  session manager, with any arguments, providers, answers of git and store faults, no session has
  active claims on two worktrees.\<close>

theorem sessions_hold_one_worktree:
  assumes "worktrees_new c cfg nonce exec pexists mkdir = Inr s0" and "db_ok (env_db c)" and "ids_trimmed (env_db c)"
    and "worktree_step\<^sup>*\<^sup>* s0 s"
  shows "\<forall>a \<in> set (db_claims (env_db s)). \<forall>b \<in> set (db_claims (env_db s)).
    claim_released_at a = None \<and> claim_released_at b = None \<and> claim_session_id a = claim_session_id b \<longrightarrow>
    claim_worktree_id a = claim_worktree_id b"
proof -
  let ?s = "worktrees_empty c cfg nonce exec pexists mkdir"
  obtain u where start: "worktrees_start ?s = (Inr u, s0)"
    using assms(1) unfolding worktrees_new_def by (cases "worktrees_start ?s"; cases "fst (worktrees_start ?s)") auto
  have "env_db ?s = env_db c" by (simp add: worktrees_empty_def comms.extend_def)
  then have "single_claims (claims_of s0)" using start_single [OF start] assms(2,3) by simp
  from worktree_steps_single [OF assms(4) this] have "single_claims (claims_of s)" .
  then show ?thesis unfolding single_claims_def active_claim_def by blast
qed

theorem sessions_hold_one_worktree_witness:
  "\<exists>s0. worktrees_new (sample_comms\<lparr>env_db := tree_db\<rparr>) tree_config ''n'' tree_exec (\<lambda>_ _. True) (\<lambda>_ _. None) = Inr s0 \<and>
    (\<forall>a \<in> set (db_claims (env_db s0)). \<forall>b \<in> set (db_claims (env_db s0)).
      claim_released_at a = None \<and> claim_released_at b = None \<and> claim_session_id a = claim_session_id b \<longrightarrow>
      claim_worktree_id a = claim_worktree_id b)"
proof -
  have "\<not> isl (fst (worktrees_start tree_state))" by code_simp
  then obtain s0 where start: "worktrees_start tree_state = (Inr (), s0)" 
    by (cases "worktrees_start tree_state"; cases "fst (worktrees_start tree_state)") auto
  have new: "worktrees_new (sample_comms\<lparr>env_db := tree_db\<rparr>) tree_config ''n'' tree_exec (\<lambda>_ _. True) (\<lambda>_ _. None) = Inr s0"
    unfolding worktrees_new_def tree_state_def [symmetric] start by simp
  have "ids_trimmed (env_db (sample_comms\<lparr>env_db := tree_db\<rparr>))" by code_simp
  moreover have "db_ok (env_db (sample_comms\<lparr>env_db := tree_db\<rparr>))" using tree_db_ok by simp
  ultimately show ?thesis
    using new sessions_hold_one_worktree [OF new _ _ rtranclp.rtrancl_refl] by blast
qed

section \<open>Which files are deleted\<close>



end
