(* ===== verification/Spawn_Frame.thy ===== *)
theory Spawn_Frame
  imports Worktree_Claims
begin

text \<open>
  Who may change the membership of a team. \<open>rview\<close> holds the teams with their members, the switch of
  the team service, the store's faults and whatever a larger state adds to the worktree service; of the operations a spawn runs through only joining and
  removing change it.
\<close>

definition rview :: "('p, 'z) worktrees_scheme \<Rightarrow>
    (nat \<Rightarrow> string option) \<times> bool \<times> (string, team_record) hmap \<times> (string, (string, team_member_record) hmap) hmap \<times> 'z" where
  "rview s = (env_faults s, tc_enabled s, tc_teams s, tc_members s, worktrees.more s)"

section \<open>Sessions\<close>

lemma roster_basic [preserves_intros]:
  "preserves (\<lambda>s. rview s = v) (store_call g)" "preserves (\<lambda>s. rview s = v) (store_write w)"
  "preserves (\<lambda>s. rview s = v) now_ms" "preserves (\<lambda>s. rview s = v) (put_session i r)"
  "preserves (\<lambda>s. rview s = v) (put_turn i t)" "preserves (\<lambda>s. rview s = v) (put_approval i a)"
  "preserves (\<lambda>s. rview s = v) (spawn_wait_for_turn k i j)" "preserves (\<lambda>s. rview s = v) (provider_call h)"
  "preserves (\<lambda>s. rview s = v) hydrate"
  by (auto simp: preserves_def store_call_def store_write_def now_ms_def put_session_def put_turn_def put_approval_def
      spawn_wait_for_turn_def modify_def provider_call_def rview_def hydrate_def Let_def
      split: prod.splits option.splits sum.splits)

lemma roster_lookup [preserves_intros]:
  "preserves (\<lambda>s. rview s = v) (get_session sid)" "preserves (\<lambda>s. rview s = v) (require_provider k)"
  "preserves (\<lambda>s. rview s = v) (require_kind r)" "preserves (\<lambda>s. rview s = v) ensure_enabled"
  "preserves (\<lambda>s. rview s = v) (require_session_active sid)" "preserves (\<lambda>s. rview s = v) (team_with_members t)"
  unfolding get_session_def require_provider_def require_kind_def ensure_enabled_def
    require_session_active_def team_with_members_def
  by (intro preserves_intros)+

lemma roster_counters [preserves_intros]:
  "preserves (\<lambda>s. rview s = v) (allocate_id p q)"
  "preserves (\<lambda>s. rview s = v) allocate_message_id" "preserves (\<lambda>s. rview s = v) allocate_delivery_id"
  "preserves (\<lambda>s. rview s = v) allocate_worktree_id" "preserves (\<lambda>s. rview s = v) allocate_operation_id"
  by (auto simp: preserves_def allocate_id_def monad_simps ok_def allocate_message_id_def
      allocate_delivery_id_def allocate_worktree_id_def allocate_operation_id_def rview_def
      split: prod.splits)

lemma roster_modify [preserves_intros]:
  "preserves (\<lambda>s. rview s = v) (modify (\<lambda>s. s\<lparr>mg_event_tx := f2 s\<rparr>))"
  "preserves (\<lambda>s. rview s = v) (modify (\<lambda>s. s\<lparr>tc_next_event := f4 s\<rparr>))"
  "preserves (\<lambda>s. rview s = v) (modify (\<lambda>s. s\<lparr>tc_deliveries := f9 s\<rparr>))"
  "preserves (\<lambda>s. rview s = v) (modify (\<lambda>s. s\<lparr>ws_next_event := f12 s\<rparr>))"
  by (rule preserves_modify, simp add: rview_def)+

lemma roster_event [preserves_intros]:
  "preserves (\<lambda>s. rview s = v) (append_event sc i ses t kind crit payload)"
  "preserves (\<lambda>s. rview s = v) (append_team_event team kind payload ses)"
  unfolding append_event_def append_team_event_def
  by (auto intro!: preserves_intros split: prod.splits)

lemma roster_turns [preserves_intros]:
  "preserves (\<lambda>s. rview s = v) (dispatch_send_turn_with_resume_fallback kind req cwd pref cref md)"
  "preserves (\<lambda>s. rview s = v) (send_turn_admit sid input)"
  "preserves (\<lambda>s. rview s = v) (interrupt_turn sid tid)"
  unfolding dispatch_send_turn_with_resume_fallback_def send_turn_admit_def interrupt_turn_def Let_def
  by (auto intro!: preserves_intros split: runtime_error.splits sum.splits)

lemma roster_send_turn [preserves_intros]:
  "preserves (\<lambda>s. rview s = v) (send_turn sid input)"
  unfolding send_turn_def send_turn_failed_def send_turn_accept_def Let_def
  by (auto intro!: preserves_intros split: runtime_error.splits sum.splits option.splits bool.splits)

lemma roster_sessions [preserves_intros]:
  "preserves (\<lambda>s. rview s = v) (create_session input)" "preserves (\<lambda>s. rview s = v) (finalize_session_close sid reason)"
  "preserves (\<lambda>s. rview s = v) (set_session_worktree_id sid wt)"
  unfolding create_session_def finalize_session_close_def set_session_worktree_id_def Let_def
  by (auto intro!: preserves_intros)

lemma roster_closing [preserves_intros]:
  "preserves (\<lambda>s. rview s = v) (close_session sid r)" "preserves (\<lambda>s. rview s = v) (force_close_session sid r)"
  unfolding close_session_def force_close_session_def by (intro preserves_intros)+

section \<open>Messages\<close>

lemma fold_index_roster: "rview (fold index_delivery ds s) = rview (s :: ('p, 'z) worktrees_scheme)"
  by (induction ds arbitrary: s) (simp_all add: index_delivery_def rview_def)

lemma roster_record_message [preserves_intros]: "preserves (\<lambda>s. rview s = v) (modify (record_message m idx ds))"
  by (rule preserves_modify, simp only: fold_index_roster record_message_def, simp add: rview_def)

lemma roster_transitions [preserves_intros]:
  "preserves (\<lambda>s. rview s = v) (transition_delivery_status d status strategy code msg trigger)"
  "preserves (\<lambda>s. rview s = v) (transition_delivery_with_turn_id did turn)"
  unfolding transition_delivery_status_def transition_delivery_with_turn_id_def Let_def
  by (auto intro!: preserves_intros split: option.splits)

lemma roster_inject [preserves_intros]:
  "preserves (\<lambda>s. rview s = v) (inject_delivery did trigger)"
  unfolding inject_delivery_def inject_check_def inject_commit_def interrupt_for_def Let_def
  by (auto intro!: preserves_intros split: option.splits sum.splits inject_plan.splits runtime_error.splits)

lemma roster_send [preserves_intros]: "preserves (\<lambda>s. rview s = v) (send_direct dreq)"
  unfolding send_direct_def create_message_and_deliveries_def create_under_lock_def resolve_recipient_def
    allocate_delivery_def deliver_created_def queue_and_attempt_delivery_def Let_def
  by (auto intro!: preserves_intros split: option.splits)

section \<open>Worktrees\<close>

lemma roster_os [preserves_intros]:
  "preserves (\<lambda>s. rview s = v) (run_command c)" "preserves (\<lambda>s. rview s = v) (path_exists p)"
  "preserves (\<lambda>s. rview s = v) (create_dir_all q)"
  by (auto intro!: preserves_command preserves_exists preserves_mkdir simp: ask_def rview_def)

lemma roster_git [preserves_intros]: "preserves (\<lambda>s. rview s = v) (run_git_for_repo r args allowed)"
  by (rule preserves_git) (simp add: ask_def rview_def)

lemma roster_reports [preserves_intros]:
  "preserves (\<lambda>s. rview s = v) (append_worktree_event wid kind payload session team)"
  "preserves (\<lambda>s. rview s = v) (append_diagnostic op tm code msg payload)"
  "preserves (\<lambda>s. rview s = v) (record_journal op' tm' stage payload)"
  "preserves (\<lambda>s. rview s = v) ensure_worktrees_enabled"
  unfolding append_worktree_event_def append_diagnostic_def record_journal_def ensure_worktrees_enabled_def
  by (auto intro!: preserves_intros split: prod.splits)

lemma roster_records [preserves_intros]:
  "preserves (\<lambda>s. rview s = v) (upsert_worktree_record wid planned policy x y)"
  "preserves (\<lambda>s. rview s = v) (has_live_artifacts_for_record r)"
  "preserves (\<lambda>s. rview s = v) (resolve_repo_root_from_source_cwd cwd)"
  unfolding upsert_worktree_record_def has_live_artifacts_for_record_def branch_exists_for_record_def
    resolve_repo_root_from_source_cwd_def Let_def
  by (auto intro!: preserves_intros split: sum.splits prod.splits)

lemma roster_create [preserves_intros]: "preserves (\<lambda>s. rview s = v) (create_worktree req)"
  unfolding create_worktree_def requested_repo_root_def reusable_worktree_def git_add_worktree_def run_init_or_undo_def
    run_worktree_init_script_def record_new_worktree_def Let_def
  by (auto intro!: preserves_intros split: option.splits sum.splits prod.splits)

lemma roster_cleanup [preserves_intros]: "preserves (\<lambda>s. rview s = v) (cleanup_worktree lr)"
  unfolding cleanup_worktree_def delete_worktree_files_def delete_path_def delete_branch_def Let_def
  by (auto intro!: preserves_intros split: sum.splits prod.splits)

lemma roster_claims [preserves_intros]:
  "preserves (\<lambda>s. rview s = v) (claim_worktree qr)" "preserves (\<lambda>s. rview s = v) (release_worktree rr)"
  unfolding claim_worktree_def release_worktree_def Let_def
  by (auto intro!: preserves_intros split: option.splits)

lemma roster_assign [preserves_intros]: "preserves (\<lambda>s. rview s = v) (assign_worktree req team op source cwd)"
  unfolding assign_worktree_def reuse_worktree_def Let_def
  by (auto intro!: preserves_intros split: option.splits)

lemma roster_rollback_parts [preserves_intros]:
  "preserves (\<lambda>s. rview s = v) (rollback_diagnostic op team sid code e)"
  "preserves (\<lambda>s. rview s = v) (rollback_session team op sid reason)"
  "preserves (\<lambda>s. rview s = v) (cleanup_if_created created reason)"
  unfolding rollback_diagnostic_def rollback_session_def cleanup_if_created_def
  by (auto intro!: preserves_intros split: sum.splits option.splits)

end
