(* ===== verification/Spawn_Rollback.thy ===== *)
theory Spawn_Rollback
  imports Spawn_Frame Worktree_Deletion
begin

text \<open>
  A spawn that fails leaves the teams as they were: what the join added, the rollback removes.
\<close>

section \<open>Rosters\<close>

definition member_at :: "string \<Rightarrow> string \<Rightarrow> ('p, 'z) comms_scheme \<Rightarrow> team_member_record option" where
  "member_at team agent s = (case hget (tc_members s) team of None \<Rightarrow> None | Some ms \<Rightarrow> hget ms agent)"

definition same_roster :: "('p, 'z) comms_scheme \<Rightarrow> ('p, 'z) comms_scheme \<Rightarrow> bool" where
  "same_roster s0 s \<longleftrightarrow>
     (\<forall>k. map_option team_lead (hget (tc_teams s) k) = map_option team_lead (hget (tc_teams s0) k)) \<and>
     (\<forall>k a. member_at k a s = member_at k a s0)"

text \<open>The state after the join of one agent to one team.\<close>

definition seated :: "('p, 'z) worktrees_scheme \<Rightarrow> string \<Rightarrow> string \<Rightarrow> ('p, 'z) worktrees_scheme \<Rightarrow> bool" where
  "seated s0 team sid s \<longleftrightarrow> env_faults s = env_faults s0 \<and> tc_enabled s \<and>
     (\<exists>t ms m now. hget (tc_teams s0) team = Some t \<and> hget (tc_members s0) team = Some ms \<and> hget ms sid = None \<and>
        hm_wf ms \<and> hcontains ms (team_lead t) \<and> mem_agent_id m = sid \<and>
        (\<forall>k. hget (tc_members s) k = (if k = team then Some (hinsert sid m ms) else hget (tc_members s0) k)) \<and>
        (\<forall>k. hget (tc_teams s) k = (if k = team then Some (t\<lparr>team_updated_at := now\<rparr>) else hget (tc_teams s0) k)))"

lemma same_roster_view: "rview s' = rview s \<Longrightarrow> same_roster s0 s' = same_roster s0 s"
  by (simp add: same_roster_def member_at_def rview_def)

lemma seated_view: "rview s' = rview s \<Longrightarrow> seated s0 team sid s' = seated s0 team sid s"
  by (simp add: seated_def rview_def)

lemma same_roster_refl: "rview s = rview s0 \<Longrightarrow> same_roster s0 s"
  by (simp add: same_roster_def member_at_def rview_def)

lemma keeps_roster:
  assumes "\<And>v. preserves (\<lambda>s. rview s = v) m" and "\<And>s s'. rview s' = rview s \<Longrightarrow> I s' = I s"
  shows "preserves I m"
  using assms(2) keepsD [OF assms(1)] by (metis preservesI)

lemma roster_kept:
  assumes "\<And>v. preserves (\<lambda>s. rview s = v) m"
  shows "preserves (same_roster s0) m"
  using assms same_roster_view by (rule keeps_roster)

lemma seat_kept:
  assumes "\<And>v. preserves (\<lambda>s. rview s = v) m"
  shows "preserves (seated s0 team sid) m"
  using assms seated_view by (rule keeps_roster)

lemma two_members:
  assumes "hm_wf ms" and "hcontains ms lead" and "hget ms sid = None"
  shows "2 \<le> length (hinsert sid m ms)"
proof -
  have "lead \<noteq> sid" using assms by (auto simp: hcontains_def)
  have "{lead, sid} \<subseteq> set (hkeys (hinsert sid m ms))" using assms by (auto simp: hkeys_set hcontains_def)
  then have "card {lead, sid} \<le> length (hkeys (hinsert sid m ms))"
    by (meson card_length card_mono finite_set order_trans)
  then show ?thesis using \<open>lead \<noteq> sid\<close> by (simp add: hkeys_def)
qed

text \<open>Removing the agent again gives the old roster, whatever the store says.\<close>

lemma remove_unseats:
  fixes s0 s :: "('p, 'z) worktrees_scheme"
  assumes s: "seated s0 team sid s" and ids: "trim team = team" "team \<noteq> []" "trim sid = sid" "sid \<noteq> []"
  shows "same_roster s0 (snd (remove_team_member team sid s))"
proof -
  obtain t ms m now where on: "tc_enabled s" "hget (tc_teams s0) team = Some t" "hget (tc_members s0) team = Some ms"
      "hget ms sid = None" "hm_wf ms" "hcontains ms (team_lead t)"
    and mem: "\<And>k. hget (tc_members s) k = (if k = team then Some (hinsert sid m ms) else hget (tc_members s0) k)"
    and tm: "\<And>k. hget (tc_teams s) k = (if k = team then Some (t\<lparr>team_updated_at := now\<rparr>) else hget (tc_teams s0) k)"
    using s unfolding seated_def by blast
  have big: "\<not> length (hinsert sid m ms) \<le> 1" using two_members [OF on(5,6,4), of m] by simp
  have lead: "team_lead t \<noteq> sid" using on(4,6) by (auto simp: hcontains_def)
  define u where "u = snd (remove_under_lock team sid s)"
  have run: "\<exists>t'. remove_under_lock team sid s = (Inr t', u) \<and> tc_members u = hinsert team (hremove sid (hinsert sid m ms)) (tc_members s) \<and>
      tc_teams u = hinsert team t' (tc_teams s) \<and> team_lead t' = team_lead t"
    unfolding u_def using big lead
    by (simp add: remove_under_lock_def monad_simps mem tm hcontains_def ok_def Let_def)
  then obtain t' where u: "remove_under_lock team sid s = (Inr t', u)"
    and um: "tc_members u = hinsert team (hremove sid (hinsert sid m ms)) (tc_members s)"
    and ut: "tc_teams u = hinsert team t' (tc_teams s)" "team_lead t' = team_lead t" by blast
  have "same_roster s0 u"
    using on by (auto simp: same_roster_def member_at_def um ut mem tm)
  have "same_roster s0 (snd (bindE (store_write (WTeam t')) f u))"
    if "\<And>x. preserves (same_roster s0) (f x)" for f :: "unit \<Rightarrow> (('p, 'z) worktrees_scheme, runtime_error, team_view) rt"
  proof -
    have "preserves (same_roster s0) (bindE (store_write (WTeam t')) f)"
      by (intro preserves_bindE roster_kept roster_basic that)
    then show ?thesis using \<open>same_roster s0 u\<close> by (rule preserves_at)
  qed
  note after = this
  show ?thesis
    unfolding remove_team_member_def
    by (simp add: ensure_enabled_def normalize_non_empty_def on ids monad_simps bindE_Inr [where m = "remove_under_lock team sid", OF u] Let_def)
       (intro after roster_kept preserves_intros)
qed

section \<open>The identifier of the new session\<close>

lemma strip_front_hd: "s \<noteq> [] \<Longrightarrow> hd s \<notin> hd ` set ws \<Longrightarrow> strip_front ws s = s"
  by (rule strip_front_id) (force simp: find_None_iff starts_with_iff)

lemma trim_id:
  assumes "s \<noteq> []" and "hd s \<notin> hd ` set ws_encodings" and "last s \<notin> last ` set ws_encodings"
  shows "trim s = s"
proof -
  have "hd (rev s) \<notin> hd ` set (map rev ws_encodings)" using assms by (auto simp: hd_rev)
  then have "strip_front (map rev ws_encodings) (rev s) = rev s" using assms(1) by (intro strip_front_hd) auto
  then show ?thesis using assms by (simp add: trim_def trim_start_def trim_end_def strip_front_hd)
qed

lemma digit_not_space: "48 \<le> (of_char c :: nat) \<Longrightarrow> (of_char c :: nat) \<le> 57 \<Longrightarrow> c \<notin> last ` set ws_encodings"
  by (auto simp: ws_encodings_def)

lemma session_id_trimmed: "trim (''sess_'' @ q @ dec_of_nat n) = ''sess_'' @ q @ dec_of_nat n"
proof (rule trim_id)
  have "last (''sess_'' @ q @ dec_of_nat n) \<in> set (dec_of_nat n)"
    using dec_of_nat_nonempty [of n] by (simp add: last_append)
  then show "last (''sess_'' @ q @ dec_of_nat n) \<notin> last ` set ws_encodings"
    using dec_of_nat_digits [of n] digit_not_space by blast
qed (auto simp: ws_encodings_def)

section \<open>The new session\<close>

definition stored :: "string \<Rightarrow> 'z runtime_env_scheme \<Rightarrow> bool" where
  "stored sid s \<longleftrightarrow> session_exists (env_db s) sid"

lemma stored_write: "apply_write w db = Inr db' \<Longrightarrow> session_exists db sid \<Longrightarrow> session_exists db' sid"
  by (cases w) (auto simp: write_defs sessions_tbl.keys_upsert split: if_splits)

lemma stored_kept:
  "preserves (stored sid) (store_write w)" "preserves (stored sid) now_ms" "preserves (stored sid) (put_session i r)"
  by (auto simp: preserves_def stored_def store_write_def store_call_def now_ms_def put_session_def modify_def Let_def
      intro: stored_write split: option.splits sum.splits)

lemma stored_event: "preserves (stored sid) (append_event sc i ses t kind crit payload)"
proof (rule preservesI)
  fix s :: "('p, 'z) manager_scheme"
  assume "stored sid s"
  moreover have "db_append_runtime_event e db = Inr (x, db') \<Longrightarrow> db_sessions db' = db_sessions db" for e db x db'
    by (auto simp: db_append_runtime_event_def Let_def split: option.splits if_splits sum.splits)
  ultimately show "stored sid (snd (append_event sc i ses t kind crit payload s))"
    using append_event_run [of sc i ses t kind crit payload s] unfolding stored_def
    by (metis prod.collapse)
qed

definition waits :: "('p, 'z) worktrees_scheme \<Rightarrow> string \<Rightarrow> ('p, 'z) worktrees_scheme \<Rightarrow> bool" where
  "waits s0 sid s \<longleftrightarrow> rview s = rview s0 \<and> stored sid s \<and> trim sid = sid \<and> sid \<noteq> []"

lemma written_session: "store_write (WSession r) s = (Inr u, s') \<Longrightarrow> stored (sess_id r) s'"
  by (auto simp: store_write_def store_call_def write_defs sessions_tbl.keys_upsert stored_def Let_def
      split: option.splits sum.splits if_splits)

lemma allocated_shape: "allocate_id p q s = (Inr i, s') \<Longrightarrow> \<exists>n now. i = p @ ''_'' @ q @ ''_'' @ dec_of_int now @ ''_'' @ dec_of_nat n"
  by (auto simp: allocate_id_def monad_simps now_ms_def ok_def)

lemma create_session_stored:
  fixes s :: "('p, 'z) worktrees_scheme"
  assumes "create_session input s = (Inr r, s')"
  shows "stored (sess_id r) s'" and "trim (sess_id r) = sess_id r" and "sess_id r \<noteq> []"
proof -
  let ?rest = "\<lambda>sid record. bindE (store_write (WSession record)) (\<lambda>_. bindE (put_session sid record) (\<lambda>_.
    bindE (session_event sid None ''session.created'' (jobject [(''provider'', JString (sess_provider record))])) (\<lambda>_. ok record)))"
  obtain u0 u1 u2 :: "('p, 'z) worktrees_scheme" and sid created now where id: "allocate_id ''sess'' (kind_as_str (csi_provider input)) u0 = (Inr sid :: runtime_error + string, u1)"
    and run: "?rest sid (new_session_record input sid created now) u2 = (Inr r, s')"
    using assms unfolding create_session_def Let_def bindE_eq_Inr [of "require_provider _"] bindE_eq_Inr [of now_ms]
      bindE_eq_Inr [of "allocate_id _ _"] bindE_eq_Inr [of "provider_call _"]
    by (auto simp only: err_def split: if_splits)
  have r: "r = new_session_record input sid created now"
    using run by (auto simp: bindE_eq_Inr ok_def)
  obtain u3 u4 :: "('p, 'z) worktrees_scheme" and x where put: "store_write (WSession r) u2 = (Inr (), u3)" and mem: "put_session sid r u3 = (Inr () :: runtime_error + unit, u4)"
    and ev: "session_event sid None ''session.created'' (jobject [(''provider'', JString (sess_provider r))]) u4 = (Inr x, s')"
    using run unfolding r [symmetric] by (auto simp: bindE_eq_Inr ok_def)
  have sid: "sess_id r = sid" unfolding r by (simp add: new_session_record_def)
  obtain n now where "sid = ''sess'' @ ''_'' @ kind_as_str (csi_provider input) @ ''_'' @ dec_of_int now @ ''_'' @ dec_of_nat n"
    using allocated_shape [OF id] by blast
  then have "sid = ''sess_'' @ (kind_as_str (csi_provider input) @ ''_'' @ dec_of_int now @ ''_'') @ dec_of_nat n" by simp
  then have shape: "sess_id r = ''sess_'' @ (kind_as_str (csi_provider input) @ ''_'' @ dec_of_int now @ ''_'') @ dec_of_nat n"
    using sid by (rule trans [rotated])
  show "trim (sess_id r) = sess_id r" unfolding shape by (rule session_id_trimmed)
  show "sess_id r \<noteq> []" unfolding shape by simp
  have "stored (sess_id r) u4" using preserves_at [OF stored_kept(3) written_session [OF put]] mem by (metis snd_conv)
  from preserves_at [OF stored_event this] ev show "stored (sess_id r) s'" by (metis snd_conv)
qed

section \<open>Before the join\<close>

lemma before_join: "rview s = rview s0 \<Longrightarrow> same_roster s0 s"
  by (rule same_roster_refl)

lemma still_ensures:
  assumes "\<And>v. preserves (\<lambda>s. rview s = v) m"
  shows "ensures (\<lambda>s. rview s = rview s0) m (\<lambda>_ s. rview s = rview s0) (same_roster s0)"
  by (rule ensures_keeps [OF assms before_join])

lemma create_session_waits:
  fixes s0 :: "('p, 'z) worktrees_scheme"
  shows "ensures (\<lambda>s. rview s = rview s0) (attempt (create_session input))
     (\<lambda>r s. case r of Inl e \<Rightarrow> rview s = rview s0 | Inr x \<Rightarrow> waits s0 (sess_id x) s) (same_roster s0)"
  unfolding ensures_def
proof (intro allI impI)
  fix s :: "('p, 'z) worktrees_scheme"
  assume s: "rview s = rview s0"
  obtain r s' where run: "create_session input s = (r, s')" by fastforce
  have "rview s' = rview s0" using keepsD [OF roster_sessions(1), of input s] run s by simp
  then show "case attempt (create_session input) s of
      (Inl _, s') \<Rightarrow> same_roster s0 s'
    | (Inr r, s') \<Rightarrow> (case r of Inl e \<Rightarrow> rview s' = rview s0 | Inr x \<Rightarrow> waits s0 (sess_id x) s')"
    using create_session_stored [of input s _ s'] run
    by (cases r) (simp_all add: attempt_def waits_def)
qed

lemma waitsD: "waits s0 sid s \<Longrightarrow> rview s = rview s0"
  by (simp add: waits_def)

lemma waits_kept:
  assumes "\<And>v. preserves (\<lambda>s. rview s = v) m" and "preserves (stored sid) m"
  shows "preserves (waits s0 sid) m"
  using assms by (simp add: preserves_def waits_def)

lemma stored_reads: "preserves (stored sid) (store_call (\<lambda>db. Inr (g db, db)))"
  by (auto simp: preserves_def stored_def store_call_def Let_def split: option.splits)

lemma stored_get: "preserves (stored sid) (get_session i)"
  unfolding get_session_def by (intro preserves_intros)

lemma waits_journal: "preserves (waits s0 sid) (record_journal op team stage payload)"
proof -
  have "preserves (stored sid) (record_journal op team stage payload)"
    unfolding record_journal_def by (intro preserves_intros stored_kept stored_reads)
  then show ?thesis by (rule waits_kept [OF roster_reports(3)])
qed

lemma waits_set_worktree: "preserves (waits s0 sid) (set_session_worktree_id i wt)"
proof -
  have "preserves (stored sid) (set_session_worktree_id i wt)"
    unfolding set_session_worktree_id_def Let_def by (intro preserves_intros stored_kept stored_get)
  then show ?thesis by (rule waits_kept [OF roster_sessions(3)])
qed

lemma attempt_keeps: "preserves P m \<Longrightarrow> ensures P (attempt m) (\<lambda>_. P) E"
  by (auto simp: ensures_def attempt_def preserves_def split: prod.splits)

lemma ignore_keeps: "preserves P m \<Longrightarrow> ensures P (ignore m) (\<lambda>_. P) E"
  by (auto simp: ensures_def ignore_def preserves_def split: prod.splits)

lemma ensures_given:
  assumes "\<And>s. P s \<Longrightarrow> b \<and> P' s" and "b \<Longrightarrow> ensures P' m Q E"
  shows "ensures P m Q E"
  unfolding ensures_def
proof (intro allI impI)
  fix s assume "P s"
  with assms show "case m s of (Inl _, s') \<Rightarrow> E s' | (Inr x, s') \<Rightarrow> Q x s'" by (simp add: ensures_def)
qed

lemma ensures_assume: "(x = y \<Longrightarrow> ensures P m Q E) \<Longrightarrow> ensures (\<lambda>s. x = y \<and> P s) m Q E"
  by (auto simp: ensures_def)

text \<open>\<open>match op.await { Ok(x) => x, Err(e) => { compensate; return Err(e) } }\<close>\<close>

lemma ensures_catch:
  assumes "ensures P m Q E" and "\<And>e. preserves E (f e)" and "\<And>e. fails (f e)"
  shows "ensures P (bindE (attempt m) (\<lambda>r. case r of Inl e \<Rightarrow> f e | Inr x \<Rightarrow> ok x)) Q E"
  unfolding ensures_def
proof (intro allI impI)
  fix s assume "P s"
  moreover obtain r s' where run: "m s = (r, s')" by fastforce
  ultimately show "case bindE (attempt m) (\<lambda>r. case r of Inl e \<Rightarrow> f e | Inr x \<Rightarrow> ok x) s of
      (Inl _, s') \<Rightarrow> E s' | (Inr x, s') \<Rightarrow> Q x s'"
  proof (cases r)
    case (Inl e)
    then have "E (snd (f e s'))" "isl (fst (f e s'))"
      using assms \<open>P s\<close> run by (auto simp: ensures_def preserves_def fails_def split: prod.splits)
    then show ?thesis using run Inl by (auto simp: bindE_attempt split: prod.splits sum.splits)
  qed (use assms(1) run in \<open>auto simp: ensures_def bindE_attempt ok_def\<close>)
qed

lemma fails_after:
  assumes "\<And>v. preserves (\<lambda>s. rview s = v) m" and "fails m" and "\<And>s. P s \<Longrightarrow> rview s = rview s0"
  shows "ensures P m Q (same_roster s0)"
  by (rule ensures_fails [OF assms(2) roster_kept [OF assms(1)]]) (rule same_roster_refl [OF assms(3)])

lemma spawn_session_waits:
  "ensures (\<lambda>s. rview s = rview s0) (spawn_session req team op source a provider)
     (\<lambda>x. waits s0 (sess_id x)) (same_roster s0)"
  unfolding spawn_session_def
proof (rule ensures_bindE [OF create_session_waits])
  fix r
  show "ensures (\<lambda>s. case r of Inl e \<Rightarrow> rview s = rview s0 | Inr x \<Rightarrow> waits s0 (sess_id x) s)
    (case r of Inl e \<Rightarrow> bindE (cleanup_if_created (sa_created_id a) ''spawn_session_create_failed'') (\<lambda>_.
         bindE (record_journal op team ''rolled_back'' (failed_payload ''session_create_failed'' e)) (\<lambda>_. err e))
     | Inr session \<Rightarrow> bindE (record_journal op team ''session_created''
           (jobject [(''spawned_session_id'', JString (sess_id session))])) (\<lambda>_. ok session))
    (\<lambda>x. waits s0 (sess_id x)) (same_roster s0)"
  proof (cases r)
    case (Inl e)
    then show ?thesis by (simp, intro fails_after preserves_intros fails_intros)
  next
    case (Inr x)
    have "ensures (waits s0 (sess_id x)) (ok x) (\<lambda>x. waits s0 (sess_id x)) (same_roster s0)"
      by (simp add: ensures_def ok_def)
    from ensures_seq [OF waits_journal same_roster_refl [OF waitsD] this] show ?thesis unfolding Inr sum.case .
  qed
qed

lemma attach_waits:
  "ensures (waits s0 sid) (attach_worktree team op sid a) (\<lambda>_. waits s0 sid) (same_roster s0)"
  unfolding attach_worktree_def Let_def
  by (intro ensures_option ensures_ok ensures_bindE [OF attempt_keeps [OF waits_set_worktree]] ensures_sum)
     (auto intro!: fails_after preserves_intros fails_intros split: sum.splits dest: waitsD)

section \<open>The join\<close>

lemma join_lock_cases:
  fixes s s0 :: "('p, 'z) worktrees_scheme"
  assumes "comms_ok s0" and v: "rview s = rview s0" and "tc_enabled s0"
  obtains (refused) e s' where "join_under_lock req team agent now s = (Inl e, s')" "same_roster s0 s'"
  | (joined) t m s' where "join_under_lock req team agent now s = (Inr (t, m), s')" "seated s0 team agent s'"
      "env_db s' = env_db s" "team_id t = team" "mem_team_id m = team" "mem_agent_id m = agent"
proof (cases "hget (tc_teams s) team")
  case None
  then show ?thesis using refused v by (simp add: join_under_lock_def monad_simps same_roster_refl)
next
  case (Some t)
  have t: "hget (tc_teams s0) team = Some t" using Some v by (simp add: rview_def)
  obtain ms where ms: "hget (tc_members s0) team = Some ms" "hcontains ms (team_lead t)" and "team_id t = team"
    using teamD [OF assms(1) t] by blast
  have ms': "hget (tc_members s) team = Some ms" using ms v by (simp add: rview_def)
  let ?s = "s\<lparr>tc_members := hentry [] team (\<lambda>ms. ms) (tc_members s)\<rparr>"
  have same: "hget (tc_members ?s) k = hget (tc_members s0) k" for k using ms ms' v by (simp add: rview_def)
  show ?thesis
  proof (cases "hcontains ms agent")
    case True
    then have "join_under_lock req team agent now s =
        (Inl (InvalidState (''agent '' @ agent @ '' is already a member of team '' @ team)), ?s)"
      using Some ms' by (simp add: join_under_lock_def monad_simps err_def)
    moreover have "same_roster s0 ?s" using v by (simp add: same_roster_def member_at_def ms(1) rview_def)
    ultimately show ?thesis by (rule refused)
  next
    case False
    let ?m = "joined_member req team agent (team_lead t) now"
    let ?s' = "?s\<lparr>tc_members := hinsert team (hinsert agent ?m ms) (tc_members ?s),
      tc_teams := hinsert team (t\<lparr>team_updated_at := now\<rparr>) (tc_teams ?s)\<rparr>"
    have "join_under_lock req team agent now s = (Inr (t\<lparr>team_updated_at := now\<rparr>, ?m), ?s')"
      using Some ms' False by (simp add: join_under_lock_def monad_simps ok_def Let_def)
    moreover have "seated s0 team agent ?s'"
      unfolding seated_def
      using t ms False v same assms(3) rosterD [OF assms(1) ms(1)]
      by (auto simp: rview_def hcontains_def roster_of_def joined_member_def intro!: exI [of _ "?m"] exI [of _ now])
    ultimately show ?thesis
      using joined \<open>team_id t = team\<close> by (simp add: joined_member_def)
  qed
qed

lemma write_ensures:
  assumes "\<And>s. P s \<Longrightarrow> no_faults s \<and> (\<exists>db. apply_write w (env_db s) = Inr db \<and>
    Q (s\<lparr>env_store_ops := Suc (env_store_ops s), env_db := db\<rparr>))"
  shows "ensures P (store_write w) (\<lambda>_. Q) E"
  using assms by (fastforce simp: ensures_def store_write_def store_call_def no_faults_def Let_def split: sum.splits)

lemma seated_faults: "no_faults s0 \<Longrightarrow> seated s0 team sid s \<Longrightarrow> no_faults s"
  by (simp add: seated_def no_faults_def)

lemma seated_store [simp]:
  "seated s0 team sid (s\<lparr>env_store_ops := n, env_db := db\<rparr>) = seated s0 team sid s"
  "seated s0 team sid (s\<lparr>env_store_ops := n\<rparr>) = seated s0 team sid s"
  "seated s0 team sid (s\<lparr>env_clock_reads := n\<rparr>) = seated s0 team sid s"
  by (rule seated_view, simp add: rview_def)+

lemma view_sees_member:
  "ensures (seated s0 team sid) (team_with_members team)
     (\<lambda>v s. seated s0 team sid s \<and> (\<exists>m \<in> set (twm_members v). mem_agent_id m = sid)) (same_roster s0)"
proof -
  have "\<exists>v. team_with_members team s = (Inr v, s) \<and> (\<exists>m \<in> set (twm_members v). mem_agent_id m = sid)"
    if seat: "seated s0 team sid s" for s
  proof -
    obtain t ms m now where "mem_agent_id m = sid" "hm_wf ms"
      and all: "\<And>k. hget (tc_members s) k = (if k = team then Some (hinsert sid m ms) else hget (tc_members s0) k)"
        "\<And>k. hget (tc_teams s) k = (if k = team then Some (t\<lparr>team_updated_at := now\<rparr>) else hget (tc_teams s0) k)"
      using seat unfolding seated_def by blast
    moreover have "hget (tc_teams s) team = Some (t\<lparr>team_updated_at := now\<rparr>)"
      "hget (tc_members s) team = Some (hinsert sid m ms)" using all by simp_all
    moreover have "m \<in> set (hvalues (hinsert sid m ms))"
      using \<open>hm_wf ms\<close> hvalues_hget [OF hm_wf_hinsert, of ms m sid m] by auto
    ultimately show ?thesis by (auto simp: team_with_members_def monad_simps ok_def)
  qed
  then show ?thesis unfolding ensures_def by fastforce
qed

lemma join_seats:
  fixes s0 :: "('p, 'z) worktrees_scheme"
  assumes ok: "comms_ok s0" "no_faults s0" and team: "tjr_team req = team" "trim team = team" "team \<noteq> []"
    and sid: "tjr_agent req = sid"
  shows "ensures (waits s0 sid) (join_team req)
    (\<lambda>v s. seated s0 team sid s \<and> (\<exists>m \<in> set (twm_members v). mem_agent_id m = sid)) (same_roster s0)"
proof -
  have roster: "same_roster s0 s" if "waits s0 sid s" for s using that by (simp add: waits_def same_roster_refl)
  let ?Q = "\<lambda>(t, m) s. seated s0 team sid s \<and> stored sid s \<and> team_id t = team \<and> mem_team_id m = team \<and> mem_agent_id m = sid"
  have lock: "ensures (\<lambda>s. waits s0 sid s \<and> tc_enabled s0) (join_under_lock req team sid now) ?Q (same_roster s0)" for now
    unfolding ensures_def
  proof (intro allI impI, elim conjE)
    fix s assume w: "waits s0 sid s" and "tc_enabled s0"
    show "case join_under_lock req team sid now s of (Inl _, s') \<Rightarrow> same_roster s0 s' | (Inr x, s') \<Rightarrow> ?Q x s'"
      by (rule join_lock_cases [OF ok(1) waitsD [OF w] \<open>tc_enabled s0\<close>, where req = req and team = team and agent = sid and now = now])
         (use w in \<open>auto simp: waits_def stored_def\<close>)
  qed
  have team_row: "ensures (?Q (t, m)) (store_write (WTeam t))
      (\<lambda>_ s. ?Q (t, m) s \<and> team_exists (env_db s) team) (same_roster s0)" for t m
    by (rule write_ensures) (use seated_faults [OF ok(2)] in \<open>auto simp: write_defs teams_tbl.keys_upsert stored_def\<close>)
  have member_row: "ensures (\<lambda>s. ?Q (t, m) s \<and> team_exists (env_db s) team) (store_write (WMember m))
      (\<lambda>_. seated s0 team sid) (same_roster s0)" for t m
    by (rule write_ensures) (use seated_faults [OF ok(2)] in \<open>auto simp: write_defs stored_def\<close>)
  have enabled: "ensures (waits s0 sid) ensure_enabled (\<lambda>_ s. waits s0 sid s \<and> tc_enabled s0) (same_roster s0)"
    using roster by (auto simp: ensures_def ensure_enabled_def monad_simps ok_def err_def waits_def rview_def)
  have named: "ensures (\<lambda>s. waits s0 sid s \<and> tc_enabled s0) (lift_result (normalize_non_empty sid what))
      (\<lambda>a s. a = sid \<and> waits s0 sid s \<and> tc_enabled s0) (same_roster s0)" for what
    by (auto simp: ensures_def normalize_non_empty_def lift_result_def waits_def)
  have keep: "ensures (\<lambda>s. waits s0 sid s \<and> tc_enabled s0) m (\<lambda>_ s. waits s0 sid s \<and> tc_enabled s0) (same_roster s0)"
    if "preserves (waits s0 sid) m" for m :: "(('p, 'z) worktrees_scheme, runtime_error, 'a) rt"
    by (rule ensures_keeps) (use that roster in \<open>auto simp: preserves_def\<close>)
  have parts: "preserves (waits s0 sid) (require_session_active i)" "preserves (waits s0 sid) now_ms" for i
    by (rule waits_kept [OF roster_lookup(5)], unfold require_session_active_def, intro preserves_intros stored_get)
       (rule waits_kept [OF roster_basic(3) stored_kept(2)])
  let ?R = "\<lambda>v s. seated s0 team sid s \<and> (\<exists>m \<in> set (twm_members v). mem_agent_id m = sid)"
  let ?store = "\<lambda>t m. bindE (store_write (WTeam t)) (\<lambda>_. bindE (store_write (WMember m)) (\<lambda>_.
      bindE (ignore (append_team_event team ''team.member_joined''
       (jobject [(''team'', team_json t), (''member'', member_json m)]) (Some sid))) (\<lambda>_. team_with_members team)))"
  have "preserves (seated s0 team sid) (append_team_event team kind p a)" for kind p a
    by (intro seat_kept preserves_intros)
  then have "ensures (?Q (t, m)) (?store t m) ?R (same_roster s0)" for t m
    by (intro ensures_bindE [OF team_row] ensures_bindE [OF member_row] ensures_bindE [OF ignore_keeps] view_sees_member)
  then have store: "ensures (?Q x) (case x of (t, m) \<Rightarrow> ?store t m) ?R (same_roster s0)" for x
    by (cases x) simp
  have run: "ensures (\<lambda>s. waits s0 sid s \<and> tc_enabled s0) (bindE (require_session_active sid) (\<lambda>_. bindE now_ms (\<lambda>now.
      bindE (join_under_lock req team sid now) (\<lambda>(t, m). ?store t m)))) ?R (same_roster s0)"
    by (rule ensures_bindE [OF keep [OF parts(1)]] ensures_bindE [OF keep [OF parts(2)]] ensures_bindE [OF lock store])+
  have norm: "lift_result (normalize_non_empty team ''team_id'') = ok team"
    using team by (intro ext) (simp add: normalize_non_empty_def lift_result_def ok_def)
  show ?thesis
    unfolding join_team_def team(1) sid norm bindE_ok
    by (rule ensures_bindE [OF enabled], rule ensures_bindE [OF named], rule ensures_assume, simp only: run)
qed

lemma spawn_join_seats:
  assumes "comms_ok s0" and "no_faults s0" and "trim team = team" and "team \<noteq> []"
  shows "ensures (waits s0 sid) (spawn_join req team op source sid a)
    (\<lambda>v s. seated s0 team sid s \<and> (\<exists>m \<in> set (twm_members v). mem_agent_id m = sid)) (same_roster s0)"
  unfolding spawn_join_def
proof (rule ensures_catch [OF join_seats])
  fix e
  show "preserves (same_roster s0) (bindE (ignore (close_session sid (Some ''spawn_join_failed''))) (\<lambda>_.
         bindE (cleanup_if_created (sa_created_id a) ''spawn_join_failed'') (\<lambda>_.
         bindE (record_journal op team ''rolled_back'' (failed_payload ''team_join_failed'' e)) (\<lambda>_. err e))))"
    by (intro roster_kept preserves_intros)
qed (use assms in \<open>auto intro: fails_intros\<close>)

section \<open>After the join\<close>

lemma journal_seats:
  assumes "no_faults s0"
  shows "ensures (seated s0 team sid) (record_journal op t stage payload) (\<lambda>_. seated s0 team sid) E"
proof -
  have read: "ensures (seated s0 team sid) (store_call (\<lambda>db. Inr (g db, db))) (\<lambda>_. seated s0 team sid) E" for g :: "database \<Rightarrow> journal_record list"
    using seated_faults [OF assms] by (auto simp: ensures_def store_call_def no_faults_def Let_def)
  have clock: "ensures (seated s0 team sid) now_ms (\<lambda>_. seated s0 team sid) E"
    by (simp add: ensures_def now_ms_def)
  show ?thesis
    unfolding record_journal_def
    by (rule ensures_bindE [OF clock], rule ensures_bindE [OF read], rule write_ensures)
       (use seated_faults [OF assms] in \<open>auto simp: write_defs\<close>)
qed

lemma rollback_unseats:
  assumes "trim team = team" "team \<noteq> []" "trim sid = sid" "sid \<noteq> []"
  shows "ensures (seated s0 team sid) (rollback_spawn_after_join team op sid assigned created reason message payload)
    (\<lambda>_. same_roster s0) (same_roster s0)"
  unfolding rollback_spawn_after_join_def rollback_membership_def bindE_assoc
proof (rule ensures_bindE)
  show "ensures (seated s0 team sid) (attempt (remove_team_member team sid)) (\<lambda>_. same_roster s0) (same_roster s0)"
    by (rule ensures_state) (use remove_unseats [OF _ assms] in \<open>simp add: attempt_def case_prod_beta\<close>)
qed (auto simp: preserves_iff_ensures [symmetric] intro!: roster_kept preserves_intros split: sum.splits option.splits)

lemma undo_spawn:
  assumes "trim team = team" "team \<noteq> []" "trim sid = sid" "sid \<noteq> []"
  shows "ensures (seated s0 team sid)
    (bindE (rollback_spawn_after_join team op sid assigned created reason message payload) (\<lambda>_. err e)) Q (same_roster s0)"
  by (rule ensures_bindE [OF rollback_unseats [OF assms]]) (rule ensures_err)

lemma claim_seats:
  assumes "trim team = team" "team \<noteq> []" "trim sid = sid" "sid \<noteq> []"
  shows "ensures (seated s0 team sid) (spawn_claim team op sid a) (\<lambda>_. seated s0 team sid) (same_roster s0)"
  unfolding spawn_claim_def
  by (intro ensures_option ensures_ok ensures_bindE [OF attempt_keeps] ensures_sum seat_kept roster_claims undo_spawn assms)

lemma onboard_seats:
  assumes "trim team = team" "team \<noteq> []" "trim sid = sid" "sid \<noteq> []"
  shows "ensures (seated s0 team sid) (spawn_onboard req team op source sid a joined) (\<lambda>_. seated s0 team sid) (same_roster s0)"
  unfolding spawn_onboard_def
  by (intro ensures_ok ensures_bindE [OF attempt_keeps] ensures_sum seat_kept roster_send undo_spawn assms)

lemma finish_seats:
  assumes "no_faults s0" and "trim team = team" "team \<noteq> []" "trim (sess_id session) = sess_id session" "sess_id session \<noteq> []"
    and m: "m \<in> set (twm_members joined)" "mem_agent_id m = sess_id session"
  shows "ensures (seated s0 team (sess_id session)) (spawn_finish req team op source session a joined)
    (\<lambda>_ _. True) (same_roster s0)"
proof -
  obtain m' where "find (\<lambda>m. mem_agent_id m = sess_id session) (twm_members joined) = Some m'"
    using m by (cases "find (\<lambda>m. mem_agent_id m = sess_id session) (twm_members joined)") (auto simp: find_None_iff)
  then show ?thesis
    unfolding spawn_finish_def Let_def
    by (simp only: )
       (rule ensures_bindE [OF claim_seats [OF assms(2-5)]] ensures_bindE [OF journal_seats [OF assms(1)]]
         ensures_bindE [OF onboard_seats [OF assms(2-5)]] | simp add: bindE_ok_or_else ensures_def ok_def ok_or_else_def bindE_ok)+
qed

lemma spawn_unseats:
  assumes ok: "comms_ok s0" "no_faults s0"
  shows "ensures (\<lambda>s. rview s = rview s0) (spawn_team_member req) (\<lambda>_ _. True) (same_roster s0)"
proof -
  have finish: "ensures (\<lambda>s. seated s0 team (sess_id session) s \<and> (\<exists>m \<in> set (twm_members joined). mem_agent_id m = sess_id session))
      (spawn_finish req team op source session a joined) (\<lambda>_ _. True) (same_roster s0)"
    if "trim team = team" "team \<noteq> []" "trim (sess_id session) = sess_id session" "sess_id session \<noteq> []"
    for team op source session a joined
    by (rule ensures_given [where b = "\<exists>m \<in> set (twm_members joined). mem_agent_id m = sess_id session"
        and P' = "seated s0 team (sess_id session)"])
       (auto intro: finish_seats [OF ok(2) that])
  have tail: "ensures (waits s0 (sess_id session)) (bindE (attach_worktree team op (sess_id session) a) (\<lambda>_.
     bindE (spawn_join req team op source (sess_id session) a) (\<lambda>joined.
     spawn_finish req team op source session a joined))) (\<lambda>_ _. True) (same_roster s0)"
    if team: "trim team = team" "team \<noteq> []" for team op source session a
    by (rule ensures_given [where b = "trim (sess_id session) = sess_id session \<and> sess_id session \<noteq> []"
        and P' = "waits s0 (sess_id session)"], simp add: waits_def, elim conjE)
       (intro ensures_bindE [OF attach_waits] ensures_bindE [OF spawn_join_seats [OF ok team]] finish team)
  show ?thesis
    unfolding spawn_team_member_def Let_def
    by (rule ensures_bindE [OF still_ensures] ensures_if ensures_err [OF before_join] roster_reports roster_counters
        roster_lookup roster_assign preserves_ok_or_else preserves_lift
        ensures_bindE [OF spawn_session_waits] tail trim_idem | assumption)+
qed

section \<open>A failed spawn\<close>


definition outsider :: session_record where
  "outsider = sample_session\<lparr>sess_id := ''x'', sess_cwd := Some ''/''\<rparr>"

definition outsider_comms :: "unit comms" where
  "outsider_comms = sample_comms\<lparr>env_db := empty_db\<lparr>db_sessions := [outsider]\<rparr>, mg_sessions := [(''x'', outsider)]\<rparr>"

definition outsider_state :: "unit worktrees" where
  "outsider_state = worktrees_empty outsider_comms \<lparr>wc_enabled = True, wc_root_dir = ''w'', wc_init_script_path = [],
     wc_deletion_policy_default = ''retain_on_last_claim''\<rparr> ''n'' (\<lambda>_ _. Inl []) (\<lambda>_ _. False) (\<lambda>_ _. None)"

definition outsider_request :: member_spawn_request where
  "outsider_request = \<lparr>msr_team = ''t'', msr_source_session = ''x'', msr_provider = None, msr_model = None, msr_title = None,
     msr_prompt = None, msr_permission_mode = None, msr_metadata = None, msr_worktree = None, msr_creator_agent_id = None,
     msr_subscription = None\<rparr>"


end
