(* ===== verification/Gateway_Args.thy ===== *)
theory Gateway_Args
  imports Complex_Main Worktree_Spawn Process_Manager
begin

text \<open>
  The pure parts of the tool gateway (\<open>runtime-tools/src/gateway\<close>): the model presets
  (\<open>presets.rs\<close>), failures and the reading of messages (\<open>team_helpers.rs\<close>), the arguments of a tool
  call and the context window arithmetic (the free functions of \<open>team.rs\<close>), and the serialized answers
  of the services it calls.
\<close>

section \<open>Model presets (presets.rs)\<close>

record team_policy =
  tp_enabled :: bool
  tp_non_lead_can_add_members :: bool
  tp_non_lead_can_remove_members :: bool

definition default_team_policy :: team_policy where
  "default_team_policy =
     \<lparr>tp_enabled = True, tp_non_lead_can_add_members = False, tp_non_lead_can_remove_members = False\<rparr>"

record model_preset =
  mps_name :: string
  mps_provider :: "string option"
  mps_model :: string
  mps_thinking_effort :: "string option"

record resolved_preset =
  rps_name :: string
  rps_provider :: provider_kind
  rps_model :: string
  rps_thinking_effort :: "string option"

record preset_catalog =
  pca_by_name :: "(string, resolved_preset) hmap"
  pca_names :: "string list"

text \<open>
  The loop over the characters of the trimmed name in lower case, byte by byte: the bytes of a
  character outside ASCII are separators one after the other, which add one underscore together.
\<close>

fun preset_name_from :: "bool \<Rightarrow> string \<Rightarrow> string" where
  "preset_name_from prev_sep [] = []"
| "preset_name_from prev_sep (c # cs) =
     (if is_ascii_alphanumeric c then c # preset_name_from False cs
      else if \<not> prev_sep then CHR ''_'' # preset_name_from True cs
      else preset_name_from True cs)"

definition normalize_model_preset_name :: "string \<Rightarrow> string" where
  "normalize_model_preset_name value =
     trim_matches (CHR ''_'') (preset_name_from False (to_ascii_lowercase (trim value)))"

definition infer_provider_for_model :: "string \<Rightarrow> provider_kind option" where
  "infer_provider_for_model model =
     (let m = to_ascii_lowercase (trim model) in
      if starts_with m ''claude-'' then Some Claude
      else if starts_with m ''gpt-'' \<or> starts_with m ''o'' then Some Codex
      else None)"

definition preset_provider :: "string option \<Rightarrow> string \<Rightarrow> provider_kind" where
  "preset_provider provider model =
     (case or_else (Option.bind provider kind_from_str) (infer_provider_for_model model) of
        None \<Rightarrow> Codex | Some k \<Rightarrow> k)"

definition add_preset :: "model_preset \<Rightarrow> preset_catalog \<Rightarrow> preset_catalog" where
  "add_preset p cat =
     (let name = normalize_model_preset_name (mps_name p); model = trim (mps_model p) in
      if name = [] \<or> model = [] \<or> hcontains (pca_by_name cat) name then cat
      else
        \<lparr>pca_by_name = hinsert name
           \<lparr>rps_name = name, rps_provider = preset_provider (mps_provider p) model, rps_model = model,
            rps_thinking_effort = non_empty_trimmed (mps_thinking_effort p)\<rparr> (pca_by_name cat),
         pca_names = pca_names cat @ [name]\<rparr>)"

definition from_presets :: "model_preset list \<Rightarrow> preset_catalog" where
  "from_presets presets = fold add_preset presets \<lparr>pca_by_name = [], pca_names = []\<rparr>"

definition resolve_preset :: "preset_catalog \<Rightarrow> string \<Rightarrow> resolved_preset option" where
  "resolve_preset cat name = hget (pca_by_name cat) (normalize_model_preset_name name)"

definition default_team_model_presets :: "model_preset list" where
  "default_team_model_presets =
     map (\<lambda>(name, provider, model, effort).
            \<lparr>mps_name = name, mps_provider = provider, mps_model = model, mps_thinking_effort = effort\<rparr>)
       [(''planner'', None, ''gpt-5.5'', Some ''high''), (''designer'', Some ''claude'', ''claude-opus-5'', Some ''high''),
        (''frontend'', None, ''gpt-5.5'', Some ''high''), (''fast'', Some ''codex'', ''gpt-5.4-mini'', Some ''low''),
        (''codex'', Some ''codex'', ''gpt-5.5'', Some ''high''), (''deep'', Some ''claude'', ''claude-opus-5'', Some ''high''),
        (''opus'', Some ''claude'', ''claude-opus-5'', Some ''high''),
        (''sonnet'', Some ''claude'', ''claude-sonnet-5'', Some ''high'')]"

section \<open>Failures (team_helpers.rs)\<close>

record tool_failure =
  tf_code :: string
  tf_message :: string

definition failure_new :: "string \<Rightarrow> string \<Rightarrow> tool_failure" where
  "failure_new code message = \<lparr>tf_code = code, tf_message = message\<rparr>"

fun team_tool_error_code_for_runtime :: "runtime_error \<Rightarrow> string" where
  "team_tool_error_code_for_runtime (InvalidState _) = ''unauthorized''"
| "team_tool_error_code_for_runtime (NotFound _) = ''not_found''"
| "team_tool_error_code_for_runtime (Unsupported _) = ''feature_disabled''"
| "team_tool_error_code_for_runtime _ = ''tool_failed''"

definition failure_from_runtime :: "runtime_error \<Rightarrow> tool_failure" where
  "failure_from_runtime e = failure_new (team_tool_error_code_for_runtime e) (error_to_string e)"

definition team_tool_error :: "string \<Rightarrow> string \<Rightarrow> json" where
  "team_tool_error code message =
     jobject [(''ok'', JBool False), (''error'', jobject [(''code'', JString code), (''message'', JString message)])]"

definition ensure_team_member :: "team_view \<Rightarrow> string \<Rightarrow> tool_failure + unit" where
  "ensure_team_member team caller =
     (if \<exists>m \<in> set (twm_members team). mem_agent_id m = caller then Inr ()
      else Inl (failure_new ''unauthorized'' (''agent '' @ caller @ '' is not a member of team '' @ team_id (twm_team team))))"

definition reject_image_paths_for_provider :: "string \<Rightarrow> string \<Rightarrow> tool_failure + unit" where
  "reject_image_paths_for_provider provider tool =
     (if kind_from_str provider = Some Acp
      then Inl (failure_new ''unsupported_provider_images'' (tool @
        '' image_paths are not supported for ACP provider sessions because ACP image attachment delivery is not modeled by this runtime yet''))
      else Inr ())"

definition status_state_for_session :: "session_record option \<Rightarrow> string" where
  "status_state_for_session session =
     (case session of
        Some r \<Rightarrow> if sess_status r = ''failed'' then ''errored''
                  else if sess_active_turn_id r \<noteq> None then ''working''
                  else if sess_status r = ''closed'' then ''closed''
                  else ''idle''
      | None \<Rightarrow> ''unknown'')"

definition concerns_member :: "string \<Rightarrow> team_message_record \<Rightarrow> bool" where
  "concerns_member agent m \<longleftrightarrow> msg_sender m = agent \<or>
     (case as_array (msg_recipients m) of None \<Rightarrow> False | Some rs \<Rightarrow> \<exists>v \<in> set rs. as_str v = Some agent)"

text \<open>\<open>Iterator::max_by\<close>: the last of the greatest elements.\<close>

fun max_by_key :: "('a \<Rightarrow> 'k :: linorder) \<Rightarrow> 'a list \<Rightarrow> 'a option" where
  "max_by_key key [] = None"
| "max_by_key key (x # xs) =
     (case max_by_key key xs of None \<Rightarrow> Some x | Some y \<Rightarrow> if key x > key y then Some x else Some y)"

definition latest_message_for_member :: "string \<Rightarrow> team_message_record list \<Rightarrow> team_message_record option" where
  "latest_message_for_member agent messages =
     max_by_key (\<lambda>m. (msg_created_at m, msg_id m)) (filter (concerns_member agent) messages)"

definition message_text :: "json \<Rightarrow> string option" where
  "message_text input =
     (case as_str input of
        Some text \<Rightarrow> Some text
      | None \<Rightarrow>
          (case as_array input of
             Some items \<Rightarrow>
               (let text = join newline (List.map_filter
                  (\<lambda>item. or_else (as_str item) (Option.bind (jget item ''text'') as_str)) items)
                in if text = [] then None else Some text)
           | None \<Rightarrow> Option.bind (jget input ''text'') as_str))"

definition member_last_message_output :: "team_message_record \<Rightarrow> json" where
  "member_last_message_output m =
     jobject [(''message_id'', JString (msg_id m)), (''scope'', JString (msg_scope m)),
       (''sender_agent_id'', JString (msg_sender m)), (''created_at_ms'', jint (msg_created_at m)),
       (''text'', jopt JString (message_text (msg_input m)))]"

section \<open>Arguments (team.rs)\<close>

type_synonym tool_args = "(string \<times> json) list"

definition contains_key :: "tool_args \<Rightarrow> string \<Rightarrow> bool" where
  "contains_key args k \<longleftrightarrow> obj_get args k \<noteq> None"

definition reject_team_tool_fields_with_message ::
  "tool_args \<Rightarrow> string list \<Rightarrow> (string \<Rightarrow> string) \<Rightarrow> tool_failure + unit" where
  "reject_team_tool_fields_with_message args names message_for =
     (case find (contains_key args) names of
        None \<Rightarrow> Inr () | Some field \<Rightarrow> Inl (failure_new ''bad_request'' (message_for field)))"

definition reject_team_tool_fields :: "tool_args \<Rightarrow> string list \<Rightarrow> tool_failure + unit" where
  "reject_team_tool_fields args names =
     reject_team_tool_fields_with_message args names
       (\<lambda>f. f @ '' is supplied by gateway metadata and cannot be provided in args'')"

definition required_string_arg :: "tool_args \<Rightarrow> string \<Rightarrow> tool_failure + string" where
  "required_string_arg args field =
     (case non_empty_trimmed (Option.bind (obj_get args field) as_str) of
        None \<Rightarrow> Inl (failure_new ''bad_request'' (field @ '' is required'')) | Some v \<Rightarrow> Inr v)"

text \<open>A field that may be missing or null, read by the given function otherwise.\<close>

definition optional_arg :: "tool_args \<Rightarrow> string \<Rightarrow> (json \<Rightarrow> 'a option) \<Rightarrow> string \<Rightarrow> tool_failure + 'a option" where
  "optional_arg args field read message =
     (case obj_get args field of
        None \<Rightarrow> Inr None
      | Some value \<Rightarrow>
          if value = JNull then Inr None
          else case read value of None \<Rightarrow> Inl (failure_new ''bad_request'' (field @ message)) | Some x \<Rightarrow> Inr (Some x))"

definition optional_string_arg :: "tool_args \<Rightarrow> string \<Rightarrow> tool_failure + string option" where
  "optional_string_arg args field =
     optional_arg args field (\<lambda>v. non_empty_trimmed (as_str v)) '' must be a non-empty string when provided''"

definition as_bool :: "json \<Rightarrow> bool option" where
  "as_bool v = (case v of JBool b \<Rightarrow> Some b | _ \<Rightarrow> None)"

definition optional_bool_arg :: "tool_args \<Rightarrow> string \<Rightarrow> tool_failure + bool option" where
  "optional_bool_arg args field = optional_arg args field as_bool '' must be a boolean when provided''"

fun collect_strings :: "string \<Rightarrow> json list \<Rightarrow> tool_failure + string list" where
  "collect_strings field [] = Inr []"
| "collect_strings field (v # vs) =
     (case non_empty_trimmed (as_str v) of
        None \<Rightarrow> Inl (failure_new ''bad_request'' (field @ '' must contain only non-empty strings''))
      | Some x \<Rightarrow> (case collect_strings field vs of Inl e \<Rightarrow> Inl e | Inr xs \<Rightarrow> Inr (x # xs)))"

definition optional_string_array_arg :: "tool_args \<Rightarrow> string \<Rightarrow> tool_failure + string list" where
  "optional_string_array_arg args field =
     (case optional_arg args field as_array '' must be an array of non-empty strings'' of
        Inl e \<Rightarrow> Inl e | Inr None \<Rightarrow> Inr [] | Inr (Some values) \<Rightarrow> collect_strings field values)"

definition optional_creator_compaction_subscription_arg :: "tool_args \<Rightarrow> string \<Rightarrow> tool_failure + string option" where
  "optional_creator_compaction_subscription_arg args field =
     (case optional_string_arg args field of
        Inl e \<Rightarrow> Inl e
      | Inr None \<Rightarrow> Inr None
      | Inr (Some v) \<Rightarrow>
          if v = ''auto'' \<or> v = ''unsubscribed'' then Inr (Some v)
          else Inl (failure_new ''bad_request'' (field @ '' must be either auto or unsubscribed'')))"

definition build_manage_add_metadata :: "resolved_preset option \<Rightarrow> string list \<Rightarrow> json option" where
  "build_manage_add_metadata preset images =
     (let entries =
        (case preset of
           None \<Rightarrow> []
         | Some p \<Rightarrow> (''model_preset'', JString (rps_name p)) #
             (case rps_thinking_effort p of None \<Rightarrow> [] | Some t \<Rightarrow> [(''thinking_effort'', JString t)])) @
        (if images = [] then [] else [(''gg_team_manage_add_image_paths'', JArray (map JString images))])
      in if entries = [] then None else Some (jobject entries))"

section \<open>The context window (team.rs)\<close>

text \<open>The integers of a JSON number that fit \<open>u64\<close> or \<open>i64\<close>.\<close>

definition as_u64 :: "json \<Rightarrow> nat option" where
  "as_u64 v = (case v of JNumber (NInt i) \<Rightarrow> if 0 \<le> i \<and> i < 2 ^ 64 then Some (nat i) else None | _ \<Rightarrow> None)"

definition as_i64 :: "json \<Rightarrow> int option" where
  "as_i64 v = (case v of JNumber (NInt i) \<Rightarrow> if - (2 ^ 63) \<le> i \<and> i < 2 ^ 63 then Some i else None | _ \<Rightarrow> None)"

definition u64_try_from :: "int \<Rightarrow> nat option" where
  "u64_try_from i = (if 0 \<le> i then Some (nat i) else None)"

fun extract_u64_from_usage :: "json \<Rightarrow> string list \<Rightarrow> nat option" where
  "extract_u64_from_usage usage [] = None"
| "extract_u64_from_usage usage (key # keys) =
     or_else (Option.bind (jget usage key) (\<lambda>v. or_else (as_u64 v) (Option.bind (as_i64 v) u64_try_from)))
       (extract_u64_from_usage usage keys)"

definition context_window_keys :: "string list" where
  "context_window_keys =
     [''contextWindowSize'', ''context_window_size'', ''contextWindow'', ''context_window'', ''model_context_window'',
      ''modelContextWindow'']"

definition extract_context_window_from_usage :: "json \<Rightarrow> nat option" where
  "extract_context_window_from_usage usage = extract_u64_from_usage usage context_window_keys"

definition saturating_add :: "nat \<Rightarrow> nat \<Rightarrow> nat" where
  "saturating_add a b = min (2 ^ 64 - 1) (a + b)"

definition summed_tokens :: "json \<Rightarrow> nat option" where
  "summed_tokens usage =
     (case extract_u64_from_usage usage [''inputTokens'', ''input_tokens''] of
        None \<Rightarrow> None
      | Some input \<Rightarrow>
          (let count = (\<lambda>keys. case extract_u64_from_usage usage keys of None \<Rightarrow> 0 | Some n \<Rightarrow> n) in
           Some (saturating_add (saturating_add (saturating_add input (count [''outputTokens'', ''output_tokens'']))
             (count [''cacheCreationInputTokens'', ''cache_creation_input_tokens'']))
             (count [''cacheReadInputTokens'', ''cache_read_input_tokens'']))))"

lemma obj_get_size: "obj_get kvs k = Some v \<Longrightarrow> size v < Suc (size_list (size_prod (\<lambda>_. 0) size) kvs)"
  by (induction kvs) (auto simp: obj_get_def split: if_splits)

text \<open>The function calls itself on the \<open>raw_usage\<close> inside.\<close>

function extract_total_tokens_from_usage :: "json \<Rightarrow> nat option" where
  "extract_total_tokens_from_usage usage =
     (case extract_u64_from_usage usage [''total_tokens'', ''totalTokens'', ''total''] of
        Some n \<Rightarrow> Some n
      | None \<Rightarrow>
          (case jget usage ''raw_usage'' of
             Some raw \<Rightarrow>
               (case extract_total_tokens_from_usage raw of Some tokens \<Rightarrow> Some tokens | None \<Rightarrow> summed_tokens usage)
           | None \<Rightarrow> summed_tokens usage))"
  by pat_completeness auto
termination
  by (relation "measure size") (auto simp: jget_def dest: obj_get_size split: json.splits)

declare extract_total_tokens_from_usage.simps [simp del]

text \<open>
  \<open>f64\<close> arithmetic on positive numbers of moderate size: every operation rounds the exact rational
  to the nearest one with a 53 bit significand, ties to even.
\<close>

fun ilog2 :: "nat \<Rightarrow> nat" where
  "ilog2 n = (if n < 2 then 0 else Suc (ilog2 (n div 2)))"

declare ilog2.simps [simp del]

definition pow2 :: "int \<Rightarrow> rat" where
  "pow2 e = (if 0 \<le> e then 2 ^ nat e else 1 / 2 ^ nat (- e))"

definition round_half_even :: "rat \<Rightarrow> int" where
  "round_half_even q =
     (let f = \<lfloor>q\<rfloor>; d = q - of_int f in
      if d < 1 / 2 then f else if d > 1 / 2 then f + 1 else if even f then f else f + 1)"

definition f64 :: "rat \<Rightarrow> rat" where
  "f64 q =
     (if q \<le> 0 then 0
      else case quotient_of q of (a, b) \<Rightarrow>
        (let e0 = int (ilog2 (nat a)) - int (ilog2 (nat b)); e = (if pow2 e0 \<le> q then e0 else e0 - 1)
         in of_int (round_half_even (q * pow2 (52 - e))) * pow2 (e - 52)))"

text \<open>\<open>(((remaining as f64) / (window as f64)) * 100.0).round().clamp(0.0, 100.0) as u8\<close>\<close>

definition remaining_percentage :: "nat \<Rightarrow> nat \<Rightarrow> nat" where
  "remaining_percentage remaining window =
     nat (max 0 (min 100 \<lfloor>f64 (f64 (f64 (of_nat remaining) / f64 (of_nat window)) * 100) + 1 / 2\<rfloor>))"

definition context_remaining_percentage_from_usage :: "json \<Rightarrow> nat option" where
  "context_remaining_percentage_from_usage usage =
     (case or_else (extract_u64_from_usage usage context_window_keys)
             (Option.bind (jget usage ''raw_usage'') extract_context_window_from_usage) of
        None \<Rightarrow> None
      | Some window \<Rightarrow>
          if window = 0 then None
          else
            (let nested = (\<lambda>k. Option.bind (jget usage k) extract_total_tokens_from_usage) in
             case or_else (extract_u64_from_usage usage [''last_total_tokens'', ''lastTotalTokens''])
                   (or_else (nested ''last'') (or_else (nested ''last_token_usage'') (or_else (nested ''lastTokenUsage'')
                     (extract_total_tokens_from_usage usage)))) of
               None \<Rightarrow> None
             | Some tokens \<Rightarrow> Some (remaining_percentage (window - tokens) window)))"

section \<open>Serialized answers\<close>

definition session_json :: "session_record \<Rightarrow> json" where
  "session_json r =
     jobject [(''id'', JString (sess_id r)), (''provider'', JString (sess_provider r)), (''status'', JString (sess_status r)),
       (''cwd'', jopt JString (sess_cwd r)), (''model'', jopt JString (sess_model r)),
       (''permission_mode'', jopt JString (sess_permission_mode r)), (''system_prompt'', jopt JString (sess_system_prompt r)),
       (''metadata'', sess_metadata r), (''provider_session_ref'', jopt JString (sess_provider_session_ref r)),
       (''canonical_provider_session_ref'', jopt JString (sess_canonical_ref r)),
       (''active_turn_id'', jopt JString (sess_active_turn_id r)), (''worktree_id'', jopt JString (sess_worktree_id r)),
       (''created_at'', jint (sess_created_at r)), (''updated_at'', jint (sess_updated_at r)),
       (''closed_at'', jopt jint (sess_closed_at r)), (''failure_code'', jopt JString (sess_failure_code r)),
       (''failure_message'', jopt JString (sess_failure_message r))]"

definition team_view_json :: "team_view \<Rightarrow> json" where
  "team_view_json v =
     jobject [(''team'', team_json (twm_team v)), (''members'', JArray (map member_json (twm_members v)))]"

definition process_summary_json :: "process_summary \<Rightarrow> json" where
  "process_summary_json p =
     jobject [(''process_id'', JString (psm_process_id p)), (''session_id'', jopt JString (psm_session_id p)),
       (''pid'', jopt jint (psm_pid p)), (''status'', JString (psm_status p)), (''command'', psm_command p),
       (''cwd'', jopt JString (psm_cwd p)), (''started_at'', jint (psm_started_at p)), (''ended_at'', jopt jint (psm_ended_at p))]"

definition process_details_json :: "process_details \<Rightarrow> json" where
  "process_details_json d =
     jobject [(''process'', process_summary_json (pd_process d)), (''exit_code'', jopt jint (pd_exit_code d)),
       (''signal'', jopt jint (pd_signal d)), (''timeout_ms'', jopt jint (pd_timeout_ms d)),
       (''stdout_path'', jopt JString (pd_stdout_path d)), (''stderr_path'', jopt JString (pd_stderr_path d)),
       (''stdout_bytes'', jint (int (pd_stdout_bytes d))), (''stderr_bytes'', jint (int (pd_stderr_bytes d))),
       (''stdout_truncated'', JBool (pd_stdout_truncated d)), (''stderr_truncated'', JBool (pd_stderr_truncated d))]"

definition logs_chunk_json :: "logs_chunk \<Rightarrow> json" where
  "logs_chunk_json c =
     jobject [(''process_id'', JString (lc_process_id c)), (''stream'', JString (lc_stream c)), (''content'', JString (lc_content c)),
       (''head_lines'', jint (int (lc_head_lines c))), (''tail_lines'', jint (int (lc_tail_lines c))),
       (''truncated'', JBool (lc_truncated c)), (''bytes'', jint (int (lc_bytes c)))]"

definition cleanup_json :: "worktree_cleanup_response \<Rightarrow> json" where
  "cleanup_json r =
     jobject [(''worktree_id'', JString (wlp_worktree_id r)), (''status'', JString (wlp_status r)),
       (''deletion_policy'', JString (wlp_deletion_policy r)), (''active_claim_count'', jint (int (wlp_active_claim_count r))),
       (''worktree_path_deleted'', JBool (wlp_worktree_path_deleted r)), (''branch_deleted'', JBool (wlp_branch_deleted r)),
       (''diagnostics'', JArray (map JString (wlp_diagnostics r)))]"

definition diagnostic_json :: "diagnostic_record \<Rightarrow> json" where
  "diagnostic_json d =
     jobject [(''id'', jint (diag_id d)), (''operation_id'', jopt JString (diag_operation_id d)),
       (''team_id'', jopt JString (diag_team_id d)), (''code'', JString (diag_code d)), (''message'', JString (diag_message d)),
       (''payload'', diag_payload d), (''created_at'', jint (diag_created_at d))]"

end
