(* ===== verification/Gateway.thy ===== *)
theory Gateway
  imports Gateway_Args
begin

text \<open>
  The tool gateway (\<open>runtime-tools/src/gateway/mod.rs\<close>, \<open>team.rs\<close>): the calls an agent's MCP tools make.
  A call is checked, dispatched by its tool name to the process manager or to the team tools, and
  answered with a JSON value that carries the result or a failure.

  The gateway holds all services, so its state extends that of the worktree service (which extends the
  teams' and the session manager's) by the process manager, the team policy, the presets and the
  cache of \<open>gg_team_manage\<close> calls. The process manager shares the store and the clock: \<open>on_processes\<close> runs it
  on the environment of the gateway. \<open>Instant::now()\<close> is a clock of its own, in nanoseconds.
\<close>

section \<open>State\<close>

record add_entry =
  ae_inserted_at :: nat
  ae_completed_success :: "json option"

record 'p gateway = "'p worktrees" +
  gw_processes :: process_manager
  gw_runtime :: bool
  gw_policy :: team_policy
  gw_presets :: preset_catalog
  gw_add_cache :: "(string, add_entry) hmap"
  gw_instant :: "nat \<Rightarrow> nat"
  gw_instant_reads :: nat

type_synonym ('p, 'z, 'a) tool = "(('p, 'z) gateway_scheme, tool_failure, 'a) rt"

definition gateway_new ::
  "'p worktrees \<Rightarrow> process_manager \<Rightarrow> bool \<Rightarrow> team_policy \<Rightarrow> model_preset list \<Rightarrow> (nat \<Rightarrow> nat) \<Rightarrow> 'p gateway" where
  "gateway_new services processes runtime policy presets instant =
     worktrees.extend services
       \<lparr>gw_processes = processes, gw_runtime = runtime, gw_policy = policy, gw_presets = from_presets presets,
        gw_add_cache = [], gw_instant = instant, gw_instant_reads = 0\<rparr>"

definition instant_now :: "(('p, 'z) gateway_scheme, 'e, nat) rt" where
  "instant_now s = (Inr (gw_instant s (gw_instant_reads s)), s\<lparr>gw_instant_reads := Suc (gw_instant_reads s)\<rparr>)"

text \<open>The store and the clock of one state put into another.\<close>

definition with_env :: "'a runtime_env_scheme \<Rightarrow> 'b runtime_env_scheme \<Rightarrow> 'b runtime_env_scheme" where
  "with_env e s =
     s\<lparr>env_db := env_db e, env_faults := env_faults e, env_store_ops := env_store_ops e, env_clock := env_clock e,
       env_clock_reads := env_clock_reads e\<rparr>"

definition back_from_processes :: "process_manager \<Rightarrow> ('p, 'z) gateway_scheme \<Rightarrow> ('p, 'z) gateway_scheme" where
  "back_from_processes pm s = with_env pm (s\<lparr>gw_processes := pm\<rparr>)"

definition on_processes ::
  "(process_manager, 'e, 'a) rt \<Rightarrow> (('p, 'z) gateway_scheme, 'e, 'a) rt" where
  "on_processes m s = (case m (with_env s (gw_processes s)) of (r, pm) \<Rightarrow> (r, back_from_processes pm s))"

section \<open>Tool requests\<close>

record tool_request =
  tir_namespace :: "string option"
  tir_tool_name :: string
  tir_caller :: string
  tir_invocation_id :: "string option"
  tir_args :: json

text \<open>\<open>.map_err(TeamToolFailure::from_runtime)?\<close>\<close>

definition of_runtime :: "('s, runtime_error, 'a) rt \<Rightarrow> ('s, tool_failure, 'a) rt" where
  "of_runtime m =
     bindE (attempt m) (\<lambda>r. case r of Inl e \<Rightarrow> err (failure_from_runtime e) | Inr x \<Rightarrow> ok x)"

definition arg_str :: "tool_args \<Rightarrow> string \<Rightarrow> string option" where
  "arg_str args k = Option.bind (obj_get args k) as_str"

definition str_or_default :: "string option \<Rightarrow> string" where
  "str_or_default v = (case v of None \<Rightarrow> [] | Some x \<Rightarrow> x)"

section \<open>Process tools (mod.rs)\<close>

definition tool_reply :: "runtime_error + json \<Rightarrow> json" where
  "tool_reply r =
     (case r of
        Inr result \<Rightarrow> jobject [(''ok'', JBool True), (''result'', result)]
      | Inl e \<Rightarrow> team_tool_error ''tool_failed'' (error_to_string e))"

definition process_run_of :: "tool_request \<Rightarrow> tool_args \<Rightarrow> process_run_request" where
  "process_run_of req args =
     \<lparr>prr_caller = Some (tir_caller req), prr_tool_call_id = tir_invocation_id req,
      prr_command = str_or_default (arg_str args ''command''), prr_cwd = arg_str args ''cwd'',
      prr_timeout_ms = map_option of_nat (Option.bind (obj_get args ''timeout_ms'') as_u64)\<rparr>"

definition process_status :: "tool_request \<Rightarrow> tool_args \<Rightarrow> (process_manager, runtime_error, json) rt" where
  "process_status req args =
     (let caller = Some (tir_caller req); details = (\<lambda>pid. bindE (get_process pid caller) (\<lambda>d. ok (process_details_json d))) in
      case arg_str args ''process_id'' of
        Some pid \<Rightarrow> details pid
      | None \<Rightarrow>
          (case Option.bind (obj_get args ''pid'') as_i64 of
             Some pid \<Rightarrow> bindE (process_id_from_pid pid) details
           | None \<Rightarrow>
               bindE (list_processes caller False) (\<lambda>rows.
               ok (jobject [(''running'', JArray (map process_summary_json rows))]))))"

definition process_logs :: "tool_request \<Rightarrow> tool_args \<Rightarrow> (process_manager, runtime_error, json) rt" where
  "process_logs req args =
     bindE (read_process_logs
       \<lparr>lgr_process_id = str_or_default (arg_str args ''process_id''), lgr_caller = Some (tir_caller req),
        lgr_stream = arg_str args ''stream'', lgr_head_lines = Option.bind (obj_get args ''head_lines'') as_u64,
        lgr_tail_lines = Option.bind (obj_get args ''tail_lines'') as_u64, lgr_max_bytes = None\<rparr>) (\<lambda>rows.
     ok (jobject [(''logs'', JArray (map logs_chunk_json rows))]))"

definition process_kill :: "tool_request \<Rightarrow> tool_args \<Rightarrow> (process_manager, runtime_error, json) rt" where
  "process_kill req args =
     bindE (kill_process (str_or_default (arg_str args ''process_id'')) (Some (tir_caller req)) (Some ''gg_process_kill'')) (\<lambda>d.
     ok (process_details_json d))"

text \<open>\<open>None\<close>: the call waits for a permit of the process manager.\<close>

definition invoke_process_tool ::
  "tool_request \<Rightarrow> ('p, 'z) gateway_scheme \<Rightarrow> (json \<times> ('p, 'z) gateway_scheme) option" where
  "invoke_process_tool req s =
     (let tool = trim (tir_tool_name req) in
      case tir_args req of
        JObject args \<Rightarrow>
          if tool = ''gg_process_run''
          then map_option (\<lambda>(r, pm). (tool_reply (map_sum id process_details_json r), back_from_processes pm s))
                 (run_process (process_run_of req args) (with_env s (gw_processes s)))
          else Some (map_prod tool_reply id (on_processes
            (if tool = ''gg_process_status'' then process_status req args
             else if tool = ''gg_process_logs'' then process_logs req args
             else if tool = ''gg_process_kill'' then process_kill req args
             else err (Unsupported (''Unsupported gg_process tool: '' @ tool))) s))
      | _ \<Rightarrow> Some (team_tool_error ''bad_request'' ''tool args must be an object'', s))"

section \<open>The status tool (team.rs)\<close>

definition context_window_remaining_percentage :: "string \<Rightarrow> (('p, 'z) gateway_scheme, 'e, json) rt" where
  "context_window_remaining_percentage sid =
     bindE (gets gw_runtime) (\<lambda>runtime.
     if \<not> runtime then ok JNull
     else
     bindE (attempt (list_session_turns sid)) (\<lambda>r.
     case r of
       Inl _ \<Rightarrow> ok JNull
     | Inr turns \<Rightarrow>
         ok (case List.map_filter context_remaining_percentage_from_usage (List.map_filter turn_usage (rev turns)) of
               [] \<Rightarrow> JNull | p # _ \<Rightarrow> jint (int p))))"

definition optional_of :: "'a option \<Rightarrow> ('a \<Rightarrow> ('s, runtime_error, 'b) rt) \<Rightarrow> ('s, 'e, 'b option) rt" where
  "optional_of x call =
     (case x of
        None \<Rightarrow> ok None
      | Some y \<Rightarrow> bindE (attempt (call y)) (\<lambda>r. ok (case r of Inl _ \<Rightarrow> None | Inr v \<Rightarrow> Some v)))"

definition status_member_row ::
  "team_message_record list \<Rightarrow> team_member_record \<Rightarrow> (('p, 'z) gateway_scheme, 'e, json) rt" where
  "status_member_row messages m =
     bindE (gets gw_runtime) (\<lambda>runtime.
     bindE (optional_of (if runtime then Some (mem_agent_id m) else None) get_session) (\<lambda>session.
     bindE (optional_of (mem_worktree_id m) get_worktree) (\<lambda>worktree.
     let last_message = latest_message_for_member (mem_agent_id m) messages in
     bindE (context_window_remaining_percentage (mem_agent_id m)) (\<lambda>remaining.
     ok (jobject [(''agent_id'', JString (mem_agent_id m)), (''session_id'', JString (mem_agent_id m)),
       (''title'', jopt JString (mem_title m)), (''state'', JString (status_state_for_session session)),
       (''last_activity_at_ms'', jint (max (max (mem_joined_at m)
          (case session of None \<Rightarrow> 0 | Some r \<Rightarrow> sess_updated_at r))
          (case last_message of None \<Rightarrow> 0 | Some msg \<Rightarrow> msg_created_at msg))),
       (''last_message'', jopt member_last_message_output last_message),
       (''context_window_remaining_percentage'', remaining),
       (''worktree_cwd'', jopt JString (map_option wt_cwd worktree)),
       (''worktree_name'', jopt JString (map_option wt_name worktree)), (''added_by'', JString (mem_added_by m))])))))"

definition invoke_team_status :: "string \<Rightarrow> tool_args \<Rightarrow> ('p, 'z, json) tool" where
  "invoke_team_status caller args =
     bindE (lift_result (reject_team_tool_fields args [''caller_agent_id'', ''sender'', ''sender_agent_id'', ''agent_id''])) (\<lambda>_.
     bindE (lift_result (required_string_arg args ''team_id'')) (\<lambda>tid.
     bindE (of_runtime (get_team tid)) (\<lambda>team.
     bindE (lift_result (ensure_team_member team caller)) (\<lambda>_.
     bindE (attempt (list_messages (team_id (twm_team team)) None (Some 100))) (\<lambda>page.
     let messages = (case page of Inl _ \<Rightarrow> [] | Inr p \<Rightarrow> lmr_messages p) in
     bindE (for_fold (twm_members team) [] (\<lambda>m rows. bindE (status_member_row messages m) (\<lambda>row. ok (rows @ [row])))) (\<lambda>rows.
     bindE now_ms (\<lambda>now.
     ok (jobject [(''team_id'', JString (team_id (twm_team team))), (''lead_agent_id'', JString (team_lead (twm_team team))),
       (''generated_at_ms'', jint now), (''members'', JArray rows)]))))))))"

section \<open>The message tool\<close>

definition is_broadcast :: "string \<Rightarrow> bool" where
  "is_broadcast recipient \<longleftrightarrow> to_ascii_lowercase recipient = ''broadcast''"

definition ensure_team_message_images_supported ::
  "string \<Rightarrow> string \<Rightarrow> string \<Rightarrow> string list \<Rightarrow> ('p, 'z, unit) tool" where
  "ensure_team_message_images_supported caller tid recipient images =
     bindE (gets gw_runtime) (\<lambda>runtime.
     if images = [] \<or> \<not> runtime then ok ()
     else
     bindE (of_runtime (get_team tid)) (\<lambda>team.
     bindE (lift_result (ensure_team_member team caller)) (\<lambda>_.
     for_each (if is_broadcast recipient then filter (\<lambda>a. a \<noteq> caller) (map mem_agent_id (twm_members team)) else [recipient])
       (\<lambda>rid.
         bindE (attempt (get_session rid)) (\<lambda>r.
         case r of
           Inr session \<Rightarrow> lift_result (reject_image_paths_for_provider (sess_provider session) ''gg_team_message'')
         | Inl _ \<Rightarrow> ok ())))))"

definition text_input :: "string \<Rightarrow> json" where
  "text_input message = JArray [jobject [(''type'', JString ''text''), (''text'', JString message)]]"

definition send_team_message ::
  "string \<Rightarrow> string option \<Rightarrow> string \<Rightarrow> string \<Rightarrow> json \<Rightarrow> string list \<Rightarrow> ('p, 'z, string \<times> team_message_ack) tool" where
  "send_team_message caller invocation tid recipient input images =
     (if is_broadcast recipient
      then
        bindE (of_runtime (broadcast
          \<lparr>bcr_team = tid, bcr_sender = caller, bcr_input = input, bcr_image_paths = images, bcr_priority = ''normal'',
           bcr_policy = ''non_interrupting'', bcr_include_sender = False, bcr_correlation_id = None,
           bcr_idempotency_key = invocation\<rparr>)) (\<lambda>ack. ok (''broadcast'', ack))
      else
        bindE (of_runtime (send_direct
          \<lparr>sdr_team = tid, sdr_sender = caller, sdr_recipient = recipient, sdr_input = input, sdr_image_paths = images,
           sdr_priority = ''normal'', sdr_policy = ''non_interrupting'', sdr_correlation_id = None, sdr_reply_to = None,
           sdr_idempotency_key = invocation\<rparr>)) (\<lambda>ack. ok (''direct'', ack)))"

definition invoke_team_message :: "string \<Rightarrow> string option \<Rightarrow> tool_args \<Rightarrow> ('p, 'z, json) tool" where
  "invoke_team_message caller invocation args =
     bindE (lift_result (reject_team_tool_fields args [''caller_agent_id'', ''sender'', ''sender_agent_id''])) (\<lambda>_.
     bindE (lift_result (required_string_arg args ''team_id'')) (\<lambda>tid.
     bindE (lift_result (required_string_arg args ''recipient_agent_id'')) (\<lambda>recipient.
     bindE (lift_result (required_string_arg args ''message'')) (\<lambda>message.
     bindE (lift_result (optional_string_array_arg args ''image_paths'')) (\<lambda>images.
     bindE (ensure_team_message_images_supported caller tid recipient images) (\<lambda>_.
     bindE (send_team_message caller invocation tid recipient (text_input message) images) (\<lambda>(scope, ack).
     ok (jobject ([(''message_id'', JString (msg_id (tma_message ack))),
       (''delivery_ids'', JArray (map JString (sort (map dlv_id (tma_deliveries ack))))),
       (''recipient_count'', jint (int (length (tma_deliveries ack)))), (''scope'', JString scope),
       (''image_count'', jint (int (length images)))]
       @ (if images = [] then [] else [(''image_paths'', JArray (map JString images))])))))))))) "

section \<open>The manage tool\<close>

definition ensure_caller_can_manage_membership ::
  "string \<Rightarrow> string \<Rightarrow> bool \<Rightarrow> string \<Rightarrow> ('p, 'z, team_view) tool" where
  "ensure_caller_can_manage_membership tid caller allow_non_lead action =
     bindE (of_runtime (get_team tid)) (\<lambda>team.
     bindE (lift_result (ensure_team_member team caller)) (\<lambda>_.
     if team_lead (twm_team team) = caller \<or> allow_non_lead then ok team
     else err (failure_new ''unauthorized'' (''agent '' @ caller @ '' is not allowed to '' @ action @ '' team '' @ tid))))"

definition ensure_manage_add_images_supported ::
  "string \<Rightarrow> resolved_preset option \<Rightarrow> string list \<Rightarrow> ('p, 'z, unit) tool" where
  "ensure_manage_add_images_supported caller preset images =
     (if images = [] then ok ()
      else
        case preset of
          Some p \<Rightarrow> lift_result (reject_image_paths_for_provider (kind_as_str (rps_provider p)) ''gg_team_manage'')
        | None \<Rightarrow>
            bindE (gets gw_runtime) (\<lambda>runtime.
            if \<not> runtime then ok ()
            else
            bindE (of_runtime (get_session caller)) (\<lambda>session.
            lift_result (reject_image_paths_for_provider (sess_provider session) ''gg_team_manage''))))"

definition resolve_preset_arg :: "preset_catalog \<Rightarrow> string option \<Rightarrow> tool_failure + resolved_preset option" where
  "resolve_preset_arg cat name =
     (case name of
        None \<Rightarrow> Inr None
      | Some n \<Rightarrow>
          (case resolve_preset cat n of
             Some p \<Rightarrow> Inr (Some p)
           | None \<Rightarrow> Inl (failure_new ''unknown_model_preset''
               (''Unknown model_preset `'' @ n @ ''` for gg_team_manage. Available presets: '' @ join '', '' (pca_names cat)))))"

definition added_json :: "string \<Rightarrow> resolved_preset option \<Rightarrow> string list \<Rightarrow> member_spawn_response \<Rightarrow> json" where
  "added_json tid preset images spawn =
     jobject [(''operation'', JString ''add''), (''team_id'', JString tid), (''operation_id'', JString (msp_operation_id spawn)),
       (''spawned_agent_id'', JString (sess_id (msp_session spawn))), (''spawned_session'', session_json (msp_session spawn)),
       (''spawned_member'', member_json (msp_member spawn)), (''team'', team_view_json (msp_team spawn)),
       (''worktree'', jopt worktree_json (msp_worktree spawn)),
       (''worktree_assignment_mode'', JString (msp_assignment_mode spawn)),
       (''worktree_created_by_operation'', JBool (msp_created_by_operation spawn)),
       (''onboarding'', msp_onboarding spawn), (''journal_stage'', JString (msp_journal_stage spawn)),
       (''model_preset'', jopt JString (map_option rps_name preset)), (''image_count'', jint (int (length images)))]"

definition manage_add_request ::
  "string \<Rightarrow> string \<Rightarrow> resolved_preset option \<Rightarrow> string option \<Rightarrow> string option \<Rightarrow> string list \<Rightarrow> string option \<Rightarrow> bool \<Rightarrow>
   string option \<Rightarrow> member_spawn_request" where
  "manage_add_request caller tid preset title prompt images worktree_name use_existing subscription =
     \<lparr>msr_team = tid, msr_source_session = caller, msr_provider = map_option (\<lambda>p. kind_as_str (rps_provider p)) preset,
      msr_model = map_option rps_model preset, msr_title = title, msr_prompt = prompt, msr_permission_mode = None,
      msr_metadata = build_manage_add_metadata preset images,
      msr_worktree = map_option (\<lambda>name.
        \<lparr>swi_mode = Some (if use_existing then ''reuse'' else ''create''), swi_name = Some name, swi_branch_prefix = None,
         swi_base_ref = None, swi_run_init_script = None\<rparr>) worktree_name,
      msr_creator_agent_id = Some caller, msr_subscription = subscription\<rparr>"

definition invoke_team_manage_add :: "string \<Rightarrow> string \<Rightarrow> tool_args \<Rightarrow> ('p, 'z, json) tool" where
  "invoke_team_manage_add caller tid args =
     bindE (gets gw_policy) (\<lambda>policy.
     bindE (ensure_caller_can_manage_membership tid caller (tp_non_lead_can_add_members policy) ''add members to'') (\<lambda>_.
     bindE (lift_result (optional_string_arg args ''title'')) (\<lambda>title.
     bindE (lift_result (optional_string_arg args ''prompt'')) (\<lambda>prompt.
     bindE (lift_result (optional_string_array_arg args ''image_paths'')) (\<lambda>images.
     bindE (lift_result (optional_string_arg args ''model_preset'')) (\<lambda>preset_name.
     bindE (gets gw_presets) (\<lambda>catalog.
     bindE (lift_result (resolve_preset_arg catalog preset_name)) (\<lambda>preset.
     bindE (lift_result (optional_creator_compaction_subscription_arg args ''creator_compaction_subscription'')) (\<lambda>subscription.
     bindE (ensure_manage_add_images_supported caller preset images) (\<lambda>_.
     bindE (lift_result (optional_string_arg args ''worktree_name'')) (\<lambda>worktree_name.
     bindE (lift_result (optional_bool_arg args ''use_existing_worktree'')) (\<lambda>existing.
     let use_existing = (existing = Some True) in
     if use_existing \<and> worktree_name = None
     then err (failure_new ''bad_request'' ''worktree_name is required when use_existing_worktree is true'')
     else
     bindE (of_runtime (spawn_team_member
       (manage_add_request caller tid preset title prompt images worktree_name use_existing subscription))) (\<lambda>spawn.
     ok (added_json tid preset images spawn))))))))))))))"

definition removed_cleanup_json :: "runtime_error + member_removed_response \<Rightarrow> json" where
  "removed_cleanup_json r =
     (case r of
        Inr c \<Rightarrow>
          jobject [(''ok'', JBool True), (''released_claim_count'', jint (int (length (mrp_released_claims c)))),
            (''cleanup_result_count'', jint (int (length (mrp_cleanup_results c)))),
            (''diagnostic_count'', jint (int (length (mrp_diagnostics c)))),
            (''released_claims'', JArray (map claim_json (mrp_released_claims c))),
            (''cleanup_results'', JArray (map cleanup_json (mrp_cleanup_results c))),
            (''diagnostics'', JArray (map diagnostic_json (mrp_diagnostics c)))]
      | Inl e \<Rightarrow> jobject [(''ok'', JBool False), (''error'', JString (error_to_string e))])"

text \<open>One round of the removal loop; the results so far, with whether each removal succeeded.\<close>

definition manage_remove_one ::
  "string \<Rightarrow> string \<Rightarrow> string \<Rightarrow> (bool \<times> json) list \<Rightarrow> ('p, 'z, (bool \<times> json) list) tool" where
  "manage_remove_one caller tid agent results =
     bindE (attempt (remove_team_member tid agent)) (\<lambda>removal.
     case removal of
       Inr team \<Rightarrow>
         bindE (attempt (on_member_removed \<lparr>mrr_team = tid, mrr_agent = agent, mrr_removed_by = Some caller\<rparr>)) (\<lambda>cleanup.
         ok (results @ [(True, jobject [(''agent_id'', JString agent), (''ok'', JBool True), (''team'', team_view_json team),
               (''cleanup'', removed_cleanup_json cleanup)])]))
     | Inl e \<Rightarrow>
         ok (results @ [(False, jobject [(''agent_id'', JString agent), (''ok'', JBool False),
               (''error'', jobject [(''code'', JString (team_tool_error_code_for_runtime e)),
                                    (''message'', JString (error_to_string e))])])]))"

definition invoke_team_manage_remove :: "string \<Rightarrow> string \<Rightarrow> string list \<Rightarrow> ('p, 'z, json) tool" where
  "invoke_team_manage_remove caller tid agents =
     bindE (gets gw_policy) (\<lambda>policy.
     bindE (ensure_caller_can_manage_membership tid caller (tp_non_lead_can_remove_members policy) ''remove members from'') (\<lambda>_.
     bindE (for_fold agents [] (manage_remove_one caller tid)) (\<lambda>results.
     let removed = length (filter fst results) in
     ok (jobject [(''operation'', JString ''remove''), (''team_id'', JString tid), (''removed_count'', jint (int removed)),
       (''failed_count'', jint (int (length results - removed))), (''results'', JArray (map snd results))]))))"

section \<open>The cache of add calls\<close>

text \<open>\<open>GG_TEAM_ADD_IDEMPOTENCY_CACHE_TTL_SECS\<close>, in nanoseconds\<close>

definition add_cache_ttl :: nat where
  "add_cache_ttl = 10 * 60 * 1000000000"

definition begin_manage_add :: "string \<Rightarrow> ('p, 'z, json option) tool" where
  "begin_manage_add key =
     bindE instant_now (\<lambda>now.
     bindE (modify (\<lambda>s. s\<lparr>gw_add_cache := filter (\<lambda>(_, e). now - ae_inserted_at e \<le> add_cache_ttl) (gw_add_cache s)\<rparr>)) (\<lambda>_.
     bindE (gets (\<lambda>s. hget (gw_add_cache s) key)) (\<lambda>found.
     case found of
       Some entry \<Rightarrow>
         (case ae_completed_success entry of
            Some result \<Rightarrow> ok (Some result)
          | None \<Rightarrow> err (failure_new ''duplicate_tool_invocation_in_progress''
              ''Duplicate gg_team_manage add invocation is already in progress''))
     | None \<Rightarrow>
         bindE (modify (\<lambda>s. s\<lparr>gw_add_cache := hinsert key \<lparr>ae_inserted_at = now, ae_completed_success = None\<rparr> (gw_add_cache s)\<rparr>)) (\<lambda>_.
         ok None))))"

definition complete_manage_add :: "string \<Rightarrow> json \<Rightarrow> ('p, 'z, unit) tool" where
  "complete_manage_add key result =
     bindE (gets (\<lambda>s. hcontains (gw_add_cache s) key)) (\<lambda>there.
     if \<not> there then ok ()
     else
     bindE instant_now (\<lambda>now.
     modify (\<lambda>s. s\<lparr>gw_add_cache :=
       hinsert key \<lparr>ae_inserted_at = now, ae_completed_success = Some result\<rparr> (gw_add_cache s)\<rparr>)))"

definition abort_manage_add :: "string \<Rightarrow> ('p, 'z, unit) tool" where
  "abort_manage_add key = modify (\<lambda>s. s\<lparr>gw_add_cache := hremove key (gw_add_cache s)\<rparr>)"

definition add_cache_key :: "string \<Rightarrow> string \<Rightarrow> string" where
  "add_cache_key caller invocation = ''v1:'' @ caller @ '':gg_team_manage:'' @ invocation"

definition manage_add_once :: "string \<Rightarrow> string \<Rightarrow> string \<Rightarrow> tool_args \<Rightarrow> ('p, 'z, json) tool" where
  "manage_add_once caller invocation tid args =
     (let key = add_cache_key caller invocation in
      bindE (begin_manage_add key) (\<lambda>cached.
      case cached of
        Some value \<Rightarrow> ok value
      | None \<Rightarrow>
          bindE (attempt (invoke_team_manage_add caller tid args)) (\<lambda>r.
          case r of
            Inr value \<Rightarrow> bindE (complete_manage_add key value) (\<lambda>_. ok value)
          | Inl e \<Rightarrow> bindE (abort_manage_add key) (\<lambda>_. err e))))"

definition invoke_team_manage :: "string \<Rightarrow> string option \<Rightarrow> tool_args \<Rightarrow> ('p, 'z, json) tool" where
  "invoke_team_manage caller invocation args =
     bindE (lift_result (reject_team_tool_fields args [''caller_agent_id'', ''sender'', ''sender_agent_id''])) (\<lambda>_.
     bindE (lift_result (reject_team_tool_fields_with_message args
       [''agent_id'', ''model'', ''unsubscribe_from_compaction_notifications'']
       (\<lambda>f. f @ '' is not supported by gg_team_manage''))) (\<lambda>_.
     bindE (lift_result (required_string_arg args ''team_id'')) (\<lambda>tid.
     if contains_key args ''remove_agent_ids''
     then
       bindE (lift_result (reject_team_tool_fields_with_message args
         [''title'', ''prompt'', ''image_paths'', ''model_preset'', ''worktree_name'', ''use_existing_worktree'',
          ''creator_compaction_subscription'']
         (\<lambda>f. f @ '' cannot be provided when remove_agent_ids is provided''))) (\<lambda>_.
       bindE (lift_result (optional_string_array_arg args ''remove_agent_ids'')) (\<lambda>agents.
       if agents = []
       then err (failure_new ''bad_request'' ''remove_agent_ids must contain at least one agent id'')
       else invoke_team_manage_remove caller tid agents))
     else
       case non_empty_trimmed invocation of
         Some i \<Rightarrow> manage_add_once caller i tid args
       | None \<Rightarrow> invoke_team_manage_add caller tid args)))"

section \<open>Dispatch\<close>

definition invoke_team_tool ::
  "tool_request \<Rightarrow> ('p, 'z) gateway_scheme \<Rightarrow> json \<times> ('p, 'z) gateway_scheme" where
  "invoke_team_tool req s =
     (if \<not> tp_enabled (gw_policy s) then (team_tool_error ''feature_disabled'' ''gg_team MCP tools are disabled'', s)
      else
        let tool = trim (tir_tool_name req) in
        case tir_args req of
          JObject args \<Rightarrow>
            (case (if tool = ''gg_team_status'' then invoke_team_status (tir_caller req) args
                   else if tool = ''gg_team_message'' then invoke_team_message (tir_caller req) (tir_invocation_id req) args
                   else if tool = ''gg_team_manage'' then invoke_team_manage (tir_caller req) (tir_invocation_id req) args
                   else err (failure_new ''bad_request'' (''Unsupported gg_team tool: '' @ tool))) s of
               (Inr result, s') \<Rightarrow> (jobject [(''ok'', JBool True), (''result'', result)], s')
             | (Inl e, s') \<Rightarrow> (team_tool_error (tf_code e) (tf_message e), s'))
        | _ \<Rightarrow> (team_tool_error ''bad_request'' ''tool args must be an object'', s))"

definition namespace_matches_tool :: "string \<Rightarrow> string \<Rightarrow> bool" where
  "namespace_matches_tool namespace tool \<longleftrightarrow>
     (let n = trim namespace in
      if n = ''gg_process'' then starts_with tool ''gg_process_''
      else if n = ''gg_team'' then starts_with tool ''gg_team_''
      else False)"

definition invoke_tool ::
  "tool_request \<Rightarrow> ('p, 'z) gateway_scheme \<Rightarrow> ((runtime_error + json) \<times> ('p, 'z) gateway_scheme) option" where
  "invoke_tool req s =
     (if trim (tir_caller req) = [] then Some (Inl (InvalidState ''caller_session_id is required''), s)
      else if (case tir_namespace req of None \<Rightarrow> False | Some n \<Rightarrow> \<not> namespace_matches_tool n (tir_tool_name req))
      then Some (Inl (InvalidState ''namespace does not match tool_name''), s)
      else if starts_with (tir_tool_name req) ''gg_process_'' then map_option (map_prod Inr id) (invoke_process_tool req s)
      else if starts_with (tir_tool_name req) ''gg_team_'' then Some (map_prod Inr id (invoke_team_tool req s))
      else Some (Inr (team_tool_error ''bad_request'' (''Unsupported tool name: '' @ tir_tool_name req)), s))"

definition capabilities :: "('p, 'z) gateway_scheme \<Rightarrow> json" where
  "capabilities s =
     (let policy = gw_policy s; teams = tp_enabled policy in
      jobject [(''ok'', JBool True), (''result'', jobject [
        (''ggProcessEnabled'', JBool (pc_enabled (pm_config (gw_processes s)))), (''ggTeamEnabled'', JBool teams),
        (''ggTeamManagePermissions'', jobject [
          (''nonLeadCanAddMembers'', JBool (tp_non_lead_can_add_members policy)),
          (''nonLeadCanRemoveMembers'', JBool (tp_non_lead_can_remove_members policy))]),
        (''ggTeamModelPresets'', JArray (map JString (pca_names (gw_presets s)))),
        (''supportedNamespaces'', JArray (map JString (''gg_process'' # (if teams then [''gg_team''] else [])))),
        (''tools'', JArray (map JString ([''gg_process_run'', ''gg_process_status'', ''gg_process_logs'', ''gg_process_kill'']
          @ (if teams then [''gg_team_status'', ''gg_team_message'', ''gg_team_manage''] else []))))])])"

definition gateway_healthcheck :: "(('p, 'z) gateway_scheme, runtime_error, unit) rt" where
  "gateway_healthcheck = on_processes process_healthcheck"

end
