(* ===== verification/Runtime_App.thy ===== *)
theory Runtime_App
  imports Gateway
begin

text \<open>
  The assembled runtime (\<open>runtime-core/src/app.rs\<close>): the checks before the services are put together
  and the order in which they are brought up.
\<close>

record event_queue_limits =
  eql_live_queue_capacity :: nat
  eql_critical_queue_capacity :: nat
  eql_team_queue_capacity :: nat

record process_limits =
  pls_max_concurrent :: nat
  pls_default_timeout_ms :: "64 word"
  pls_max_output_bytes_per_process :: nat

record worktree_settings =
  wse_enabled :: bool
  wse_root_dir :: string
  wse_init_script_path :: string
  wse_deletion_policy_default :: string

record 'p runtime_app =
  app_provider_registry :: "(provider_kind, 'p provider) hmap"
  app_services :: "'p gateway"
  app_event_queue_limits :: event_queue_limits
  app_process_limits :: process_limits
  app_worktree_settings :: worktree_settings

definition app_new ::
  "(provider_kind, 'p provider) hmap \<Rightarrow> 'p gateway \<Rightarrow> event_queue_limits \<Rightarrow> process_limits \<Rightarrow> worktree_settings \<Rightarrow>
   runtime_error + 'p runtime_app" where
  "app_new registry services queues processes worktrees =
     (if registry = [] then Inl (Configuration ''at least one provider must be configured'')
      else if eql_live_queue_capacity queues = 0 \<or> eql_critical_queue_capacity queues = 0 \<or> eql_team_queue_capacity queues = 0
      then Inl (Configuration ''event queue capacities must be greater than zero'')
      else if pls_max_concurrent processes = 0
      then Inl (Configuration ''process max_concurrent must be greater than zero'')
      else Inr \<lparr>app_provider_registry = registry, app_services = services, app_event_queue_limits = queues,
                app_process_limits = processes, app_worktree_settings = worktrees\<rparr>)"

text \<open>
  \<open>initialize\<close> of the store creates what is missing of the schema, and the tables of the model are all there;
  its \<open>healthcheck\<close> runs \<open>SELECT 1\<close>. Either may meet a fault of the store.
\<close>

definition store_initialize :: "('z runtime_env_scheme, runtime_error, unit) rt" where
  "store_initialize = store_call (\<lambda>db. Inr ((), db))"

definition store_healthcheck :: "('z runtime_env_scheme, runtime_error, unit) rt" where
  "store_healthcheck = store_call (\<lambda>db. Inr ((), db))"

definition app_initialize :: "(('p, 'z) gateway_scheme, runtime_error, unit) rt" where
  "app_initialize =
     bindE store_initialize (\<lambda>_.
     bindE store_healthcheck (\<lambda>_.
     bindE gateway_healthcheck (\<lambda>_.
     bindE (on_processes process_healthcheck) (\<lambda>_.
     bindE team_healthcheck (\<lambda>_.
     worktree_healthcheck)))))"

text \<open>
  The runtime comes up exactly when the store answers twice and the team service is on, and the
  database is left as it was.
\<close>

lemma env_after [simp]:
  "env_db (with_env e x) = env_db e" "env_db (back_from_processes pm s) = env_db pm"
  "tc_enabled (back_from_processes pm s) = tc_enabled s"
  by (simp_all add: back_from_processes_def with_env_def)

lemma on_processes_health: "on_processes process_healthcheck s = (Inr (), back_from_processes (with_env s (gw_processes s)) s)"
  by (simp add: on_processes_def process_healthcheck_def ok_def)

lemma initialize_outcome:
  fixes s :: "('p, 'z) gateway_scheme"
  shows "isl (fst (app_initialize s)) \<longleftrightarrow>
    env_faults s (env_store_ops s) \<noteq> None \<or> env_faults s (Suc (env_store_ops s)) \<noteq> None \<or> \<not> tc_enabled s"
  and "env_db (snd (app_initialize s)) = env_db s"
  by (auto simp: app_initialize_def store_initialize_def store_healthcheck_def store_call_def gateway_healthcheck_def
      team_healthcheck_def worktree_healthcheck_def ensure_enabled_def bindE_def on_processes_health
      gets_def ok_def err_def Let_def split: option.splits)

end
