(* ===== verification/Server_Config.thy ===== *)
theory Server_Config
  imports Gateway_Args
begin

text \<open>
  The configuration of the server (\<open>runtime-server/src/config.rs\<close>) and its command line (\<open>main.rs\<close>): where data
  lies, and where the bearer token comes from.

  The host the server runs on is a state of its own: the working directory, the home directory, the
  files by path, which operations on a path fail, and the characters the random generator draws.
  \<open>toml::from_str\<close> is the argument \<open>parse\<close>. An error is the text of its outermost context.
\<close>

section \<open>Paths\<close>

definition is_absolute :: "string \<Rightarrow> bool" where
  "is_absolute p \<longleftrightarrow> starts_with p ''/''"

text \<open>A path without the separators and the \<open>.\<close> components at its end.\<close>

function strip_tail :: "string \<Rightarrow> string" where
  "strip_tail p =
     (if p \<noteq> ''/'' \<and> p \<noteq> [] \<and> last p = CHR ''/'' then strip_tail (butlast p)
      else if p \<noteq> [] \<and> last p = CHR ''.'' \<and> butlast p \<noteq> [] \<and> last (butlast p) = CHR ''/'' then strip_tail (butlast p)
      else p)"
  by pat_completeness auto

termination by (relation "measure length") auto

declare strip_tail.simps [simp del]

text \<open>\<open>Path::parent\<close>\<close>

definition path_parent :: "string \<Rightarrow> string option" where
  "path_parent p =
     (let q = strip_tail p in
      if q = [] \<or> q = ''/'' then None
      else Some (strip_tail (rev (dropWhile (\<lambda>c. c \<noteq> CHR ''/'') (rev q)))))"

section \<open>The configuration\<close>

record server_config =
  svc_bind_address :: string
  svc_public_base_url :: string

record auth_config =
  auc_mode :: string
  auc_token :: "string option"
  auc_token_file :: "string option"

record data_config =
  dac_root_dir :: string
  dac_sqlite_path :: string
  dac_logs_dir :: string
  dac_providers_dir :: string

record provider_config =
  pvc_enabled :: bool
  pvc_max_instances :: nat
  pvc_max_sessions_per_instance :: nat

record acp_server_provider_config = provider_config +
  acc_command :: "string option"
  acc_args :: "string list"
  acc_env :: "(string \<times> string) list"
  acc_transport :: string
  acc_request_timeout_secs :: "64 word"
  acc_wait_timeout_secs :: "64 word"

record providers_config =
  pvs_codex :: provider_config
  pvs_claude :: provider_config
  pvs_acp :: acp_server_provider_config
  pvs_claude_auth_mode :: string

record events_config =
  evc_live_queue_capacity :: nat
  evc_critical_queue_capacity :: nat
  evc_team_queue_capacity :: nat

record processes_config =
  prc_enabled :: bool
  prc_max_concurrent :: nat
  prc_default_timeout_ms :: "64 word"
  prc_max_output_bytes_per_process :: nat
  prc_allow_shell :: bool

record teams_config =
  tmc_enabled :: bool
  tmc_non_lead_can_add_members :: bool
  tmc_non_lead_can_remove_members :: bool
  tmc_model_presets :: "model_preset list"

record worktrees_config =
  wtc_enabled :: bool
  wtc_root_dir :: string
  wtc_init_script_path :: string
  wtc_deletion_policy_default :: string

record runtime_server_config =
  cfg_server :: server_config
  cfg_auth :: auth_config
  cfg_data :: data_config
  cfg_providers :: providers_config
  cfg_events :: events_config
  cfg_processes :: processes_config
  cfg_teams :: teams_config
  cfg_worktrees :: worktrees_config
  cfg_config_file_dir :: "string option"

section \<open>The host\<close>

record host =
  hs_cwd :: "string option"
  hs_home :: "string option"
  hs_files :: "string \<Rightarrow> string option"
  hs_unreadable :: "string \<Rightarrow> bool"
  hs_mkdir_fails :: "string \<Rightarrow> bool"
  hs_write_fails :: "string \<Rightarrow> bool"
  hs_dirs :: "string list"
  hs_draws :: "nat \<Rightarrow> char"
  hs_drawn :: nat

text \<open>\<open>std::fs::read_to_string\<close>, \<open>create_dir_all\<close> and \<open>write\<close>\<close>

definition read_to_string :: "host \<Rightarrow> string \<Rightarrow> string option" where
  "read_to_string h p =
     (case hs_files h p of
        None \<Rightarrow> None
      | Some bytes \<Rightarrow> if hs_unreadable h p \<or> \<not> utf8_valid bytes then None else Some bytes)"

definition make_dir_all :: "string \<Rightarrow> string \<Rightarrow> (host, string, unit) rt" where
  "make_dir_all p context h =
     (if hs_mkdir_fails h p then (Inl context, h) else (Inr (), h\<lparr>hs_dirs := hs_dirs h @ [p]\<rparr>))"

definition write_file :: "string \<Rightarrow> string \<Rightarrow> string \<Rightarrow> (host, string, unit) rt" where
  "write_file p content context h =
     (if hs_write_fails h p then (Inl context, h) else (Inr (), h\<lparr>hs_files := (hs_files h)(p \<mapsto> content)\<rparr>))"

section \<open>Defaults\<close>

definition default_runtime_root_dir :: "host \<Rightarrow> string" where
  "default_runtime_root_dir h =
     (case hs_home h of Some home \<Rightarrow> path_join home ''.gg-runtime'' | None \<Rightarrow> ''.gg-runtime'')"

definition default_server_config :: server_config where
  "default_server_config = \<lparr>svc_bind_address = ''0.0.0.0:8080'', svc_public_base_url = ''http://localhost:8080''\<rparr>"

definition default_auth_config :: auth_config where
  "default_auth_config = \<lparr>auc_mode = ''static_bearer'', auc_token = None, auc_token_file = None\<rparr>"

definition default_data_config :: "host \<Rightarrow> data_config" where
  "default_data_config h =
     \<lparr>dac_root_dir = default_runtime_root_dir h, dac_sqlite_path = ''runtime.sqlite3'', dac_logs_dir = ''logs'',
      dac_providers_dir = ''providers''\<rparr>"

text \<open>\<open>ProviderConfig::default\<close>, which fills the fields a provider section leaves out.\<close>

definition default_provider_config :: provider_config where
  "default_provider_config = \<lparr>pvc_enabled = True, pvc_max_instances = 1, pvc_max_sessions_per_instance = 1\<rparr>"

definition default_acp_config :: acp_server_provider_config where
  "default_acp_config =
     \<lparr>pvc_enabled = False, pvc_max_instances = 4, pvc_max_sessions_per_instance = 4, acc_command = None, acc_args = [],
      acc_env = [], acc_transport = ''stdio'', acc_request_timeout_secs = 30, acc_wait_timeout_secs = 300\<rparr>"

definition default_providers_config :: providers_config where
  "default_providers_config =
     \<lparr>pvs_codex = \<lparr>pvc_enabled = True, pvc_max_instances = 4, pvc_max_sessions_per_instance = 8\<rparr>,
      pvs_claude = \<lparr>pvc_enabled = True, pvc_max_instances = 4, pvc_max_sessions_per_instance = 4\<rparr>,
      pvs_acp = default_acp_config, pvs_claude_auth_mode = ''host_machine''\<rparr>"

definition default_events_config :: events_config where
  "default_events_config =
     \<lparr>evc_live_queue_capacity = 4096, evc_critical_queue_capacity = 16384, evc_team_queue_capacity = 8192\<rparr>"

definition default_processes_config :: processes_config where
  "default_processes_config =
     \<lparr>prc_enabled = True, prc_max_concurrent = 32, prc_default_timeout_ms = 600000,
      prc_max_output_bytes_per_process = 20000000, prc_allow_shell = True\<rparr>"

definition configured_model_presets :: "model_preset list" where
  "configured_model_presets =
     map (\<lambda>(name, provider, model, thinking_effort).
            \<lparr>mps_name = name, mps_provider = provider, mps_model = model, mps_thinking_effort = thinking_effort\<rparr>)
       [(''planner'', None, ''gpt-5.5'', Some ''high''),
        (''designer'', Some ''claude'', ''claude-opus-5'', Some ''high''),
        (''frontend'', None, ''gpt-5.5'', Some ''high''),
        (''fast'', Some ''codex'', ''gpt-5.4-mini'', Some ''low''),
        (''codex'', Some ''codex'', ''gpt-5.5'', Some ''high''),
        (''deep'', Some ''claude'', ''claude-opus-5'', Some ''high''),
        (''opus'', Some ''claude'', ''claude-opus-5'', Some ''high''),
        (''sonnet'', Some ''claude'', ''claude-sonnet-5'', Some ''high'')]"

definition default_teams_config :: teams_config where
  "default_teams_config =
     \<lparr>tmc_enabled = True, tmc_non_lead_can_add_members = False, tmc_non_lead_can_remove_members = False,
      tmc_model_presets = configured_model_presets\<rparr>"

definition default_worktrees_config :: worktrees_config where
  "default_worktrees_config =
     \<lparr>wtc_enabled = True, wtc_root_dir = ''worktrees'', wtc_init_script_path = ''.agents/gg/worktree-init.sh'',
      wtc_deletion_policy_default = ''delete_on_last_claim''\<rparr>"

definition default_config :: "host \<Rightarrow> runtime_server_config" where
  "default_config h =
     \<lparr>cfg_server = default_server_config, cfg_auth = default_auth_config, cfg_data = default_data_config h,
      cfg_providers = default_providers_config, cfg_events = default_events_config,
      cfg_processes = default_processes_config, cfg_teams = default_teams_config,
      cfg_worktrees = default_worktrees_config, cfg_config_file_dir = None\<rparr>"

section \<open>Loading and resolving\<close>

definition resolve_config_file_dir :: "host \<Rightarrow> string \<Rightarrow> string option" where
  "resolve_config_file_dir h config_path =
     (if is_absolute config_path then path_parent config_path
      else case hs_cwd h of
        None \<Rightarrow> None
      | Some cwd \<Rightarrow> path_parent (path_join cwd config_path))"

definition load_config ::
  "(string \<Rightarrow> runtime_server_config option) \<Rightarrow> string option \<Rightarrow> host \<Rightarrow> string + runtime_server_config" where
  "load_config parse path h =
     (case path of
        None \<Rightarrow> Inr (default_config h)
      | Some config_path \<Rightarrow>
          case read_to_string h config_path of
            None \<Rightarrow> Inl (''failed to read config file '' @ config_path)
          | Some content \<Rightarrow>
              case parse content of
                None \<Rightarrow> Inl (''failed to parse config file '' @ config_path)
              | Some config \<Rightarrow> Inr (config\<lparr>cfg_config_file_dir := resolve_config_file_dir h config_path\<rparr>))"

definition resolve_root_dir :: "runtime_server_config \<Rightarrow> host \<Rightarrow> string" where
  "resolve_root_dir c h =
     (let root = dac_root_dir (cfg_data c) in
      if is_absolute root then root
      else case cfg_config_file_dir c of
        Some config_dir \<Rightarrow> path_join config_dir root
      | None \<Rightarrow> (case hs_cwd h of Some cwd \<Rightarrow> path_join cwd root | None \<Rightarrow> root))"

definition resolve_data_path :: "runtime_server_config \<Rightarrow> string \<Rightarrow> host \<Rightarrow> string" where
  "resolve_data_path c raw h = (if is_absolute raw then raw else path_join (resolve_root_dir c h) raw)"

definition resolve_sqlite_path :: "runtime_server_config \<Rightarrow> host \<Rightarrow> string" where
  "resolve_sqlite_path c h = resolve_data_path c (dac_sqlite_path (cfg_data c)) h"

definition resolve_worktree_root :: "runtime_server_config \<Rightarrow> host \<Rightarrow> string" where
  "resolve_worktree_root c h =
     (let root = wtc_root_dir (cfg_worktrees c)
      in if is_absolute root then root else path_join (resolve_root_dir c h) root)"

definition resolve_provider_dir :: "runtime_server_config \<Rightarrow> string \<Rightarrow> host \<Rightarrow> string" where
  "resolve_provider_dir c provider h = path_join (resolve_data_path c (dac_providers_dir (cfg_data c)) h) provider"

definition ensure_data_dirs :: "runtime_server_config \<Rightarrow> (host, string, unit) rt" where
  "ensure_data_dirs c =
     bindE (gets (resolve_root_dir c)) (\<lambda>root.
     bindE (make_dir_all root (''failed to create '' @ root)) (\<lambda>_.
     bindE (gets (resolve_data_path c (dac_logs_dir (cfg_data c)))) (\<lambda>logs.
     bindE (make_dir_all logs ''failed to create logs directory'') (\<lambda>_.
     bindE (gets (resolve_data_path c (dac_providers_dir (cfg_data c)))) (\<lambda>providers.
     bindE (make_dir_all providers ''failed to create providers directory'') (\<lambda>_.
     bindE (gets (resolve_worktree_root c)) (\<lambda>worktrees.
     make_dir_all worktrees ''failed to create worktree root directory'')))))))"

section \<open>The bearer token\<close>

datatype auth_source = InlineConfig | TokenFileExisting string | TokenFileCreated string

record resolved_auth =
  rau_bearer_token :: string
  rau_source :: auth_source

definition resolve_auth_token_file_path :: "runtime_server_config \<Rightarrow> host \<Rightarrow> string" where
  "resolve_auth_token_file_path c h =
     (case auc_token_file (cfg_auth c) of
        Some p \<Rightarrow> if is_absolute p then p else path_join (resolve_root_dir c h) p
      | None \<Rightarrow> path_join (path_join (resolve_root_dir c h) ''auth'') ''api-token'')"

definition generate_bearer_token :: "nat \<Rightarrow> (host, string, string) rt" where
  "generate_bearer_token n h =
     (Inr (map (hs_draws h) [hs_drawn h..<hs_drawn h + n]), h\<lparr>hs_drawn := hs_drawn h + n\<rparr>)"

definition bootstrap_auth :: "runtime_server_config \<Rightarrow> (host, string, resolved_auth) rt" where
  "bootstrap_auth c =
     (case auc_token (cfg_auth c) of
        Some token \<Rightarrow>
          let trimmed = trim token in
          if trimmed = [] then err ''auth.token cannot be empty''
          else ok \<lparr>rau_bearer_token = trimmed, rau_source = InlineConfig\<rparr>
      | None \<Rightarrow>
          bindE (gets (resolve_auth_token_file_path c)) (\<lambda>token_path.
          bindE (gets (\<lambda>h. non_empty_trimmed (read_to_string h token_path))) (\<lambda>stored.
          case stored of
            Some token \<Rightarrow> ok \<lparr>rau_bearer_token = token, rau_source = TokenFileExisting token_path\<rparr>
          | None \<Rightarrow>
              bindE (case path_parent token_path of
                       None \<Rightarrow> ok ()
                     | Some parent \<Rightarrow> make_dir_all parent (''failed to create token parent directory '' @ parent)) (\<lambda>_.
              bindE (generate_bearer_token 48) (\<lambda>token.
              bindE (write_file token_path token (''failed to write auth token file '' @ token_path)) (\<lambda>_.
              ok \<lparr>rau_bearer_token = token, rau_source = TokenFileCreated token_path\<rparr>))))))"

section \<open>The command line (main.rs)\<close>

datatype cli_command = Serve "string option" | WriteOpenApi string | CheckConfig "string option"

text \<open>The loop over the arguments; the accumulator holds \<open>config_path\<close>, \<open>write_openapi_path\<close>, \<open>check_config\<close>.\<close>

fun parse_args ::
  "string list \<Rightarrow> string option \<times> string option \<times> bool \<Rightarrow> string + (string option \<times> string option \<times> bool)" where
  "parse_args [] acc = Inr acc"
| "parse_args (arg # rest) (config_path, openapi, check) =
     (if arg = ''--config''
      then (case rest of
              [] \<Rightarrow> Inl ''--config requires a path argument''
            | value # rest' \<Rightarrow> parse_args rest' (Some value, openapi, check))
      else if arg = ''--write-openapi''
      then (case rest of
              [] \<Rightarrow> parse_args [] (config_path, Some (path_join ''openapi'' ''runtime-server-openapi.yaml''), check)
            | value # rest' \<Rightarrow> parse_args rest' (config_path, Some value, check))
      else if arg = ''--check-config'' then parse_args rest (config_path, openapi, True)
      else Inl (''unknown argument: '' @ arg))"

definition parse_cli :: "string list \<Rightarrow> string + cli_command" where
  "parse_cli args =
     (case parse_args args (None, None, False) of
        Inl e \<Rightarrow> Inl e
      | Inr (config_path, openapi, check) \<Rightarrow>
          if check \<and> openapi \<noteq> None then Inl ''--check-config cannot be combined with --write-openapi''
          else case openapi of
            Some p \<Rightarrow> Inr (WriteOpenApi p)
          | None \<Rightarrow> if check then Inr (CheckConfig config_path) else Inr (Serve config_path))"

fun describe_auth_source :: "auth_source \<Rightarrow> string" where
  "describe_auth_source InlineConfig = ''inline-config''"
| "describe_auth_source (TokenFileExisting p) = ''token-file-existing:'' @ p"
| "describe_auth_source (TokenFileCreated p) = ''token-file-created:'' @ p"

section \<open>Text without white space\<close>

text \<open>Visible ASCII: every encoding of white space starts and ends with another byte.\<close>

definition visible :: "char \<Rightarrow> bool" where
  "visible c \<longleftrightarrow> 0x20 < (of_char c :: nat) \<and> (of_char c :: nat) < 0x80"

lemma ws_bounds: "w \<in> set ws_encodings \<Longrightarrow> \<not> visible (hd w) \<and> \<not> visible (hd (rev w))"
  by (auto simp: ws_encodings_def visible_def)

lemma strip_visible:
  assumes "\<forall>w \<in> set ws. \<not> visible (hd w)" and "\<forall>c \<in> set s. visible c"
  shows "strip_front ws s = s"
proof (rule strip_front_id)
  have "\<not> (w \<noteq> [] \<and> starts_with s w)" if "w \<in> set ws" for w
    using assms that by (cases w) (fastforce simp: starts_with_iff)+
  then show "find (\<lambda>w. w \<noteq> [] \<and> starts_with s w) ws = None" by (simp add: find_None_iff)
qed

lemma trim_visible: "\<forall>c \<in> set s. visible c \<Longrightarrow> trim s = s"
  unfolding trim_def trim_start_def trim_end_def
  by (subst strip_visible, use ws_bounds in blast, blast)
     (subst strip_visible, use ws_bounds in auto)

lemma utf8_visible: "\<forall>c \<in> set s. visible c \<Longrightarrow> utf8_valid s"
  by (induction s) (auto simp: utf8_unit_def visible_def Let_def)

lemma alphanumeric_visible: "is_ascii_alphanumeric c \<Longrightarrow> visible c"
  by (auto simp: is_ascii_alphanumeric_def visible_def Let_def)

section \<open>Restarts\<close>

lemma non_empty_trimmed_Some:
  "non_empty_trimmed v = Some t \<Longrightarrow> t \<noteq> [] \<and> trim t = t"
  by (auto simp: non_empty_trimmed_def Let_def split: option.splits if_splits)

lemma token_path_host: "hs_cwd h' = hs_cwd h \<Longrightarrow> resolve_auth_token_file_path c h' = resolve_auth_token_file_path c h"
  by (simp add: resolve_auth_token_file_path_def resolve_root_dir_def cong: if_cong option.case_cong)

text \<open>A stored token is taken as it is.\<close>

lemma stored_token_used:
  assumes "auc_token (cfg_auth c) = None" and "resolve_auth_token_file_path c h = p"
    and "non_empty_trimmed (read_to_string h p) = Some t"
  shows "bootstrap_auth c h = (Inr \<lparr>rau_bearer_token = t, rau_source = TokenFileExisting p\<rparr>, h)"
  using assms by (simp add: bootstrap_auth_def monad_simps ok_def)

lemma created_token:
  assumes none: "auc_token (cfg_auth c) = None" and p: "resolve_auth_token_file_path c h = p"
    and absent: "non_empty_trimmed (read_to_string h p) = None" and run: "bootstrap_auth c h = (Inr auth, h')"
  shows "rau_bearer_token auth = map (hs_draws h) [hs_drawn h..<hs_drawn h + 48]"
    and "hs_files h' p = Some (rau_bearer_token auth)"
  using run none p absent
  by (auto simp: bootstrap_auth_def gets_def bindE_def make_dir_all_def generate_bearer_token_def write_file_def ok_def
      split: option.splits if_splits prod.splits sum.splits)

text \<open>C39: A client keeps its token. When a start resolved a bearer token, from the configuration, from the
  token file or by creating that file, the next start from the same directory, which finds the token
  file as the first one left it, resolves the same token, creates nothing and changes nothing on the
  host; the token is not empty and has no white space around it, so it is the text a client sends.
  The random generator is only assumed to draw letters and digits.\<close>

theorem token_survives_restart:
  assumes first: "bootstrap_auth c h = (Inr auth, h')"
    and draws: "\<forall>n. is_ascii_alphanumeric (hs_draws h n)"
    and cwd: "hs_cwd h2 = hs_cwd h" and path: "p = resolve_auth_token_file_path c h"
    and kept: "hs_files h2 p = hs_files h' p" and readable: "\<not> hs_unreadable h2 p"
  shows "\<exists>src. bootstrap_auth c h2 = (Inr \<lparr>rau_bearer_token = rau_bearer_token auth, rau_source = src\<rparr>, h2) \<and>
    src \<noteq> TokenFileCreated p \<and> rau_bearer_token auth \<noteq> [] \<and> trim (rau_bearer_token auth) = rau_bearer_token auth"
proof (cases "auc_token (cfg_auth c)")
  case (Some token)
  then show ?thesis using first by (auto simp: bootstrap_auth_def ok_def err_def Let_def split: if_splits)
next
  case None
  have p2: "resolve_auth_token_file_path c h2 = p" using token_path_host [OF cwd] path by simp
  show ?thesis
  proof (cases "non_empty_trimmed (read_to_string h p)")
    case (Some t)
    then have same: "auth = \<lparr>rau_bearer_token = t, rau_source = TokenFileExisting p\<rparr>" "h' = h"
      using first stored_token_used [OF None path [symmetric]] by auto
    have "read_to_string h2 p = read_to_string h p"
      using Some kept readable same
      by (auto simp: read_to_string_def non_empty_trimmed_def split: option.splits if_splits)
    then show ?thesis
      using stored_token_used [OF None p2] Some same non_empty_trimmed_Some [OF Some] by simp
  next
    case absent: None
    let ?t = "rau_bearer_token auth"
    note made = created_token [OF None path [symmetric] absent first]
    have vis: "\<forall>c \<in> set ?t. visible c" using draws made(1) alphanumeric_visible by auto
    have "?t \<noteq> []" using made(1) by auto
    moreover have "non_empty_trimmed (read_to_string h2 p) = Some ?t"
      using made(2) kept readable vis utf8_visible trim_visible calculation
      by (simp add: read_to_string_def non_empty_trimmed_def)
    ultimately show ?thesis using stored_token_used [OF None p2] trim_visible [OF vis] by simp
  qed
qed

text \<open>A first start on an empty host.\<close>

definition fresh_host :: host where
  "fresh_host =
     \<lparr>hs_cwd = Some ''/srv'', hs_home = Some ''/root'', hs_files = (\<lambda>_. None), hs_unreadable = (\<lambda>_. False),
      hs_mkdir_fails = (\<lambda>_. False), hs_write_fails = (\<lambda>_. False), hs_dirs = [], hs_draws = (\<lambda>_. CHR ''x''),
      hs_drawn = 0\<rparr>"

theorem token_survives_restart_witness:
  "\<exists>auth h'. bootstrap_auth (default_config fresh_host) fresh_host = (Inr auth, h') \<and>
     rau_source auth = TokenFileCreated ''/root/.gg-runtime/auth/api-token'' \<and>
     bootstrap_auth (default_config fresh_host) h' =
       (Inr \<lparr>rau_bearer_token = rau_bearer_token auth,
             rau_source = TokenFileExisting ''/root/.gg-runtime/auth/api-token''\<rparr>, h')"
proof -
  let ?c = "default_config fresh_host" and ?p = "''/root/.gg-runtime/auth/api-token''"
  have p: "resolve_auth_token_file_path ?c h = ?p" for h
    by (simp add: resolve_auth_token_file_path_def default_config_def default_auth_config_def resolve_root_dir_def
        default_data_config_def default_runtime_root_dir_def fresh_host_def path_join_def is_absolute_def)
  have none: "auc_token (cfg_auth ?c) = None" by (simp add: default_config_def default_auth_config_def)
  have "\<exists>auth h'. bootstrap_auth ?c fresh_host = (Inr auth, h') \<and> rau_source auth = TokenFileCreated ?p \<and>
      hs_cwd h' = hs_cwd fresh_host \<and> \<not> hs_unreadable h' ?p"
    using none p
    by (cases "path_parent ?p")
       (simp_all add: bootstrap_auth_def gets_def bindE_def make_dir_all_def generate_bearer_token_def write_file_def ok_def
        read_to_string_def non_empty_trimmed_def fresh_host_def)
  then obtain auth h' where run: "bootstrap_auth ?c fresh_host = (Inr auth, h')"
    and src: "rau_source auth = TokenFileCreated ?p" and cwd: "hs_cwd h' = hs_cwd fresh_host" "\<not> hs_unreadable h' ?p"
    by blast
  have "\<forall>n. is_ascii_alphanumeric (hs_draws fresh_host n)"
    by (simp add: fresh_host_def is_ascii_alphanumeric_def)
  from token_survives_restart [OF run this cwd(1) p [symmetric] refl cwd(2)]
  obtain s where again: "bootstrap_auth ?c h' = (Inr \<lparr>rau_bearer_token = rau_bearer_token auth, rau_source = s\<rparr>, h')"
    "s \<noteq> TokenFileCreated ?p" by blast
  then have "s = TokenFileExisting ?p"
    using none p [of h']
    by (auto simp: bootstrap_auth_def gets_def bindE_def ok_def make_dir_all_def generate_bearer_token_def write_file_def
        split: option.splits if_splits prod.splits sum.splits)
  then show ?thesis using run src again by blast
qed

end
