(* ===== verification/Http_Shared.thy ===== *)
theory Http_Shared
  imports Runtime_App Recovery Server_Config
begin

text \<open>
  What the HTTP handlers share (\<open>runtime-server/src/http/shared.rs\<close>, \<open>mod.rs\<close>): the state they get, the error
  they answer with, the guard in front of the protected routes and the cursor of an event stream.

  Routing, the extraction of typed inputs and the encoding of the answers are axum's. A header value is
  its bytes; \<open>HeaderValue::to_str\<close> belongs to the http crate and is the argument \<open>to_str\<close>.
\<close>

section \<open>State and errors\<close>

text \<open>The application and the session manager of \<open>AppState\<close> are the state the handlers run on.\<close>

record app_state =
  ast_bearer_token :: string
  ast_public_base_url :: string
  ast_startup_recovery :: recovery_summary

record api_error =
  aer_status :: nat
  aer_message :: string

definition bad_request :: "string \<Rightarrow> api_error" where
  "bad_request m = \<lparr>aer_status = 400, aer_message = m\<rparr>"

definition not_found :: "string \<Rightarrow> api_error" where
  "not_found m = \<lparr>aer_status = 404, aer_message = m\<rparr>"

fun api_error_from :: "runtime_error \<Rightarrow> api_error" where
  "api_error_from (NotFound m) = not_found m"
| "api_error_from (ProviderNotRegistered m) = not_found m"
| "api_error_from (Configuration m) = bad_request m"
| "api_error_from (InvalidState m) = bad_request m"
| "api_error_from (ProtocolViolation m) = bad_request m"
| "api_error_from (Unsupported m) = bad_request m"
| "api_error_from (ProviderAlreadyRegistered m) = \<lparr>aer_status = 500, aer_message = m\<rparr>"
| "api_error_from (Bootstrap m) = \<lparr>aer_status = 500, aer_message = m\<rparr>"
| "api_error_from (Io m) = \<lparr>aer_status = 500, aer_message = m\<rparr>"

definition api_error_json :: "api_error \<Rightarrow> json" where
  "api_error_json e = jobject [(''error'', JString (aer_message e))]"

text \<open>\<open>.await.map_err(ApiError::from)?\<close>\<close>

definition served :: "('s, runtime_error, 'a) rt \<Rightarrow> ('s, api_error, 'a) rt" where
  "served m s = map_prod (map_sum api_error_from id) id (m s)"

definition parse_provider_kind :: "string \<Rightarrow> api_error + provider_kind" where
  "parse_provider_kind value =
     (case kind_from_str value of
        None \<Rightarrow> Inl (bad_request (''unknown provider '' @ value))
      | Some kind \<Rightarrow> Inr kind)"

section \<open>Headers\<close>

type_synonym header_map = "(string \<times> string) list"

text \<open>\<open>str::parse::<i64>\<close>: an optional sign, at least one digit, no overflow.\<close>

definition parse_i64 :: "string \<Rightarrow> int option" where
  "parse_i64 s =
     (case s of
        [] \<Rightarrow> None
      | c # cs \<Rightarrow>
          if c = CHR ''-''
          then (case (if cs = [] then None else parse_digits 0 cs) of
                  None \<Rightarrow> None
                | Some n \<Rightarrow> if n \<le> 2 ^ 63 then Some (- int n) else None)
          else (case parse_u64 s of
                  None \<Rightarrow> None
                | Some n \<Rightarrow> if n < 2 ^ 63 then Some (int n) else None))"

definition parse_last_event_id_header ::
  "(string \<Rightarrow> string option) \<Rightarrow> header_map \<Rightarrow> api_error + int option" where
  "parse_last_event_id_header to_str headers =
     (case map_of headers ''last-event-id'' of
        None \<Rightarrow> Inr None
      | Some value \<Rightarrow>
          case to_str value of
            None \<Rightarrow> Inl (bad_request ''invalid last-event-id header encoding'')
          | Some raw \<Rightarrow>
              let trimmed = trim raw in
              if trimmed = [] then Inr None
              else case parse_i64 trimmed of
                None \<Rightarrow> Inl (bad_request ''invalid last-event-id header; expected integer'')
              | Some n \<Rightarrow>
                  if n < 0 then Inl (bad_request ''invalid last-event-id header; expected non-negative integer'')
                  else Inr (Some n))"

text \<open>\<open>next\<close> is the protected handler; an answer is a status with a body.\<close>

definition unauthorized :: "nat \<times> json" where
  "unauthorized = (401, jobject [(''error'', JString ''missing or invalid bearer token'')])"

definition bearer_auth ::
  "(string \<Rightarrow> string option) \<Rightarrow> (nat \<times> json \<Rightarrow> 'b) \<Rightarrow> string \<Rightarrow> header_map \<Rightarrow>
   ('s \<Rightarrow> ('b \<times> 's) option) \<Rightarrow> 's \<Rightarrow> ('b \<times> 's) option" where
  "bearer_auth to_str reply expected_token headers next s =
     (let auth_header = Option.bind (map_of headers ''authorization'') to_str;
          expected = ''Bearer '' @ expected_token
      in if auth_header = Some expected then next s else Some (reply unauthorized, s))"

text \<open>An event identifier a stream has sent is read back by the header of the next connection.\<close>

lemma parse_i64_dec: "0 \<le> n \<Longrightarrow> n < 2 ^ 63 \<Longrightarrow> parse_i64 (dec_of_int n) = Some n"
proof -
  assume n: "0 \<le> n" "n < 2 ^ 63"
  obtain c cs where head: "dec_of_nat (nat n) = c # cs"
    by (cases "dec_of_nat (nat n)") simp_all
  then have "48 \<le> (of_char c :: nat)" using dec_of_nat_digits [of "nat n"] by simp
  then have minus: "c \<noteq> CHR ''-''" by auto
  have "nat n < 2 ^ 64" using n by simp
  then have "parse_u64 (c # cs) = Some (nat n)" using parse_u64_dec head by metis
  moreover have "nat n < 2 ^ 63" using n by simp
  ultimately show ?thesis using n head minus by (simp add: parse_i64_def dec_of_int_def)
qed

end
