(* ===== verification/Http_Events.thy ===== *)
theory Http_Events
  imports Http_Shared
begin

text \<open>
  The event endpoints (\<open>runtime-server/src/http/events.rs\<close> and the event handlers of \<open>processes.rs\<close> and
  \<open>teams.rs\<close>): replaying a part of the log, and streams that replay what was missed and go on live.

  A stream is opened in phases between which other handlers may run: subscribe to the broadcast channel
  (its position is the number of events sent so far), replay page by page, then follow the channel. The
  streams of a team and of the whole log have no channel and poll the store. A receiver gets events or
  the error that it lagged behind. \<open>serde_json::to_string\<close> of an event is the argument \<open>enc\<close>.
\<close>

section \<open>Queries and server-sent events\<close>

record event_replay_query =
  erq_after_seq :: "int option"
  erq_limit :: "nat option"

record sse_event =
  sse_id :: string
  sse_name :: string
  sse_data :: string

text \<open>\<open>query.limit.unwrap_or(500).min(10_000)\<close> and \<open>query.limit.unwrap_or(2_000).clamp(1, 10_000)\<close>\<close>

definition replay_limit :: "nat option \<Rightarrow> nat" where
  "replay_limit limit = min (case limit of None \<Rightarrow> 500 | Some n \<Rightarrow> n) 10000"

definition stream_page_limit :: "nat option \<Rightarrow> nat" where
  "stream_page_limit limit = min 10000 (max 1 (case limit of None \<Rightarrow> 2000 | Some n \<Rightarrow> n))"

text \<open>\<open>pos\<close> is the number the client resumes from: the sequence number in a scope, or the row id.\<close>

definition sse_of :: "(event_record \<Rightarrow> string option) \<Rightarrow> (event_record \<Rightarrow> int) \<Rightarrow> event_record \<Rightarrow> sse_event option" where
  "sse_of enc pos e =
     map_option (\<lambda>payload. \<lparr>sse_id = dec_of_int (pos e), sse_name = ev_kind e, sse_data = payload\<rparr>) (enc e)"

section \<open>Paged replay\<close>

text \<open>
  The loop all four streams share: the last position seen and the events so far. The result is \<open>None\<close> if the
  loop never ends.
\<close>

partial_function (option) replay_pages ::
  "(int option \<Rightarrow> 's \<Rightarrow> (runtime_error + event_record list) \<times> 's) \<Rightarrow> (event_record \<Rightarrow> int) \<Rightarrow> nat \<Rightarrow> int option \<Rightarrow>
   event_record list \<Rightarrow> 's \<Rightarrow> ((runtime_error + (int option \<times> event_record list)) \<times> 's) option" where
  "replay_pages fetch pos limit cursor events s =
     (case fetch cursor s of
        (Inl e, s') \<Rightarrow> Some (Inl e, s')
      | (Inr page, s') \<Rightarrow>
          if page = [] then Some (Inr (cursor, events), s')
          else
            let cursor' = Some (pos (last page)); events' = events @ page in
            if length page < limit then Some (Inr (cursor', events'), s')
            else replay_pages fetch pos limit cursor' events' s')"

text \<open>The header, the cursor, the loop, and \<open>replay_high_watermark_seq\<close>.\<close>

definition stream_replay ::
  "(int option \<Rightarrow> nat \<Rightarrow> ('s, runtime_error, event_record list) rt) \<Rightarrow> (event_record \<Rightarrow> int) \<Rightarrow>
   (string \<Rightarrow> string option) \<Rightarrow> header_map \<Rightarrow> event_replay_query \<Rightarrow> 's \<Rightarrow>
   ((api_error + (int \<times> event_record list)) \<times> 's) option" where
  "stream_replay fetch pos to_str headers query s =
     (case parse_last_event_id_header to_str headers of
        Inl e \<Rightarrow> Some (Inl e, s)
      | Inr last_event_id \<Rightarrow>
          let cursor = or_else (erq_after_seq query) last_event_id;
              limit = stream_page_limit (erq_limit query)
          in map_option
               (map_prod (map_sum api_error_from
                  (\<lambda>(replay_cursor, events).
                     (case or_else replay_cursor cursor of None \<Rightarrow> 0 | Some seq \<Rightarrow> seq, events))) id)
               (replay_pages (\<lambda>c. fetch c limit) pos limit cursor [] s))"

section \<open>Sessions\<close>

definition replay_session_events_handler ::
  "string \<Rightarrow> event_replay_query \<Rightarrow> (('p, 'z) manager_scheme, api_error, event_record list) rt" where
  "replay_session_events_handler sid query =
     served (replay_session_events sid (erq_after_seq query) (replay_limit (erq_limit query)))"

text \<open>The phases of \<open>stream_session_events\<close>; the first gives the position of the receiver.\<close>

definition open_session_stream :: "string \<Rightarrow> (('p, 'z) manager_scheme, api_error, nat) rt" where
  "open_session_stream sid =
     bindE (served (get_session sid)) (\<lambda>_. gets (\<lambda>s. length (mg_event_tx s)))"

definition replay_session_stream ::
  "string \<Rightarrow> (string \<Rightarrow> string option) \<Rightarrow> header_map \<Rightarrow> event_replay_query \<Rightarrow> ('p, 'z) manager_scheme \<Rightarrow>
   ((api_error + (int \<times> event_record list)) \<times> ('p, 'z) manager_scheme) option" where
  "replay_session_stream sid to_str headers query s =
     stream_replay (replay_session_events sid) ev_seq to_str headers query s"

definition live_session_event ::
  "(event_record \<Rightarrow> string option) \<Rightarrow> string \<Rightarrow> int \<Rightarrow> nat + event_record \<Rightarrow> sse_event option" where
  "live_session_event enc sid high next =
     (case next of
        Inl lagged \<Rightarrow> None
      | Inr event \<Rightarrow>
          if ev_session_id event = Some sid
          then (if ev_seq event \<le> high then None else sse_of enc ev_seq event)
          else None)"

definition session_stream ::
  "(event_record \<Rightarrow> string option) \<Rightarrow> string \<Rightarrow> event_record list \<Rightarrow> int \<Rightarrow> (nat + event_record) list \<Rightarrow> sse_event list" where
  "session_stream enc sid events high received =
     List.map_filter (sse_of enc ev_seq) events @ List.map_filter (live_session_event enc sid high) received"

section \<open>The whole log\<close>

definition list_events ::
  "(event_scope \<times> string) option \<Rightarrow> int option \<Rightarrow> nat \<Rightarrow> ('z runtime_env_scheme, runtime_error, event_record list) rt" where
  "list_events scope after limit =
     store_call (\<lambda>db. case db_list_runtime_events scope after limit db of Inl e \<Rightarrow> Inl e | Inr rows \<Rightarrow> Inr (rows, db))"

definition replay_global_events ::
  "event_replay_query \<Rightarrow> ('z runtime_env_scheme, api_error, event_record list) rt" where
  "replay_global_events query = served (list_events None (erq_after_seq query) (replay_limit (erq_limit query)))"

definition replay_global_stream ::
  "(string \<Rightarrow> string option) \<Rightarrow> header_map \<Rightarrow> event_replay_query \<Rightarrow> 'z runtime_env_scheme \<Rightarrow>
   ((api_error + (int \<times> event_record list)) \<times> 'z runtime_env_scheme) option" where
  "replay_global_stream to_str headers query s = stream_replay (list_events None) ev_row_id to_str headers query s"

text \<open>
  One round of the polling task: the events it sends and the cursor after them. A failed query is
  tried again in the next round.
\<close>

definition poll_events ::
  "(event_scope \<times> string) option \<Rightarrow> (event_record \<Rightarrow> int) \<Rightarrow> nat \<Rightarrow> int \<Rightarrow> 'z runtime_env_scheme \<Rightarrow>
   (int \<times> event_record list) \<times> 'z runtime_env_scheme" where
  "poll_events scope pos limit cursor s =
     (case list_events scope (Some cursor) limit s of
        (Inl _, s') \<Rightarrow> ((cursor, []), s')
      | (Inr page, s') \<Rightarrow> ((fold (\<lambda>e c. max c (pos e)) page cursor, page), s'))"

definition poll_global :: "nat \<Rightarrow> int \<Rightarrow> 'z runtime_env_scheme \<Rightarrow> (int \<times> event_record list) \<times> 'z runtime_env_scheme" where
  "poll_global limit = poll_events None ev_row_id limit"

section \<open>Teams\<close>

definition replay_team_events_handler ::
  "string \<Rightarrow> event_replay_query \<Rightarrow> (('p, 'z) comms_scheme, api_error, event_record list) rt" where
  "replay_team_events_handler team query =
     served (replay_team_events team (erq_after_seq query) (replay_limit (erq_limit query)))"

definition replay_team_stream ::
  "string \<Rightarrow> (string \<Rightarrow> string option) \<Rightarrow> header_map \<Rightarrow> event_replay_query \<Rightarrow> ('p, 'z) comms_scheme \<Rightarrow>
   ((api_error + (int \<times> event_record list)) \<times> ('p, 'z) comms_scheme) option" where
  "replay_team_stream team to_str headers query s =
     (case served (get_team team) s of
        (Inl e, s') \<Rightarrow> Some (Inl e, s')
      | (Inr _, s') \<Rightarrow> stream_replay (replay_team_events team) ev_seq to_str headers query s')"

definition poll_team :: "string \<Rightarrow> nat \<Rightarrow> int \<Rightarrow> ('p, 'z) comms_scheme \<Rightarrow> (int \<times> event_record list) \<times> ('p, 'z) comms_scheme" where
  "poll_team team limit = poll_events (Some (ScopeTeam, team)) ev_seq limit"

section \<open>Processes\<close>

record process_events_query =
  peq_session_id :: "string option"
  peq_after_seq :: "int option"
  peq_limit :: "nat option"

definition replay_process_events_handler ::
  "string \<Rightarrow> process_events_query \<Rightarrow> ('z process_manager_scheme, api_error, event_record list) rt" where
  "replay_process_events_handler pid query =
     served (replay_process_events pid (peq_session_id query) (peq_after_seq query) (replay_limit (peq_limit query)))"

definition open_process_stream :: "'z process_manager_scheme \<Rightarrow> nat" where
  "open_process_stream s = length (pm_event_tx s)"

definition replay_process_stream ::
  "string \<Rightarrow> (string \<Rightarrow> string option) \<Rightarrow> header_map \<Rightarrow> process_events_query \<Rightarrow> 'z process_manager_scheme \<Rightarrow>
   ((api_error + (int \<times> event_record list)) \<times> 'z process_manager_scheme) option" where
  "replay_process_stream pid to_str headers query s =
     stream_replay (replay_process_events pid (peq_session_id query)) ev_seq to_str headers
       \<lparr>erq_after_seq = peq_after_seq query, erq_limit = peq_limit query\<rparr> s"

definition live_process_event ::
  "(event_record \<Rightarrow> string option) \<Rightarrow> string \<Rightarrow> int \<Rightarrow> nat + event_record \<Rightarrow> sse_event option" where
  "live_process_event enc pid high next =
     (case next of
        Inl lagged \<Rightarrow> None
      | Inr event \<Rightarrow>
          if ev_scope event = ScopeProcess \<and> ev_scope_id event = pid
          then (if ev_seq event \<le> high then None else sse_of enc ev_seq event)
          else None)"

section \<open>Replay is complete\<close>

text \<open>The part of a scope after a cursor.\<close>

definition rows_after :: "event_scope \<Rightarrow> string \<Rightarrow> int option \<Rightarrow> database \<Rightarrow> event_row list" where
  "rows_after sc i cursor db =
     filter (\<lambda>r. case cursor of None \<Rightarrow> True | Some c \<Rightarrow> c < er_seq r) (scope_rows sc i db)"

lemma sorted_rows_after: "events_ok db \<Longrightarrow> sorted_wrt (\<lambda>a b. er_seq a < er_seq b) (rows_after sc i cursor db)"
  unfolding rows_after_def
proof (rule sorted_wrt_filter)
  assume "events_ok db"
  then have "seqs_from_one (scope_rows sc i db)" by (simp add: events_ok_def)
  then show "sorted_wrt (\<lambda>a b. er_seq a < er_seq b) (scope_rows sc i db)"
    by (auto simp: sorted_wrt_iff_nth_less seqs_from_one_nth)
qed

lemma replay_scope:
  assumes ok: "events_ok db" and lim: "int limit \<le> i64_max"
  shows "db_list_runtime_events (Some (sc, i)) cursor limit db = Inr (map decode (take limit (rows_after sc i cursor db)))"
proof -
  let ?rs = "rows_after sc i cursor db"
  have "sort_key er_seq ?rs = ?rs"
    using sorted_rows_after [OF ok, of sc i cursor]
    by (intro sort_key_id_if_sorted) (auto simp: sorted_wrt_map intro: sorted_wrt_mono_rel [rotated])
  moreover have "\<forall>r \<in> set (take limit ?rs). row_decodes r"
    using ok by (auto simp: events_ok_def rows_after_def scope_rows_def dest!: in_set_takeD)
  ultimately show ?thesis
    using lim by (auto simp: db_list_runtime_events_def rows_after_def collect_rows_decodes split: option.splits)
qed

lemma sorted_last:
  fixes pos :: "'a \<Rightarrow> int"
  shows "sorted_wrt (\<lambda>a b. pos a < pos b) xs \<Longrightarrow> x \<in> set xs \<Longrightarrow> pos x \<le> pos (last xs)"
  by (induction xs) (use last_in_set in \<open>fastforce simp: less_imp_le split: if_splits\<close>)+

text \<open>The rows after the last one of a page.\<close>

lemma rows_after_page:
  assumes ok: "events_ok db" and page: "take limit (rows_after sc i cursor db) = page" "page \<noteq> []"
  shows "rows_after sc i (Some (er_seq (last page))) db = drop limit (rows_after sc i cursor db)"
proof -
  let ?rs = "rows_after sc i cursor db" and ?m = "er_seq (last page)"
  have split: "?rs = page @ drop limit ?rs" using page(1) by (metis append_take_drop_id)
  have sorted: "sorted_wrt (\<lambda>a b. er_seq a < er_seq b) (page @ drop limit ?rs)"
    using sorted_rows_after [OF ok, of sc i cursor] split by metis
  have init: "\<forall>r \<in> set page. er_seq r \<le> ?m"
    using sorted_last [of er_seq page] sorted by (simp add: sorted_wrt_append)
  have rest: "\<forall>r \<in> set (drop limit ?rs). ?m < er_seq r"
    using sorted page(2) by (auto simp: sorted_wrt_append)
  have "\<forall>c. cursor = Some c \<longrightarrow> c < ?m"
  proof -
    have "last page \<in> set ?rs" using split page(2) by (metis UnCI last_in_set set_append)
    then show ?thesis by (auto simp: rows_after_def)
  qed
  then have "rows_after sc i (Some ?m) db = filter (\<lambda>r. ?m < er_seq r) ?rs"
    by (auto simp: rows_after_def intro!: filter_cong split: option.splits)
  also have "\<dots> = filter (\<lambda>r. ?m < er_seq r) page @ filter (\<lambda>r. ?m < er_seq r) (drop limit ?rs)"
    by (subst split) simp
  also have "\<dots> = drop limit ?rs"
    using init rest by (auto simp: filter_empty_conv filter_id_conv not_less)
  finally show ?thesis .
qed

text \<open>
  A fetch that answers with one page of a scope; the state moves on, the log does not.
\<close>

definition pages_of ::
  "event_scope \<Rightarrow> string \<Rightarrow> nat \<Rightarrow> ('z runtime_env_scheme \<Rightarrow> bool) \<Rightarrow> (int option \<Rightarrow> ('z runtime_env_scheme, runtime_error, event_record list) rt) \<Rightarrow> bool" where
  "pages_of sc i limit Q fetch \<longleftrightarrow>
     (\<forall>cursor s. Q s \<longrightarrow> (\<exists>s'. fetch cursor s = (Inr (map decode (take limit (rows_after sc i cursor (env_db s)))), s') \<and>
        Q s' \<and> env_db s' = env_db s))"

lemma decode_seq [simp]: "ev_seq (decode r) = er_seq r"
  by (simp add: decode_def)

lemma replay_pages_all:
  assumes fetch: "pages_of sc i limit Q fetch" and pos: "0 < limit" and ok: "events_ok (env_db s)" and Q: "Q s"
  shows "\<exists>s'. replay_pages fetch ev_seq limit cursor events s =
      Some (Inr (if rows_after sc i cursor (env_db s) = [] then cursor
                 else Some (er_seq (last (rows_after sc i cursor (env_db s)))),
                 events @ map decode (rows_after sc i cursor (env_db s))), s') \<and> Q s' \<and> env_db s' = env_db s"
  using ok Q
proof (induction "length (rows_after sc i cursor (env_db s))" arbitrary: cursor events s rule: less_induct)
  case less
  let ?rs = "rows_after sc i cursor (env_db s)"
  let ?page = "take limit ?rs"
  obtain s1 where one: "fetch cursor s = (Inr (map decode ?page), s1)" "Q s1" "env_db s1 = env_db s"
    using fetch less.prems(2) unfolding pages_of_def by blast
  show ?case
  proof (cases "?rs = []")
    case True
    then show ?thesis using one by (subst replay_pages.simps) simp
  next
    case False
    then have page: "?page \<noteq> []" using pos by simp
    have last: "last (map decode ?page) = decode (last ?page)" using page by (simp add: last_map)
    show ?thesis
    proof (cases "length ?rs < limit")
      case True
      then show ?thesis using one False by (subst replay_pages.simps) (simp add: last_map)
    next
      case long: False
      note rest = rows_after_page [OF less.prems(1) refl page]
      have "length (rows_after sc i (Some (er_seq (last ?page))) (env_db s1)) < length ?rs"
        using rest one(3) False pos by simp
      from less.hyps [OF this] less.prems(1) one(2,3)
      obtain s' where rec: "replay_pages fetch ev_seq limit (Some (er_seq (last ?page))) (events @ map decode ?page) s1 =
          Some (Inr (if drop limit ?rs = [] then Some (er_seq (last ?page)) else Some (er_seq (last (drop limit ?rs))),
            (events @ map decode ?page) @ map decode (drop limit ?rs)), s')" "Q s'" "env_db s' = env_db s"
        using rest by (metis (no_types, lifting))
      have "(if drop limit ?rs = [] then Some (er_seq (last ?page)) else Some (er_seq (last (drop limit ?rs)))) =
          Some (er_seq (last ?rs))"
        by (cases "drop limit ?rs = []") (simp_all add: last_drop)
      moreover have "(events @ map decode ?page) @ map decode (drop limit ?rs) = events @ map decode ?rs"
        by (metis append.assoc append_take_drop_id map_append)
      ultimately show ?thesis
        using one False long page rec last by (subst replay_pages.simps) (simp add: Let_def)
    qed
  qed
qed

end
