(* ===== verification/Event_Feed.thy ===== *)
theory Event_Feed
  imports Http_Events Team_Properties
begin

text \<open>
  What a subscriber of the session manager's channel learns about the log. The locale \<open>event_keeping\<close> carries
  an invariant of the log and the channel through every handler of the session manager and the team
  service: only the two functions that append events have to be looked at. It is interpreted on
  \<open>published\<close>: what was announced since a subscription is what was logged for sessions since then.
\<close>

definition lview :: "('p, 'z) manager_scheme \<Rightarrow> event_row list \<times> int \<times> event_record list" where
  "lview s = (db_events (env_db s), db_event_rowid (env_db s), mg_event_tx s)"

section \<open>Invariants of the log\<close>

locale event_keeping =
  fixes I :: "('p, 'z) comms_scheme \<Rightarrow> bool"
  assumes view: "I s \<Longrightarrow> lview s' = lview s \<Longrightarrow> I s'"
    and announcing: "preserves I (session_event sid turn kind payload)"
    and logging: "preserves I (append_team_event team kind payload ses)"
begin

declare announcing [preserves_intros] logging [preserves_intros]

lemma silent: "(\<And>s. lview (snd (m s)) = lview s) \<Longrightarrow> preserves I m"
  unfolding preserves_def using view by blast

lemma stores [preserves_intros]:
  "preserves I (store_write w)" "preserves I (store_call (\<lambda>db. Inr (f db, db)))"
  by (rule silent, auto simp: store_write_def store_call_def lview_def Let_def
      dest!: write_events split: option.splits sum.splits prod.splits)+

lemma basics [preserves_intros]:
  "preserves I now_ms" "preserves I (put_session i r)" "preserves I (put_turn i t)" "preserves I (put_approval i a)"
  "preserves I (spawn_wait_for_turn k i j)" "preserves I (provider_call h)"
  by (rule silent, simp add: now_ms_def put_session_def put_turn_def put_approval_def spawn_wait_for_turn_def
      modify_def provider_call_def lview_def split: prod.splits)+

lemma modifies [preserves_intros]:
  "preserves I (modify (\<lambda>s. s\<lparr>mg_next_id := f1 s\<rparr>))" "preserves I (modify (\<lambda>s. s\<lparr>mg_tasks := f3 s\<rparr>))"
  "preserves I (modify (\<lambda>s. s\<lparr>tc_teams := f5 s\<rparr>))" "preserves I (modify (\<lambda>s. s\<lparr>tc_members := f6 s\<rparr>))"
  "preserves I (modify (\<lambda>s. s\<lparr>tc_members := f7 s, tc_teams := f8 s\<rparr>))"
  "preserves I (modify (\<lambda>s. s\<lparr>tc_teams := f8 s, tc_members := f7 s\<rparr>))"
  "preserves I (modify (\<lambda>s. s\<lparr>tc_deliveries := f9 s\<rparr>))" "preserves I (modify (\<lambda>s. s\<lparr>tc_events_seen := f10 s\<rparr>))"
  "preserves I (modify (\<lambda>s. s\<lparr>tc_listening := f11 s\<rparr>))"
  "preserves I (modify (\<lambda>s. s\<lparr>tc_message_deliveries := f12 s\<rparr>))"
  "preserves I (modify (\<lambda>s. s\<lparr>tc_idempotency := f13 s\<rparr>))"
  "preserves I (modify (\<lambda>s. s\<lparr>tc_deliveries := f14 s, tc_recipient_deliveries := f15 s\<rparr>))"
  by (rule silent, simp add: modify_def lview_def)+

lemma lookups [preserves_intros]:
  "preserves I (get_session sid)" "preserves I (require_provider k)" "preserves I (require_kind r)"
  "preserves I ensure_enabled" "preserves I (require_session_active sid)" "preserves I (team_with_members t)"
  unfolding get_session_def require_provider_def require_kind_def ensure_enabled_def
    require_session_active_def team_with_members_def
  by (intro preserves_intros)+

lemma counters [preserves_intros]:
  "preserves I (allocate_id p q)" "preserves I allocate_team_id" "preserves I allocate_message_id"
  "preserves I allocate_delivery_id"
  by (rule silent, auto simp: allocate_id_def now_ms_def monad_simps ok_def allocate_team_id_def allocate_message_id_def
      allocate_delivery_id_def lview_def bindE_def gets_def modify_def split: prod.splits)+

lemma turns [preserves_intros]:
  "preserves I (dispatch_send_turn_with_resume_fallback kind req cwd pref cref md)"
  "preserves I (send_turn_admit sid input)" "preserves I (interrupt_turn sid tid)"
  unfolding dispatch_send_turn_with_resume_fallback_def send_turn_admit_def interrupt_turn_def Let_def
  by (auto intro!: preserves_intros split: runtime_error.splits sum.splits)

lemma sending_turns [preserves_intros]: "preserves I (send_turn sid input)"
  unfolding send_turn_def send_turn_failed_def send_turn_accept_def Let_def
  by (auto intro!: preserves_intros split: runtime_error.splits sum.splits option.splits bool.splits)

lemma sessions [preserves_intros]:
  "preserves I (create_session cinput)" "preserves I (finalize_session_close sid reason)"
  "preserves I (resume_session sid rinput)" "preserves I (set_session_worktree_id sid wt)"
  unfolding create_session_def finalize_session_close_def resume_session_def set_session_worktree_id_def Let_def
  by (auto intro!: preserves_intros)

lemma closing [preserves_intros]:
  "preserves I (close_session sid r)" "preserves I (force_close_session sid r)"
  unfolding close_session_def force_close_session_def by (intro preserves_intros)+

lemma approvals [preserves_intros]: "preserves I (respond_approval sid aid ainput)"
  unfolding respond_approval_def approval_accepted_def approval_declined_def Let_def
  by (auto intro!: preserves_intros split: approval_decision.splits)

lemma terminal [preserves_intros]:
  "preserves I (apply_terminal_result result)" "preserves I (apply_terminal_failure sid tid e)"
  unfolding terminal_defs failure_defs Let_def by (auto intro!: preserves_intros)

lemma waiters [preserves_intros]: "preserves I (wait_step n)"
  unfolding wait_step_def run_wait_task_def by (auto intro!: preserves_intros split: prod.splits)

lemma at: "preserves I m \<Longrightarrow> I s \<Longrightarrow> I (snd (m s))"
  by (simp add: preserves_def)

lemma manager_step_keeps: "manager_step s s' \<Longrightarrow> I s \<Longrightarrow> I s'"
  by (induction rule: manager_step.induct) (rule at, intro preserves_intros, assumption)+

lemma forgetting: "lview (forget_message mid s) = lview (s :: ('p, 'z) comms_scheme)"
  by (simp add: forget_message_def lview_def Let_def split: option.splits)

lemma fold_forgetting: "lview (fold forget_message mids s) = lview (s :: ('p, 'z) comms_scheme)"
  by (induction mids arbitrary: s) (simp_all add: forgetting)

lemma fold_indexing: "lview (fold index_delivery ds s) = lview (s :: ('p, 'z) comms_scheme)"
  by (induction ds arbitrary: s) (simp_all add: index_delivery_def lview_def)

lemma modifies_messages [preserves_intros]:
  "preserves I (modify (record_message m idx ds))"
  "preserves I (modify (\<lambda>s. fold forget_message mids
     (s\<lparr>tc_teams := f1 s, tc_members := f2 s, tc_team_messages := f3 s, tc_team_deliveries := f4 s\<rparr>)))"
  by (rule silent, simp add: modify_def fold_indexing record_message_def, simp add: lview_def)
     (rule silent, simp add: modify_def fold_forgetting, simp add: lview_def)

lemma transitions [preserves_intros]:
  "preserves I (transition_delivery_status d status strategy code msg trigger)"
  "preserves I (transition_delivery_with_turn_id did turn)"
  unfolding transition_delivery_status_def transition_delivery_with_turn_id_def Let_def
  by (auto intro!: preserves_intros split: option.splits)

lemma injecting [preserves_intros]: "preserves I (inject_delivery did trigger)"
  unfolding inject_delivery_def inject_check_def inject_commit_def interrupt_for_def Let_def
  by (auto intro!: preserves_intros split: option.splits sum.splits inject_plan.splits runtime_error.splits)

lemma messages [preserves_intros]:
  "preserves I (create_message_and_deliveries req)" "preserves I (deliver_created ack)"
  unfolding create_message_and_deliveries_def create_under_lock_def resolve_recipient_def allocate_delivery_def
    deliver_created_def queue_and_attempt_delivery_def Let_def
  by (auto intro!: preserves_intros split: option.splits)

lemma queues [preserves_intros]:
  "preserves I recover_startup_deferred_deliveries" "preserves I listener_step"
  unfolding recover_startup_deferred_deliveries_def recover_recipient_def listener_step_def
    resume_deferred_for_recipient_def Let_def
  by (auto intro!: preserves_intros split: option.splits prod.splits)

lemma membership [preserves_intros]:
  "preserves I (create_team creq)" "preserves I (join_team jreq)"
  "preserves I (remove_team_member team agent)" "preserves I (set_team_lead team agent)"
  unfolding create_team_def register_team_def join_team_def join_under_lock_def remove_team_member_def
    remove_under_lock_def set_team_lead_def lead_under_lock_def Let_def
  by (auto intro!: preserves_intros split: prod.splits)

lemma cancelled [preserves_intros]: "preserves I (store_cancelled team d)"
  unfolding store_cancelled_def by (auto intro!: preserves_intros)

lemma deletion [preserves_intros]:
  "preserves I (delete_team team)" "preserves I (interrupt_all_team_turns team)"
  unfolding delete_team_def delete_under_lock_def forget_delivery_def
    interrupt_all_team_turns_def interrupt_member_def Let_def
  by (auto intro!: preserves_intros split: prod.splits option.splits sum.splits)

lemma sending [preserves_intros]:
  "preserves I (send_direct dreq)" "preserves I (broadcast breq)"
  "preserves I (retry_delivery team did)" "preserves I (cancel_message team mid)"
  unfolding send_direct_def broadcast_def retry_delivery_def retry_under_lock_def cancel_message_def
    cancel_under_lock_def cancel_step_def Let_def
  by (auto intro!: preserves_intros split: prod.splits option.splits sum.splits)

lemma comms_step_keeps: "comms_step s s' \<Longrightarrow> I s \<Longrightarrow> I s'"
proof (induction rule: comms_step.induct)
  case (manager s s')
  then show ?case by (rule manager_step_keeps)
qed (rule at, intro preserves_intros, assumption)+

end

section \<open>What was announced is what was logged\<close>

definition announced :: "event_row \<Rightarrow> bool" where
  "announced r \<longleftrightarrow> er_scope r = scope_as_str ScopeSession"

text \<open>
  No event was announced under the identifier of an event that was there before: appending is idempotent
  in the identifier, and would announce the older event once more.
\<close>

definition fresh_events :: "('p, 'z) manager_scheme \<Rightarrow> event_record list \<Rightarrow> bool" where
  "fresh_events s0 es \<longleftrightarrow>
     distinct (map ev_event_id es) \<and>
     (\<forall>e \<in> set es. ev_scope e = ScopeSession \<and> ev_event_id e \<notin> er_event_id ` set (db_events (env_db s0)))"

definition published :: "('p, 'z) manager_scheme \<Rightarrow> ('p, 'z) manager_scheme \<Rightarrow> bool" where
  "published s0 s \<longleftrightarrow>
     events_ok (env_db s) \<and>
     (\<exists>rs es. db_events (env_db s) = db_events (env_db s0) @ rs \<and> mg_event_tx s = mg_event_tx s0 @ es \<and>
        (fresh_events s0 es \<longrightarrow> map decode (filter announced rs) = es \<and>
           (\<forall>r \<in> set rs. announced r \<longrightarrow> er_session_id r = Some (er_scope_id r))))"

lemma published_refl: "events_ok (env_db s) \<Longrightarrow> published s s"
  by (simp add: published_def)

lemma published_view: "published s0 s \<Longrightarrow> lview s' = lview s \<Longrightarrow> published s0 s'"
  using events_ok_cong [of "env_db s'" "env_db s"] by (simp add: published_def lview_def)

lemma new_row_simps [simp]:
  "er_scope (new_event_row e n q) = scope_as_str (ne_scope e)" "er_scope_id (new_event_row e n q) = ne_scope_id e"
  "er_session_id (new_event_row e n q) = ne_session_id e" "er_event_id (new_event_row e n q) = ne_event_id e"
  by (simp_all add: new_event_row_def)

lemma decode_id [simp]: "ev_event_id (decode r) = er_event_id r" "ev_session_id (decode r) = er_session_id r"
  by (simp_all add: decode_def)

lemma decode_scope: "row_decodes r \<Longrightarrow> ev_scope (decode r) = ScopeSession \<longleftrightarrow> announced r"
proof -
  assume "row_decodes r"
  then obtain sc where "er_scope r = scope_as_str sc" by (auto simp: row_decodes_def)
  moreover from this have "ev_scope (decode r) = sc" by (simp add: decode_def scope_roundtrip)
  ultimately show ?thesis unfolding announced_def using scope_as_str_inject by metis
qed

lemma fresh_prefix: "fresh_events s0 (es @ es') \<Longrightarrow> fresh_events s0 es"
  by (auto simp: fresh_events_def)

lemma published_announce:
  assumes pub: "published s0 s" and app: "db_append_runtime_event e (env_db s) = Inr (x, env_db s')"
    and e: "ne_scope e = ScopeSession" "ne_session_id e = Some (ne_scope_id e)" and tx: "mg_event_tx s' = mg_event_tx s @ [x]"
  shows "published s0 s'"
proof -
  from pub obtain rs es where ok: "events_ok (env_db s)" and log: "db_events (env_db s) = db_events (env_db s0) @ rs"
    and sent: "mg_event_tx s = mg_event_tx s0 @ es"
    and same: "fresh_events s0 es \<Longrightarrow> map decode (filter announced rs) = es \<and>
      (\<forall>r \<in> set rs. announced r \<longrightarrow> er_session_id r = Some (er_scope_id r))"
    by (auto simp: published_def)
  have ok': "events_ok (env_db s')" using append_event_ok [OF ok app] .
  from append_event_cases [OF ok app] show ?thesis
  proof (elim disjE conjE bexE exE)
    fix r assume old: "env_db s' = env_db s" "r \<in> set (db_events (env_db s))" "x = decode r"
    have "\<not> fresh_events s0 (es @ [x])"
    proof
      assume fresh: "fresh_events s0 (es @ [x])"
      then have "r \<notin> set (db_events (env_db s0))" using old(3) by (auto simp: fresh_events_def)
      then have r: "r \<in> set rs" using old(2) log by auto
      have "row_decodes r" using ok old(2) by (simp add: events_ok_def)
      then have "announced r" using fresh old(3) decode_scope by (simp add: fresh_events_def)
      then have "x \<in> set es" using same [OF fresh_prefix [OF fresh]] r old(3) by force
      then show False using fresh by (auto simp: fresh_events_def)
    qed
    then show ?thesis unfolding published_def using ok' log sent old(1) tx
      by (intro conjI exI [of _ rs] exI [of _ "es @ [x]"]) auto
  next
    fix r assume new: "x = decode r" "env_db s' = env_db s\<lparr>db_events := db_events (env_db s) @ [r], db_event_rowid := db_event_rowid (env_db s) + 1\<rparr>"
      and r: "r = new_event_row e (db_event_rowid (env_db s) + 1) (int (length (scope_rows (ne_scope e) (ne_scope_id e) (env_db s))) + 1)"
    have "announced r" "er_session_id r = Some (er_scope_id r)" using r e by (simp_all add: announced_def)
    then show ?thesis unfolding published_def using ok' log sent new tx same
      by (intro conjI exI [of _ "rs @ [r]"] exI [of _ "es @ [x]"]) (auto dest!: fresh_prefix)
  qed
qed

lemma published_elsewhere:
  assumes pub: "published s0 s" and app: "db_append_runtime_event e (env_db s) = Inr (x, env_db s')"
    and e: "ne_scope e \<noteq> ScopeSession" and tx: "mg_event_tx s' = mg_event_tx s"
  shows "published s0 s'"
proof -
  from pub obtain rs es where ok: "events_ok (env_db s)" and log: "db_events (env_db s) = db_events (env_db s0) @ rs"
    and sent: "mg_event_tx s = mg_event_tx s0 @ es"
    and same: "fresh_events s0 es \<Longrightarrow> map decode (filter announced rs) = es \<and>
      (\<forall>r \<in> set rs. announced r \<longrightarrow> er_session_id r = Some (er_scope_id r))"
    by (auto simp: published_def)
  have ok': "events_ok (env_db s')" using append_event_ok [OF ok app] .
  have other: "scope_as_str (ne_scope e) \<noteq> scope_as_str ScopeSession" using e by (metis option.inject scope_roundtrip)
  from append_event_cases [OF ok app] show ?thesis
  proof (elim disjE conjE bexE exE)
    assume "env_db s' = env_db s"
    then show ?thesis using pub tx published_view [of s0 s s'] by (simp add: lview_def)
  next
    fix r assume new: "env_db s' = env_db s\<lparr>db_events := db_events (env_db s) @ [r], db_event_rowid := db_event_rowid (env_db s) + 1\<rparr>"
      and r: "r = new_event_row e (db_event_rowid (env_db s) + 1) (int (length (scope_rows (ne_scope e) (ne_scope_id e) (env_db s))) + 1)"
    have "\<not> announced r" using r other by (simp add: announced_def)
    then show ?thesis unfolding published_def using ok' log sent new tx same
      by (intro conjI exI [of _ "rs @ [r]"] exI [of _ es]) auto
  qed
qed

lemma session_event_cases:
  assumes run: "session_event sid turn kind payload s = (r, s')"
  shows "lview s' = lview s \<or>
    (\<exists>e x. db_append_runtime_event e (env_db s) = Inr (x, env_db s') \<and> ne_scope e = ScopeSession \<and>
       ne_session_id e = Some (ne_scope_id e) \<and> mg_event_tx s' = mg_event_tx s @ [x])"
proof -
  obtain i s1 where one: "allocate_id ''evt'' ''session'' s = (Inr i :: runtime_error + string, s1)"
    and s1: "env_db s1 = env_db s" "mg_event_tx s1 = mg_event_tx s"
    by (simp add: allocate_id_def monad_simps now_ms_def bindE_def ok_def gets_def modify_def)
  let ?e = "\<lparr>ne_event_id = i, ne_scope = ScopeSession, ne_scope_id = sid, ne_session_id = Some sid, ne_team_id = None,
      ne_turn_id = turn, ne_kind = kind, ne_criticality = Critical, ne_payload = payload, ne_provider = None,
      ne_provider_seq = None, ne_created_at = env_clock s1 (env_clock_reads s1)\<rparr>"
  have i: "session_event sid turn kind payload s =
      bindE (store_call (db_append_runtime_event ?e)) (\<lambda>record.
      bindE (modify (\<lambda>s. s\<lparr>mg_event_tx := mg_event_tx s @ [record]\<rparr>)) (\<lambda>_. ok record))
        (s1\<lparr>env_clock_reads := Suc (env_clock_reads s1)\<rparr>)"
    by (simp add: append_event_def bindE_Inr [where m = "allocate_id ''evt'' ''session''" and s = s, OF one] bindE_now)
  show ?thesis
  proof (cases "env_faults s1 (env_store_ops s1) = None \<and> \<not> isl (db_append_runtime_event ?e (env_db s1))")
    case False
    then have "lview s' = lview s"
      using run s1 by (auto simp: i bindE_def store_call_def lview_def Let_def split: option.splits sum.splits prod.splits)
    then show ?thesis ..
  next
    case True
    then obtain x db' where "db_append_runtime_event ?e (env_db s1) = Inr (x, db')"
      by (cases "db_append_runtime_event ?e (env_db s1)") auto
    then have "db_append_runtime_event ?e (env_db s) = Inr (x, env_db s') \<and> mg_event_tx s' = mg_event_tx s @ [x]"
      using True run s1 by (auto simp: i bindE_def store_call_def ok_def modify_def Let_def)
    then show ?thesis by (intro disjI2 exI [of _ ?e] exI [of _ x]) simp
  qed
qed

lemma team_event_cases:
  assumes run: "append_team_event team kind payload ses s = (r, s')"
  shows "lview s' = lview s \<or>
    (\<exists>e x. db_append_runtime_event e (env_db s) = Inr (x, env_db s') \<and> ne_scope e \<noteq> ScopeSession \<and>
       mg_event_tx s' = mg_event_tx s)"
proof -
  define i where "i = ''evt_team_'' @ team @ ''_'' @ tc_nonce s @ ''_'' @ dec_of_nat (unat (tc_next_event s))"
  let ?e = "\<lparr>ne_event_id = i, ne_scope = ScopeTeam, ne_scope_id = team, ne_session_id = ses, ne_team_id = Some team,
      ne_turn_id = None, ne_kind = kind, ne_criticality = Critical, ne_payload = payload, ne_provider = None,
      ne_provider_seq = None, ne_created_at = env_clock s (env_clock_reads s)\<rparr>"
  have i: "append_team_event team kind payload ses s =
      store_call (db_append_runtime_event ?e)
        (s\<lparr>tc_next_event := tc_next_event s + 1, env_clock_reads := Suc (env_clock_reads s)\<rparr>)"
    by (simp add: append_team_event_def monad_simps bindE_def gets_def modify_def now_ms_def i_def)
  show ?thesis
  proof (cases "env_faults s (env_store_ops s) = None \<and> \<not> isl (db_append_runtime_event ?e (env_db s))")
    case False
    then have "lview s' = lview s"
      using run by (auto simp: i store_call_def lview_def Let_def split: option.splits sum.splits prod.splits)
    then show ?thesis ..
  next
    case True
    then obtain x db' where "db_append_runtime_event ?e (env_db s) = Inr (x, db')"
      by (cases "db_append_runtime_event ?e (env_db s)") auto
    then have "db_append_runtime_event ?e (env_db s) = Inr (x, env_db s') \<and> mg_event_tx s' = mg_event_tx s"
      using True run by (auto simp: i store_call_def Let_def)
    then show ?thesis by (intro disjI2 exI [of _ ?e] exI [of _ x]) simp
  qed
qed

lemma published_events:
  fixes s :: "('p, 'z) comms_scheme"
  assumes "published s0 s"
  shows "published s0 (snd (session_event sid turn kind payload s))"
    and "published s0 (snd (append_team_event team kind payload ses s))"
proof -
  show "published s0 (snd (session_event sid turn kind payload s))"
    using session_event_cases [of sid turn kind payload s] published_view [OF assms] published_announce [OF assms]
    by (cases "session_event sid turn kind payload s") (simp, blast)
  show "published s0 (snd (append_team_event team kind payload ses s))"
    using team_event_cases [of team kind payload ses s] published_view [OF assms] published_elsewhere [OF assms]
    by (cases "append_team_event team kind payload ses s") (simp, blast)
qed

interpretation feed: event_keeping "published s0" for s0 :: "('p, 'z) comms_scheme"
  by unfold_locales (erule published_view, assumption, simp_all add: preserves_def published_events)

section \<open>Replay and live events meet without a gap\<close>

text \<open>What happens between the phases of a stream: any handler, and events of other services.\<close>

inductive feed_step :: "('p, 'z) comms_scheme \<Rightarrow> ('p, 'z) comms_scheme \<Rightarrow> bool" where
  handler: "comms_step s s' \<Longrightarrow> feed_step s s'"
| elsewhere: "db_append_runtime_event e (env_db s) = Inr (x, db') \<Longrightarrow> ne_scope e \<noteq> ScopeSession \<Longrightarrow>
    feed_step s (s\<lparr>env_db := db'\<rparr>)"

lemma feed_steps_publish: "feed_step\<^sup>*\<^sup>* s s' \<Longrightarrow> published s0 s \<Longrightarrow> published s0 s'"
proof (induction rule: rtranclp_induct)
  case (step y z)
  from step.hyps(2) show ?case
  proof cases
    case handler
    then show ?thesis using feed.comms_step_keeps step by blast
  next
    case (elsewhere e x db')
    then show ?thesis using published_elsewhere [of s0 y e x z] step by simp
  qed
qed simp

text \<open>Events up to the last one replayed are dropped from the live part; those after it are not.\<close>

lemma handoff:
  fixes pos :: "'a \<Rightarrow> int"
  assumes sorted: "sorted_wrt (\<lambda>a b. pos a < pos b) (R @ D)" and seen: "set S \<subseteq> set R"
    and high: "high = (if filter (\<lambda>r. c < pos r) R = [] then c else pos (last (filter (\<lambda>r. c < pos r) R)))"
  shows "filter (\<lambda>r. c < pos r) R @ filter (\<lambda>r. high < pos r) (S @ D) = filter (\<lambda>r. c < pos r) (R @ D)"
proof (cases "filter (\<lambda>r. c < pos r) R = []")
  case True
  then have "filter (\<lambda>r. c < pos r) S = []" using seen by (auto simp: filter_empty_conv)
  then show ?thesis using True high by simp
next
  case False
  let ?F = "filter (\<lambda>r. c < pos r) R"
  have F: "last ?F \<in> set ?F" using False by (rule last_in_set)
  have sF: "sorted_wrt (\<lambda>a b. pos a < pos b) ?F"
    using sorted by (simp add: sorted_wrt_append sorted_wrt_filter)
  have le: "pos r \<le> high" if r: "r \<in> set R" for r
  proof (cases "c < pos r")
    case True
    then show ?thesis using sorted_last [OF sF, of r] r high False by simp
  next
    case less: False
    have "c < high" using F high False by simp
    then show ?thesis using less by simp
  qed
  have gt: "high < pos r \<and> c < pos r" if "r \<in> set D" for r
    using sorted that F high False by (force simp: sorted_wrt_append)
  have "filter (\<lambda>r. high < pos r) S = []"
    using seen le by (fastforce simp: filter_empty_conv not_less)
  moreover have "filter (\<lambda>r. high < pos r) D = D" "filter (\<lambda>r. c < pos r) D = D"
    using gt by (simp_all add: filter_id_conv)
  ultimately show ?thesis by simp
qed

lemma session_pages:
  assumes "int limit \<le> i64_max" and "0 < limit"
  shows "pages_of ScopeSession sid limit (\<lambda>t. no_faults t \<and> events_ok (env_db t) \<and> (\<exists>k. t = s\<lparr>env_store_ops := k\<rparr>))
    (\<lambda>c. replay_session_events sid c limit)"
  using assms replay_scope
  by (auto simp: pages_of_def replay_session_events_def store_call_def no_faults_def Let_def)

lemma rows_from_start: "events_ok db \<Longrightarrow> rows_after sc i None db = rows_after sc i (Some 0) db"
proof -
  assume "events_ok db"
  then have "seqs_from_one (scope_rows sc i db)" by (simp add: events_ok_def)
  then have "\<forall>r \<in> set (scope_rows sc i db). 0 < er_seq r"
    by (auto simp: in_set_conv_nth seqs_from_one_nth)
  then show ?thesis by (auto simp: rows_after_def intro!: filter_cong)
qed

text \<open>The replay of a session stream returns everything after the cursor, and the last number in it.\<close>

lemma session_replay_run:
  assumes ok: "events_ok (env_db s)" and nf: "no_faults s"
    and header: "parse_last_event_id_header to_str headers = Inr last_id"
    and c: "c = (case or_else (erq_after_seq query) last_id of None \<Rightarrow> 0 | Some n \<Rightarrow> n)"
  shows "\<exists>s'. replay_session_stream sid to_str headers query s =
      Some (Inr (if rows_after ScopeSession sid (Some c) (env_db s) = [] then c
                 else er_seq (last (rows_after ScopeSession sid (Some c) (env_db s))),
                 map decode (rows_after ScopeSession sid (Some c) (env_db s))), s') \<and> (\<exists>k. s' = s\<lparr>env_store_ops := k\<rparr>)"
proof -
  let ?limit = "stream_page_limit (erq_limit query)" and ?cursor = "or_else (erq_after_seq query) last_id"
  have limit: "int ?limit \<le> i64_max" "0 < ?limit" by (auto simp: stream_page_limit_def i64_max_def)
  have rows: "rows_after ScopeSession sid ?cursor (env_db s) = rows_after ScopeSession sid (Some c) (env_db s)"
    using rows_from_start [OF ok] c by (auto split: option.splits)
  have "\<exists>k. s = s\<lparr>env_store_ops := k\<rparr>" by (rule exI [of _ "env_store_ops s"]) simp
  with replay_pages_all [OF session_pages [where s = s and sid = sid, OF limit] limit(2) ok, of ?cursor "[]"] ok nf rows
  show ?thesis
    by (auto simp: replay_session_stream_def stream_replay_def header or_else_def c Let_def split: option.splits)
qed

lemma live_events:
  "List.map_filter (live_session_event enc sid high) (map Inr es) =
     List.map_filter (sse_of enc ev_seq) (filter (\<lambda>e. ev_session_id e = Some sid \<and> high < ev_seq e) es)"
  by (induction es) (auto simp: List.map_filter_simps live_session_event_def split: option.splits)

text \<open>C21: A session stream misses nothing and repeats nothing. A client subscribes, the missed events are
  replayed page by page, and the stream goes on with what the channel delivers; sessions and teams
  are busy in between and afterwards, other services log too. If no store call of the replay fails,
  the replay returns, and at any later time the stream has sent exactly the events of the session after
  the client's cursor, each once, in the order of their numbers, as far as they can be encoded. Assumed
  are a receiver that does not lag and event identifiers that are not used twice.\<close>

theorem session_stream_complete:
  assumes opened: "open_session_stream sid s = (Inr n, s0)" and log: "events_ok (env_db s0)"
    and handlers: "feed_step\<^sup>*\<^sup>* s0 s1" and store: "no_faults s1"
    and header: "parse_last_event_id_header to_str headers = Inr last_id"
    and c: "c = (case or_else (erq_after_seq query) last_id of None \<Rightarrow> 0 | Some k \<Rightarrow> k)"
  shows "\<exists>high events s1'. replay_session_stream sid to_str headers query s1 = Some (Inr (high, events), s1') \<and>
    (\<forall>s2. feed_step\<^sup>*\<^sup>* s1' s2 \<longrightarrow> fresh_events s0 (drop n (mg_event_tx s2)) \<longrightarrow>
       session_stream enc sid events high (map Inr (drop n (mg_event_tx s2))) =
       List.map_filter (sse_of enc ev_seq)
         (map decode (filter (\<lambda>r. c < er_seq r) (scope_rows ScopeSession sid (env_db s2)))))"
proof -
  let ?rows = "\<lambda>s. scope_rows ScopeSession sid (env_db s)"
  have n: "n = length (mg_event_tx s0)"
    using opened by (auto simp: open_session_stream_def bindE_def gets_def split: prod.splits sum.splits)
  have p1: "published s0 s1" using feed_steps_publish [OF handlers published_refl [OF log]] .
  then have ok1: "events_ok (env_db s1)" by (simp add: published_def)
  let ?F = "rows_after ScopeSession sid (Some c) (env_db s1)"
  let ?high = "if ?F = [] then c else er_seq (last ?F)"
  obtain s1' where run: "replay_session_stream sid to_str headers query s1 = Some (Inr (?high, map decode ?F), s1')"
    and same: "lview s1' = lview s1"
    using session_replay_run [OF ok1 store header c, of sid] by (auto simp: lview_def)
  have "session_stream enc sid (map decode ?F) ?high (map Inr (drop n (mg_event_tx s2))) =
      List.map_filter (sse_of enc ev_seq) (map decode (filter (\<lambda>r. c < er_seq r) (?rows s2)))"
    if steps: "feed_step\<^sup>*\<^sup>* s1' s2" and fresh: "fresh_events s0 (drop n (mg_event_tx s2))" for s2
  proof -
    have "published s0 s2" using feed_steps_publish [OF steps published_view [OF p1 same]] .
    then obtain rs where ok2: "events_ok (env_db s2)" and log2: "db_events (env_db s2) = db_events (env_db s0) @ rs"
      and es: "drop n (mg_event_tx s2) = map decode (filter announced rs)"
      and ids: "\<forall>r \<in> set rs. announced r \<longrightarrow> er_session_id r = Some (er_scope_id r)"
      using fresh n by (auto simp: published_def)
    obtain rs1 where log1: "db_events (env_db s1) = db_events (env_db s0) @ rs1" using p1 by (auto simp: published_def)
    have "published s1' s1'" using ok1 same published_view [OF p1 same] by (simp add: published_def published_refl)
    from feed_steps_publish [OF steps this] obtain rs2 where "db_events (env_db s2) = db_events (env_db s1) @ rs2"
      using same by (auto simp: published_def lview_def)
    then have rs: "rs = rs1 @ rs2" using log1 log2 by simp
    define mine :: "event_row list \<Rightarrow> event_row list" where "mine = filter (\<lambda>r. er_scope r = scope_as_str ScopeSession \<and> er_scope_id r = sid)"
    have r1: "?rows s1 = ?rows s0 @ mine rs1" and r2: "?rows s2 = ?rows s1 @ mine rs2"
      using log1 log2 rs by (simp_all add: scope_rows_def mine_def)
    have F: "?F = filter (\<lambda>r. c < er_seq r) (?rows s1)" by (simp add: rows_after_def)
    have sorted: "sorted_wrt (\<lambda>a b. er_seq a < er_seq b) (?rows s1 @ mine rs2)"
      using sorted_rows_after [OF ok2, of ScopeSession sid None] r2 by (simp add: rows_after_def)
    have "filter (\<lambda>e. ev_session_id e = Some sid \<and> high < ev_seq e) (map decode (filter announced rs)) =
        map decode (filter (\<lambda>r. high < er_seq r) (mine rs))" for high
      using ids by (auto simp: filter_map mine_def announced_def comp_def intro!: arg_cong [where f = "map decode"] filter_cong)
    then have live: "filter (\<lambda>e. ev_session_id e = Some sid \<and> ?high < ev_seq e) (drop n (mg_event_tx s2)) =
        map decode (filter (\<lambda>r. ?high < er_seq r) (mine rs1 @ mine rs2))"
      unfolding es rs by (simp add: mine_def)
    have "?F @ filter (\<lambda>r. ?high < er_seq r) (mine rs1 @ mine rs2) = filter (\<lambda>r. c < er_seq r) (?rows s2)"
      unfolding F r2 by (rule handoff [OF sorted]) (use r1 in auto)
    then show ?thesis
      unfolding session_stream_def live_events live
      by (metis map_append List.map_filter_def filter_append)
  qed
  then show ?thesis using run by blast
qed

text \<open>A subscriber of a session that was created before and is closed after the replay.\<close>

definition watched_comms :: "unit comms" where
  "watched_comms = (comms_empty sample_manager True 8 ''n'' 16)
     \<lparr>env_db := empty_db\<lparr>db_sessions := [sample_session],
        db_events := [new_event_row (sample_event\<lparr>ne_scope_id := ''s1'', ne_session_id := Some ''s1''\<rparr>) 1 1],
        db_event_rowid := 1\<rparr>\<rparr>"

lemma watched_log: "events_ok (env_db watched_comms)" "no_faults watched_comms"
proof -
  let ?e = "sample_event\<lparr>ne_scope_id := ''s1'', ne_session_id := Some ''s1''\<rparr>"
  have ok: "events_ok empty_db" using empty_db_ok by (simp add: db_ok_def)
  have "db_append_runtime_event ?e empty_db =
      Inr (decode (new_event_row ?e 1 1), empty_db\<lparr>db_events := [new_event_row ?e 1 1], db_event_rowid := 1\<rparr>)"
    using append_fresh [OF ok, of ?e] by (simp add: Let_def empty_db_def scope_rows_def i64_max_def)
  from append_event_ok [OF ok this] show "events_ok (env_db watched_comms)"
    using events_ok_cong [of "env_db watched_comms" "empty_db\<lparr>db_events := [new_event_row ?e 1 1], db_event_rowid := 1\<rparr>"]
    by (simp add: watched_comms_def comms_empty_def manager.extend_def)
  show "no_faults watched_comms"
    by (simp add: no_faults_def watched_comms_def comms_empty_def manager.extend_def sample_manager_def)
qed

lemma watched_close:
  "\<exists>e. mg_event_tx (snd (force_close_session ''s1'' None (s :: unit comms))) = [e] \<and> ev_scope e = ScopeSession \<and>
     ev_event_id e \<noteq> ''evt_1'' \<and>
     map er_seq (scope_rows ScopeSession ''s1'' (env_db (snd (force_close_session ''s1'' None s)))) = [1, 2]"
  if "mg_event_tx s = []" "env_db s = env_db watched_comms" "no_faults s" "mg_sessions s = [(''s1'', sample_session)]"
  using that
  by (simp add: force_close_session_def finalize_session_close_def get_session_def append_event_def allocate_id_def
        now_ms_def store_write_def store_call_def bindE_def gets_def modify_def ok_def ok_or_else_def put_session_def
        no_faults_def watched_comms_def comms_empty_def manager.extend_def sample_manager_def lview_def hget_def Let_def
        db_upsert_session_def db_append_runtime_event_def fetch_runtime_event_def next_seq_def scope_rows_def i64_max_def
        new_event_row_def sample_event_def runtime_event_from_row_def scope_roundtrip [of ScopeSession, simplified] criticality_roundtrip [of Critical, simplified])

theorem session_stream_complete_witness:
  "\<exists>high events s1'. replay_session_stream ''s1'' Some [] \<lparr>erq_after_seq = None, erq_limit = None\<rparr> watched_comms =
       Some (Inr (high, events), s1') \<and>
     length (session_stream (\<lambda>_. Some ''{}'') ''s1'' events high
       (map Inr (mg_event_tx (snd (force_close_session ''s1'' None s1'))))) = 2"
proof -
  let ?q = "\<lparr>erq_after_seq = None, erq_limit = None\<rparr>"
  have header: "parse_last_event_id_header Some [] = Inr None" by (simp add: parse_last_event_id_header_def)
  have opened: "open_session_stream ''s1'' watched_comms = (Inr 0, watched_comms)"
    by (simp add: open_session_stream_def served_def get_session_def bindE_def gets_def ok_or_else_def hget_def
        watched_comms_def comms_empty_def manager.extend_def sample_manager_def)
  have c: "(0 :: int) = (case or_else (erq_after_seq ?q) None of None \<Rightarrow> 0 | Some k \<Rightarrow> k)" by (simp add: or_else_def)
  from session_replay_run [OF watched_log header c]
  obtain k where run: "\<exists>r. replay_session_stream ''s1'' Some [] ?q watched_comms = Some (r, watched_comms\<lparr>env_store_ops := k\<rparr>)"
    by blast
  let ?s1 = "watched_comms\<lparr>env_store_ops := k\<rparr>" and ?s2 = "snd (force_close_session ''s1'' None (watched_comms\<lparr>env_store_ops := k\<rparr>))"
  have "mg_event_tx ?s1 = []" "env_db ?s1 = env_db watched_comms" "no_faults ?s1" "mg_sessions ?s1 = [(''s1'', sample_session)]"
    by (simp_all add: watched_comms_def comms_empty_def manager.extend_def sample_manager_def no_faults_def)
  from watched_close [OF this] obtain e where e: "mg_event_tx ?s2 = [e]" "ev_scope e = ScopeSession" "ev_event_id e \<noteq> ''evt_1''"
    and rows: "map er_seq (scope_rows ScopeSession ''s1'' (env_db ?s2)) = [1, 2]"
    by (elim exE conjE) (rule that)
  have "feed_step\<^sup>*\<^sup>* ?s1 ?s2"
    by (intro r_into_rtranclp feed_step.handler comms_step.manager manager_step.force_close)
  moreover have "fresh_events watched_comms (drop 0 (mg_event_tx ?s2))"
    using e by (simp add: fresh_events_def watched_comms_def comms_empty_def manager.extend_def sample_event_def new_event_row_def)
  moreover have "filter (\<lambda>r. 0 < er_seq r) (scope_rows ScopeSession ''s1'' (env_db ?s2)) = scope_rows ScopeSession ''s1'' (env_db ?s2)"
    using rows by (auto simp: filter_id_conv map_eq_Cons_conv)
  moreover have "length (scope_rows ScopeSession ''s1'' (env_db ?s2)) = 2"
    using arg_cong [OF rows, of length] by simp
  moreover obtain high events s1' where r: "replay_session_stream ''s1'' Some [] ?q watched_comms = Some (Inr (high, events), s1')"
    and all: "\<forall>s2. feed_step\<^sup>*\<^sup>* s1' s2 \<longrightarrow> fresh_events watched_comms (drop 0 (mg_event_tx s2)) \<longrightarrow>
       session_stream (\<lambda>_. Some ''{}'') ''s1'' events high (map Inr (drop 0 (mg_event_tx s2))) =
       List.map_filter (sse_of (\<lambda>_. Some ''{}'') ev_seq)
         (map decode (filter (\<lambda>r. 0 < er_seq r) (scope_rows ScopeSession ''s1'' (env_db s2))))"
    using session_stream_complete [OF opened watched_log(1) rtranclp.rtrancl_refl watched_log(2) header c, of "\<lambda>_. Some ''{}''"]
    by blast
  moreover have "s1' = ?s1" using r run by auto
  moreover have "length (List.map_filter (sse_of (\<lambda>_. Some ''{}'') ev_seq) es) = length es" for es
    by (induction es) (simp_all add: sse_of_def)
  ultimately have "length (session_stream (\<lambda>_. Some ''{}'') ''s1'' events high (map Inr (mg_event_tx ?s2))) = 2"
    by simp
  then show ?thesis using r \<open>s1' = ?s1\<close> by blast
qed

end
