(* ===== verification/Http_Handlers.thy ===== *)
theory Http_Handlers
  imports Http_Events
begin

text \<open>
  The HTTP handlers around the services (\<open>runtime-server/src/http\<close>: \<open>auth.rs\<close>, \<open>sessions.rs\<close>, \<open>processes.rs\<close>,
  \<open>worktrees.rs\<close>, \<open>mcp.rs\<close>, \<open>teams.rs\<close>): each takes the typed inputs axum extracts, calls one service, and maps its error.
  A path parameter is a string argument; an optional JSON body is an option.
\<close>

type_synonym ('p, 'z, 'a) api = "(('p, 'z) gateway_scheme, api_error, 'a) rt"

section \<open>Uploads\<close>

text \<open>\<open>Display\<close> of the error of \<open>String::from_utf8\<close>; \<open>i\<close> is the index of the first byte of the rest.\<close>

function utf8_error :: "nat \<Rightarrow> string \<Rightarrow> string option" where
  "utf8_error i [] = None"
| "utf8_error i (c # cs) =
     (case utf8_unit c cs of (good, n) \<Rightarrow>
        if good then utf8_error (i + n) (drop (n - 1) cs)
        else if 0xC2 \<le> (of_char c :: nat) \<and> (of_char c :: nat) \<le> 0xF4 \<and> n = Suc (length cs)
        then Some (''incomplete utf-8 byte sequence from index '' @ dec_of_nat i)
        else Some (''invalid utf-8 sequence of '' @ dec_of_nat n @ '' bytes from index '' @ dec_of_nat i))"
  by pat_completeness auto

termination by (relation "measure (\<lambda>(i, s). length s)") auto

lemma utf8_error_none: "utf8_error i s = None \<longleftrightarrow> utf8_valid s"
  by (induction i s rule: utf8_error.induct) (auto split: prod.splits)

section \<open>Health, providers and their authentication (auth.rs)\<close>

record health_response =
  hrs_status :: string
  hrs_providers :: nat
  hrs_public_base_url :: string

definition health :: "app_state \<Rightarrow> ('p, 'z) gateway_scheme \<Rightarrow> health_response" where
  "health app s =
     \<lparr>hrs_status = ''ok'', hrs_providers = length (mg_providers s), hrs_public_base_url = ast_public_base_url app\<rparr>"

definition protected_health :: "app_state \<Rightarrow> ('p, 'z) gateway_scheme \<Rightarrow> health_response" where
  "protected_health app s = health app s"

definition list_providers :: "('p, 'z) gateway_scheme \<Rightarrow> provider_metadata list" where
  "list_providers s = registry_metadata (mg_providers s)"

definition list_provider_models :: "string \<Rightarrow> ('p, 'z, string \<times> provider_model list) api" where
  "list_provider_models provider =
     bindE (lift_result (parse_provider_kind provider)) (\<lambda>kind.
     bindE (gets (\<lambda>s. hget (mg_providers s) kind)) (\<lambda>found.
     bindE (ok_or_else found (not_found (''provider '' @ kind_as_str kind))) (\<lambda>adapter.
     bindE (served (provider_call (pv_list_models adapter))) (\<lambda>models.
     ok (kind_as_str kind, models)))))"

definition provider_auth_status_response :: "provider_kind \<Rightarrow> ('p, 'z, provider_auth_status) api" where
  "provider_auth_status_response kind = served (Session_Manager.provider_auth_status kind)"

definition codex_auth_status :: "('p, 'z, provider_auth_status) api" where
  "codex_auth_status = provider_auth_status_response Codex"

definition acp_auth_status :: "('p, 'z, provider_auth_status) api" where
  "acp_auth_status = provider_auth_status_response Acp"

definition claude_auth_status :: "('p, 'z, provider_auth_status) api" where
  "claude_auth_status = provider_auth_status_response Claude"

definition claude_auth_api_key :: "string \<Rightarrow> ('p, 'z, provider_auth_status) api" where
  "claude_auth_api_key key = served (provider_auth_set_api_key Claude key)"

definition claude_auth_import_json :: "json option \<Rightarrow> string option \<Rightarrow> ('p, 'z, provider_auth_status) api" where
  "claude_auth_import_json auth_json auth_json_text =
     (case auth_json of
        Some j \<Rightarrow> served (provider_auth_import_json Claude j)
      | None \<Rightarrow>
          (case auth_json_text of
             Some txt \<Rightarrow> served (provider_auth_import_json_text Claude txt)
           | None \<Rightarrow> err (bad_request ''expected auth_json or auth_json_text'')))"

text \<open>
  What \<open>next_field\<close> of the multipart body gives: an error, or a field with its name and what reading its
  bytes gives.
\<close>

datatype upload_field = FieldError string | Field "string option" "string + string"

fun claude_auth_import_file :: "upload_field list \<Rightarrow> ('p, 'z, provider_auth_status) api" where
  "claude_auth_import_file [] = err (bad_request (''multipart field '' @ [CHR 0x27] @ ''file'' @ [CHR 0x27] @ '' is required''))"
| "claude_auth_import_file (FieldError e # rest) = err (bad_request (''invalid multipart payload: '' @ e))"
| "claude_auth_import_file (Field name content # rest) =
     (if name \<noteq> Some ''file'' then claude_auth_import_file rest
      else case content of
        Inl e \<Rightarrow> err (bad_request (''failed reading upload field: '' @ e))
      | Inr bytes \<Rightarrow>
          (case utf8_error 0 bytes of
             Some e \<Rightarrow> err (bad_request (''uploaded file is not utf-8: '' @ e))
           | None \<Rightarrow> served (provider_auth_import_json_text Claude bytes)))"

definition claude_auth_logout :: "('p, 'z, provider_auth_status) api" where
  "claude_auth_logout = served (provider_auth_logout Claude)"

section \<open>Sessions (sessions.rs)\<close>

definition create_session_handler :: "create_session_input \<Rightarrow> ('p, 'z, session_record) api" where
  "create_session_handler input = served (create_session input)"

definition list_sessions_handler :: "('p, 'z) gateway_scheme \<Rightarrow> session_record list" where
  "list_sessions_handler s = list_sessions s"

definition get_session_handler :: "string \<Rightarrow> ('p, 'z, session_record) api" where
  "get_session_handler sid = served (get_session sid)"

definition resume_session_handler :: "string \<Rightarrow> resume_session_input option \<Rightarrow> ('p, 'z, session_record) api" where
  "resume_session_handler sid input =
     served (resume_session sid
       (case input of Some i \<Rightarrow> i | None \<Rightarrow> \<lparr>rsi_provider_session_ref = None, rsi_canonical_ref = None\<rparr>))"

text \<open>The body of a close request is its optional reason.\<close>

definition close_session_handler :: "string \<Rightarrow> string option option \<Rightarrow> ('p, 'z, session_record) api" where
  "close_session_handler sid input = served (close_session sid (Option.bind input id))"

definition send_turn_handler :: "string \<Rightarrow> send_turn_input \<Rightarrow> ('p, 'z, send_turn_accepted) api" where
  "send_turn_handler sid input = served (send_turn sid input)"

definition interrupt_turn_handler :: "string \<Rightarrow> string \<Rightarrow> ('p, 'z, nat) api" where
  "interrupt_turn_handler sid tid = bindE (served (interrupt_turn sid tid)) (\<lambda>_. ok 202)"

definition respond_approval_handler ::
  "string \<Rightarrow> string \<Rightarrow> approval_response_input \<Rightarrow> ('p, 'z, approval_record) api" where
  "respond_approval_handler sid aid input = served (respond_approval sid aid input)"

section \<open>Processes (processes.rs)\<close>

record process_start_input =
  psi_command :: string
  psi_cwd :: "string option"
  psi_timeout_ms :: "64 word option"
  psi_session_id :: "string option"

text \<open>\<open>None\<close>: the request waits for a permit of the process manager.\<close>

definition start_process ::
  "process_start_input \<Rightarrow> ('p, 'z) gateway_scheme \<Rightarrow> ((api_error + process_details) \<times> ('p, 'z) gateway_scheme) option" where
  "start_process input s =
     map_option (\<lambda>(r, pm). (map_sum api_error_from id r, back_from_processes pm s))
       (run_process
          \<lparr>prr_caller = psi_session_id input, prr_tool_call_id = None, prr_command = psi_command input,
           prr_cwd = psi_cwd input, prr_timeout_ms = psi_timeout_ms input\<rparr>
          (with_env s (gw_processes s)))"

definition list_processes_handler :: "string option \<Rightarrow> bool option \<Rightarrow> ('p, 'z, process_summary list) api" where
  "list_processes_handler caller include_completed =
     served (on_processes (list_processes caller (case include_completed of None \<Rightarrow> True | Some b \<Rightarrow> b)))"

definition get_process_handler :: "string \<Rightarrow> string option \<Rightarrow> ('p, 'z, process_details) api" where
  "get_process_handler pid caller = served (on_processes (get_process pid caller))"

record process_logs_query =
  plq_session_id :: "string option"
  plq_stream :: "string option"
  plq_head_lines :: "nat option"
  plq_tail_lines :: "nat option"
  plq_max_bytes :: "nat option"

definition get_process_logs :: "string \<Rightarrow> process_logs_query \<Rightarrow> ('p, 'z, logs_chunk list) api" where
  "get_process_logs pid query =
     served (on_processes (read_process_logs
       \<lparr>lgr_process_id = pid, lgr_caller = plq_session_id query, lgr_stream = plq_stream query,
        lgr_head_lines = plq_head_lines query, lgr_tail_lines = plq_tail_lines query, lgr_max_bytes = plq_max_bytes query\<rparr>))"

record process_kill_input =
  pki_session_id :: "string option"
  pki_reason :: "string option"

definition kill_process_handler :: "string \<Rightarrow> process_kill_input option \<Rightarrow> ('p, 'z, process_details) api" where
  "kill_process_handler pid input =
     (let i = (case input of Some x \<Rightarrow> x | None \<Rightarrow> \<lparr>pki_session_id = None, pki_reason = None\<rparr>)
      in served (on_processes (kill_process pid (pki_session_id i) (pki_reason i))))"

section \<open>Worktrees (worktrees.rs)\<close>

definition create_worktree_handler :: "worktree_create_request \<Rightarrow> ('p, 'z, worktree_create_response) api" where
  "create_worktree_handler input = served (create_worktree input)"

definition list_worktrees_handler :: "('p, 'z, worktree_record list) api" where
  "list_worktrees_handler = served list_worktrees"

definition get_worktree_handler :: "string \<Rightarrow> ('p, 'z, worktree_record) api" where
  "get_worktree_handler wid = served (get_worktree wid)"

record worktree_claim_input =
  wci_session_id :: string
  wci_claim_role :: string

definition claim_worktree_handler :: "string \<Rightarrow> worktree_claim_input \<Rightarrow> ('p, 'z, worktree_claim_response) api" where
  "claim_worktree_handler wid input =
     served (claim_worktree
       \<lparr>wqr_worktree_id = wid, wqr_session_id = wci_session_id input, wqr_claim_role = wci_claim_role input\<rparr>)"

record worktree_release_input =
  wri_session_id :: string
  wri_cleanup_if_last_claim :: "bool option"

definition release_worktree_handler :: "string \<Rightarrow> worktree_release_input \<Rightarrow> ('p, 'z, worktree_release_response) api" where
  "release_worktree_handler wid input =
     served (release_worktree
       \<lparr>wrr_worktree_id = wid, wrr_session_id = wri_session_id input,
        wrr_cleanup_if_last_claim = wri_cleanup_if_last_claim input\<rparr>)"

definition cleanup_worktree_handler :: "string \<Rightarrow> string option option \<Rightarrow> ('p, 'z, worktree_cleanup_response) api" where
  "cleanup_worktree_handler wid input =
     served (cleanup_worktree \<lparr>wlr_worktree_id = wid, wlr_reason = Option.bind input id\<rparr>)"

section \<open>Tool calls (mcp.rs)\<close>

record mcp_invoke_request =
  mir_namespace :: "string option"
  mir_tool_name :: string
  mir_caller_agent_id :: string
  mir_invocation_id :: "string option"
  mir_args :: json

text \<open>The checks in front of the gateway; the result is the trimmed id of the caller's session.\<close>

definition mcp_admit :: "mcp_invoke_request \<Rightarrow> ('p, 'z, string) api" where
  "mcp_admit req =
     (let caller = trim (mir_caller_agent_id req) in
      if caller = [] then err (bad_request ''caller_agent_id is required'')
      else if trim (mir_tool_name req) = [] then err (bad_request ''tool_name is required'')
      else
        bindE (served (get_session caller)) (\<lambda>session.
        if sess_status session \<in> {''closed'', ''failed''}
        then err (bad_request (''caller session '' @ caller @ '' is not active (status='' @ sess_status session @ '')''))
        else ok caller))"

definition mcp_invoke ::
  "mcp_invoke_request \<Rightarrow> ('p, 'z) gateway_scheme \<Rightarrow> ((api_error + json) \<times> ('p, 'z) gateway_scheme) option" where
  "mcp_invoke req s =
     (case mcp_admit req s of
        (Inl e, s') \<Rightarrow> Some (Inl e, s')
      | (Inr caller, s') \<Rightarrow>
          map_option (map_prod (map_sum api_error_from id) id)
            (invoke_tool
               \<lparr>tir_namespace = mir_namespace req, tir_tool_name = mir_tool_name req, tir_caller = caller,
                tir_invocation_id = mir_invocation_id req, tir_args = mir_args req\<rparr> s'))"

definition mcp_capabilities :: "('p, 'z) gateway_scheme \<Rightarrow> json" where
  "mcp_capabilities s = capabilities s"

section \<open>Teams (teams.rs)\<close>

record team_create_input =
  tci_name :: string
  tci_lead_agent_id :: string
  tci_member_agent_ids :: "string list option"
  tci_created_by :: "string option"

definition create_team_handler :: "team_create_input \<Rightarrow> ('p, 'z, team_view) api" where
  "create_team_handler input =
     served (create_team
       \<lparr>tcr_name = tci_name input, tcr_lead = tci_lead_agent_id input,
        tcr_members = (case tci_member_agent_ids input of None \<Rightarrow> [] | Some ms \<Rightarrow> ms), tcr_created_by = tci_created_by input\<rparr>)"

definition list_teams_handler :: "('p, 'z, team_view list) api" where
  "list_teams_handler = served list_teams"

definition get_team_handler :: "string \<Rightarrow> ('p, 'z, team_view) api" where
  "get_team_handler team = served (get_team team)"

record team_join_input =
  tji_agent_id :: string
  tji_title :: "string option"
  tji_added_by :: "string option"
  tji_creator_agent_id :: "string option"
  tji_subscription :: "string option"
  tji_worktree_id :: "string option"

definition join_team_member :: "string \<Rightarrow> team_join_input \<Rightarrow> ('p, 'z, team_view) api" where
  "join_team_member team input =
     served (join_team
       \<lparr>tjr_team = team, tjr_agent = tji_agent_id input, tjr_title = tji_title input, tjr_added_by = tji_added_by input,
        tjr_creator_agent_id = tji_creator_agent_id input, tjr_subscription = tji_subscription input,
        tjr_worktree_id = tji_worktree_id input\<rparr>)"

record member_spawn_input =
  msi_source_session_id :: string
  msi_provider :: "string option"
  msi_model :: "string option"
  msi_title :: "string option"
  msi_prompt :: "string option"
  msi_permission_mode :: "string option"
  msi_metadata :: "json option"
  msi_worktree :: "spawn_worktree_input option"
  msi_creator_agent_id :: "string option"
  msi_subscription :: "string option"

definition spawn_team_member_handler :: "string \<Rightarrow> member_spawn_input \<Rightarrow> ('p, 'z, member_spawn_response) api" where
  "spawn_team_member_handler team input =
     served (spawn_team_member
       \<lparr>msr_team = team, msr_source_session = msi_source_session_id input, msr_provider = msi_provider input,
        msr_model = msi_model input, msr_title = msi_title input, msr_prompt = msi_prompt input,
        msr_permission_mode = msi_permission_mode input, msr_metadata = msi_metadata input,
        msr_worktree = msi_worktree input, msr_creator_agent_id = msi_creator_agent_id input,
        msr_subscription = msi_subscription input\<rparr>)"

text \<open>The member's worktrees are cleaned up afterwards, whatever comes of it.\<close>

definition remove_team_member_handler :: "string \<Rightarrow> string \<Rightarrow> ('p, 'z, team_view) api" where
  "remove_team_member_handler team agent =
     bindE (served (remove_team_member team agent)) (\<lambda>view.
     bindE (ignore (on_member_removed \<lparr>mrr_team = team, mrr_agent = agent, mrr_removed_by = None\<rparr>)) (\<lambda>_.
     ok view))"

definition set_team_lead_handler :: "string \<Rightarrow> string \<Rightarrow> ('p, 'z, team_view) api" where
  "set_team_lead_handler team lead = served (set_team_lead team lead)"

definition delete_team_handler :: "string \<Rightarrow> ('p, 'z, nat) api" where
  "delete_team_handler team = bindE (served (delete_team team)) (\<lambda>_. ok 204)"

record team_direct_input =
  tdi_sender_agent_id :: string
  tdi_recipient_agent_id :: string
  tdi_input :: json
  tdi_image_paths :: "string list option"
  tdi_priority :: "string option"
  tdi_policy :: "string option"
  tdi_correlation_id :: "string option"
  tdi_reply_to :: "string option"
  tdi_idempotency_key :: "string option"

definition send_team_direct :: "string \<Rightarrow> team_direct_input \<Rightarrow> ('p, 'z, team_message_ack) api" where
  "send_team_direct team input =
     served (send_direct
       \<lparr>sdr_team = team, sdr_sender = tdi_sender_agent_id input, sdr_recipient = tdi_recipient_agent_id input,
        sdr_input = tdi_input input, sdr_image_paths = (case tdi_image_paths input of None \<Rightarrow> [] | Some ps \<Rightarrow> ps),
        sdr_priority = (case tdi_priority input of None \<Rightarrow> ''normal'' | Some p \<Rightarrow> p),
        sdr_policy = (case tdi_policy input of None \<Rightarrow> ''non_interrupting'' | Some p \<Rightarrow> p),
        sdr_correlation_id = tdi_correlation_id input, sdr_reply_to = tdi_reply_to input,
        sdr_idempotency_key = tdi_idempotency_key input\<rparr>)"

record team_broadcast_input =
  tbi_sender_agent_id :: string
  tbi_input :: json
  tbi_image_paths :: "string list option"
  tbi_priority :: "string option"
  tbi_policy :: "string option"
  tbi_include_sender :: "bool option"
  tbi_correlation_id :: "string option"
  tbi_idempotency_key :: "string option"

definition send_team_broadcast :: "string \<Rightarrow> team_broadcast_input \<Rightarrow> ('p, 'z, team_message_ack) api" where
  "send_team_broadcast team input =
     served (broadcast
       \<lparr>bcr_team = team, bcr_sender = tbi_sender_agent_id input, bcr_input = tbi_input input,
        bcr_image_paths = (case tbi_image_paths input of None \<Rightarrow> [] | Some ps \<Rightarrow> ps),
        bcr_priority = (case tbi_priority input of None \<Rightarrow> ''normal'' | Some p \<Rightarrow> p),
        bcr_policy = (case tbi_policy input of None \<Rightarrow> ''non_interrupting'' | Some p \<Rightarrow> p),
        bcr_include_sender = (case tbi_include_sender input of None \<Rightarrow> False | Some b \<Rightarrow> b),
        bcr_correlation_id = tbi_correlation_id input, bcr_idempotency_key = tbi_idempotency_key input\<rparr>)"

definition list_team_messages :: "string \<Rightarrow> string option \<Rightarrow> nat option \<Rightarrow> ('p, 'z, list_messages_response) api" where
  "list_team_messages team cursor limit = served (list_messages team cursor limit)"

definition list_team_deliveries ::
  "string \<Rightarrow> string option \<Rightarrow> string option \<Rightarrow> ('p, 'z, team_delivery_record list) api" where
  "list_team_deliveries team message recipient = served (get_deliveries team message recipient)"

definition retry_team_delivery :: "string \<Rightarrow> string \<Rightarrow> ('p, 'z, team_delivery_record) api" where
  "retry_team_delivery team delivery = served (retry_delivery team delivery)"

definition cancel_team_message :: "string \<Rightarrow> string \<Rightarrow> ('p, 'z, team_delivery_record list) api" where
  "cancel_team_message team message = served (cancel_message team message)"

record team_snapshot_query =
  tsq_message_cursor :: "string option"
  tsq_message_limit :: "nat option"
  tsq_include_delivery_map :: "bool option"
  tsq_recipient_filter :: "string option"

definition get_team_view_snapshot :: "string \<Rightarrow> team_snapshot_query \<Rightarrow> ('p, 'z, view_snapshot) api" where
  "get_team_view_snapshot team query =
     served (get_view_snapshot
       \<lparr>vsr_team = team, vsr_cursor = tsq_message_cursor query, vsr_limit = tsq_message_limit query,
        vsr_include_delivery_map = tsq_include_delivery_map query, vsr_recipient_filter = tsq_recipient_filter query\<rparr>)"

definition interrupt_all_team_turns_handler :: "string \<Rightarrow> ('p, 'z, interrupt_all_response) api" where
  "interrupt_all_team_turns_handler team = served (interrupt_all_team_turns team)"

end
