(* ===== verification/Http_Diagnostics.thy ===== *)
theory Http_Diagnostics
  imports Http_Handlers
begin

text \<open>
  The diagnostics endpoints (\<open>runtime-server/src/http/diagnostics.rs\<close>): counts over the stored state, the health of
  the providers, and the anomalies a recovery should not leave behind. A \<open>BTreeMap\<close> is an association
  list sorted by key.
\<close>

section \<open>Responses\<close>

record provider_diagnostic_entry =
  pde_provider :: string
  pde_healthy :: bool
  pde_health_error :: "string option"
  pde_auth_status :: "provider_auth_status option"
  pde_auth_error :: "string option"

record comms_diagnostics =
  cdg_team_count :: nat
  cdg_member_count :: nat
  cdg_message_count :: nat
  cdg_delivery_total :: nat
  cdg_delivery_status_counts :: "(string \<times> nat) list"

record process_diagnostics =
  pdg_process_total :: nat
  pdg_process_status_counts :: "(string \<times> nat) list"

record worktree_diagnostics =
  wdg_worktree_total :: nat
  wdg_active_claim_total :: nat
  wdg_orphaned_claim_total :: nat
  wdg_deletion_policy_counts :: "(string \<times> nat) list"

record recovery_diagnostics =
  rdg_startup :: recovery_summary
  rdg_active_anomalies :: "string list"

record runtime_diagnostics =
  rtd_providers :: "provider_diagnostic_entry list"
  rtd_comms :: comms_diagnostics
  rtd_processes :: process_diagnostics
  rtd_worktrees :: worktree_diagnostics
  rtd_recovery :: recovery_diagnostics

section \<open>Providers\<close>

definition provider_diagnostic ::
  "provider_metadata \<Rightarrow> provider_diagnostic_entry list \<Rightarrow> (('p, 'z) manager_scheme, 'e, provider_diagnostic_entry list) rt" where
  "provider_diagnostic md rows =
     bindE (gets (\<lambda>s. hget (mg_providers s) (pm_kind md))) (\<lambda>adapter.
     case adapter of
       Some p \<Rightarrow>
         bindE (attempt (provider_call (pv_healthcheck p))) (\<lambda>health.
         bindE (attempt (Session_Manager.provider_auth_status (pm_kind md))) (\<lambda>auth.
         ok (rows @ [\<lparr>pde_provider = kind_as_str (pm_kind md), pde_healthy = (\<not> isl health),
           pde_health_error = (case health of Inl e \<Rightarrow> Some (error_to_string e) | Inr _ \<Rightarrow> None),
           pde_auth_status = (case auth of Inl e \<Rightarrow> None | Inr st \<Rightarrow> Some st),
           pde_auth_error = (case auth of Inl e \<Rightarrow> Some (error_to_string e) | Inr _ \<Rightarrow> None)\<rparr>])))
     | None \<Rightarrow>
         ok (rows @ [\<lparr>pde_provider = kind_as_str (pm_kind md), pde_healthy = False,
           pde_health_error = Some ''provider not registered'', pde_auth_status = None,
           pde_auth_error = Some ''provider not registered''\<rparr>]))"

definition provider_diagnostics_internal ::
  "(('p, 'z) manager_scheme, 'e, provider_diagnostic_entry list) rt" where
  "provider_diagnostics_internal =
     bindE (gets (\<lambda>s. registry_metadata (mg_providers s))) (\<lambda>metadata. for_fold metadata [] provider_diagnostic)"

section \<open>Anomalies\<close>

text \<open>\<open>turn_by_id\<close>: the last row of an id wins in a collected map.\<close>

definition turn_by_id :: "hydrated_state \<Rightarrow> string \<Rightarrow> turn_record option" where
  "turn_by_id h tid = find (\<lambda>t. turn_id t = tid) (rev (hyd_turns h))"

definition session_anomalies :: "hydrated_state \<Rightarrow> session_record \<Rightarrow> string list" where
  "session_anomalies h session =
     (case sess_active_turn_id session of
        None \<Rightarrow> []
      | Some active \<Rightarrow>
          (case turn_by_id h active of
             None \<Rightarrow> [''session '' @ sess_id session @ '' references missing active turn '' @ active]
           | Some turn \<Rightarrow>
               if turn_session_id turn \<noteq> sess_id session
               then [''session '' @ sess_id session @ '' active turn '' @ active @ '' belongs to '' @ turn_session_id turn]
               else if is_terminal_turn_status (turn_status turn)
               then [''session '' @ sess_id session @ '' retains terminal active turn '' @ active @ '' ('' @ turn_status turn @ '')'']
               else []))"

definition approval_anomalies :: "hydrated_state \<Rightarrow> approval_record \<Rightarrow> string list" where
  "approval_anomalies h approval =
     (if appr_status approval \<noteq> ''pending'' then []
      else case turn_by_id h (appr_turn_id approval) of
        None \<Rightarrow> [''pending approval '' @ appr_id approval @ '' references missing turn '' @ appr_turn_id approval]
      | Some turn \<Rightarrow>
          if is_terminal_turn_status (turn_status turn)
          then [''pending approval '' @ appr_id approval @ '' references terminal turn '' @ turn_id turn @ '' ('' @ turn_status turn @ '')'']
          else [])"

definition claim_anomalies :: "hydrated_state \<Rightarrow> worktree_claim_record \<Rightarrow> string list" where
  "claim_anomalies h claim =
     (if claim_released_at claim = None \<and> claim_session_id claim \<notin> set (map sess_id (hyd_sessions h))
      then [''active worktree claim '' @ claim_worktree_id claim @ '' -> '' @ claim_session_id claim @ '' references missing session'']
      else [])"

definition process_anomalies :: "process_record \<Rightarrow> string list" where
  "process_anomalies p =
     (if proc_status p \<in> {''queued'', ''running''}
      then [''process '' @ proc_id p @ '' remained '' @ proc_status p @ '' across restart''] else [])"

definition collect_recovery_anomalies :: "hydrated_state \<Rightarrow> string list" where
  "collect_recovery_anomalies h =
     concat (map (session_anomalies h) (hyd_sessions h)) @ concat (map (approval_anomalies h) (hyd_approvals h)) @
     concat (map (claim_anomalies h) (hyd_claims h)) @ concat (map process_anomalies (hyd_processes h))"

section \<open>Counts\<close>

definition status_counts :: "string list \<Rightarrow> (string \<times> nat) list" where
  "status_counts xs = map (\<lambda>k. (k, count_list xs k)) (sort (remdups xs))"

definition orphaned_claim :: "hydrated_state \<Rightarrow> worktree_claim_record \<Rightarrow> bool" where
  "orphaned_claim h claim \<longleftrightarrow>
     claim_released_at claim = None \<and>
     (claim_session_id claim \<notin> set (map sess_id (hyd_sessions h)) \<or>
      claim_worktree_id claim \<notin> set (map wt_id (hyd_worktrees h)))"

definition diagnostics_from_hydrated_state ::
  "app_state \<Rightarrow> ('z runtime_env_scheme, api_error,
     comms_diagnostics \<times> process_diagnostics \<times> worktree_diagnostics \<times> recovery_diagnostics) rt" where
  "diagnostics_from_hydrated_state app =
     bindE (served hydrate) (\<lambda>h.
     ok (\<lparr>cdg_team_count = length (hyd_teams h), cdg_member_count = length (hyd_members h),
          cdg_message_count = length (hyd_messages h), cdg_delivery_total = length (hyd_deliveries h),
          cdg_delivery_status_counts = status_counts (map dlv_status (hyd_deliveries h))\<rparr>,
         \<lparr>pdg_process_total = length (hyd_processes h),
          pdg_process_status_counts = status_counts (map proc_status (hyd_processes h))\<rparr>,
         \<lparr>wdg_worktree_total = length (hyd_worktrees h),
          wdg_active_claim_total = length (filter (\<lambda>c. claim_released_at c = None) (hyd_claims h)),
          wdg_orphaned_claim_total = length (filter (orphaned_claim h) (hyd_claims h)),
          wdg_deletion_policy_counts = status_counts (map wt_deletion_policy (hyd_worktrees h))\<rparr>,
         \<lparr>rdg_startup = ast_startup_recovery app, rdg_active_anomalies = collect_recovery_anomalies h\<rparr>))"

definition runtime_diagnostics_handler :: "app_state \<Rightarrow> (('p, 'z) manager_scheme, api_error, runtime_diagnostics) rt" where
  "runtime_diagnostics_handler app =
     bindE provider_diagnostics_internal (\<lambda>providers.
     bindE (diagnostics_from_hydrated_state app) (\<lambda>(comms, processes, worktrees, recovery).
     ok \<lparr>rtd_providers = providers, rtd_comms = comms, rtd_processes = processes, rtd_worktrees = worktrees,
         rtd_recovery = recovery\<rparr>))"

definition comms_diagnostics_handler :: "app_state \<Rightarrow> ('z runtime_env_scheme, api_error, comms_diagnostics) rt" where
  "comms_diagnostics_handler app = bindE (diagnostics_from_hydrated_state app) (\<lambda>(comms, _, _, _). ok comms)"

definition process_diagnostics_handler :: "app_state \<Rightarrow> ('z runtime_env_scheme, api_error, process_diagnostics) rt" where
  "process_diagnostics_handler app = bindE (diagnostics_from_hydrated_state app) (\<lambda>(_, processes, _, _). ok processes)"

definition worktree_diagnostics_handler :: "app_state \<Rightarrow> ('z runtime_env_scheme, api_error, worktree_diagnostics) rt" where
  "worktree_diagnostics_handler app = bindE (diagnostics_from_hydrated_state app) (\<lambda>(_, _, worktrees, _). ok worktrees)"

definition recovery_diagnostics_handler :: "app_state \<Rightarrow> ('z runtime_env_scheme, api_error, recovery_diagnostics) rt" where
  "recovery_diagnostics_handler app = bindE (diagnostics_from_hydrated_state app) (\<lambda>(_, _, _, recovery). ok recovery)"

definition list_team_operation_diagnostics ::
  "string option \<Rightarrow> string option \<Rightarrow> ('z runtime_env_scheme, api_error, diagnostic_record list) rt" where
  "list_team_operation_diagnostics team operation =
     served (store_call (\<lambda>db. Inr (db_list_diagnostics team operation db, db)))"

end
