(* ===== verification/Http_Router.thy ===== *)
theory Http_Router
  imports Http_Diagnostics
begin

text \<open>
  The routes of the server (\<open>build_router\<close> of \<open>runtime-server/src/http/mod.rs\<close>). A request is the route axum
  matched with the typed inputs it extracted; a route answers with a status and a body. Everything
  under \<open>/v1\<close> lies behind the bearer guard. The OpenAPI document and the version are constants. A stream
  answers with the phase its handler runs; the live part follows the channel afterwards.
\<close>

datatype system_route =
    Health | OpenApiYaml | Version | Providers | ProviderModels string | CodexAuthStatus | AcpAuthStatus | ClaudeAuthStatus
  | ClaudeAuthApiKey string | ClaudeAuthImportJson "json option" "string option" | ClaudeAuthImportFile "upload_field list"
  | ClaudeAuthLogout | Events event_replay_query | EventsStream event_replay_query

datatype session_route =
    CreateSession create_session_input | ListSessions | GetSession string | ResumeSession string "resume_session_input option"
  | CloseSession string "string option option" | SendTurn string send_turn_input | InterruptTurn string string
  | RespondApproval string string approval_response_input | SessionEvents string event_replay_query
  | SessionEventsStream string event_replay_query

datatype process_route =
    StartProcess process_start_input | ListProcesses "string option" "bool option" | GetProcess string "string option"
  | ProcessLogs string process_logs_query | ProcessEvents string process_events_query
  | ProcessEventsStream string process_events_query | KillProcess string "process_kill_input option"

datatype worktree_route =
    CreateWorktree worktree_create_request | ListWorktrees | GetWorktree string | ClaimWorktree string worktree_claim_input
  | ReleaseWorktree string worktree_release_input | CleanupWorktree string "string option option"

datatype diagnostics_route =
    Diagnostics | ProviderDiagnostics | CommsDiagnostics | ProcessDiagnostics | WorktreeDiagnostics | RecoveryDiagnostics
  | TeamOperationDiagnostics "string option" "string option"

datatype team_route =
    CreateTeam team_create_input | ListTeams | GetTeam string | DeleteTeam string | JoinTeam string team_join_input
  | SpawnMember string member_spawn_input | RemoveMember string string | SetLead string string
  | SendDirect string team_direct_input | ListMessages string "string option" "nat option"
  | SendBroadcast string team_broadcast_input | ListDeliveries string "string option" "string option"
  | RetryDelivery string string | CancelMessage string string | TeamView string team_snapshot_query
  | TeamEvents string event_replay_query | TeamEventsStream string event_replay_query | InterruptAll string

datatype mcp_route = McpCapabilities | McpInvoke mcp_invoke_request

datatype api_route =
    System system_route | Sessions session_route | Processes process_route | Worktrees worktree_route
  | Diagnosing diagnostics_route | Teams team_route | Mcp mcp_route

datatype session_body =
    BSession session_record | BSessions "session_record list" | BAccepted send_turn_accepted | BApproval approval_record

datatype process_body = BProcess process_details | BProcesses "process_summary list" | BLogs "logs_chunk list"

datatype worktree_body =
    BWorktreeCreated worktree_create_response | BWorktrees "worktree_record list" | BWorktree worktree_record
  | BClaim worktree_claim_response | BRelease worktree_release_response | BCleanup worktree_cleanup_response

datatype diagnostics_body =
    BDiagnostics runtime_diagnostics | BProviderDiagnostics "provider_diagnostic_entry list" | BCommsDiagnostics comms_diagnostics
  | BProcessDiagnostics process_diagnostics | BWorktreeDiagnostics worktree_diagnostics
  | BRecoveryDiagnostics recovery_diagnostics | BOperations "diagnostic_record list"

datatype team_body =
    BTeam team_view | BTeams "team_view list" | BSpawned member_spawn_response | BAck team_message_ack
  | BMessages list_messages_response | BDeliveries "team_delivery_record list" | BDelivery team_delivery_record
  | BSnapshot view_snapshot | BInterrupted interrupt_all_response

datatype api_body =
    NoBody | BJson json | BOpenApi | BVersion | BHealth health_response | BProviders "provider_metadata list"
  | BModels string "provider_model list" | BAuthStatus provider_auth_status | BEvents "event_record list"
  | BStream int "event_record list" | BSessionData session_body | BProcessData process_body | BWorktreeData worktree_body
  | BDiagnosticData diagnostics_body | BTeamData team_body

type_synonym ('p, 'z) answer = "((nat \<times> api_body) \<times> ('p, 'z) gateway_scheme) option"

text \<open>\<open>Ok(Json(..))\<close>, \<open>Ok(StatusCode)\<close>, and an \<open>ApiError\<close> as a response.\<close>

definition error_answer :: "api_error \<Rightarrow> nat \<times> api_body" where
  "error_answer e = (aer_status e, BJson (api_error_json e))"

definition reply :: "('a \<Rightarrow> api_body) \<Rightarrow> ('p, 'z, 'a) api \<Rightarrow> ('p, 'z) gateway_scheme \<Rightarrow> ('p, 'z) answer" where
  "reply body m s =
     (case m s of (Inl e, s') \<Rightarrow> Some (error_answer e, s') | (Inr x, s') \<Rightarrow> Some ((200, body x), s'))"

definition reply_status :: "('p, 'z, nat) api \<Rightarrow> ('p, 'z) gateway_scheme \<Rightarrow> ('p, 'z) answer" where
  "reply_status m s =
     (case m s of (Inl e, s') \<Rightarrow> Some (error_answer e, s') | (Inr st, s') \<Rightarrow> Some ((st, NoBody), s'))"

definition reply_waiting ::
  "('a \<Rightarrow> api_body) \<Rightarrow> (('p, 'z) gateway_scheme \<Rightarrow> ((api_error + 'a) \<times> ('p, 'z) gateway_scheme) option) \<Rightarrow>
   ('p, 'z) gateway_scheme \<Rightarrow> ('p, 'z) answer" where
  "reply_waiting body m s =
     (case m s of
        None \<Rightarrow> None
      | Some (Inl e, s') \<Rightarrow> Some (error_answer e, s')
      | Some (Inr x, s') \<Rightarrow> Some ((200, body x), s'))"

text \<open>The handlers that only read.\<close>

definition reading :: "(('p, 'z) gateway_scheme \<Rightarrow> api_body) \<Rightarrow> ('p, 'z) gateway_scheme \<Rightarrow> ('p, 'z) answer" where
  "reading body s = Some ((200, body s), s)"

text \<open>A stream of the process manager, on the environment of the gateway.\<close>

definition process_stream ::
  "string \<Rightarrow> (string \<Rightarrow> string option) \<Rightarrow> header_map \<Rightarrow> process_events_query \<Rightarrow> ('p, 'z) gateway_scheme \<Rightarrow>
   ((api_error + (int \<times> event_record list)) \<times> ('p, 'z) gateway_scheme) option" where
  "process_stream pid to_str headers query s =
     map_option (\<lambda>(r, pm). (r, back_from_processes pm s))
       (replay_process_stream pid to_str headers query (with_env s (gw_processes s)))"

definition session_event_stream ::
  "string \<Rightarrow> (string \<Rightarrow> string option) \<Rightarrow> header_map \<Rightarrow> event_replay_query \<Rightarrow> ('p, 'z) gateway_scheme \<Rightarrow>
   ((api_error + (int \<times> event_record list)) \<times> ('p, 'z) gateway_scheme) option" where
  "session_event_stream sid to_str headers query s =
     (case open_session_stream sid s of
        (Inl e, s') \<Rightarrow> Some (Inl e, s')
      | (Inr _, s') \<Rightarrow> replay_session_stream sid to_str headers query s')"

section \<open>Routes\<close>

primrec handle_system ::
  "app_state \<Rightarrow> (string \<Rightarrow> string option) \<Rightarrow> header_map \<Rightarrow> system_route \<Rightarrow> ('p, 'z) gateway_scheme \<Rightarrow> ('p, 'z) answer" where
  "handle_system app to_str hs Health = reading (\<lambda>s. BHealth (protected_health app s))"
| "handle_system app to_str hs OpenApiYaml = reading (\<lambda>_. BOpenApi)"
| "handle_system app to_str hs Version = reading (\<lambda>_. BVersion)"
| "handle_system app to_str hs Providers = reading (\<lambda>s. BProviders (list_providers s))"
| "handle_system app to_str hs (ProviderModels p) = reply (\<lambda>(k, ms). BModels k ms) (list_provider_models p)"
| "handle_system app to_str hs CodexAuthStatus = reply BAuthStatus codex_auth_status"
| "handle_system app to_str hs AcpAuthStatus = reply BAuthStatus acp_auth_status"
| "handle_system app to_str hs ClaudeAuthStatus = reply BAuthStatus claude_auth_status"
| "handle_system app to_str hs (ClaudeAuthApiKey k) = reply BAuthStatus (claude_auth_api_key k)"
| "handle_system app to_str hs (ClaudeAuthImportJson j t) = reply BAuthStatus (claude_auth_import_json j t)"
| "handle_system app to_str hs (ClaudeAuthImportFile fs) = reply BAuthStatus (claude_auth_import_file fs)"
| "handle_system app to_str hs ClaudeAuthLogout = reply BAuthStatus claude_auth_logout"
| "handle_system app to_str hs (Events q) = reply BEvents (replay_global_events q)"
| "handle_system app to_str hs (EventsStream q) = reply_waiting (\<lambda>(w, es). BStream w es) (replay_global_stream to_str hs q)"

primrec handle_session ::
  "app_state \<Rightarrow> (string \<Rightarrow> string option) \<Rightarrow> header_map \<Rightarrow> session_route \<Rightarrow> ('p, 'z) gateway_scheme \<Rightarrow> ('p, 'z) answer" where
  "handle_session app to_str hs (CreateSession i) = reply (BSessionData \<circ> BSession) (create_session_handler i)"
| "handle_session app to_str hs ListSessions = reading (\<lambda>s. BSessionData (BSessions (list_sessions_handler s)))"
| "handle_session app to_str hs (GetSession sid) = reply (BSessionData \<circ> BSession) (get_session_handler sid)"
| "handle_session app to_str hs (ResumeSession sid i) = reply (BSessionData \<circ> BSession) (resume_session_handler sid i)"
| "handle_session app to_str hs (CloseSession sid i) = reply (BSessionData \<circ> BSession) (close_session_handler sid i)"
| "handle_session app to_str hs (SendTurn sid i) = reply (BSessionData \<circ> BAccepted) (send_turn_handler sid i)"
| "handle_session app to_str hs (InterruptTurn sid tid) = reply_status (interrupt_turn_handler sid tid)"
| "handle_session app to_str hs (RespondApproval sid aid i) = reply (BSessionData \<circ> BApproval) (respond_approval_handler sid aid i)"
| "handle_session app to_str hs (SessionEvents sid q) = reply BEvents (replay_session_events_handler sid q)"
| "handle_session app to_str hs (SessionEventsStream sid q) = reply_waiting (\<lambda>(w, es). BStream w es) (session_event_stream sid to_str hs q)"

primrec handle_process ::
  "app_state \<Rightarrow> (string \<Rightarrow> string option) \<Rightarrow> header_map \<Rightarrow> process_route \<Rightarrow> ('p, 'z) gateway_scheme \<Rightarrow> ('p, 'z) answer" where
  "handle_process app to_str hs (StartProcess i) = reply_waiting (BProcessData \<circ> BProcess) (start_process i)"
| "handle_process app to_str hs (ListProcesses c b) = reply (BProcessData \<circ> BProcesses) (list_processes_handler c b)"
| "handle_process app to_str hs (GetProcess pid c) = reply (BProcessData \<circ> BProcess) (get_process_handler pid c)"
| "handle_process app to_str hs (ProcessLogs pid q) = reply (BProcessData \<circ> BLogs) (get_process_logs pid q)"
| "handle_process app to_str hs (ProcessEvents pid q) = reply BEvents (on_processes (replay_process_events_handler pid q))"
| "handle_process app to_str hs (ProcessEventsStream pid q) = reply_waiting (\<lambda>(w, es). BStream w es) (process_stream pid to_str hs q)"
| "handle_process app to_str hs (KillProcess pid i) = reply (BProcessData \<circ> BProcess) (kill_process_handler pid i)"

primrec handle_worktree ::
  "app_state \<Rightarrow> (string \<Rightarrow> string option) \<Rightarrow> header_map \<Rightarrow> worktree_route \<Rightarrow> ('p, 'z) gateway_scheme \<Rightarrow> ('p, 'z) answer" where
  "handle_worktree app to_str hs (CreateWorktree i) = reply (BWorktreeData \<circ> BWorktreeCreated) (create_worktree_handler i)"
| "handle_worktree app to_str hs ListWorktrees = reply (BWorktreeData \<circ> BWorktrees) list_worktrees_handler"
| "handle_worktree app to_str hs (GetWorktree w) = reply (BWorktreeData \<circ> BWorktree) (get_worktree_handler w)"
| "handle_worktree app to_str hs (ClaimWorktree w i) = reply (BWorktreeData \<circ> BClaim) (claim_worktree_handler w i)"
| "handle_worktree app to_str hs (ReleaseWorktree w i) = reply (BWorktreeData \<circ> BRelease) (release_worktree_handler w i)"
| "handle_worktree app to_str hs (CleanupWorktree w i) = reply (BWorktreeData \<circ> BCleanup) (cleanup_worktree_handler w i)"

primrec handle_diagnostics ::
  "app_state \<Rightarrow> (string \<Rightarrow> string option) \<Rightarrow> header_map \<Rightarrow> diagnostics_route \<Rightarrow> ('p, 'z) gateway_scheme \<Rightarrow> ('p, 'z) answer" where
  "handle_diagnostics app to_str hs Diagnostics = reply (BDiagnosticData \<circ> BDiagnostics) (runtime_diagnostics_handler app)"
| "handle_diagnostics app to_str hs ProviderDiagnostics = reply (BDiagnosticData \<circ> BProviderDiagnostics) provider_diagnostics_internal"
| "handle_diagnostics app to_str hs CommsDiagnostics = reply (BDiagnosticData \<circ> BCommsDiagnostics) (comms_diagnostics_handler app)"
| "handle_diagnostics app to_str hs ProcessDiagnostics = reply (BDiagnosticData \<circ> BProcessDiagnostics) (process_diagnostics_handler app)"
| "handle_diagnostics app to_str hs WorktreeDiagnostics = reply (BDiagnosticData \<circ> BWorktreeDiagnostics) (worktree_diagnostics_handler app)"
| "handle_diagnostics app to_str hs RecoveryDiagnostics = reply (BDiagnosticData \<circ> BRecoveryDiagnostics) (recovery_diagnostics_handler app)"
| "handle_diagnostics app to_str hs (TeamOperationDiagnostics t o') = reply (BDiagnosticData \<circ> BOperations) (list_team_operation_diagnostics t o')"

primrec handle_team ::
  "app_state \<Rightarrow> (string \<Rightarrow> string option) \<Rightarrow> header_map \<Rightarrow> team_route \<Rightarrow> ('p, 'z) gateway_scheme \<Rightarrow> ('p, 'z) answer" where
  "handle_team app to_str hs (CreateTeam i) = reply (BTeamData \<circ> BTeam) (create_team_handler i)"
| "handle_team app to_str hs ListTeams = reply (BTeamData \<circ> BTeams) list_teams_handler"
| "handle_team app to_str hs (GetTeam t) = reply (BTeamData \<circ> BTeam) (get_team_handler t)"
| "handle_team app to_str hs (DeleteTeam t) = reply_status (delete_team_handler t)"
| "handle_team app to_str hs (JoinTeam t i) = reply (BTeamData \<circ> BTeam) (join_team_member t i)"
| "handle_team app to_str hs (SpawnMember t i) = reply (BTeamData \<circ> BSpawned) (spawn_team_member_handler t i)"
| "handle_team app to_str hs (RemoveMember t a) = reply (BTeamData \<circ> BTeam) (remove_team_member_handler t a)"
| "handle_team app to_str hs (SetLead t a) = reply (BTeamData \<circ> BTeam) (set_team_lead_handler t a)"
| "handle_team app to_str hs (SendDirect t i) = reply (BTeamData \<circ> BAck) (send_team_direct t i)"
| "handle_team app to_str hs (ListMessages t c l) = reply (BTeamData \<circ> BMessages) (list_team_messages t c l)"
| "handle_team app to_str hs (SendBroadcast t i) = reply (BTeamData \<circ> BAck) (send_team_broadcast t i)"
| "handle_team app to_str hs (ListDeliveries t m r) = reply (BTeamData \<circ> BDeliveries) (list_team_deliveries t m r)"
| "handle_team app to_str hs (RetryDelivery t d) = reply (BTeamData \<circ> BDelivery) (retry_team_delivery t d)"
| "handle_team app to_str hs (CancelMessage t m) = reply (BTeamData \<circ> BDeliveries) (cancel_team_message t m)"
| "handle_team app to_str hs (TeamView t q) = reply (BTeamData \<circ> BSnapshot) (get_team_view_snapshot t q)"
| "handle_team app to_str hs (TeamEvents t q) = reply BEvents (replay_team_events_handler t q)"
| "handle_team app to_str hs (TeamEventsStream t q) = reply_waiting (\<lambda>(w, es). BStream w es) (replay_team_stream t to_str hs q)"
| "handle_team app to_str hs (InterruptAll t) = reply (BTeamData \<circ> BInterrupted) (interrupt_all_team_turns_handler t)"

primrec handle_mcp ::
  "app_state \<Rightarrow> (string \<Rightarrow> string option) \<Rightarrow> header_map \<Rightarrow> mcp_route \<Rightarrow> ('p, 'z) gateway_scheme \<Rightarrow> ('p, 'z) answer" where
  "handle_mcp app to_str hs McpCapabilities = reading (\<lambda>s. BJson (mcp_capabilities s))"
| "handle_mcp app to_str hs (McpInvoke req) = reply_waiting BJson (mcp_invoke req)"

primrec handle ::
  "app_state \<Rightarrow> (string \<Rightarrow> string option) \<Rightarrow> header_map \<Rightarrow> api_route \<Rightarrow> ('p, 'z) gateway_scheme \<Rightarrow> ('p, 'z) answer" where
  "handle app to_str hs (System r) = handle_system app to_str hs r"
| "handle app to_str hs (Sessions r) = handle_session app to_str hs r"
| "handle app to_str hs (Processes r) = handle_process app to_str hs r"
| "handle app to_str hs (Worktrees r) = handle_worktree app to_str hs r"
| "handle app to_str hs (Diagnosing r) = handle_diagnostics app to_str hs r"
| "handle app to_str hs (Teams r) = handle_team app to_str hs r"
| "handle app to_str hs (Mcp r) = handle_mcp app to_str hs r"

text \<open>The public routes are \<open>/health\<close> and \<open>/openapi.yaml\<close>; all others are nested under \<open>/v1\<close>.\<close>

datatype api_path = PublicHealth | PublicOpenApi | V1 api_route

definition serve ::
  "app_state \<Rightarrow> (string \<Rightarrow> string option) \<Rightarrow> header_map \<Rightarrow> api_path \<Rightarrow> ('p, 'z) gateway_scheme \<Rightarrow> ('p, 'z) answer" where
  "serve app to_str headers path =
     (case path of
        PublicHealth \<Rightarrow> reading (\<lambda>s. BHealth (health app s))
      | PublicOpenApi \<Rightarrow> reading (\<lambda>_. BOpenApi)
      | V1 route \<Rightarrow>
          bearer_auth to_str (\<lambda>(status, j). (status, BJson j)) (ast_bearer_token app) headers
            (handle app to_str headers route))"

end
