(* ===== verification/Gateway_Frame.thy ===== *)
theory Gateway_Frame
  imports Gateway Spawn_Frame
begin

text \<open>
  What a tool call changes of the teams. All services but joining and removing keep the teams; a spawn
  and a removal change no team but the one they are called for, and no part of the gateway.
\<close>

section \<open>Other services\<close>

lemma preserves_runtime [preserves_intros]: "preserves I m \<Longrightarrow> preserves I (of_runtime m)"
  unfolding of_runtime_def by (auto intro!: preserves_intros split: sum.splits)

lemma preserves_optional [preserves_intros]:
  "(\<And>y. preserves I (call y)) \<Longrightarrow> preserves I (optional_of x call)"
  unfolding optional_of_def by (auto intro!: preserves_intros split: option.splits)

lemma roster_reading [preserves_intros]:
  "preserves (\<lambda>s. rview s = v) (get_team i)" "preserves (\<lambda>s. rview s = v) (list_messages i c n)"
  "preserves (\<lambda>s. rview s = v) (get_worktree w)" "preserves (\<lambda>s. rview s = v) (list_session_turns sid)"
  unfolding get_team_def list_messages_def get_worktree_def list_session_turns_def Let_def
  by (auto intro!: preserves_intros split: option.splits)

lemma roster_broadcast [preserves_intros]: "preserves (\<lambda>s. rview s = v) (broadcast breq)"
  unfolding broadcast_def create_message_and_deliveries_def create_under_lock_def resolve_recipient_def
    allocate_delivery_def deliver_created_def queue_and_attempt_delivery_def Let_def
  by (auto intro!: preserves_intros split: option.splits)

lemma roster_member_removed [preserves_intros]: "preserves (\<lambda>s. rview s = v) (on_member_removed mreq)"
  unfolding on_member_removed_def release_on_removal_def removal_diagnostic_def Let_def
  by (auto intro!: preserves_intros split: sum.splits)

section \<open>A spawn and a removal concern one team\<close>

definition sview :: "string \<Rightarrow> ('p, 'z) worktrees_scheme \<Rightarrow>
    team_record option \<times> (string, team_member_record) hmap option \<times> 'z" where
  "sview k s = (hget (tc_teams s) k, hget (tc_members s) k, worktrees.more s)"

lemma sview_kept:
  fixes m :: "(('p, 'z) worktrees_scheme, 'e, 'a) rt"
  assumes "\<And>v. preserves (\<lambda>s. rview s = v) m"
  shows "preserves (\<lambda>s. sview k s = v) m"
proof (rule preservesI)
  fix s :: "('p, 'z) worktrees_scheme"
  assume "sview k s = v"
  with keepsD [OF assms, of s] show "sview k (snd (m s)) = v" by (simp add: sview_def rview_def)
qed

lemma sview_modify:
  "team \<noteq> k \<Longrightarrow> preserves (\<lambda>s. sview k s = v) (modify (\<lambda>s. s\<lparr>tc_members := hentry [] team f (tc_members s)\<rparr>))"
  "team \<noteq> k \<Longrightarrow> preserves (\<lambda>s. sview k s = v) (modify (\<lambda>s. s\<lparr>tc_members := hinsert team ms (tc_members s)\<rparr>))"
  "team \<noteq> k \<Longrightarrow> preserves (\<lambda>s. sview k s = v) (modify (\<lambda>s. s\<lparr>tc_teams := hinsert team t (tc_teams s)\<rparr>))"
  "team \<noteq> k \<Longrightarrow> preserves (\<lambda>s. sview k s = v)
     (modify (\<lambda>s. s\<lparr>tc_members := hinsert team ms (tc_members s), tc_teams := hinsert team t (tc_teams s)\<rparr>))"
  by (rule preserves_modify, simp add: sview_def)+

lemma sview_basic:
  "preserves (\<lambda>s. sview k s = v) now_ms" "preserves (\<lambda>s. sview k s = v) (store_write w)"
  "preserves (\<lambda>s. sview k s = v) ensure_enabled" "preserves (\<lambda>s. sview k s = v) (require_session_active i)"
  "preserves (\<lambda>s. sview k s = v) (append_team_event team kind payload ses)"
  "preserves (\<lambda>s. sview k s = v) (team_with_members i)"
  by (rule sview_kept, intro preserves_intros)+

lemma sview_lock:
  "team \<noteq> k \<Longrightarrow> preserves (\<lambda>s. sview k s = v) (join_under_lock req team agent now)"
  "team \<noteq> k \<Longrightarrow> preserves (\<lambda>s. sview k s = v) (remove_under_lock team agent)"
  unfolding join_under_lock_def remove_under_lock_def Let_def
  by (auto intro!: preserves_intros sview_modify sview_basic)

lemma normalized: "lift_result (normalize_non_empty x what) s = (Inr y, s') \<Longrightarrow> y = trim x"
  by (auto simp: lift_result_def normalize_non_empty_def Let_def split: if_splits)

lemma preserves_bind_trim:
  assumes "preserves I (f (trim x))"
  shows "preserves I (bindE (lift_result (normalize_non_empty x what)) f)"
  using assms by (auto simp: preserves_def bindE_def lift_result_def normalize_non_empty_def Let_def)

lemma sview_membership:
  "trim (tjr_team jreq) \<noteq> k \<Longrightarrow> preserves (\<lambda>s. sview k s = v) (join_team jreq)"
  "trim team \<noteq> k \<Longrightarrow> preserves (\<lambda>s. sview k s = v) (remove_team_member team agent)"
  unfolding join_team_def remove_team_member_def
  by (auto intro!: preserves_bind_trim preserves_intros sview_basic sview_lock split: prod.splits)

lemma roster_before_join [preserves_intros]:
  "preserves (\<lambda>s. rview s = v) (spawn_session req team op source a provider)"
  "preserves (\<lambda>s. rview s = v) (attach_worktree team op sid a)"
  unfolding spawn_session_def attach_worktree_def Let_def
  by (auto intro!: preserves_intros split: sum.splits option.splits)

lemma sview_rollback:
  assumes "trim team \<noteq> k"
  shows "preserves (\<lambda>s. sview k s = v) (rollback_spawn_after_join team op sid assigned created reason message payload)"
proof -
  have parts: "preserves (\<lambda>s. sview k s = v) (rollback_session team op sid reason)"
    "preserves (\<lambda>s. sview k s = v) (cleanup_if_created created r)" "preserves (\<lambda>s. sview k s = v) (release_worktree rr)"
    "preserves (\<lambda>s. sview k s = v) (append_diagnostic o1 t1 c1 m1 p1)" "preserves (\<lambda>s. sview k s = v) (record_journal o1' t1' c1' p1)"
    "preserves (\<lambda>s. sview k s = v) (rollback_diagnostic o2 t2 i2 c2 e2)"
    for r rr o1 t1 c1 m1 p1 o1' t1' c1' o2 t2 i2 c2 e2
    by (rule sview_kept, intro preserves_intros)+
  show ?thesis
    unfolding rollback_spawn_after_join_def rollback_membership_def
    by (auto intro!: preserves_intros parts sview_membership assms split: sum.splits option.splits)
qed

lemma sview_spawn:
  assumes "trim (msr_team req) \<noteq> k"
  shows "preserves (\<lambda>s. sview k s = v) (spawn_team_member req)"
proof -
  have parts: "preserves (\<lambda>s. sview k s = v) (close_session sid r)" "preserves (\<lambda>s. sview k s = v) (cleanup_if_created c r')"
    "preserves (\<lambda>s. sview k s = v) (record_journal o1 t1 c1 p1)" "preserves (\<lambda>s. sview k s = v) (claim_worktree qr)"
    "preserves (\<lambda>s. sview k s = v) (send_direct dreq)" "preserves (\<lambda>s. sview k s = v) ensure_worktrees_enabled"
    "preserves (\<lambda>s. sview k s = v) allocate_operation_id" "preserves (\<lambda>s. sview k s = v) (get_session i)"
    "preserves (\<lambda>s. sview k s = v) (assign_worktree q1 q2 q3 q4 q5)" "preserves (\<lambda>s. sview k s = v) (spawn_session q1 q2 q3 q4 a provider)"
    "preserves (\<lambda>s. sview k s = v) (attach_worktree q2 q3 i a)"
    for sid r c r' o1 t1 c1 p1 qr dreq i q1 q2 q3 q4 q5 a provider
    by (rule sview_kept, intro preserves_intros)+
  have "preserves (\<lambda>s. sview k s = v) (spawn_join req (trim (msr_team req)) op source sid a)"
    "preserves (\<lambda>s. sview k s = v) (spawn_finish req (trim (msr_team req)) op source session a joined)" for op source sid a session joined
    unfolding spawn_join_def spawn_finish_def spawn_claim_def spawn_onboard_def Let_def using assms
    by (auto intro!: preserves_intros parts sview_membership sview_rollback split: sum.splits option.splits)
  then show ?thesis
    unfolding spawn_team_member_def Let_def by (intro preserves_intros parts)
qed

end
