(* ===== verification/Gateway_Theorems.thy ===== *)
theory Gateway_Theorems
  imports Gateway_Frame Team_Properties
begin

text \<open>
  The properties of the tool gateway: who may change a team through a tool call, and that a repeated
  call to add a member is answered from the cache.
\<close>

section \<open>Views\<close>

definition team_at :: "string \<Rightarrow> ('p, 'z) gateway_scheme \<Rightarrow> team_record option \<times> (string, team_member_record) hmap option" where
  "team_at k s = (hget (tc_teams s) k, hget (tc_members s) k)"

definition gview :: "('p, 'z) gateway_scheme \<Rightarrow> bool \<times> (string, team_record) hmap \<times>
    (string, (string, team_member_record) hmap) hmap \<times> team_policy" where
  "gview s = (tc_enabled s, tc_teams s, tc_members s, gw_policy s)"

lemma more_gateway:
  fixes s s' :: "('p, 'z) gateway_scheme"
  assumes "worktrees.more s' = worktrees.more s"
  shows "gw_policy s' = gw_policy s" and "gw_add_cache s' = gw_add_cache s"
    and "gw_instant s' = gw_instant s" and "gw_instant_reads s' = gw_instant_reads s"
  using assms by (cases s; cases s'; simp)+

lemma gview_kept:
  fixes m :: "(('p, 'z) gateway_scheme, 'e, 'a) rt"
  assumes "\<And>v. preserves (\<lambda>s. rview s = v) m"
  shows "preserves (\<lambda>s. gview s = v) m"
proof (rule preservesI)
  fix s :: "('p, 'z) gateway_scheme"
  assume "gview s = v"
  with keepsD [OF assms, of s] show "gview (snd (m s)) = v"
    using more_gateway(1) [of "snd (m s)" s] by (simp add: gview_def rview_def)
qed

lemma gview_parts [preserves_intros]:
  "preserves (\<lambda>s. gview s = v) (get_team i)" "preserves (\<lambda>s. gview s = v) (list_messages i c n)"
  "preserves (\<lambda>s. gview s = v) (get_worktree w)" "preserves (\<lambda>s. gview s = v) (list_session_turns sid)"
  "preserves (\<lambda>s. gview s = v) (get_session sid)" "preserves (\<lambda>s. gview s = v) (broadcast breq)"
  "preserves (\<lambda>s. gview s = v) (send_direct dreq)" "preserves (\<lambda>s. gview s = v) now_ms"
  by (rule gview_kept, intro preserves_intros)+

lemma gview_tools [preserves_intros]:
  "preserves (\<lambda>s. gview s = v) (invoke_team_status caller args)"
  "preserves (\<lambda>s. gview s = v) (invoke_team_message caller iv args)"
  unfolding invoke_team_status_def invoke_team_message_def status_member_row_def context_window_remaining_percentage_def
    ensure_team_message_images_supported_def send_team_message_def Let_def
  by (auto intro!: preserves_intros split: sum.splits)

lemma gview_cache [preserves_intros]:
  "preserves (\<lambda>s. gview s = v) (begin_manage_add key)" "preserves (\<lambda>s. gview s = v) (complete_manage_add key x)"
  "preserves (\<lambda>s. gview s = v) (abort_manage_add key)"
  by (auto simp: preserves_def begin_manage_add_def complete_manage_add_def abort_manage_add_def instant_now_def modify_def
      monad_simps bindE_def ok_def err_def gview_def gets_def split: option.splits)

section \<open>Authority\<close>

definition may_manage :: "('p, 'z) gateway_scheme \<Rightarrow> string \<Rightarrow> string \<Rightarrow> bool \<Rightarrow> bool" where
  "may_manage s k caller allow \<longleftrightarrow> (\<exists>t ms. hget (tc_teams s) k = Some t \<and> hget (tc_members s) k = Some ms \<and>
     caller \<in> mem_agent_id ` set (hvalues ms) \<and> (team_lead t = caller \<or> allow))"

lemma denied:
  assumes "trim k = k" and "k \<noteq> []" and "\<not> may_manage s k caller allow"
  shows "\<exists>e. ensure_caller_can_manage_membership k caller allow action s = (Inl e, s)"
  using assms
  by (auto simp: ensure_caller_can_manage_membership_def of_runtime_def get_team_def ensure_enabled_def team_with_members_def
      normalize_non_empty_def ensure_team_member_def may_manage_def monad_simps ok_def err_def lift_result_def ok_or_else_def
      split: option.splits) (metis imageI)+

lemma required_trimmed: "required_string_arg args field = Inr x \<Longrightarrow> trim x = x \<and> x \<noteq> []"
  by (auto simp: required_string_arg_def non_empty_trimmed_def Let_def split: option.splits if_splits)

lemma manage_elsewhere:
  assumes "trim tid \<noteq> k"
  shows "preserves (\<lambda>s. sview k s = v) (invoke_team_manage_add caller tid args)"
    and "preserves (\<lambda>s. sview k s = v) (invoke_team_manage_remove caller tid agents)"
proof -
  have parts: "preserves (\<lambda>s. sview k s = v) (get_team i)" "preserves (\<lambda>s. sview k s = v) (get_session i)"
    "preserves (\<lambda>s. sview k s = v) (on_member_removed mreq)" for i mreq
    by (rule sview_kept, intro preserves_intros)+
  show "preserves (\<lambda>s. sview k s = v) (invoke_team_manage_add caller tid args)"
    unfolding invoke_team_manage_add_def ensure_caller_can_manage_membership_def ensure_manage_add_images_supported_def Let_def
    using assms by (auto intro!: preserves_intros parts sview_spawn simp: manage_add_request_def split: option.splits)
  show "preserves (\<lambda>s. sview k s = v) (invoke_team_manage_remove caller tid agents)"
    unfolding invoke_team_manage_remove_def ensure_caller_can_manage_membership_def manage_remove_one_def Let_def
    by (auto intro!: preserves_intros parts sview_membership assms split: sum.splits)
qed

lemma add_safe:
  assumes "trim tid = tid" and "tid \<noteq> []" and "tid = k \<Longrightarrow> \<not> may_manage s k caller (tp_non_lead_can_add_members (gw_policy s))"
  shows "team_at k (snd (invoke_team_manage_add caller tid args s)) = team_at k s"
proof (cases "tid = k")
  case True
  then obtain e where "ensure_caller_can_manage_membership tid caller (tp_non_lead_can_add_members (gw_policy s))
      ''add members to'' s = (Inl e, s)" using denied assms by blast
  then show ?thesis by (simp add: invoke_team_manage_add_def bindE_gets bindE_def [of "ensure_caller_can_manage_membership _ _ _ _"])
next
  case False
  then have "trim tid \<noteq> k" using assms(1) by simp
  from keepsD [OF manage_elsewhere(1) [OF this]] have "sview k (snd (invoke_team_manage_add caller tid args s)) = sview k s" .
  then show ?thesis by (simp add: sview_def team_at_def)
qed

lemma remove_safe:
  assumes "trim tid = tid" and "tid \<noteq> []" and "tid = k \<Longrightarrow> \<not> may_manage s k caller (tp_non_lead_can_remove_members (gw_policy s))"
  shows "team_at k (snd (invoke_team_manage_remove caller tid agents s)) = team_at k s"
proof (cases "tid = k")
  case True
  then obtain e where "ensure_caller_can_manage_membership tid caller (tp_non_lead_can_remove_members (gw_policy s))
      ''remove members from'' s = (Inl e, s)" using denied assms by blast
  then show ?thesis by (simp add: invoke_team_manage_remove_def bindE_gets bindE_def [of "ensure_caller_can_manage_membership _ _ _ _"])
next
  case False
  then have "trim tid \<noteq> k" using assms(1) by simp
  from keepsD [OF manage_elsewhere(2) [OF this]] have "sview k (snd (invoke_team_manage_remove caller tid agents s)) = sview k s" .
  then show ?thesis by (simp add: sview_def team_at_def)
qed

lemma team_at_gview: "gview s' = gview s \<Longrightarrow> team_at k s' = team_at k s"
  by (simp add: gview_def team_at_def)

lemma may_manage_gview: "gview s' = gview s \<Longrightarrow> may_manage s' k caller allow = may_manage s k caller allow"
  by (simp add: gview_def may_manage_def)

lemma add_once_safe:
  assumes "trim tid = tid" and "tid \<noteq> []" and "tid = k \<Longrightarrow> \<not> may_manage s k caller (tp_non_lead_can_add_members (gw_policy s))"
  shows "team_at k (snd (manage_add_once caller i tid args s)) = team_at k s"
proof -
  let ?key = "add_cache_key caller i"
  obtain r s1 where start: "begin_manage_add ?key s = (r, s1)" by fastforce
  have s1: "gview s1 = gview s" using keepsD [OF gview_cache(1), of ?key s] start by simp
  obtain r2 s2 where add: "invoke_team_manage_add caller tid args s1 = (r2, s2)" by fastforce
  have s2: "team_at k s2 = team_at k s1"
    using add_safe [OF assms(1,2), of k s1 caller args] assms(3) may_manage_gview [OF s1] s1 add
    by (simp add: gview_def)
  have "team_at k (snd (bindE (complete_manage_add ?key x) (\<lambda>_. ok x) s2)) = team_at k s2"
      "team_at k (snd (bindE (abort_manage_add ?key) (\<lambda>_. err e) s2)) = team_at k s2" for x e
    by (rule team_at_gview, rule keepsD, intro preserves_intros)+
  then show ?thesis
    using s2 team_at_gview [OF s1, of k]
    by (cases r2) (auto simp: manage_add_once_def Let_def bindE_def [of "begin_manage_add _"] start bindE_attempt add ok_def
        split: sum.splits option.splits)
qed

lemma manage_safe:
  assumes "\<And>args' tid. required_string_arg args ''team_id'' = Inr tid \<Longrightarrow> tid = k \<Longrightarrow>
    \<not> may_manage s k caller (if contains_key args ''remove_agent_ids'' then tp_non_lead_can_remove_members (gw_policy s)
      else tp_non_lead_can_add_members (gw_policy s))"
  shows "team_at k (snd (invoke_team_manage caller iv args s)) = team_at k s"
proof (cases "required_string_arg args ''team_id''")
  case (Inl e)
  then show ?thesis by (auto simp: invoke_team_manage_def monad_simps split: sum.splits)
next
  case (Inr tid)
  then have "trim tid = tid" "tid \<noteq> []" using required_trimmed by auto
  then show ?thesis
    using assms [OF Inr] Inr add_safe [of tid k s caller args] remove_safe [of tid k s caller] add_once_safe [of tid k s caller]
    by (auto simp: invoke_team_manage_def monad_simps err_def split: sum.splits option.splits if_splits)
qed

lemma team_tool_safe:
  assumes "team_at k (snd (invoke_team_tool req s)) \<noteq> team_at k s"
  shows "tp_enabled (gw_policy s)" and "trim (tir_tool_name req) = ''gg_team_manage''"
    and "\<exists>args. tir_args req = JObject args \<and> required_string_arg args ''team_id'' = Inr k \<and>
      may_manage s k (tir_caller req) (if contains_key args ''remove_agent_ids''
        then tp_non_lead_can_remove_members (gw_policy s) else tp_non_lead_can_add_members (gw_policy s))"
proof -
  show "tp_enabled (gw_policy s)" using assms by (auto simp: invoke_team_tool_def split: if_splits)
  obtain args where args: "tir_args req = JObject args"
    using assms by (auto simp: invoke_team_tool_def Let_def split: if_splits json.splits)
  have quiet: "team_at k (snd (invoke_team_status caller args s)) = team_at k s"
    "team_at k (snd (invoke_team_message caller iv args s)) = team_at k s" for caller iv
    by (rule team_at_gview, rule keepsD, intro preserves_intros)+
  show manage: "trim (tir_tool_name req) = ''gg_team_manage''"
    using assms quiet args
    by (auto simp: invoke_team_tool_def Let_def err_def split: if_splits prod.splits sum.splits) (metis snd_conv)+
  have "team_at k (snd (invoke_team_manage (tir_caller req) (tir_invocation_id req) args s)) \<noteq> team_at k s"
    using assms args manage by (auto simp: invoke_team_tool_def split: if_splits prod.splits sum.splits)
  then have "required_string_arg args ''team_id'' = Inr k \<and>
      may_manage s k (tir_caller req) (if contains_key args ''remove_agent_ids''
        then tp_non_lead_can_remove_members (gw_policy s) else tp_non_lead_can_add_members (gw_policy s))"
    by (rule contrapos_np) (rule manage_safe, auto)
  with args show "\<exists>args. tir_args req = JObject args \<and> required_string_arg args ''team_id'' = Inr k \<and>
      may_manage s k (tir_caller req) (if contains_key args ''remove_agent_ids''
        then tp_non_lead_can_remove_members (gw_policy s) else tp_non_lead_can_add_members (gw_policy s))"
    by blast
qed

text \<open>C19: Only the entitled change a team. If a tool call, by any caller with any arguments, changes the record
  or the members of a team, then it was a \<open>gg_team_manage\<close> call for that very team with the team tools
  switched on, its caller was a member of the team, and the caller was the lead of the team or
  the policy lets other members do this kind of change (adding, or removing when
  \<open>remove_agent_ids\<close> is given).\<close>

theorem team_changes_are_entitled:
  assumes "invoke_tool req s = Some (r, s')"
    and "hget (tc_teams s') k \<noteq> hget (tc_teams s) k \<or> hget (tc_members s') k \<noteq> hget (tc_members s) k"
  shows "trim (tir_tool_name req) = ''gg_team_manage'' \<and> tp_enabled (gw_policy s) \<and>
    (\<exists>args t ms m. tir_args req = JObject args \<and> required_string_arg args ''team_id'' = Inr k \<and>
       hget (tc_teams s) k = Some t \<and> hget (tc_members s) k = Some ms \<and>
       m \<in> set (hvalues ms) \<and> mem_agent_id m = tir_caller req \<and>
       (team_lead t = tir_caller req \<or>
        (if contains_key args ''remove_agent_ids'' then tp_non_lead_can_remove_members (gw_policy s)
         else tp_non_lead_can_add_members (gw_policy s))))"
proof -
  have changed: "team_at k s' \<noteq> team_at k s" using assms(2) by (auto simp: team_at_def)
  have "team_at k s' = team_at k s" if "starts_with (tir_tool_name req) ''gg_process_''"
    using assms(1) that
    by (auto simp: invoke_tool_def invoke_process_tool_def on_processes_def back_from_processes_def with_env_def team_at_def Let_def
        split: if_splits json.splits prod.splits)
  then have "s' = snd (invoke_team_tool req s)"
    using assms(1) changed by (cases "invoke_team_tool req s") (auto simp: invoke_tool_def split: if_splits)
  with changed have "team_at k (snd (invoke_team_tool req s)) \<noteq> team_at k s" by simp
  from team_tool_safe [OF this] show ?thesis unfolding may_manage_def by (fastforce simp: image_iff)
qed

definition gate_state :: "unit gateway" where
  "gate_state = gateway_new (worktrees_empty sample_comms \<lparr>wc_enabled = False, wc_root_dir = ''w'', wc_init_script_path = [],
       wc_deletion_policy_default = ''retain_on_last_claim''\<rparr> ''n'' (\<lambda>_ _. Inl []) (\<lambda>_ _. False) (\<lambda>_ _. None))
     (pm_empty sample_manager \<lparr>pc_enabled = True, pc_max_concurrent = 1, pc_default_timeout_ms = 9, pc_max_output_bytes = 9,
       pc_allow_shell = True, pc_retention_ms = 0, pc_sample_bytes = 9, pc_log_dir = ''l''\<rparr> [] (\<lambda>_ _ _. Inr None))
     True default_team_policy [] (\<lambda>n. n)"

definition gate_request :: tool_request where
  "gate_request = \<lparr>tir_namespace = None, tir_tool_name = ''gg_team_manage'', tir_caller = ''a'', tir_invocation_id = None,
     tir_args = JObject [(''remove_agent_ids'', JArray [JString ''s1'']), (''team_id'', JString ''t'')]\<rparr>"

lemma gate_removes:
  "case invoke_tool gate_request gate_state of None \<Rightarrow> False
   | Some (r, s') \<Rightarrow> map_option length (hget (tc_members s') ''t'') = Some 1"
  by code_simp

theorem team_changes_are_entitled_witness:
  "\<exists>r s'. invoke_tool gate_request gate_state = Some (r, s') \<and> map_option length (hget (tc_members s') ''t'') = Some 1 \<and>
     (\<exists>t. hget (tc_teams gate_state) ''t'' = Some t \<and> team_lead t = tir_caller gate_request)"
proof -
  obtain r s' where run: "invoke_tool gate_request gate_state = Some (r, s')" "map_option length (hget (tc_members s') ''t'') = Some 1"
    using gate_removes by (auto split: option.splits prod.splits)
  have "map_option length (hget (tc_members gate_state) ''t'') = Some 2"
    "gw_policy gate_state = default_team_policy"
    by (simp_all add: gate_state_def gateway_new_def worktrees_empty_def worktrees.extend_def comms.extend_def sample_comms_eval)
  moreover from this run have "hget (tc_members s') ''t'' \<noteq> hget (tc_members gate_state) ''t''" by auto
  ultimately show ?thesis
    using run team_changes_are_entitled [OF run(1), of "''t''"] by (auto simp: default_team_policy_def split: if_splits)
qed

section \<open>The cache of add calls\<close>

lemma add_keeps_gateway: "worktrees.more (snd (invoke_team_manage_add caller tid args s)) = worktrees.more s"
proof -
  have "trim tid \<noteq> CHR ''x'' # trim tid" by simp
  from keepsD [OF manage_elsewhere(1) [OF this], of caller args s] show ?thesis by (simp add: sview_def)
qed

lemma begin_cases:
  assumes "begin_manage_add key s = (Inr x, s')"
  shows "\<exists>e. hget (gw_add_cache s') key = Some e \<and> ae_completed_success e = x"
  using assms
  by (auto simp: begin_manage_add_def instant_now_def bindE_eq_Inr gets_def modify_def ok_def err_def split: option.splits)

lemma begin_hit:
  assumes "hget (gw_add_cache s) key = Some e" and "ae_completed_success e = Some v"
    and "gw_instant s (gw_instant_reads s) - ae_inserted_at e \<le> add_cache_ttl"
  shows "\<exists>c n. begin_manage_add key s = (Inr (Some v), s\<lparr>gw_instant_reads := n, gw_add_cache := c\<rparr>)"
proof -
  let ?now = "gw_instant s (gw_instant_reads s)"
  have "hget (filter (\<lambda>(_, e). ?now - ae_inserted_at e \<le> add_cache_ttl) (gw_add_cache s)) key = Some e"
    using assms map_of_filter_in [of "gw_add_cache s" key e "\<lambda>_ e. ?now - ae_inserted_at e \<le> add_cache_ttl"]
    by (simp add: hget_def)
  then show ?thesis
    using assms by (auto simp: begin_manage_add_def instant_now_def bindE_def gets_def modify_def ok_def)
qed

lemma add_once_cached:
  assumes "manage_add_once caller i tid args s = (Inr v, s1)"
  shows "\<exists>e. hget (gw_add_cache s1) (add_cache_key caller i) = Some e \<and> ae_completed_success e = Some v"
proof -
  let ?key = "add_cache_key caller i"
  obtain x u where start: "begin_manage_add ?key s = (Inr x, u)"
    and rest: "(case x of Some value \<Rightarrow> ok value | None \<Rightarrow> bindE (attempt (invoke_team_manage_add caller tid args)) (\<lambda>r.
          case r of Inr value \<Rightarrow> bindE (complete_manage_add ?key value) (\<lambda>_. ok value)
          | Inl e \<Rightarrow> bindE (abort_manage_add ?key) (\<lambda>_. err e))) u = (Inr v, s1)"
    using assms by (auto simp: manage_add_once_def Let_def bindE_eq_Inr)
  from begin_cases [OF start] obtain e where e: "hget (gw_add_cache u) ?key = Some e" "ae_completed_success e = x" by blast
  show ?thesis
  proof (cases x)
    case (Some y)
    then show ?thesis using rest e by (simp add: ok_def)
  next
    case None
    obtain r w where add: "invoke_team_manage_add caller tid args u = (r, w)" by fastforce
    then have "hget (gw_add_cache w) ?key = Some e"
      using e add_keeps_gateway [of caller tid args u] more_gateway(2) [of w u] by simp
    then show ?thesis using rest None add
      by (cases r) (auto simp: bindE_attempt complete_manage_add_def abort_manage_add_def instant_now_def bindE_eq_Inr gets_def
          modify_def ok_def err_def hcontains_def)
  qed
qed

text \<open>C20: Adding is not repeated. When a \<open>gg_team_manage\<close> call with an invocation id adds a member, the cache
  holds its answer; and as long as it does and ten minutes have not passed, the same call with the
  same id is given that answer again and nothing happens: sessions, teams, worktrees, the store and
  the processes stay as they are, whatever happened in between.\<close>

theorem repeated_add_is_answered:
  fixes s s1 :: "('p, 'z) gateway_scheme"
  assumes "invoke_team_manage caller invocation args s = (Inr v, s1)"
    and "non_empty_trimmed invocation = Some i" and "\<not> contains_key args ''remove_agent_ids''"
  shows "\<exists>e. hget (gw_add_cache s1) (add_cache_key caller i) = Some e \<and>
    (\<forall>s2 :: ('p, 'z) gateway_scheme. hget (gw_add_cache s2) (add_cache_key caller i) = Some e \<and>
      gw_instant s2 (gw_instant_reads s2) - ae_inserted_at e \<le> 10 * 60 * 1000000000 \<longrightarrow>
      (\<exists>s3. invoke_team_manage caller invocation args s2 = (Inr v, s3) \<and>
        worktrees.truncate s3 = worktrees.truncate s2 \<and> gw_processes s3 = gw_processes s2))"
proof -
  obtain tid where run: "\<And>s :: ('p, 'z) gateway_scheme. invoke_team_manage caller invocation args s = manage_add_once caller i tid args s"
    using assms by (auto simp: invoke_team_manage_def monad_simps split: sum.splits)
  obtain e where e: "hget (gw_add_cache s1) (add_cache_key caller i) = Some e" "ae_completed_success e = Some v"
    using add_once_cached [OF assms(1) [unfolded run]] by blast
  have "\<exists>s3. manage_add_once caller i tid args s2 = (Inr v, s3) \<and> worktrees.truncate s3 = worktrees.truncate s2 \<and>
      gw_processes s3 = gw_processes s2"
    if hit: "hget (gw_add_cache s2) (add_cache_key caller i) = Some e"
      and recent: "gw_instant s2 (gw_instant_reads s2) - ae_inserted_at e \<le> add_cache_ttl" for s2 :: "('p, 'z) gateway_scheme"
  proof -
    obtain c n where "begin_manage_add (add_cache_key caller i) s2 = (Inr (Some v), s2\<lparr>gw_instant_reads := n, gw_add_cache := c\<rparr>)"
      using begin_hit [OF hit e(2) recent] by blast
    then show ?thesis
      by (auto simp: manage_add_once_def Let_def bindE_def [of "begin_manage_add _"] ok_def worktrees.truncate_def)
  qed
  with e(1) run show ?thesis by (auto simp: add_cache_ttl_def)
qed

definition answered_state :: "unit gateway" where
  "answered_state = gate_state\<lparr>gw_add_cache :=
     [(add_cache_key ''a'' ''i'', \<lparr>ae_inserted_at = 0, ae_completed_success = Some JNull\<rparr>)]\<rparr>"

text \<open>A call that finds its answer finds it again.\<close>

theorem repeated_add_is_answered_witness:
  "\<exists>s1. invoke_team_manage ''a'' (Some ''i'') [(''team_id'', JString ''t'')] answered_state = (Inr JNull, s1) \<and>
     (\<exists>s3. invoke_team_manage ''a'' (Some ''i'') [(''team_id'', JString ''t'')] s1 = (Inr JNull, s3) \<and>
       worktrees.truncate s3 = worktrees.truncate s1)"
proof -
  let ?args = "[(''team_id'', JString ''t'')]"
  let ?e = "\<lparr>ae_inserted_at = 0, ae_completed_success = Some JNull\<rparr>"
  define s1 where "s1 = answered_state\<lparr>gw_instant_reads := 1\<rparr>"
  have args: "reject_team_tool_fields ?args [''caller_agent_id'', ''sender'', ''sender_agent_id''] = Inr ()"
    "reject_team_tool_fields_with_message ?args [''agent_id'', ''model'', ''unsubscribe_from_compaction_notifications''] f = Inr ()"
    "required_string_arg ?args ''team_id'' = Inr ''t''" "non_empty_trimmed (Some ''i'') = Some ''i''"
    "\<not> contains_key ?args ''remove_agent_ids''" for f
    by code_simp+
  have clock: "gw_instant answered_state = (\<lambda>n. n)" "gw_instant_reads answered_state = 0"
    "gw_add_cache answered_state = [(add_cache_key ''a'' ''i'', ?e)]"
    by (simp_all add: answered_state_def gate_state_def gateway_new_def worktrees.extend_def)
  have "begin_manage_add (add_cache_key ''a'' ''i'') answered_state = (Inr (Some JNull), s1)"
    by (simp add: begin_manage_add_def instant_now_def bindE_def gets_def modify_def ok_def clock hget_def s1_def)
  then have "manage_add_once ''a'' ''i'' ''t'' ?args answered_state = (Inr JNull, s1)"
    by (simp add: manage_add_once_def Let_def bindE_def [of "begin_manage_add _"] ok_def)
  then have run: "invoke_team_manage ''a'' (Some ''i'') ?args answered_state = (Inr JNull, s1)"
    using args(5) by (simp add: invoke_team_manage_def args(1-4) bindE_lift)
  have "hget (gw_add_cache s1) (add_cache_key ''a'' ''i'') = Some ?e" "gw_instant s1 (gw_instant_reads s1) = 1"
    by (simp_all add: s1_def clock hget_def)
  then show ?thesis using repeated_add_is_answered [OF run args(4,5)] run by auto
qed

end
