(* ===== verification/Server_Theorems.thy ===== *)
theory Server_Theorems
  imports Http_Router Process_Properties Gateway_Theorems
begin

text \<open>
  What the server lets through: a request without the token changes nothing, a GET request leaves the
  database as it is, and a tool call is only run for a session that is still active.
\<close>

section \<open>Methods\<close>

text \<open>The routes \<open>build_router\<close> registers with \<open>get\<close>.\<close>

primrec system_get :: "system_route \<Rightarrow> bool" where
  "system_get Health = True" | "system_get OpenApiYaml = True" | "system_get Version = True" | "system_get Providers = True"
| "system_get (ProviderModels p) = True" | "system_get CodexAuthStatus = True" | "system_get AcpAuthStatus = True"
| "system_get ClaudeAuthStatus = True" | "system_get (ClaudeAuthApiKey k) = False"
| "system_get (ClaudeAuthImportJson j t) = False" | "system_get (ClaudeAuthImportFile fs) = False"
| "system_get ClaudeAuthLogout = False" | "system_get (Events q) = True" | "system_get (EventsStream q) = True"

primrec session_get :: "session_route \<Rightarrow> bool" where
  "session_get (CreateSession i) = False" | "session_get ListSessions = True" | "session_get (GetSession sid) = True"
| "session_get (ResumeSession sid i) = False" | "session_get (CloseSession sid r) = False" | "session_get (SendTurn sid i) = False"
| "session_get (InterruptTurn sid tid) = False" | "session_get (RespondApproval sid aid i) = False"
| "session_get (SessionEvents sid q) = True" | "session_get (SessionEventsStream sid q) = True"

primrec process_get :: "process_route \<Rightarrow> bool" where
  "process_get (StartProcess i) = False" | "process_get (ListProcesses c b) = True" | "process_get (GetProcess pid c) = True"
| "process_get (ProcessLogs pid q) = True" | "process_get (ProcessEvents pid q) = True"
| "process_get (ProcessEventsStream pid q) = True" | "process_get (KillProcess pid i) = False"

primrec worktree_get :: "worktree_route \<Rightarrow> bool" where
  "worktree_get (CreateWorktree i) = False" | "worktree_get ListWorktrees = True" | "worktree_get (GetWorktree w) = True"
| "worktree_get (ClaimWorktree w i) = False" | "worktree_get (ReleaseWorktree w i) = False"
| "worktree_get (CleanupWorktree w r) = False"

primrec team_get :: "team_route \<Rightarrow> bool" where
  "team_get (CreateTeam i) = False" | "team_get ListTeams = True" | "team_get (GetTeam t) = True"
| "team_get (DeleteTeam t) = False" | "team_get (JoinTeam t i) = False" | "team_get (SpawnMember t i) = False"
| "team_get (RemoveMember t a) = False" | "team_get (SetLead t a) = False" | "team_get (SendDirect t i) = False"
| "team_get (ListMessages t c l) = True" | "team_get (SendBroadcast t i) = False" | "team_get (ListDeliveries t m r) = True"
| "team_get (RetryDelivery t d) = False" | "team_get (CancelMessage t m) = False" | "team_get (TeamView t q) = True"
| "team_get (TeamEvents t q) = True" | "team_get (TeamEventsStream t q) = True" | "team_get (InterruptAll t) = False"

primrec mcp_get :: "mcp_route \<Rightarrow> bool" where
  "mcp_get McpCapabilities = True" | "mcp_get (McpInvoke req) = False"

primrec route_get :: "api_route \<Rightarrow> bool" where
  "route_get (System r) = system_get r" | "route_get (Sessions r) = session_get r" | "route_get (Processes r) = process_get r"
| "route_get (Worktrees r) = worktree_get r" | "route_get (Diagnosing r) = True" | "route_get (Teams r) = team_get r"
| "route_get (Mcp r) = mcp_get r"

section \<open>Reading leaves the database alone\<close>

abbreviation keeps_db :: "('z runtime_env_scheme \<Rightarrow> ('e + 'a) \<times> 'z runtime_env_scheme) \<Rightarrow> bool" where
  "keeps_db m \<equiv> (\<forall>d. preserves (\<lambda>s. env_db s = d) m)"

lemma db_store_read [preserves_intros]:
  "(\<And>db x db'. f db = Inr (x, db') \<Longrightarrow> db' = db) \<Longrightarrow> preserves (\<lambda>s. env_db s = d) (store_call f)"
  by (fastforce simp: preserves_def store_call_def Let_def split: option.splits sum.splits)

lemma db_now [preserves_intros]: "preserves (\<lambda>s. env_db s = d) now_ms"
  by (simp add: preserves_def now_ms_def)

lemma db_provider_call [preserves_intros]: "preserves (\<lambda>s. env_db s = d) (provider_call h)"
  by (simp add: preserves_def provider_call_def split: prod.splits)

lemma db_served [preserves_intros]: "preserves (\<lambda>s. env_db s = d) m \<Longrightarrow> preserves (\<lambda>s. env_db s = d) (served m)"
  by (simp add: preserves_def served_def)

lemma db_processes [preserves_intros]:
  "(\<And>d. preserves (\<lambda>s. env_db s = d) m) \<Longrightarrow> preserves (\<lambda>s. env_db s = d) (on_processes m)"
  by (simp add: preserves_def on_processes_def split: prod.splits) (metis env_after(1,2) snd_conv)

lemma db_lookups [preserves_intros]:
  "preserves (\<lambda>s. env_db s = d) (get_session sid)" "preserves (\<lambda>s. env_db s = d) (require_provider k)"
  "preserves (\<lambda>s. env_db s = d) ensure_enabled" "preserves (\<lambda>s. env_db s = d) (team_with_members t)"
  "preserves (\<lambda>s. env_db s = d) ensure_worktrees_enabled" "preserves (\<lambda>s. env_db s = d) hydrate"
  unfolding get_session_def require_provider_def ensure_enabled_def team_with_members_def
    ensure_worktrees_enabled_def hydrate_def
  by (auto intro!: preserves_intros)

lemma db_teams [preserves_intros]:
  "preserves (\<lambda>s. env_db s = d) list_teams" "preserves (\<lambda>s. env_db s = d) (get_team t)"
  "preserves (\<lambda>s. env_db s = d) (list_messages t c l)" "preserves (\<lambda>s. env_db s = d) (get_deliveries t m r)"
  "preserves (\<lambda>s. env_db s = d) (get_view_snapshot vreq)"
  unfolding list_teams_def list_team_step_def get_team_def list_messages_def get_deliveries_def get_view_snapshot_def Let_def
  by (auto intro!: preserves_intros split: option.splits sum.splits prod.splits)

lemma db_replays [preserves_intros]:
  "preserves (\<lambda>s. env_db s = d) (replay_session_events sid a l)" "preserves (\<lambda>s. env_db s = d) (replay_team_events t a l)"
  "preserves (\<lambda>s. env_db s = d) (list_events sc a l)" "preserves (\<lambda>s. env_db s = d) (replay_process_events pid c a l)"
  unfolding replay_session_events_def replay_team_events_def list_events_def replay_process_events_def
    process_from_id_def ensure_ownership_def Let_def
  by (auto intro!: preserves_intros split: sum.splits option.splits)

lemma db_process_reads [preserves_intros]:
  "preserves (\<lambda>s. env_db s = d) (list_processes c b :: ('z process_manager_scheme, runtime_error, process_summary list) rt)"
  "preserves (\<lambda>s. env_db s = d) (get_process pid c)"
  "preserves (\<lambda>s. env_db s = d) (read_process_logs lreq)"
proof -
  have "preserves (\<lambda>s. env_db s = d) (modify (\<lambda>s. s\<lparr>pm_processes := g s\<rparr>))" for g :: "'z process_manager_scheme \<Rightarrow> (string, nat) hmap"
    by (simp add: preserves_def modify_def)
  then show "preserves (\<lambda>s. env_db s = d) (list_processes c b :: ('z process_manager_scheme, runtime_error, process_summary list) rt)"
    unfolding list_processes_def list_process_entries_def cleanup_expired_terminal_def
    by (auto intro!: preserves_intros)
qed (simp_all add: preserves_def read_only)

lemma db_worktrees [preserves_intros]:
  "preserves (\<lambda>s. env_db s = d) list_worktrees" "preserves (\<lambda>s. env_db s = d) (get_worktree w)"
  unfolding list_worktrees_def get_worktree_def by (auto intro!: preserves_intros)

lemma db_diagnostics [preserves_intros]:
  "preserves (\<lambda>s. env_db s = d) provider_diagnostics_internal" "preserves (\<lambda>s. env_db s = d) (diagnostics_from_hydrated_state app)"
  "preserves (\<lambda>s. env_db s = d) (list_team_operation_diagnostics t o')"
  unfolding provider_diagnostics_internal_def provider_diagnostic_def Session_Manager.provider_auth_status_def
    diagnostics_from_hydrated_state_def list_team_operation_diagnostics_def
  by (auto intro!: preserves_intros split: option.splits)

text \<open>The paged loop, whatever the pages are.\<close>

lemma replay_pages_db:
  assumes run: "replay_pages fetch pos limit cursor events s = Some rs"
    and keeps: "\<forall>c d. preserves (\<lambda>s. env_db s = d) (fetch c)"
  shows "env_db (snd rs) = env_db s"
proof -
  have "(\<forall>c d. preserves (\<lambda>s. env_db s = d) (fetch c)) \<longrightarrow> env_db (snd rs) = env_db s"
  proof (rule replay_pages.raw_induct [OF _ run])
    fix f fetch' pos' limit' cursor' events' and s' :: "'a runtime_env_scheme" and rs'
    assume IH: "\<And>fetch pos limit cursor events s rs. f fetch pos limit cursor events s = Some rs \<Longrightarrow>
        (\<forall>c d. preserves (\<lambda>s :: 'a runtime_env_scheme. env_db s = d) (fetch c)) \<longrightarrow> env_db (snd rs) = env_db s"
      and eq: "(case fetch' cursor' s' of (Inl e, s1) \<Rightarrow> Some (Inl e, s1)
        | (Inr page, s1) \<Rightarrow> if page = [] then Some (Inr (cursor', events'), s1)
          else let cursor'' = Some (pos' (last page)); events'' = events' @ page
               in if length page < limit' then Some (Inr (cursor'', events''), s1)
                  else f fetch' pos' limit' cursor'' events'' s1) = Some rs'"
    show "(\<forall>c d. preserves (\<lambda>s. env_db s = d) (fetch' c)) \<longrightarrow> env_db (snd rs') = env_db s'"
    proof
      assume k: "\<forall>c d. preserves (\<lambda>s. env_db s = d) (fetch' c)"
      obtain r s1 where one: "fetch' cursor' s' = (r, s1)" by fastforce
      have "preserves (\<lambda>s. env_db s = env_db s') (fetch' cursor')" using k by simp
      from preservesD [OF this refl one] have same: "env_db s1 = env_db s'" .
      show "env_db (snd rs') = env_db s'"
      proof (cases "\<exists>page. r = Inr page \<and> page \<noteq> [] \<and> \<not> length page < limit'")
        case True
        then obtain page where "r = Inr page" "page \<noteq> []" "\<not> length page < limit'" by blast
        then have "f fetch' pos' limit' (Some (pos' (last page))) (events' @ page) s1 = Some rs'"
          using eq one by (simp add: Let_def)
        from IH [OF this] k same show ?thesis by simp
      next
        case False
        then show ?thesis using eq one same by (cases r) (auto simp: Let_def split: if_splits)
      qed
    qed
  qed
  then show ?thesis using keeps by blast
qed

lemma stream_replay_db:
  assumes "\<And>c l d. preserves (\<lambda>s. env_db s = d) (fetch c l)" and "stream_replay fetch pos to_str hs q s = Some (r, s')"
  shows "env_db s' = env_db s"
  using assms(2) replay_pages_db [of "\<lambda>c. fetch c l" for l] assms(1)
  by (fastforce simp: stream_replay_def Let_def split: sum.splits)

section \<open>Answers\<close>

definition get_keeps_db :: "(('p, 'z) gateway_scheme \<Rightarrow> ('p, 'z) answer) \<Rightarrow> bool" where
  "get_keeps_db h \<longleftrightarrow> (\<forall>s answer s'. h s = Some (answer, s') \<longrightarrow> env_db s' = env_db s)"

lemma reply_db: "(\<And>d. preserves (\<lambda>s. env_db s = d) m) \<Longrightarrow> get_keeps_db (reply body m)"
  unfolding get_keeps_db_def
proof (intro allI impI)
  fix s answer s' assume keeps: "\<And>d. preserves (\<lambda>s. env_db s = d) m" and run: "reply body m s = Some (answer, s')"
  have "env_db (snd (m s)) = env_db s" using keepsD [OF keeps] .
  then show "env_db s' = env_db s" using run by (cases "m s") (auto simp: reply_def split: sum.splits)
qed

lemma reading_db: "get_keeps_db (reading body)"
  by (simp add: get_keeps_db_def reading_def)

lemma waiting_db:
  "(\<And>s r s'. m s = Some (r, s') \<Longrightarrow> env_db s' = env_db s) \<Longrightarrow> get_keeps_db (reply_waiting body m)"
  by (fastforce simp: get_keeps_db_def reply_waiting_def split: option.splits prod.splits sum.splits)

section \<open>Routes\<close>

lemma global_stream_keeps: "replay_global_stream to_str hs q s = Some (r, s') \<Longrightarrow> env_db s' = env_db s"
  unfolding replay_global_stream_def by (rule stream_replay_db [OF db_replays(3)])

lemma session_replay_keeps: "replay_session_stream sid to_str hs q s = Some (r, s') \<Longrightarrow> env_db s' = env_db s"
  unfolding replay_session_stream_def by (rule stream_replay_db [OF db_replays(1)])

lemma process_replay_keeps: "replay_process_stream pid to_str hs q s = Some (r, s') \<Longrightarrow> env_db s' = env_db s"
  unfolding replay_process_stream_def by (rule stream_replay_db [OF db_replays(4)])

lemma keeps_run: "(\<And>d. preserves (\<lambda>s. env_db s = d) m) \<Longrightarrow> m s = (r, s') \<Longrightarrow> env_db s' = env_db s"
  using keepsD [of env_db m s] by simp

lemma team_stream_keeps: "replay_team_stream t to_str hs q s = Some (r, s') \<Longrightarrow> env_db s' = env_db s"
proof -
  assume run: "replay_team_stream t to_str hs q s = Some (r, s')"
  obtain r1 s1 where one: "served (get_team t) s = (r1, s1)" by (cases "served (get_team t) s")
  have first: "env_db s1 = env_db s" by (rule keeps_run [OF db_served [OF db_teams(2)] one])
  show ?thesis
  proof (cases r1)
    case (Inl e)
    then show ?thesis using run one first by (simp add: replay_team_stream_def)
  next
    case (Inr x)
    then have "stream_replay (replay_team_events t) ev_seq to_str hs q s1 = Some (r, s')"
      using run one by (simp add: replay_team_stream_def)
    from stream_replay_db [OF db_replays(2) this] first show ?thesis by simp
  qed
qed

lemma session_stream_keeps: "session_event_stream sid to_str hs q s = Some (r, s') \<Longrightarrow> env_db s' = env_db s"
proof -
  assume run: "session_event_stream sid to_str hs q s = Some (r, s')"
  obtain r1 s1 where one: "open_session_stream sid s = (r1, s1)" by (cases "open_session_stream sid s")
  have "preserves (\<lambda>s. env_db s = d) (open_session_stream sid)" for d
    unfolding open_session_stream_def by (intro preserves_intros)
  from keeps_run [OF this one] have first: "env_db s1 = env_db s" .
  show ?thesis
  proof (cases r1)
    case (Inl e)
    then show ?thesis using run one first by (simp add: session_event_stream_def)
  next
    case (Inr x)
    then have "replay_session_stream sid to_str hs q s1 = Some (r, s')"
      using run one by (simp add: session_event_stream_def)
    from session_replay_keeps [OF this] first show ?thesis by simp
  qed
qed

lemma process_stream_keeps: "process_stream pid to_str hs q s = Some (r, s') \<Longrightarrow> env_db s' = env_db s"
proof -
  assume "process_stream pid to_str hs q s = Some (r, s')"
  then obtain pm where "replay_process_stream pid to_str hs q (with_env s (gw_processes s)) = Some (r, pm)"
      and s': "s' = back_from_processes pm s"
    by (auto simp: process_stream_def)
  from process_replay_keeps [OF this(1)] s' show ?thesis by (simp add: env_after)
qed

lemma streams_db:
  "get_keeps_db (reply_waiting body (replay_global_stream to_str hs q))"
  "get_keeps_db (reply_waiting body (session_event_stream sid to_str hs q))"
  "get_keeps_db (reply_waiting body (process_stream pid to_str hs pq))"
  "get_keeps_db (reply_waiting body (replay_team_stream t to_str hs q))"
  by (rule waiting_db, erule global_stream_keeps session_stream_keeps process_stream_keeps team_stream_keeps)+

lemmas handler_defs =
  list_provider_models_def codex_auth_status_def acp_auth_status_def claude_auth_status_def provider_auth_status_response_def
  Session_Manager.provider_auth_status_def replay_global_events_def get_session_handler_def replay_session_events_handler_def
  list_processes_handler_def get_process_handler_def get_process_logs_def replay_process_events_handler_def
  list_worktrees_handler_def get_worktree_handler_def runtime_diagnostics_handler_def comms_diagnostics_handler_def
  process_diagnostics_handler_def worktree_diagnostics_handler_def recovery_diagnostics_handler_def list_teams_handler_def
  get_team_handler_def list_team_messages_def list_team_deliveries_def get_team_view_snapshot_def replay_team_events_handler_def

lemmas answers = reading_db streams_db reply_db

lemma route_get_db: "route_get r \<Longrightarrow> get_keeps_db (handle app to_str hs r)"
proof (cases r)
  case (System q)
  then show "route_get r \<Longrightarrow> ?thesis"
    by (cases q) (auto simp: handler_defs intro!: answers preserves_intros split: prod.splits)
next
  case (Sessions q)
  then show "route_get r \<Longrightarrow> ?thesis"
    by (cases q) (auto simp: handler_defs intro!: answers preserves_intros split: prod.splits)
next
  case (Processes q)
  then show "route_get r \<Longrightarrow> ?thesis"
    by (cases q) (auto simp: handler_defs intro!: answers preserves_intros split: prod.splits)
next
  case (Worktrees q)
  then show "route_get r \<Longrightarrow> ?thesis"
    by (cases q) (auto simp: handler_defs intro!: answers preserves_intros split: prod.splits)
next
  case (Diagnosing q)
  then show "route_get r \<Longrightarrow> ?thesis"
    by (cases q) (auto simp: handler_defs intro!: answers preserves_intros split: prod.splits)
next
  case (Teams q)
  then show "route_get r \<Longrightarrow> ?thesis"
    by (cases q) (auto simp: handler_defs intro!: answers preserves_intros split: prod.splits)
next
  case (Mcp q)
  then show "route_get r \<Longrightarrow> ?thesis"
    by (cases q) (auto simp: handler_defs intro!: answers preserves_intros split: prod.splits)
qed

section \<open>The guard\<close>

definition authorized :: "app_state \<Rightarrow> (string \<Rightarrow> string option) \<Rightarrow> header_map \<Rightarrow> bool" where
  "authorized app to_str headers \<longleftrightarrow>
     Option.bind (map_of headers ''authorization'') to_str = Some (''Bearer '' @ ast_bearer_token app)"

text \<open>The session of the caller is there and neither closed nor failed.\<close>

definition active_caller :: "('p, 'z) manager_scheme \<Rightarrow> string \<Rightarrow> bool" where
  "active_caller s caller \<longleftrightarrow>
     (\<exists>session. hget (mg_sessions s) caller = Some session \<and> sess_status session \<notin> {''closed'', ''failed''})"

lemma mcp_admit_run:
  "mcp_admit req s = (Inr caller, s') \<Longrightarrow> s' = s \<and> caller = trim (mir_caller_agent_id req) \<and> active_caller s caller"
  "mcp_admit req s = (Inl e, s') \<Longrightarrow> s' = s"
  by (auto simp: mcp_admit_def get_session_def served_def bindE_def gets_def ok_or_else_def ok_def err_def active_caller_def
      Let_def split: if_splits option.splits prod.splits sum.splits)

lemma mcp_changes: "mcp_invoke req s = Some (r, s') \<Longrightarrow> s' \<noteq> s \<Longrightarrow> active_caller s (trim (mir_caller_agent_id req))"
  using mcp_admit_run by (fastforce simp: mcp_invoke_def split: prod.splits sum.splits)

text \<open>C11: The server only does what the token, the method and the caller allow. Whatever request is served,
  with any headers and against any state: the state changes only for a request under \<open>/v1\<close> whose
  \<open>Authorization\<close> header is \<open>Bearer\<close> and the configured token; without it every route under \<open>/v1\<close> is
  answered with 401 and changes nothing; no route registered with \<open>get\<close>, streams and diagnostics
  included, changes the database; and a tool call only has an effect if its caller is a known session
  that is neither closed nor failed.\<close>

theorem server_is_guarded:
  assumes run: "serve app to_str headers path s = Some (answer, s')"
  shows "(s' \<noteq> s \<longrightarrow> (\<exists>route. path = V1 route) \<and> authorized app to_str headers) \<and>
    (\<forall>route. path = V1 route \<longrightarrow> \<not> authorized app to_str headers \<longrightarrow> s' = s \<and> fst answer = 401) \<and>
    (env_db s' \<noteq> env_db s \<longrightarrow> (\<exists>route. path = V1 route \<and> \<not> route_get route)) \<and>
    (\<forall>req. path = V1 (Mcp (McpInvoke req)) \<longrightarrow> s' \<noteq> s \<longrightarrow> active_caller s (trim (mir_caller_agent_id req)))"
proof (cases path)
  case (V1 route)
  show ?thesis
  proof (cases "authorized app to_str headers")
    case False
    then have "s' = s \<and> fst answer = 401"
      using run V1 by (auto simp: serve_def bearer_auth_def authorized_def unauthorized_def Let_def)
    then show ?thesis using V1 by auto
  next
    case True
    then have h: "handle app to_str headers route s = Some (answer, s')"
      using run V1 by (simp add: serve_def bearer_auth_def authorized_def Let_def)
    have "env_db s' = env_db s" if "route_get route"
      using route_get_db [OF that] h unfolding get_keeps_db_def by blast
    moreover have "active_caller s (trim (mir_caller_agent_id req))" if "route = Mcp (McpInvoke req)" "s' \<noteq> s" for req
    proof -
      have "reply_waiting BJson (mcp_invoke req) s = Some (answer, s')" using h by (simp add: that(1))
      then obtain r where "mcp_invoke req s = Some (r, s')"
        by (auto simp: reply_waiting_def split: option.splits prod.splits sum.splits)
      then show ?thesis using mcp_changes that(2) by blast
    qed
    ultimately show ?thesis using V1 True by auto
  qed
qed (use run in \<open>auto simp: serve_def reading_def\<close>)

definition guard_app :: app_state where
  "guard_app = \<lparr>ast_bearer_token = ''k'', ast_public_base_url = ''u'',
     ast_startup_recovery = \<lparr>rs_started_at = 0, rs_completed_at = 0, rs_sessions_scanned = 0, rs_turns_scanned = 0,
       rs_approvals_scanned = 0, rs_sessions_reconciled = 0, rs_turns_reconciled = 0, rs_approvals_reconciled = 0,
       rs_resumed_sessions = 0, rs_resumed_waits = 0, rs_deferred_deliveries_retried = 0, rs_provider_status = [], rs_notes = []\<rparr>\<rparr>"

lemma guard_removes:
  "case serve guard_app Some [(''authorization'', ''Bearer k'')] (V1 (Teams (RemoveMember ''t'' ''s1''))) gate_state of None \<Rightarrow> False
   | Some (answer, s') \<Rightarrow> fst answer = 200 \<and> map_option length (hget (tc_members s') ''t'') = Some 1"
  by code_simp

theorem server_is_guarded_witness:
  "\<exists>answer s'. serve guard_app Some [(''authorization'', ''Bearer k'')] (V1 (Teams (RemoveMember ''t'' ''s1''))) gate_state =
     Some (answer, s') \<and> s' \<noteq> gate_state \<and> authorized guard_app Some [(''authorization'', ''Bearer k'')]"
proof -
  obtain answer s' where
      run: "serve guard_app Some [(''authorization'', ''Bearer k'')] (V1 (Teams (RemoveMember ''t'' ''s1''))) gate_state = Some (answer, s')"
      and one: "map_option length (hget (tc_members s') ''t'') = Some 1"
    using guard_removes by (auto split: option.splits prod.splits)
  have "map_option length (hget (tc_members gate_state) ''t'') = Some 2"
    by (simp add: gate_state_def gateway_new_def worktrees_empty_def worktrees.extend_def comms.extend_def sample_comms_eval)
  with one have "s' \<noteq> gate_state" by auto
  with server_is_guarded [OF run] run show ?thesis by blast
qed

end
