(* ===== verification/Spec2Isabelle.thy ===== *)
theory Spec2Isabelle
  imports Turn_Properties Team_Effects Team_Reading Process_Theorems Worktree_Theorems Spawn_Rollback
    Event_Feed Server_Theorems
begin

text \<open>
  Verification of the gooselake runtime.

  \<^bold>\<open>The program.\<close> Gooselake runs coding agents. A \<^emph>\<open>session\<close> is one agent conversation with a provider
  (Codex, Claude or an ACP agent); a \<^emph>\<open>turn\<close> is one input to it. Sessions form \<^emph>\<open>teams\<close> that send each
  other messages, work in git \<^emph>\<open>worktrees\<close> and run \<^emph>\<open>processes\<close>. All state is written to an SQLite
  database and rebuilt from it at a start. An agent reaches the services through the \<^emph>\<open>tool gateway\<close>, a
  user through an HTTP server. The crates are \<open>runtime-core\<close> (sessions, turns, teams, the assembled
  application), \<open>runtime-store-sqlite\<close>, \<open>runtime-tools\<close> (processes, worktrees, gateway),
  \<open>runtime-server\<close> and one crate per provider.

  \<^bold>\<open>How it is modelled.\<close> A handler is a function of type \<open>('s, 'e, 'a) rt\<close>: from a state to an error or a
  result, and the state after, with every effect in the order of the source; \<open>?\<close> is \<open>bindE\<close>,
  \<open>let _ = ..\<close> is \<open>ignore\<close>, a \<open>match\<close> on the result of a call is \<open>attempt\<close>. The state is one record that grows
  with the services: \<open>runtime_env\<close> (database, store faults, clock), \<open>manager\<close> (sessions and turns), \<open>comms\<close>
  (teams), \<open>worktrees\<close>, \<open>gateway\<close>; so an operation of one service runs unchanged on the state of a larger
  one. The process manager shares only the environment and is lifted by \<open>on_processes\<close>.
  What the program does not decide is arbitrary: the clock is any sequence of times, \<open>env_faults\<close>
  says which store calls fail, a provider is a record of functions on a state of its own, git and the
  file system answer the n-th question as \<open>os_exec\<close>, \<open>os_exists\<close> and \<open>os_mkdir\<close> say (\<open>os_log\<close> records the
  questions), child processes behave as the arguments of the lifecycle steps say.
  Handlers run one after the other: they hold the service's lock over each change, so mutexes carry
  no state. Work the program hands to a task (\<open>tokio::spawn\<close>) is kept in the state and run by a step of its
  own: waiters of turns, the listener of the team service, the lifecycle of a process.
  Strings are UTF-8 byte lists; counters are 64 bit words and wrap; JSON objects are sorted by key.

  \<^bold>\<open>The theories\<close> and the sources they model:
  \<^item> \<open>Prelude\<close> (the monad, \<open>preserves\<close> and \<open>ensures\<close> with their rules, hash maps as association lists),
    \<open>Text\<close> and \<open>Text_Streams\<close> (trimming, decimal numbers, UTF-8).
  \<^item> \<open>Runtime_Types\<close>: \<open>runtime-core/src/error.rs\<close>, \<open>state.rs\<close>, \<open>provider.rs\<close>; JSON.
  \<^item> \<open>Sqlite_Store\<close>: \<open>runtime-store-sqlite/src\<close>. A table is a list of rows in rowid order; upserts, keys, the event
    log and hydration. The locales \<open>upsert_table\<close> and \<open>logical_table\<close> state what an upsert promises and
    are interpreted on each table.
  \<^item> \<open>Session_Manager\<close>, \<open>Turns\<close>, \<open>Recovery\<close>: \<open>runtime-core/src/runtime\<close>, \<open>provider_registry.rs\<close>. \<open>Durability\<close>, \<open>Manager_Safety\<close>,
    \<open>Turn_Links\<close> prove that maps and tables agree and that active turns are live; \<open>Manager_Properties\<close>,
    \<open>Turn_Properties\<close> and the end of \<open>Recovery\<close> hold the properties.
  \<^item> \<open>Team_State\<close>, \<open>Team_Delivery\<close>, \<open>Team_Service\<close>: \<open>runtime-core/src/team_comms\<close>, \<open>services.rs\<close>. \<open>Team_Frame\<close>, \<open>Team_Invariant\<close>,
    \<open>Team_Steps\<close>, \<open>Team_Membership\<close>, \<open>Team_Creation\<close>, \<open>Team_Deletion\<close> prove the invariant \<open>comms_ok\<close> and that every step is a path of
    the abstract status machine; properties are in \<open>Team_Properties\<close>, \<open>Delivery_Properties\<close>,
    \<open>Message_Properties\<close>, \<open>Team_Effects\<close>, \<open>Team_Reading\<close>.
  \<^item> \<open>Process_Manager\<close>: \<open>runtime-tools/src/process.rs\<close>, \<open>lib.rs\<close>, over a heap of shared process objects;
    \<open>Process_Properties\<close> (invariant) and \<open>Process_Theorems\<close>.
  \<^item> \<open>Worktree_State\<close>, \<open>Worktree_Repair\<close>, \<open>Worktree_Service\<close>, \<open>Worktree_Spawn\<close>: \<open>runtime-tools/src/worktree\<close>. \<open>Worktree_Frame\<close> says what the
    other services leave alone; \<open>Worktree_Claims\<close> has the step relation and the locale \<open>releasing\<close>, which
    carries any invariant that releasing a claim and asking harmless questions keeps through all
    handlers, interpreted once for the claims and once in \<open>Worktree_Deletion\<close> for the deletions;
    \<open>Worktree_Settling\<close> treats the repair at a start. Properties: \<open>Worktree_Theorems\<close>, \<open>Spawn_Rollback\<close> (with its frame
    \<open>Spawn_Frame\<close>).
  \<^item> \<open>Gateway_Args\<close>, \<open>Gateway\<close>: \<open>runtime-tools/src/gateway\<close>; \<open>Gateway_Frame\<close> and \<open>Gateway_Theorems\<close>.
  \<^item> \<open>Runtime_App\<close>: \<open>runtime-core/src/app.rs\<close>.
  \<^item> \<open>Server_Config\<close>: \<open>runtime-server/src/config.rs\<close> and the command line of \<open>main.rs\<close>, over a host with files and faults.
  \<^item> \<open>Http_Shared\<close>, \<open>Http_Events\<close>, \<open>Http_Handlers\<close>, \<open>Http_Diagnostics\<close>, \<open>Http_Router\<close>: \<open>runtime-server/src/http\<close> (errors and the
    bearer guard; replay and streams; the handlers; diagnostics; all routes of \<open>mod.rs\<close>). A request is its
    route with the inputs axum extracts from it, its headers and their decoding. \<open>Event_Feed\<close> proves with the
    locale \<open>event_keeping\<close> that what the services broadcast is what the log holds; \<open>Server_Theorems\<close> treats
    the guard, the GET routes and tool calls.

  \<^bold>\<open>What is shown.\<close> Store: writes keep primary, logical and foreign keys; events of a scope are
  numbered without gaps and replayed in order. Sessions: memory and store agree in every reachable state,
  a restart rebuilds the same answers, startup recovery leaves nothing pending, a session has at most one
  turn in flight, a finished turn never changes, an approval is answered once. Teams: leads
  are members, deliveries are queued once and follow the status machine, in order; broadcasts, cancelling,
  deletion, paging and idempotent sending do exactly what they promise. Processes: concurrency and
  capture limits hold, ends are recorded by cause, foreign processes are hidden. Worktrees: a session
  holds at most one, and only unclaimed or just created ones are deleted. Spawning, which runs
  through all services, leaves the teams untouched when it fails. Gateway: only the entitled change a
  team, and a repeated add is answered from the cache. Server: the bearer token survives a restart, an
  event stream sends every event of its session once and in order, and only an authorized request
  with a writing method changes anything.

  \<^bold>\<open>Bounds and fuel.\<close> Loops are structural recursion or have a termination proof. The search for an unused
  identifier (\<open>next_free_id\<close>) has the number of identifiers in use as fuel, which is shown to be enough;
  following \<open>next_cursor\<close> (\<open>read_pages\<close>) has one round per message. The paging loop of a stream
  (\<open>replay_pages\<close>) is a partial function, shown to return. \<open>run_process\<close> and
  the tool call around it return \<open>None\<close> while no permit is free.

  \<^bold>\<open>Not modelled.\<close> The provider crates drive external programs over pipes; they appear as the abstract provider.
  \<open>bootstrap.rs\<close> opens the database and starts the services in the order \<open>Runtime_App\<close> has; the
  MCP sidecar and the TypeScript bridge are separate programs. \<open>gateway/stubs.rs\<close> holds services that only
  return an error, for tests. SQL text, file formats of logs and the content of OpenAPI are outside.
\<close>

end
